(* ===== verification/Prelude.thy ===== *)
theory Prelude
  imports Complex_Main "HOL-Library.AList" "HOL-Library.Char_ord"
    "HOL-Library.List_Lexorder" "HOL-Library.Product_Lexorder"
begin

text \<open>
  Shared vocabulary of the development.

  \<^item> \<^emph>\<open>Fallible code\<close>: a Python function that raises is a function into
    \<open>'e + 'a\<close>, with \<open>Inl\<close> for the raised error. \<open>rbind\<close> sequences two such
    computations, \<open>raise_if\<close> is a guarded \<^verbatim>\<open>raise\<close>, \<open>rmap\<close> and \<open>rfold\<close>
    are loops whose body may raise.
  \<^item> \<^emph>\<open>Effects\<close>: a call that may change the outside world (a callback, a clock, a
    file system) is a function \<open>'w \<Rightarrow> ('e + 'a) \<times> 'w\<close> of the world it runs in.
  \<^item> \<^emph>\<open>Strings\<close>: Python's \<^verbatim>\<open>str\<close> methods on \<open>string\<close>, over the ASCII range
    (\<^verbatim>\<open>strip\<close>, \<^verbatim>\<open>lower\<close>, \<^verbatim>\<open>join\<close>, \<^verbatim>\<open>split\<close>, substring tests).
  \<^item> \<^emph>\<open>Dictionaries\<close>: association lists in insertion order; \<open>AList.update\<close> is
    item assignment and \<open>map_of\<close> is \<^verbatim>\<open>get\<close>.
  \<^item> \<^emph>\<open>Dynamic values\<close>: \<open>pyval\<close> is what a \<^verbatim>\<open>Mapping[str, Any]\<close> holds.
\<close>

named_theorems result_simps \<open>characterisations of computations that may raise\<close>
named_theorems io_simps \<open>characterisations of computations over a world\<close>
named_theorems string_defs \<open>unfolding of the string methods, for evaluation\<close>

section \<open>Computations that may raise\<close>

definition rbind :: "'e + 'a \<Rightarrow> ('a \<Rightarrow> 'e + 'b) \<Rightarrow> 'e + 'b" where
  "rbind m f = (case m of Inl e \<Rightarrow> Inl e | Inr x \<Rightarrow> f x)"

definition raise_if :: "bool \<Rightarrow> 'e \<Rightarrow> 'e + unit" where
  "raise_if b e = (if b then Inl e else Inr ())"

fun rmap :: "('a \<Rightarrow> 'e + 'b) \<Rightarrow> 'a list \<Rightarrow> 'e + 'b list" where
  "rmap f [] = Inr []"
| "rmap f (x # xs) = rbind (f x) (\<lambda>y. rbind (rmap f xs) (\<lambda>ys. Inr (y # ys)))"

fun rfold :: "('s \<Rightarrow> 'a \<Rightarrow> 'e + 's) \<Rightarrow> 's \<Rightarrow> 'a list \<Rightarrow> 'e + 's" where
  "rfold f s [] = Inr s"
| "rfold f s (x # xs) = rbind (f s x) (\<lambda>s'. rfold f s' xs)"

definition map_error :: "('e \<Rightarrow> 'f) \<Rightarrow> 'e + 'a \<Rightarrow> 'f + 'a" where
  "map_error g m = (case m of Inl e \<Rightarrow> Inl (g e) | Inr x \<Rightarrow> Inr x)"

lemma rbind_simps [simp]: "rbind (Inl e) f = Inl e" "rbind (Inr x) f = f x"
  by (simp_all add: rbind_def)

lemma rbind_eq_Inr [result_simps]:
  "rbind m f = Inr y \<longleftrightarrow> (\<exists>x. m = Inr x \<and> f x = Inr y)"
  by (cases m) auto

lemma rbind_eq_Inl [result_simps]:
  "rbind m f = Inl e \<longleftrightarrow> m = Inl e \<or> (\<exists>x. m = Inr x \<and> f x = Inl e)"
  by (cases m) auto

lemma rbind_cong [fundef_cong]:
  "m = m' \<Longrightarrow> (\<And>x. m' = Inr x \<Longrightarrow> f x = g x) \<Longrightarrow> rbind m f = rbind m' g"
  by (cases m') auto

lemma rbind_Inr_right [simp]: "rbind m Inr = m"
  by (cases m) auto

lemma rbind_assoc: "rbind (rbind m f) g = rbind m (\<lambda>x. rbind (f x) g)"
  by (cases m) auto

lemma raise_if_eq_Inr [result_simps]: "raise_if b e = Inr u \<longleftrightarrow> \<not> b"
  by (simp add: raise_if_def)

lemma raise_if_eq_Inl [result_simps]: "raise_if b e = Inl e' \<longleftrightarrow> b \<and> e' = e"
  by (auto simp: raise_if_def)

lemma raise_if_simps [simp]: "raise_if True e = Inl e" "raise_if False e = Inr ()"
  by (simp_all add: raise_if_def)

lemma map_error_eq [result_simps]:
  "map_error g m = Inr x \<longleftrightarrow> m = Inr x"
  "map_error g m = Inl f \<longleftrightarrow> (\<exists>e. m = Inl e \<and> f = g e)"
  by (auto simp: map_error_def split: sum.splits)

lemma map_error_simps [simp]: "map_error g (Inr x) = Inr x" "map_error g (Inl e) = Inl (g e)"
  by (simp_all add: map_error_def)

lemma not_Inl_obtains_Inr: "(\<And>e. m \<noteq> Inl e) \<Longrightarrow> \<exists>x. m = Inr x"
  by (cases m) auto

lemma rmap_eq_Inr: "rmap f xs = Inr ys \<longleftrightarrow> list_all2 (\<lambda>x y. f x = Inr y) xs ys"
  by (induction xs arbitrary: ys) (auto simp: result_simps list_all2_Cons1)

lemma rmap_total: "(\<And>x. x \<in> set xs \<Longrightarrow> f x = Inr (g x)) \<Longrightarrow> rmap f xs = Inr (map g xs)"
  by (induction xs) auto

lemma rmap_Inr_length: "rmap f xs = Inr ys \<Longrightarrow> length ys = length xs"
  by (auto simp: rmap_eq_Inr dest: list_all2_lengthD)

lemma rfold_append: "rfold f s (xs @ ys) = rbind (rfold f s xs) (\<lambda>s'. rfold f s' ys)"
  by (induction xs arbitrary: s) (auto simp: rbind_assoc)

text \<open>A loop invariant: what every successful iteration keeps holds of the final state.\<close>

lemma rfold_invariant:
  assumes "rfold f s xs = Inr s'" and "P s"
    and "\<And>t x t'. x \<in> set xs \<Longrightarrow> P t \<Longrightarrow> f t x = Inr t' \<Longrightarrow> P t'"
  shows "P s'"
  using assms
proof (induction xs arbitrary: s)
  case Nil
  then show ?case by simp
next
  case (Cons x xs)
  then obtain t where t: "f s x = Inr t" "rfold f t xs = Inr s'"
    by (auto simp: result_simps)
  with Cons.prems have "P t" by (metis list.set_intros(1))
  with t(2) show ?case using Cons.IH Cons.prems(3) by (metis list.set_intros(2))
qed

section \<open>Computations over a world\<close>

type_synonym ('w, 'e, 'a) io = "'w \<Rightarrow> ('e + 'a) \<times> 'w"

definition io_return :: "'a \<Rightarrow> ('w, 'e, 'a) io" where
  "io_return x w = (Inr x, w)"

definition io_raise :: "'e \<Rightarrow> ('w, 'e, 'a) io" where
  "io_raise e w = (Inl e, w)"

definition io_bind :: "('w, 'e, 'a) io \<Rightarrow> ('a \<Rightarrow> ('w, 'e, 'b) io) \<Rightarrow> ('w, 'e, 'b) io" where
  "io_bind m f w = (case m w of (Inl e, w') \<Rightarrow> (Inl e, w') | (Inr x, w') \<Rightarrow> f x w')"

definition io_lift :: "'e + 'a \<Rightarrow> ('w, 'e, 'a) io" where
  "io_lift r w = (r, w)"

text \<open>\<open>io_catch m h\<close> is \<^verbatim>\<open>try: m except Exception as e: h(e)\<close>; the effects of \<open>m\<close> stay.\<close>

definition io_catch :: "('w, 'e, 'a) io \<Rightarrow> ('e \<Rightarrow> ('w, 'f, 'a) io) \<Rightarrow> ('w, 'f, 'a) io" where
  "io_catch m h w = (case m w of (Inl e, w') \<Rightarrow> h e w' | (Inr x, w') \<Rightarrow> (Inr x, w'))"

lemma io_apply [simp]:
  "io_return x w = (Inr x, w)" "io_raise e w = (Inl e, w)" "io_lift r w = (r, w)"
  by (simp_all add: io_return_def io_raise_def io_lift_def)

lemma io_bind_simps [simp]:
  "m w = (Inl e, w') \<Longrightarrow> io_bind m f w = (Inl e, w')"
  "m w = (Inr x, w') \<Longrightarrow> io_bind m f w = f x w'"
  by (simp_all add: io_bind_def)

lemma io_bind_eq [io_simps]:
  "io_bind m f w = (r, w2) \<longleftrightarrow>
     (\<exists>e. m w = (Inl e, w2) \<and> r = Inl e) \<or> (\<exists>x w1. m w = (Inr x, w1) \<and> f x w1 = (r, w2))"
  by (cases "m w"; cases "fst (m w)") (auto simp: io_bind_def)

lemma io_catch_eq [io_simps]:
  "io_catch m h w = (r, w2) \<longleftrightarrow>
     (\<exists>x. m w = (Inr x, w2) \<and> r = Inr x) \<or> (\<exists>e w1. m w = (Inl e, w1) \<and> h e w1 = (r, w2))"
  by (cases "m w"; cases "fst (m w)") (auto simp: io_catch_def)

lemma io_catch_simps [simp]:
  "m w = (Inl e, w') \<Longrightarrow> io_catch m h w = h e w'"
  "m w = (Inr x, w') \<Longrightarrow> io_catch m h w = (Inr x, w')"
  by (simp_all add: io_catch_def)

section \<open>Strings\<close>

definition is_space :: "char \<Rightarrow> bool" where
  [string_defs]: "is_space c \<longleftrightarrow>
     (let n = (of_char c :: nat) in 9 \<le> n \<and> n \<le> 13 \<or> 28 \<le> n \<and> n \<le> 32)"

definition is_digit_char :: "char \<Rightarrow> bool" where
  [string_defs]: "is_digit_char c \<longleftrightarrow> (let n = (of_char c :: nat) in 48 \<le> n \<and> n \<le> 57)"

definition is_upper_char :: "char \<Rightarrow> bool" where
  [string_defs]: "is_upper_char c \<longleftrightarrow> (let n = (of_char c :: nat) in 65 \<le> n \<and> n \<le> 90)"

definition is_lower_char :: "char \<Rightarrow> bool" where
  [string_defs]: "is_lower_char c \<longleftrightarrow> (let n = (of_char c :: nat) in 97 \<le> n \<and> n \<le> 122)"

definition is_word_char :: "char \<Rightarrow> bool" where
  [string_defs]: "is_word_char c \<longleftrightarrow>
     is_upper_char c \<or> is_lower_char c \<or> is_digit_char c \<or> c = CHR ''_''"

definition lower_char :: "char \<Rightarrow> char" where
  [string_defs]: "lower_char c = (if is_upper_char c then char_of ((of_char c :: nat) + 32) else c)"

definition str_lower :: "string \<Rightarrow> string" where
  [string_defs]: "str_lower s = map lower_char s"

definition lstrip :: "string \<Rightarrow> string" where
  [string_defs]: "lstrip s = dropWhile is_space s"

definition rstrip :: "string \<Rightarrow> string" where
  [string_defs]: "rstrip s = rev (dropWhile is_space (rev s))"

definition strip :: "string \<Rightarrow> string" where
  [string_defs]: "strip s = rstrip (lstrip s)"

text \<open>\<^verbatim>\<open>str.isspace\<close> is false on the empty string.\<close>

definition str_isspace :: "string \<Rightarrow> bool" where
  [string_defs]: "str_isspace s \<longleftrightarrow> s \<noteq> [] \<and> list_all is_space s"

definition starts_with :: "string \<Rightarrow> string \<Rightarrow> bool" where
  [string_defs]: "starts_with p s \<longleftrightarrow> take (length p) s = p"

fun has_substring :: "string \<Rightarrow> string \<Rightarrow> bool" where
  "has_substring p [] = (p = [])"
| "has_substring p (c # s) = (starts_with p (c # s) \<or> has_substring p s)"

fun str_join :: "string \<Rightarrow> string list \<Rightarrow> string" where
  "str_join sep [] = []"
| "str_join sep [t] = t"
| "str_join sep (t # u # ts) = t @ sep @ str_join sep (u # ts)"

text \<open>\<^verbatim>\<open>s.split(c)\<close> for a one-character separator.\<close>

fun split_char :: "char \<Rightarrow> string \<Rightarrow> string list" where
  "split_char c [] = [ [] ]"
| "split_char c (x # s) =
     (if x = c then [] # split_char c s
      else case split_char c s of [] \<Rightarrow> [ [x] ] | t # ts \<Rightarrow> (x # t) # ts)"

definition replace_char :: "char \<Rightarrow> char \<Rightarrow> string \<Rightarrow> string" where
  [string_defs]: "replace_char a b s = map (\<lambda>c. if c = a then b else c) s"

fun nat_digits :: "nat \<Rightarrow> string" where
  "nat_digits n =
     (if n < 10 then [char_of (48 + n)] else nat_digits (n div 10) @ [char_of (48 + n mod 10)])"

declare nat_digits.simps [simp del]

definition int_str :: "int \<Rightarrow> string" where
  "int_str i = (if i < 0 then ''-'' @ nat_digits (nat (- i)) else nat_digits (nat i))"

subsection \<open>Laws of the string methods\<close>

lemma dropWhile_idem_rev:
  "s \<noteq> [] \<Longrightarrow> \<not> P (hd s) \<Longrightarrow> dropWhile P s = s"
  by (cases s) auto

lemma hd_dropWhile_rev_dropWhile:
  assumes "dropWhile P s \<noteq> []"
  shows "dropWhile P (rev (dropWhile P s)) \<noteq> []"
proof -
  have "\<not> P (hd (dropWhile P s))" using assms by (rule hd_dropWhile)
  moreover have "hd (dropWhile P s) \<in> set (dropWhile P s)" using assms by simp
  ultimately show ?thesis by (auto simp: dropWhile_eq_Nil_conv)
qed

lemma strip_eq_Nil_iff: "strip s = [] \<longleftrightarrow> list_all is_space s"
proof -
  have r: "rstrip t = [] \<longleftrightarrow> list_all is_space t" for t
    by (auto simp: rstrip_def list_all_iff dropWhile_eq_Nil_conv)
  have l: "list_all is_space (dropWhile is_space s) \<longleftrightarrow> list_all is_space s"
    by (induction s) (auto split: if_splits)
  show ?thesis by (simp only: strip_def lstrip_def r l)
qed

lemma strip_Nil [simp]: "strip [] = []"
  by (simp add: strip_def lstrip_def rstrip_def)

lemma rstrip_hd: "rstrip t \<noteq> [] \<Longrightarrow> hd (rstrip t) = hd t"
proof -
  assume "rstrip t \<noteq> []"
  moreover have "t = rstrip t @ rev (takeWhile is_space (rev t))"
    by (metis rev_append rev_rev_ident rstrip_def takeWhile_dropWhile_id)
  ultimately show ?thesis by (metis hd_append2)
qed

lemma strip_hd: "strip s \<noteq> [] \<Longrightarrow> \<not> is_space (hd (strip s))"
proof -
  assume a: "strip s \<noteq> []"
  then have "lstrip s \<noteq> []" by (auto simp: strip_def rstrip_def)
  then show ?thesis
    using a rstrip_hd [of "lstrip s"] hd_dropWhile [of is_space s]
    by (auto simp: strip_def lstrip_def)
qed

lemma strip_last: "strip s \<noteq> [] \<Longrightarrow> \<not> is_space (last (strip s))"
  using hd_dropWhile [of is_space "rev (lstrip s)"]
  by (auto simp: strip_def rstrip_def last_rev)

lemma strip_no_outer_space:
  "s \<noteq> [] \<Longrightarrow> \<not> is_space (hd s) \<Longrightarrow> \<not> is_space (last s) \<Longrightarrow> strip s = s"
  by (simp add: strip_def lstrip_def rstrip_def dropWhile_idem_rev hd_rev)

lemma strip_strip [simp]: "strip (strip s) = strip s"
  by (cases "strip s = []") (simp_all add: strip_no_outer_space strip_hd strip_last)

lemma set_strip: "set (strip s) \<subseteq> set s"
  by (auto simp: strip_def lstrip_def rstrip_def dest!: set_dropWhileD)

lemma strip_no_space: "list_all (\<lambda>c. \<not> is_space c) s \<Longrightarrow> strip s = s"
proof (cases s)
  case (Cons c t)
  assume "list_all (\<lambda>c. \<not> is_space c) s"
  moreover have "last s \<in> set s" using Cons by simp
  ultimately show ?thesis using Cons by (intro strip_no_outer_space) (auto simp: list_all_iff)
qed simp

lemma of_char_lower_char: "is_upper_char c \<Longrightarrow> of_char (lower_char c) = (of_char c + 32 :: nat)"
  by (auto simp: lower_char_def is_upper_char_def Let_def)

lemma lower_char_not_upper: "\<not> is_upper_char (lower_char c)"
proof (cases "is_upper_char c")
  case True
  then have "65 \<le> (of_char c :: nat)" by (simp add: is_upper_char_def Let_def)
  then show ?thesis using of_char_lower_char [OF True] by (simp add: is_upper_char_def)
qed (simp add: lower_char_def)

lemma str_lower_idem [simp]: "str_lower (str_lower s) = str_lower s"
  by (simp add: str_lower_def) (simp add: lower_char_def [of "lower_char _"] lower_char_not_upper)

lemma str_lower_eq_Nil [simp]: "str_lower s = [] \<longleftrightarrow> s = []"
  by (simp add: str_lower_def)

lemma length_str_lower [simp]: "length (str_lower s) = length s"
  by (simp add: str_lower_def)

lemma is_space_lower_char [simp]: "is_space (lower_char c) = is_space c"
proof (cases "is_upper_char c")
  case True
  then show ?thesis
    using of_char_lower_char [OF True] by (auto simp: is_space_def is_upper_char_def Let_def)
qed (simp add: lower_char_def)

lemma str_lower_strip: "str_lower (strip s) = strip (str_lower s)"
proof -
  have "(\<lambda>c. is_space (lower_char c)) = is_space" by (rule ext) simp
  then show ?thesis
    by (simp add: str_lower_def strip_def lstrip_def rstrip_def dropWhile_map rev_map comp_def)
qed

lemma starts_with_iff: "starts_with p s \<longleftrightarrow> (\<exists>t. s = p @ t)"
  by (metis append_eq_conv_conj starts_with_def)

lemma has_substring_iff: "has_substring p s \<longleftrightarrow> (\<exists>a b. s = a @ p @ b)"
proof (induction s)
  case Nil
  then show ?case by auto
next
  case (Cons c s)
  have "(\<exists>a b. c # s = a @ p @ b) \<longleftrightarrow> (\<exists>b. c # s = p @ b) \<or> (\<exists>a b. s = a @ p @ b)"
    by (metis append_Cons append_Nil list.exhaust list.inject)
  then show ?case by (simp add: Cons.IH starts_with_iff)
qed

lemma has_substring_around: "has_substring p s \<Longrightarrow> has_substring p (a @ s @ b)"
  unfolding has_substring_iff by (metis append.assoc)

lemma has_substring_needs: "c \<in> set p \<Longrightarrow> c \<notin> set s \<Longrightarrow> \<not> has_substring p s"
  by (auto simp: has_substring_iff)

text \<open>A pattern does not reach across a character it does not contain.\<close>

lemma has_substring_split:
  assumes "c \<notin> set p"
  shows "has_substring p (a @ c # b) \<longleftrightarrow> has_substring p a \<or> has_substring p b"
proof
  assume "has_substring p (a @ c # b)"
  then obtain u v where e: "a @ c # b = u @ p @ v" by (auto simp: has_substring_iff)
  from e have "a @ (c # b) = (u @ p) @ v" by simp
  then obtain us where "a = (u @ p) @ us \<or> u @ p = a @ us \<and> us @ v = c # b"
    by (metis append_eq_append_conv2)
  then consider us where "a = (u @ p) @ us" | us where "u @ p = a @ us" "us @ v = c # b" "us \<noteq> []"
    by (cases "us = []") auto
  then show "has_substring p a \<or> has_substring p b"
  proof cases
    case 1
    then have "a = u @ p @ us" by simp
    then show ?thesis unfolding has_substring_iff by blast
  next
    case (2 us)
    then obtain ws where ws: "u @ p = a @ c # ws" "b = ws @ v" by (cases us) auto
    then obtain xs where "ws = xs @ p" using assms
      by (auto simp: append_eq_append_conv2 append_eq_Cons_conv Cons_eq_append_conv)
    with ws show ?thesis by (auto simp: has_substring_iff)
  qed
next
  assume "has_substring p a \<or> has_substring p b"
  then show "has_substring p (a @ c # b)"
    using has_substring_around [of p a "[]" "c # b"] has_substring_around [of p b "a @ [c]" "[]"] by auto
qed

lemma nat_digits_digits: "list_all is_digit_char (nat_digits n)"
proof (induction n rule: nat_digits.induct)
  case (1 n)
  have "is_digit_char (char_of (48 + d))" if "d < 10" for d :: nat
    using that by (simp add: is_digit_char_def)
  with 1 show ?case by (subst nat_digits.simps) simp
qed

lemma nat_digits_ne [simp]: "nat_digits n \<noteq> []"
  by (subst nat_digits.simps) simp

lemma digit_not_space: "is_digit_char c \<Longrightarrow> \<not> is_space c"
  by (auto simp: is_digit_char_def is_space_def Let_def)

lemma int_str_ne [simp]: "int_str i \<noteq> []"
  by (simp add: int_str_def)

lemma int_str_chars: "c \<in> set (int_str i) \<Longrightarrow> is_digit_char c \<or> c = CHR ''-''"
  using nat_digits_digits by (auto simp: int_str_def list_all_iff split: if_splits)

lemma last_int_str: "is_digit_char (last (int_str i))"
proof -
  have "is_digit_char (last (nat_digits n))" for n
    using nat_digits_digits [of n] last_in_set [OF nat_digits_ne [of n]] by (simp add: list_all_iff)
  then show ?thesis by (simp add: int_str_def)
qed

lemma str_join_Cons: "ts \<noteq> [] \<Longrightarrow> str_join sep (t # ts) = t @ sep @ str_join sep ts"
  by (cases ts) auto

lemma split_char_ne [simp]: "split_char c s \<noteq> []"
  by (induction s) (auto split: list.splits)

lemma join_split_char: "str_join [c] (split_char c s) = s"
proof (induction s)
  case Nil
  then show ?case by simp
next
  case (Cons x s)
  obtain t ts where s: "split_char c s = t # ts" by (metis split_char_ne list.exhaust)
  with Cons.IH show ?case by (cases ts) (auto simp: str_join_Cons)
qed

section \<open>Dictionaries\<close>

type_synonym 'v dict = "(string \<times> 'v) list"

definition dict_get_or :: "'v dict \<Rightarrow> string \<Rightarrow> 'v \<Rightarrow> 'v" where
  "dict_get_or d k v = (case map_of d k of None \<Rightarrow> v | Some x \<Rightarrow> x)"

definition dict_update :: "('k \<times> 'v) list \<Rightarrow> ('k \<times> 'v) list \<Rightarrow> ('k \<times> 'v) list" where
  "dict_update d es = fold (\<lambda>(k, v). AList.update k v) es d"

definition dict_pop :: "'k \<Rightarrow> ('k \<times> 'v) list \<Rightarrow> ('k \<times> 'v) list" where
  "dict_pop k d = filter (\<lambda>(k', _). k' \<noteq> k) d"

definition dict_wf :: "('k \<times> 'v) list \<Rightarrow> bool" where
  "dict_wf d \<longleftrightarrow> distinct (map fst d)"

lemma map_of_dict_pop [simp]: "map_of (dict_pop k d) = (map_of d)(k := None)"
  by (induction d) (auto simp: dict_pop_def fun_eq_iff)

lemma dict_wf_pop: "dict_wf d \<Longrightarrow> dict_wf (dict_pop k d)"
  by (induction d) (auto simp: dict_wf_def dict_pop_def)

lemma dict_wf_update [intro]: "dict_wf d \<Longrightarrow> dict_wf (AList.update k v d)"
  by (simp add: dict_wf_def distinct_update)

lemma dict_update_Nil [simp]: "dict_update d [] = d"
  by (simp add: dict_update_def)

lemma dict_update_Cons [simp]:
  "dict_update d ((k, v) # es) = dict_update (AList.update k v d) es"
  by (simp add: dict_update_def)

lemma dict_wf_dict_update [intro]: "dict_wf d \<Longrightarrow> dict_wf (dict_update d es)"
proof (induction es arbitrary: d)
  case (Cons e es)
  then show ?case by (cases e) (simp add: dict_wf_update)
qed simp

lemma map_of_update [simp]: "map_of (AList.update k v d) = (map_of d)(k \<mapsto> v)"
  by (rule ext) (simp add: update_conv)

lemma map_of_dict_update: "dict_wf es \<Longrightarrow> map_of (dict_update d es) = map_of d ++ map_of es"
proof (induction es arbitrary: d)
  case Nil
  then show ?case by simp
next
  case (Cons e es)
  obtain k v where e: "e = (k, v)" by (cases e)
  with Cons.prems have "dict_wf es" "k \<notin> dom (map_of es)"
    by (auto simp: dict_wf_def dom_map_of_conv_image_fst)
  with Cons.IH e show ?case
    by (auto simp: fun_eq_iff map_add_def dom_def split: option.splits)
qed

lemma update_fresh: "k \<notin> fst ` set d \<Longrightarrow> AList.update k v d = d @ [(k, v)]"
  by (induction d) auto

lemma dict_update_Nil_wf: "dict_wf (d @ es) \<Longrightarrow> dict_update d es = d @ es"
proof (induction es arbitrary: d)
  case (Cons e es)
  obtain k v where e: "e = (k, v)" by (cases e)
  have "AList.update k v d = d @ [(k, v)]"
    using Cons.prems e by (intro update_fresh) (auto simp: dict_wf_def)
  with Cons e show ?case by simp
qed simp

section \<open>Dynamic values\<close>

text \<open>
  \<open>VFloat\<close> holds the exact value of a finite float; \<open>VTime\<close> is a \<^verbatim>\<open>datetime\<close>, in
  microseconds; \<open>VObj\<close> is any other object, known by its type name only.
\<close>

datatype pyval =
    VNone
  | VBool bool
  | VInt int
  | VFloat rat
  | VStr string
  | VTime int
  | VList "pyval list"
  | VDict "(string \<times> pyval) list"
  | VObj string

type_synonym mapping = "pyval dict"

definition get_or_none :: "mapping \<Rightarrow> string \<Rightarrow> pyval" where
  "get_or_none d k = dict_get_or d k VNone"

text \<open>
  \<^verbatim>\<open>str(value)\<close>. The text of a float, a datetime, a container or a foreign object is
  Python's \<^verbatim>\<open>repr\<close> of it, the parameter \<open>rep\<close>.
\<close>

fun py_str :: "(pyval \<Rightarrow> string) \<Rightarrow> pyval \<Rightarrow> string" where
  "py_str rep VNone = ''None''"
| "py_str rep (VBool b) = (if b then ''True'' else ''False'')"
| "py_str rep (VInt i) = int_str i"
| "py_str rep (VStr s) = s"
| "py_str rep v = rep v"

text \<open>\<^verbatim>\<open>bool(value)\<close>; a foreign object is true.\<close>

fun py_truthy :: "pyval \<Rightarrow> bool" where
  "py_truthy VNone = False"
| "py_truthy (VBool b) = b"
| "py_truthy (VInt i) = (i \<noteq> 0)"
| "py_truthy (VFloat r) = (r \<noteq> 0)"
| "py_truthy (VStr s) = (s \<noteq> [])"
| "py_truthy (VList vs) = (vs \<noteq> [])"
| "py_truthy (VDict d) = (d \<noteq> [])"
| "py_truthy _ = True"

section \<open>Built-in conversions\<close>

datatype py_error = KeyError string | TypeError string | ValueError string | OverflowError string

text \<open>
  The built-in text readers of \<^verbatim>\<open>float(str)\<close> and \<^verbatim>\<open>int(str)\<close> and \<^verbatim>\<open>repr\<close> are parameters.
\<close>

record conv_env =
  cv_repr :: "pyval \<Rightarrow> string"
  cv_float_of_str :: "string \<Rightarrow> rat option"
  cv_int_of_str :: "string \<Rightarrow> int option"

text \<open>\<^verbatim>\<open>float(i)\<close> of an integer that rounds beyond the largest double is an error.\<close>

definition float_limit :: int where
  "float_limit = 2 ^ 1024 - 2 ^ 970"

fun py_float :: "conv_env \<Rightarrow> pyval \<Rightarrow> py_error + rat" where
  "py_float env (VFloat r) = Inr r"
| "py_float env (VInt i) =
     (if float_limit \<le> \<bar>i\<bar> then Inl (OverflowError ''int too large to convert to float'') else Inr (of_int i))"
| "py_float env (VBool b) = Inr (if b then 1 else 0)"
| "py_float env (VStr s) =
     (case cv_float_of_str env s of Some r \<Rightarrow> Inr r
      | None \<Rightarrow> Inl (ValueError ''could not convert string to float''))"
| "py_float env v = Inl (TypeError ''float() argument must be a string or a real number'')"

fun py_int :: "conv_env \<Rightarrow> pyval \<Rightarrow> py_error + int" where
  "py_int env (VFloat r) = Inr (if r < 0 then \<lceil>r\<rceil> else \<lfloor>r\<rfloor>)"
| "py_int env (VInt i) = Inr i"
| "py_int env (VBool b) = Inr (if b then 1 else 0)"
| "py_int env (VStr s) =
     (case cv_int_of_str env s of Some i \<Rightarrow> Inr i
      | None \<Rightarrow> Inl (ValueError ''invalid literal for int()''))"
| "py_int env v = Inl (TypeError ''int() argument must be a string or a real number'')"

lemma py_float_small_int [simp]: "\<bar>i\<bar> < 10 ^ 300 \<Longrightarrow> py_float env (VInt i) = Inr (of_int i)"
proof -
  have "(10 ^ 300 :: int) \<le> float_limit" by (simp add: float_limit_def)
  then show "\<bar>i\<bar> < 10 ^ 300 \<Longrightarrow> py_float env (VInt i) = Inr (of_int i)" by simp
qed

declare py_float.simps(2) [simp del]

text \<open>A conversion under \<^verbatim>\<open>except (TypeError, ValueError)\<close>: \<open>None\<close> for a handled error, the others escape.\<close>

fun is_type_or_value :: "py_error \<Rightarrow> bool" where
  "is_type_or_value (TypeError _) = True"
| "is_type_or_value (ValueError _) = True"
| "is_type_or_value _ = False"

definition try_convert :: "py_error + 'a \<Rightarrow> py_error + 'a option" where
  "try_convert m =
     (case m of Inr x \<Rightarrow> Inr (Some x) | Inl e \<Rightarrow> if is_type_or_value e then Inr None else Inl e)"

lemma try_convert_simps [simp]: "try_convert (Inr x) = Inr (Some x)"
  by (simp add: try_convert_def)

lemma try_convert_Some [result_simps]: "try_convert m = Inr (Some x) \<longleftrightarrow> m = Inr x"
  by (auto simp: try_convert_def split: sum.splits if_splits)

text \<open>\<^verbatim>\<open>dict(value)\<close> of a mapping, or of a sequence of two-element sequences.\<close>

fun pair_of :: "pyval \<Rightarrow> py_error + pyval \<times> pyval" where
  "pair_of (VList [k, v]) =
     (case k of VList _ \<Rightarrow> Inl (TypeError ''unhashable type'')
      | VDict _ \<Rightarrow> Inl (TypeError ''unhashable type'') | _ \<Rightarrow> Inr (k, v))"
| "pair_of (VStr [a, b]) = Inr (VStr [a], VStr [b])"
| "pair_of (VDict [(a, _), (b, _)]) = Inr (VStr a, VStr b)"
| "pair_of (VList _) = Inl (ValueError ''dictionary update sequence element has wrong length'')"
| "pair_of (VStr _) = Inl (ValueError ''dictionary update sequence element has wrong length'')"
| "pair_of (VDict _) = Inl (ValueError ''dictionary update sequence element has wrong length'')"
| "pair_of _ = Inl (TypeError ''cannot convert dictionary update sequence element'')"

fun py_dict_items :: "pyval \<Rightarrow> py_error + (pyval \<times> pyval) list" where
  "py_dict_items (VDict d) = Inr (map (\<lambda>(k, v). (VStr k, v)) d)"
| "py_dict_items (VList vs) = rmap pair_of vs"
| "py_dict_items (VStr s) = rmap (\<lambda>c. pair_of (VStr [c])) s"
| "py_dict_items _ = Inl (TypeError ''object is not iterable'')"

definition require_key :: "mapping \<Rightarrow> string \<Rightarrow> py_error + pyval" where
  "require_key d k = (case map_of d k of None \<Rightarrow> Inl (KeyError k) | Some v \<Rightarrow> Inr v)"

text \<open>
  What \<^verbatim>\<open>json.loads(json.dumps(value, sort_keys=True))\<close> gives: the value with the keys of every
  dictionary in order; a datetime or a foreign object is not serialisable.
\<close>

fun json_trip :: "pyval \<Rightarrow> py_error + pyval"
and json_trip_list :: "pyval list \<Rightarrow> py_error + pyval list"
and json_trip_items :: "(string \<times> pyval) list \<Rightarrow> py_error + (string \<times> pyval) list" where
  "json_trip (VTime _) = Inl (TypeError ''Object of type datetime is not JSON serializable'')"
| "json_trip (VObj t) = Inl (TypeError (''Object of type '' @ t @ '' is not JSON serializable''))"
| "json_trip (VList vs) = rbind (json_trip_list vs) (\<lambda>us. Inr (VList us))"
| "json_trip (VDict d) = rbind (json_trip_items d) (\<lambda>e. Inr (VDict (sort_key fst e)))"
| "json_trip v = Inr v"
| "json_trip_list [] = Inr []"
| "json_trip_list (v # vs) =
     rbind (json_trip v) (\<lambda>u. rbind (json_trip_list vs) (\<lambda>us. Inr (u # us)))"
| "json_trip_items [] = Inr []"
| "json_trip_items ((k, v) # d) =
     rbind (json_trip v) (\<lambda>u. rbind (json_trip_items d) (\<lambda>e. Inr ((k, u) # e)))"

lemma json_trip_items_keys: "json_trip_items d = Inr e \<Longrightarrow> map fst e = map fst d"
proof (induction d arbitrary: e)
  case (Cons p d)
  then show ?case by (cases p) (auto simp: result_simps)
qed simp

lemma json_trip_items_lookup:
  "json_trip_items d = Inr e \<Longrightarrow> map_of d k = Some v \<Longrightarrow> \<exists>u. json_trip v = Inr u \<and> map_of e k = Some u"
proof (induction d arbitrary: e)
  case (Cons p d)
  then show ?case by (cases p) (auto simp: result_simps split: if_splits)
qed simp

lemma json_trip_items_None: "json_trip_items d = Inr e \<Longrightarrow> map_of d k = None \<Longrightarrow> map_of e k = None"
  by (metis json_trip_items_keys map_of_eq_None_iff set_map)

text \<open>Sorting by key is stable, so it does not change what a key looks up.\<close>

lemma map_of_filter_hd:
  "map_of d k = (case filter (\<lambda>p. fst p = k) d of [] \<Rightarrow> None | p # _ \<Rightarrow> Some (snd p))"
  by (induction d) auto

lemma map_of_sort_key: "map_of (sort_key fst d) = map_of (d :: (string \<times> 'v) list)"
  by (rule ext) (simp add: map_of_filter_hd sort_key_stable)

lemma map_of_sort_key_fst: "dict_wf d \<Longrightarrow> map_of (sort_key fst d) = map_of d"
  by (rule map_of_inject_set [THEN iffD2])
    (auto simp: dict_wf_def distinct_map inj_on_def)

section \<open>Runs of guarded calls\<close>

text \<open>
  The interface several stateful components share: calls that keep an invariant and relate the state
  before to the state after by a preorder. What holds of one call then holds of every sequence.
\<close>

locale guarded_calls =
  fixes call :: "'op \<Rightarrow> 's \<Rightarrow> 's"
    and ok :: "'op \<Rightarrow> bool"
    and inv :: "'s \<Rightarrow> bool"
    and rel :: "'s \<Rightarrow> 's \<Rightarrow> bool"
  assumes call_inv: "ok x \<Longrightarrow> inv s \<Longrightarrow> inv (call x s)"
    and call_rel: "ok x \<Longrightarrow> inv s \<Longrightarrow> rel s (call x s)"
    and rel_refl: "rel s s"
    and rel_trans: "rel s t \<Longrightarrow> rel t u \<Longrightarrow> rel s u"
begin

lemma runs_inv: "list_all ok xs \<Longrightarrow> inv s \<Longrightarrow> inv (fold call xs s)"
  by (induction xs arbitrary: s) (auto simp: call_inv)

lemma runs_rel: "list_all ok xs \<Longrightarrow> inv s \<Longrightarrow> rel s (fold call xs s)"
proof (induction xs arbitrary: s)
  case (Cons x xs)
  then have "rel s (call x s)" "inv (call x s)" by (auto simp: call_rel call_inv)
  with Cons show ?case by (auto intro: rel_trans)
qed (simp add: rel_refl)

end

end
