(* ===== verification/Priority_Rules.thy ===== *)
theory Priority_Rules
  imports Prelude "HOL-Library.Multiset"
begin

text \<open>
  The contract shared by every component that ranks candidates by descending priority and
  ascending identifier and then works on the best ones: the routing rules, the prefix rules
  and the processor selection. A provider supplies \<open>ranked\<close>, the list of the candidates that
  apply, in rank order; a client picks the head and asks whether it is unique.
\<close>

locale ranked_rules =
  fixes prio :: "'r \<Rightarrow> int"
    and ident :: "'r \<Rightarrow> string"
    and hits :: "'r \<Rightarrow> bool"
    and ranked :: "'r list \<Rightarrow> 'r list"
  assumes ranked_mset: "mset (ranked rs) = filter_mset hits (mset rs)"
    and ranked_sorted: "sorted (map (\<lambda>r. (- prio r, ident r)) (ranked rs))"
begin

lemma set_ranked: "set (ranked rs) = {r \<in> set rs. hits r}"
  by (metis ranked_mset set_filter set_mset_mset mset_filter)

lemma ranked_Nil_iff: "ranked rs = [] \<longleftrightarrow> (\<forall>r \<in> set rs. \<not> hits r)"
  using set_ranked [of rs] by (metis (no_types, lifting) empty_iff list.set(1) mem_Collect_eq
      set_empty subsetI subset_antisym)

lemma head_is_top:
  assumes "ranked rs = r # ts" and "q \<in> set rs" and "hits q"
  shows "prio q \<le> prio r"
proof -
  have "q \<in> set (r # ts)" using assms set_ranked [of rs] by auto
  moreover have "sorted (map (\<lambda>r. (- prio r, ident r)) (r # ts))"
    using ranked_sorted [of rs] assms(1) by simp
  ultimately show ?thesis by (auto simp: less_eq_prod_def)
qed

lemma head_hits: "ranked rs = r # ts \<Longrightarrow> r \<in> set rs \<and> hits r"
  using set_ranked [of rs] by auto

text \<open>When the head is the only one with its priority, it outranks every other candidate.\<close>

lemma unique_top_outranks:
  assumes "ranked rs = r # ts" and "filter (\<lambda>q. prio q = prio r) (r # ts) = [r]"
    and "q \<in> set rs" and "hits q" and "q \<noteq> r"
  shows "prio q < prio r"
proof -
  have "q \<in> set ts" using assms set_ranked [of rs] by auto
  moreover have "filter (\<lambda>q. prio q = prio r) ts = []" using assms(2) by simp
  ultimately have "prio q \<noteq> prio r" by (auto simp: filter_empty_conv)
  moreover have "prio q \<le> prio r" using head_is_top assms by blast
  ultimately show ?thesis by simp
qed

text \<open>The head is not alone exactly when two different candidates share the best priority.\<close>

lemma shared_top_iff:
  assumes rk: "ranked rs = r # ts" and "distinct (map ident rs)"
  shows "filter (\<lambda>q. prio q = prio r) (r # ts) \<noteq> [r] \<longleftrightarrow>
    (\<exists>q \<in> set rs. \<exists>q' \<in> set rs. q \<noteq> q' \<and> hits q \<and> hits q' \<and> prio q = prio q' \<and>
       (\<forall>t \<in> set rs. hits t \<longrightarrow> prio t \<le> prio q'))" (is "?L \<longleftrightarrow> ?R")
proof
  have "distinct rs" using assms(2) by (simp add: distinct_map)
  then have "distinct (ranked rs)"
    by (metis distinct_filter mset_eq_imp_distinct_iff mset_filter ranked_mset)
  then have nin: "r \<notin> set ts" using rk by simp
  assume ?L
  then obtain q where q: "q \<in> set ts" "prio q = prio r" by (auto simp: filter_empty_conv)
  then have "q \<noteq> r" "q \<in> set rs" "hits q" using nin set_ranked [of rs] rk by auto
  then show ?R using head_hits [OF rk] head_is_top [OF rk] q(2) by blast
next
  assume ?R
  then obtain q q' where q: "q \<in> set rs" "q' \<in> set rs" "q \<noteq> q'" "hits q" "hits q'"
    "prio q = prio q'" "\<forall>t \<in> set rs. hits t \<longrightarrow> prio t \<le> prio q'" by blast
  then have "prio q' = prio r"
    using head_hits [OF rk] head_is_top [OF rk] by (metis order_antisym)
  then show ?L using unique_top_outranks [OF rk, of q] unique_top_outranks [OF rk, of q'] q
    by (metis less_irrefl)
qed

text \<open>The outcome does not depend on the order in which the candidates are declared.\<close>

lemma ranked_order_independent:
  assumes "mset rs = mset rs'" and "distinct (map ident rs)"
  shows "ranked rs = ranked rs'"
proof -
  let ?key = "\<lambda>r. (- prio r, ident r)"
  have m: "mset (ranked rs) = mset (ranked rs')" using assms(1) by (simp add: ranked_mset)
  have "inj_on ident (set rs)" using assms(2) by (simp add: distinct_map)
  then have inj: "inj_on ?key (set (ranked rs))"
    by (auto simp: inj_on_def set_ranked)
  have "sort_key ?key (ranked rs) = ranked rs'"
    using m inj ranked_sorted by (rule sort_key_inj_key_eq)
  moreover have "sort_key ?key (ranked rs) = ranked rs"
    using refl inj ranked_sorted by (rule sort_key_inj_key_eq)
  ultimately show ?thesis by simp
qed

end

text \<open>Every provider computes its ranking by a stable sort followed by a filter.\<close>

lemma ranked_rules_sort_filter:
  "ranked_rules p i h (\<lambda>rs. filter h (sort_key (\<lambda>r. (- p r, i r)) rs))"
  by unfold_locales (simp_all add: mset_filter sorted_filter)

text \<open>The rule predicates of the routing and the prefix rules share one shape.\<close>

datatype expected = Exactly string | OneOf "string list"

definition expected_holds :: "expected \<Rightarrow> string option \<Rightarrow> bool" where
  "expected_holds e actual =
     (case e of Exactly v \<Rightarrow> actual = Some v
      | OneOf vs \<Rightarrow> (case actual of None \<Rightarrow> False | Some a \<Rightarrow> a \<in> set vs))"

definition conditions_hold :: "string dict \<Rightarrow> (string \<times> expected) list \<Rightarrow> bool" where
  "conditions_hold facts conds \<longleftrightarrow> list_all (\<lambda>(k, e). expected_holds e (map_of facts k)) conds"

text \<open>The default token format \<^verbatim>\<open>[A-Za-z0-9_]+\<close> under \<^verbatim>\<open>fullmatch\<close>.\<close>

definition word_token :: "string \<Rightarrow> bool" where
  "word_token s \<longleftrightarrow> s \<noteq> [] \<and> list_all is_word_char s"

lemma conditions_hold_iff:
  "conditions_hold facts conds \<longleftrightarrow>
     (\<forall>(k, e) \<in> set conds. \<exists>a. map_of facts k = Some a \<and>
        (case e of Exactly v \<Rightarrow> a = v | OneOf vs \<Rightarrow> a \<in> set vs))"
  by (force simp: conditions_hold_def expected_holds_def list_all_iff
      split: expected.splits option.splits)

end
