(* ===== verification/Routing.thy ===== *)
theory Routing
  imports Priority_Rules
begin

text \<open>
  Routing rules (\<^verbatim>\<open>domain/routing/rules.py\<close>): validation of the declared rules, the predicate
  match, and \<open>decide_route\<close>. A compiled destination pattern is its \<^verbatim>\<open>fullmatch\<close> predicate.
\<close>

datatype routing_error =
    RoutingRuleNotFoundError string
  | RoutingRuleAmbiguityError string
  | RoutingRuleConfigurationError string
  | RoutingDestinationValidationError string

datatype route_decision_kind = ROUTE_MATCHED | ROUTE_DEFAULTED | ROUTE_REJECTED

record route_rule =
  route_id :: string
  route_priority :: int
  route_predicates :: "(string \<times> expected) list"
  route_destinations :: "string list"

record route_decision =
  rd_kind :: route_decision_kind
  rd_destinations :: "string list"
  rd_matched_rule_id :: "string option"
  rd_diagnostics :: "string list"

definition route_rule_sort_key :: "route_rule \<Rightarrow> int \<times> string" where
  "route_rule_sort_key r = (- route_priority r, route_id r)"

definition validate_route_predicate :: "string \<times> expected \<Rightarrow> routing_error + unit" where
  "validate_route_predicate p =
     rbind (raise_if (fst p = []) (RoutingRuleConfigurationError ''Predicate keys must be non-empty.''))
       (\<lambda>_. case snd p of
          OneOf vs \<Rightarrow> raise_if (vs = [])
            (RoutingRuleConfigurationError ''Collection predicate values must be non-empty.'')
        | Exactly _ \<Rightarrow> Inr ())"

definition validate_route_rule :: "route_rule \<Rightarrow> string list \<Rightarrow> routing_error + string list" where
  "validate_route_rule r seen =
     rbind (raise_if (route_id r = []) (RoutingRuleConfigurationError ''Rule id must be non-empty.''))
     (\<lambda>_. rbind (raise_if (route_id r \<in> set seen)
                  (RoutingRuleConfigurationError ''Rule ids must be unique.''))
     (\<lambda>_. rbind (raise_if (route_predicates r = [])
                  (RoutingRuleConfigurationError ''Rule predicates must be non-empty.''))
     (\<lambda>_. rbind (raise_if (route_destinations r = [])
                  (RoutingRuleConfigurationError ''Rule destinations must be non-empty.''))
     (\<lambda>_. rbind (rmap validate_route_predicate (route_predicates r))
     (\<lambda>_. Inr (route_id r # seen))))))"

definition validate_destinations ::
    "(string \<Rightarrow> bool) \<Rightarrow> string list \<Rightarrow> routing_error + string list" where
  "validate_destinations pat ds =
     rmap (\<lambda>d. if pat d then Inr d
               else Inl (RoutingDestinationValidationError
                 (''Destination token '' @ [CHR 39] @ d @ [CHR 39] @ '' violates allowed format.''))) ds"

definition route_rule_matches :: "string dict \<Rightarrow> route_rule \<Rightarrow> bool" where
  "route_rule_matches facts r = conditions_hold facts (route_predicates r)"

text \<open>The validation loop, the ranking and the decision of \<open>decide_route\<close>.\<close>

definition validate_routes :: "(string \<Rightarrow> bool) \<Rightarrow> route_rule list \<Rightarrow> routing_error + string list" where
  "validate_routes pat rules =
     rfold (\<lambda>seen r. rbind (validate_route_rule r seen)
       (\<lambda>seen'. rbind (validate_destinations pat (route_destinations r)) (\<lambda>_. Inr seen'))) [] rules"

definition ranked_routes :: "string dict \<Rightarrow> route_rule list \<Rightarrow> route_rule list" where
  "ranked_routes facts rules = filter (route_rule_matches facts) (sort_key route_rule_sort_key rules)"

definition decide_route ::
    "string dict \<Rightarrow> route_rule list \<Rightarrow> string list option \<Rightarrow> (string \<Rightarrow> bool) \<Rightarrow>
     routing_error + route_decision" where
  "decide_route facts rules default_destinations pat =
     rbind (validate_routes pat rules) (\<lambda>_.
       case ranked_routes facts rules of
         r # ts \<Rightarrow>
           (case filter (\<lambda>q. route_priority q = route_priority r) (r # ts) of
              [selected] \<Rightarrow>
                Inr \<lparr>rd_kind = ROUTE_MATCHED, rd_destinations = route_destinations selected,
                     rd_matched_rule_id = Some (route_id selected),
                     rd_diagnostics = map route_id (r # ts)\<rparr>
            | _ \<Rightarrow> Inl (RoutingRuleAmbiguityError
                     ''Multiple matching route rules share the same top priority.''))
       | [] \<Rightarrow>
           (case default_destinations of
              None \<Rightarrow> Inl (RoutingRuleNotFoundError
                       ''No routing rule matched and no default route was configured.'')
            | Some ds \<Rightarrow>
                rbind (validate_destinations pat ds) (\<lambda>vs.
                  Inr \<lparr>rd_kind = ROUTE_DEFAULTED, rd_destinations = vs,
                       rd_matched_rule_id = None, rd_diagnostics = [''default'']\<rparr>)))"

text \<open>The specification of a valid rule set.\<close>

definition valid_route_rule :: "(string \<Rightarrow> bool) \<Rightarrow> route_rule \<Rightarrow> bool" where
  "valid_route_rule pat r \<longleftrightarrow>
     route_id r \<noteq> [] \<and> route_predicates r \<noteq> [] \<and> route_destinations r \<noteq> [] \<and>
     list_all (\<lambda>(k, e). k \<noteq> [] \<and> e \<noteq> OneOf []) (route_predicates r) \<and>
     list_all pat (route_destinations r)"

definition valid_routes :: "(string \<Rightarrow> bool) \<Rightarrow> route_rule list \<Rightarrow> bool" where
  "valid_routes pat rules \<longleftrightarrow>
     distinct (map route_id rules) \<and> list_all (valid_route_rule pat) rules"

interpretation routing: ranked_rules route_priority route_id "route_rule_matches facts"
  "ranked_routes facts" for facts
  using ranked_rules_sort_filter [of route_priority route_id "route_rule_matches facts"]
  by (simp add: ranked_routes_def [abs_def] route_rule_sort_key_def [abs_def])

lemma validate_route_predicate_iff:
  "validate_route_predicate p = Inr u \<longleftrightarrow> fst p \<noteq> [] \<and> snd p \<noteq> OneOf []"
  by (cases p) (auto simp: validate_route_predicate_def result_simps split: expected.splits)

lemma validate_route_rule_iff:
  "validate_route_rule r seen = Inr s \<longleftrightarrow>
     route_id r \<noteq> [] \<and> route_id r \<notin> set seen \<and> route_predicates r \<noteq> [] \<and>
     route_destinations r \<noteq> [] \<and>
     list_all (\<lambda>(k, e). k \<noteq> [] \<and> e \<noteq> OneOf []) (route_predicates r) \<and> s = route_id r # seen"
proof -
  have "(\<exists>us. rmap validate_route_predicate ps = Inr us) \<longleftrightarrow>
        list_all (\<lambda>(k, e). k \<noteq> [] \<and> e \<noteq> OneOf []) ps" for ps
    by (induction ps) (auto simp: result_simps validate_route_predicate_iff)
  then show ?thesis by (auto simp: validate_route_rule_def result_simps)
qed

lemma validate_destinations_iff:
  "validate_destinations pat ds = Inr vs \<longleftrightarrow> list_all pat ds \<and> vs = ds"
  by (induction ds arbitrary: vs) (auto simp: validate_destinations_def result_simps split: if_splits)

lemma validate_destinations_error:
  "validate_destinations pat ds = Inl e \<Longrightarrow>
     (\<exists>m. e = RoutingDestinationValidationError m) \<and> \<not> list_all pat ds"
  by (induction ds) (auto simp: validate_destinations_def result_simps split: if_splits)

lemma validate_destinations_invalid:
  "\<not> list_all pat ds \<Longrightarrow> \<exists>m. validate_destinations pat ds = Inl (RoutingDestinationValidationError m)"
  by (metis validate_destinations_error validate_destinations_iff sum.exhaust)

lemma validate_routes_seen:
  "rfold (\<lambda>seen r. rbind (validate_route_rule r seen)
       (\<lambda>seen'. rbind (validate_destinations pat (route_destinations r)) (\<lambda>_. Inr seen'))) seen rules
     = Inr out \<longleftrightarrow>
   distinct (map route_id rules) \<and> set seen \<inter> route_id ` set rules = {} \<and>
   list_all (valid_route_rule pat) rules \<and> out = rev (map route_id rules) @ seen"
  by (induction rules arbitrary: seen)
    (auto simp: result_simps validate_route_rule_iff validate_destinations_iff valid_route_rule_def)

lemma validate_routes_iff:
  "validate_routes pat rules = Inr out \<longleftrightarrow>
     valid_routes pat rules \<and> out = rev (map route_id rules)"
  by (auto simp: validate_routes_def validate_routes_seen valid_routes_def)

lemma decide_route_validD: "decide_route facts rules ds pat = Inr d \<Longrightarrow> valid_routes pat rules"
  by (auto simp: decide_route_def result_simps validate_routes_iff)

lemma valid_routes_mset: "mset rules = mset rules' \<Longrightarrow> valid_routes pat rules = valid_routes pat rules'"
  by (metis (no_types, lifting) list_all_iff mset_eq_imp_distinct_iff mset_map set_mset_mset
      valid_routes_def)

lemma singleton_filter_cases:
  assumes "(case filter P (r # ts) of [s] \<Rightarrow> Inr (f s) | _ \<Rightarrow> Inl e) = Inr d" and "P r"
  shows "filter P (r # ts) = [r] \<and> d = f r"
  using assms by (auto split: list.splits)

text \<open>
  When a route is matched, the chosen rule is a declared rule that holds on the facts, the
  decision carries its identifier and destinations, every destination has the allowed format,
  and every other matching rule has strictly lower priority.
\<close>

theorem decide_route_matched:
  assumes "decide_route facts rules ds pat = Inr d" and "rd_kind d = ROUTE_MATCHED"
  shows "\<exists>r \<in> set rules. route_rule_matches facts r \<and>
           rd_matched_rule_id d = Some (route_id r) \<and> rd_destinations d = route_destinations r \<and>
           list_all pat (rd_destinations d) \<and>
           (\<forall>q \<in> set rules. route_rule_matches facts q \<and> q \<noteq> r \<longrightarrow>
              route_priority q < route_priority r)"
proof -
  obtain r ts where rk: "ranked_routes facts rules = r # ts"
    using assms by (cases "ranked_routes facts rules")
      (auto simp: decide_route_def result_simps split: option.splits)
  with assms(1) have
    one: "filter (\<lambda>q. route_priority q = route_priority r) (r # ts) = [r]" and
    d: "d = \<lparr>rd_kind = ROUTE_MATCHED, rd_destinations = route_destinations r,
             rd_matched_rule_id = Some (route_id r), rd_diagnostics = map route_id (r # ts)\<rparr>"
    by (auto simp: decide_route_def result_simps simp del: filter.simps dest!: singleton_filter_cases)
  have r: "r \<in> set rules" "route_rule_matches facts r" using routing.head_hits [OF rk] by auto
  moreover have "list_all pat (route_destinations r)"
    using decide_route_validD [OF assms(1)] r(1)
    by (auto simp: valid_routes_def valid_route_rule_def list_all_iff)
  moreover have "\<forall>q \<in> set rules. route_rule_matches facts q \<and> q \<noteq> r \<longrightarrow>
      route_priority q < route_priority r"
    using routing.unique_top_outranks [OF rk one] by blast
  ultimately show ?thesis using d by (intro bexI [of _ r]) simp_all
qed

definition demo_rules :: "route_rule list" where
  "demo_rules =
     [\<lparr>route_id = ''a'', route_priority = 1, route_predicates = [(''kind'', Exactly ''sem'')],
       route_destinations = [''sem'']\<rparr>,
      \<lparr>route_id = ''b'', route_priority = 5, route_predicates = [(''kind'', OneOf [''sem'', ''utm''])],
       route_destinations = [''lab'']\<rparr>]"

theorem decide_route_matched_witness:
  "\<exists>d. decide_route [(''kind'', ''sem'')] demo_rules None word_token = Inr d \<and>
     rd_destinations d = [''lab''] \<and>
     (\<exists>r \<in> set demo_rules. route_rule_matches [(''kind'', ''sem'')] r \<and>
        rd_matched_rule_id d = Some (route_id r))"
proof -
  let ?d = "\<lparr>rd_kind = ROUTE_MATCHED, rd_destinations = [''lab''],
             rd_matched_rule_id = Some ''b'', rd_diagnostics = [''b'', ''a'']\<rparr>"
  have h: "decide_route [(''kind'', ''sem'')] demo_rules None word_token = Inr ?d"
    by code_simp
  from decide_route_matched [OF h] show ?thesis using h by auto
qed

text \<open>
  The decision does not depend on the order in which the rules are declared: a successful
  decision is reproduced exactly by every permutation of the rule list.
\<close>

theorem decide_route_order_independent:
  assumes "decide_route facts rules ds pat = Inr d" and "mset rules' = mset rules"
  shows "decide_route facts rules' ds pat = Inr d"
proof -
  have v: "valid_routes pat rules" using decide_route_validD [OF assms(1)] .
  then have "ranked_routes facts rules = ranked_routes facts rules'"
    using assms(2) by (intro routing.ranked_order_independent) (auto simp: valid_routes_def)
  moreover obtain o1 o2 where "validate_routes pat rules = Inr o1" "validate_routes pat rules' = Inr o2"
    using v valid_routes_mset [OF assms(2), of pat] validate_routes_iff by blast
  ultimately show ?thesis using assms(1) by (simp add: decide_route_def)
qed

theorem decide_route_order_independent_witness:
  "\<exists>d. decide_route [(''kind'', ''utm'')] demo_rules None word_token = Inr d \<and>
       decide_route [(''kind'', ''utm'')] (rev demo_rules) None word_token = Inr d"
proof -
  let ?d = "\<lparr>rd_kind = ROUTE_MATCHED, rd_destinations = [''lab''],
             rd_matched_rule_id = Some ''b'', rd_diagnostics = [''b'']\<rparr>"
  have h: "decide_route [(''kind'', ''utm'')] demo_rules None word_token = Inr ?d"
    by code_simp
  have "mset (rev demo_rules) = mset demo_rules" by simp
  from decide_route_order_independent [OF h this] show ?thesis using h by blast
qed

text \<open>
  The errors of \<open>decide_route\<close> on a valid rule set are exactly these: the ambiguity error when
  two matching rules share the highest matching priority, the not-found error when nothing matches
  and there is no default, and the destination error when a default has a bad format.
\<close>

theorem decide_route_errors:
  assumes "valid_routes pat rules"
  shows "((\<exists>m. decide_route facts rules ds pat = Inl (RoutingRuleAmbiguityError m)) \<longleftrightarrow>
           (\<exists>q \<in> set rules. \<exists>r \<in> set rules. q \<noteq> r \<and> route_rule_matches facts q \<and>
              route_rule_matches facts r \<and> route_priority q = route_priority r \<and>
              (\<forall>t \<in> set rules. route_rule_matches facts t \<longrightarrow> route_priority t \<le> route_priority r)))
       \<and> ((\<exists>m. decide_route facts rules ds pat = Inl (RoutingRuleNotFoundError m)) \<longleftrightarrow>
           ds = None \<and> (\<forall>r \<in> set rules. \<not> route_rule_matches facts r))
       \<and> ((\<exists>m. decide_route facts rules ds pat = Inl (RoutingDestinationValidationError m)) \<longleftrightarrow>
           (\<forall>r \<in> set rules. \<not> route_rule_matches facts r) \<and> (\<exists>xs. ds = Some xs \<and> \<not> list_all pat xs))
       \<and> (\<forall>m. decide_route facts rules ds pat \<noteq> Inl (RoutingRuleConfigurationError m))"
proof (cases "ranked_routes facts rules")
  case Nil
  moreover from this have "\<forall>r \<in> set rules. \<not> route_rule_matches facts r"
    by (simp add: routing.ranked_Nil_iff)
  moreover have "validate_routes pat rules = Inr (rev (map route_id rules))"
    using assms by (simp add: validate_routes_iff)
  ultimately show ?thesis
    by (cases ds) (auto simp: decide_route_def result_simps validate_destinations_iff
        dest: validate_destinations_error validate_destinations_invalid)
next
  case (Cons r ts)
  then have "\<not> (\<forall>r \<in> set rules. \<not> route_rule_matches facts r)"
    using routing.head_hits by blast
  moreover have "decide_route facts rules ds pat =
      (if filter (\<lambda>q. route_priority q = route_priority r) (r # ts) = [r]
       then Inr \<lparr>rd_kind = ROUTE_MATCHED, rd_destinations = route_destinations r,
              rd_matched_rule_id = Some (route_id r), rd_diagnostics = map route_id (r # ts)\<rparr>
       else Inl (RoutingRuleAmbiguityError
              ''Multiple matching route rules share the same top priority.''))"
    using Cons assms by (auto simp: decide_route_def validate_routes_iff [THEN iffD2] split: list.splits)
  ultimately show ?thesis
    using routing.shared_top_iff [OF Cons] assms by (auto simp: valid_routes_def simp del: filter.simps)
qed

theorem decide_route_errors_witness:
  "valid_routes word_token demo_rules \<and>
   (\<exists>m. decide_route [] demo_rules None word_token = Inl (RoutingRuleNotFoundError m))"
proof -
  have v: "valid_routes word_token demo_rules" by code_simp
  have "\<forall>r \<in> set demo_rules. \<not> route_rule_matches [] r" by code_simp
  with v decide_route_errors [OF v, of "[]" None] show ?thesis by blast
qed

end
