(* ===== verification/Prefix_Policy.thy ===== *)
theory Prefix_Policy
  imports Priority_Rules
begin

text \<open>
  Prefix derivation (\<^verbatim>\<open>domain/naming/prefix_policy.py\<close>): rule validation, matching and
  \<open>derive_prefix\<close> with its fallback. A token pattern is its \<^verbatim>\<open>fullmatch\<close> predicate.
\<close>

datatype prefix_error =
    PrefixDerivationNotFoundError string
  | PrefixTokenFormatError string
  | PrefixRuleAmbiguityError string
  | PrefixRuleConfigurationError string

datatype prefix_decision_kind = PREFIX_DERIVED | PREFIX_FALLBACK | PREFIX_REJECTED

record prefix_rule =
  pr_id :: string
  pr_priority :: int
  pr_conditions :: "(string \<times> expected) list"
  pr_prefix :: string

record prefix_decision =
  pd_kind :: prefix_decision_kind
  pd_token :: "string option"
  pd_matched_rule_id :: "string option"
  pd_diagnostics :: "string list"

definition validate_prefix_condition :: "string \<times> expected \<Rightarrow> prefix_error + unit" where
  "validate_prefix_condition p =
     rbind (raise_if (fst p = []) (PrefixRuleConfigurationError ''Condition keys must be non-empty.''))
       (\<lambda>_. case snd p of
          OneOf vs \<Rightarrow> raise_if (vs = [])
            (PrefixRuleConfigurationError ''Collection condition values must be non-empty.'')
        | Exactly _ \<Rightarrow> Inr ())"

definition validate_prefix_rule :: "string list \<Rightarrow> prefix_rule \<Rightarrow> prefix_error + string list" where
  "validate_prefix_rule seen r =
     rbind (raise_if (pr_id r = []) (PrefixRuleConfigurationError ''Rule id must be non-empty.''))
     (\<lambda>_. rbind (raise_if (pr_id r \<in> set seen)
                  (PrefixRuleConfigurationError ''Rule ids must be unique.''))
     (\<lambda>_. rbind (raise_if (pr_conditions r = [])
                  (PrefixRuleConfigurationError ''Rule conditions must be non-empty.''))
     (\<lambda>_. rbind (rmap validate_prefix_condition (pr_conditions r))
     (\<lambda>_. Inr (pr_id r # seen)))))"

definition validate_prefix_rules :: "prefix_rule list \<Rightarrow> prefix_error + string list" where
  "validate_prefix_rules rules = rfold validate_prefix_rule [] rules"

definition prefix_matches_rule :: "string dict \<Rightarrow> prefix_rule \<Rightarrow> bool" where
  "prefix_matches_rule attrs r = conditions_hold attrs (pr_conditions r)"

definition validate_prefix_token :: "(string \<Rightarrow> bool) \<Rightarrow> string \<Rightarrow> prefix_error + unit" where
  "validate_prefix_token pat t =
     raise_if (\<not> pat t) (PrefixTokenFormatError
       (''Derived prefix '' @ [CHR 39] @ t @ [CHR 39] @ '' violates configured token format.''))"

definition ranked_prefixes :: "string dict \<Rightarrow> prefix_rule list \<Rightarrow> prefix_rule list" where
  "ranked_prefixes attrs rules =
     filter (prefix_matches_rule attrs) (sort_key (\<lambda>r. (- pr_priority r, pr_id r)) rules)"

definition derive_prefix ::
    "string dict \<Rightarrow> prefix_rule list \<Rightarrow> string option \<Rightarrow> (string \<Rightarrow> bool) \<Rightarrow>
     prefix_error + prefix_decision" where
  "derive_prefix attrs rules fallback_prefix pat =
     rbind (validate_prefix_rules rules) (\<lambda>_.
       case ranked_prefixes attrs rules of
         r # ts \<Rightarrow>
           (case filter (\<lambda>q. pr_priority q = pr_priority r) (r # ts) of
              [selected] \<Rightarrow>
                rbind (validate_prefix_token pat (pr_prefix selected)) (\<lambda>_.
                  Inr \<lparr>pd_kind = PREFIX_DERIVED, pd_token = Some (pr_prefix selected),
                       pd_matched_rule_id = Some (pr_id selected),
                       pd_diagnostics = map pr_id (r # ts)\<rparr>)
            | _ \<Rightarrow> Inl (PrefixRuleAmbiguityError
                     ''Multiple matching prefix rules share the same top priority.''))
       | [] \<Rightarrow>
           (case fallback_prefix of
              None \<Rightarrow> Inl (PrefixDerivationNotFoundError
                       ''No prefix rule matched and no fallback prefix was configured.'')
            | Some t \<Rightarrow>
                rbind (validate_prefix_token pat t) (\<lambda>_.
                  Inr \<lparr>pd_kind = PREFIX_FALLBACK, pd_token = Some t,
                       pd_matched_rule_id = None, pd_diagnostics = [''fallback'']\<rparr>)))"

interpretation prefixes: ranked_rules pr_priority pr_id "prefix_matches_rule attrs"
  "ranked_prefixes attrs" for attrs
  using ranked_rules_sort_filter [of pr_priority pr_id "prefix_matches_rule attrs"]
  by (simp add: ranked_prefixes_def [abs_def])

lemma validate_prefix_token_iff [result_simps]:
  "validate_prefix_token pat t = Inr u \<longleftrightarrow> pat t"
  by (simp add: validate_prefix_token_def result_simps)

lemma derive_prefix_nonempty_ranked:
  assumes "derive_prefix attrs rules fb pat = Inr d" and "ranked_prefixes attrs rules = r # ts"
  shows "filter (\<lambda>q. pr_priority q = pr_priority r) (r # ts) = [r] \<and> pat (pr_prefix r) \<and>
    d = \<lparr>pd_kind = PREFIX_DERIVED, pd_token = Some (pr_prefix r),
         pd_matched_rule_id = Some (pr_id r), pd_diagnostics = map pr_id (r # ts)\<rparr>"
  using assms by (auto simp: derive_prefix_def result_simps split: list.splits)

text \<open>
  A derived prefix always has the configured token format. It comes from a matching rule that
  strictly outranks every other matching rule; the fallback is used only when no rule matches, and
  no decision is ever the rejected kind.
\<close>

theorem derive_prefix_sound:
  assumes "derive_prefix attrs rules fb pat = Inr d"
  shows "(\<exists>t. pd_token d = Some t \<and> pat t) \<and>
    (case pd_kind d of
       PREFIX_DERIVED \<Rightarrow> (\<exists>r \<in> set rules. prefix_matches_rule attrs r \<and> pd_token d = Some (pr_prefix r) \<and>
          pd_matched_rule_id d = Some (pr_id r) \<and>
          (\<forall>q \<in> set rules. prefix_matches_rule attrs q \<and> q \<noteq> r \<longrightarrow> pr_priority q < pr_priority r))
     | PREFIX_FALLBACK \<Rightarrow> pd_token d = fb \<and> pd_matched_rule_id d = None \<and>
          (\<forall>r \<in> set rules. \<not> prefix_matches_rule attrs r)
     | PREFIX_REJECTED \<Rightarrow> False)"
proof (cases "ranked_prefixes attrs rules")
  case Nil
  then have "\<forall>r \<in> set rules. \<not> prefix_matches_rule attrs r"
    by (simp add: prefixes.ranked_Nil_iff)
  with Nil assms show ?thesis
    by (auto simp: derive_prefix_def result_simps split: option.splits)
next
  case (Cons r ts)
  from derive_prefix_nonempty_ranked [OF assms Cons] prefixes.head_hits [OF Cons]
    prefixes.unique_top_outranks [OF Cons]
  show ?thesis by (auto simp del: filter.simps intro!: bexI [of _ r])
qed

theorem derive_prefix_sound_witness:
  "\<exists>d. derive_prefix [(''device'', ''sem'')] [] (Some ''misc'') word_token = Inr d \<and>
     (\<exists>t. pd_token d = Some t \<and> word_token t)"
proof -
  let ?d = "\<lparr>pd_kind = PREFIX_FALLBACK, pd_token = Some ''misc'',
       pd_matched_rule_id = None, pd_diagnostics = [''fallback'']\<rparr>"
  have h: "derive_prefix [(''device'', ''sem'')] [] (Some ''misc'') word_token = Inr ?d"
    by code_simp
  from derive_prefix_sound [OF h] show ?thesis using h by blast
qed

end
