(* ===== verification/Identifiers.thy ===== *)
theory Identifiers
  imports Prelude
begin

text \<open>
  Identifier parsing and composition (\<^verbatim>\<open>domain/naming/identifiers.py\<close>). The token pattern of the
  rules is its \<^verbatim>\<open>fullmatch\<close> predicate; \<open>re_split\<close> is \<^verbatim>\<open>re.split\<close> on the alternation of the escaped
  separators (leftmost position, first alternative that fits).
\<close>

datatype identifier_error =
    IdentifierEmptyError string
  | IdentifierSeparatorError string
  | IdentifierTokenCountError string
  | IdentifierCharacterError string

record identifier_rules =
  primary_separator :: string
  alternate_separators :: "string list"
  token_pattern :: "string \<Rightarrow> bool"
  min_tokens :: int
  max_tokens :: "int option"
  min_token_length :: int
  max_token_length :: "int option"
  casefold :: bool
  strip_whitespace :: bool

record parsed_identifier =
  pi_tokens :: "string list"
  pi_canonical :: string
  pi_separator :: string

record identifier_validation =
  iv_valid :: bool
  iv_reason :: "string option"
  iv_error_type :: "string option"

definition default_rules :: identifier_rules where
  "default_rules = \<lparr>primary_separator = ''-'', alternate_separators = [],
     token_pattern = (\<lambda>s. s \<noteq> [] \<and> list_all is_word_char s), min_tokens = 1, max_tokens = None,
     min_token_length = 1, max_token_length = None, casefold = False, strip_whitespace = True\<rparr>"

definition normalized_token :: "identifier_rules \<Rightarrow> string \<Rightarrow> string" where
  "normalized_token rules token =
     (let value = (if strip_whitespace rules then strip token else token)
      in if casefold rules then str_lower value else value)"

definition normalized_text :: "identifier_rules \<Rightarrow> string \<Rightarrow> string" where
  "normalized_text rules value =
     (let text = (if strip_whitespace rules then strip value else value)
      in if casefold rules then str_lower text else text)"

fun validate_alternates ::
    "string \<Rightarrow> string list \<Rightarrow> string list \<Rightarrow> identifier_error + unit" where
  "validate_alternates primary seen [] = Inr ()"
| "validate_alternates primary seen (sep # seps) =
     (if sep = [] \<or> str_isspace sep
      then Inl (IdentifierSeparatorError ''Alternate separators must be non-empty.'')
      else if sep = primary
      then Inl (IdentifierSeparatorError
        ''Primary separator cannot also appear in alternate separators.'')
      else if sep \<in> set seen
      then Inl (IdentifierSeparatorError ''Alternate separators must be unique.'')
      else validate_alternates primary (sep # seen) seps)"

definition validate_separator_rules :: "identifier_rules \<Rightarrow> identifier_error + unit" where
  "validate_separator_rules rules =
     (if primary_separator rules = [] \<or> str_isspace (primary_separator rules)
      then Inl (IdentifierSeparatorError ''Primary separator must be non-empty.'')
      else rbind (validate_alternates (primary_separator rules) [] (alternate_separators rules))
        (\<lambda>_. if min_tokens rules < 1
             then Inl (IdentifierTokenCountError ''Minimum token count must be >= 1.'')
             else case max_tokens rules of
                 None \<Rightarrow> Inr ()
               | Some m \<Rightarrow> raise_if (m < min_tokens rules)
                   (IdentifierTokenCountError
                     ''Maximum token count must be >= minimum token count.'')))"

definition separator_at :: "string list \<Rightarrow> string \<Rightarrow> string option" where
  "separator_at seps s = find (\<lambda>p. p \<noteq> [] \<and> starts_with p s) seps"

function re_split :: "string list \<Rightarrow> string \<Rightarrow> string list" where
  "re_split seps [] = [ [] ]"
| "re_split seps (c # s) =
     (case separator_at seps (c # s) of
        Some p \<Rightarrow> [] # re_split seps (drop (length p) (c # s))
      | None \<Rightarrow> (case re_split seps s of [] \<Rightarrow> [ [c] ] | t # ts \<Rightarrow> (c # t) # ts))"
  by pat_completeness auto
termination
  by (relation "measure (\<lambda>(_, s). length s)")
    (auto simp: separator_at_def find_Some_iff)

definition separators :: "identifier_rules \<Rightarrow> string list" where
  "separators rules = primary_separator rules # alternate_separators rules"

definition split_tokens :: "identifier_rules \<Rightarrow> string \<Rightarrow> identifier_error + string list" where
  "split_tokens rules raw =
     (let raw_tokens = re_split (separators rules) raw
      in if [] \<in> set raw_tokens
         then Inl (IdentifierTokenCountError ''Identifier token count contains empty tokens.'')
         else Inr (map (normalized_token rules) raw_tokens))"

definition validate_token :: "identifier_rules \<Rightarrow> string \<Rightarrow> identifier_error + string" where
  "validate_token rules token =
     (if int (length token) < min_token_length rules
      then Inl (IdentifierCharacterError ''Identifier token is shorter than allowed.'')
      else if (case max_token_length rules of None \<Rightarrow> False | Some m \<Rightarrow> int (length token) > m)
      then Inl (IdentifierCharacterError ''Identifier token is longer than allowed.'')
      else if \<not> token_pattern rules token
      then Inl (IdentifierCharacterError
        (''Identifier token '' @ [CHR 39] @ token @ [CHR 39] @ '' contains invalid characters.''))
      else Inr token)"

definition validate_tokens :: "identifier_rules \<Rightarrow> string list \<Rightarrow> identifier_error + string list" where
  "validate_tokens rules tokens =
     (if int (length tokens) < min_tokens rules
      then Inl (IdentifierTokenCountError
        ''Identifier token count is below configured minimum token count.'')
      else if (case max_tokens rules of None \<Rightarrow> False | Some m \<Rightarrow> int (length tokens) > m)
      then Inl (IdentifierTokenCountError
        ''Identifier token count exceeds configured maximum token count.'')
      else rmap (validate_token rules) tokens)"

definition parse_identifier :: "identifier_rules \<Rightarrow> string \<Rightarrow> identifier_error + parsed_identifier" where
  "parse_identifier rules raw =
     rbind (validate_separator_rules rules) (\<lambda>_.
     let normalized = normalized_text rules raw in
     rbind (raise_if (normalized = []) (IdentifierEmptyError ''Identifier input is empty.'')) (\<lambda>_.
     rbind (split_tokens rules normalized) (\<lambda>tokens.
     rbind (validate_tokens rules tokens) (\<lambda>valid_tokens.
     Inr \<lparr>pi_tokens = valid_tokens,
          pi_canonical = str_join (primary_separator rules) valid_tokens,
          pi_separator = primary_separator rules\<rparr>))))"

definition compose_identifier :: "identifier_rules \<Rightarrow> string list \<Rightarrow> identifier_error + string" where
  "compose_identifier rules tokens =
     rbind (validate_separator_rules rules) (\<lambda>_.
     rbind (validate_tokens rules (map (normalized_token rules) tokens)) (\<lambda>valid_tokens.
     Inr (str_join (primary_separator rules) valid_tokens)))"

fun identifier_error_name :: "identifier_error \<Rightarrow> string" where
  "identifier_error_name (IdentifierEmptyError _) = ''IdentifierEmptyError''"
| "identifier_error_name (IdentifierSeparatorError _) = ''IdentifierSeparatorError''"
| "identifier_error_name (IdentifierTokenCountError _) = ''IdentifierTokenCountError''"
| "identifier_error_name (IdentifierCharacterError _) = ''IdentifierCharacterError''"

fun identifier_error_text :: "identifier_error \<Rightarrow> string" where
  "identifier_error_text (IdentifierEmptyError m) = m"
| "identifier_error_text (IdentifierSeparatorError m) = m"
| "identifier_error_text (IdentifierTokenCountError m) = m"
| "identifier_error_text (IdentifierCharacterError m) = m"

definition validate_identifier :: "identifier_rules \<Rightarrow> string \<Rightarrow> identifier_validation" where
  "validate_identifier rules raw =
     (case parse_identifier rules raw of
        Inl e \<Rightarrow> \<lparr>iv_valid = False, iv_reason = Some (identifier_error_text e),
                  iv_error_type = Some (identifier_error_name e)\<rparr>
      | Inr _ \<Rightarrow> \<lparr>iv_valid = True, iv_reason = None, iv_error_type = None\<rparr>)"

section \<open>Splitting and joining on one-character separators\<close>

definition char_separators :: "identifier_rules \<Rightarrow> bool" where
  "char_separators rules \<longleftrightarrow> list_all (\<lambda>s. length s = 1) (separators rules)"

definition separator_free :: "string list \<Rightarrow> string \<Rightarrow> bool" where
  "separator_free seps t \<longleftrightarrow> (\<forall>c \<in> set t. [c] \<notin> set seps)"

lemma separator_at_char:
  assumes "list_all (\<lambda>s. length s = 1) seps"
  shows "separator_at seps (c # s) = (if [c] \<in> set seps then Some [c] else None)"
  using assms
proof (induction seps)
  case (Cons p seps)
  then show ?case
    by (cases p) (auto simp: separator_at_def starts_with_def)
qed (simp add: separator_at_def)

lemma re_split_ne [simp]: "re_split seps s \<noteq> []"
  by (cases s) (auto split: option.splits list.splits)

lemma re_split_chars: "t \<in> set (re_split seps s) \<Longrightarrow> set t \<subseteq> set s"
proof (induction seps s arbitrary: t rule: re_split.induct)
  case (2 seps c s)
  show ?case
  proof (cases "separator_at seps (c # s)")
    case None
    obtain u us where u: "re_split seps s = u # us" by (meson re_split_ne list.exhaust)
    with "2.prems" None have "t = c # u \<or> t \<in> set us" by simp
    moreover have "set v \<subseteq> set s" if "v \<in> set (u # us)" for v
      using "2.IH"(1) [OF None] that u by simp
    ultimately show ?thesis by fastforce
  next
    case (Some p)
    with "2.prems" have "t = [] \<or> t \<in> set (re_split seps (drop (length p) (c # s)))" by simp
    then show ?thesis using "2.IH"(2) [OF Some] set_drop_subset by fastforce
  qed
qed simp

lemma re_split_separator_free:
  assumes "list_all (\<lambda>s. length s = 1) seps" and "t \<in> set (re_split seps s)"
  shows "separator_free seps t"
  using assms
proof (induction seps s arbitrary: t rule: re_split.induct)
  case (2 seps c s)
  show ?case
  proof (cases "[c] \<in> set seps")
    case True
    then have at: "separator_at seps (c # s) = Some [c]" using "2.prems"(1) by (simp add: separator_at_char)
    with "2.prems" have "t = [] \<or> t \<in> set (re_split seps s)" by simp
    then show ?thesis using "2.IH"(2) [OF at] "2.prems"(1) by (auto simp: separator_free_def)
  next
    case False
    then have at: "separator_at seps (c # s) = None" using "2.prems"(1) by (simp add: separator_at_char)
    obtain u us where u: "re_split seps s = u # us" by (meson re_split_ne list.exhaust)
    with "2.prems" at have "t = c # u \<or> t \<in> set us" by simp
    moreover have "separator_free seps v" if "v \<in> set (u # us)" for v
      using "2.IH"(1) [OF at "2.prems"(1)] that u by simp
    ultimately show ?thesis using False by (force simp: separator_free_def)
  qed
qed (simp add: separator_free_def)

lemma re_split_prefix:
  assumes "list_all (\<lambda>s. length s = 1) seps" and "separator_free seps t"
  shows "re_split seps (t @ s) = (t @ hd (re_split seps s)) # tl (re_split seps s)"
  using assms(2)
proof (induction t)
  case Nil
  then show ?case by simp
next
  case (Cons c t)
  then have "separator_at seps (c # t @ s) = None"
    using assms(1) by (simp add: separator_at_char separator_free_def)
  with Cons show ?case by (simp add: separator_free_def)
qed

lemma re_split_join:
  assumes "list_all (\<lambda>s. length s = 1) seps" and "sep \<in> set seps"
    and "ts \<noteq> []" and "list_all (separator_free seps) ts"
  shows "re_split seps (str_join sep ts) = ts"
  using assms(3,4)
proof (induction ts rule: induct_list012)
  case (2 t)
  then show ?case using re_split_prefix [OF assms(1), of t "[]"] by simp
next
  case (3 t u ts)
  obtain c where c: "sep = [c]"
    using assms(1,2) by (auto simp: list_all_iff length_Suc_conv)
  have "re_split seps (c # str_join sep (u # ts)) = [] # (u # ts)"
    using 3 assms(1,2) c by (simp add: separator_at_char)
  then show ?case using re_split_prefix [OF assms(1), of t] 3 c by simp
qed simp

lemma validate_tokens_Inr:
  "validate_tokens rules ts = Inr vs \<longleftrightarrow>
     vs = ts \<and> min_tokens rules \<le> int (length ts) \<and>
     (\<forall>m. max_tokens rules = Some m \<longrightarrow> int (length ts) \<le> m) \<and>
     (\<forall>t \<in> set ts. validate_token rules t = Inr t)"
proof -
  have v: "validate_token rules t = Inr v \<Longrightarrow> v = t" for t v
    by (auto simp: validate_token_def split: if_splits)
  have "rmap (validate_token rules) ts = Inr vs \<longleftrightarrow> vs = ts \<and> (\<forall>t \<in> set ts. validate_token rules t = Inr t)"
    by (induction ts arbitrary: vs) (auto simp: result_simps dest: v)
  then show ?thesis by (auto simp: validate_tokens_def split: option.splits)
qed

lemma validate_token_length:
  "validate_token rules t = Inr t' \<Longrightarrow> min_token_length rules \<le> int (length t)"
  by (auto simp: validate_token_def split: if_splits)

lemma validate_separator_rules_primary:
  "validate_separator_rules rules = Inr u \<Longrightarrow>
     primary_separator rules \<noteq> [] \<and> \<not> str_isspace (primary_separator rules) \<and> 1 \<le> min_tokens rules"
  by (auto simp: validate_separator_rules_def result_simps split: if_splits)

lemma str_join_ends:
  assumes "ts \<noteq> []" and "\<And>t. t \<in> set ts \<Longrightarrow> t \<noteq> [] \<and> \<not> is_space (hd t) \<and> \<not> is_space (last t)"
  shows "str_join sep ts \<noteq> [] \<and> \<not> is_space (hd (str_join sep ts)) \<and>
         \<not> is_space (last (str_join sep ts))"
  using assms by (induction ts rule: induct_list012) auto

lemma strip_join_tokens:
  assumes "ts \<noteq> []" and "\<And>t. t \<in> set ts \<Longrightarrow> t \<noteq> [] \<and> strip t = t"
  shows "strip (str_join sep ts) = str_join sep ts"
proof -
  have "\<not> is_space (hd t) \<and> \<not> is_space (last t)" if "t \<in> set ts" for t
    using assms(2) [OF that] strip_hd [of t] strip_last [of t] by auto
  then show ?thesis using str_join_ends [OF assms(1), of sep] assms(2)
    by (intro strip_no_outer_space) auto
qed

lemma str_lower_join:
  "str_lower (str_join sep ts) = str_join (str_lower sep) (map str_lower ts)"
  by (induction ts rule: induct_list012) (simp_all add: str_lower_def)

text \<open>
  The condition under which a token sequence survives a trip through the canonical text: the
  separators are single characters, case folding leaves the primary one alone, tokens are
  already normalised, non-empty and free of separators.
\<close>

lemma parse_canonical:
  assumes sep: "validate_separator_rules rules = Inr ()" "char_separators rules"
      "casefold rules \<longrightarrow> str_lower (primary_separator rules) = primary_separator rules"
    and ts: "validate_tokens rules ts = Inr ts" "ts \<noteq> []"
      "\<And>t. t \<in> set ts \<Longrightarrow> t \<noteq> [] \<and> normalized_token rules t = t \<and> separator_free (separators rules) t"
  shows "parse_identifier rules (str_join (primary_separator rules) ts) =
    Inr \<lparr>pi_tokens = ts, pi_canonical = str_join (primary_separator rules) ts,
         pi_separator = primary_separator rules\<rparr>"
proof -
  let ?s = "str_join (primary_separator rules) ts"
  have st: "strip_whitespace rules \<Longrightarrow> strip t = t" if "t \<in> set ts" for t
    using ts(3) [OF that] str_lower_strip [of t]
    by (metis normalized_token_def strip_strip)
  have lo: "casefold rules \<Longrightarrow> str_lower t = t" if "t \<in> set ts" for t
    using ts(3) [OF that] by (metis normalized_token_def str_lower_idem)
  have "strip_whitespace rules \<Longrightarrow> strip ?s = ?s" using strip_join_tokens ts(2,3) st by blast
  moreover have "casefold rules \<Longrightarrow> str_lower ?s = ?s"
    using lo sep(3) by (simp add: str_lower_join map_idI)
  ultimately have "normalized_text rules ?s = ?s" by (simp add: normalized_text_def Let_def)
  moreover have "re_split (separators rules) ?s = ts"
    using sep(2) ts(2,3)
    by (intro re_split_join) (auto simp: char_separators_def separators_def list_all_iff)
  moreover have "[] \<notin> set ts" using ts(3) by blast
  moreover from this ts(2) have "?s \<noteq> []" by (cases ts; cases "tl ts") auto
  moreover have "map (normalized_token rules) ts = ts" using ts(3) by (simp add: map_idI)
  ultimately show ?thesis using sep(1) ts(1) by (simp add: parse_identifier_def split_tokens_def)
qed

lemma normalized_token_idem [simp]:
  "normalized_token rules (normalized_token rules t) = normalized_token rules t"
  by (simp add: normalized_token_def Let_def str_lower_strip [symmetric])

lemma normalized_token_separator_free:
  assumes "separator_free seps t" and "casefold rules \<longrightarrow> str_lower t = t"
  shows "separator_free seps (normalized_token rules t)"
proof -
  have "str_lower (strip t) = strip t" if "str_lower t = t" using that by (simp add: str_lower_strip)
  then show ?thesis using assms set_strip [of t]
    by (auto simp: separator_free_def normalized_token_def Let_def)
qed

lemma parse_identifier_parts:
  assumes "parse_identifier rules raw = Inr p" and "1 \<le> min_token_length rules" and "char_separators rules"
  shows "validate_separator_rules rules = Inr () \<and> validate_tokens rules (pi_tokens p) = Inr (pi_tokens p) \<and>
    pi_tokens p \<noteq> [] \<and>
    p = \<lparr>pi_tokens = pi_tokens p, pi_canonical = str_join (primary_separator rules) (pi_tokens p),
         pi_separator = primary_separator rules\<rparr> \<and>
    (\<forall>t \<in> set (pi_tokens p). t \<noteq> [] \<and> normalized_token rules t = t \<and> separator_free (separators rules) t)"
proof -
  let ?n = "normalized_text rules raw"
  obtain ts where sr: "validate_separator_rules rules = Inr ()" and sp: "split_tokens rules ?n = Inr ts"
    and vt: "validate_tokens rules ts = Inr ts" and p: "p = \<lparr>pi_tokens = ts,
      pi_canonical = str_join (primary_separator rules) ts, pi_separator = primary_separator rules\<rparr>"
    using assms(1) by (auto simp: parse_identifier_def result_simps validate_tokens_Inr Let_def)
  have ne: "ts \<noteq> []"
    using vt validate_separator_rules_primary [OF sr] by (auto simp: validate_tokens_Inr)
  have ts: "ts = map (normalized_token rules) (re_split (separators rules) ?n)"
    using sp by (auto simp: split_tokens_def Let_def split: if_splits)
  have low: "casefold rules \<longrightarrow> str_lower ?n = ?n" by (auto simp: normalized_text_def Let_def)
  have "t \<noteq> [] \<and> normalized_token rules t = t \<and> separator_free (separators rules) t"
    if t: "t \<in> set ts" for t
  proof -
    have "1 \<le> int (length t)"
      using vt t assms(2) validate_token_length by (force simp: validate_tokens_Inr)
    moreover obtain r where r: "r \<in> set (re_split (separators rules) ?n)" "t = normalized_token rules r"
      using t ts by auto
    have "casefold rules \<longrightarrow> str_lower r = r"
    proof
      assume "casefold rules"
      then have "\<forall>c \<in> set ?n. lower_char c = c"
        using low by (metis map_eq_conv list.map_ident str_lower_def)
      then show "str_lower r = r"
        using re_split_chars [OF r(1)] by (auto simp: str_lower_def intro: map_idI)
    qed
    then have "separator_free (separators rules) t"
      using re_split_separator_free [OF _ r(1)] assms(3) r(2)
      by (auto simp: char_separators_def intro: normalized_token_separator_free)
    ultimately show ?thesis using r(2) by auto
  qed
  with sr vt ne p show ?thesis by simp
qed

section \<open>Properties\<close>

text \<open>
  Parsing normalises: the canonical text of a parsed identifier parses back to the very same
  tokens, canonical text and separator, whenever the separators are single characters that case
  folding leaves alone and empty tokens are not allowed (the default rules, for instance).
\<close>

theorem parse_identifier_canonical_fixpoint:
  assumes "parse_identifier rules raw = Inr p"
    and "char_separators rules" and "1 \<le> min_token_length rules"
    and "casefold rules \<longrightarrow> str_lower (primary_separator rules) = primary_separator rules"
  shows "parse_identifier rules (pi_canonical p) = Inr p"
proof -
  note parts = parse_identifier_parts [OF assms(1,3,2)]
  then have "parse_identifier rules (str_join (primary_separator rules) (pi_tokens p)) =
    Inr \<lparr>pi_tokens = pi_tokens p, pi_canonical = str_join (primary_separator rules) (pi_tokens p),
         pi_separator = primary_separator rules\<rparr>"
    using assms(2,4) by (intro parse_canonical) auto
  moreover have "pi_canonical p = str_join (primary_separator rules) (pi_tokens p)"
    using parts by (metis parsed_identifier.select_convs(2))
  ultimately show ?thesis using parts by metis
qed

definition demo_identifier_rules :: identifier_rules where
  "demo_identifier_rules = default_rules\<lparr>alternate_separators := ['','' , '';''], casefold := True\<rparr>"

theorem parse_identifier_canonical_fixpoint_witness:
  "\<exists>p. parse_identifier demo_identifier_rules ''  Lab, B2;s_1 '' = Inr p \<and>
     pi_canonical p = ''lab-b2-s_1'' \<and>
     parse_identifier demo_identifier_rules (pi_canonical p) = Inr p"
proof -
  let ?p = "\<lparr>pi_tokens = [''lab'', ''b2'', ''s_1''], pi_canonical = ''lab-b2-s_1'', pi_separator = ''-''\<rparr>"
  have h: "parse_identifier demo_identifier_rules ''  Lab, B2;s_1 '' = Inr ?p" by code_simp
  have "char_separators demo_identifier_rules" "1 \<le> min_token_length demo_identifier_rules"
    "casefold demo_identifier_rules \<longrightarrow>
       str_lower (primary_separator demo_identifier_rules) = primary_separator demo_identifier_rules"
    by code_simp+
  from parse_identifier_canonical_fixpoint [OF h this] show ?thesis using h by auto
qed

text \<open>
  Composing and parsing are inverse: when the composed tokens cannot contain a separator, the
  composed text parses to exactly the normalised tokens, in order.
\<close>

theorem compose_then_parse:
  assumes "compose_identifier rules tokens = Inr s"
    and "char_separators rules" and "1 \<le> min_token_length rules"
    and "casefold rules \<longrightarrow> str_lower (primary_separator rules) = primary_separator rules"
    and "\<And>t. token_pattern rules t \<Longrightarrow> separator_free (separators rules) t"
  shows "parse_identifier rules s = Inr \<lparr>pi_tokens = map (normalized_token rules) tokens,
           pi_canonical = s, pi_separator = primary_separator rules\<rparr>"
proof -
  let ?ts = "map (normalized_token rules) tokens"
  have sr: "validate_separator_rules rules = Inr ()" and vt: "validate_tokens rules ?ts = Inr ?ts"
    and s: "s = str_join (primary_separator rules) ?ts"
    using assms(1) by (auto simp: compose_identifier_def result_simps validate_tokens_Inr)
  have "?ts \<noteq> []"
    using vt validate_separator_rules_primary [OF sr] by (auto simp: validate_tokens_Inr)
  moreover have "t \<noteq> [] \<and> normalized_token rules t = t \<and> separator_free (separators rules) t"
    if t: "t \<in> set ?ts" for t
  proof -
    have v: "validate_token rules t = Inr t" using vt t by (auto simp: validate_tokens_Inr)
    then have "token_pattern rules t" by (auto simp: validate_token_def split: if_splits)
    then show ?thesis using t assms(3,5) validate_token_length [OF v] by auto
  qed
  ultimately show ?thesis unfolding s using parse_canonical [OF sr assms(2,4) vt] by blast
qed

theorem compose_then_parse_witness:
  "\<exists>s. compose_identifier default_rules ['' ab'', ''c_9''] = Inr s \<and> s = ''ab-c_9'' \<and>
     parse_identifier default_rules s =
       Inr \<lparr>pi_tokens = [''ab'', ''c_9''], pi_canonical = ''ab-c_9'', pi_separator = ''-''\<rparr>"
proof -
  have h: "compose_identifier default_rules ['' ab'', ''c_9''] = Inr ''ab-c_9''" by code_simp
  have c: "char_separators default_rules" "1 \<le> min_token_length default_rules"
    "casefold default_rules \<longrightarrow>
       str_lower (primary_separator default_rules) = primary_separator default_rules"
    by code_simp+
  have "\<not> is_word_char CHR ''-''" by code_simp
  then have "token_pattern default_rules t \<Longrightarrow> separator_free (separators default_rules) t" for t
    by (auto simp: default_rules_def separator_free_def separators_def list_all_iff)
  from compose_then_parse [OF h c this]
  have "parse_identifier default_rules ''ab-c_9'' =
      Inr \<lparr>pi_tokens = map (normalized_token default_rules) ['' ab'', ''c_9''],
           pi_canonical = ''ab-c_9'', pi_separator = primary_separator default_rules\<rparr>" .
  moreover have "map (normalized_token default_rules) ['' ab'', ''c_9''] = [''ab'', ''c_9'']"
    "primary_separator default_rules = ''-''" by code_simp+
  ultimately show ?thesis using h by simp
qed

end
