(* ===== verification/Naming_Policy.thy ===== *)
theory Naming_Policy
  imports Prelude
begin

text \<open>
  Canonical name composition (\<^verbatim>\<open>domain/naming/policy.py\<close>). The SHA-256 hex digest of a text
  (\<^verbatim>\<open>hashlib\<close>) is the parameter \<open>sha256\<close>; the allowed segment pattern is its \<^verbatim>\<open>fullmatch\<close> predicate.
\<close>

datatype naming_error =
    NamingMissingSegmentError string
  | NamingSegmentValidationError string
  | NamingTemplateError string
  | NamingLengthError string

definition KNOWN_SEGMENTS :: "string list" where
  "KNOWN_SEGMENTS = [''prefix'', ''identifier'', ''timestamp'', ''batch'', ''route'']"

record naming_template =
  nt_segments :: "string list"
  nt_separator :: string
  nt_required_segments :: "string list option"

record naming_constraints =
  nc_max_length :: int
  nc_allowed :: "string \<Rightarrow> bool"

record naming_result =
  nr_canonical_name :: string
  nr_segments :: "(string \<times> string) list"
  nr_normalized_alternate :: string
  nr_identity_hash :: string

definition quoted :: "string \<Rightarrow> string" where
  "quoted s = [CHR 39] @ s @ [CHR 39]"

text \<open>\<^verbatim>\<open>template.required_segments or template.segments\<close>: an empty tuple also falls back.\<close>

definition required_segments :: "naming_template \<Rightarrow> string list" where
  "required_segments t =
     (case nt_required_segments t of None \<Rightarrow> nt_segments t
      | Some [] \<Rightarrow> nt_segments t | Some rs \<Rightarrow> rs)"

definition validate_template :: "naming_template \<Rightarrow> naming_error + string list" where
  "validate_template t =
     rbind (raise_if (nt_separator t = []) (NamingTemplateError ''Template separator must be non-empty.''))
     (\<lambda>_. rbind (raise_if (nt_segments t = [])
                  (NamingTemplateError ''Template must contain at least one segment.''))
     (\<lambda>_. rbind (rmap (\<lambda>s. raise_if (s \<notin> set KNOWN_SEGMENTS)
                  (NamingTemplateError (''Unknown segment placeholder '' @ quoted s @ '' in naming template.'')))
                  (nt_segments t))
     (\<lambda>_. rbind (rmap (\<lambda>s. raise_if (s \<notin> set (nt_segments t))
                  (NamingTemplateError ''Required segment definitions must exist in template segments.''))
                  (required_segments t))
     (\<lambda>_. Inr (required_segments t)))))"

definition validate_segment_value :: "naming_constraints \<Rightarrow> string \<Rightarrow> string \<Rightarrow> naming_error + unit" where
  "validate_segment_value cs segment_name value =
     (if value = []
      then Inl (NamingMissingSegmentError (''Missing required segment token for '' @ quoted segment_name @ ''.''))
      else raise_if (\<not> nc_allowed cs value)
        (NamingSegmentValidationError (''Segment '' @ quoted segment_name @ '' contains invalid characters.'')))"

definition stable_hash :: "(string \<Rightarrow> string) \<Rightarrow> string \<Rightarrow> string" where
  "stable_hash sha256 text = take 16 (sha256 text)"

fun collect_segments ::
    "naming_constraints \<Rightarrow> string list \<Rightarrow> string dict \<Rightarrow> string list \<Rightarrow>
     naming_error + (string \<times> string) list" where
  "collect_segments cs required vals [] = Inr []"
| "collect_segments cs required vals (seg # segs) =
     (case map_of vals seg of
        None \<Rightarrow>
          if seg \<in> set required
          then Inl (NamingMissingSegmentError (''Missing required segment token for '' @ quoted seg @ ''.''))
          else collect_segments cs required vals segs
      | Some value \<Rightarrow>
          rbind (validate_segment_value cs seg value) (\<lambda>_.
          rbind (collect_segments cs required vals segs) (\<lambda>rest. Inr ((seg, value) # rest))))"

definition compose_name ::
    "(string \<Rightarrow> string) \<Rightarrow> naming_template \<Rightarrow> string dict \<Rightarrow> naming_constraints \<Rightarrow>
     naming_error + naming_result" where
  "compose_name sha256 t vals cs =
     rbind (validate_template t) (\<lambda>required.
     rbind (collect_segments cs required vals (nt_segments t)) (\<lambda>ordered.
     let composed = str_join (nt_separator t) (map snd ordered) in
     rbind (raise_if (int (length composed) > nc_max_length cs)
       (NamingLengthError ''Composed name exceeds configured maximum length constraint.'')) (\<lambda>_.
     Inr \<lparr>nr_canonical_name = composed, nr_segments = ordered,
          nr_normalized_alternate = str_lower composed, nr_identity_hash = stable_hash sha256 composed\<rparr>)))"

definition compose_many ::
    "(string \<Rightarrow> string) \<Rightarrow> naming_template \<Rightarrow> string dict list \<Rightarrow> naming_constraints \<Rightarrow>
     naming_error + naming_result list" where
  "compose_many sha256 t values_list cs = rmap (\<lambda>vals. compose_name sha256 t vals cs) values_list"

text \<open>The segments that reach the name: those with a value, in template order.\<close>

definition present_segments :: "string dict \<Rightarrow> string list \<Rightarrow> (string \<times> string) list" where
  "present_segments vals segs =
     concat (map (\<lambda>s. case map_of vals s of None \<Rightarrow> [] | Some v \<Rightarrow> [(s, v)]) segs)"

lemma collect_segments_Inr:
  "collect_segments cs required vals segs = Inr out \<longleftrightarrow>
     out = present_segments vals segs \<and>
     (\<forall>s \<in> set segs. s \<in> set required \<longrightarrow> map_of vals s \<noteq> None) \<and>
     (\<forall>s \<in> set segs. \<forall>v. map_of vals s = Some v \<longrightarrow> v \<noteq> [] \<and> nc_allowed cs v)"
  by (induction segs arbitrary: out)
    (auto simp: present_segments_def result_simps validate_segment_value_def split: option.splits)

lemma rmap_raise_if_iff:
  "(\<exists>us. rmap (\<lambda>s. raise_if (P s) (e s)) xs = Inr us) \<longleftrightarrow> (\<forall>x \<in> set xs. \<not> P x)"
  by (induction xs) (auto simp: result_simps)

lemma validate_template_Inr:
  "validate_template t = Inr req \<longleftrightarrow>
     req = required_segments t \<and> nt_separator t \<noteq> [] \<and> nt_segments t \<noteq> [] \<and>
     set (nt_segments t) \<subseteq> set KNOWN_SEGMENTS \<and> set (required_segments t) \<subseteq> set (nt_segments t)"
  using rmap_raise_if_iff [of "\<lambda>s. s \<notin> set KNOWN_SEGMENTS"
      "\<lambda>s. NamingTemplateError (''Unknown segment placeholder '' @ quoted s @ '' in naming template.'')"
      "nt_segments t"]
    rmap_raise_if_iff [of "\<lambda>s. s \<notin> set (nt_segments t)"
      "\<lambda>s. NamingTemplateError ''Required segment definitions must exist in template segments.''"
      "required_segments t"]
  by (auto simp: validate_template_def result_simps)

text \<open>
  A composed name is the separator-joined sequence of the template's valued segments, in
  template order, no longer than the limit; every required segment is in it and every value is
  non-empty and allowed. Conversely, a valid template with such values within the limit always
  composes.
\<close>

theorem compose_name_correct:
  "compose_name sha256 t vals cs = Inr r \<longleftrightarrow>
     nt_separator t \<noteq> [] \<and> nt_segments t \<noteq> [] \<and>
     set (nt_segments t) \<subseteq> set KNOWN_SEGMENTS \<and> set (required_segments t) \<subseteq> set (nt_segments t) \<and>
     (\<forall>s \<in> set (required_segments t). map_of vals s \<noteq> None) \<and>
     (\<forall>s \<in> set (nt_segments t). \<forall>v. map_of vals s = Some v \<longrightarrow> v \<noteq> [] \<and> nc_allowed cs v) \<and>
     int (length (nr_canonical_name r)) \<le> nc_max_length cs \<and>
     nr_segments r = present_segments vals (nt_segments t) \<and>
     nr_canonical_name r = str_join (nt_separator t) (map snd (nr_segments r)) \<and>
     nr_normalized_alternate r = str_lower (nr_canonical_name r) \<and>
     nr_identity_hash r = take 16 (sha256 (nr_canonical_name r))"
  by (cases r) (auto simp: compose_name_def result_simps validate_template_Inr collect_segments_Inr
      stable_hash_def Let_def)

definition demo_template :: naming_template where
  "demo_template = \<lparr>nt_segments = [''prefix'', ''batch'', ''identifier''], nt_separator = ''_'',
     nt_required_segments = Some [''prefix'', ''identifier'']\<rparr>"

theorem compose_name_correct_witness:
  "\<exists>r. compose_name (\<lambda>s. s) demo_template [(''prefix'', ''lab''), (''identifier'', ''x-1'')]
         \<lparr>nc_max_length = 255, nc_allowed = (\<lambda>s. s \<noteq> [])\<rparr> = Inr r \<and>
     nr_canonical_name r = ''lab_x-1'' \<and>
     int (length (nr_canonical_name r)) \<le> 255"
proof -
  let ?r = "\<lparr>nr_canonical_name = ''lab_x-1'', nr_segments = [(''prefix'', ''lab''), (''identifier'', ''x-1'')],
     nr_normalized_alternate = ''lab_x-1'', nr_identity_hash = ''lab_x-1''\<rparr>"
  have h: "compose_name (\<lambda>s. s) demo_template [(''prefix'', ''lab''), (''identifier'', ''x-1'')]
         \<lparr>nc_max_length = 255, nc_allowed = (\<lambda>s. s \<noteq> [])\<rparr> = Inr ?r"
    by code_simp
  from compose_name_correct [THEN iffD1, OF h] have "int (length (nr_canonical_name ?r)) \<le> 255" by simp
  with h show ?thesis by auto
qed

end
