(* ===== verification/Staging.thy ===== *)
theory Staging
  imports Prelude
begin

text \<open>
  The staging state machine (\<^verbatim>\<open>domain/processing/staging.py\<close>): its states, events, transition
  table and the checked transition function, as a function and as a step relation on traces.
\<close>

datatype staging_error =
    StagingStateUnknownError string
  | StagingTransitionError string
  | StagingReasonRequiredError string
  | StagingAttemptOrderError string

datatype staging_state = OBSERVED | STABILIZED | ROUTED | PERSISTED | FAILED | REJECTED

datatype staging_event = EV_STABILIZED | EV_ROUTED | EV_PERSISTED | EV_FAILED | EV_REJECTED

fun state_value :: "staging_state \<Rightarrow> string" where
  "state_value OBSERVED = ''observed''"
| "state_value STABILIZED = ''stabilized''"
| "state_value ROUTED = ''routed''"
| "state_value PERSISTED = ''persisted''"
| "state_value FAILED = ''failed''"
| "state_value REJECTED = ''rejected''"

fun event_value :: "staging_event \<Rightarrow> string" where
  "event_value EV_STABILIZED = ''stabilized''"
| "event_value EV_ROUTED = ''routed''"
| "event_value EV_PERSISTED = ''persisted''"
| "event_value EV_FAILED = ''failed''"
| "event_value EV_REJECTED = ''rejected''"

definition TERMINAL_STATES :: "staging_state list" where
  "TERMINAL_STATES = [PERSISTED, FAILED, REJECTED]"

definition TRANSITIONS :: "((staging_state \<times> staging_event) \<times> staging_state) list" where
  "TRANSITIONS =
     [((OBSERVED, EV_STABILIZED), STABILIZED),
      ((STABILIZED, EV_ROUTED), ROUTED),
      ((ROUTED, EV_PERSISTED), PERSISTED),
      ((OBSERVED, EV_FAILED), FAILED),
      ((STABILIZED, EV_FAILED), FAILED),
      ((ROUTED, EV_FAILED), FAILED),
      ((OBSERVED, EV_REJECTED), REJECTED),
      ((STABILIZED, EV_REJECTED), REJECTED),
      ((ROUTED, EV_REJECTED), REJECTED)]"

record staging_trace_entry =
  te_from_state :: staging_state
  te_event :: staging_event
  te_to_state :: staging_state
  te_reason_code :: "string option"
  te_attempt_index :: "int option"

text \<open>An argument is an enum member or its wire token.\<close>

datatype 'a member_or_token = Member 'a | Token string

definition quote :: "string \<Rightarrow> string" where
  "quote s = [CHR 39] @ s @ [CHR 39]"

definition coerce_state :: "staging_state member_or_token \<Rightarrow> staging_error + staging_state" where
  "coerce_state x =
     (case x of Member s \<Rightarrow> Inr s
      | Token t \<Rightarrow>
          (case find (\<lambda>s. state_value s = t)
                  [OBSERVED, STABILIZED, ROUTED, PERSISTED, FAILED, REJECTED] of
             Some s \<Rightarrow> Inr s
           | None \<Rightarrow> Inl (StagingStateUnknownError (''Unknown staging state '' @ quote t @ ''.''))))"

definition coerce_event :: "staging_event member_or_token \<Rightarrow> staging_error + staging_event" where
  "coerce_event x =
     (case x of Member e \<Rightarrow> Inr e
      | Token t \<Rightarrow>
          (case find (\<lambda>e. event_value e = t)
                  [EV_STABILIZED, EV_ROUTED, EV_PERSISTED, EV_FAILED, EV_REJECTED] of
             Some e \<Rightarrow> Inr e
           | None \<Rightarrow> Inl (StagingTransitionError (''Unknown staging event '' @ quote t @ ''.''))))"

definition is_terminal_state :: "staging_state member_or_token \<Rightarrow> staging_error + bool" where
  "is_terminal_state x = rbind (coerce_state x) (\<lambda>s. Inr (s \<in> set TERMINAL_STATES))"

definition transition_state ::
    "staging_state member_or_token \<Rightarrow> staging_event member_or_token \<Rightarrow> string option \<Rightarrow>
     int option \<Rightarrow> int option \<Rightarrow> staging_error + staging_state \<times> staging_trace_entry" where
  "transition_state current_state event reason_code attempt_index previous_attempt_index =
     rbind (coerce_state current_state) (\<lambda>state.
     rbind (coerce_event event) (\<lambda>ev.
     if state \<in> set TERMINAL_STATES
     then Inl (StagingTransitionError
       (''Terminal state '' @ quote (state_value state) @ '' has no outbound transitions.''))
     else case map_of TRANSITIONS (state, ev) of
       None \<Rightarrow> Inl (StagingTransitionError
         (''Illegal staging transition ('' @ state_value state @ '', '' @ event_value ev @ '').''))
     | Some next_state \<Rightarrow>
         if ev \<in> {EV_FAILED, EV_REJECTED} \<and> (reason_code = None \<or> reason_code = Some [])
         then Inl (StagingReasonRequiredError ''Failure/reject transitions require reason_code.'')
         else if (case (attempt_index, previous_attempt_index) of
                    (Some a, Some p) \<Rightarrow> a < p | _ \<Rightarrow> False)
         then Inl (StagingAttemptOrderError ''attempt_index cannot regress.'')
         else Inr (next_state,
           \<lparr>te_from_state = state, te_event = ev, te_to_state = next_state,
            te_reason_code = reason_code, te_attempt_index = attempt_index\<rparr>)))"

section \<open>The lifecycle as a step relation\<close>

inductive staging_step :: "staging_state \<Rightarrow> staging_trace_entry \<Rightarrow> staging_state \<Rightarrow> bool" where
  "transition_state (Member s) (Member e) r a p = Inr (s', tr) \<Longrightarrow> staging_step s tr s'"

inductive staging_run :: "staging_state \<Rightarrow> staging_trace_entry list \<Rightarrow> staging_state \<Rightarrow> bool" where
  staging_start: "staging_run s [] s"
| staging_next: "staging_step s tr s' \<Longrightarrow> staging_run s' trs s'' \<Longrightarrow> staging_run s (tr # trs) s''"

inductive_cases staging_stepE: "staging_step s tr s'"
inductive_cases staging_run_ConsE: "staging_run s (tr # trs) s''"
inductive_simps staging_run_Nil: "staging_run s [] s'"

text \<open>The phase number grows along every transition.\<close>

fun phase :: "staging_state \<Rightarrow> nat" where
  "phase OBSERVED = 0"
| "phase STABILIZED = 1"
| "phase ROUTED = 2"
| "phase _ = 3"

lemma transition_state_member:
  "transition_state (Member s) (Member e) r a p = Inr (s', tr) \<longleftrightarrow>
     map_of TRANSITIONS (s, e) = Some s' \<and>
     (e \<in> {EV_FAILED, EV_REJECTED} \<longrightarrow> r \<noteq> None \<and> r \<noteq> Some []) \<and>
     (\<forall>x y. a = Some x \<and> p = Some y \<longrightarrow> y \<le> x) \<and>
     tr = \<lparr>te_from_state = s, te_event = e, te_to_state = s', te_reason_code = r, te_attempt_index = a\<rparr>"
  by (cases s; cases e; cases a; cases p)
    (auto simp: transition_state_def coerce_state_def coerce_event_def TERMINAL_STATES_def TRANSITIONS_def)

lemma staging_step_iff:
  "staging_step s tr s' \<longleftrightarrow>
     te_from_state tr = s \<and> te_to_state tr = s' \<and> map_of TRANSITIONS (s, te_event tr) = Some s' \<and>
     (te_event tr \<in> {EV_FAILED, EV_REJECTED} \<longrightarrow> te_reason_code tr \<noteq> None \<and> te_reason_code tr \<noteq> Some [])"
proof
  assume "staging_step s tr s'"
  then show "te_from_state tr = s \<and> te_to_state tr = s' \<and> map_of TRANSITIONS (s, te_event tr) = Some s' \<and>
     (te_event tr \<in> {EV_FAILED, EV_REJECTED} \<longrightarrow> te_reason_code tr \<noteq> None \<and> te_reason_code tr \<noteq> Some [])"
    by (auto elim!: staging_stepE simp: transition_state_member)
next
  assume "te_from_state tr = s \<and> te_to_state tr = s' \<and> map_of TRANSITIONS (s, te_event tr) = Some s' \<and>
     (te_event tr \<in> {EV_FAILED, EV_REJECTED} \<longrightarrow> te_reason_code tr \<noteq> None \<and> te_reason_code tr \<noteq> Some [])"
  then have "transition_state (Member s) (Member (te_event tr)) (te_reason_code tr)
      (te_attempt_index tr) None = Inr (s', tr)"
    by (cases tr) (auto simp: transition_state_member)
  then show "staging_step s tr s'" by (rule staging_step.intros)
qed

lemma staging_step_phase: "staging_step s tr s' \<Longrightarrow> phase s < phase s'"
  by (auto simp: staging_step_iff TRANSITIONS_def split: if_splits)

lemma phase_bound: "phase s \<le> 3"
  by (cases s) auto

lemma staging_run_length: "staging_run s trs s' \<Longrightarrow> phase s + length trs \<le> phase s'"
  by (induction rule: staging_run.induct) (auto dest: staging_step_phase)

lemma terminal_phase: "s \<in> set TERMINAL_STATES \<longleftrightarrow> phase s = 3"
  by (cases s) (auto simp: TERMINAL_STATES_def)

lemma persisted_trace:
  assumes "staging_run s trs PERSISTED"
  shows "(s = OBSERVED \<longrightarrow> map te_event trs = [EV_STABILIZED, EV_ROUTED, EV_PERSISTED]) \<and>
         (s = STABILIZED \<longrightarrow> map te_event trs = [EV_ROUTED, EV_PERSISTED]) \<and>
         (s = ROUTED \<longrightarrow> map te_event trs = [EV_PERSISTED]) \<and>
         (s = PERSISTED \<longrightarrow> trs = []) \<and> s \<noteq> FAILED \<and> s \<noteq> REJECTED"
  using assms
proof (induction s trs "PERSISTED" rule: staging_run.induct)
  case (staging_next s tr s' trs)
  then show ?case by (auto simp: staging_step_iff TRANSITIONS_def split: if_splits)
qed simp

text \<open>
  Every staging lifecycle is finite and ends: a run from the observed state has at most three
  transitions, no transition leaves a terminal state, every failure or rejection carries a
  non-empty reason, and a run that persists went through stabilized and routed in that order.
\<close>

theorem staging_lifecycle:
  assumes "staging_run OBSERVED trs s"
  shows "length trs \<le> 3 \<and>
    (s \<in> set TERMINAL_STATES \<longrightarrow> (\<nexists>tr s'. staging_step s tr s')) \<and>
    (\<forall>tr \<in> set trs. te_event tr \<in> {EV_FAILED, EV_REJECTED} \<longrightarrow>
        te_reason_code tr \<noteq> None \<and> te_reason_code tr \<noteq> Some []) \<and>
    (s = PERSISTED \<longrightarrow> map te_event trs = [EV_STABILIZED, EV_ROUTED, EV_PERSISTED])"
proof -
  have "length trs \<le> 3" using staging_run_length [OF assms] phase_bound [of s] by simp
  moreover have "\<not> staging_step s tr s'" if "s \<in> set TERMINAL_STATES" for tr s'
    using that staging_step_phase [of s tr s'] phase_bound [of s'] by (auto simp: terminal_phase)
  moreover have "\<forall>tr \<in> set trs. te_event tr \<in> {EV_FAILED, EV_REJECTED} \<longrightarrow>
        te_reason_code tr \<noteq> None \<and> te_reason_code tr \<noteq> Some []"
    using assms by (induction rule: staging_run.induct) (auto simp: staging_step_iff)
  moreover have "s = PERSISTED \<longrightarrow> map te_event trs = [EV_STABILIZED, EV_ROUTED, EV_PERSISTED]"
    using assms persisted_trace by blast
  ultimately show ?thesis by blast
qed

theorem staging_lifecycle_witness:
  "staging_run OBSERVED [\<lparr>te_from_state = OBSERVED, te_event = EV_REJECTED, te_to_state = REJECTED,
       te_reason_code = Some ''dup'', te_attempt_index = None\<rparr>] REJECTED \<and>
   (\<nexists>tr s'. staging_step REJECTED tr s')"
proof -
  let ?tr = "\<lparr>te_from_state = OBSERVED, te_event = EV_REJECTED, te_to_state = REJECTED,
       te_reason_code = Some ''dup'', te_attempt_index = None\<rparr>"
  have "staging_step OBSERVED ?tr REJECTED" by (simp add: staging_step_iff TRANSITIONS_def)
  then have r: "staging_run OBSERVED [?tr] REJECTED"
    by (rule staging_next) (rule staging_start)
  have t: "REJECTED \<in> set TERMINAL_STATES" by (simp add: TERMINAL_STATES_def)
  from staging_lifecycle [OF r] r t show ?thesis by blast
qed

end
