(* ===== verification/Outcomes.thy ===== *)
theory Outcomes
  imports Prelude
begin

text \<open>
  Processing outcomes (\<^verbatim>\<open>domain/processing/models.py\<close>) and their aggregation into batches
  (\<^verbatim>\<open>domain/processing/batch_models.py\<close>). The validation that a frozen dataclass runs in
  \<^verbatim>\<open>__post_init__\<close> is the checked constructor \<open>make_reason\<close> or \<open>make_outcome\<close>; a float is the exact
  rational it denotes, a \<^verbatim>\<open>datetime\<close> a number of microseconds.
\<close>

section \<open>Outcomes\<close>

datatype outcome_error =
    ProcessingStatusError string
  | ProcessingOutcomeConsistencyError string
  | ProcessingOutcomeMetadataError string
  | ProcessingReasonNamespaceError string
  | OutcomePyError py_error

datatype processing_status = PS_SUCCESS | PS_REJECTED | PS_FAILED | PS_RETRY

fun ps_value :: "processing_status \<Rightarrow> string" where
  "ps_value PS_SUCCESS = ''success''"
| "ps_value PS_REJECTED = ''rejected''"
| "ps_value PS_FAILED = ''failed''"
| "ps_value PS_RETRY = ''retry''"

definition ALLOWED_REASON_NAMESPACES :: "string list" where
  "ALLOWED_REASON_NAMESPACES =
     [''success'', ''validation'', ''failure'', ''retry'', ''processing'', ''error'']"

record processing_reason =
  rsn_namespace :: string
  rsn_code :: string

record processing_outcome =
  po_candidate_id :: string
  po_status :: processing_status
  po_reason :: processing_reason
  po_retry_delay :: "rat option"
  po_retry_attempt :: "int option"
  po_metadata :: "string dict"

definition make_reason :: "string \<Rightarrow> string \<Rightarrow> outcome_error + processing_reason" where
  "make_reason ns code =
     (if ns \<notin> set ALLOWED_REASON_NAMESPACES
      then Inl (ProcessingReasonNamespaceError
        (''Unknown reason namespace '' @ [CHR 39] @ ns @ [CHR 39] @ ''.''))
      else if code = [] then Inl (ProcessingOutcomeConsistencyError ''Reason code must be non-empty.'')
      else Inr \<lparr>rsn_namespace = ns, rsn_code = code\<rparr>)"

definition reason_token :: "processing_reason \<Rightarrow> string" where
  "reason_token r = rsn_namespace r @ ''.'' @ rsn_code r"

definition check_outcome :: "processing_outcome \<Rightarrow> outcome_error + unit" where
  "check_outcome po =
     (if po_candidate_id po = []
      then Inl (ProcessingOutcomeMetadataError ''candidate_id must be non-empty.'')
      else rbind
        (if po_status po = PS_RETRY then
           (case (po_retry_delay po, po_retry_attempt po) of
              (Some d, Some a) \<Rightarrow>
                if d < 0 then Inl (ProcessingOutcomeMetadataError
                  ''retry_delay_seconds must be >= 0 for retry outcomes.'')
                else raise_if (a < 0) (ProcessingOutcomeMetadataError
                  ''retry_attempt must be >= 0 for retry outcomes.'')
            | _ \<Rightarrow> Inl (ProcessingOutcomeMetadataError
                ''Retry outcomes require retry_delay_seconds and retry_attempt.''))
         else raise_if (po_retry_delay po \<noteq> None \<or> po_retry_attempt po \<noteq> None)
           (ProcessingOutcomeMetadataError ''Non-retry outcomes must not include retry metadata.''))
        (\<lambda>_. raise_if
          (po_status po = PS_SUCCESS \<and>
           rsn_namespace (po_reason po) \<in> {''failure'', ''error'', ''retry''})
          (ProcessingOutcomeConsistencyError
            ''Success outcome cannot use failure/error/retry reason namespace.'')))"

definition make_outcome :: "processing_outcome \<Rightarrow> outcome_error + processing_outcome" where
  "make_outcome po = rbind (check_outcome po) (\<lambda>_. Inr po)"

definition outcome_to_dict :: "processing_outcome \<Rightarrow> mapping" where
  "outcome_to_dict po =
     [(''candidate_id'', VStr (po_candidate_id po)),
      (''status'', VStr (ps_value (po_status po))),
      (''reason_namespace'', VStr (rsn_namespace (po_reason po))),
      (''reason_code'', VStr (rsn_code (po_reason po))),
      (''retry_delay_seconds'', case po_retry_delay po of None \<Rightarrow> VNone | Some d \<Rightarrow> VFloat d),
      (''retry_attempt'', case po_retry_attempt po of None \<Rightarrow> VNone | Some a \<Rightarrow> VInt a),
      (''metadata'', VDict (map (\<lambda>(k, v). (k, VStr v)) (po_metadata po)))]"

definition coerce_status :: "string \<Rightarrow> outcome_error + processing_status" where
  "coerce_status t =
     (case find (\<lambda>s. ps_value s = t) [PS_SUCCESS, PS_REJECTED, PS_FAILED, PS_RETRY] of
        Some s \<Rightarrow> Inr s
      | None \<Rightarrow> Inl (ProcessingStatusError
          (''Unknown processing status '' @ [CHR 39] @ t @ [CHR 39] @ ''.'')))"

definition success_outcome :: "string \<Rightarrow> string \<Rightarrow> string dict option \<Rightarrow> outcome_error + processing_outcome" where
  "success_outcome cid code metadata =
     rbind (make_reason ''success'' code) (\<lambda>r.
       make_outcome \<lparr>po_candidate_id = cid, po_status = PS_SUCCESS, po_reason = r,
         po_retry_delay = None, po_retry_attempt = None,
         po_metadata = (case metadata of None \<Rightarrow> [] | Some m \<Rightarrow> m)\<rparr>)"

definition rejected_outcome :: "string \<Rightarrow> string \<Rightarrow> string dict option \<Rightarrow> outcome_error + processing_outcome" where
  "rejected_outcome cid code metadata =
     rbind (make_reason ''validation'' code) (\<lambda>r.
       make_outcome \<lparr>po_candidate_id = cid, po_status = PS_REJECTED, po_reason = r,
         po_retry_delay = None, po_retry_attempt = None,
         po_metadata = (case metadata of None \<Rightarrow> [] | Some m \<Rightarrow> m)\<rparr>)"

definition failed_outcome :: "string \<Rightarrow> string \<Rightarrow> string dict option \<Rightarrow> outcome_error + processing_outcome" where
  "failed_outcome cid code metadata =
     rbind (make_reason ''failure'' code) (\<lambda>r.
       make_outcome \<lparr>po_candidate_id = cid, po_status = PS_FAILED, po_reason = r,
         po_retry_delay = None, po_retry_attempt = None,
         po_metadata = (case metadata of None \<Rightarrow> [] | Some m \<Rightarrow> m)\<rparr>)"

definition retry_outcome ::
    "string \<Rightarrow> string \<Rightarrow> rat \<Rightarrow> int \<Rightarrow> string dict option \<Rightarrow> outcome_error + processing_outcome" where
  "retry_outcome cid code delay attempt metadata =
     rbind (make_reason ''retry'' code) (\<lambda>r.
       make_outcome \<lparr>po_candidate_id = cid, po_status = PS_RETRY, po_reason = r,
         po_retry_delay = Some delay, po_retry_attempt = Some attempt,
         po_metadata = (case metadata of None \<Rightarrow> [] | Some m \<Rightarrow> m)\<rparr>)"

subsection \<open>Reading the wire form\<close>

abbreviation lift_py :: "py_error + 'a \<Rightarrow> outcome_error + 'a" where
  "lift_py \<equiv> map_error OutcomePyError"

definition outcome_from_dict :: "conv_env \<Rightarrow> mapping \<Rightarrow> outcome_error + processing_outcome" where
  "outcome_from_dict env payload =
     rbind (lift_py (require_key payload ''status'')) (\<lambda>sv.
     rbind (coerce_status (py_str (cv_repr env) sv)) (\<lambda>status.
     rbind (lift_py (require_key payload ''candidate_id'')) (\<lambda>cv.
     rbind (lift_py (require_key payload ''reason_namespace'')) (\<lambda>nv.
     rbind (lift_py (require_key payload ''reason_code'')) (\<lambda>rv.
     rbind (make_reason (py_str (cv_repr env) nv) (py_str (cv_repr env) rv)) (\<lambda>reason.
     rbind (if get_or_none payload ''retry_delay_seconds'' \<noteq> VNone
            then rbind (lift_py (py_float env (get_or_none payload ''retry_delay_seconds''))) (\<lambda>d. Inr (Some d))
            else Inr None) (\<lambda>delay.
     rbind (if get_or_none payload ''retry_attempt'' \<noteq> VNone
            then rbind (lift_py (py_int env (get_or_none payload ''retry_attempt''))) (\<lambda>a. Inr (Some a))
            else Inr None) (\<lambda>attempt.
     rbind (lift_py (py_dict_items (dict_get_or payload ''metadata'' (VDict [])))) (\<lambda>items.
     make_outcome \<lparr>po_candidate_id = py_str (cv_repr env) cv, po_status = status, po_reason = reason,
       po_retry_delay = delay, po_retry_attempt = attempt,
       po_metadata = dict_update []
         (map (\<lambda>(k, v). (py_str (cv_repr env) k, py_str (cv_repr env) v)) items)\<rparr>)))))))))"

text \<open>\<^verbatim>\<open>reason_token.split(".", 1)\<close>.\<close>

definition split_first_dot :: "string \<Rightarrow> (string \<times> string) option" where
  "split_first_dot s =
     (if CHR ''.'' \<in> set s
      then Some (takeWhile (\<lambda>c. c \<noteq> CHR ''.'') s, tl (dropWhile (\<lambda>c. c \<noteq> CHR ''.'') s))
      else None)"

definition outcome_from_classification ::
    "string \<Rightarrow> string \<Rightarrow> string \<Rightarrow> rat option \<Rightarrow> int option \<Rightarrow> string dict option \<Rightarrow>
     outcome_error + processing_outcome" where
  "outcome_from_classification cid status_token token delay attempt metadata =
     rbind (coerce_status status_token) (\<lambda>status.
     case split_first_dot token of
       None \<Rightarrow> Inl (ProcessingOutcomeConsistencyError
         (''reason_token must contain namespace and code separated by '' @ [CHR 39] @ ''.'' @ [CHR 39] @ ''.''))
     | Some (ns, code) \<Rightarrow>
         rbind (make_reason ns code) (\<lambda>reason.
         make_outcome \<lparr>po_candidate_id = cid, po_status = status, po_reason = reason,
           po_retry_delay = delay, po_retry_attempt = attempt,
           po_metadata = (case metadata of None \<Rightarrow> [] | Some m \<Rightarrow> m)\<rparr>))"

subsection \<open>What a constructed outcome satisfies\<close>

definition valid_reason :: "processing_reason \<Rightarrow> bool" where
  "valid_reason r \<longleftrightarrow> rsn_namespace r \<in> set ALLOWED_REASON_NAMESPACES \<and> rsn_code r \<noteq> []"

definition valid_outcome :: "processing_outcome \<Rightarrow> bool" where
  "valid_outcome po \<longleftrightarrow>
     po_candidate_id po \<noteq> [] \<and> valid_reason (po_reason po) \<and>
     (if po_status po = PS_RETRY
      then (\<exists>d a. po_retry_delay po = Some d \<and> po_retry_attempt po = Some a \<and> 0 \<le> d \<and> 0 \<le> a)
      else po_retry_delay po = None \<and> po_retry_attempt po = None) \<and>
     (po_status po = PS_SUCCESS \<longrightarrow>
        rsn_namespace (po_reason po) \<notin> {''failure'', ''error'', ''retry''})"

lemma make_reason_Inr [result_simps]:
  "make_reason ns code = Inr r \<longleftrightarrow>
     r = \<lparr>rsn_namespace = ns, rsn_code = code\<rparr> \<and> valid_reason r"
  by (auto simp: make_reason_def valid_reason_def)

lemma make_outcome_Inr [result_simps]:
  "make_outcome po = Inr x \<longleftrightarrow> x = po \<and> (valid_reason (po_reason po) \<longrightarrow> valid_outcome po) \<and>
     (\<exists>u. check_outcome po = Inr u)"
  by (auto simp: make_outcome_def result_simps check_outcome_def valid_outcome_def
      split: option.splits if_splits)

lemma check_outcome_valid: "valid_outcome po \<Longrightarrow> check_outcome po = Inr ()"
  by (auto simp: valid_outcome_def check_outcome_def split: if_splits)

lemma make_outcome_valid: "valid_outcome po \<Longrightarrow> make_outcome po = Inr po"
  by (simp add: make_outcome_def check_outcome_valid)

lemma coerce_status_value [simp]: "coerce_status (ps_value s) = Inr s"
  by (cases s) (simp_all add: coerce_status_def)

lemma py_dict_items_str:
  "py_dict_items (VDict (map (\<lambda>(k, v). (k, VStr v)) d)) = Inr (map (\<lambda>(k, v). (VStr k, VStr v)) d)"
  by (auto simp: comp_def case_prod_unfold)

text \<open>
  Every outcome that any of the constructors or readers returns is valid: a non-empty candidate,
  a known reason namespace with a code, non-negative retry data exactly on retry outcomes, and no
  success with a failure reason.
\<close>

theorem outcomes_valid:
  assumes "success_outcome cid code md = Inr po \<or> rejected_outcome cid code md = Inr po \<or>
     failed_outcome cid code md = Inr po \<or> retry_outcome cid code delay attempt md = Inr po \<or>
     outcome_from_dict env payload = Inr po \<or>
     outcome_from_classification cid st tok dl att md = Inr po"
  shows "valid_outcome po"
  using assms
  by (auto simp: success_outcome_def rejected_outcome_def failed_outcome_def retry_outcome_def
      outcome_from_dict_def outcome_from_classification_def result_simps
      split: option.splits prod.splits)

theorem outcomes_valid_witness:
  "\<exists>po. retry_outcome ''c1'' ''locked'' 3 2 None = Inr po \<and> valid_outcome po"
proof -
  let ?o = "\<lparr>po_candidate_id = ''c1'', po_status = PS_RETRY,
     po_reason = \<lparr>rsn_namespace = ''retry'', rsn_code = ''locked''\<rparr>,
     po_retry_delay = Some 3, po_retry_attempt = Some 2, po_metadata = []\<rparr>"
  have h: "retry_outcome ''c1'' ''locked'' 3 2 None = Inr ?o"
    by (simp add: retry_outcome_def make_reason_def ALLOWED_REASON_NAMESPACES_def make_outcome_def
        check_outcome_def)
  from outcomes_valid [of "''c1''" "''locked''" None ?o 3 2] h show ?thesis by blast
qed

text \<open>
  The wire form is lossless: reading back the serialised form of a valid outcome gives the same
  outcome, whatever the text readers of the environment do.
\<close>

theorem outcome_dict_roundtrip:
  assumes "valid_outcome po" and "dict_wf (po_metadata po)"
  shows "outcome_from_dict env (outcome_to_dict po) = Inr po"
proof -
  have md: "dict_update [] (map (\<lambda>(k, v). (py_str rp k, py_str rp v))
      (map (\<lambda>(k, v). (VStr k, VStr v)) (po_metadata po))) = po_metadata po" for rp
    using assms(2) dict_update_Nil_wf [of "[]" "po_metadata po"]
    by (simp add: comp_def case_prod_unfold)
  have rs: "make_reason (rsn_namespace (po_reason po)) (rsn_code (po_reason po)) = Inr (po_reason po)"
    using assms(1) by (auto simp: result_simps valid_outcome_def)
  show ?thesis
    using assms(1) make_outcome_valid [OF assms(1)] rs md [of "cv_repr env"]
    by (cases po) (auto simp: outcome_from_dict_def outcome_to_dict_def require_key_def get_or_none_def
        dict_get_or_def py_dict_items_str valid_outcome_def
        simp del: py_dict_items.simps split: if_splits)
qed

definition demo_outcome :: processing_outcome where
  "demo_outcome = \<lparr>po_candidate_id = ''c1'', po_status = PS_RETRY,
     po_reason = \<lparr>rsn_namespace = ''retry'', rsn_code = ''locked''\<rparr>,
     po_retry_delay = Some 3, po_retry_attempt = Some 2, po_metadata = [(''device'', ''sem'')]\<rparr>"

theorem outcome_dict_roundtrip_witness:
  "valid_outcome demo_outcome \<and>
   outcome_from_dict \<lparr>cv_repr = (\<lambda>_. []), cv_float_of_str = (\<lambda>_. None), cv_int_of_str = (\<lambda>_. None)\<rparr>
     (outcome_to_dict demo_outcome) = Inr demo_outcome"
proof -
  have v: "valid_outcome demo_outcome"
    by (simp add: demo_outcome_def valid_outcome_def valid_reason_def ALLOWED_REASON_NAMESPACES_def)
  have "dict_wf (po_metadata demo_outcome)" by (simp add: demo_outcome_def dict_wf_def)
  from outcome_dict_roundtrip [OF v this] v show ?thesis by blast
qed

section \<open>Batches\<close>

datatype batch_error =
    BatchMemberDuplicateError string
  | BatchCountConsistencyError string
  | BatchMetadataError string

datatype batch_status = BATCH_COMPLETED | BATCH_PARTIAL_FAILURE | BATCH_FAILED

record batch_counts =
  bc_total :: int
  bc_success :: int
  bc_rejected :: int
  bc_failed :: int
  bc_retry :: int

record batch_outcome =
  bo_batch_id :: string
  bo_started_at :: "int option"
  bo_completed_at :: "int option"
  bo_members :: "processing_outcome list"
  bo_counts :: batch_counts
  bo_grouped_counts :: "(string list \<times> batch_counts) list"
  bo_status :: batch_status

definition empty_counts :: batch_counts where
  "empty_counts = \<lparr>bc_total = 0, bc_success = 0, bc_rejected = 0, bc_failed = 0, bc_retry = 0\<rparr>"

text \<open>\<^verbatim>\<open>counts["total"] += 1; counts[outcome.status.value] += 1\<close>.\<close>

definition count_member :: "processing_outcome \<Rightarrow> batch_counts \<Rightarrow> batch_counts" where
  "count_member po c =
     (let c' = c\<lparr>bc_total := bc_total c + 1\<rparr> in
      case po_status po of
        PS_SUCCESS \<Rightarrow> c'\<lparr>bc_success := bc_success c' + 1\<rparr>
      | PS_REJECTED \<Rightarrow> c'\<lparr>bc_rejected := bc_rejected c' + 1\<rparr>
      | PS_FAILED \<Rightarrow> c'\<lparr>bc_failed := bc_failed c' + 1\<rparr>
      | PS_RETRY \<Rightarrow> c'\<lparr>bc_retry := bc_retry c' + 1\<rparr>)"

definition derive_status :: "batch_counts \<Rightarrow> batch_status" where
  "derive_status c =
     (let failures = bc_failed c + bc_rejected c in
      if bc_total c = 0 then BATCH_FAILED
      else if failures = 0 \<and> bc_retry c = 0 then BATCH_COMPLETED
      else if failures = bc_total c then BATCH_FAILED
      else BATCH_PARTIAL_FAILURE)"

definition validate_batch_metadata :: "string \<Rightarrow> int option \<Rightarrow> int option \<Rightarrow> batch_error + unit" where
  "validate_batch_metadata batch_id started completed =
     (if batch_id = [] then Inl (BatchMetadataError ''batch_id must be non-empty.'')
      else case (started, completed) of
          (Some s, Some c) \<Rightarrow> raise_if (c < s) (BatchMetadataError ''completed_at must be >= started_at.'')
        | _ \<Rightarrow> Inl (BatchMetadataError ''started_at and completed_at are required.''))"

definition group_key :: "string list \<Rightarrow> processing_outcome \<Rightarrow> string list" where
  "group_key keys po = map (\<lambda>k. dict_get_or (po_metadata po) k []) keys"

definition add_to_group ::
    "string list \<Rightarrow> processing_outcome \<Rightarrow> (string list \<times> batch_counts) list \<Rightarrow>
     (string list \<times> batch_counts) list" where
  "add_to_group keys po grouped =
     (let k = group_key keys po;
          counts = (case map_of grouped k of None \<Rightarrow> empty_counts | Some c \<Rightarrow> c)
      in AList.update k (count_member po counts) grouped)"

definition accumulate_group_counts ::
    "processing_outcome list \<Rightarrow> string list \<Rightarrow> (string list \<times> batch_counts) list" where
  "accumulate_group_counts members keys = fold (add_to_group keys) members []"

fun collect_members ::
    "string list \<Rightarrow> batch_counts \<Rightarrow> processing_outcome list \<Rightarrow> batch_error + batch_counts" where
  "collect_members seen counts [] = Inr counts"
| "collect_members seen counts (po # ms) =
     (if po_candidate_id po \<in> set seen
      then Inl (BatchMemberDuplicateError
        (''Duplicate batch member identity '' @ [CHR 39] @ po_candidate_id po @ [CHR 39] @ ''.''))
      else collect_members (po_candidate_id po # seen) (count_member po counts) ms)"

definition build_batch_outcome ::
    "string \<Rightarrow> int option \<Rightarrow> int option \<Rightarrow> processing_outcome list \<Rightarrow> string list \<Rightarrow> int option \<Rightarrow>
     batch_error + batch_outcome" where
  "build_batch_outcome batch_id started completed members keys expected_count =
     rbind (validate_batch_metadata batch_id started completed) (\<lambda>_.
     rbind (collect_members [] empty_counts members) (\<lambda>counts.
     rbind (raise_if (case expected_count of None \<Rightarrow> False | Some n \<Rightarrow> n \<noteq> bc_total counts)
       (BatchCountConsistencyError ''Expected batch count does not match unique member total.'')) (\<lambda>_.
     Inr \<lparr>bo_batch_id = batch_id, bo_started_at = started, bo_completed_at = completed,
          bo_members = members, bo_counts = counts,
          bo_grouped_counts = accumulate_group_counts members keys, bo_status = derive_status counts\<rparr>)))"

text \<open>The abstract view of a count: how many members have each status.\<close>

definition members_with :: "processing_status \<Rightarrow> processing_outcome list \<Rightarrow> int" where
  "members_with s ms = int (length (filter (\<lambda>po. po_status po = s) ms))"

definition counts_of :: "processing_outcome list \<Rightarrow> batch_counts" where
  "counts_of ms = \<lparr>bc_total = int (length ms), bc_success = members_with PS_SUCCESS ms,
     bc_rejected = members_with PS_REJECTED ms, bc_failed = members_with PS_FAILED ms,
     bc_retry = members_with PS_RETRY ms\<rparr>"

lemma counts_of_Nil [simp]: "counts_of [] = empty_counts"
  by (simp add: counts_of_def empty_counts_def members_with_def)

lemma counts_of_snoc: "counts_of (ms @ [po]) = count_member po (counts_of ms)"
  by (cases "po_status po") (simp_all add: counts_of_def count_member_def members_with_def Let_def)

lemma collect_members_Inr:
  "collect_members seen (counts_of ms0) ms = Inr c \<longleftrightarrow>
     c = counts_of (ms0 @ ms) \<and> distinct (map po_candidate_id ms) \<and>
     set seen \<inter> po_candidate_id ` set ms = {}"
proof (induction ms arbitrary: seen ms0)
  case (Cons po ms)
  show ?case
    using Cons.IH [of "po_candidate_id po # seen" "ms0 @ [po]"] by (auto simp: counts_of_snoc)
qed auto

lemma members_with_sum:
  "members_with PS_SUCCESS ms + members_with PS_REJECTED ms + members_with PS_FAILED ms +
     members_with PS_RETRY ms = int (length ms)"
proof (induction ms)
  case (Cons po ms)
  then show ?case by (cases "po_status po") (simp_all add: members_with_def)
qed (simp add: members_with_def)

lemma members_with_nonneg: "0 \<le> members_with s ms"
  by (simp add: members_with_def)

lemma members_with_zero: "members_with s ms = 0 \<longleftrightarrow> (\<forall>po \<in> set ms. po_status po \<noteq> s)"
  by (simp add: members_with_def filter_empty_conv)

lemma accumulate_group_counts_snoc:
  "accumulate_group_counts (ms @ [po]) keys = add_to_group keys po (accumulate_group_counts ms keys)"
  by (simp add: accumulate_group_counts_def)

lemma grouped_counts:
  "map_of (accumulate_group_counts ms keys) k =
     (if k \<in> group_key keys ` set ms
      then Some (counts_of (filter (\<lambda>po. group_key keys po = k) ms)) else None)"
proof (induction ms arbitrary: k rule: rev_induct)
  case Nil
  then show ?case by (simp add: accumulate_group_counts_def)
next
  case (snoc po ms)
  have "filter (\<lambda>q. group_key keys q = group_key keys po) ms = []"
    if "group_key keys po \<notin> group_key keys ` set ms"
    using that by (metis (mono_tags, lifting) filter_False imageI)
  moreover have "counts_of [po] = count_member po empty_counts" using counts_of_snoc [of "[]" po] by simp
  ultimately show ?case
    by (auto simp: accumulate_group_counts_snoc add_to_group_def Let_def snoc.IH
        counts_of_snoc [symmetric])
qed

lemma derive_status_counts:
  "derive_status (counts_of ms) =
     (if ms = [] then BATCH_FAILED
      else if \<forall>po \<in> set ms. po_status po = PS_SUCCESS then BATCH_COMPLETED
      else if \<forall>po \<in> set ms. po_status po \<in> {PS_FAILED, PS_REJECTED} then BATCH_FAILED
      else BATCH_PARTIAL_FAILURE)"
proof -
  let ?n = "\<lambda>s. members_with s ms"
  have nn: "0 \<le> ?n PS_SUCCESS" "0 \<le> ?n PS_RETRY" "0 \<le> ?n PS_FAILED" "0 \<le> ?n PS_REJECTED"
    by (simp_all add: members_with_nonneg)
  have other: "x \<noteq> PS_FAILED \<Longrightarrow> x \<noteq> PS_REJECTED \<Longrightarrow> x \<noteq> PS_RETRY \<Longrightarrow> x = PS_SUCCESS" for x
    by (cases x) auto
  have a: "?n PS_FAILED + ?n PS_REJECTED = 0 \<and> ?n PS_RETRY = 0 \<longleftrightarrow> (\<forall>po \<in> set ms. po_status po = PS_SUCCESS)"
  proof -
    have "?n PS_FAILED + ?n PS_REJECTED = 0 \<longleftrightarrow> ?n PS_FAILED = 0 \<and> ?n PS_REJECTED = 0" using nn by linarith
    then show ?thesis using other by (auto simp: members_with_zero)
  qed
  have b: "?n PS_FAILED + ?n PS_REJECTED = int (length ms) \<longleftrightarrow>
      (\<forall>po \<in> set ms. po_status po \<in> {PS_FAILED, PS_REJECTED})"
  proof -
    have "?n PS_FAILED + ?n PS_REJECTED = int (length ms) \<longleftrightarrow> ?n PS_SUCCESS = 0 \<and> ?n PS_RETRY = 0"
      using nn members_with_sum [of ms] by linarith
    then show ?thesis using other by (auto simp: members_with_zero)
  qed
  show ?thesis using a b by (auto simp: derive_status_def counts_of_def Let_def)
qed

text \<open>
  A batch is built exactly when its metadata is in order, its members have distinct identities
  and the expected count (if any) is met. Its counts, overall and per group, are then the true
  numbers of members by status, and its status says whether all succeeded, all failed, or neither.
\<close>

theorem build_batch_outcome_correct:
  "build_batch_outcome bid st en members keys expected = Inr b \<longleftrightarrow>
     bid \<noteq> [] \<and> (\<exists>s e. st = Some s \<and> en = Some e \<and> s \<le> e) \<and>
     distinct (map po_candidate_id members) \<and>
     (\<forall>n. expected = Some n \<longrightarrow> n = int (length members)) \<and>
     bo_batch_id b = bid \<and> bo_started_at b = st \<and> bo_completed_at b = en \<and>
     bo_members b = members \<and> bo_counts b = counts_of members \<and>
     bo_grouped_counts b = accumulate_group_counts members keys \<and>
     (\<forall>k. map_of (bo_grouped_counts b) k =
        (if k \<in> group_key keys ` set members
         then Some (counts_of (filter (\<lambda>po. group_key keys po = k) members)) else None)) \<and>
     bo_status b =
       (if members = [] then BATCH_FAILED
        else if \<forall>po \<in> set members. po_status po = PS_SUCCESS then BATCH_COMPLETED
        else if \<forall>po \<in> set members. po_status po \<in> {PS_FAILED, PS_REJECTED} then BATCH_FAILED
        else BATCH_PARTIAL_FAILURE)"
proof -
  have m: "validate_batch_metadata bid st en = Inr u \<longleftrightarrow>
      bid \<noteq> [] \<and> (\<exists>s e. st = Some s \<and> en = Some e \<and> s \<le> e)" for u
    by (auto simp: validate_batch_metadata_def result_simps split: option.splits)
  have c: "collect_members [] empty_counts members = Inr c \<longleftrightarrow>
      c = counts_of members \<and> distinct (map po_candidate_id members)" for c
    using collect_members_Inr [of "[]" "[]" members c] by simp
  have t: "bc_total (counts_of members) = int (length members)" by (simp add: counts_of_def)
  have "build_batch_outcome bid st en members keys expected = Inr b \<longleftrightarrow>
      (bid \<noteq> [] \<and> (\<exists>s e. st = Some s \<and> en = Some e \<and> s \<le> e)) \<and>
      distinct (map po_candidate_id members) \<and>
      (\<forall>n. expected = Some n \<longrightarrow> n = int (length members)) \<and>
      b = \<lparr>bo_batch_id = bid, bo_started_at = st, bo_completed_at = en, bo_members = members,
           bo_counts = counts_of members, bo_grouped_counts = accumulate_group_counts members keys,
           bo_status = derive_status (counts_of members)\<rparr>"
    by (simp only: build_batch_outcome_def result_simps m c t) (cases expected, auto simp: t)
  moreover have "b = \<lparr>bo_batch_id = bid, bo_started_at = st, bo_completed_at = en, bo_members = members,
        bo_counts = counts_of members, bo_grouped_counts = accumulate_group_counts members keys,
        bo_status = derive_status (counts_of members)\<rparr> \<longleftrightarrow>
      bo_batch_id b = bid \<and> bo_started_at b = st \<and> bo_completed_at b = en \<and> bo_members b = members \<and>
      bo_counts b = counts_of members \<and> bo_grouped_counts b = accumulate_group_counts members keys \<and>
      bo_status b = derive_status (counts_of members)"
    by (cases b) auto
  ultimately show ?thesis
    by (simp only: grouped_counts [symmetric] derive_status_counts [symmetric]) metis
qed

theorem build_batch_outcome_correct_witness:
  "\<exists>b. build_batch_outcome ''b1'' (Some 1) (Some 9) [demo_outcome] [''device''] (Some 1) = Inr b \<and>
     bo_status b = BATCH_PARTIAL_FAILURE \<and> bc_retry (bo_counts b) = 1"
proof -
  let ?b = "\<lparr>bo_batch_id = ''b1'', bo_started_at = Some 1, bo_completed_at = Some 9,
     bo_members = [demo_outcome], bo_counts = counts_of [demo_outcome],
     bo_grouped_counts = accumulate_group_counts [demo_outcome] [''device''],
     bo_status = BATCH_PARTIAL_FAILURE\<rparr>"
  have "build_batch_outcome ''b1'' (Some 1) (Some 9) [demo_outcome] [''device''] (Some 1) = Inr ?b"
    by (subst build_batch_outcome_correct) (simp add: grouped_counts demo_outcome_def)
  moreover have "bc_retry (counts_of [demo_outcome]) = 1"
    by (simp add: counts_of_def members_with_def demo_outcome_def)
  ultimately show ?thesis by auto
qed

end
