(* ===== verification/Local_Record.thy ===== *)
theory Local_Record
  imports Prelude
begin

text \<open>
  The local record entity (\<^verbatim>\<open>domain/records/local_record.py\<close>): construction, the three
  mutations and the identity comparisons; the life of a record as a step relation. Timestamps
  are instants in microseconds.
\<close>

datatype local_record_error =
    LocalRecordIdentityError string
  | LocalRecordTransitionError string
  | LocalRecordTimestampError string

datatype sync_status = UNSYNCED | SYNCED

datatype record_processing_status = RP_PENDING | RP_PROCESSED | RP_REJECTED | RP_FAILED

record local_record =
  lr_record_id :: string
  lr_source_identity :: string
  lr_canonical_name :: string
  lr_sync_status :: sync_status
  lr_processing_status :: record_processing_status
  lr_revision :: int
  lr_created_at :: int
  lr_updated_at :: int
  lr_last_reason_code :: "string option"
  lr_metadata :: "string dict option"

definition validate_identity :: "string \<Rightarrow> string \<Rightarrow> string \<Rightarrow> local_record_error + unit" where
  "validate_identity rid src name =
     (if rid = [] then Inl (LocalRecordIdentityError ''record_id must be non-empty.'')
      else if src = [] then Inl (LocalRecordIdentityError ''source_identity must be non-empty.'')
      else raise_if (name = []) (LocalRecordIdentityError ''canonical_name must be non-empty.''))"

definition validate_timestamp_progression :: "int \<Rightarrow> int \<Rightarrow> local_record_error + unit" where
  "validate_timestamp_progression previous updated =
     raise_if (updated < previous) (LocalRecordTimestampError
       ''Mutation timestamp cannot be older than current updated_at timestamp.'')"

definition create_record ::
    "string \<Rightarrow> string \<Rightarrow> string \<Rightarrow> int \<Rightarrow> string dict option \<Rightarrow> local_record_error + local_record" where
  "create_record rid src name created metadata =
     rbind (validate_identity rid src name) (\<lambda>_.
     Inr \<lparr>lr_record_id = rid, lr_source_identity = src, lr_canonical_name = name,
          lr_sync_status = UNSYNCED, lr_processing_status = RP_PENDING, lr_revision = 0,
          lr_created_at = created, lr_updated_at = created, lr_last_reason_code = None,
          lr_metadata = Some (case metadata of None \<Rightarrow> [] | Some m \<Rightarrow> m)\<rparr>)"

definition apply_processing_result ::
    "local_record \<Rightarrow> record_processing_status \<Rightarrow> int \<Rightarrow> string option \<Rightarrow>
     local_record_error + local_record" where
  "apply_processing_result r status updated reason =
     rbind (validate_timestamp_progression (lr_updated_at r) updated) (\<lambda>_.
     Inr (r\<lparr>lr_processing_status := status, lr_revision := lr_revision r + 1,
            lr_updated_at := updated, lr_last_reason_code := reason\<rparr>))"

definition mark_synced :: "local_record \<Rightarrow> int \<Rightarrow> local_record_error + local_record" where
  "mark_synced r updated =
     (if lr_sync_status r = SYNCED
      then Inl (LocalRecordTransitionError ''Record is already synced.'')
      else rbind (validate_timestamp_progression (lr_updated_at r) updated) (\<lambda>_.
        Inr (r\<lparr>lr_sync_status := SYNCED, lr_revision := lr_revision r + 1, lr_updated_at := updated\<rparr>)))"

definition mark_unsynced :: "local_record \<Rightarrow> int \<Rightarrow> local_record_error + local_record" where
  "mark_unsynced r updated =
     (if lr_sync_status r = UNSYNCED
      then Inl (LocalRecordTransitionError ''Record is already unsynced.'')
      else rbind (validate_timestamp_progression (lr_updated_at r) updated) (\<lambda>_.
        Inr (r\<lparr>lr_sync_status := UNSYNCED, lr_revision := lr_revision r + 1, lr_updated_at := updated\<rparr>)))"

definition same_identity :: "local_record \<Rightarrow> local_record \<Rightarrow> bool" where
  "same_identity l r \<longleftrightarrow>
     lr_record_id l = lr_record_id r \<and> lr_source_identity l = lr_source_identity r \<and>
     lr_canonical_name l = lr_canonical_name r"

definition differs_by_revision :: "local_record \<Rightarrow> local_record \<Rightarrow> bool" where
  "differs_by_revision l r \<longleftrightarrow> same_identity l r \<and> lr_revision l \<noteq> lr_revision r"

section \<open>The life of a record\<close>

inductive record_step :: "local_record \<Rightarrow> local_record \<Rightarrow> bool" where
  processed: "apply_processing_result r st t reason = Inr r' \<Longrightarrow> record_step r r'"
| synced: "mark_synced r t = Inr r' \<Longrightarrow> record_step r r'"
| unsynced: "mark_unsynced r t = Inr r' \<Longrightarrow> record_step r r'"

inductive record_history :: "local_record \<Rightarrow> local_record list \<Rightarrow> local_record \<Rightarrow> bool" where
  born: "record_history r [] r"
| mutated: "record_history r rs r' \<Longrightarrow> record_step r' r'' \<Longrightarrow> record_history r (rs @ [r'']) r''"

lemma validate_timestamp_Inr [result_simps]:
  "validate_timestamp_progression p u = Inr x \<longleftrightarrow> p \<le> u"
  by (auto simp: validate_timestamp_progression_def result_simps)

text \<open>Each mutation keeps the identity and the creation data, bumps the revision by one and
  never moves the clock back.\<close>

lemma record_step_frame:
  assumes "record_step r r'"
  shows "same_identity r r' \<and> lr_created_at r' = lr_created_at r \<and> lr_metadata r' = lr_metadata r \<and>
    lr_revision r' = lr_revision r + 1 \<and> lr_updated_at r \<le> lr_updated_at r'"
  using assms
  by (cases rule: record_step.cases)
    (auto simp: apply_processing_result_def mark_synced_def mark_unsynced_def same_identity_def
      result_simps split: if_splits)

lemma same_identity_trans: "same_identity a b \<Longrightarrow> same_identity b c \<Longrightarrow> same_identity a c"
  by (auto simp: same_identity_def)

lemma record_history_frame:
  assumes "record_history r rs r'"
  shows "same_identity r r' \<and> lr_created_at r' = lr_created_at r \<and>
    lr_revision r' = lr_revision r + int (length rs) \<and> lr_updated_at r \<le> lr_updated_at r'"
  using assms
proof (induction rule: record_history.induct)
  case (born r)
  then show ?case by (simp add: same_identity_def)
next
  case (mutated r rs r' r'')
  then show ?case using record_step_frame [OF mutated.hyps(2)] same_identity_trans [of r r' r''] by auto
qed

text \<open>
  From its creation on, a record keeps its identity and creation time; its revision is exactly
  the number of successful mutations, so two different moments of one life always differ by
  revision; and its update time never runs backwards.
\<close>

theorem record_life:
  assumes "create_record rid src name created md = Inr r" and "record_history r rs r'"
  shows "lr_record_id r' = rid \<and> lr_source_identity r' = src \<and> lr_canonical_name r' = name \<and>
    lr_created_at r' = created \<and> lr_revision r' = int (length rs) \<and> created \<le> lr_updated_at r' \<and>
    (differs_by_revision r r' \<longleftrightarrow> rs \<noteq> [])"
proof -
  have r: "lr_record_id r = rid" "lr_source_identity r = src" "lr_canonical_name r = name"
    "lr_created_at r = created" "lr_revision r = 0" "lr_updated_at r = created"
    using assms(1) by (auto simp: create_record_def result_simps)
  with record_history_frame [OF assms(2)] show ?thesis
    by (auto simp: same_identity_def differs_by_revision_def)
qed

theorem record_life_witness:
  "\<exists>r r'. create_record ''r1'' ''s'' ''n'' 10 None = Inr r \<and> record_history r [r'] r' \<and>
     mark_synced r 12 = Inr r' \<and> lr_revision r' = 1 \<and> differs_by_revision r r'"
proof -
  let ?r = "\<lparr>lr_record_id = ''r1'', lr_source_identity = ''s'', lr_canonical_name = ''n'',
     lr_sync_status = UNSYNCED, lr_processing_status = RP_PENDING, lr_revision = 0,
     lr_created_at = 10, lr_updated_at = 10, lr_last_reason_code = None, lr_metadata = Some []\<rparr>"
  let ?r' = "?r\<lparr>lr_sync_status := SYNCED, lr_revision := 1, lr_updated_at := 12\<rparr>"
  have c: "create_record ''r1'' ''s'' ''n'' 10 None = Inr ?r"
    by (simp add: create_record_def validate_identity_def)
  have m: "mark_synced ?r 12 = Inr ?r'"
    by (simp add: mark_synced_def validate_timestamp_progression_def)
  then have "record_step ?r ?r'" by (rule record_step.synced)
  then have h: "record_history ?r [?r'] ?r'"
    using record_history.mutated [OF record_history.born] by fastforce
  from record_life [OF c h] c m h show ?thesis by (intro exI [of _ ?r] exI [of _ ?r']) simp
qed

end
