(* ===== verification/Record_Store.thy ===== *)
theory Record_Store
  imports Prelude
begin

text \<open>
  The SQLite record store (\<^verbatim>\<open>infrastructure/storage/record_store.py\<close>). The table \<^verbatim>\<open>records\<close> is an
  association list from record ids to rows, a row holding what \<^verbatim>\<open>json.loads\<close> reads back from its
  payload text; it is what the adapter's one connection sees. \<open>st_in_transaction\<close> is the transaction a
  failed \<^verbatim>\<open>COMMIT\<close> or \<^verbatim>\<open>ROLLBACK\<close> leaves open: every later \<^verbatim>\<open>BEGIN\<close> of the connection then fails.
  \<open>store_env\<close> is what the database engine and other processes contribute to one call: the text of the
  clock, the engine error of each statement the call may run (\<open>store_point\<close>), and what other connections
  write between the read and the write (\<open>se_race_before\<close>) and after the commit (\<open>se_race_after\<close>).
\<close>

datatype sqlite_fault = OperationalError string | DatabaseError string

datatype store_point = Read_Marked | Read_Current | Begin | Write | Commit | Rollback | Read_Back

datatype record_store_error =
    RecordStoreSchemaError string
  | RecordStoreConflictError string
  | RecordStoreIntegrityError string
  | RecordStoreTimeoutError string
  | SqliteError sqlite_fault
  | StorePyError py_error

record row =
  row_revision :: int
  row_payload :: mapping
  row_updated_at :: string

type_synonym rows = "(string \<times> row) list"

record store =
  st_rows :: rows
  st_schema_version :: "int option"
  st_in_transaction :: bool

record store_env =
  se_conv :: conv_env
  se_now :: string
  se_fault :: "store_point \<Rightarrow> sqlite_fault option"
  se_race_before :: "rows \<Rightarrow> rows"
  se_race_after :: "rows \<Rightarrow> rows"

abbreviation store_py :: "py_error + 'a \<Rightarrow> record_store_error + 'a" where
  "store_py \<equiv> map_error StorePyError"

definition ensure_schema :: "int \<Rightarrow> bool \<Rightarrow> store \<Rightarrow> record_store_error + store" where
  "ensure_schema expected auto_migrate st =
     (case st_schema_version st of
        None \<Rightarrow> Inr (st\<lparr>st_schema_version := Some expected\<rparr>)
      | Some current \<Rightarrow>
          if current = expected then Inr st
          else if \<not> auto_migrate
          then Inl (RecordStoreSchemaError (''schema version mismatch: expected '' @ int_str expected @
                 '', got '' @ int_str current))
          else Inr (st\<lparr>st_schema_version := Some expected\<rparr>))"

definition map_operational_error :: "string \<Rightarrow> record_store_error" where
  "map_operational_error msg =
     (let lowered = str_lower msg in
      if has_substring ''locked'' lowered \<or> has_substring ''busy'' lowered \<or>
         has_substring ''timeout'' lowered
      then RecordStoreTimeoutError msg else RecordStoreIntegrityError msg)"

text \<open>
  The handler of the writing calls, \<^verbatim>\<open>except sqlite3.OperationalError\<close>: any other engine error, and every
  error outside the \<^verbatim>\<open>try\<close>, leaves the call as it is.
\<close>

fun handled_fault :: "sqlite_fault \<Rightarrow> record_store_error" where
  "handled_fault (OperationalError msg) = map_operational_error msg"
| "handled_fault (DatabaseError msg) = SqliteError (DatabaseError msg)"

definition row_to_snapshot :: "string \<Rightarrow> row \<Rightarrow> mapping" where
  "row_to_snapshot rid r =
     [(''record_id'', VStr rid), (''revision'', VInt (row_revision r)),
      (''payload'', VDict (row_payload r)), (''updated_at'', VStr (row_updated_at r))]"

text \<open>\<^verbatim>\<open>get\<close>, whose one statement runs at the point \<open>p\<close> of the calling operation.\<close>

definition store_get :: "store_env \<Rightarrow> store_point \<Rightarrow> store \<Rightarrow> string \<Rightarrow> sqlite_fault + mapping option" where
  "store_get env p st rid =
     (case se_fault env p of
        Some fault \<Rightarrow> Inl fault
      | None \<Rightarrow> Inr (map_option (row_to_snapshot rid) (map_of (st_rows st) rid)))"

definition not_found :: "string \<Rightarrow> record_store_error" where
  "not_found rid = RecordStoreConflictError (''record not found: '' @ [CHR 39] @ rid @ [CHR 39])"

text \<open>\<^verbatim>\<open>get_or_raise\<close>; \<open>h\<close> is what the place of the call makes of an engine error.\<close>

definition store_get_or_raise ::
    "store_env \<Rightarrow> store_point \<Rightarrow> (sqlite_fault \<Rightarrow> record_store_error) \<Rightarrow> store \<Rightarrow> string \<Rightarrow> record_store_error + mapping" where
  "store_get_or_raise env p h st rid =
     (case store_get env p st rid of
        Inl fault \<Rightarrow> Inl (h fault)
      | Inr None \<Rightarrow> Inl (not_found rid)
      | Inr (Some snapshot) \<Rightarrow> Inr snapshot)"

definition normalize_record_input ::
    "conv_env \<Rightarrow> pyval \<Rightarrow> record_store_error + string \<times> int \<times> mapping" where
  "normalize_record_input cv record =
     (case record of
        VDict d \<Rightarrow>
          (case map_of d ''record_id'' of
             None \<Rightarrow> Inl (RecordStoreConflictError ''record_id is required'')
           | Some rid \<Rightarrow>
               (case dict_get_or d ''payload'' (VDict []) of
                  VDict payload \<Rightarrow>
                    rbind (store_py (py_int cv (dict_get_or d ''revision'' (VInt 0)))) (\<lambda>rev.
                      Inr (py_str (cv_repr cv) rid, rev, payload))
                | _ \<Rightarrow> Inl (RecordStoreConflictError ''record.payload must be a mapping'')))
      | _ \<Rightarrow> Inl (RecordStoreConflictError ''record must be a mapping''))"

definition json_payload :: "mapping \<Rightarrow> py_error + mapping" where
  "json_payload payload = rbind (json_trip_items payload) (\<lambda>e. Inr (sort_key fst e))"

text \<open>Binding a Python integer to a parameter of a statement: a SQLite INTEGER has 64 bits.\<close>

definition sqlite_integer :: "int \<Rightarrow> bool" where
  "sqlite_integer i \<longleftrightarrow> - (2 ^ 63) \<le> i \<and> i < 2 ^ 63"

definition bind_integer :: "int \<Rightarrow> py_error + int" where
  "bind_integer i =
     (if sqlite_integer i then Inr i else Inl (OverflowError ''Python int too large to convert to SQLite INTEGER''))"

text \<open>\<^verbatim>\<open>UPDATE records SET ... WHERE ...\<close>.\<close>

definition sql_update :: "(string \<Rightarrow> row \<Rightarrow> bool) \<Rightarrow> row \<Rightarrow> rows \<Rightarrow> rows" where
  "sql_update P new rs = map (\<lambda>(k, r). if P k r then (k, new) else (k, r)) rs"

text \<open>
  \<^verbatim>\<open>_Transaction.__exit__\<close> after an error: \<^verbatim>\<open>ROLLBACK\<close>, whose own error would replace the first one and
  leave the transaction open.
\<close>

definition rollback ::
    "store_env \<Rightarrow> record_store_error \<Rightarrow> store \<Rightarrow> (record_store_error + mapping) \<times> store" where
  "rollback env e st =
     (case se_fault env Rollback of
        Some fault \<Rightarrow> (Inl (handled_fault fault), st\<lparr>st_in_transaction := True\<rparr>)
      | None \<Rightarrow> (Inl e, st))"

text \<open>
  The \<^verbatim>\<open>try\<close> of a writing call: other processes write first, \<^verbatim>\<open>BEGIN\<close>, then the payload is serialised
  and the parameters are bound, the statement runs (or fails and is rolled back), \<^verbatim>\<open>COMMIT\<close>, and the
  result is read back. A \<^verbatim>\<open>COMMIT\<close> that fails leaves the rows as written, for this connection, and the
  transaction open; a read-back that fails comes after the commit.
\<close>

definition run_write ::
    "store_env \<Rightarrow> int \<Rightarrow> mapping \<Rightarrow> string \<Rightarrow> (mapping \<Rightarrow> rows \<Rightarrow> record_store_error + rows) \<Rightarrow> store \<Rightarrow>
     (record_store_error + mapping) \<times> store" where
  "run_write env revn payload rid stmt st =
     (let st1 = st\<lparr>st_rows := se_race_before env (st_rows st)\<rparr> in
      if st_in_transaction st1
      then (Inl (map_operational_error ''cannot start a transaction within a transaction''), st1)
      else
      case se_fault env Begin of
        Some fault \<Rightarrow> (Inl (handled_fault fault), st1)
      | None \<Rightarrow>
     (case rbind (json_payload payload) (\<lambda>p. rbind (bind_integer revn) (\<lambda>_. Inr p)) of
        Inl e \<Rightarrow> rollback env (StorePyError e) st1
      | Inr p \<Rightarrow>
     (case se_fault env Write of
        Some fault \<Rightarrow> rollback env (handled_fault fault) st1
      | None \<Rightarrow>
     (case stmt p (st_rows st1) of
        Inl e \<Rightarrow> rollback env e st1
      | Inr rs \<Rightarrow>
     (case se_fault env Commit of
        Some fault \<Rightarrow> (Inl (handled_fault fault), st1\<lparr>st_rows := rs, st_in_transaction := True\<rparr>)
      | None \<Rightarrow>
          (let st2 = st1\<lparr>st_rows := se_race_after env rs\<rparr>
           in (store_get_or_raise env Read_Back handled_fault st2 rid, st2)))))))"

definition store_create :: "store_env \<Rightarrow> pyval \<Rightarrow> store \<Rightarrow> (record_store_error + mapping) \<times> store" where
  "store_create env record st =
     (case normalize_record_input (se_conv env) record of
        Inl e \<Rightarrow> (Inl e, st)
      | Inr (rid, revn, payload) \<Rightarrow>
          run_write env revn payload rid
            (\<lambda>p rs. if map_of rs rid \<noteq> None
                    then Inl (RecordStoreConflictError ''UNIQUE constraint failed: records.record_id'')
                    else Inr (rs @ [(rid, \<lparr>row_revision = revn, row_payload = p,
                                           row_updated_at = se_now env\<rparr>)])) st)"

definition store_save :: "store_env \<Rightarrow> pyval \<Rightarrow> store \<Rightarrow> (record_store_error + mapping) \<times> store" where
  "store_save env record st =
     (case normalize_record_input (se_conv env) record of
        Inl e \<Rightarrow> (Inl e, st)
      | Inr (rid, revn, payload) \<Rightarrow>
     (case se_fault env Read_Current of
        Some fault \<Rightarrow> (Inl (SqliteError fault), st)
      | None \<Rightarrow>
     (case map_of (st_rows st) rid of
        None \<Rightarrow> store_create env (VDict [(''record_id'', VStr rid), (''revision'', VInt revn),
                  (''payload'', VDict payload)]) st
      | Some existing \<Rightarrow>
          if revn \<le> row_revision existing
          then (Inl (RecordStoreConflictError
                  ''incoming revision must be greater than stored revision''), st)
          else run_write env revn payload rid
            (\<lambda>p rs. Inr (sql_update (\<lambda>k _. k = rid)
               \<lparr>row_revision = revn, row_payload = p, row_updated_at = se_now env\<rparr> rs)) st)))"

definition store_update ::
    "store_env \<Rightarrow> string \<Rightarrow> pyval \<Rightarrow> store \<Rightarrow> (record_store_error + mapping) \<times> store" where
  "store_update env rid mutation st =
     (case se_fault env Read_Current of
        Some fault \<Rightarrow> (Inl (SqliteError fault), st)
      | None \<Rightarrow>
     (case map_of (st_rows st) rid of
        None \<Rightarrow> (Inl (not_found rid), st)
      | Some current \<Rightarrow>
     (case mutation of
        VDict m \<Rightarrow>
     (case map_of m ''expected_revision'' of
        None \<Rightarrow> (Inl (RecordStoreConflictError ''expected_revision is required for update''), st)
      | Some ev \<Rightarrow>
     (case py_int (se_conv env) ev of
        Inl e \<Rightarrow> (Inl (StorePyError e), st)
      | Inr expected \<Rightarrow>
          if expected \<noteq> row_revision current
          then (Inl (RecordStoreConflictError (''revision conflict for record '' @ [CHR 39] @ rid @ [CHR 39] @
                  '': expected '' @ int_str expected @ '', current '' @ int_str (row_revision current))), st)
          else
     (case dict_get_or m ''payload'' (VDict []) of
        VDict patch \<Rightarrow>
          (let new_revision = row_revision current + 1;
               result = run_write env new_revision (dict_update (row_payload current) patch) rid
                 (\<lambda>p rs. Inr (sql_update (\<lambda>k r. k = rid \<and> row_revision r = expected)
                    \<lparr>row_revision = new_revision, row_payload = p, row_updated_at = se_now env\<rparr> rs)) st
           in case result of
                (Inr snapshot, st') \<Rightarrow>
                  if get_or_none snapshot ''revision'' \<noteq> VInt new_revision
                  then (Inl (RecordStoreConflictError ''concurrent write detected''), st')
                  else (Inr snapshot, st')
              | (Inl e, st') \<Rightarrow> (Inl e, st'))
      | _ \<Rightarrow> (Inl (RecordStoreConflictError ''mutation.payload must be a mapping''), st))))
      | _ \<Rightarrow> (Inl (RecordStoreConflictError ''mutation must be a mapping''), st))))"

definition store_mark_unsynced ::
    "store_env \<Rightarrow> string \<Rightarrow> store \<Rightarrow> (record_store_error + mapping) \<times> store" where
  "store_mark_unsynced env rid st =
     (case se_fault env Read_Marked of
        Some fault \<Rightarrow> (Inl (SqliteError fault), st)
      | None \<Rightarrow>
     (case map_of (st_rows st) rid of
        None \<Rightarrow> (Inl (not_found rid), st)
      | Some current \<Rightarrow>
          store_update env rid
            (VDict [(''expected_revision'', VInt (row_revision current)),
                    (''payload'', VDict (AList.update ''sync_status'' (VStr ''unsynced'')
                       (row_payload current)))]) st))"

definition store_healthcheck :: "store_env \<Rightarrow> string \<Rightarrow> store \<Rightarrow> record_store_error + mapping" where
  "store_healthcheck env path st =
     (case se_fault env Read_Current of
        Some fault \<Rightarrow> Inl (SqliteError fault)
      | None \<Rightarrow> Inr
          [(''status'', VStr ''ok''), (''path'', VStr path),
           (''schema_version'', VInt (case st_schema_version st of None \<Rightarrow> -1 | Some v \<Rightarrow> v))])"

section \<open>The contract of a versioned store\<close>

locale versioned_store =
  fixes step :: "'op \<Rightarrow> 's \<Rightarrow> ('e + 'r) \<times> 's"
    and version :: "'s \<Rightarrow> string \<Rightarrow> int option"
    and inv :: "'s \<Rightarrow> bool"
    and ok :: "'op \<Rightarrow> bool"
    and lossless :: "'op \<Rightarrow> bool"
  assumes step_inv: "ok op \<Longrightarrow> inv s \<Longrightarrow> inv (snd (step op s))"
    and step_grows: "ok op \<Longrightarrow> inv s \<Longrightarrow> version s k = Some v \<Longrightarrow>
      \<exists>v'. version (snd (step op s)) k = Some v' \<and> v \<le> v'"
    and step_atomic: "ok op \<Longrightarrow> lossless op \<Longrightarrow> inv s \<Longrightarrow> step op s = (Inl e, s') \<Longrightarrow> s' = s"
begin

lemma run_inv: "list_all ok ops \<Longrightarrow> inv s \<Longrightarrow> inv (fold (\<lambda>op s. snd (step op s)) ops s)"
  by (induction ops arbitrary: s) (auto simp: step_inv)

lemma run_grows:
  assumes "list_all ok ops" and "inv s" and "version s k = Some v"
  shows "\<exists>v'. version (fold (\<lambda>op s. snd (step op s)) ops s) k = Some v' \<and> v \<le> v'"
  using assms
proof (induction ops arbitrary: s v)
  case (Cons op ops)
  obtain u where u: "version (snd (step op s)) k = Some u" "v \<le> u"
    using step_grows [of op s k v] Cons.prems by auto
  then obtain v' where "version (fold (\<lambda>op s. snd (step op s)) ops (snd (step op s))) k = Some v'" "u \<le> v'"
    using Cons.IH [of "snd (step op s)" u] step_inv [of op s] Cons.prems by auto
  with u show ?case by (intro exI [of _ v']) simp
qed simp

end

text \<open>The operations of the store as one step function.\<close>

datatype store_op =
    OpCreate pyval
  | OpSave pyval
  | OpUpdate string pyval
  | OpMarkUnsynced string

fun store_step :: "store_env \<times> store_op \<Rightarrow> store \<Rightarrow> (record_store_error + mapping) \<times> store" where
  "store_step (env, OpCreate r) st = store_create env r st"
| "store_step (env, OpSave r) st = store_save env r st"
| "store_step (env, OpUpdate rid m) st = store_update env rid m st"
| "store_step (env, OpMarkUnsynced rid) st = store_mark_unsynced env rid st"

definition quiet :: "store_env \<Rightarrow> bool" where
  "quiet env \<longleftrightarrow> se_race_before env = id \<and> se_race_after env = id"

text \<open>None of the faults after which a call that raises may have changed something.\<close>

definition lossless :: "store_env \<Rightarrow> bool" where
  "lossless env \<longleftrightarrow> se_fault env Commit = None \<and> se_fault env Rollback = None \<and> se_fault env Read_Back = None"

definition store_inv :: "store \<Rightarrow> bool" where
  "store_inv st \<longleftrightarrow> dict_wf (st_rows st) \<and> (\<forall>(k, r) \<in> set (st_rows st). sqlite_integer (row_revision r))"

definition store_version :: "store \<Rightarrow> string \<Rightarrow> int option" where
  "store_version st rid = map_option row_revision (map_of (st_rows st) rid)"

lemma map_of_sql_update:
  "map_of (sql_update P new rs) k = (case map_of rs k of None \<Rightarrow> None | Some r \<Rightarrow> Some (if P k r then new else r))"
  by (induction rs) (auto simp: sql_update_def)

lemma dict_wf_sql_update: "dict_wf rs \<Longrightarrow> dict_wf (sql_update P new rs)"
proof -
  have "map fst (sql_update P new rs) = map fst rs" by (auto simp: sql_update_def)
  then show "dict_wf rs \<Longrightarrow> dict_wf (sql_update P new rs)" by (simp add: dict_wf_def)
qed

lemma dict_wf_snoc: "dict_wf rs \<Longrightarrow> map_of rs k = None \<Longrightarrow> dict_wf (rs @ [(k, r)])"
  by (auto simp: dict_wf_def map_of_eq_None_iff)

lemma snapshot_fields [simp]:
  "get_or_none (row_to_snapshot rid r) ''revision'' = VInt (row_revision r)"
  "get_or_none (row_to_snapshot rid r) ''record_id'' = VStr rid"
  "get_or_none (row_to_snapshot rid r) ''payload'' = VDict (row_payload r)"
  "get_or_none (row_to_snapshot rid r) ''updated_at'' = VStr (row_updated_at r)"
  by (simp_all add: get_or_none_def dict_get_or_def row_to_snapshot_def)

lemma store_get_or_raise_ok:
  "se_fault env p = None \<Longrightarrow> map_of (st_rows st) rid = Some r \<Longrightarrow> store_get_or_raise env p h st rid = Inr (row_to_snapshot rid r)"
  by (simp add: store_get_or_raise_def store_get_def)

lemma store_get_or_raise_Inr:
  "store_get_or_raise env p h st rid = Inr snap \<Longrightarrow> \<exists>r. snap = row_to_snapshot rid r \<and> map_of (st_rows st) rid = Some r"
  by (auto simp: store_get_or_raise_def store_get_def split: option.splits)

lemma store_get_or_raise_Inl:
  "store_get_or_raise env p h st rid = Inl e \<Longrightarrow> map_of (st_rows st) rid = Some r \<Longrightarrow> se_fault env p \<noteq> None"
  by (auto simp: store_get_or_raise_def store_get_def split: option.splits)

text \<open>
  The effect of a call without other writers, one shape for all operations. One row is appended, or
  replaced by a row with a higher revision (\<open>row_written\<close>). A call that returns has written the row of
  its snapshot; one that raises has written nothing, or one row whose commit or read-back failed.
\<close>

definition row_written :: "string \<Rightarrow> row \<Rightarrow> rows \<Rightarrow> rows \<Rightarrow> bool" where
  "row_written rid r rs rs' \<longleftrightarrow> sqlite_integer (row_revision r) \<and>
     (map_of rs rid = None \<and> rs' = rs @ [(rid, r)] \<or>
      (\<exists>old P. map_of rs rid = Some old \<and> P rid old \<and> row_revision old < row_revision r \<and>
         (\<forall>k x. P k x \<longrightarrow> k = rid) \<and> rs' = sql_update P r rs))"

definition store_effect :: "store_env \<Rightarrow> string \<Rightarrow> store \<Rightarrow> (record_store_error + mapping) \<times> store \<Rightarrow> bool" where
  "store_effect env rid st out \<longleftrightarrow>
     (\<exists>rs b. snd out = st\<lparr>st_rows := rs, st_in_transaction := b\<rparr> \<and>
        (case fst out of
           Inr snap \<Rightarrow> (\<exists>r. snap = row_to_snapshot rid r \<and> row_written rid r (st_rows st) rs)
         | Inl e \<Rightarrow> (lossless env \<longrightarrow> snd out = st) \<and> (rs = st_rows st \<or> (\<exists>r. row_written rid r (st_rows st) rs))))"

lemma effect_fail [simp, intro]: "store_effect env rid st (Inl e, st)"
  unfolding store_effect_def by (rule exI [of _ "st_rows st"], rule exI [of _ "st_in_transaction st"]) simp

lemma row_written_append: "map_of rs rid = None \<Longrightarrow> sqlite_integer (row_revision r) \<Longrightarrow> row_written rid r rs (rs @ [(rid, r)])"
  by (simp add: row_written_def)

lemma row_written_replace:
  assumes "map_of rs rid = Some old" and "P rid old" and "row_revision old < row_revision r"
    and "\<And>k x. P k x \<Longrightarrow> k = rid" and "sqlite_integer (row_revision r)"
  shows "row_written rid r rs (sql_update P r rs)"
proof -
  have "map_of rs rid = Some old \<and> P rid old \<and> row_revision old < row_revision r \<and>
      (\<forall>k x. P k x \<longrightarrow> k = rid) \<and> sql_update P r rs = sql_update P r rs" using assms by blast
  then show ?thesis unfolding row_written_def using assms(5) by blast
qed

text \<open>What a written row does to a lookup: only its id changes, and its revision rises.\<close>

lemma row_written_lookup:
  assumes "row_written rid r rs rs'"
  shows "map_of rs' = (map_of rs)(rid \<mapsto> r)"
    and "map_of rs rid = Some old \<Longrightarrow> row_revision old < row_revision r"
proof -
  from assms have "(map_of rs rid = None \<and> rs' = rs @ [(rid, r)]) \<or>
      (\<exists>old P. map_of rs rid = Some old \<and> P rid old \<and> row_revision old < row_revision r \<and>
         (\<forall>k x. P k x \<longrightarrow> k = rid) \<and> rs' = sql_update P r rs)" by (simp add: row_written_def)
  then have "map_of rs' = (map_of rs)(rid \<mapsto> r) \<and> (\<forall>old. map_of rs rid = Some old \<longrightarrow> row_revision old < row_revision r)"
  proof (elim disjE exE conjE)
    assume "map_of rs rid = None" "rs' = rs @ [(rid, r)]"
    then show ?thesis by (auto simp: map_add_def fun_eq_iff split: option.splits)
  next
    fix old P
    assume "map_of rs rid = Some old" "P rid old" "row_revision old < row_revision r" "\<forall>k x. P k x \<longrightarrow> k = rid"
      "rs' = sql_update P r rs"
    then have "\<And>k x. k \<noteq> rid \<Longrightarrow> \<not> P k x" by blast
    with \<open>map_of rs rid = Some old\<close> \<open>P rid old\<close> \<open>rs' = sql_update P r rs\<close>
    have "map_of rs' k = ((map_of rs)(rid \<mapsto> r)) k" for k
      by (cases "k = rid"; cases "map_of rs k") (simp_all add: map_of_sql_update)
    with \<open>map_of rs rid = Some old\<close> \<open>row_revision old < row_revision r\<close> show ?thesis by (simp add: fun_eq_iff)
  qed
  then show "map_of rs' = (map_of rs)(rid \<mapsto> r)"
    "map_of rs rid = Some old \<Longrightarrow> row_revision old < row_revision r" by auto
qed

lemma row_written_inv:
  assumes "row_written rid r rs rs'" and "dict_wf rs" and "\<forall>(k, x) \<in> set rs. sqlite_integer (row_revision x)"
  shows "dict_wf rs' \<and> (\<forall>(k, x) \<in> set rs'. sqlite_integer (row_revision x))"
  using assms by (auto simp: row_written_def dict_wf_snoc dict_wf_sql_update) (auto simp: sql_update_def split: if_splits)

text \<open>
  The effect of the \<^verbatim>\<open>try\<close> of a writing call, for a statement that writes one row: \<open>row_written\<close> when
  the statement runs.
\<close>

lemma run_write_effect:
  assumes "quiet env"
    and "\<And>p rs. stmt p (st_rows st) = Inr rs \<Longrightarrow> sqlite_integer n \<Longrightarrow> row_written rid (mk p) (st_rows st) rs"
  shows "store_effect env rid st (run_write env n payload rid stmt st)"
proof -
  let ?out = "run_write env n payload rid stmt st"
  have roll: "store_effect env rid st (rollback env e st)" for e
    unfolding store_effect_def
    by (rule exI [of _ "st_rows st"], rule exI [of _ "st_in_transaction (snd (rollback env e st))"])
      (auto simp: rollback_def lossless_def split: option.split)
  have st1: "st\<lparr>st_rows := se_race_before env (st_rows st)\<rparr> = st" using assms(1) by (simp add: quiet_def)
  show ?thesis
  proof (cases "st_in_transaction st \<or> se_fault env Begin \<noteq> None")
    case True
    then show ?thesis by (auto simp: run_write_def st1 Let_def)
  next
    case run: False
    show ?thesis
    proof (cases "rbind (json_payload payload) (\<lambda>p. rbind (bind_integer n) (\<lambda>_. Inr p))")
      case (Inl e)
      with run roll show ?thesis by (simp add: run_write_def st1 Let_def)
    next
      case (Inr p)
      then have n: "sqlite_integer n" by (auto simp: result_simps bind_integer_def split: if_splits)
      show ?thesis
      proof (cases "se_fault env Write \<noteq> None \<or> (\<exists>e. stmt p (st_rows st) = Inl e)")
        case True
        with run roll Inr show ?thesis by (auto simp: run_write_def st1 Let_def split: option.split)
      next
        case False
        then obtain rs where rs: "stmt p (st_rows st) = Inr rs" "se_fault env Write = None"
          by (cases "stmt p (st_rows st)") auto
        with assms(2) n have w: "row_written rid (mk p) (st_rows st) rs" by blast
        then have l: "map_of rs rid = Some (mk p)" by (simp add: row_written_lookup)
        have race: "se_race_after env rs = rs" using assms(1) by (simp add: quiet_def)
        consider (commit) f where "?out = (Inl (handled_fault f), st\<lparr>st_rows := rs, st_in_transaction := True\<rparr>)" "se_fault env Commit = Some f"
          | (lost) e where "?out = (Inl e, st\<lparr>st_rows := rs, st_in_transaction := False\<rparr>)" "se_fault env Read_Back \<noteq> None"
          | (stored) "?out = (Inr (row_to_snapshot rid (mk p)), st\<lparr>st_rows := rs, st_in_transaction := False\<rparr>)"
        proof (cases "se_fault env Commit")
          case (Some f)
          with run Inr rs show ?thesis by (intro commit [of f]) (simp_all add: run_write_def st1 Let_def)
        next
          case None
          have st2: "st\<lparr>st_rows := rs, st_in_transaction := False\<rparr> = st\<lparr>st_rows := rs\<rparr>" using run by simp
          have o: "?out = (store_get_or_raise env Read_Back handled_fault (st\<lparr>st_rows := rs\<rparr>) rid, st\<lparr>st_rows := rs\<rparr>)"
            using run Inr rs None by (simp add: run_write_def st1 Let_def race)
          show ?thesis
          proof (cases "se_fault env Read_Back")
            case (Some f)
            then have "\<exists>e. store_get_or_raise env Read_Back handled_fault (st\<lparr>st_rows := rs\<rparr>) rid = Inl e"
              by (simp add: store_get_or_raise_def store_get_def)
            with o Some st2 show ?thesis by (metis lost option.distinct(1))
          next
            case none: None
            with l have "store_get_or_raise env Read_Back handled_fault (st\<lparr>st_rows := rs\<rparr>) rid = Inr (row_to_snapshot rid (mk p))"
              by (intro store_get_or_raise_ok) simp_all
            with o st2 show ?thesis by (metis stored)
          qed
        qed
        then show ?thesis
        proof cases
          case (commit f)
          then show ?thesis using w unfolding store_effect_def
            by (intro exI [of _ rs] exI [of _ True]) (auto simp: lossless_def)
        next
          case (lost e)
          then show ?thesis using w unfolding store_effect_def
            by (intro exI [of _ rs] exI [of _ False]) (auto simp: lossless_def)
        next
          case stored
          then show ?thesis using w unfolding store_effect_def
            by (intro exI [of _ rs] exI [of _ False]) auto
        qed
      qed
    qed
  qed
qed

text \<open>The snapshot a writing call returns is that of the row its statement wrote.\<close>

lemma run_write_value:
  assumes "quiet env" and "run_write env n payload rid stmt st = (Inr snap, st')"
    and "\<And>p rs. stmt p (st_rows st) = Inr rs \<Longrightarrow> map_of rs rid = Some (mk p)"
  shows "\<exists>p. snap = row_to_snapshot rid (mk p)"
proof -
  from assms(1, 2) obtain p rs where "stmt p (st_rows st) = Inr rs"
    "store_get_or_raise env Read_Back handled_fault (st\<lparr>st_rows := rs\<rparr>) rid = Inr snap"
    by (auto simp: run_write_def rollback_def quiet_def Let_def split: if_splits option.splits sum.splits)
  with assms(3) store_get_or_raise_Inr show ?thesis by fastforce
qed

lemma run_write_rows:
  assumes "quiet env" and "run_write env n payload rid stmt st = (Inr snap, st')"
  shows "\<exists>p. json_payload payload = Inr p \<and> stmt p (st_rows st) = Inr (st_rows st')"
  using assms
  by (auto simp: run_write_def rollback_def quiet_def result_simps Let_def split: if_splits option.splits sum.splits)

text \<open>The record a call is about: the id of its argument.\<close>

definition input_id :: "store_env \<Rightarrow> pyval \<Rightarrow> string" where
  "input_id env record = (case normalize_record_input (se_conv env) record of Inl _ \<Rightarrow> [] | Inr (rid, _) \<Rightarrow> rid)"

lemma store_create_effect:
  assumes "quiet env" shows "store_effect env (input_id env rec) st (store_create env rec st)"
proof (cases "normalize_record_input (se_conv env) rec")
  case (Inr n)
  obtain rid revn payload where n: "n = (rid, revn, payload)" by (cases n)
  have "store_effect env rid st (run_write env revn payload rid
      (\<lambda>p rs. if map_of rs rid \<noteq> None then Inl (RecordStoreConflictError ''UNIQUE constraint failed: records.record_id'')
         else Inr (rs @ [(rid, \<lparr>row_revision = revn, row_payload = p, row_updated_at = se_now env\<rparr>)])) st)"
    by (rule run_write_effect [OF assms, where mk = "\<lambda>p. \<lparr>row_revision = revn, row_payload = p, row_updated_at = se_now env\<rparr>"])
      (auto intro!: row_written_append split: if_splits)
  with Inr n show ?thesis by (simp add: store_create_def input_id_def)
qed (simp add: store_create_def)

lemma store_save_effect:
  assumes "quiet env" shows "store_effect env (input_id env rec) st (store_save env rec st)"
proof (cases "normalize_record_input (se_conv env) rec")
  case (Inr n)
  obtain rid revn payload where n: "n = (rid, revn, payload)" by (cases n)
  have id: "input_id env rec = rid" by (simp add: input_id_def Inr n)
  have c: "store_effect env rid st (store_create env
      (VDict [(''record_id'', VStr rid), (''revision'', VInt revn), (''payload'', VDict payload)]) st)"
    using store_create_effect [OF assms, of "VDict [(''record_id'', VStr rid), (''revision'', VInt revn), (''payload'', VDict payload)]" st]
    by (simp add: input_id_def normalize_record_input_def dict_get_or_def)
  have u: "store_effect env rid st (run_write env revn payload rid
      (\<lambda>p rs. Inr (sql_update (\<lambda>k _. k = rid) \<lparr>row_revision = revn, row_payload = p, row_updated_at = se_now env\<rparr> rs)) st)"
    if "map_of (st_rows st) rid = Some old" "row_revision old < revn" for old
    by (rule run_write_effect [OF assms, where mk = "\<lambda>p. \<lparr>row_revision = revn, row_payload = p, row_updated_at = se_now env\<rparr>"])
      (use that in \<open>auto intro!: row_written_replace\<close>)
  show ?thesis unfolding id store_save_def Inr n sum.case prod.case
    using c u by (auto split: option.split)
qed (simp add: store_save_def)

lemma store_update_effect:
  assumes "quiet env" shows "store_effect env rid st (store_update env rid m st)"
proof -
  have u: "store_effect env rid st (case run_write env (row_revision old + 1) payload rid
      (\<lambda>p rs. Inr (sql_update (\<lambda>k r. k = rid \<and> row_revision r = row_revision old)
         \<lparr>row_revision = row_revision old + 1, row_payload = p, row_updated_at = se_now env\<rparr> rs)) st of
      (Inr snapshot, st') \<Rightarrow>
        if get_or_none snapshot ''revision'' \<noteq> VInt (row_revision old + 1)
        then (Inl (RecordStoreConflictError ''concurrent write detected''), st') else (Inr snapshot, st')
    | (Inl e, st') \<Rightarrow> (Inl e, st'))"
    if old: "map_of (st_rows st) rid = Some old" for old payload
  proof -
    let ?w = "run_write env (row_revision old + 1) payload rid
      (\<lambda>p rs. Inr (sql_update (\<lambda>k r. k = rid \<and> row_revision r = row_revision old)
         \<lparr>row_revision = row_revision old + 1, row_payload = p, row_updated_at = se_now env\<rparr> rs)) st"
    have e: "store_effect env rid st ?w"
      by (rule run_write_effect [OF assms, where mk = "\<lambda>p. \<lparr>row_revision = row_revision old + 1, row_payload = p, row_updated_at = se_now env\<rparr>"])
        (use old in \<open>auto intro!: row_written_replace\<close>)
    show ?thesis
    proof (cases "?w")
      case (Pair res st')
      show ?thesis
      proof (cases res)
        case (Inl err)
        with e Pair show ?thesis by simp
      next
        case (Inr snap)
        have "\<exists>p. snap = row_to_snapshot rid \<lparr>row_revision = row_revision old + 1, row_payload = p, row_updated_at = se_now env\<rparr>"
          using Pair Inr old by (intro run_write_value [OF assms]) (auto simp: map_of_sql_update)
        with e Pair Inr show ?thesis by auto
      qed
    qed
  qed
  then show ?thesis
    by (auto simp: store_update_def Let_def split: option.splits pyval.splits sum.splits)
qed

lemma store_mark_unsynced_effect:
  assumes "quiet env" shows "store_effect env rid st (store_mark_unsynced env rid st)"
  using store_update_effect [OF assms]
  by (auto simp: store_mark_unsynced_def split: option.splits)

lemma store_step_effect: "quiet (fst op) \<Longrightarrow> \<exists>rid. store_effect (fst op) rid st (store_step op st)"
proof (cases op)
  case (Pair env x)
  assume "quiet (fst op)"
  then show ?thesis using Pair store_create_effect store_save_effect store_update_effect store_mark_unsynced_effect
    by (cases x) (simp, blast)+
qed

text \<open>The rows after any call without other writers: as before, or one row written.\<close>

lemma store_effect_rows:
  assumes "store_effect env rid st (res, st')"
  obtains (same) e where "res = Inl e" "st_rows st' = st_rows st"
  | (written) r where "row_written rid r (st_rows st) (st_rows st')"
      "res = Inr (row_to_snapshot rid r) \<or> (\<exists>e. res = Inl e \<and> \<not> lossless env)"
proof -
  from assms obtain rs b where st': "st' = st\<lparr>st_rows := rs, st_in_transaction := b\<rparr>"
    and out: "case res of Inr snap \<Rightarrow> (\<exists>r. snap = row_to_snapshot rid r \<and> row_written rid r (st_rows st) rs)
       | Inl e \<Rightarrow> (lossless env \<longrightarrow> st' = st) \<and> (rs = st_rows st \<or> (\<exists>r. row_written rid r (st_rows st) rs))"
    unfolding store_effect_def fst_conv snd_conv by blast
  have rs: "st_rows st' = rs" by (simp add: st')
  show ?thesis
  proof (cases res)
    case (Inr snap)
    with out rs written show ?thesis by fastforce
  next
    case (Inl e)
    show ?thesis
    proof (cases "rs = st_rows st")
      case True
      with Inl rs show ?thesis by (intro same) simp_all
    next
      case False
      have l: "\<not> lossless env"
      proof
        assume "lossless env"
        with out Inl have "st' = st" by simp
        with rs False show False by simp
      qed
      from False out Inl obtain r where "row_written rid r (st_rows st) rs" by auto
      with Inl l rs show ?thesis by (intro written [of r]) simp_all
    qed
  qed
qed

lemma store_effect_fail: "store_effect env rid st (Inl e, st') \<Longrightarrow> lossless env \<Longrightarrow> st' = st"
  by (auto simp: store_effect_def)

interpretation sqlite: versioned_store store_step store_version store_inv "\<lambda>op. quiet (fst op)" "\<lambda>op. lossless (fst op)"
proof (unfold_locales, goal_cases)
  case (1 op s)
  then obtain rid where "store_effect (fst op) rid s (store_step op s)" using store_step_effect by blast
  then have "store_effect (fst op) rid s (fst (store_step op s), snd (store_step op s))" by simp
  then show ?case using 1(2) row_written_inv
    by (cases rule: store_effect_rows) (auto simp: store_inv_def)
next
  case (2 op s k v)
  then obtain rid where "store_effect (fst op) rid s (store_step op s)" using store_step_effect by blast
  then have "store_effect (fst op) rid s (fst (store_step op s), snd (store_step op s))" by simp
  then show ?case
  proof (cases rule: store_effect_rows)
    case (written r)
    with 2(3) show ?thesis by (cases "k = rid") (auto simp: store_version_def row_written_lookup intro: less_imp_le)
  qed (use 2(3) in \<open>auto simp: store_version_def\<close>)
next
  case (3 op s e s')
  then obtain rid where "store_effect (fst op) rid s (Inl e, s')" using store_step_effect by metis
  with 3(2) show ?case by (blast dest: store_effect_fail)
qed

section \<open>Properties\<close>

text \<open>
  Over any sequence of store calls without other writers, whatever engine errors they meet, record ids stay
  unique, every revision fits a SQLite integer, no record disappears and no revision ever decreases; a call
  that raises leaves the table as it was, unless its commit, its rollback or its read-back failed.
\<close>

theorem store_revisions_monotone:
  assumes "list_all (\<lambda>op. quiet (fst op)) ops" and "store_inv st" and "store_version st rid = Some v"
  shows "store_inv (fold (\<lambda>op s. snd (store_step op s)) ops st) \<and>
    (\<exists>v'. store_version (fold (\<lambda>op s. snd (store_step op s)) ops st) rid = Some v' \<and> v \<le> v') \<and>
    (\<forall>op s e s'. quiet (fst op) \<longrightarrow> lossless (fst op) \<longrightarrow> store_inv s \<longrightarrow> store_step op s = (Inl e, s') \<longrightarrow> s' = s)"
  using sqlite.run_inv [OF assms(1,2)] sqlite.run_grows [OF assms] sqlite.step_atomic by blast

definition demo_env :: store_env where
  "demo_env = \<lparr>se_conv = \<lparr>cv_repr = (\<lambda>_. []), cv_float_of_str = (\<lambda>_. None), cv_int_of_str = (\<lambda>_. None)\<rparr>,
     se_now = ''t1'', se_fault = (\<lambda>_. None), se_race_before = id, se_race_after = id\<rparr>"

definition demo_store :: store where
  "demo_store = \<lparr>st_rows = [(''r1'', \<lparr>row_revision = 3, row_payload = [(''a'', VInt 1)],
     row_updated_at = ''t0''\<rparr>)], st_schema_version = Some 1, st_in_transaction = False\<rparr>"

theorem store_revisions_monotone_witness:
  "\<exists>v'. store_version (fold (\<lambda>op s. snd (store_step op s)) [(demo_env, OpMarkUnsynced ''r1'')] demo_store)
      ''r1'' = Some v' \<and> 3 \<le> v'"
proof -
  have q: "list_all (\<lambda>op. quiet (fst op)) [(demo_env, OpMarkUnsynced ''r1'')]"
    by (simp add: quiet_def demo_env_def)
  have i: "store_inv demo_store" by (simp add: store_inv_def dict_wf_def demo_store_def sqlite_integer_def)
  have "store_version demo_store ''r1'' = Some 3" by (simp add: store_version_def demo_store_def)
  from store_revisions_monotone [OF q i this] show ?thesis by blast
qed

text \<open>
  Optimistic concurrency: without other writers, without engine errors and outside a transaction left open,
  an update succeeds exactly when the record exists at the expected revision, the patched payload is
  serialisable and the next revision fits a SQLite integer. It then raises the revision by one, stores the
  merged payload and touches no other record.
\<close>

definition undisturbed :: "store_env \<Rightarrow> store \<Rightarrow> bool" where
  "undisturbed env st \<longleftrightarrow> quiet env \<and> (\<forall>p. se_fault env p = None) \<and> \<not> st_in_transaction st"

lemma run_write_undisturbed:
  assumes "undisturbed env st" and "sqlite_integer n"
    and "\<And>p rs. stmt p (st_rows st) = Inr rs \<Longrightarrow> map_of rs rid = Some (mk p)"
  shows "run_write env n payload rid stmt st =
    (case json_payload payload of
       Inl e \<Rightarrow> (Inl (StorePyError e), st)
     | Inr p \<Rightarrow>
         (case stmt p (st_rows st) of
            Inl e \<Rightarrow> (Inl e, st)
          | Inr rs \<Rightarrow> (Inr (row_to_snapshot rid (mk p)), st\<lparr>st_rows := rs\<rparr>)))"
  using assms
  by (auto simp: run_write_def rollback_def undisturbed_def quiet_def bind_integer_def store_get_or_raise_def
      store_get_def Let_def split: sum.split)

lemma store_update_undisturbed:
  assumes "undisturbed env st" and "map_of m ''expected_revision'' = Some (VInt v)"
    and "map_of m ''payload'' = Some (VDict patch)"
    and "map_of (st_rows st) rid = Some old" and "row_revision old = v" and "sqlite_integer (v + 1)"
    and "json_payload (dict_update (row_payload old) patch) = Inr p"
  defines "new \<equiv> \<lparr>row_revision = v + 1, row_payload = p, row_updated_at = se_now env\<rparr>"
  shows "store_update env rid (VDict m) st =
    (Inr (row_to_snapshot rid new), st\<lparr>st_rows := sql_update (\<lambda>k r. k = rid \<and> row_revision r = v) new (st_rows st)\<rparr>)"
proof -
  have f: "se_fault env Read_Current = None" using assms(1) by (simp add: undisturbed_def)
  have "run_write env (v + 1) (dict_update (row_payload old) patch) rid
      (\<lambda>p rs. Inr (sql_update (\<lambda>k r. k = rid \<and> row_revision r = v)
         \<lparr>row_revision = v + 1, row_payload = p, row_updated_at = se_now env\<rparr> rs)) st =
     (Inr (row_to_snapshot rid new), st\<lparr>st_rows := sql_update (\<lambda>k r. k = rid \<and> row_revision r = v) new (st_rows st)\<rparr>)"
    by (subst run_write_undisturbed [OF assms(1, 6), where mk = "\<lambda>p. \<lparr>row_revision = v + 1, row_payload = p, row_updated_at = se_now env\<rparr>"])
      (use assms(4, 5, 7) in \<open>auto simp: map_of_sql_update new_def\<close>)
  then show ?thesis
    using assms(2-5) f by (simp add: store_update_def dict_get_or_def [of m] new_def Let_def)
qed

lemma run_write_ok:
  "run_write env n payload rid stmt st = (Inr snap, st') \<Longrightarrow> sqlite_integer n \<and> (\<exists>p. json_payload payload = Inr p)"
  by (auto simp: run_write_def rollback_def bind_integer_def result_simps Let_def split: if_splits option.splits sum.splits)

lemma store_update_ok:
  assumes "store_update env rid (VDict m) st = (Inr snap, st')" and "map_of m ''payload'' = Some (VDict patch)"
    and "map_of m ''expected_revision'' = Some (VInt expected)"
  shows "\<exists>old p. map_of (st_rows st) rid = Some old \<and> row_revision old = expected \<and> sqlite_integer (expected + 1) \<and>
    json_payload (dict_update (row_payload old) patch) = Inr p"
proof -
  from assms obtain old where old: "map_of (st_rows st) rid = Some old" "row_revision old = expected"
    and f: "se_fault env Read_Current = None"
    by (auto simp: store_update_def split: option.splits if_splits)
  let ?w = "run_write env (expected + 1) (dict_update (row_payload old) patch) rid
      (\<lambda>p rs. Inr (sql_update (\<lambda>k r. k = rid \<and> row_revision r = expected)
         \<lparr>row_revision = expected + 1, row_payload = p, row_updated_at = se_now env\<rparr> rs)) st"
  have u: "store_update env rid (VDict m) st = (case ?w of
      (Inr snapshot, st') \<Rightarrow> if get_or_none snapshot ''revision'' \<noteq> VInt (expected + 1)
        then (Inl (RecordStoreConflictError ''concurrent write detected''), st') else (Inr snapshot, st')
    | (Inl e, st') \<Rightarrow> (Inl e, st'))"
    using old f assms(2, 3) by (simp add: store_update_def dict_get_or_def [of m] Let_def)
  obtain res st2 where w: "?w = (res, st2)" by (cases "?w")
  have "\<exists>v. res = Inr v" using assms(1) unfolding u w by (cases res) simp_all
  then obtain v where "res = Inr v" by blast
  with w have "sqlite_integer (expected + 1)" "\<exists>p. json_payload (dict_update (row_payload old) patch) = Inr p"
    using run_write_ok by (blast, blast)
  with old show ?thesis by blast
qed

theorem store_update_iff:
  assumes "undisturbed env st" and "map_of m ''payload'' = Some (VDict patch)"
    and "map_of m ''expected_revision'' = Some (VInt expected)"
  shows "(\<exists>snap st'. store_update env rid (VDict m) st = (Inr snap, st')) \<longleftrightarrow>
      (\<exists>old p. map_of (st_rows st) rid = Some old \<and> row_revision old = expected \<and> sqlite_integer (expected + 1) \<and>
         json_payload (dict_update (row_payload old) patch) = Inr p)"
    and "map_of (st_rows st) rid = Some old \<Longrightarrow> row_revision old = expected \<Longrightarrow> sqlite_integer (expected + 1) \<Longrightarrow>
      json_payload (dict_update (row_payload old) patch) = Inr p \<Longrightarrow>
      store_update env rid (VDict m) st =
       (let new = \<lparr>row_revision = expected + 1, row_payload = p, row_updated_at = se_now env\<rparr> in
        (Inr (row_to_snapshot rid new),
         st\<lparr>st_rows := sql_update (\<lambda>k r. k = rid \<and> row_revision r = expected) new (st_rows st)\<rparr>))"
proof -
  show upd: "store_update env rid (VDict m) st =
       (let new = \<lparr>row_revision = expected + 1, row_payload = p, row_updated_at = se_now env\<rparr> in
        (Inr (row_to_snapshot rid new),
         st\<lparr>st_rows := sql_update (\<lambda>k r. k = rid \<and> row_revision r = expected) new (st_rows st)\<rparr>))"
    if "map_of (st_rows st) rid = Some old" "row_revision old = expected" "sqlite_integer (expected + 1)"
      "json_payload (dict_update (row_payload old) patch) = Inr p" for old p
    using store_update_undisturbed [OF assms(1, 3, 2) that] by (simp add: Let_def)
  from upd show "(\<exists>snap st'. store_update env rid (VDict m) st = (Inr snap, st')) \<longleftrightarrow>
      (\<exists>old p. map_of (st_rows st) rid = Some old \<and> row_revision old = expected \<and> sqlite_integer (expected + 1) \<and>
         json_payload (dict_update (row_payload old) patch) = Inr p)"
    using store_update_ok [OF _ assms(2, 3)] by (auto simp: Let_def)
qed

theorem store_update_iff_witness:
  "\<exists>snap st'. store_update demo_env ''r1''
      (VDict [(''expected_revision'', VInt 3), (''payload'', VDict [(''b'', VInt 2)])]) demo_store
      = (Inr snap, st') \<and> get_or_none snap ''revision'' = VInt 4"
proof -
  let ?m = "[(''expected_revision'', VInt 3), (''payload'', VDict [(''b'', VInt 2)])]"
  let ?old = "\<lparr>row_revision = 3, row_payload = [(''a'', VInt 1)], row_updated_at = ''t0''\<rparr>"
  have u: "undisturbed demo_env demo_store" by (simp add: undisturbed_def quiet_def demo_env_def demo_store_def)
  have m: "map_of ?m ''payload'' = Some (VDict [(''b'', VInt 2)])" "map_of ?m ''expected_revision'' = Some (VInt 3)"
    by simp_all
  have j: "json_payload (dict_update (row_payload ?old) [(''b'', VInt 2)]) = Inr [(''a'', VInt 1), (''b'', VInt 2)]"
    by code_simp
  have o: "map_of (st_rows demo_store) ''r1'' = Some ?old" "row_revision ?old = 3" "sqlite_integer (3 + 1)"
    by (simp_all add: demo_store_def sqlite_integer_def)
  show ?thesis using store_update_iff(2) [OF u m o j] by (simp add: Let_def)
qed

text \<open>
  The check of the written revision does not detect every race: when another connection has
  moved the record from the expected revision to the next one between the read and the write, the
  update changes nothing and still reports success, with the other writer's payload.
\<close>

theorem store_update_lost_update:
  "\<exists>env st snap st' other. (\<forall>p. se_fault env p = None) \<and> se_race_after env = id \<and>
     map_of (st_rows st) ''r1'' = Some \<lparr>row_revision = 3, row_payload = [(''a'', VInt 1)], row_updated_at = ''t0''\<rparr> \<and>
     store_update env ''r1'' (VDict [(''expected_revision'', VInt 3), (''payload'', VDict [(''a'', VInt 9)])]) st
       = (Inr snap, st') \<and>
     map_of (st_rows st') ''r1'' = Some other \<and> map_of (row_payload other) ''a'' = Some (VInt 2)"
proof -
  let ?other = "\<lparr>row_revision = 4, row_payload = [(''a'', VInt 2)], row_updated_at = ''t9''\<rparr>"
  let ?env = "demo_env\<lparr>se_race_before := sql_update (\<lambda>k _. k = ''r1'') ?other\<rparr>"
  have "json_payload (dict_update [(''a'', VInt 1)] [(''a'', VInt 9)]) = Inr [(''a'', VInt 9)]" by code_simp
  then have "store_update ?env ''r1''
      (VDict [(''expected_revision'', VInt 3), (''payload'', VDict [(''a'', VInt 9)])]) demo_store
     = (Inr (row_to_snapshot ''r1'' ?other), demo_store\<lparr>st_rows := [(''r1'', ?other)]\<rparr>)"
    by (simp add: store_update_def demo_store_def demo_env_def run_write_def sql_update_def bind_integer_def
        sqlite_integer_def dict_get_or_def store_get_or_raise_def store_get_def Let_def)
  then show ?thesis
    by (intro exI [of _ ?env] exI [of _ demo_store] exI [of _ "row_to_snapshot ''r1'' ?other"]
        exI [of _ "demo_store\<lparr>st_rows := [(''r1'', ?other)]\<rparr>"] exI [of _ ?other])
      (simp add: demo_store_def demo_env_def)
qed

text \<open>
  A read-back that fails after the commit: the caller sees an error although the row is written.
\<close>

theorem store_update_lost_read_back:
  "\<exists>env st e st'. quiet env \<and> (\<forall>p. p \<noteq> Read_Back \<longrightarrow> se_fault env p = None) \<and> store_version st ''r1'' = Some 3 \<and>
     store_update env ''r1'' (VDict [(''expected_revision'', VInt 3), (''payload'', VDict [(''a'', VInt 9)])]) st
       = (Inl e, st') \<and> store_version st' ''r1'' = Some 4"
proof -
  let ?env = "demo_env\<lparr>se_fault := (\<lambda>p. if p = Read_Back then Some (OperationalError ''disk I/O error'') else None)\<rparr>"
  let ?new = "\<lparr>row_revision = 4, row_payload = [(''a'', VInt 9)], row_updated_at = ''t1''\<rparr>"
  have "json_payload (dict_update [(''a'', VInt 1)] [(''a'', VInt 9)]) = Inr [(''a'', VInt 9)]" by code_simp
  then have "store_update ?env ''r1''
      (VDict [(''expected_revision'', VInt 3), (''payload'', VDict [(''a'', VInt 9)])]) demo_store
     = (Inl (map_operational_error ''disk I/O error''), demo_store\<lparr>st_rows := [(''r1'', ?new)]\<rparr>)"
    by (simp add: store_update_def demo_store_def demo_env_def run_write_def sql_update_def bind_integer_def
        sqlite_integer_def dict_get_or_def store_get_or_raise_def store_get_def Let_def)
  then show ?thesis
    by (intro exI [of _ ?env] exI [of _ demo_store] exI [of _ "map_operational_error ''disk I/O error''"]
        exI [of _ "demo_store\<lparr>st_rows := [(''r1'', ?new)]\<rparr>"])
      (simp add: demo_store_def demo_env_def quiet_def store_version_def)
qed

end
