(* ===== verification/Records_Service.thy ===== *)
theory Records_Service
  imports Local_Record Record_Store
begin

text \<open>
  The records service (\<^verbatim>\<open>application/records/service.py\<close>) over the SQLite store. A service call
  runs in a store state and returns the new one. \<^verbatim>\<open>datetime.isoformat\<close> and
  \<^verbatim>\<open>datetime.fromisoformat\<close> are the parameters of \<open>clock_format\<close>; timestamps are instants. The
  fields of a \<open>local_record\<close> have their declared types, so the \<^verbatim>\<open>isinstance\<close> checks on them
  cannot fail and have no branch.
\<close>

datatype records_error =
    RecordNotFoundError string
  | RecordValidationError string
  | RecordConflictError string
  | RecordStoreError string

record clock_format =
  cf_isoformat :: "int \<Rightarrow> string"
  cf_fromisoformat :: "string \<Rightarrow> int option"

section \<open>Checks\<close>

definition ensure_snapshot_mapping :: "pyval \<Rightarrow> records_error + mapping" where
  "ensure_snapshot_mapping v =
     (case v of VDict d \<Rightarrow> Inr d
      | _ \<Rightarrow> Inl (RecordValidationError ''record store snapshot must be a mapping''))"

definition require_mapping :: "string \<Rightarrow> pyval \<Rightarrow> records_error + mapping" where
  "require_mapping field v =
     (case v of VDict d \<Rightarrow> Inr d | _ \<Rightarrow> Inl (RecordValidationError (field @ '' must be a mapping'')))"

definition require_token :: "string \<Rightarrow> pyval \<Rightarrow> records_error + string" where
  "require_token field v =
     (let bad = Inl (RecordValidationError (field @ '' must be a non-empty string'')) in
      case v of VStr s \<Rightarrow> if strip s = [] then bad else Inr (strip s) | _ \<Rightarrow> bad)"

definition require_int :: "string \<Rightarrow> pyval \<Rightarrow> records_error + int" where
  "require_int field v =
     (case v of VInt i \<Rightarrow> Inr i | VBool b \<Rightarrow> Inr (if b then 1 else 0)
      | _ \<Rightarrow> Inl (RecordValidationError (field @ '' must be an int'')))"

definition require_non_negative_int :: "string \<Rightarrow> pyval \<Rightarrow> records_error + int" where
  "require_non_negative_int field v =
     rbind (require_int field v) (\<lambda>n.
     if n < 0 then Inl (RecordValidationError (field @ '' must be >= 0'')) else Inr n)"

definition require_datetime :: "clock_format \<Rightarrow> string \<Rightarrow> pyval \<Rightarrow> records_error + int" where
  "require_datetime cf field v =
     (let bad = Inl (RecordValidationError (field @ '' must be datetime or ISO-8601 datetime string'')) in
      case v of
        VTime t \<Rightarrow> Inr t
      | VStr s \<Rightarrow> if strip s = [] then bad
                  else (case cf_fromisoformat cf s of None \<Rightarrow> bad | Some t \<Rightarrow> Inr t)
      | _ \<Rightarrow> bad)"

fun sync_value :: "sync_status \<Rightarrow> string" where
  "sync_value UNSYNCED = ''unsynced''"
| "sync_value SYNCED = ''synced''"

fun processing_value :: "record_processing_status \<Rightarrow> string" where
  "processing_value RP_PENDING = ''pending''"
| "processing_value RP_PROCESSED = ''processed''"
| "processing_value RP_REJECTED = ''rejected''"
| "processing_value RP_FAILED = ''failed''"

text \<open>\<^verbatim>\<open>enum_cls(token)\<close> is the member with that value.\<close>

definition require_enum ::
    "('a \<Rightarrow> string) \<Rightarrow> 'a list \<Rightarrow> string \<Rightarrow> pyval \<Rightarrow> records_error + 'a" where
  "require_enum val members field v =
     rbind (require_token field v) (\<lambda>raw.
     let token = str_lower raw in
     case find (\<lambda>m. val m = token) members of
       Some m \<Rightarrow> Inr m
     | None \<Rightarrow> Inl (RecordValidationError
                  (field @ '' value '' @ [CHR 39] @ token @ [CHR 39] @ '' is not supported'')))"

definition require_metadata :: "(string \<times> pyval) list \<Rightarrow> records_error + string dict" where
  "require_metadata d =
     rbind (rmap (\<lambda>(k, v).
        rbind (require_token ''metadata key'' (VStr k)) (\<lambda>key.
        rbind (require_token (''metadata['' @ k @ '']'') v) (\<lambda>val. Inr (key, val)))) d)
     (\<lambda>items. Inr (dict_update [] items))"

definition require_reason :: "pyval \<Rightarrow> records_error + string option" where
  "require_reason v =
     (if v = VNone then Inr None
      else rbind (require_token ''last_reason_code'' v) (\<lambda>s. Inr (Some s)))"

section \<open>Translation to and from store payloads\<close>

definition to_store_payload :: "clock_format \<Rightarrow> local_record \<Rightarrow> records_error + mapping" where
  "to_store_payload cf r =
     rbind (require_token ''record_id'' (VStr (lr_record_id r))) (\<lambda>rid.
     rbind (require_token ''source_identity'' (VStr (lr_source_identity r))) (\<lambda>src.
     rbind (require_token ''canonical_name'' (VStr (lr_canonical_name r))) (\<lambda>name.
     rbind (require_non_negative_int ''revision'' (VInt (lr_revision r))) (\<lambda>revn.
     rbind (raise_if (lr_updated_at r < lr_created_at r)
              (RecordValidationError ''updated_at must not be older than created_at'')) (\<lambda>_.
     rbind (require_reason (case lr_last_reason_code r of None \<Rightarrow> VNone | Some s \<Rightarrow> VStr s)) (\<lambda>reason.
     rbind (require_metadata (map (\<lambda>(k, v). (k, VStr v))
              (case lr_metadata r of None \<Rightarrow> [] | Some m \<Rightarrow> m))) (\<lambda>meta.
     Inr [(''record_id'', VStr rid), (''revision'', VInt revn),
          (''payload'', VDict
             [(''source_identity'', VStr src), (''canonical_name'', VStr name),
              (''sync_status'', VStr (sync_value (lr_sync_status r))),
              (''processing_status'', VStr (processing_value (lr_processing_status r))),
              (''created_at'', VStr (cf_isoformat cf (lr_created_at r))),
              (''updated_at'', VStr (cf_isoformat cf (lr_updated_at r))),
              (''last_reason_code'', case reason of None \<Rightarrow> VNone | Some s \<Rightarrow> VStr s),
              (''metadata'', VDict (map (\<lambda>(k, v). (k, VStr v)) meta))])])))))))"

definition from_store_snapshot :: "clock_format \<Rightarrow> pyval \<Rightarrow> records_error + local_record" where
  "from_store_snapshot cf snapshot =
     rbind (ensure_snapshot_mapping snapshot) (\<lambda>mapped.
     rbind (require_token ''record_id'' (get_or_none mapped ''record_id'')) (\<lambda>rid.
     rbind (require_int ''revision'' (get_or_none mapped ''revision'')) (\<lambda>revn.
     rbind (require_mapping ''payload'' (get_or_none mapped ''payload'')) (\<lambda>payload.
     rbind (require_datetime cf ''created_at'' (get_or_none payload ''created_at'')) (\<lambda>created.
     rbind (require_datetime cf ''updated_at''
              (dict_get_or mapped ''updated_at'' (get_or_none payload ''updated_at''))) (\<lambda>updated.
     rbind (require_enum sync_value [UNSYNCED, SYNCED] ''sync_status''
              (get_or_none payload ''sync_status'')) (\<lambda>sync.
     rbind (require_enum processing_value [RP_PENDING, RP_PROCESSED, RP_REJECTED, RP_FAILED]
              ''processing_status'' (get_or_none payload ''processing_status'')) (\<lambda>proc.
     rbind (require_mapping ''metadata'' (dict_get_or payload ''metadata'' (VDict []))) (\<lambda>raw_meta.
     rbind (require_metadata raw_meta) (\<lambda>meta.
     rbind (require_reason (get_or_none payload ''last_reason_code'')) (\<lambda>reason.
     rbind (require_token ''source_identity'' (get_or_none payload ''source_identity'')) (\<lambda>src.
     rbind (require_token ''canonical_name'' (get_or_none payload ''canonical_name'')) (\<lambda>name.
     Inr \<lparr>lr_record_id = rid, lr_source_identity = src, lr_canonical_name = name,
          lr_sync_status = sync, lr_processing_status = proc, lr_revision = revn,
          lr_created_at = created, lr_updated_at = updated, lr_last_reason_code = reason,
          lr_metadata = Some meta\<rparr>)))))))))))))"

definition normalize_mutation :: "pyval \<Rightarrow> records_error + mapping" where
  "normalize_mutation mutation =
     (case mutation of
        VDict m \<Rightarrow>
          (case map_of m ''expected_revision'' of
             None \<Rightarrow> Inl (RecordValidationError ''mutation.expected_revision is required'')
           | Some ev \<Rightarrow>
               rbind (require_non_negative_int ''mutation.expected_revision'' ev) (\<lambda>expected.
               rbind (require_mapping ''mutation.payload'' (dict_get_or m ''payload'' (VDict []))) (\<lambda>payload.
               Inr (AList.update ''payload'' (VDict payload)
                 (AList.update ''expected_revision'' (VInt expected) m)))))
      | _ \<Rightarrow> Inl (RecordValidationError ''mutation must be a mapping''))"

section \<open>Mapping of store exceptions\<close>

fun store_error_name :: "record_store_error \<Rightarrow> string" where
  "store_error_name (RecordStoreSchemaError _) = ''RecordStoreSchemaError''"
| "store_error_name (RecordStoreConflictError _) = ''RecordStoreConflictError''"
| "store_error_name (RecordStoreIntegrityError _) = ''RecordStoreIntegrityError''"
| "store_error_name (RecordStoreTimeoutError _) = ''RecordStoreTimeoutError''"
| "store_error_name (StorePyError (KeyError _)) = ''KeyError''"
| "store_error_name (StorePyError (TypeError _)) = ''TypeError''"
| "store_error_name (StorePyError (ValueError _)) = ''ValueError''"
| "store_error_name (StorePyError (OverflowError _)) = ''OverflowError''"
| "store_error_name (SqliteError (OperationalError _)) = ''OperationalError''"
| "store_error_name (SqliteError (DatabaseError _)) = ''DatabaseError''"

fun store_error_text :: "record_store_error \<Rightarrow> string" where
  "store_error_text (RecordStoreSchemaError m) = m"
| "store_error_text (RecordStoreConflictError m) = m"
| "store_error_text (RecordStoreIntegrityError m) = m"
| "store_error_text (RecordStoreTimeoutError m) = m"
| "store_error_text (StorePyError (KeyError k)) = [CHR 39] @ k @ [CHR 39]"
| "store_error_text (StorePyError (TypeError m)) = m"
| "store_error_text (StorePyError (ValueError m)) = m"
| "store_error_text (StorePyError (OverflowError m)) = m"
| "store_error_text (SqliteError (OperationalError m)) = m"
| "store_error_text (SqliteError (DatabaseError m)) = m"

fun is_type_or_value_error :: "record_store_error \<Rightarrow> bool" where
  "is_type_or_value_error (StorePyError e) = is_type_or_value e"
| "is_type_or_value_error _ = False"

definition map_store_exception :: "record_store_error \<Rightarrow> records_error" where
  "map_store_exception exc =
     (let error_name = str_lower (store_error_name exc);
          message = strip (store_error_text exc);
          lowered = str_lower message
      in if has_substring ''not found'' lowered then RecordNotFoundError message
         else if has_substring ''conflict'' error_name \<or> has_substring ''conflict'' lowered
         then RecordConflictError message
         else if has_substring ''validation'' error_name then RecordValidationError message
         else if is_type_or_value_error exc then RecordValidationError message
         else RecordStoreError (if message = [] then store_error_name exc else message))"

definition store_call :: "(record_store_error + 'a) \<times> store \<Rightarrow> (records_error + 'a) \<times> store" where
  "store_call out = (map_error map_store_exception (fst out), snd out)"

section \<open>The service\<close>

definition get_snapshot :: "store_env \<Rightarrow> store \<Rightarrow> string \<Rightarrow> records_error + mapping" where
  "get_snapshot env st rid =
     rbind (require_token ''record_id'' (VStr rid)) (\<lambda>key.
     map_error map_store_exception (store_get_or_raise env Read_Current SqliteError st key))"

definition read_back :: "clock_format \<Rightarrow> (records_error + mapping) \<times> store \<Rightarrow>
    (records_error + local_record) \<times> store" where
  "read_back cf out = (rbind (fst out) (\<lambda>snap. from_store_snapshot cf (VDict snap)), snd out)"

definition service_create ::
    "clock_format \<Rightarrow> store_env \<Rightarrow> local_record \<Rightarrow> store \<Rightarrow> (records_error + local_record) \<times> store" where
  "service_create cf env r st =
     (case to_store_payload cf r of
        Inl e \<Rightarrow> (Inl e, st)
      | Inr prepared \<Rightarrow> read_back cf (store_call (store_create env (VDict prepared) st)))"

definition service_update ::
    "clock_format \<Rightarrow> store_env \<Rightarrow> pyval \<Rightarrow> pyval \<Rightarrow> store \<Rightarrow> (records_error + local_record) \<times> store" where
  "service_update cf env rid mutation st =
     (case rbind (require_token ''record_id'' rid) (\<lambda>key.
           rbind (normalize_mutation mutation) (\<lambda>m. Inr (key, m))) of
        Inl e \<Rightarrow> (Inl e, st)
      | Inr (key, m) \<Rightarrow> read_back cf (store_call (store_update env key (VDict m) st)))"

text \<open>Marking is up to three store calls, each in an environment of its own.\<close>

definition service_mark_unsynced ::
    "clock_format \<Rightarrow> store_env \<times> store_env \<times> store_env \<Rightarrow> pyval \<Rightarrow> store \<Rightarrow> (records_error + local_record) \<times> store" where
  "service_mark_unsynced cf = (\<lambda>(read_env, env, refresh_env) rid st.
     (case rbind (require_token ''record_id'' rid) (\<lambda>key.
           rbind (get_snapshot read_env st key) (\<lambda>snap.
           rbind (from_store_snapshot cf (VDict snap)) (\<lambda>current. Inr (key, current)))) of
        Inl e \<Rightarrow> (Inl e, st)
      | Inr (key, current) \<Rightarrow>
          if lr_sync_status current = UNSYNCED then (Inr current, st)
          else (case store_call (store_mark_unsynced env key st) of
                  (Inl e, st') \<Rightarrow> (Inl e, st')
                | (Inr _, st') \<Rightarrow> read_back cf (get_snapshot refresh_env st' key, st'))))"

definition service_save ::
    "clock_format \<Rightarrow> store_env \<Rightarrow> local_record \<Rightarrow> store \<Rightarrow> (records_error + local_record) \<times> store" where
  "service_save cf env r st =
     (case to_store_payload cf r of
        Inl e \<Rightarrow> (Inl e, st)
      | Inr prepared \<Rightarrow> read_back cf (store_call (store_save env (VDict prepared) st)))"

section \<open>Records that survive the store unchanged\<close>

definition clean_token :: "string \<Rightarrow> bool" where
  "clean_token s \<longleftrightarrow> s \<noteq> [] \<and> strip s = s"

definition storable :: "local_record \<Rightarrow> bool" where
  "storable r \<longleftrightarrow>
     clean_token (lr_record_id r) \<and> clean_token (lr_source_identity r) \<and>
     clean_token (lr_canonical_name r) \<and> 0 \<le> lr_revision r \<and> lr_revision r < 2 ^ 63 \<and> lr_created_at r \<le> lr_updated_at r \<and>
     (case lr_last_reason_code r of None \<Rightarrow> True | Some s \<Rightarrow> clean_token s) \<and>
     (case lr_metadata r of None \<Rightarrow> True
      | Some m \<Rightarrow> dict_wf m \<and> list_all (\<lambda>(k, v). clean_token k \<and> clean_token v) m)"

definition iso_inverse :: "clock_format \<Rightarrow> bool" where
  "iso_inverse cf \<longleftrightarrow>
     (\<forall>t. cf_fromisoformat cf (cf_isoformat cf t) = Some t \<and> strip (cf_isoformat cf t) \<noteq> [])"

definition str_items :: "string dict \<Rightarrow> mapping" where
  "str_items m = map (\<lambda>(k, v). (k, VStr v)) m"

definition metadata_of :: "local_record \<Rightarrow> string dict" where
  "metadata_of r = (case lr_metadata r of None \<Rightarrow> [] | Some m \<Rightarrow> m)"

definition payload_of :: "clock_format \<Rightarrow> local_record \<Rightarrow> mapping" where
  "payload_of cf r =
     [(''source_identity'', VStr (lr_source_identity r)), (''canonical_name'', VStr (lr_canonical_name r)),
      (''sync_status'', VStr (sync_value (lr_sync_status r))),
      (''processing_status'', VStr (processing_value (lr_processing_status r))),
      (''created_at'', VStr (cf_isoformat cf (lr_created_at r))),
      (''updated_at'', VStr (cf_isoformat cf (lr_updated_at r))),
      (''last_reason_code'', case lr_last_reason_code r of None \<Rightarrow> VNone | Some s \<Rightarrow> VStr s),
      (''metadata'', VDict (str_items (metadata_of r)))]"

text \<open>The record as a caller reads it back: the store's clock and the metadata in key order.\<close>

definition stored_view :: "local_record \<Rightarrow> int \<Rightarrow> local_record" where
  "stored_view r t = r\<lparr>lr_updated_at := t, lr_metadata := Some (sort_key fst (metadata_of r))\<rparr>"

lemma require_token_clean [simp]: "clean_token s \<Longrightarrow> require_token f (VStr s) = Inr s"
  by (simp add: require_token_def clean_token_def)

lemma insort_key_map: "insort_key f (g x) (map g xs) = map g (insort_key (f \<circ> g) x xs)"
  by (induction xs) auto

lemma sort_key_map: "sort_key f (map g xs) = map g (sort_key (f \<circ> g) xs)"
  by (induction xs) (simp_all add: insort_key_map comp_def)

lemma sort_key_str_items: "sort_key fst (str_items m) = str_items (sort_key fst m)"
proof -
  have "fst \<circ> (\<lambda>(k, v). (k, VStr v)) = (fst :: string \<times> string \<Rightarrow> string)" by (rule ext) auto
  then show ?thesis by (simp add: str_items_def sort_key_map)
qed

lemma json_trip_str_items [simp]: "json_trip_items (str_items m) = Inr (str_items m)"
  by (induction m) (auto simp: str_items_def)

lemma require_metadata_clean:
  assumes "dict_wf m" and "list_all (\<lambda>(k, v). clean_token k \<and> clean_token v) m"
  shows "require_metadata (str_items m) = Inr m"
proof -
  have "rmap (\<lambda>(k, v). rbind (require_token ''metadata key'' (VStr k)) (\<lambda>key.
      rbind (require_token (''metadata['' @ k @ '']'') v) (\<lambda>val. Inr (key, val)))) (str_items m) = Inr m"
    using assms(2) by (induction m) (auto simp: str_items_def)
  then show ?thesis using assms(1) dict_update_Nil_wf [of "[]" m] by (simp add: require_metadata_def)
qed

lemma storable_metadata:
  assumes "storable r"
  shows "dict_wf (metadata_of r)" "list_all (\<lambda>(k, v). clean_token k \<and> clean_token v) (metadata_of r)"
  using assms by (cases "lr_metadata r"; simp add: storable_def metadata_of_def dict_wf_def)+

lemma require_metadata_sorted:
  assumes "storable r"
  shows "require_metadata (str_items (sort_key fst (metadata_of r))) = Inr (sort_key fst (metadata_of r))"
proof (rule require_metadata_clean)
  have "distinct (map fst (sort_key fst (metadata_of r)))"
    using storable_metadata(1) [OF assms] by (auto simp: dict_wf_def distinct_map)
  then show "dict_wf (sort_key fst (metadata_of r))" by (simp add: dict_wf_def)
  show "list_all (\<lambda>(k, v). clean_token k \<and> clean_token v) (sort_key fst (metadata_of r))"
    using storable_metadata(2) [OF assms] by (simp add: list_all_iff)
qed

lemma require_reason_clean:
  "(case x of None \<Rightarrow> True | Some s \<Rightarrow> clean_token s) \<Longrightarrow> require_reason (case x of None \<Rightarrow> VNone | Some s \<Rightarrow> VStr s) = Inr x"
  by (cases x) (simp_all add: require_reason_def)

lemma to_store_payload_storable:
  assumes "storable r"
  shows "to_store_payload cf r =
    Inr [(''record_id'', VStr (lr_record_id r)), (''revision'', VInt (lr_revision r)),
         (''payload'', VDict (payload_of cf r))]"
  using assms storable_metadata [OF assms] require_metadata_clean [of "metadata_of r"]
  by (simp add: to_store_payload_def storable_def require_reason_clean require_non_negative_int_def
      require_int_def payload_of_def metadata_of_def str_items_def)

definition stored_payload :: "clock_format \<Rightarrow> local_record \<Rightarrow> mapping" where
  "stored_payload cf r = sort_key fst
     (AList.update ''metadata'' (VDict (str_items (sort_key fst (metadata_of r)))) (payload_of cf r))"

lemma json_payload_of: "json_payload (payload_of cf r) = Inr (stored_payload cf r)"
  by (simp add: json_payload_def payload_of_def stored_payload_def sort_key_str_items
      split: option.splits)

lemma map_of_stored_payload:
  "map_of (stored_payload cf r) =
     (map_of (payload_of cf r))(''metadata'' \<mapsto> VDict (str_items (sort_key fst (metadata_of r))))"
proof -
  have "dict_wf (payload_of cf r)" by (simp add: payload_of_def dict_wf_def)
  then show ?thesis
    unfolding stored_payload_def by (subst map_of_sort_key_fst) (auto intro: dict_wf_update)
qed

lemma require_enum_sync [simp]:
  "require_enum sync_value [UNSYNCED, SYNCED] f (VStr (sync_value s)) = Inr s"
  by (cases s) (simp_all add: require_enum_def require_token_def string_defs Let_def)

lemma require_enum_processing [simp]:
  "require_enum processing_value [RP_PENDING, RP_PROCESSED, RP_REJECTED, RP_FAILED] f
     (VStr (processing_value s)) = Inr s"
  by (cases s) (simp_all add: require_enum_def require_token_def string_defs Let_def)

lemma read_stored_snapshot:
  assumes "storable r" and "iso_inverse cf" and "cf_fromisoformat cf now = Some t" and "strip now \<noteq> []"
  shows "from_store_snapshot cf (VDict (row_to_snapshot (lr_record_id r)
           \<lparr>row_revision = lr_revision r, row_payload = stored_payload cf r, row_updated_at = now\<rparr>))
         = Inr (stored_view r t)"
  using assms require_metadata_sorted [OF assms(1)]
  by (cases r)
    (simp add: from_store_snapshot_def ensure_snapshot_mapping_def row_to_snapshot_def get_or_none_def
      dict_get_or_def require_int_def require_mapping_def map_of_stored_payload payload_of_def
      require_datetime_def iso_inverse_def storable_def require_reason_clean stored_view_def
      metadata_of_def)

section \<open>What the service guarantees\<close>

lemma store_create_prepared:
  assumes "undisturbed env st" and "sqlite_integer n" and "json_payload payload = Inr p"
  shows "store_create env (VDict [(''record_id'', VStr rid), (''revision'', VInt n), (''payload'', VDict payload)]) st =
    (if map_of (st_rows st) rid = None
     then let new = \<lparr>row_revision = n, row_payload = p, row_updated_at = se_now env\<rparr>
          in (Inr (row_to_snapshot rid new), st\<lparr>st_rows := st_rows st @ [(rid, new)]\<rparr>)
     else (Inl (RecordStoreConflictError ''UNIQUE constraint failed: records.record_id''), st))"
proof -
  have "run_write env n payload rid
      (\<lambda>p rs. if map_of rs rid \<noteq> None then Inl (RecordStoreConflictError ''UNIQUE constraint failed: records.record_id'')
         else Inr (rs @ [(rid, \<lparr>row_revision = n, row_payload = p, row_updated_at = se_now env\<rparr>)])) st =
    (if map_of (st_rows st) rid = None
     then let new = \<lparr>row_revision = n, row_payload = p, row_updated_at = se_now env\<rparr>
          in (Inr (row_to_snapshot rid new), st\<lparr>st_rows := st_rows st @ [(rid, new)]\<rparr>)
     else (Inl (RecordStoreConflictError ''UNIQUE constraint failed: records.record_id''), st))"
    by (subst run_write_undisturbed [OF assms(1, 2), where mk = "\<lambda>p. \<lparr>row_revision = n, row_payload = p, row_updated_at = se_now env\<rparr>"])
      (use assms(3) in \<open>auto simp: map_add_def Let_def split: if_splits\<close>)
  then show ?thesis by (simp add: store_create_def normalize_record_input_def dict_get_or_def)
qed

lemma map_conflict_exception:
  "map_store_exception (RecordStoreConflictError m) =
     (if has_substring ''not found'' (str_lower (strip m)) then RecordNotFoundError (strip m)
      else RecordConflictError (strip m))"
proof -
  have "has_substring ''conflict'' (str_lower ''RecordStoreConflictError'')" by code_simp
  then show ?thesis by (simp add: map_store_exception_def Let_def)
qed

lemma strip_quoted_end: "m \<noteq> [] \<Longrightarrow> \<not> is_space (hd m) \<Longrightarrow> strip (m @ [CHR 39]) = m @ [CHR 39]"
  by (rule strip_no_outer_space) (auto simp: is_space_def)

lemma map_missing_exception:
  "map_store_exception (RecordStoreConflictError (''record not found: '' @ [CHR 39] @ rid @ [CHR 39])) =
     RecordNotFoundError (''record not found: '' @ [CHR 39] @ rid @ [CHR 39])"
proof -
  have s: "strip ((''record not found: '' @ [CHR 39] @ rid) @ [CHR 39]) =
      (''record not found: '' @ [CHR 39] @ rid) @ [CHR 39]"
    by (rule strip_quoted_end) (simp_all add: is_space_def)
  have "has_substring ''not found'' ''record not found: ''" by code_simp
  then have "has_substring ''not found'' ([] @ ''record not found: '' @ str_lower ([CHR 39] @ rid @ [CHR 39]))"
    by (rule has_substring_around)
  moreover have "str_lower ''record not found: '' = ''record not found: ''" by code_simp
  ultimately show ?thesis using s by (simp add: map_conflict_exception str_lower_def)
qed

text \<open>The text of a revision conflict names no missing record unless the record id does.\<close>

definition conflict_text :: "string \<Rightarrow> int \<Rightarrow> int \<Rightarrow> string" where
  "conflict_text rid e c = ''revision conflict for record '' @ [CHR 39] @ rid @ [CHR 39] @
     '': expected '' @ int_str e @ '', current '' @ int_str c"

lemma conflict_text_strip: "strip (conflict_text rid e c) = conflict_text rid e c"
  using digit_not_space [OF last_int_str [of c]]
  by (intro strip_no_outer_space) (simp_all add: conflict_text_def is_space_def)

lemma lower_char_digit: "is_digit_char c \<or> c = CHR ''-'' \<Longrightarrow> lower_char c = c"
  by (auto simp: lower_char_def is_digit_char_def is_upper_char_def Let_def)

lemma str_lower_int_str: "str_lower (int_str i) = int_str i"
  unfolding str_lower_def by (rule map_idI) (blast dest: int_str_chars intro: lower_char_digit)

lemma conflict_text_not_found:
  "has_substring ''not found'' (str_lower (conflict_text rid e c)) \<longleftrightarrow>
     has_substring ''not found'' (str_lower rid)"
proof -
  let ?tail = "'': expected '' @ int_str e @ '', current '' @ int_str c"
  have "CHR ''f'' \<notin> set (int_str i)" for i
    using int_str_chars [of "CHR ''f''" i] by (auto simp: is_digit_char_def)
  then have t: "\<not> has_substring ''not found'' ?tail"
    by (intro has_substring_needs [of "CHR ''f''"]) auto
  have h: "\<not> has_substring ''not found'' ''revision conflict for record ''" by code_simp
  have "str_lower (conflict_text rid e c) =
      ''revision conflict for record '' @ CHR 39 # str_lower rid @ CHR 39 # ?tail"
  proof -
    have "str_lower ''revision conflict for record '' = ''revision conflict for record ''"
      "str_lower '': expected '' = '': expected ''" "str_lower '', current '' = '', current ''"
      "lower_char (CHR 39) = CHR 39" by code_simp+
    then show ?thesis using str_lower_int_str by (simp add: conflict_text_def str_lower_def)
  qed
  moreover have "CHR 39 \<notin> set ''not found''" by simp
  ultimately show ?thesis using t h by (simp only: has_substring_split simp_thms)
qed


definition demo_clock :: clock_format where
  "demo_clock = \<lparr>cf_isoformat = (\<lambda>t. int_str t),
     cf_fromisoformat = (\<lambda>s. if s = ''t1'' then Some 50 else
       (let neg = (s \<noteq> [] \<and> hd s = CHR ''-'');
            n = foldl (\<lambda>n c. 10 * n + (of_char c - 48)) 0 (if neg then tl s else s)
        in Some (if neg then - int n else int n)))\<rparr>"

definition demo_record :: local_record where
  "demo_record = \<lparr>lr_record_id = ''r1'', lr_source_identity = ''s'', lr_canonical_name = ''n'',
     lr_sync_status = SYNCED, lr_processing_status = RP_PROCESSED, lr_revision = 3, lr_created_at = 10,
     lr_updated_at = 20, lr_last_reason_code = None, lr_metadata = Some [(''b'', ''x''), (''a'', ''y'')]\<rparr>"

lemma foldl_nat_digits: "foldl (\<lambda>n c. 10 * n + (of_char c - 48)) 0 (nat_digits n) = n"
proof (induction n rule: nat_digits.induct)
  case (1 n)
  have "of_char (char_of (48 + d) :: char) = (48 + d :: nat)" if "d < 10" for d
    using that by simp
  with 1 show ?case by (subst nat_digits.simps) simp
qed

lemma hd_nat_digits: "is_digit_char (hd (nat_digits n))"
  using nat_digits_digits [of n] hd_in_set [OF nat_digits_ne [of n]] by (simp add: list_all_iff)

lemma demo_clock_inverse: "iso_inverse demo_clock"
  unfolding iso_inverse_def
proof (intro allI conjI)
  fix t
  have d: "CHR ''-'' \<noteq> hd (nat_digits n)" for n
  proof
    assume "CHR ''-'' = hd (nat_digits n)"
    then have "is_digit_char (CHR ''-'')" using hd_nat_digits [of n] by (simp only:)
    then show False by (simp add: is_digit_char_def)
  qed
  have "is_digit_char (CHR ''t'') = False" by code_simp
  then have "int_str t \<noteq> ''t1''" using int_str_chars [of "CHR ''t''" t] by auto
  then show "cf_fromisoformat demo_clock (cf_isoformat demo_clock t) = Some t"
    using d [symmetric] by (auto simp: demo_clock_def int_str_def foldl_nat_digits Let_def)
  have "last (int_str t) \<in> set (int_str t)" by simp
  then show "strip (cf_isoformat demo_clock t) \<noteq> []"
    using digit_not_space [OF last_int_str [of t]]
    by (auto simp: demo_clock_def strip_eq_Nil_iff list_all_iff)
qed

definition empty_store :: store where
  "empty_store = \<lparr>st_rows = [], st_schema_version = Some 1, st_in_transaction = False\<rparr>"

lemma demo_undisturbed [simp]: "\<not> st_in_transaction st \<Longrightarrow> undisturbed demo_env st"
  by (simp add: undisturbed_def quiet_def demo_env_def)


text \<open>
  The errors of an update whose read of the current row does not fail: an unknown record is reported as not found, a stale expected revision
  as a conflict, and neither changes the store. The one exception is built into the mapping, which
  reads the text of the store's message: a conflict on a record whose id contains the words
  ``not found'' is reported as a missing record.
\<close>

theorem service_update_errors:
  assumes "se_fault env Read_Current = None" and "require_token ''record_id'' rid = Inr key"
    and "normalize_mutation mutation = Inr m" and "map_of m ''expected_revision'' = Some (VInt expected)"
  shows "(map_of (st_rows st) key = None \<longrightarrow>
            (\<exists>msg. service_update cf env rid mutation st = (Inl (RecordNotFoundError msg), st)))
       \<and> (\<forall>old. map_of (st_rows st) key = Some old \<and> row_revision old \<noteq> expected \<longrightarrow>
            (\<exists>msg. service_update cf env rid mutation st =
               (Inl (if has_substring ''not found'' (str_lower key) then RecordNotFoundError msg
                     else RecordConflictError msg), st)))"
proof -
  have e: "map_store_exception (RecordStoreConflictError (conflict_text key expected c)) =
      (if has_substring ''not found'' (str_lower key) then RecordNotFoundError (conflict_text key expected c)
       else RecordConflictError (conflict_text key expected c))" for c
    by (simp only: map_conflict_exception conflict_text_strip conflict_text_not_found)
  have "service_update cf env rid mutation st =
      (Inl (map_store_exception (RecordStoreConflictError (conflict_text key expected (row_revision old)))), st)"
    if "map_of (st_rows st) key = Some old" "row_revision old \<noteq> expected" for old
    using that assms
    by (auto simp: service_update_def store_call_def read_back_def store_update_def conflict_text_def)
  moreover have "map_of (st_rows st) key = None \<Longrightarrow>
      \<exists>msg. service_update cf env rid mutation st = (Inl (RecordNotFoundError msg), st)"
    using assms map_missing_exception [of key]
    by (simp add: not_found_def service_update_def store_call_def read_back_def store_update_def)
  ultimately show ?thesis by (auto simp: e)
qed

theorem service_update_errors_witness:
  "(\<exists>msg. service_update demo_clock demo_env (VStr '' r1 '') (VDict [(''expected_revision'', VInt 2)]) demo_store
      = (Inl (RecordConflictError msg), demo_store)) \<and>
   (\<exists>msg. service_update demo_clock demo_env (VStr ''r2'') (VDict [(''expected_revision'', VInt 2)]) demo_store
      = (Inl (RecordNotFoundError msg), demo_store))"
proof -
  let ?m = "VDict [(''expected_revision'', VInt 2)]"
  let ?n = "[(''expected_revision'', VInt 2), (''payload'', VDict [])]"
  have q: "se_fault demo_env Read_Current = None" by (simp add: demo_env_def)
  have k: "require_token ''record_id'' (VStr '' r1 '') = Inr ''r1''"
    "require_token ''record_id'' (VStr ''r2'') = Inr ''r2''" by code_simp+
  have n: "normalize_mutation ?m = Inr ?n" by code_simp
  have x: "map_of ?n ''expected_revision'' = Some (VInt 2)" by simp
  have r: "map_of (st_rows demo_store) ''r1'' =
      Some \<lparr>row_revision = 3, row_payload = [(''a'', VInt 1)], row_updated_at = ''t0''\<rparr>"
    "map_of (st_rows demo_store) ''r2'' = None" by (simp_all add: demo_store_def)
  have s: "\<not> has_substring ''not found'' (str_lower ''r1'')" by code_simp
  show ?thesis
    using service_update_errors [OF q k(1) n x, of demo_store demo_clock]
      service_update_errors [OF q k(2) n x, of demo_store demo_clock] r s by simp
qed

lemma store_mark_unsynced_payload:
  assumes "quiet env" and "map_of (st_rows st) key = Some old" and "dict_wf (row_payload old)"
    and "store_mark_unsynced env key st = (Inr snap, st')"
  shows "\<exists>new. map_of (st_rows st') key = Some new \<and> row_revision new = row_revision old + 1 \<and>
    map_of (row_payload new) ''sync_status'' = Some (VStr ''unsynced'')"
proof -
  let ?patch = "AList.update ''sync_status'' (VStr ''unsynced'') (row_payload old)"
  let ?new = "\<lambda>p. \<lparr>row_revision = row_revision old + 1, row_payload = p, row_updated_at = se_now env\<rparr>"
  let ?stmt = "\<lambda>p rs. Inr (sql_update (\<lambda>k r. k = key \<and> row_revision r = row_revision old) (?new p) rs)"
  have "\<exists>v. run_write env (row_revision old + 1) (dict_update (row_payload old) ?patch) key ?stmt st = (Inr v, st')"
    using assms(2,4)
    by (auto simp: store_mark_unsynced_def store_update_def dict_get_or_def Let_def
        split: sum.splits option.splits if_splits prod.splits)
  then obtain v where v: "run_write env (row_revision old + 1) (dict_update (row_payload old) ?patch) key ?stmt st = (Inr v, st')"
    by blast
  obtain p where p: "json_payload (dict_update (row_payload old) ?patch) = Inr p"
    and st': "st_rows st' = sql_update (\<lambda>k r. k = key \<and> row_revision r = row_revision old) (?new p) (st_rows st)"
    using run_write_rows [OF assms(1) v] by auto
  have "map_of (dict_update (row_payload old) ?patch) ''sync_status'' = Some (VStr ''unsynced'')"
    using assms(3) by (subst map_of_dict_update) (auto intro: dict_wf_update)
  then have "map_of p ''sync_status'' = Some (VStr ''unsynced'')"
    using p json_trip_items_lookup by (fastforce simp: json_payload_def result_simps map_of_sort_key)
  with st' assms(2) show ?thesis by (simp add: map_of_sql_update)
qed

lemma from_store_snapshot_sync:
  assumes "from_store_snapshot cf (VDict (row_to_snapshot k row)) = Inr r"
    and "map_of (row_payload row) ''sync_status'' = Some (VStr ''unsynced'')"
  shows "lr_sync_status r = UNSYNCED"
proof -
  have "require_enum sync_value [UNSYNCED, SYNCED] ''sync_status'' (VStr (sync_value UNSYNCED)) = Inr UNSYNCED"
    by (rule require_enum_sync)
  then show ?thesis using assms
    by (auto simp: from_store_snapshot_def ensure_snapshot_mapping_def require_mapping_def
        get_or_none_def [of "row_payload row"] dict_get_or_def [of "row_payload row"] result_simps)
qed

text \<open>
  Marking a record unsynced is idempotent: when it succeeds, the returned record is unsynced, and
  a second call, under any clock, interference or error of its writes, returns the same record and does
  not touch the store. The revision goes up by one if the record was synced and stays otherwise.
\<close>

theorem service_mark_unsynced_idempotent:
  assumes "quiet env" and "require_token ''record_id'' rid = Inr key"
    and "map_of (st_rows st) key = Some old" and "dict_wf (row_payload old)"
    and "service_mark_unsynced cf (e1, env, e2) rid st = (Inr r, st')" and "se_fault e3 Read_Current = None"
  shows "lr_sync_status r = UNSYNCED \<and> service_mark_unsynced cf (e3, env', e4) rid st' = (Inr r, st') \<and>
    (st' = st \<and> lr_revision r = row_revision old \<or> lr_revision r = row_revision old + 1)"
proof -
  have key: "require_token ''record_id'' (VStr key) = Inr key"
    using assms(2) by (auto simp: require_token_def Let_def split: pyval.splits if_splits)
  have snap: "get_snapshot e s key = Inr m \<Longrightarrow> map_of (st_rows s) key = Some row \<Longrightarrow> m = row_to_snapshot key row"
    and third: "map_of (st_rows s) key = Some row \<Longrightarrow> get_snapshot e3 s key = Inr (row_to_snapshot key row)" for e s row m
    using key assms(6)
    by (auto simp: get_snapshot_def result_simps store_get_or_raise_def store_get_def split: option.splits)
  have revn: "lr_revision x = row_revision row"
    if "from_store_snapshot cf (VDict (row_to_snapshot key row)) = Inr x" for x row
    using that by (auto simp: from_store_snapshot_def ensure_snapshot_mapping_def require_int_def result_simps)
  have again: "service_mark_unsynced cf (e3, env', e4) rid s = (Inr x, s)"
    if "map_of (st_rows s) key = Some row" "from_store_snapshot cf (VDict (row_to_snapshot key row)) = Inr x"
      "lr_sync_status x = UNSYNCED" for s row x
    using that assms(2) third by (simp add: service_mark_unsynced_def)
  obtain m cur where m: "get_snapshot e1 st key = Inr m" "from_store_snapshot cf (VDict m) = Inr cur"
    using assms(2,5) by (auto simp: service_mark_unsynced_def result_simps split: sum.splits)
  with snap assms(3) have cur: "from_store_snapshot cf (VDict (row_to_snapshot key old)) = Inr cur" by blast
  show ?thesis
  proof (cases "lr_sync_status cur = UNSYNCED")
    case True
    then have "r = cur" "st' = st"
      using assms(2,5) m by (auto simp: service_mark_unsynced_def)
    then show ?thesis using True again [OF assms(3) cur True] revn [OF cur] by simp
  next
    case False
    then obtain out where w: "store_mark_unsynced env key st = (Inr out, st')"
      and b: "read_back cf (get_snapshot e2 st' key, st') = (Inr r, st')"
      using assms(2,5) m
      by (cases "store_mark_unsynced env key st"; cases "fst (store_mark_unsynced env key st)")
        (auto simp: service_mark_unsynced_def store_call_def read_back_def)
    obtain new where new: "map_of (st_rows st') key = Some new" "row_revision new = row_revision old + 1"
      "map_of (row_payload new) ''sync_status'' = Some (VStr ''unsynced'')"
      using store_mark_unsynced_payload [OF assms(1,3,4) w] by blast
    with b snap have r: "from_store_snapshot cf (VDict (row_to_snapshot key new)) = Inr r"
      by (auto simp: read_back_def result_simps)
    then show ?thesis using new again revn from_store_snapshot_sync [OF r new(3)] by auto
  qed
qed

definition demo_synced :: store where
  "demo_synced = \<lparr>st_rows = [(''r1'', \<lparr>row_revision = 3, row_payload = stored_payload demo_clock demo_record,
     row_updated_at = ''7''\<rparr>)], st_schema_version = Some 1, st_in_transaction = False\<rparr>"

theorem service_mark_unsynced_idempotent_witness:
  "\<exists>r st'. service_mark_unsynced demo_clock (demo_env, demo_env, demo_env) (VStr ''r1'') demo_synced = (Inr r, st') \<and>
     lr_sync_status r = UNSYNCED \<and>
     service_mark_unsynced demo_clock (demo_env, demo_env, demo_env) (VStr ''r1'') st' = (Inr r, st') \<and> lr_revision r = 4"
proof -
  define out where "out = service_mark_unsynced demo_clock (demo_env, demo_env, demo_env) (VStr ''r1'') demo_synced"
  have ok: "isl (fst out) = False" and revn: "lr_revision (projr (fst out)) = 4"
    unfolding out_def by code_simp+
  then have o: "service_mark_unsynced demo_clock (demo_env, demo_env, demo_env) (VStr ''r1'') demo_synced = (Inr (projr (fst out)), snd out)"
    by (metis out_def prod.collapse sum.collapse(2))
  have q: "quiet demo_env" by (simp add: quiet_def demo_env_def)
  have f: "se_fault demo_env Read_Current = None" by (simp add: demo_env_def)
  have k: "require_token ''record_id'' (VStr ''r1'') = Inr ''r1''" by code_simp
  have row: "map_of (st_rows demo_synced) ''r1'' = Some \<lparr>row_revision = 3,
      row_payload = stored_payload demo_clock demo_record, row_updated_at = ''7''\<rparr>"
    by (simp add: demo_synced_def)
  have "dict_wf (stored_payload demo_clock demo_record)" by code_simp
  with service_mark_unsynced_idempotent [OF q k row _ o f] o revn show ?thesis by auto
qed

end
