(* ===== verification/Session.thy ===== *)
theory Session
  imports Prelude
begin

text \<open>
  The session manager (\<^verbatim>\<open>application/session/session_manager.py\<close>): the lifecycle operations, the
  transition callbacks and the timeout evaluation. Instants are microseconds, durations rational
  seconds. An operation takes the value \<open>clk\<close> that \<^verbatim>\<open>clock.now()\<close> returns when no explicit time is
  given. A callback acts on a world of its own and may raise, with the text of its exception.
\<close>

datatype session_error =
    SessionTransitionError string
  | SessionNotStartedError string
  | SessionTimeSourceError string
  | SessionPolicyError string

datatype session_state_kind = INACTIVE | STARTING | ACTIVE | STOPPING | ABORTED | COMPLETED

datatype timeout_outcome = STILL_ACTIVE | SOFT_TIMEOUT | HARD_TIMEOUT | NOT_STARTED

fun kind_value :: "session_state_kind \<Rightarrow> string" where
  "kind_value INACTIVE = ''inactive''"
| "kind_value STARTING = ''starting''"
| "kind_value ACTIVE = ''active''"
| "kind_value STOPPING = ''stopping''"
| "kind_value ABORTED = ''aborted''"
| "kind_value COMPLETED = ''completed''"

record session_policy =
  sp_idle_timeout_seconds :: "rat option"
  sp_max_runtime_seconds :: "rat option"

record session_state =
  ss_kind :: session_state_kind
  ss_session_id :: "string option"
  ss_started_at :: "int option"
  ss_last_activity_at :: "int option"
  ss_ended_at :: "int option"
  ss_reason_code :: "string option"

record session_transition_result =
  tr_previous_state :: session_state
  tr_next_state :: session_state
  tr_reason_code :: string
  tr_warnings :: "string list"

record timeout_evaluation =
  te_outcome :: timeout_outcome
  te_idle_elapsed_seconds :: rat
  te_runtime_elapsed_seconds :: rat

record session_summary =
  su_state_kind :: session_state_kind
  su_session_id :: "string option"
  su_started_at :: "int option"
  su_last_activity_at :: "int option"
  su_ended_at :: "int option"

type_synonym 'w callback = "session_transition_result \<Rightarrow> ('w, string, unit) io"

record 'w session_manager =
  sm_policy :: session_policy
  sm_state :: session_state
  sm_callbacks :: "'w callback list"
  sm_world :: 'w

definition make_policy :: "rat option \<Rightarrow> rat option \<Rightarrow> session_error + session_policy" where
  "make_policy idle maxrun =
     (if (case idle of None \<Rightarrow> False | Some x \<Rightarrow> x < 0)
      then Inl (SessionPolicyError ''idle_timeout_seconds must be non-negative when provided'')
      else if (case maxrun of None \<Rightarrow> False | Some x \<Rightarrow> x < 0)
      then Inl (SessionPolicyError ''max_runtime_seconds must be non-negative when provided'')
      else Inr \<lparr>sp_idle_timeout_seconds = idle, sp_max_runtime_seconds = maxrun\<rparr>)"

definition inactive_state :: session_state where
  "inactive_state = \<lparr>ss_kind = INACTIVE, ss_session_id = None, ss_started_at = None,
     ss_last_activity_at = None, ss_ended_at = None, ss_reason_code = None\<rparr>"

definition new_manager :: "session_policy \<Rightarrow> 'w callback list \<Rightarrow> 'w \<Rightarrow> 'w session_manager" where
  "new_manager p cbs w = \<lparr>sm_policy = p, sm_state = inactive_state, sm_callbacks = cbs, sm_world = w\<rparr>"

definition resolve_time :: "int \<Rightarrow> int option \<Rightarrow> int" where
  "resolve_time clk v = (case v of None \<Rightarrow> clk | Some t \<Rightarrow> t)"

definition ensure_monotonic :: "int \<Rightarrow> int option \<Rightarrow> session_error + unit" where
  "ensure_monotonic current baseline =
     raise_if (case baseline of None \<Rightarrow> False | Some b \<Rightarrow> current < b)
       (SessionTimeSourceError ''Clock regression detected during session timeout evaluation.'')"

definition normalize_session_id :: "string \<Rightarrow> session_error + string" where
  "normalize_session_id v =
     (if strip v = [] then Inl (SessionTransitionError ''session_id must be a non-empty string'')
      else Inr (strip v))"

fun run_callbacks ::
    "'w callback list \<Rightarrow> session_transition_result \<Rightarrow> 'w \<Rightarrow> string list \<times> 'w" where
  "run_callbacks [] res w = ([], w)"
| "run_callbacks (cb # cbs) res w =
     (case cb res w of
        (Inl exc, w1) \<Rightarrow>
          (case run_callbacks cbs res w1 of
             (ws, w2) \<Rightarrow> ((''transition callback failed: '' @ exc) # ws, w2))
      | (Inr _, w1) \<Rightarrow> run_callbacks cbs res w1)"

definition apply_transition ::
    "'w session_manager \<Rightarrow> session_state \<Rightarrow> session_state \<Rightarrow> string \<Rightarrow>
     session_transition_result \<times> 'w session_manager" where
  "apply_transition m previous next_state reason =
     (let pending = \<lparr>tr_previous_state = previous, tr_next_state = next_state,
                     tr_reason_code = reason, tr_warnings = []\<rparr>
      in case run_callbacks (sm_callbacks m) pending (sm_world m) of
           (ws, w) \<Rightarrow>
             (if ws = [] then pending else pending\<lparr>tr_warnings := ws\<rparr>,
              m\<lparr>sm_state := next_state, sm_world := w\<rparr>))"

definition start_session ::
    "int \<Rightarrow> string \<Rightarrow> int option \<Rightarrow> 'w session_manager \<Rightarrow>
     (session_error + session_transition_result) \<times> 'w session_manager" where
  "start_session clk sid started m =
     (case normalize_session_id sid of
        Inl e \<Rightarrow> (Inl e, m)
      | Inr nid \<Rightarrow>
          (let previous = sm_state m in
           if ss_kind previous = ACTIVE then
             if ss_session_id previous = Some nid
             then (Inr \<lparr>tr_previous_state = previous, tr_next_state = previous,
                        tr_reason_code = ''idempotent_start'', tr_warnings = []\<rparr>, m)
             else (Inl (SessionTransitionError (''Cannot start '' @ [CHR 39] @ nid @ [CHR 39] @
                    ''; active session '' @
                    (case ss_session_id previous of None \<Rightarrow> ''None'' | Some s \<Rightarrow> [CHR 39] @ s @ [CHR 39]) @
                    '' exists.'')), m)
           else if ss_kind previous \<noteq> INACTIVE
           then (Inl (SessionTransitionError (''Cannot start from state '' @ [CHR 39] @
                  kind_value (ss_kind previous) @ [CHR 39] @ ''.'')), m)
           else
             let event_time = resolve_time clk started;
                 out = apply_transition m previous
                   \<lparr>ss_kind = ACTIVE, ss_session_id = Some nid, ss_started_at = Some event_time,
                    ss_last_activity_at = Some event_time, ss_ended_at = None, ss_reason_code = None\<rparr>
                   ''started''
             in (Inr (fst out), snd out)))"

definition require_active_session :: "string \<Rightarrow> session_state \<Rightarrow> session_error + session_state" where
  "require_active_session sid s =
     (if ss_kind s \<noteq> ACTIVE \<or> ss_session_id s = None
      then Inl (SessionNotStartedError ''No active session is available.'')
      else rbind (normalize_session_id sid) (\<lambda>nid.
        if ss_session_id s \<noteq> Some nid
        then Inl (SessionTransitionError (''Session id mismatch: expected '' @ [CHR 39] @
               the (ss_session_id s) @ [CHR 39] @ '', received '' @ [CHR 39] @ nid @ [CHR 39] @ ''.''))
        else Inr s))"

text \<open>The common part of the operations on an active session: its checks and the observed time.\<close>

definition observe_active ::
    "int \<Rightarrow> string \<Rightarrow> int option \<Rightarrow> session_state \<Rightarrow> session_error + session_state \<times> int" where
  "observe_active clk sid time s =
     rbind (require_active_session sid s) (\<lambda>active.
     let observed_at = resolve_time clk time in
     rbind (ensure_monotonic observed_at (ss_last_activity_at active)) (\<lambda>_. Inr (active, observed_at)))"

definition record_activity ::
    "int \<Rightarrow> string \<Rightarrow> int option \<Rightarrow> 'w session_manager \<Rightarrow>
     (session_error + session_transition_result) \<times> 'w session_manager" where
  "record_activity clk sid time m =
     (case observe_active clk sid time (sm_state m) of
        Inl e \<Rightarrow> (Inl e, m)
      | Inr (active, observed_at) \<Rightarrow>
          let out = apply_transition m active (active\<lparr>ss_last_activity_at := Some observed_at\<rparr>)
                ''activity_recorded''
          in (Inr (fst out), snd out))"

definition stop_session ::
    "int \<Rightarrow> string \<Rightarrow> int option \<Rightarrow> 'w session_manager \<Rightarrow>
     (session_error + session_transition_result) \<times> 'w session_manager" where
  "stop_session clk sid time m =
     (case observe_active clk sid time (sm_state m) of
        Inl e \<Rightarrow> (Inl e, m)
      | Inr (active, observed_at) \<Rightarrow>
          let out = apply_transition m active
                \<lparr>ss_kind = COMPLETED, ss_session_id = ss_session_id active,
                 ss_started_at = ss_started_at active, ss_last_activity_at = ss_last_activity_at active,
                 ss_ended_at = Some observed_at, ss_reason_code = Some ''stopped''\<rparr> ''stopped''
          in (Inr (fst out), snd out))"

definition abort_session ::
    "int \<Rightarrow> string \<Rightarrow> int option \<Rightarrow> string \<Rightarrow> 'w session_manager \<Rightarrow>
     (session_error + session_transition_result) \<times> 'w session_manager" where
  "abort_session clk sid time reason m =
     (case observe_active clk sid time (sm_state m) of
        Inl e \<Rightarrow> (Inl e, m)
      | Inr (active, observed_at) \<Rightarrow>
          let out = apply_transition m active
                \<lparr>ss_kind = ABORTED, ss_session_id = ss_session_id active,
                 ss_started_at = ss_started_at active, ss_last_activity_at = ss_last_activity_at active,
                 ss_ended_at = Some observed_at, ss_reason_code = Some reason\<rparr> reason
          in (Inr (fst out), snd out))"

definition total_seconds :: "int \<Rightarrow> rat" where
  "total_seconds d = of_int d / 1000000"

definition reached :: "rat option \<Rightarrow> rat \<Rightarrow> bool" where
  "reached limit elapsed \<longleftrightarrow> (case limit of None \<Rightarrow> False | Some l \<Rightarrow> l \<le> elapsed)"

definition evaluate_timeouts ::
    "int \<Rightarrow> int option \<Rightarrow> session_policy \<Rightarrow> session_state \<Rightarrow> session_error + timeout_evaluation" where
  "evaluate_timeouts clk now p s =
     (if ss_kind s \<noteq> ACTIVE
      then Inr \<lparr>te_outcome = NOT_STARTED, te_idle_elapsed_seconds = 0, te_runtime_elapsed_seconds = 0\<rparr>
      else
        let current_time = resolve_time clk now in
        rbind (ensure_monotonic current_time (ss_started_at s)) (\<lambda>_.
        rbind (ensure_monotonic current_time (ss_last_activity_at s)) (\<lambda>_.
        let started_at = (case ss_started_at s of None \<Rightarrow> current_time | Some t \<Rightarrow> t);
            last_activity_at = (case ss_last_activity_at s of None \<Rightarrow> started_at | Some t \<Rightarrow> t);
            runtime_elapsed = max 0 (total_seconds (current_time - started_at));
            idle_elapsed = max 0 (total_seconds (current_time - last_activity_at))
        in Inr \<lparr>te_outcome =
                  (if reached (sp_max_runtime_seconds p) runtime_elapsed then HARD_TIMEOUT
                   else if reached (sp_idle_timeout_seconds p) idle_elapsed then SOFT_TIMEOUT
                   else STILL_ACTIVE),
                te_idle_elapsed_seconds = idle_elapsed, te_runtime_elapsed_seconds = runtime_elapsed\<rparr>)))"

definition get_summary :: "session_state \<Rightarrow> session_summary" where
  "get_summary s = \<lparr>su_state_kind = ss_kind s, su_session_id = ss_session_id s,
     su_started_at = ss_started_at s, su_last_activity_at = ss_last_activity_at s,
     su_ended_at = ss_ended_at s\<rparr>"

section \<open>Sessions over time\<close>

datatype session_op =
    OpStart string "int option"
  | OpActivity string "int option"
  | OpStop string "int option"
  | OpAbort string "int option" string

fun session_call ::
    "int \<times> session_op \<Rightarrow> 'w session_manager \<Rightarrow>
     (session_error + session_transition_result) \<times> 'w session_manager" where
  "session_call (clk, OpStart sid t) m = start_session clk sid t m"
| "session_call (clk, OpActivity sid t) m = record_activity clk sid t m"
| "session_call (clk, OpStop sid t) m = stop_session clk sid t m"
| "session_call (clk, OpAbort sid t reason) m = abort_session clk sid t reason m"

inductive session_step :: "session_state \<Rightarrow> session_state \<Rightarrow> bool" where
  start: "sid \<noteq> [] \<Longrightarrow> session_step inactive_state
      \<lparr>ss_kind = ACTIVE, ss_session_id = Some sid, ss_started_at = Some t, ss_last_activity_at = Some t,
       ss_ended_at = None, ss_reason_code = None\<rparr>"
| activity: "ss_kind s = ACTIVE \<Longrightarrow> ss_last_activity_at s = Some b \<Longrightarrow> b \<le> t \<Longrightarrow>
    session_step s (s\<lparr>ss_last_activity_at := Some t\<rparr>)"
| finish: "ss_kind s = ACTIVE \<Longrightarrow> ss_last_activity_at s = Some b \<Longrightarrow> b \<le> t \<Longrightarrow>
    k \<in> {COMPLETED, ABORTED} \<Longrightarrow>
    session_step s (s\<lparr>ss_kind := k, ss_ended_at := Some t, ss_reason_code := Some r\<rparr>)"

inductive_cases session_step_E: "session_step s s'"

text \<open>The abstract machine's invariant.\<close>

definition session_ok :: "session_state \<Rightarrow> bool" where
  "session_ok s \<longleftrightarrow>
     (case ss_kind s of
        INACTIVE \<Rightarrow> s = inactive_state
      | ACTIVE \<Rightarrow> (\<exists>sid t u. ss_session_id s = Some sid \<and> sid \<noteq> [] \<and> ss_started_at s = Some t \<and>
            ss_last_activity_at s = Some u \<and> t \<le> u \<and> ss_ended_at s = None \<and> ss_reason_code s = None)
      | COMPLETED \<Rightarrow> (\<exists>sid t u v r. ss_session_id s = Some sid \<and> sid \<noteq> [] \<and> ss_started_at s = Some t \<and>
            ss_last_activity_at s = Some u \<and> t \<le> u \<and> ss_ended_at s = Some v \<and> u \<le> v \<and> ss_reason_code s = Some r)
      | ABORTED \<Rightarrow> (\<exists>sid t u v r. ss_session_id s = Some sid \<and> sid \<noteq> [] \<and> ss_started_at s = Some t \<and>
            ss_last_activity_at s = Some u \<and> t \<le> u \<and> ss_ended_at s = Some v \<and> u \<le> v \<and> ss_reason_code s = Some r)
      | _ \<Rightarrow> False)"

lemma inactive_ok [simp]: "session_ok inactive_state"
  by (simp add: session_ok_def inactive_state_def)

lemma session_step_ok: "session_step s s' \<Longrightarrow> session_ok s \<Longrightarrow> session_ok s'"
  by (erule session_step_E) (auto simp: session_ok_def)

lemma apply_transition_state [simp]:
  "sm_state (snd (apply_transition m p n r)) = n"
  "sm_policy (snd (apply_transition m p n r)) = sm_policy m"
  "sm_callbacks (snd (apply_transition m p n r)) = sm_callbacks m"
  "tr_previous_state (fst (apply_transition m p n r)) = p"
  "tr_next_state (fst (apply_transition m p n r)) = n"
  "tr_reason_code (fst (apply_transition m p n r)) = r"
  by (simp_all add: apply_transition_def Let_def split: prod.splits)

lemma observe_active_Inr:
  "observe_active clk sid t s = Inr (a, u) \<longleftrightarrow>
     a = s \<and> u = resolve_time clk t \<and> ss_kind s = ACTIVE \<and> strip sid \<noteq> [] \<and>
     ss_session_id s = Some (strip sid) \<and> (case ss_last_activity_at s of None \<Rightarrow> True | Some b \<Rightarrow> b \<le> u)"
  by (auto simp: observe_active_def require_active_session_def normalize_session_id_def ensure_monotonic_def
      result_simps Let_def split: if_splits option.splits)

lemma session_call_cases:
  assumes "session_ok (sm_state m)" and "session_call x m = (out, m')"
  shows "case out of
      Inl e \<Rightarrow> m' = m
    | Inr r \<Rightarrow> tr_previous_state r = sm_state m \<and> tr_next_state r = sm_state m' \<and>
        (m' = m \<and> tr_reason_code r = ''idempotent_start'' \<or> session_step (sm_state m) (sm_state m'))"
proof -
  let ?s = "sm_state m"
  have active: "\<exists>b. ss_last_activity_at ?s = Some b" if "ss_kind ?s = ACTIVE"
    using assms(1) that by (auto simp: session_ok_def)
  have stop: "session_step ?s \<lparr>ss_kind = k, ss_session_id = i, ss_started_at = ss_started_at ?s,
      ss_last_activity_at = ss_last_activity_at ?s, ss_ended_at = Some t, ss_reason_code = Some r\<rparr>"
    if "ss_kind ?s = ACTIVE" "case ss_last_activity_at ?s of None \<Rightarrow> True | Some b \<Rightarrow> b \<le> t"
      "k \<in> {COMPLETED, ABORTED}" "ss_session_id ?s = i" for k t r i
    using active [OF that(1)] that session_step.finish [of ?s _ t k r] by (cases ?s) auto
  have act: "session_step ?s (?s\<lparr>ss_last_activity_at := Some t\<rparr>)"
    if "ss_kind ?s = ACTIVE" "case ss_last_activity_at ?s of None \<Rightarrow> True | Some b \<Rightarrow> b \<le> t" for t
    using active [OF that(1)] that by (auto intro: session_step.activity)
  have inactive: "ss_kind ?s = INACTIVE \<Longrightarrow> ?s = inactive_state"
    using assms(1) by (simp add: session_ok_def)
  obtain clk y where "x = (clk, y)" by (cases x)
  then show ?thesis using assms(2) inactive
    by (cases y)
      (auto simp: start_session_def record_activity_def stop_session_def abort_session_def observe_active_Inr
        normalize_session_id_def Let_def stop act session_step.start
        split: sum.splits if_splits)
qed

text \<open>What never changes once it is set: the identity, the start, and everything after the end.\<close>

definition session_extends :: "session_state \<Rightarrow> session_state \<Rightarrow> bool" where
  "session_extends s s' \<longleftrightarrow>
     (ss_session_id s \<noteq> None \<longrightarrow> ss_session_id s' = ss_session_id s \<and> ss_started_at s' = ss_started_at s) \<and>
     (\<forall>u. ss_last_activity_at s = Some u \<longrightarrow> (\<exists>v. ss_last_activity_at s' = Some v \<and> u \<le> v)) \<and>
     (ss_ended_at s \<noteq> None \<longrightarrow> s' = s)"

lemma session_step_extends: "session_step s s' \<Longrightarrow> session_ok s \<Longrightarrow> session_extends s s'"
  by (erule session_step_E) (auto simp: session_extends_def session_ok_def inactive_state_def)

lemma session_extends_refl [simp]: "session_extends s s"
  by (simp add: session_extends_def)

lemma session_extends_trans: "session_extends s t \<Longrightarrow> session_extends t u \<Longrightarrow> session_extends s u"
  by (cases "ss_session_id s"; cases "ss_last_activity_at s"; cases "ss_ended_at s")
    (force simp: session_extends_def)+

interpretation sessions: guarded_calls "\<lambda>x m. snd (session_call x m)" "\<lambda>_. True"
  "\<lambda>m. session_ok (sm_state m)" "\<lambda>m m'. session_extends (sm_state m) (sm_state m')"
proof (unfold_locales, goal_cases)
  case (1 x s)
  then show ?case using session_call_cases [of s x] session_step_ok
    by (cases "session_call x s") (force split: sum.splits)
next
  case (2 x s)
  then show ?case using session_call_cases [of s x] session_step_extends
    by (cases "session_call x s") (force split: sum.splits)
next
  case 3
  show ?case by simp
next
  case 4
  then show ?case by (rule session_extends_trans)
qed

definition session_after ::
    "session_policy \<Rightarrow> 'w callback list \<Rightarrow> 'w \<Rightarrow> (int \<times> session_op) list \<Rightarrow> 'w session_manager" where
  "session_after p cbs w xs = fold (\<lambda>x m. snd (session_call x m)) xs (new_manager p cbs w)"

section \<open>Properties\<close>

text \<open>
  C30. The session manager implements the abstract session machine: from a well-formed state, a call
  that raises leaves the manager as it was, and a call that returns reports exactly its transition,
  which is a step of the machine or the idempotent start of the session that is already active.
  Failing callbacks change neither.
\<close>

theorem session_call_refines:
  assumes "session_ok (sm_state m)"
  shows "case session_call x m of
      (Inl e, m') \<Rightarrow> m' = m
    | (Inr r, m') \<Rightarrow> tr_previous_state r = sm_state m \<and> tr_next_state r = sm_state m' \<and>
        (m' = m \<and> tr_reason_code r = ''idempotent_start'' \<or> session_step (sm_state m) (sm_state m'))"
  using session_call_cases [OF assms] by (cases "session_call x m") auto

definition demo_manager :: "unit session_manager" where
  "demo_manager = new_manager \<lparr>sp_idle_timeout_seconds = Some 5, sp_max_runtime_seconds = Some 60\<rparr>
     [\<lambda>_ w. (Inl ''boom'', w)] ()"

theorem session_call_refines_witness:
  "(case session_call (7, OpStart '' s1 '' None) demo_manager of
      (Inl e, m') \<Rightarrow> m' = demo_manager
    | (Inr r, m') \<Rightarrow> session_step inactive_state (sm_state m')) \<and>
   (case session_call (7, OpStart '' s1 '' None) demo_manager of
      (Inl e, m') \<Rightarrow> False
    | (Inr r, m') \<Rightarrow> tr_warnings r = [''transition callback failed: boom''] \<and> ss_session_id (sm_state m') = Some ''s1'')"
proof -
  have i: "sm_state demo_manager = inactive_state" by (simp add: demo_manager_def new_manager_def)
  then have ok: "session_ok (sm_state demo_manager)" by simp
  have "case session_call (7, OpStart '' s1 '' None) demo_manager of
      (Inl e, m') \<Rightarrow> False
    | (Inr r, m') \<Rightarrow> tr_warnings r = [''transition callback failed: boom''] \<and>
        ss_session_id (sm_state m') = Some ''s1'' \<and> tr_reason_code r \<noteq> ''idempotent_start''" by code_simp
  with session_call_refines [OF ok, of "(7, OpStart '' s1 '' None)"] i show ?thesis
    by (auto split: prod.splits sum.splits)
qed

text \<open>
  C31. The life of a session: whatever calls are made, in any order and with any clock, the state stays
  well formed (a running session has an identity, started before its last activity; an ended one ended
  after it; the transient kinds never occur). Once a session has started, its identity and start time
  never change and its activity time only grows; once it has ended, no call changes the state again.
\<close>

theorem session_life:
  "session_ok (sm_state (session_after p cbs w xs)) \<and>
   session_extends (sm_state (session_after p cbs w xs)) (sm_state (session_after p cbs w (xs @ ys)))"
proof -
  have n: "session_ok (sm_state (new_manager p cbs w))" by (simp add: new_manager_def)
  have ok: "session_ok (sm_state (session_after p cbs w xs))"
    using sessions.runs_inv [OF _ n, of xs] by (simp add: session_after_def list_all_iff)
  moreover have "session_extends (sm_state (session_after p cbs w xs)) (sm_state (session_after p cbs w (xs @ ys)))"
    using sessions.runs_rel [of ys "session_after p cbs w xs"] ok by (simp add: session_after_def list_all_iff)
  ultimately show ?thesis by simp
qed

text \<open>
  Timeouts of an active session: the evaluation raises exactly on a clock behind the last activity.
  Otherwise the elapsed times are non-negative, the hard limit has priority over the idle limit, and a
  limit once reached stays reached at every later time as long as nothing happens.
\<close>

theorem evaluate_timeouts_correct:
  assumes "session_ok s" and "ss_kind s = ACTIVE" and "ss_started_at s = Some t0" and "ss_last_activity_at s = Some t1"
  shows "((\<exists>e. evaluate_timeouts clk (Some now) p s = Inl e) \<longleftrightarrow> now < t1)
       \<and> (t1 \<le> now \<longrightarrow> (\<exists>ev. evaluate_timeouts clk (Some now) p s = Inr ev \<and>
            te_runtime_elapsed_seconds ev = total_seconds (now - t0) \<and>
            te_idle_elapsed_seconds ev = total_seconds (now - t1) \<and>
            0 \<le> te_idle_elapsed_seconds ev \<and> te_idle_elapsed_seconds ev \<le> te_runtime_elapsed_seconds ev \<and>
            (te_outcome ev = HARD_TIMEOUT \<longleftrightarrow> reached (sp_max_runtime_seconds p) (total_seconds (now - t0))) \<and>
            (te_outcome ev \<in> {HARD_TIMEOUT, SOFT_TIMEOUT} \<longleftrightarrow>
               reached (sp_max_runtime_seconds p) (total_seconds (now - t0)) \<or>
               reached (sp_idle_timeout_seconds p) (total_seconds (now - t1))) \<and>
            (\<forall>later ev'. now \<le> later \<and> evaluate_timeouts clk (Some later) p s = Inr ev' \<longrightarrow>
               (te_outcome ev = HARD_TIMEOUT \<longrightarrow> te_outcome ev' = HARD_TIMEOUT) \<and>
               (te_outcome ev' = STILL_ACTIVE \<longrightarrow> te_outcome ev = STILL_ACTIVE))))"
proof -
  have le: "t0 \<le> t1" using assms by (auto simp: session_ok_def)
  have mono: "d \<le> d' \<Longrightarrow> total_seconds d \<le> total_seconds d'" for d d'
    by (simp add: total_seconds_def divide_right_mono)
  have nn: "0 \<le> d \<Longrightarrow> max 0 (total_seconds d) = total_seconds d" for d
    by (simp add: total_seconds_def)
  have r: "reached l x \<Longrightarrow> x \<le> y \<Longrightarrow> reached l y" for l x y
    by (auto simp: reached_def split: option.splits)
  have ev: "evaluate_timeouts clk (Some u) p s =
     (if u < t1 then Inl (SessionTimeSourceError ''Clock regression detected during session timeout evaluation.'')
      else Inr \<lparr>te_outcome = (if reached (sp_max_runtime_seconds p) (total_seconds (u - t0)) then HARD_TIMEOUT
                  else if reached (sp_idle_timeout_seconds p) (total_seconds (u - t1)) then SOFT_TIMEOUT
                  else STILL_ACTIVE),
               te_idle_elapsed_seconds = total_seconds (u - t1),
               te_runtime_elapsed_seconds = total_seconds (u - t0)\<rparr>)" for u
    using assms(2-4) le
    by (auto simp: evaluate_timeouts_def resolve_time_def ensure_monotonic_def raise_if_def Let_def nn)
  have later: "total_seconds (now - t) \<le> total_seconds (u - t)" if "now \<le> u" for t u
    using that by (intro mono) simp
  show ?thesis
    using mono [of 0 "now - t1"] mono [of "now - t1" "now - t0"] le r [OF _ later]
    by (auto simp: ev total_seconds_def [of 0])
qed

theorem evaluate_timeouts_correct_witness:
  "\<exists>ev. evaluate_timeouts 0 (Some 8000000) \<lparr>sp_idle_timeout_seconds = Some 5, sp_max_runtime_seconds = Some 60\<rparr>
     \<lparr>ss_kind = ACTIVE, ss_session_id = Some ''s'', ss_started_at = Some 0, ss_last_activity_at = Some 1000000,
      ss_ended_at = None, ss_reason_code = None\<rparr> = Inr ev \<and> te_idle_elapsed_seconds ev = 7"
proof -
  let ?s = "\<lparr>ss_kind = ACTIVE, ss_session_id = Some ''s'', ss_started_at = Some 0,
      ss_last_activity_at = Some 1000000, ss_ended_at = None, ss_reason_code = None\<rparr>"
  have "session_ok ?s" "ss_kind ?s = ACTIVE" "ss_started_at ?s = Some 0" "ss_last_activity_at ?s = Some 1000000"
    by (simp_all add: session_ok_def)
  from evaluate_timeouts_correct [OF this, of 0 8000000
      "\<lparr>sp_idle_timeout_seconds = Some 5, sp_max_runtime_seconds = Some 60\<rparr>"]
  show ?thesis by (auto simp: total_seconds_def)
qed

end
