(* ===== verification/Event_Gate.thy ===== *)
theory Event_Gate
  imports Prelude
begin

text \<open>
  The modified-event gate (\<^verbatim>\<open>application/ingestion/policies/modified_event_gate.py\<close>): a debounce filter
  keyed by event identity. Timestamps and the window are exact rationals.
\<close>

datatype gate_error =
    ModifiedEventGateConfigError string
  | ModifiedEventGateTimeError string

datatype gate_decision = ALLOW | DEFER | DROP_DUPLICATE

record gate_result =
  gr_decision :: gate_decision
  gr_reason_code :: string
  gr_next_eligible_at :: "rat option"

record gate =
  gt_window_seconds :: rat
  gt_last_seen :: "rat dict"

definition new_gate :: "rat \<Rightarrow> gate_error + gate" where
  "new_gate window =
     (if window < 0 then Inl (ModifiedEventGateConfigError ''window_seconds must be non-negative.'')
      else Inr \<lparr>gt_window_seconds = window, gt_last_seen = []\<rparr>)"

definition evaluate_event ::
    "(rat \<Rightarrow> string) \<Rightarrow> string \<Rightarrow> rat \<Rightarrow> gate \<Rightarrow> (gate_error + gate_result) \<times> gate" where
  "evaluate_event show_float event_key event_timestamp g =
     (if event_key = [] then (Inl (ModifiedEventGateConfigError ''event_key must be non-empty.''), g)
      else
        let last_seen = map_of (gt_last_seen g) event_key in
        if (case last_seen of None \<Rightarrow> False | Some t \<Rightarrow> event_timestamp < t)
        then (Inl (ModifiedEventGateTimeError (''Timestamp regression for '' @ [CHR 39] @ event_key @ [CHR 39] @
               '': '' @ show_float event_timestamp @ '' < '' @ show_float (the last_seen))), g)
        else if (case last_seen of None \<Rightarrow> False | Some t \<Rightarrow> event_timestamp - t < gt_window_seconds g)
        then (Inr \<lparr>gr_decision = DROP_DUPLICATE, gr_reason_code = ''inside_debounce_window'',
                   gr_next_eligible_at = Some (the last_seen + gt_window_seconds g)\<rparr>, g)
        else (Inr \<lparr>gr_decision = ALLOW, gr_reason_code = ''outside_debounce_window'',
                   gr_next_eligible_at = None\<rparr>,
              g\<lparr>gt_last_seen := AList.update event_key event_timestamp (gt_last_seen g)\<rparr>))"

section \<open>Streams of events\<close>

definition passes :: "(gate_error + gate_result) \<times> gate \<Rightarrow> bool" where
  "passes out \<longleftrightarrow> (case fst out of Inl _ \<Rightarrow> False | Inr r \<Rightarrow> gr_decision r = ALLOW)"

text \<open>The events of a stream that the gate lets through, with the gate after the stream.\<close>

fun gate_stream ::
    "(rat \<Rightarrow> string) \<Rightarrow> (string \<times> rat) list \<Rightarrow> gate \<Rightarrow> (string \<times> rat) list \<times> gate" where
  "gate_stream sf [] g = ([], g)"
| "gate_stream sf ((k, t) # es) g =
     (let out = evaluate_event sf k t g; rest = gate_stream sf es (snd out)
      in (if passes out then (k, t) # fst rest else fst rest, snd rest))"

definition times_of :: "string \<Rightarrow> (string \<times> rat) list \<Rightarrow> rat list" where
  "times_of k es = map snd (filter (\<lambda>e. fst e = k) es)"

lemma evaluate_event_frame:
  "gt_window_seconds (snd (evaluate_event sf k t g)) = gt_window_seconds g"
  "map_of (gt_last_seen (snd (evaluate_event sf k t g))) =
     (if passes (evaluate_event sf k t g) then (map_of (gt_last_seen g))(k \<mapsto> t) else map_of (gt_last_seen g))"
  by (auto simp: evaluate_event_def passes_def Let_def)

lemma passes_iff:
  assumes "0 \<le> gt_window_seconds g"
  shows "passes (evaluate_event sf k t g) \<longleftrightarrow>
    k \<noteq> [] \<and> (\<forall>u. map_of (gt_last_seen g) k = Some u \<longrightarrow> u + gt_window_seconds g \<le> t)"
  using assms by (auto simp: evaluate_event_def passes_def Let_def not_less split: option.splits)

lemma gate_stream_spaced:
  assumes "0 \<le> gt_window_seconds g"
  shows "sorted_wrt (\<lambda>a b. a + gt_window_seconds g \<le> b)
    ((case map_of (gt_last_seen g) k of None \<Rightarrow> [] | Some u \<Rightarrow> [u]) @ times_of k (fst (gate_stream sf es g)))"
  using assms
proof (induction es arbitrary: g)
  case Nil
  then show ?case by (simp add: times_of_def split: option.splits)
next
  case (Cons e es)
  obtain k' t where e: "e = (k', t)" by (cases e)
  let ?w = "gt_window_seconds g"
  let ?g = "snd (evaluate_event sf k' t g)"
  let ?p = "passes (evaluate_event sf k' t g)"
  have IH: "sorted_wrt (\<lambda>a b. a + ?w \<le> b)
      ((case map_of (gt_last_seen ?g) k of None \<Rightarrow> [] | Some u \<Rightarrow> [u]) @ times_of k (fst (gate_stream sf es ?g)))"
    using Cons.IH [of ?g] Cons.prems by (simp add: evaluate_event_frame)
  show ?case
  proof (cases "?p \<and> k' = k")
    case True
    then have "\<forall>u. map_of (gt_last_seen g) k = Some u \<longrightarrow> u + ?w \<le> t"
      using passes_iff [OF Cons.prems] by auto
    then show ?thesis using IH True e Cons.prems
      by (auto simp: evaluate_event_frame times_of_def Let_def split: option.splits if_splits)
  next
    case False
    then have "map_of (gt_last_seen ?g) k = map_of (gt_last_seen g) k"
      by (auto simp: evaluate_event_frame)
    then show ?thesis using IH False e by (auto simp: times_of_def Let_def)
  qed
qed

text \<open>
  The gate debounces: of every stream of events, in any interleaving of keys, the events it lets
  through for one key are at least a window apart. It drops nothing else: an event with a key passes
  exactly when it comes no sooner than a window after the last one that passed for this key.
\<close>

theorem gate_debounces:
  assumes "new_gate window = Inr g"
  shows "sorted_wrt (\<lambda>a b. a + window \<le> b) (times_of k (fst (gate_stream sf es g))) \<and>
    (passes (evaluate_event sf k t (snd (gate_stream sf es g))) \<longleftrightarrow>
       k \<noteq> [] \<and> (times_of k (fst (gate_stream sf es g)) = [] \<or>
                 last (times_of k (fst (gate_stream sf es g))) + window \<le> t))"
proof -
  have g: "g = \<lparr>gt_window_seconds = window, gt_last_seen = []\<rparr>" and w: "0 \<le> window"
    using assms by (auto simp: new_gate_def split: if_splits)
  have frame: "gt_window_seconds (snd (gate_stream sf es h)) = gt_window_seconds h \<and>
     map_of (gt_last_seen (snd (gate_stream sf es h))) k =
       (if times_of k (fst (gate_stream sf es h)) = [] then map_of (gt_last_seen h) k
        else Some (last (times_of k (fst (gate_stream sf es h)))))" for h
  proof (induction es arbitrary: h)
    case (Cons e es)
    obtain a b where "e = (a, b)" by (cases e)
    then show ?case using Cons.IH [of "snd (evaluate_event sf a b h)"]
      by (simp add: Let_def times_of_def evaluate_event_frame)
  qed (simp add: times_of_def)
  have "sorted_wrt (\<lambda>a b. a + window \<le> b) (times_of k (fst (gate_stream sf es g)))"
    using gate_stream_spaced [of g k sf es] g w by simp
  moreover have "passes (evaluate_event sf k t (snd (gate_stream sf es g))) \<longleftrightarrow>
       k \<noteq> [] \<and> (times_of k (fst (gate_stream sf es g)) = [] \<or>
                 last (times_of k (fst (gate_stream sf es g))) + window \<le> t)"
    using passes_iff [of "snd (gate_stream sf es g)" sf k t] frame [of g] g w by auto
  ultimately show ?thesis by blast
qed

theorem gate_debounces_witness:
  "fst (gate_stream (\<lambda>_. []) [(''a'', 0), (''a'', 1), (''b'', 1), (''a'', 2)]
        \<lparr>gt_window_seconds = 2, gt_last_seen = []\<rparr>) = [(''a'', 0), (''b'', 1), (''a'', 2)] \<and>
   sorted_wrt (\<lambda>a b. a + 2 \<le> b) (times_of ''a'' (fst (gate_stream (\<lambda>_. [])
        [(''a'', 0), (''a'', 1), (''b'', 1), (''a'', 2)] \<lparr>gt_window_seconds = 2, gt_last_seen = []\<rparr>)))"
proof
  show "fst (gate_stream (\<lambda>_. []) [(''a'', 0), (''a'', 1), (''b'', 1), (''a'', 2)]
        \<lparr>gt_window_seconds = 2, gt_last_seen = []\<rparr>) = [(''a'', 0), (''b'', 1), (''a'', 2)]"
    by code_simp
  have "new_gate 2 = Inr \<lparr>gt_window_seconds = 2, gt_last_seen = []\<rparr>" by (simp add: new_gate_def)
  from gate_debounces [OF this, of "''a''"] show "sorted_wrt (\<lambda>a b. a + 2 \<le> b)
      (times_of ''a'' (fst (gate_stream (\<lambda>_. []) [(''a'', 0), (''a'', 1), (''b'', 1), (''a'', 2)]
        \<lparr>gt_window_seconds = 2, gt_last_seen = []\<rparr>)))" by blast
qed

end
