(* ===== verification/Paths.thy ===== *)
theory Paths
  imports Prelude "HOL-Library.Sublist"
begin

text \<open>
  \<^verbatim>\<open>str(PurePath(s))\<close> of Python's POSIX flavour: one leading slash (or exactly two, which POSIX keeps)
  is the root, empty and \<^verbatim>\<open>.\<close> components disappear, \<^verbatim>\<open>..\<close> stays, and the empty path prints as
  \<^verbatim>\<open>.\<close>.
\<close>

definition path_root :: "string \<Rightarrow> string" where
  "path_root s =
     (if starts_with ''//'' s \<and> \<not> starts_with ''///'' s then ''//''
      else if starts_with ''/'' s then ''/'' else [])"

definition real_component :: "string \<Rightarrow> bool" where
  "real_component c \<longleftrightarrow> c \<noteq> [] \<and> c \<noteq> ''.''"

definition path_parts :: "string \<Rightarrow> string list" where
  "path_parts s = filter real_component (split_char (CHR ''/'') s)"

definition pure_path :: "string \<Rightarrow> string" where
  "pure_path s =
     (let t = path_root s @ str_join ''/'' (path_parts s) in if t = [] then ''.'' else t)"

text \<open>\<^verbatim>\<open>PurePath(s).name\<close>.\<close>

definition path_name :: "string \<Rightarrow> string" where
  "path_name s = (if path_parts s = [] then [] else last (path_parts s))"

definition rstrip_char :: "char \<Rightarrow> string \<Rightarrow> string" where
  "rstrip_char c s = rev (dropWhile (\<lambda>x. x = c) (rev s))"

section \<open>Splitting and joining\<close>

lemma split_char_no_sep: "t \<in> set (split_char c s) \<Longrightarrow> c \<notin> set t"
proof (induction s arbitrary: t)
  case Nil
  then show ?case by simp
next
  case (Cons x s)
  obtain u us where s: "split_char c s = u # us" by (metis split_char_ne list.exhaust)
  with Cons show ?case by (auto split: if_splits)
qed

lemma split_char_single: "c \<notin> set s \<Longrightarrow> split_char c s = [s]"
  by (induction s) auto

lemma split_char_append: "c \<notin> set t \<Longrightarrow> split_char c (t @ c # s) = t # split_char c s"
  by (induction t) auto

lemma split_join_char:
  "ts \<noteq> [] \<Longrightarrow> (\<And>t. t \<in> set ts \<Longrightarrow> c \<notin> set t) \<Longrightarrow> split_char c (str_join [c] ts) = ts"
proof (induction ts)
  case (Cons t ts)
  show ?case
  proof (cases ts)
    case Nil
    then show ?thesis using Cons.prems by (simp add: split_char_single)
  next
    case (Cons u us)
    then show ?thesis
      using Cons.IH Cons.prems split_char_append [of c t "str_join [c] (u # us)"]
      by (simp add: \<open>ts = u # us\<close>)
  qed
qed simp

text \<open>Being a whole-component prefix of a text, on texts and on component lists.\<close>

lemma split_char_prefix:
  "x = y \<or> starts_with (y @ [c]) x \<longleftrightarrow> prefix (split_char c y) (split_char c x)"
proof
  assume "x = y \<or> starts_with (y @ [c]) x"
  moreover have "prefix (split_char c y) (split_char c (y @ c # z))" for z
  proof (induction y)
    case (Cons a y)
    obtain t ts u us where "split_char c y = t # ts" "split_char c (y @ c # z) = u # us"
      by (metis split_char_ne list.exhaust)
    with Cons show ?case by auto
  qed simp
  ultimately show "prefix (split_char c y) (split_char c x)"
    by (auto simp: starts_with_iff)
next
  assume "prefix (split_char c y) (split_char c x)"
  then obtain zs where z: "split_char c x = split_char c y @ zs" by (auto simp: prefix_def)
  have "str_join [c] (split_char c y @ zs) = (if zs = [] then y else y @ c # str_join [c] zs)"
  proof -
    have "str_join [c] (as @ zs) = (if zs = [] then str_join [c] as else str_join [c] as @ c # str_join [c] zs)"
      if "as \<noteq> []" for as
      using that
    proof (induction as)
      case (Cons a as)
      then show ?case by (cases "as = []") (auto simp: str_join_Cons)
    qed simp
    then show ?thesis by (simp add: join_split_char)
  qed
  then have "x = (if zs = [] then y else y @ c # str_join [c] zs)"
    using join_split_char [of c x] by (simp only: z)
  then have "x = y \<or> (\<exists>t. x = y @ c # t)" by (simp split: if_splits)
  then show "x = y \<or> starts_with (y @ [c]) x" by (auto simp: starts_with_iff)
qed

section \<open>Normal forms\<close>

lemma path_parts_real: "c \<in> set (path_parts s) \<Longrightarrow> real_component c \<and> CHR ''/'' \<notin> set c"
  by (auto simp: path_parts_def split_char_no_sep)

definition render :: "string \<Rightarrow> string list \<Rightarrow> string" where
  "render rt ps = (let t = rt @ str_join ''/'' ps in if t = [] then ''.'' else t)"

lemma split_slash_root:
  "rt \<in> {[], ''/'', ''//''} \<Longrightarrow>
     filter real_component (split_char (CHR ''/'') (rt @ s)) = filter real_component (split_char (CHR ''/'') s)"
  by (auto simp: real_component_def)

lemma path_parts_join:
  assumes "\<And>p. p \<in> set ps \<Longrightarrow> real_component p \<and> CHR ''/'' \<notin> set p"
  shows "filter real_component (split_char (CHR ''/'') (str_join ''/'' ps)) = ps"
proof (cases "ps = []")
  case True
  then show ?thesis by (simp add: real_component_def)
next
  case False
  then have "split_char (CHR ''/'') (str_join ''/'' ps) = ps"
    using assms by (intro split_join_char) auto
  then show ?thesis using assms by (simp add: filter_id_conv)
qed

lemma path_parts_render:
  assumes "rt \<in> {[], ''/'', ''//''}" and "\<And>p. p \<in> set ps \<Longrightarrow> real_component p \<and> CHR ''/'' \<notin> set p"
  shows "path_parts (render rt ps) = ps"
proof (cases "rt @ str_join ''/'' ps = []")
  case True
  then have j: "rt = []" "str_join ''/'' ps = []" by simp_all
  have "filter real_component (split_char (CHR ''/'') (str_join ''/'' ps)) = ps"
    using assms(2) by (rule path_parts_join)
  with j have "ps = []" by (simp add: real_component_def)
  with True show ?thesis by (simp add: render_def path_parts_def real_component_def)
next
  case False
  then have "path_parts (render rt ps) =
      filter real_component (split_char (CHR ''/'') (rt @ str_join ''/'' ps))"
    by (auto simp: render_def path_parts_def Let_def)
  also have "\<dots> = filter real_component (split_char (CHR ''/'') (str_join ''/'' ps))"
    by (rule split_slash_root [OF assms(1)])
  also have "\<dots> = ps" by (rule path_parts_join [OF assms(2)])
  finally show ?thesis .
qed

lemma join_parts_no_slash_hd:
  assumes "\<And>p. p \<in> set ps \<Longrightarrow> real_component p \<and> CHR ''/'' \<notin> set p" and "str_join ''/'' ps = c # t"
  shows "c \<noteq> CHR ''/''"
  using assms
proof (cases ps)
  case (Cons p qs)
  then have "\<exists>t. str_join ''/'' ps = p @ t" by (cases qs) auto
  then show ?thesis using assms Cons by (cases p) (fastforce simp: real_component_def)+
qed (use assms in simp)

lemma path_root_render:
  assumes "rt \<in> {[], ''/'', ''//''}" and "\<And>p. p \<in> set ps \<Longrightarrow> real_component p \<and> CHR ''/'' \<notin> set p"
  shows "path_root (render rt ps) = rt"
  using assms(1) join_parts_no_slash_hd [OF assms(2)]
  by (cases "str_join ''/'' ps") (auto simp: render_def path_root_def starts_with_def Let_def)

lemma pure_path_render: "pure_path s = render (path_root s) (path_parts s)"
  by (simp add: pure_path_def render_def)

lemma path_root_cases: "path_root s \<in> {[], ''/'', ''//''}"
  by (simp add: path_root_def)

lemma pure_path_parts [simp]: "path_parts (pure_path s) = path_parts s"
  unfolding pure_path_render by (rule path_parts_render [OF path_root_cases path_parts_real])

lemma pure_path_root [simp]: "path_root (pure_path s) = path_root s"
  unfolding pure_path_render by (rule path_root_render [OF path_root_cases path_parts_real])

lemma pure_path_idem [simp]: "pure_path (pure_path s) = pure_path s"
  by (metis pure_path_parts pure_path_root pure_path_render)

lemma pure_path_ne [simp]: "pure_path s \<noteq> []"
  by (simp add: pure_path_def Let_def)

end
