(* ===== verification/Force_Path.thy ===== *)
theory Force_Path
  imports Paths
begin

text \<open>
  The force-path policy (\<^verbatim>\<open>application/ingestion/policies/force_path.py\<close>): whether an override path
  may replace the default target. Paths have the POSIX flavour of \<^verbatim>\<open>PurePath\<close>.
\<close>

datatype force_path_decision_type = APPLY_OVERRIDE | IGNORE_OVERRIDE | REJECT_OVERRIDE

record force_path_decision =
  fp_decision_type :: force_path_decision_type
  fp_normalized_path :: "string option"
  fp_reason_code :: string

definition normalize_path :: "string \<Rightarrow> string" where
  "normalize_path s = replace_char (CHR 92) (CHR ''/'') (pure_path s)"

text \<open>The text both sides are compared in: normalised, lower case, without trailing slashes.\<close>

definition root_text :: "string \<Rightarrow> string" where
  "root_text s = rstrip_char (CHR ''/'') (str_lower (normalize_path s))"

definition is_under_root :: "string \<Rightarrow> string \<Rightarrow> bool" where
  "is_under_root path rt \<longleftrightarrow>
     root_text path = root_text rt \<or> starts_with (root_text rt @ ''/'') (root_text path)"

definition evaluate_force_path ::
    "string option \<Rightarrow> string list \<Rightarrow> string \<Rightarrow> (string \<Rightarrow> bool) option \<Rightarrow> force_path_decision" where
  "evaluate_force_path override_path allowed_roots default_target conflict_probe =
     (let fallback_target = normalize_path default_target in
      case override_path of
        None \<Rightarrow> \<lparr>fp_decision_type = IGNORE_OVERRIDE, fp_normalized_path = Some fallback_target,
                 fp_reason_code = ''override_not_provided''\<rparr>
      | Some raw \<Rightarrow>
          if strip raw = []
          then \<lparr>fp_decision_type = IGNORE_OVERRIDE, fp_normalized_path = Some fallback_target,
                fp_reason_code = ''override_not_provided''\<rparr>
          else
            let normalized_override = normalize_path raw in
            if \<not> list_ex (is_under_root normalized_override) allowed_roots
            then \<lparr>fp_decision_type = REJECT_OVERRIDE, fp_normalized_path = None,
                  fp_reason_code = ''outside_allowed_roots''\<rparr>
            else if (case conflict_probe of None \<Rightarrow> False | Some probe \<Rightarrow> probe normalized_override)
            then \<lparr>fp_decision_type = REJECT_OVERRIDE, fp_normalized_path = None,
                  fp_reason_code = ''override_conflict''\<rparr>
            else \<lparr>fp_decision_type = APPLY_OVERRIDE, fp_normalized_path = Some normalized_override,
                  fp_reason_code = ''override_applied''\<rparr>)"

definition components :: "string \<Rightarrow> string list" where
  "components s = split_char (CHR ''/'') (root_text s)"

lemma is_under_root_components: "is_under_root p r \<longleftrightarrow> prefix (components r) (components p)"
  unfolding is_under_root_def components_def by (rule split_char_prefix)

text \<open>
  An override is applied exactly when it is not blank, the components of some allowed root are the
  first components of the override (so a sibling directory whose name merely starts with the root's name
  is not accepted), and the conflict probe does not object; the target is then the normalised override.
  It is ignored, in favour of the default target, exactly when it is blank, and otherwise rejected
  without a target.
\<close>

theorem force_path_decision_correct:
  "(fp_decision_type (evaluate_force_path ov roots d probe) = APPLY_OVERRIDE \<longleftrightarrow>
      (\<exists>raw. ov = Some raw \<and> strip raw \<noteq> [] \<and>
         (\<exists>r \<in> set roots. prefix (components r) (components (normalize_path raw))) \<and>
         (probe = None \<or> (\<exists>f. probe = Some f \<and> \<not> f (normalize_path raw)))))
   \<and> (fp_decision_type (evaluate_force_path ov roots d probe) = IGNORE_OVERRIDE \<longleftrightarrow>
      (case ov of None \<Rightarrow> True | Some raw \<Rightarrow> strip raw = []))
   \<and> fp_normalized_path (evaluate_force_path ov roots d probe) =
      (case fp_decision_type (evaluate_force_path ov roots d probe) of
         APPLY_OVERRIDE \<Rightarrow> map_option normalize_path ov
       | IGNORE_OVERRIDE \<Rightarrow> Some (normalize_path d)
       | REJECT_OVERRIDE \<Rightarrow> None)"
  by (auto simp: evaluate_force_path_def Let_def list_ex_iff is_under_root_components split: option.splits)

text \<open>
  The check is on the text of the path and does not resolve parent references: a path that climbs
  out of the allowed root again is accepted and applied as it stands.
\<close>

theorem force_path_parent_escape:
  "evaluate_force_path (Some ''/allowed/../etc/passwd'') [''/allowed''] ''/data'' None =
     \<lparr>fp_decision_type = APPLY_OVERRIDE, fp_normalized_path = Some ''/allowed/../etc/passwd'',
      fp_reason_code = ''override_applied''\<rparr>"
  by code_simp

end
