(* ===== verification/Failure_Policies.thy ===== *)
theory Failure_Policies
  imports Prelude
begin

text \<open>
  The failure policies under \<^verbatim>\<open>application/ingestion/policies\<close>: the classification of exceptions
  (\<^verbatim>\<open>error_handling.py\<close>), the normalised failure outcome (\<^verbatim>\<open>failure_outcome.py\<close>), its emission to an
  event port (\<^verbatim>\<open>failure_emitter.py\<close>) and the once-per-event emission of immediate-sync failures
  (\<^verbatim>\<open>immediate_sync_error_emitter.py\<close>), whose module-level set of event ids is explicit state. An
  exception is what the policies and the engine ask of it: its type name, its text, two
  \<^verbatim>\<open>isinstance\<close> answers and its \<^verbatim>\<open>stage_id\<close> attribute.
  An event port acts on a world and raises the text of an exception.
\<close>

section \<open>Classification of exceptions\<close>

record py_exception =
  ex_type_name :: string
  ex_text :: string
  ex_is_timeout_or_connection :: bool
  ex_is_runtime_error :: bool
  ex_stage_id :: "string option"

record error_classification =
  ec_reason_code :: string
  ec_severity :: string
  ec_retryable :: bool
  ec_stage_id :: "string option"
  ec_diagnostics :: mapping

text \<open>\<^verbatim>\<open>re.sub("(.)([A-Z][a-z]+)", r"\1_\2", name)\<close>: matches do not overlap and are taken from the left.\<close>

function snake_first :: "string \<Rightarrow> string" where
  "snake_first (c # u # l # s) =
     (if c \<noteq> CHR 10 \<and> is_upper_char u \<and> is_lower_char l
      then c # CHR ''_'' # u # takeWhile is_lower_char (l # s) @ snake_first (dropWhile is_lower_char (l # s))
      else c # snake_first (u # l # s))"
| "snake_first [] = []"
| "snake_first [c] = [c]"
| "snake_first [c, u] = [c, u]"
  by pat_completeness auto

termination
  by (relation "measure length") (auto simp: le_imp_less_Suc length_dropWhile_le le_SucI)

text \<open>\<^verbatim>\<open>re.sub("([a-z0-9])([A-Z])", r"\1_\2", first_pass)\<close>.\<close>

fun snake_second :: "string \<Rightarrow> string" where
  "snake_second (a # b # s) =
     (if (is_lower_char a \<or> is_digit_char a) \<and> is_upper_char b
      then a # CHR ''_'' # b # snake_second s
      else a # snake_second (b # s))"
| "snake_second s = s"

definition snake_case_type_name :: "string \<Rightarrow> string" where
  "snake_case_type_name name = str_lower (snake_second (snake_first name))"

definition classify_exception :: "py_exception \<Rightarrow> string option \<Rightarrow> error_classification" where
  "classify_exception exc stage =
     \<lparr>ec_reason_code = snake_case_type_name (ex_type_name exc), ec_severity = ''error'',
      ec_retryable = (ex_is_timeout_or_connection exc \<or>
        ex_is_runtime_error exc \<and> has_substring ''retry'' (str_lower (ex_text exc))),
      ec_stage_id = stage,
      ec_diagnostics = [(''message'', VStr (ex_text exc)), (''type'', VStr (ex_type_name exc))]\<rparr>"

section \<open>Failure outcomes\<close>

datatype failure_error = FailureOutcomeTypeError string

datatype failure_terminal_type = FT_RETRY | FT_FAILED | FT_REJECTED

fun failure_value :: "failure_terminal_type \<Rightarrow> string" where
  "failure_value FT_RETRY = ''retry''"
| "failure_value FT_FAILED = ''failed''"
| "failure_value FT_REJECTED = ''rejected''"

record failure_outcome =
  fo_terminal_type :: failure_terminal_type
  fo_stage_id :: "string option"
  fo_reason_code :: string
  fo_severity :: string
  fo_retry_plan :: "mapping option"
  fo_should_emit :: bool

definition build_failure_outcome ::
    "error_classification \<Rightarrow> failure_terminal_type option \<Rightarrow> mapping option \<Rightarrow> bool \<Rightarrow>
     failure_error + failure_outcome" where
  "build_failure_outcome cl terminal_type retry_plan should_emit =
     (let resolved = (case terminal_type of Some t \<Rightarrow> t
                      | None \<Rightarrow> if ec_retryable cl then FT_RETRY else FT_FAILED) in
      if resolved = FT_RETRY \<and> retry_plan = None
      then Inl (FailureOutcomeTypeError ''Retry terminal type requires a retry plan payload.'')
      else if resolved \<noteq> FT_RETRY \<and> retry_plan \<noteq> None
      then Inl (FailureOutcomeTypeError ''Non-retry terminal types must not include a retry plan payload.'')
      else Inr \<lparr>fo_terminal_type = resolved, fo_stage_id = ec_stage_id cl, fo_reason_code = ec_reason_code cl,
                fo_severity = ec_severity cl, fo_retry_plan = retry_plan, fo_should_emit = should_emit\<rparr>)"

section \<open>Emission\<close>

datatype emission_status = EMITTED | SUPPRESSED | EMIT_FAILED

record emission_result =
  er_status :: emission_status
  er_payload :: mapping
  er_diagnostics :: mapping

type_synonym 'w event_port = "mapping \<Rightarrow> ('w, string, unit) io"

definition opt_str :: "string option \<Rightarrow> pyval" where
  "opt_str x = (case x of None \<Rightarrow> VNone | Some s \<Rightarrow> VStr s)"

definition failure_payload :: "failure_outcome \<Rightarrow> mapping \<Rightarrow> mapping" where
  "failure_payload fo context =
     [(''event_id'', get_or_none context ''event_id''), (''stage_id'', opt_str (fo_stage_id fo)),
      (''reason_code'', VStr (fo_reason_code fo)), (''severity'', VStr (fo_severity fo)),
      (''terminal_type'', VStr (failure_value (fo_terminal_type fo))),
      (''retry_plan'', case fo_retry_plan fo of None \<Rightarrow> VNone | Some m \<Rightarrow> VDict m)]"

fun py_error_text :: "py_error \<Rightarrow> string" where
  "py_error_text (KeyError k) = [CHR 39] @ k @ [CHR 39]"
| "py_error_text (TypeError m) = m"
| "py_error_text (ValueError m) = m"
| "py_error_text (OverflowError m) = m"

definition emit_failure_event ::
    "failure_outcome \<Rightarrow> mapping \<Rightarrow> 'w event_port \<Rightarrow> bool \<Rightarrow> 'w \<Rightarrow> emission_result \<times> 'w" where
  "emit_failure_event fo context port suppress w =
     (let payload = failure_payload fo context in
      case json_trip (VDict payload) of
        Inl exc \<Rightarrow>
          (\<lparr>er_status = EMIT_FAILED, er_payload = payload,
            er_diagnostics = [(''reason'', VStr ''serialization_error''), (''message'', VStr (py_error_text exc))]\<rparr>, w)
      | Inr _ \<Rightarrow>
          if suppress
          then (\<lparr>er_status = SUPPRESSED, er_payload = payload,
                 er_diagnostics = [(''reason'', VStr ''suppressed_by_policy'')]\<rparr>, w)
          else
            (case port payload w of
               (Inl exc, w') \<Rightarrow>
                 (\<lparr>er_status = EMIT_FAILED, er_payload = payload,
                   er_diagnostics = [(''reason'', VStr ''adapter_error''), (''message'', VStr exc)]\<rparr>, w')
             | (Inr _, w') \<Rightarrow> (\<lparr>er_status = EMITTED, er_payload = payload, er_diagnostics = []\<rparr>, w')))"

section \<open>Immediate-sync failures\<close>

record sync_emission_package =
  sy_failure_outcome :: failure_outcome
  sy_emission_result :: emission_result
  sy_mark_unsynced :: bool
  sy_escalation :: bool

definition immediate_sync_classification :: error_classification where
  "immediate_sync_classification =
     \<lparr>ec_reason_code = ''immediate_sync_error'', ec_severity = ''warning'', ec_retryable = False,
      ec_stage_id = Some ''post_persist'', ec_diagnostics = []\<rparr>"

definition emit_immediate_sync_failure ::
    "string \<Rightarrow> string \<Rightarrow> string \<Rightarrow> 'w event_port \<Rightarrow> string list \<times> 'w \<Rightarrow>
     (failure_error + sync_emission_package) \<times> (string list \<times> 'w)" where
  "emit_immediate_sync_failure event_id record_id err port s =
     (case build_failure_outcome immediate_sync_classification (Some FT_FAILED) None True of
        Inl e \<Rightarrow> (Inl e, s)
      | Inr fo \<Rightarrow>
          if event_id \<in> set (fst s)
          then (Inr \<lparr>sy_failure_outcome = fo,
                     sy_emission_result = \<lparr>er_status = SUPPRESSED,
                       er_payload = [(''event_id'', VStr event_id), (''record_id'', VStr record_id),
                                     (''reason'', VStr err)],
                       er_diagnostics = [(''reason'', VStr ''already_emitted_for_event'')]\<rparr>,
                     sy_mark_unsynced = True, sy_escalation = False\<rparr>, s)
          else
            (case emit_failure_event fo
                    [(''event_id'', VStr event_id), (''record_id'', VStr record_id), (''sync_error'', VStr err)]
                    port False (snd s) of
               (r, w) \<Rightarrow>
                 (Inr \<lparr>sy_failure_outcome = fo, sy_emission_result = r, sy_mark_unsynced = True,
                       sy_escalation = (er_status r = EMIT_FAILED)\<rparr>,
                  (if er_status r = EMITTED then List.insert event_id (fst s) else fst s, w))))"

section \<open>Properties\<close>

lemma filter_snake_first: "filter (\<lambda>c. c \<noteq> CHR ''_'') (snake_first s) = filter (\<lambda>c. c \<noteq> CHR ''_'') s"
proof (induction s rule: snake_first.induct)
  case (1 c u l s)
  have "filter P (takeWhile Q xs) @ filter P (dropWhile Q xs) = filter P xs" for P Q and xs :: string
    by (metis filter_append takeWhile_dropWhile_id)
  with 1 show ?case by (auto simp del: takeWhile.simps dropWhile.simps)
qed simp_all

lemma filter_snake_second: "filter (\<lambda>c. c \<noteq> CHR ''_'') (snake_second s) = filter (\<lambda>c. c \<noteq> CHR ''_'') s"
  by (induction s rule: snake_second.induct) auto

lemma lower_char_underscore: "lower_char c = CHR ''_'' \<longleftrightarrow> c = CHR ''_''"
proof (cases "is_upper_char c")
  case True
  then show ?thesis using of_char_lower_char [OF True] by (auto simp: is_upper_char_def Let_def)
qed (simp add: lower_char_def)

lemma filter_str_lower:
  "filter (\<lambda>c. c \<noteq> CHR ''_'') (str_lower s) = str_lower (filter (\<lambda>c. c \<noteq> CHR ''_'') s)"
  by (simp add: str_lower_def filter_map comp_def lower_char_underscore)

text \<open>
  The reason code of an exception is its type name in lower case with underscores added, and nothing
  else: without underscores the two agree letter by letter. Classification and outcome fit together: the
  outcome of a classification is built exactly when a retry plan is given for a retryable failure and none
  otherwise, it is a retry exactly when it carries a plan, and it keeps the classification's fields.
\<close>

theorem classified_failure_outcome:
  "filter (\<lambda>c. c \<noteq> CHR ''_'') (ec_reason_code (classify_exception exc stage)) =
     filter (\<lambda>c. c \<noteq> CHR ''_'') (str_lower (ex_type_name exc))
   \<and> str_lower (ec_reason_code (classify_exception exc stage)) = ec_reason_code (classify_exception exc stage)
   \<and> (case build_failure_outcome (classify_exception exc stage) None plan emit of
        Inl e \<Rightarrow> ec_retryable (classify_exception exc stage) \<longleftrightarrow> plan = None
      | Inr fo \<Rightarrow> fo_retry_plan fo = plan \<and> (fo_terminal_type fo = FT_RETRY \<longleftrightarrow> plan \<noteq> None) \<and>
          (fo_terminal_type fo = FT_RETRY \<longleftrightarrow> ec_retryable (classify_exception exc stage)) \<and>
          fo_stage_id fo = stage \<and> fo_reason_code fo = ec_reason_code (classify_exception exc stage))"
proof (intro conjI)
  show "filter (\<lambda>c. c \<noteq> CHR ''_'') (ec_reason_code (classify_exception exc stage)) =
     filter (\<lambda>c. c \<noteq> CHR ''_'') (str_lower (ex_type_name exc))"
    by (simp add: classify_exception_def snake_case_type_name_def filter_str_lower
        filter_snake_first filter_snake_second)
  show "str_lower (ec_reason_code (classify_exception exc stage)) = ec_reason_code (classify_exception exc stage)"
    by (simp add: classify_exception_def snake_case_type_name_def)
  show "case build_failure_outcome (classify_exception exc stage) None plan emit of
        Inl e \<Rightarrow> ec_retryable (classify_exception exc stage) \<longleftrightarrow> plan = None
      | Inr fo \<Rightarrow> fo_retry_plan fo = plan \<and> (fo_terminal_type fo = FT_RETRY \<longleftrightarrow> plan \<noteq> None) \<and>
          (fo_terminal_type fo = FT_RETRY \<longleftrightarrow> ec_retryable (classify_exception exc stage)) \<and>
          fo_stage_id fo = stage \<and> fo_reason_code fo = ec_reason_code (classify_exception exc stage)"
    by (auto simp: build_failure_outcome_def Let_def classify_exception_def)
qed

text \<open>A sequence of emissions, with the results in order.\<close>

fun emit_sequence ::
    "(string \<times> string \<times> string) list \<Rightarrow> 'w event_port \<Rightarrow> string list \<times> 'w \<Rightarrow>
     (failure_error + sync_emission_package) list \<times> (string list \<times> 'w)" where
  "emit_sequence [] port s = ([], s)"
| "emit_sequence ((eid, rid, err) # xs) port s =
     (case emit_immediate_sync_failure eid rid err port s of
        (r, s1) \<Rightarrow> (case emit_sequence xs port s1 of (rs, s2) \<Rightarrow> (r # rs, s2)))"

definition emitted :: "failure_error + sync_emission_package \<Rightarrow> bool" where
  "emitted r \<longleftrightarrow> (case r of Inl _ \<Rightarrow> False | Inr p \<Rightarrow> er_status (sy_emission_result p) = EMITTED)"

lemma emit_immediate_cases:
  "\<exists>p. fst (emit_immediate_sync_failure eid rid err port s) = Inr p \<and> sy_mark_unsynced p \<and>
     (sy_escalation p \<longleftrightarrow> er_status (sy_emission_result p) = EMIT_FAILED) \<and>
     (eid \<in> set (fst s) \<longrightarrow> er_status (sy_emission_result p) = SUPPRESSED) \<and>
     set (fst (snd (emit_immediate_sync_failure eid rid err port s))) =
       set (fst s) \<union> (if er_status (sy_emission_result p) = EMITTED then {eid} else {})"
proof -
  obtain fo where fo: "build_failure_outcome immediate_sync_classification (Some FT_FAILED) None True = Inr fo"
    by (simp add: build_failure_outcome_def)
  obtain r w where "emit_failure_event fo [(''event_id'', VStr eid), (''record_id'', VStr rid),
      (''sync_error'', VStr err)] port False (snd s) = (r, w)" by (rule prod.exhaust)
  with fo show ?thesis by (cases "eid \<in> set (fst s)") (simp_all add: emit_immediate_sync_failure_def)
qed

text \<open>
  Immediate-sync failures are announced at most once per event: in every sequence of reports, to any
  port, each event id has at most one emitted announcement. Every report returns a package that asks for
  the record to be marked unsynced, and it escalates exactly when its emission failed.
\<close>

theorem immediate_sync_once:
  "length (filter (\<lambda>(x, r). fst x = eid \<and> emitted r) (zip xs (fst (emit_sequence xs port s)))) \<le>
     (if eid \<in> set (fst s) then 0 else 1)
   \<and> list_all (\<lambda>r. case r of Inl _ \<Rightarrow> False
        | Inr p \<Rightarrow> sy_mark_unsynced p \<and> (sy_escalation p \<longleftrightarrow> er_status (sy_emission_result p) = EMIT_FAILED))
       (fst (emit_sequence xs port s))"
proof (induction xs arbitrary: s)
  case (Cons x xs)
  obtain i rid err where x: "x = (i, rid, err)" by (cases x)
  obtain r s1 where r: "emit_immediate_sync_failure i rid err port s = (r, s1)" by (rule prod.exhaust)
  obtain p where p: "r = Inr p" "sy_mark_unsynced p"
    "sy_escalation p \<longleftrightarrow> er_status (sy_emission_result p) = EMIT_FAILED"
    "i \<in> set (fst s) \<longrightarrow> er_status (sy_emission_result p) = SUPPRESSED"
    "set (fst s1) = set (fst s) \<union> (if er_status (sy_emission_result p) = EMITTED then {i} else {})"
    using emit_immediate_cases [of i rid err port s] r by auto
  obtain rs s2 where rs: "emit_sequence xs port s1 = (rs, s2)" by (rule prod.exhaust)
  have seq: "fst (emit_sequence (x # xs) port s) = r # rs" by (simp add: x r rs)
  have e: "emitted r \<longleftrightarrow> er_status (sy_emission_result p) = EMITTED" by (simp add: emitted_def p(1))
  have "eid \<in> set (fst s1) \<longleftrightarrow> eid \<in> set (fst s) \<or> i = eid \<and> emitted r"
    using p(5) e by auto
  moreover have "\<not> (i \<in> set (fst s) \<and> emitted r)" using p(4) e by auto
  ultimately show ?case using Cons.IH [of s1] p(2,3)
    unfolding seq rs fst_conv by (auto simp: x p(1))
qed simp

end
