(* ===== verification/Candidate.thy ===== *)
theory Candidate
  imports Force_Path Failure_Policies
begin

text \<open>
  The ingestion candidate (\<^verbatim>\<open>application/ingestion/models/candidate.py\<close>): its construction from an
  observer event and file facts, and the three enrichments in the order resolve, route, persist. The
  SHA-256 digest of the JSON text of the identity payload is the parameter \<open>digest\<close>.
\<close>

datatype candidate_error =
    CandidatePathError string
  | CandidateEventTypeError string
  | CandidateTransitionError string
  | CandidateSerializationError string
  | CandidatePyError py_error

record candidate =
  cd_identity_token :: string
  cd_source_path :: string
  cd_event_kind :: string
  cd_observed_at :: rat
  cd_size :: "int option"
  cd_modified_at :: "rat option"
  cd_fingerprint :: "string option"
  cd_plugin_id :: "string option"
  cd_processor_key :: "string option"
  cd_target_path :: "string option"
  cd_route_tokens :: "string dict option"
  cd_record_id :: "string option"
  cd_persisted_path :: "string option"

definition ALLOWED_EVENT_KINDS :: "string list" where
  "ALLOWED_EVENT_KINDS = [''created'', ''modified'', ''moved'', ''manual'']"

text \<open>An optional fact: absent and \<^verbatim>\<open>None\<close> are the same.\<close>

definition opt_fact :: "(pyval \<Rightarrow> candidate_error + 'a) \<Rightarrow> pyval \<Rightarrow> candidate_error + 'a option" where
  "opt_fact f v = (if v = VNone then Inr None else rbind (f v) (\<lambda>x. Inr (Some x)))"

definition identity_payload :: "string \<Rightarrow> string \<Rightarrow> rat \<Rightarrow> mapping \<Rightarrow> mapping" where
  "identity_payload path kind observed fs_facts =
     [(''path'', VStr path), (''event_kind'', VStr kind), (''observed_at'', VFloat observed),
      (''size'', get_or_none fs_facts ''size''), (''modified_at'', get_or_none fs_facts ''modified_at''),
      (''fingerprint'', get_or_none fs_facts ''fingerprint'')]"

definition candidate_from_event ::
    "conv_env \<Rightarrow> (pyval \<Rightarrow> string) \<Rightarrow> mapping \<Rightarrow> mapping \<Rightarrow> candidate_error + candidate" where
  "candidate_from_event cv digest event fs_facts =
     (let raw_path = strip (py_str (cv_repr cv) (dict_get_or event ''path'' (VStr []))) in
      if raw_path = [] then Inl (CandidatePathError ''Candidate source path must be non-empty.'')
      else
      let normalized_path = pure_path raw_path;
          event_kind = str_lower (strip (py_str (cv_repr cv) (dict_get_or event ''event_kind'' (VStr []))))
      in
      if event_kind \<notin> set ALLOWED_EVENT_KINDS
      then Inl (CandidateEventTypeError (''Unsupported candidate event kind: '' @ [CHR 39] @ event_kind @
             [CHR 39] @ ''.''))
      else
      rbind (map_error CandidatePyError (py_float cv (dict_get_or event ''observed_at'' (VFloat 0)))) (\<lambda>observed.
      rbind (map_error CandidatePyError
        (json_trip (VDict (identity_payload normalized_path event_kind observed fs_facts)))) (\<lambda>identity_json.
      let identity_token = digest identity_json in
      rbind (opt_fact (map_error CandidatePyError \<circ> py_int cv) (get_or_none fs_facts ''size'')) (\<lambda>size.
      rbind (opt_fact (map_error CandidatePyError \<circ> py_float cv) (get_or_none fs_facts ''modified_at'')) (\<lambda>modified.
      rbind (opt_fact (\<lambda>v. Inr (py_str (cv_repr cv) v)) (get_or_none fs_facts ''fingerprint'')) (\<lambda>fingerprint.
      Inr \<lparr>cd_identity_token = identity_token, cd_source_path = normalized_path, cd_event_kind = event_kind,
           cd_observed_at = observed, cd_size = size, cd_modified_at = modified,
           cd_fingerprint = fingerprint, cd_plugin_id = None, cd_processor_key = None,
           cd_target_path = None, cd_route_tokens = None, cd_record_id = None,
           cd_persisted_path = None\<rparr>))))))"

definition with_resolution :: "string \<Rightarrow> string \<Rightarrow> candidate \<Rightarrow> candidate_error + candidate" where
  "with_resolution plugin_id processor_key c =
     (if plugin_id = [] \<or> processor_key = []
      then Inl (CandidateTransitionError ''Resolve enrichment requires plugin_id and processor_key.'')
      else Inr (c\<lparr>cd_plugin_id := Some plugin_id, cd_processor_key := Some processor_key\<rparr>))"

definition with_route :: "string \<Rightarrow> string dict \<Rightarrow> candidate \<Rightarrow> candidate_error + candidate" where
  "with_route target_path route_tokens c =
     (if cd_plugin_id c = None \<or> cd_processor_key c = None
      then Inl (CandidateTransitionError ''Route enrichment requires resolution to be present first.'')
      else if strip target_path = []
      then Inl (CandidateTransitionError ''Route enrichment requires target_path.'')
      else Inr (c\<lparr>cd_target_path := Some (normalize_path target_path), cd_route_tokens := Some route_tokens\<rparr>))"

definition with_persist_result :: "string \<Rightarrow> string \<Rightarrow> candidate \<Rightarrow> candidate_error + candidate" where
  "with_persist_result record_id persisted_path c =
     (if cd_target_path c = None
      then Inl (CandidateTransitionError ''Persist enrichment requires a routed target_path first.'')
      else if record_id = []
      then Inl (CandidateTransitionError ''Persist enrichment requires record_id.'')
      else Inr (c\<lparr>cd_record_id := Some record_id, cd_persisted_path := Some (normalize_path persisted_path)\<rparr>))"

definition candidate_payload :: "candidate \<Rightarrow> mapping" where
  "candidate_payload c =
     [(''identity_token'', VStr (cd_identity_token c)), (''source_path'', VStr (cd_source_path c)),
      (''event_kind'', VStr (cd_event_kind c)), (''observed_at'', VFloat (cd_observed_at c)),
      (''size'', case cd_size c of None \<Rightarrow> VNone | Some n \<Rightarrow> VInt n),
      (''modified_at'', case cd_modified_at c of None \<Rightarrow> VNone | Some t \<Rightarrow> VFloat t),
      (''fingerprint'', opt_str (cd_fingerprint c)), (''plugin_id'', opt_str (cd_plugin_id c)),
      (''processor_key'', opt_str (cd_processor_key c)), (''target_path'', opt_str (cd_target_path c)),
      (''route_tokens'', VDict (map (\<lambda>(k, v). (k, VStr v)) (case cd_route_tokens c of None \<Rightarrow> [] | Some d \<Rightarrow> d))),
      (''record_id'', opt_str (cd_record_id c)), (''persisted_path'', opt_str (cd_persisted_path c))]"

definition to_payload :: "candidate \<Rightarrow> candidate_error + mapping" where
  "to_payload c =
     (case json_trip (VDict (candidate_payload c)) of
        Inl e \<Rightarrow> Inl (CandidateSerializationError (py_error_text e))
      | Inr _ \<Rightarrow> Inr (candidate_payload c))"

fun is_candidate_error :: "candidate_error \<Rightarrow> bool" where
  "is_candidate_error (CandidatePyError _) = False"
| "is_candidate_error _ = True"

fun py_error_name :: "py_error \<Rightarrow> string" where
  "py_error_name (KeyError _) = ''KeyError''"
| "py_error_name (TypeError _) = ''TypeError''"
| "py_error_name (ValueError _) = ''ValueError''"
| "py_error_name (OverflowError _) = ''OverflowError''"

definition plain_exception :: "string \<Rightarrow> string \<Rightarrow> py_exception" where
  "plain_exception name text = \<lparr>ex_type_name = name, ex_text = text, ex_is_timeout_or_connection = False,
     ex_is_runtime_error = False, ex_stage_id = None\<rparr>"

fun candidate_exception :: "candidate_error \<Rightarrow> py_exception" where
  "candidate_exception (CandidatePathError m) = plain_exception ''CandidatePathError'' m"
| "candidate_exception (CandidateEventTypeError m) = plain_exception ''CandidateEventTypeError'' m"
| "candidate_exception (CandidateTransitionError m) = plain_exception ''CandidateTransitionError'' m"
| "candidate_exception (CandidateSerializationError m) = plain_exception ''CandidateSerializationError'' m"
| "candidate_exception (CandidatePyError e) = plain_exception (py_error_name e) (py_error_text e)"

section \<open>Properties\<close>

lemma json_trip_opt_str [simp]: "\<exists>u. json_trip (opt_str x) = Inr u"
  by (auto simp: opt_str_def split: option.splits)

lemma json_trip_items_total:
  "(\<And>k v. (k, v) \<in> set d \<Longrightarrow> \<exists>u. json_trip v = Inr u) \<Longrightarrow> \<exists>e. json_trip_items d = Inr e"
proof (induction d)
  case (Cons p d)
  obtain k v where p: "p = (k, v)" by (cases p)
  then obtain u e where "json_trip v = Inr u" "json_trip_items d = Inr e"
    using Cons.prems [of k v] Cons.IH Cons.prems by (metis list.set_intros)
  with p show ?case by simp
qed simp

text \<open>A candidate is always serialisable: its fields are JSON values.\<close>

lemma to_payload_total: "to_payload c = Inr (candidate_payload c)"
proof -
  have "\<exists>e. json_trip_items (candidate_payload c) = Inr e"
  proof (rule json_trip_items_total)
    fix k v
    assume "(k, v) \<in> set (candidate_payload c)"
    moreover have "json_trip_items (map (\<lambda>(k, v). (k, VStr v)) d) = Inr (map (\<lambda>(k, v). (k, VStr v)) d)" for d
      by (induction d) auto
    ultimately show "\<exists>u. json_trip v = Inr u"
      by (auto simp: candidate_payload_def split: option.splits)
  qed
  then show ?thesis by (auto simp: to_payload_def)
qed

text \<open>The stages a candidate has passed, read off its fields.\<close>

definition candidate_ok :: "candidate \<Rightarrow> bool" where
  "candidate_ok c \<longleftrightarrow>
     cd_event_kind c \<in> set ALLOWED_EVENT_KINDS \<and> pure_path (cd_source_path c) = cd_source_path c \<and>
     (cd_plugin_id c = None \<longleftrightarrow> cd_processor_key c = None) \<and>
     (cd_target_path c \<noteq> None \<longrightarrow> cd_plugin_id c \<noteq> None \<and> cd_route_tokens c \<noteq> None) \<and>
     (cd_record_id c \<noteq> None \<longrightarrow> cd_target_path c \<noteq> None \<and> cd_persisted_path c \<noteq> None) \<and>
     cd_plugin_id c \<noteq> Some [] \<and> cd_record_id c \<noteq> Some []"

inductive enriches :: "candidate \<Rightarrow> candidate \<Rightarrow> bool" where
  resolve: "with_resolution p k c = Inr c' \<Longrightarrow> enriches c c'"
| route: "with_route t ts c = Inr c' \<Longrightarrow> enriches c c'"
| persist: "with_persist_result r p c = Inr c' \<Longrightarrow> enriches c c'"

inductive_cases enriches_E: "enriches c c'"

lemma candidate_from_event_ok: "candidate_from_event cv digest event facts = Inr c \<Longrightarrow> candidate_ok c"
  by (auto simp: candidate_from_event_def candidate_ok_def result_simps Let_def split: if_splits)

lemma enriches_ok: "enriches c c' \<Longrightarrow> candidate_ok c \<Longrightarrow> candidate_ok c'"
  by (auto elim!: enriches_E simp: with_resolution_def with_route_def with_persist_result_def candidate_ok_def
      split: if_splits)

lemma enriches_frame:
  assumes "enriches c c'"
  shows "cd_identity_token c' = cd_identity_token c" "cd_source_path c' = cd_source_path c"
    "cd_event_kind c' = cd_event_kind c" "cd_observed_at c' = cd_observed_at c" "cd_size c' = cd_size c"
    "cd_modified_at c' = cd_modified_at c" "cd_fingerprint c' = cd_fingerprint c"
  using assms
  by (auto elim!: enriches_E simp: with_resolution_def with_route_def with_persist_result_def split: if_splits)

lemmas enrichment_ok = enriches_ok [OF enriches.resolve] enriches_ok [OF enriches.route] enriches_ok [OF enriches.persist]

text \<open>
  Candidates are well formed from the event on and along every enrichment: the event kind is an allowed
  one and the source path is normalised, a target path is only ever present after the resolution and a
  record id only after the target path. Enrichment changes none of the identity: token, source path,
  kind, times, size and fingerprint stay those of the event. Serialising a candidate never fails.
\<close>

theorem candidate_enrichment:
  assumes "candidate_from_event cv digest event facts = Inr c0" and "enriches\<^sup>*\<^sup>* c0 c"
  shows "candidate_ok c \<and> cd_identity_token c = cd_identity_token c0 \<and> cd_source_path c = cd_source_path c0 \<and>
    cd_event_kind c = cd_event_kind c0 \<and> cd_observed_at c = cd_observed_at c0 \<and> cd_size c = cd_size c0 \<and>
    cd_modified_at c = cd_modified_at c0 \<and> cd_fingerprint c = cd_fingerprint c0 \<and>
    to_payload c = Inr (candidate_payload c)"
  using assms(2)
proof (induction rule: rtranclp_induct)
  case base
  then show ?case using candidate_from_event_ok [OF assms(1)] by (simp add: to_payload_total)
next
  case (step c c')
  then show ?case using enriches_frame [OF step.hyps(2)] enriches_ok [OF step.hyps(2)]
    by (simp add: to_payload_total)
qed

theorem candidate_enrichment_witness:
  "\<exists>c0 c. candidate_from_event \<lparr>cv_repr = (\<lambda>_. []), cv_float_of_str = (\<lambda>_. None), cv_int_of_str = (\<lambda>_. None)\<rparr>
       (\<lambda>_. ''tok'') [(''path'', VStr '' /in//a.txt ''), (''event_kind'', VStr ''Created'')] [(''size'', VInt 3)] = Inr c0 \<and>
     enriches c0 c \<and> candidate_ok c \<and> cd_source_path c = ''/in/a.txt'' \<and> cd_plugin_id c = Some ''p''"
proof -
  let ?cv = "\<lparr>cv_repr = (\<lambda>_. []), cv_float_of_str = (\<lambda>_. None), cv_int_of_str = (\<lambda>_. None)\<rparr>"
  let ?ev = "[(''path'', VStr '' /in//a.txt ''), (''event_kind'', VStr ''Created'')]"
  define c0 where "c0 = projr (candidate_from_event ?cv (\<lambda>_. ''tok'') ?ev [(''size'', VInt 3)])"
  have "\<not> isl (candidate_from_event ?cv (\<lambda>_. ''tok'') ?ev [(''size'', VInt 3)])"
    and path: "cd_source_path c0 = ''/in/a.txt''" unfolding c0_def by code_simp+
  then have e: "candidate_from_event ?cv (\<lambda>_. ''tok'') ?ev [(''size'', VInt 3)] = Inr c0"
    by (simp add: c0_def)
  have r: "enriches c0 (c0\<lparr>cd_plugin_id := Some ''p'', cd_processor_key := Some ''k''\<rparr>)"
    by (rule enriches.resolve [of "''p''" "''k''"]) (simp add: with_resolution_def)
  from candidate_enrichment [OF e r_into_rtranclp [of enriches, OF r]]
  have "candidate_ok (c0\<lparr>cd_plugin_id := Some ''p'', cd_processor_key := Some ''k''\<rparr>)" by blast
  with e r path show ?thesis
    by (intro exI [of _ c0] exI [of _ "c0\<lparr>cd_plugin_id := Some ''p'', cd_processor_key := Some ''k''\<rparr>"]) simp
qed

end
