(* ===== verification/Processor_Factory.thy ===== *)
theory Processor_Factory
  imports Priority_Rules Failure_Policies
begin

text \<open>
  Processor selection (\<^verbatim>\<open>application/ingestion/processor_factory.py\<close>): the best-ranked match of the
  plugin catalog is built, checked and cached under its plugin id and the profile. The catalog lookup and
  the construction of a processor are computations over a world; \<open>has_process\<close> is the check for a
  callable \<^verbatim>\<open>process\<close>.
\<close>

datatype factory_error =
    ProcessorNotFoundError string
  | ProcessorAmbiguousMatchError string
  | ProcessorInitializationError string
  | InvalidProcessorError string
  | LookupRaised py_exception

record ('w, 'p) processor_match =
  pm_plugin_id :: string
  pm_score :: int
  pm_build :: "('w, py_exception, 'p) io"

record selection_descriptor =
  sl_plugin_id :: string
  sl_processor_key :: string
  sl_capability_reason :: string
  sl_cache_hit :: bool

record 'p processor_selection =
  sel_processor :: 'p
  sel_descriptor :: selection_descriptor

type_synonym 'p processor_cache = "((string \<times> string option) \<times> 'p) list"

definition ranked_matches :: "('w, 'p) processor_match list \<Rightarrow> ('w, 'p) processor_match list" where
  "ranked_matches ms = sort_key (\<lambda>m. (- pm_score m, pm_plugin_id m)) ms"

text \<open>The top match, or the error of a list without a single best one.\<close>

definition top_match :: "('w, 'p) processor_match list \<Rightarrow> factory_error + ('w, 'p) processor_match" where
  "top_match ms =
     (case ranked_matches ms of
        [] \<Rightarrow> Inl (ProcessorNotFoundError ''No compatible processor candidates were found.'')
      | best # rest \<Rightarrow>
          if 1 < length (filter (\<lambda>m. pm_score m = pm_score best \<and> pm_plugin_id m = pm_plugin_id best) (best # rest))
          then Inl (ProcessorAmbiguousMatchError
                 ''Multiple equally-ranked processor candidates share the same plugin id.'')
          else Inr best)"

definition select ::
    "('c \<Rightarrow> string option \<Rightarrow> ('w, py_exception, ('w, 'p) processor_match list) io) \<Rightarrow> ('p \<Rightarrow> bool) \<Rightarrow> bool \<Rightarrow>
     'c \<Rightarrow> string option \<Rightarrow> 'p processor_cache \<times> 'w \<Rightarrow>
     (factory_error + 'p processor_selection) \<times> ('p processor_cache \<times> 'w)" where
  "select lookup has_process cache_enabled cand profile s =
     (case lookup cand profile (snd s) of
        (Inl e, w1) \<Rightarrow> (Inl (LookupRaised e), (fst s, w1))
      | (Inr matches, w1) \<Rightarrow>
          (case top_match matches of
             Inl e \<Rightarrow> (Inl e, (fst s, w1))
           | Inr best \<Rightarrow>
               let top_id = pm_plugin_id best; cache_key = (top_id, profile);
                   descr = (\<lambda>reason hit. \<lparr>sl_plugin_id = top_id, sl_processor_key = top_id,
                              sl_capability_reason = reason, sl_cache_hit = hit\<rparr>)
               in
               (case (if cache_enabled then map_of (fst s) cache_key else None) of
                  Some cached \<Rightarrow>
                    (Inr \<lparr>sel_processor = cached, sel_descriptor = descr ''cache_hit'' True\<rparr>, (fst s, w1))
                | None \<Rightarrow>
                    (case pm_build best w1 of
                       (Inl exc, w2) \<Rightarrow> (Inl (ProcessorInitializationError (ex_text exc)), (fst s, w2))
                     | (Inr processor, w2) \<Rightarrow>
                         if \<not> has_process processor
                         then (Inl (InvalidProcessorError
                                 ''Constructed processor must define a callable 'process' method.''), (fst s, w2))
                         else
                           (Inr \<lparr>sel_processor = processor, sel_descriptor = descr ''ranked_match'' False\<rparr>,
                            (if cache_enabled then AList.update cache_key processor (fst s) else fst s, w2))))))"

interpretation processors: ranked_rules pm_score pm_plugin_id "\<lambda>_. True" ranked_matches
  using ranked_rules_sort_filter [of pm_score pm_plugin_id "\<lambda>_. True"]
  by (simp add: ranked_matches_def [abs_def])

lemma top_match_ranked:
  "top_match ms = Inr best \<Longrightarrow> \<exists>rest. ranked_matches ms = best # rest"
  by (auto simp: top_match_def split: list.splits if_splits)

lemma top_match_best:
  assumes "top_match ms = Inr best" and "m \<in> set ms"
  shows "pm_score m \<le> pm_score best" "pm_score m = pm_score best \<Longrightarrow> m \<noteq> best \<Longrightarrow> pm_plugin_id best < pm_plugin_id m"
proof -
  obtain rest where r: "ranked_matches ms = best # rest" using top_match_ranked [OF assms(1)] by blast
  show le: "pm_score m \<le> pm_score best" using processors.head_is_top [OF r assms(2)] by simp
  assume eq: "pm_score m = pm_score best" and "m \<noteq> best"
  then have "m \<in> set rest" using assms(2) processors.set_ranked [of ms] r by auto
  moreover have "sorted (map (\<lambda>r. (- pm_score r, pm_plugin_id r)) (best # rest))"
    using processors.ranked_sorted [of ms] r by simp
  ultimately have "pm_plugin_id best \<le> pm_plugin_id m" using eq by (auto simp: less_eq_prod_def)
  moreover have "filter (\<lambda>m. pm_score m = pm_score best \<and> pm_plugin_id m = pm_plugin_id best) rest = []"
    using assms(1) r by (auto simp: top_match_def split: if_splits)
  then have "pm_plugin_id m \<noteq> pm_plugin_id best" using \<open>m \<in> set rest\<close> eq by (auto simp: filter_empty_conv)
  ultimately show "pm_plugin_id best < pm_plugin_id m" by simp
qed

lemma top_match_order_independent:
  assumes "mset ms' = mset ms" and "distinct (map pm_plugin_id ms)"
  shows "top_match ms' = top_match ms"
  using processors.ranked_order_independent [OF assms(1) [symmetric] assms(2)] by (simp add: top_match_def)

text \<open>
  Selection picks the match with the highest score, and among equal scores the one with the smallest
  plugin id, whatever the order the catalog lists them in; a selected processor has a callable process.
  With caching on, selecting again for the same profile, from any reordering of the same matches, gives the
  very same processor without building it again: the only effect on the world is the lookup's own.
\<close>

theorem select_best_and_cached:
  assumes "select lookup hp True c profile (cache, w) = (Inr s, (cache', w'))"
    and "lookup c profile w = (Inr ms, w1)" and "distinct (map pm_plugin_id ms)"
    and "\<forall>k p. map_of cache k = Some p \<longrightarrow> hp p"
  shows "\<exists>best \<in> set ms. sl_plugin_id (sel_descriptor s) = pm_plugin_id best \<and> hp (sel_processor s) \<and>
      (\<forall>m \<in> set ms. pm_score m \<le> pm_score best \<and>
         (pm_score m = pm_score best \<and> m \<noteq> best \<longrightarrow> pm_plugin_id best < pm_plugin_id m))
    \<and> (\<forall>c2 ms2 w2 w3. lookup c2 profile w2 = (Inr ms2, w3) \<and> mset ms2 = mset ms \<longrightarrow>
         (\<exists>s2. select lookup hp True c2 profile (cache', w2) = (Inr s2, (cache', w3)) \<and>
            sel_processor s2 = sel_processor s \<and> sl_cache_hit (sel_descriptor s2)))"
proof -
  obtain best where best: "top_match ms = Inr best"
    using assms(1,2) by (auto simp: select_def split: sum.splits)
  have key: "sl_plugin_id (sel_descriptor s) = pm_plugin_id best \<and> hp (sel_processor s) \<and>
      map_of cache' (pm_plugin_id best, profile) = Some (sel_processor s)"
    using assms(1,2,4) best
    by (auto simp: select_def Let_def split: option.splits prod.splits sum.splits if_splits)
  have again: "\<exists>s2. select lookup hp True c2 profile (cache', w2) = (Inr s2, (cache', w3)) \<and>
      sel_processor s2 = sel_processor s \<and> sl_cache_hit (sel_descriptor s2)"
    if "lookup c2 profile w2 = (Inr ms2, w3)" "mset ms2 = mset ms" for c2 ms2 w2 w3
    using that top_match_order_independent [OF that(2) assms(3)] best key by (simp add: select_def Let_def)
  have "best \<in> set ms" using top_match_ranked [OF best] processors.head_hits by blast
  then show ?thesis using key again top_match_best [OF best] by blast
qed

theorem select_best_and_cached_witness:
  "\<exists>s cache'. select (\<lambda>_ _ w. (Inr [\<lparr>pm_plugin_id = ''b'', pm_score = 1, pm_build = (\<lambda>w. (Inr ''B'', w))\<rparr>,
        \<lparr>pm_plugin_id = ''a'', pm_score = 1, pm_build = (\<lambda>w. (Inr ''A'', w))\<rparr>], w))
      (\<lambda>_. True) True () None ([], ()) = (Inr s, (cache', ())) \<and> sl_plugin_id (sel_descriptor s) = ''a''"
proof -
  let ?a = "\<lparr>pm_plugin_id = ''a'', pm_score = 1, pm_build = (\<lambda>w. (Inr ''A'', w))\<rparr> :: (unit, string) processor_match"
  let ?b = "\<lparr>pm_plugin_id = ''b'', pm_score = 1, pm_build = (\<lambda>w. (Inr ''B'', w))\<rparr> :: (unit, string) processor_match"
  let ?l = "\<lambda>_ :: unit. \<lambda>_ :: string option. \<lambda>w. (Inr [?b, ?a] :: py_exception + _, w :: unit)"
  have r: "ranked_matches [?b, ?a] = [?a, ?b]" by (simp add: ranked_matches_def)
  have sel: "select ?l (\<lambda>_. True) True () None ([], ()) =
      (Inr \<lparr>sel_processor = ''A'', sel_descriptor = \<lparr>sl_plugin_id = ''a'', sl_processor_key = ''a'',
        sl_capability_reason = ''ranked_match'', sl_cache_hit = False\<rparr>\<rparr>, ([((''a'', None), ''A'')], ()))"
    by (simp add: select_def top_match_def r Let_def)
  from select_best_and_cached [OF sel] sel show ?thesis by auto
qed

end
