(* ===== verification/Pipeline.thy ===== *)
theory Pipeline
  imports Prelude
begin

text \<open>
  The stage pipeline (\<^verbatim>\<open>application/ingestion/stages/pipeline.py\<close>). A stage handler runs in the
  outside world \<open>'w\<close> and may raise an exception \<open>'e\<close>, which the runner lets pass; the cancellation
  signal is a computation of the same kind. The loop \<^verbatim>\<open>while True\<close> is the function \<open>run_loop\<close>, which
  terminates because every round trip raises the step count towards \<^verbatim>\<open>max_steps\<close>.
\<close>

datatype pipeline_outcome = P_COMPLETED | P_DEFERRED_STAGE | P_RETRY | P_REJECTED | P_FAILED

fun outcome_value :: "pipeline_outcome \<Rightarrow> string" where
  "outcome_value P_COMPLETED = ''completed''"
| "outcome_value P_DEFERRED_STAGE = ''deferred_stage''"
| "outcome_value P_RETRY = ''retry''"
| "outcome_value P_REJECTED = ''rejected''"
| "outcome_value P_FAILED = ''failed''"

datatype 'e pipeline_error =
    PipelineValueError string
  | PipelineMissingStageError string
  | PipelineTransitionError string string
  | PipelineCycleGuardError int
  | HandlerRaised 'e

record transition_policy =
  allowed_next_stages :: "string list"
  allowed_terminal_outcomes :: "pipeline_outcome list"

record 'st stage_directive =
  sd_kind :: string
  sd_next_stage :: "string option"
  sd_outcome :: "pipeline_outcome option"
  sd_state :: "'st option"

record transition_record =
  tr_stage_id :: string
  tr_directive :: string
  tr_next_stage :: "string option"
  tr_outcome :: "pipeline_outcome option"

record 'st run_result =
  rr_outcome :: pipeline_outcome
  rr_final_stage_id :: "string option"
  rr_state :: 'st
  rr_transition_log :: "transition_record list"

type_synonym ('w, 'e, 'st) stage_handler = "'st \<Rightarrow> ('w, 'e, 'st stage_directive) io"

record pipeline_runner =
  pr_start_stage :: string
  pr_transition_table :: "transition_policy dict"
  pr_max_steps :: int

definition continue_to :: "string \<Rightarrow> 'st option \<Rightarrow> 'e pipeline_error + 'st stage_directive" where
  "continue_to stage st =
     (if stage = [] then Inl (PipelineValueError ''Continue directives require a non-empty next_stage.'')
      else Inr \<lparr>sd_kind = ''continue'', sd_next_stage = Some stage, sd_outcome = None, sd_state = st\<rparr>)"

definition terminal :: "pipeline_outcome \<Rightarrow> 'st option \<Rightarrow> 'st stage_directive" where
  "terminal out st = \<lparr>sd_kind = ''terminal'', sd_next_stage = None, sd_outcome = Some out, sd_state = st\<rparr>"

text \<open>What the runner does with one directive: go on to a stage, or finish, or reject it.\<close>

definition check_directive ::
    "string \<Rightarrow> transition_policy \<Rightarrow> 'st stage_directive \<Rightarrow>
     'e pipeline_error + (string + pipeline_outcome)" where
  "check_directive stage policy d =
     (if sd_kind d = ''continue'' then
        (case sd_next_stage d of
           None \<Rightarrow> Inl (PipelineTransitionError stage ''continue directive must include next stage'')
         | Some nxt \<Rightarrow>
             if nxt \<notin> set (allowed_next_stages policy)
             then Inl (PipelineTransitionError stage (''next stage '' @ [CHR 39] @ nxt @ [CHR 39] @
                    '' is not allowed by transition table''))
             else Inr (Inl nxt))
      else if sd_kind d = ''terminal'' then
        (case sd_outcome d of
           None \<Rightarrow> Inl (PipelineTransitionError stage ''terminal directive must include terminal outcome'')
         | Some out \<Rightarrow>
             if out \<notin> set (allowed_terminal_outcomes policy)
             then Inl (PipelineTransitionError stage (''terminal outcome '' @ [CHR 39] @ outcome_value out @ [CHR 39] @
                    '' is not allowed by transition table''))
             else Inr (Inr out))
      else Inl (PipelineTransitionError stage (''unknown stage directive '' @ [CHR 39] @ sd_kind d @ [CHR 39])))"

definition continue_record :: "string \<Rightarrow> string \<Rightarrow> transition_record" where
  "continue_record stage nxt = \<lparr>tr_stage_id = stage, tr_directive = ''continue'',
     tr_next_stage = Some nxt, tr_outcome = None\<rparr>"

definition terminal_record :: "string \<Rightarrow> pipeline_outcome \<Rightarrow> transition_record" where
  "terminal_record stage out = \<lparr>tr_stage_id = stage, tr_directive = ''terminal'',
     tr_next_stage = None, tr_outcome = Some out\<rparr>"

function run_loop ::
    "transition_policy dict \<Rightarrow> int \<Rightarrow> ('w, 'e, 'st) stage_handler dict \<Rightarrow> ('w, 'e, bool) io \<Rightarrow>
     pipeline_outcome \<Rightarrow> string \<Rightarrow> 'st \<Rightarrow> transition_record list \<Rightarrow> int \<Rightarrow> string option \<Rightarrow>
     ('w, 'e pipeline_error, 'st run_result) io" where
  "run_loop table max_steps handlers should_cancel cancel_outcome stage st tlog steps prior w =
     (case should_cancel w of
        (Inl e, w1) \<Rightarrow> (Inl (HandlerRaised e), w1)
      | (Inr True, w1) \<Rightarrow>
          (Inr \<lparr>rr_outcome = cancel_outcome, rr_final_stage_id = prior, rr_state = st,
                rr_transition_log = tlog\<rparr>, w1)
      | (Inr False, w1) \<Rightarrow>
     if steps \<ge> max_steps then (Inl (PipelineCycleGuardError max_steps), w1)
     else
     (case map_of table stage of
        None \<Rightarrow> (Inl (PipelineTransitionError stage ''missing transition policy for current stage''), w1)
      | Some policy \<Rightarrow>
     (case map_of handlers stage of
        None \<Rightarrow> (Inl (PipelineMissingStageError stage), w1)
      | Some handler \<Rightarrow>
     (case handler st w1 of
        (Inl e, w2) \<Rightarrow> (Inl (HandlerRaised e), w2)
      | (Inr directive, w2) \<Rightarrow>
          let st' = (case sd_state directive of None \<Rightarrow> st | Some s \<Rightarrow> s) in
          (case check_directive stage policy directive of
             Inl e \<Rightarrow> (Inl e, w2)
           | Inr (Inl nxt) \<Rightarrow>
               run_loop table max_steps handlers should_cancel cancel_outcome nxt st'
                 (tlog @ [continue_record stage nxt]) (steps + 1) (Some stage) w2
           | Inr (Inr out) \<Rightarrow>
               (Inr \<lparr>rr_outcome = out, rr_final_stage_id = Some stage, rr_state = st',
                     rr_transition_log = tlog @ [terminal_record stage out]\<rparr>, w2))))))"
  by pat_completeness auto

termination
  by (relation "measure (\<lambda>(_, max_steps, _, _, _, _, _, _, steps, _, _). nat (max_steps - steps))") auto

declare run_loop.simps [simp del]

definition run_pipeline ::
    "pipeline_runner \<Rightarrow> 'st \<Rightarrow> ('w, 'e, 'st) stage_handler dict \<Rightarrow> ('w, 'e, bool) io option \<Rightarrow>
     pipeline_outcome \<Rightarrow> ('w, 'e pipeline_error, 'st run_result) io" where
  "run_pipeline runner st handlers cancellation cancel_outcome w =
     (if pr_max_steps runner \<le> 0 then (Inl (PipelineValueError ''max_steps must be greater than 0.''), w)
      else run_loop (pr_transition_table runner) (pr_max_steps runner) handlers
        (case cancellation of None \<Rightarrow> io_return False | Some c \<Rightarrow> c) cancel_outcome
        (pr_start_stage runner) st [] 0 None w)"

definition DEFAULT_INGESTION_TRANSITION_TABLE :: "transition_policy dict" where
  "DEFAULT_INGESTION_TRANSITION_TABLE =
     [(''resolve'', \<lparr>allowed_next_stages = [''stabilize''],
         allowed_terminal_outcomes = [P_REJECTED, P_FAILED]\<rparr>),
      (''stabilize'', \<lparr>allowed_next_stages = [''transform''],
         allowed_terminal_outcomes = [P_RETRY, P_REJECTED, P_FAILED]\<rparr>),
      (''transform'', \<lparr>allowed_next_stages = [''route''],
         allowed_terminal_outcomes = [P_DEFERRED_STAGE, P_RETRY, P_REJECTED, P_FAILED]\<rparr>),
      (''route'', \<lparr>allowed_next_stages = [''persist''],
         allowed_terminal_outcomes = [P_REJECTED, P_FAILED]\<rparr>),
      (''persist'', \<lparr>allowed_next_stages = [''post_persist''],
         allowed_terminal_outcomes = [P_RETRY, P_REJECTED, P_FAILED]\<rparr>),
      (''post_persist'', \<lparr>allowed_next_stages = [],
         allowed_terminal_outcomes = [P_COMPLETED, P_FAILED]\<rparr>)]"

section \<open>Paths of a transition table\<close>

text \<open>
  What the log of a run may look like, from the table alone: a chain of allowed transitions, which a
  terminal record may close.
\<close>

inductive log_path ::
    "transition_policy dict \<Rightarrow> string \<Rightarrow> transition_record list \<Rightarrow> string \<Rightarrow> bool" for table where
  here: "log_path table s [] s"
| onwards: "log_path table s tlog u \<Longrightarrow> map_of table u = Some p \<Longrightarrow> t \<in> set (allowed_next_stages p) \<Longrightarrow>
    log_path table s (tlog @ [continue_record u t]) t"

definition closed_log ::
    "transition_policy dict \<Rightarrow> string \<Rightarrow> transition_record list \<Rightarrow> pipeline_outcome \<Rightarrow> bool" where
  "closed_log table s tlog out \<longleftrightarrow>
     (\<exists>path u p. tlog = path @ [terminal_record u out] \<and> log_path table s path u \<and>
        map_of table u = Some p \<and> out \<in> set (allowed_terminal_outcomes p))"

lemma check_directive_Inr:
  "check_directive stage p d = Inr (Inl t) \<Longrightarrow> t \<in> set (allowed_next_stages p)"
  "check_directive stage p d = Inr (Inr out) \<Longrightarrow> out \<in> set (allowed_terminal_outcomes p)"
  by (auto simp: check_directive_def split: if_splits option.splits)

text \<open>One round trip of the loop.\<close>

lemma run_loop_E:
  fixes out :: "'e pipeline_error + 'st run_result"
  assumes "run_loop table n hs sc co stage st tlog steps prior w = (out, w')"
  obtains (raised) e where "(\<exists>v. fst (sc v) = Inl e) \<or> (\<exists>h v. map_of hs stage = Some h \<and> fst (h st v) = Inl e)"
      "out = Inl (HandlerRaised e)"
  | (cancelled) v where "sc v = (Inr True, w')"
      "out = Inr \<lparr>rr_outcome = co, rr_final_stage_id = prior, rr_state = st, rr_transition_log = tlog\<rparr>"
  | (guard) "n \<le> steps" "out = Inl (PipelineCycleGuardError n)"
  | (no_policy) "steps < n" "map_of table stage = None"
      "out = Inl (PipelineTransitionError stage ''missing transition policy for current stage'')"
  | (no_handler) p where "steps < n" "map_of table stage = Some p" "map_of hs stage = None"
      "out = Inl (PipelineMissingStageError stage)"
  | (refused) p and d :: "'st stage_directive" and e h v v' where "steps < n" "map_of table stage = Some p"
      "map_of hs stage = Some h" "h st v = (Inr d, v')" "check_directive stage p d = Inl e" "out = Inl e"
  | (onward) p and d :: "'st stage_directive" and nxt st2 w2 h v where "steps < n" "map_of table stage = Some p"
      "(check_directive stage p d :: 'e pipeline_error + _) = Inr (Inl nxt)"
      "run_loop table n hs sc co nxt st2 (tlog @ [continue_record stage nxt]) (steps + 1) (Some stage) w2 = (out, w')"
      "map_of hs stage = Some h" "h st v = (Inr d, w2)" "st2 = (case sd_state d of None \<Rightarrow> st | Some s \<Rightarrow> s)"
  | (stop) p and d :: "'st stage_directive" and fin st2 h v where "steps < n" "map_of table stage = Some p"
      "(check_directive stage p d :: 'e pipeline_error + _) = Inr (Inr fin)"
      "out = Inr \<lparr>rr_outcome = fin, rr_final_stage_id = Some stage, rr_state = st2,
                 rr_transition_log = tlog @ [terminal_record stage fin]\<rparr>"
      "map_of hs stage = Some h" "h st v = (Inr d, w')" "st2 = (case sd_state d of None \<Rightarrow> st | Some s \<Rightarrow> s)"
proof -
  obtain c w1 where c: "sc w = (c, w1)" by (cases "sc w")
  consider e where "c = Inl e" | "c = Inr True" | "c = Inr False"
    by (cases c) auto
  then show thesis
  proof cases
    case 1
    then have "fst (sc w) = Inl e" by (simp add: c)
    then have "(\<exists>v. fst (sc v) = Inl e) \<or> (\<exists>h v. map_of hs stage = Some h \<and> fst (h st v) = Inl e)"
      by blast
    then show thesis using assms c 1 by (intro raised) (auto simp: run_loop.simps)
  next
    case 2
    then show thesis using assms c cancelled by (auto simp: run_loop.simps)
  next
    case 3
    note unfold = assms [unfolded run_loop.simps [of table n hs sc co stage st tlog steps prior w] c 3 prod.case sum.case
        bool.case]
    show thesis
    proof (cases "n \<le> steps \<or> map_of table stage = None \<or> map_of hs stage = None")
      case True
      then show thesis using unfold guard no_policy no_handler by (auto split: if_splits option.splits)
    next
      case False
      then obtain p h where p: "map_of table stage = Some p" "map_of hs stage = Some h" "steps < n" by auto
      obtain x w2 where h: "h st w1 = (x, w2)" by (cases "h st w1")
      show thesis
      proof (cases x)
        case (Inl e)
        then have "fst (h st w1) = Inl e" by (simp add: h)
        with p(2) have "(\<exists>v. fst (sc v) = Inl e) \<or> (\<exists>h v. map_of hs stage = Some h \<and> fst (h st v) = Inl e)"
          by blast
        then show thesis using unfold p h Inl by (intro raised) auto
      next
        case (Inr d)
        then show thesis
          using unfold p h refused [OF p(3,1,2), of w1 d w2] onward [OF p(3,1), of d] stop [OF p(3,1), of d]
          by (cases "check_directive stage p d :: 'e pipeline_error + _")
            (auto simp: Let_def split: sum.splits)
      qed
    qed
  qed
qed

text \<open>What every handler keeps of the state, from stage to stage, holds at the end of a run.\<close>

lemma run_loop_invariant:
  fixes hs :: "('w, 'e, 'st) stage_handler dict"
  assumes "run_loop table n hs sc co stage st tlog steps prior w = (Inr r, w')" and "I stage st"
    and "\<And>s h st v d v' p nxt. map_of hs s = Some h \<Longrightarrow> map_of table s = Some p \<Longrightarrow> I s st \<Longrightarrow> h st v = (Inr d, v') \<Longrightarrow>
      (check_directive s p d :: 'e pipeline_error + _) = Inr (Inl nxt) \<Longrightarrow>
      I nxt (case sd_state d of None \<Rightarrow> st | Some s \<Rightarrow> s)"
    and "\<And>s h st v d v' p out. map_of hs s = Some h \<Longrightarrow> map_of table s = Some p \<Longrightarrow> I s st \<Longrightarrow> h st v = (Inr d, v') \<Longrightarrow>
      (check_directive s p d :: 'e pipeline_error + _) = Inr (Inr out) \<Longrightarrow>
      F out (case sd_state d of None \<Rightarrow> st | Some s \<Rightarrow> s)"
  shows "F (rr_outcome r) (rr_state r) \<or> rr_outcome r = co"
  using assms(1,2)
proof (induction "nat (n - steps)" arbitrary: stage st tlog steps prior w rule: less_induct)
  case less
  from less.prems(1) show ?case
  proof (cases rule: run_loop_E)
    case (onward p d nxt st2 w2 h v)
    have "I nxt st2" unfolding onward(7) by (rule assms(3) [OF onward(5,2) less.prems(2) onward(6,3)])
    then show ?thesis using less.hyps [OF _ onward(4)] onward(1) by simp
  next
    case (stop p d fin st2 h v)
    have "F fin st2" unfolding stop(7) by (rule assms(4) [OF stop(5,2) less.prems(2) stop(6,3)])
    then show ?thesis using stop(4) by simp
  qed auto
qed

text \<open>The runner keeps its log a path of the table, with one record for every step.\<close>

lemma run_loop_log:
  assumes "run_loop table n hs sc co stage st tlog steps prior w = (Inr r, w')"
    and "log_path table s tlog stage" and "steps = int (length tlog)" and "steps \<le> n"
  shows "int (length (rr_transition_log r)) \<le> n \<and>
    (closed_log table s (rr_transition_log r) (rr_outcome r) \<or>
     rr_outcome r = co \<and> (\<exists>u. log_path table s (rr_transition_log r) u))"
  using assms
proof (induction "nat (n - steps)" arbitrary: stage st tlog steps prior w rule: less_induct)
  case less
  from less.prems(1) show ?case
  proof (cases rule: run_loop_E)
    case cancelled
    then show ?thesis using less.prems by auto
  next
    case (onward p d nxt st2 w2 h v)
    have "log_path table s (tlog @ [continue_record stage nxt]) nxt"
      using less.prems(2) onward(2) check_directive_Inr(1) [OF onward(3)] by (rule log_path.onwards)
    then show ?thesis using less.hyps [OF _ onward(4)] less.prems(3) onward(1) by simp
  next
    case (stop p d fin st2 h v)
    then have "closed_log table s (rr_transition_log r) (rr_outcome r)"
      using less.prems(2) check_directive_Inr(2) [OF stop(3)] by (auto simp: closed_log_def)
    then show ?thesis using stop less.prems(3) by simp
  qed auto
qed

section \<open>The ingestion pipeline\<close>

definition stage_order :: "string list" where
  "stage_order = [''resolve'', ''stabilize'', ''transform'', ''route'', ''persist'', ''post_persist'']"

definition ingestion_runner :: "int \<Rightarrow> pipeline_runner" where
  "ingestion_runner n = \<lparr>pr_start_stage = ''resolve'',
     pr_transition_table = DEFAULT_INGESTION_TRANSITION_TABLE, pr_max_steps = n\<rparr>"

lemma default_table_next:
  assumes "map_of DEFAULT_INGESTION_TRANSITION_TABLE u = Some p" and "t \<in> set (allowed_next_stages p)"
    and "u = stage_order ! k" and "k \<le> 5"
  shows "k \<le> 4 \<and> t = stage_order ! Suc k"
proof -
  have "k \<in> {0, 1, 2, 3, 4, 5}" using assms(4) by auto
  then show ?thesis using assms(1-3)
    by (auto simp: DEFAULT_INGESTION_TRANSITION_TABLE_def stage_order_def)
qed

lemma default_log_path:
  assumes "log_path DEFAULT_INGESTION_TRANSITION_TABLE ''resolve'' l u"
  shows "length l \<le> 5 \<and> u = stage_order ! length l \<and> map tr_stage_id l = take (length l) stage_order"
  using assms
proof (induction "''resolve''" l u rule: log_path.induct)
  case here
  then show ?case by (simp add: stage_order_def)
next
  case (onwards l u p t)
  then have k: "length l \<le> 4" "t = stage_order ! Suc (length l)"
    using default_table_next [of u p t "length l"] by auto
  then have "take (Suc (length l)) stage_order = take (length l) stage_order @ [stage_order ! length l]"
    by (intro take_Suc_conv_app_nth) (simp add: stage_order_def)
  with onwards k show ?case by (simp add: continue_record_def)
qed

lemma default_stage_policy:
  assumes "k \<le> 5"
  obtains p where "map_of DEFAULT_INGESTION_TRANSITION_TABLE (stage_order ! k) = Some p"
proof -
  have "k \<in> {0, 1, 2, 3, 4, 5}" using assms by auto
  then show thesis using that by (auto simp: DEFAULT_INGESTION_TRANSITION_TABLE_def stage_order_def)
qed

lemma default_closed_log:
  assumes "closed_log DEFAULT_INGESTION_TRANSITION_TABLE ''resolve'' l out"
  shows "map tr_stage_id l = take (length l) stage_order \<and> (out = P_COMPLETED \<longrightarrow> length l = 6)"
proof -
  obtain path u p where l: "l = path @ [terminal_record u out]"
    and path: "log_path DEFAULT_INGESTION_TRANSITION_TABLE ''resolve'' path u"
    and p: "map_of DEFAULT_INGESTION_TRANSITION_TABLE u = Some p" "out \<in> set (allowed_terminal_outcomes p)"
    using assms by (auto simp: closed_log_def)
  note k = default_log_path [OF path]
  then have "take (Suc (length path)) stage_order = take (length path) stage_order @ [stage_order ! length path]"
    by (intro take_Suc_conv_app_nth) (simp add: stage_order_def)
  moreover have "u = ''post_persist''" if "out = P_COMPLETED"
    using p that by (auto simp: DEFAULT_INGESTION_TRANSITION_TABLE_def split: if_splits)
  moreover have "length path = 5" if "stage_order ! length path = ''post_persist''"
  proof -
    have "length path \<le> 5" using k by blast
    then have "length path \<in> {0, 1, 2, 3, 4, 5}" by (simp add: numeral_eq_Suc le_Suc_eq)
    then show ?thesis using that by (auto simp: stage_order_def)
  qed
  ultimately show ?thesis using k l by (auto simp: terminal_record_def)
qed

text \<open>
  The ingestion pipeline visits its stages in order, whatever the handlers do: the log of every run
  is an initial part of resolve, stabilize, transform, route, persist, post_persist, so no stage runs
  twice or out of order. A run that reports completion has passed all six.
\<close>

theorem ingestion_stage_order:
  assumes "run_pipeline (ingestion_runner n) st hs cancel co w = (Inr r, w')"
  shows "map tr_stage_id (rr_transition_log r) = take (length (rr_transition_log r)) stage_order \<and>
    (rr_outcome r = P_COMPLETED \<and> co \<noteq> P_COMPLETED \<longrightarrow> map tr_stage_id (rr_transition_log r) = stage_order)"
proof -
  let ?l = "rr_transition_log r"
  let ?sc = "case cancel of None \<Rightarrow> io_return False | Some c \<Rightarrow> c"
  have run: "run_loop DEFAULT_INGESTION_TRANSITION_TABLE n hs ?sc co ''resolve'' st [] 0 None w = (Inr r, w')"
    and n: "0 \<le> n"
    using assms by (auto simp: run_pipeline_def ingestion_runner_def split: if_splits)
  consider "closed_log DEFAULT_INGESTION_TRANSITION_TABLE ''resolve'' ?l (rr_outcome r)"
    | u where "rr_outcome r = co" "log_path DEFAULT_INGESTION_TRANSITION_TABLE ''resolve'' ?l u"
    using run_loop_log [OF run log_path.here] n by auto
  then show ?thesis
  proof cases
    case 1
    then show ?thesis using default_closed_log [OF 1] by (auto simp: stage_order_def)
  next
    case 2
    then show ?thesis using default_log_path [OF 2(2)] by auto
  qed
qed

definition demo_handlers :: "(unit, string, nat) stage_handler dict" where
  "demo_handlers =
     map (\<lambda>s. (s, \<lambda>n w. (Inr (if s = ''post_persist'' then terminal P_COMPLETED (Some (n + 1))
        else \<lparr>sd_kind = ''continue'', sd_next_stage = Some (stage_order ! (n + 1)), sd_outcome = None,
              sd_state = Some (n + 1)\<rparr>), w))) stage_order"

theorem ingestion_stage_order_witness:
  "\<exists>r w'. run_pipeline (ingestion_runner 50) 0 demo_handlers None P_FAILED () = (Inr r, w') \<and>
     map tr_stage_id (rr_transition_log r) = stage_order \<and> rr_state r = 6"
proof -
  define out where "out = run_pipeline (ingestion_runner 50) 0 demo_handlers None P_FAILED ()"
  have "\<not> isl (fst out)" and fin: "rr_outcome (projr (fst out)) = P_COMPLETED" "rr_state (projr (fst out)) = 6"
    unfolding out_def by code_simp+
  then have o: "run_pipeline (ingestion_runner 50) 0 demo_handlers None P_FAILED () = (Inr (projr (fst out)), snd out)"
    by (metis out_def prod.collapse sum.collapse(2))
  from ingestion_stage_order [OF o] fin(1) have "map tr_stage_id (rr_transition_log (projr (fst out))) = stage_order"
    by blast
  with o fin(2) show ?thesis by blast
qed

text \<open>Handlers that obey the transition table: they are there, do not raise and emit allowed directives.\<close>

definition obedient :: "transition_policy dict \<Rightarrow> ('w, 'e, 'st) stage_handler dict \<Rightarrow> bool" where
  "obedient table hs \<longleftrightarrow>
     (\<forall>s p. map_of table s = Some p \<longrightarrow>
        (\<exists>h. map_of hs s = Some h \<and>
           (\<forall>st w. \<exists>d w'. h st w = (Inr d, w') \<and>
              (\<exists>x. (check_directive s p d :: 'e pipeline_error + _) = Inr x))))"

lemma default_run_loop:
  fixes hs :: "('w, 'e, 'st) stage_handler dict"
  assumes "run_loop DEFAULT_INGESTION_TRANSITION_TABLE n hs sc co stage st tlog steps prior w = (out, w')"
    and "log_path DEFAULT_INGESTION_TRANSITION_TABLE ''resolve'' tlog stage"
    and "steps = int (length tlog)" and "6 \<le> n"
  shows "out \<noteq> Inl (PipelineCycleGuardError m) \<and>
    (obedient DEFAULT_INGESTION_TRANSITION_TABLE hs \<and> sc = io_return False \<longrightarrow> (\<exists>r. out = Inr r))"
  using assms
proof (induction "nat (n - steps)" arbitrary: stage st tlog steps prior w rule: less_induct)
  case less
  note k = default_log_path [OF less.prems(2)]
  obtain p where p: "map_of DEFAULT_INGESTION_TRANSITION_TABLE stage = Some p"
    using default_stage_policy [of "length tlog"] k by auto
  have ob: "\<exists>h. map_of hs stage = Some h \<and> (\<forall>st w. \<exists>d w'. h st w = (Inr d, w') \<and>
      (\<exists>x. (check_directive stage p d :: 'e pipeline_error + _) = Inr x))"
    if "obedient DEFAULT_INGESTION_TRANSITION_TABLE hs"
    using that p by (simp add: obedient_def)
  from less.prems(1) show ?case
  proof (cases rule: run_loop_E)
    case (raised e)
    have False if o: "obedient DEFAULT_INGESTION_TRANSITION_TABLE hs" and c: "sc = io_return False"
    proof -
      obtain h v where "map_of hs stage = Some h" "fst (h st v) = Inl e"
        using raised(1) c by auto
      with ob [OF o] show False by (metis Inl_Inr_False fst_conv option.inject)
    qed
    with raised(2) show ?thesis by auto
  next
    case guard
    then show ?thesis using k less.prems(3,4) by simp
  next
    case (refused q d e h v v')
    have False if o: "obedient DEFAULT_INGESTION_TRANSITION_TABLE hs"
      using ob [OF o] refused p by (metis Inl_Inr_False Pair_inject Inr_inject option.inject)
    moreover have "e \<noteq> PipelineCycleGuardError m"
      using refused(5) by (auto simp: check_directive_def split: if_splits option.splits)
    ultimately show ?thesis using refused(6) by auto
  next
    case (onward q d nxt st2 w2 h v)
    have "log_path DEFAULT_INGESTION_TRANSITION_TABLE ''resolve'' (tlog @ [continue_record stage nxt]) nxt"
      using less.prems(2) onward(2) check_directive_Inr(1) [OF onward(3)] by (rule log_path.onwards)
    then show ?thesis using less.hyps [OF _ onward(4)] less.prems(3,4) onward(1) by simp
  qed (use p ob in auto)
qed

text \<open>
  C29. The ingestion pipeline terminates with an answer: with a step limit of at least six (the code uses
  fifty) the cycle guard can never fire, and when every handler is present, does not raise and emits
  allowed directives, an uncancelled run returns a result.
\<close>

theorem ingestion_pipeline_returns:
  assumes "6 \<le> n"
  shows "(\<forall>m w'. run_pipeline (ingestion_runner n) st hs cancel co w \<noteq> (Inl (PipelineCycleGuardError m), w')) \<and>
    (obedient DEFAULT_INGESTION_TRANSITION_TABLE hs \<longrightarrow>
       (\<exists>r w'. run_pipeline (ingestion_runner n) st hs None co w = (Inr r, w')))"
proof -
  have run: "run_pipeline (ingestion_runner n) st hs c co w =
      run_loop DEFAULT_INGESTION_TRANSITION_TABLE n hs (case c of None \<Rightarrow> io_return False | Some c \<Rightarrow> c) co
        ''resolve'' st [] 0 None w" for c
    using assms by (simp add: run_pipeline_def ingestion_runner_def)
  have "out \<noteq> Inl (PipelineCycleGuardError m) \<and>
      (obedient DEFAULT_INGESTION_TRANSITION_TABLE hs \<and> c = None \<longrightarrow> (\<exists>r. out = Inr r))"
    if "run_pipeline (ingestion_runner n) st hs c co w = (out, w')" for c out w' m
    using default_run_loop [OF that [unfolded run] log_path.here _ assms] by (cases c) auto
  then show ?thesis by (metis surj_pair)
qed

definition failing_handlers :: "(unit, string, nat) stage_handler dict" where
  "failing_handlers = map (\<lambda>s. (s, \<lambda>_ w. (Inr (terminal P_FAILED None), w))) stage_order"

theorem ingestion_pipeline_returns_witness:
  "\<exists>r w'. run_pipeline (ingestion_runner 6) 0 failing_handlers None P_FAILED () = (Inr r, w')"
proof -
  have "obedient DEFAULT_INGESTION_TRANSITION_TABLE failing_handlers"
    by (auto simp: obedient_def failing_handlers_def DEFAULT_INGESTION_TRANSITION_TABLE_def stage_order_def
        check_directive_def terminal_def split: if_splits)
  then show ?thesis
    using ingestion_pipeline_returns [of 6 0 failing_handlers None P_FAILED "()"] by blast
qed

end
