(* ===== verification/Retry_Planner.thy ===== *)
theory Retry_Planner
  imports Prelude
begin

text \<open>
  The retry planner (\<^verbatim>\<open>application/ingestion/policies/retry_planner.py\<close>). Delays are exact rationals;
  the range of a float is kept (\<open>float_max\<close>), so that \<^verbatim>\<open>math.pow\<close> raises and a product is infinite
  where they are. The draw of the seeded generator, a number in the half-open unit interval, is the
  parameter \<open>rng\<close>.
\<close>

datatype retry_error =
    RetryPlannerConfigError string
  | RetryPlannerAttemptError string
  | RetryOverflowError string

datatype retry_terminal_type = RETRY | STOP_RETRYING

record retry_config =
  rc_max_attempts :: int
  rc_base_delay_seconds :: rat
  rc_max_delay_seconds :: rat
  rc_backoff_factor :: rat
  rc_jitter_ratio :: rat

record retry_plan =
  rp_terminal_type :: retry_terminal_type
  rp_delay_seconds :: rat
  rp_next_attempt :: int
  rp_reason_code :: string

definition validate_retry_config :: "retry_config \<Rightarrow> retry_error + unit" where
  "validate_retry_config c =
     (if rc_max_attempts c \<le> 0 then Inl (RetryPlannerConfigError ''max_attempts must be greater than zero.'')
      else if rc_base_delay_seconds c < 0 \<or> rc_max_delay_seconds c < 0
      then Inl (RetryPlannerConfigError ''Delay values must be non-negative.'')
      else if rc_backoff_factor c \<le> 0
      then Inl (RetryPlannerConfigError ''backoff_factor must be greater than zero.'')
      else raise_if (rc_jitter_ratio c < 0) (RetryPlannerConfigError ''jitter_ratio must be non-negative.''))"

definition float_max :: rat where
  "float_max = (2 ^ 53 - 1) * 2 ^ 971"

text \<open>\<^verbatim>\<open>round(x, 6)\<close>: to the nearest multiple of a millionth, ties to the even one.\<close>

definition round_half_even :: "rat \<Rightarrow> int" where
  "round_half_even x =
     (let f = \<lfloor>x\<rfloor>; d = x - of_int f in
      if d < 1 / 2 then f else if d > 1 / 2 then f + 1 else if even f then f else f + 1)"

definition round6 :: "rat \<Rightarrow> rat" where
  "round6 x = of_int (round_half_even (x * 1000000)) / 1000000"

text \<open>\<^verbatim>\<open>rng.uniform(a, b)\<close> is \<open>a + (b - a) * random()\<close>.\<close>

definition jitter :: "(string \<Rightarrow> rat) \<Rightarrow> retry_config \<Rightarrow> int \<Rightarrow> string \<Rightarrow> rat \<Rightarrow> rat" where
  "jitter rng c attempt seed base_delay =
     (if rc_jitter_ratio c > 0 then
        let u = rng (seed @ ''|'' @ int_str attempt);
            span = base_delay * rc_jitter_ratio c
        in base_delay + (- span + (span - - span) * u)
      else base_delay)"

definition stop_plan :: "int \<Rightarrow> string \<Rightarrow> retry_plan" where
  "stop_plan attempt reason = \<lparr>rp_terminal_type = STOP_RETRYING, rp_delay_seconds = 0,
     rp_next_attempt = attempt, rp_reason_code = reason\<rparr>"

definition plan_retry ::
    "(string \<Rightarrow> rat) \<Rightarrow> retry_config \<Rightarrow> int \<Rightarrow> bool \<Rightarrow> string \<Rightarrow> retry_error + retry_plan" where
  "plan_retry rng c attempt retryable seed =
     rbind (validate_retry_config c) (\<lambda>_.
     if attempt < 0 then Inl (RetryPlannerAttemptError ''attempt_index must be non-negative.'')
     else if \<not> retryable then Inr (stop_plan attempt ''non_retryable'')
     else if attempt \<ge> rc_max_attempts c then Inr (stop_plan attempt ''attempt_cap_reached'')
     else
       let power = rc_backoff_factor c ^ nat attempt in
       if power > float_max then Inl (RetryOverflowError ''math range error'')
       else
         let base_delay = rc_base_delay_seconds c * power in
         if base_delay > float_max then Inl (RetryPlannerConfigError ''Invalid computed backoff delay.'')
         else
           let jittered_delay = jitter rng c attempt seed base_delay;
               clamped_delay = min (max jittered_delay 0) (rc_max_delay_seconds c)
           in Inr \<lparr>rp_terminal_type = RETRY, rp_delay_seconds = round6 clamped_delay,
                   rp_next_attempt = attempt + 1, rp_reason_code = ''retry_scheduled''\<rparr>)"

section \<open>Rounding\<close>

lemma round_half_even_bounds:
  "of_int (round_half_even x) \<le> x + 1 / 2" "x \<le> of_int (round_half_even x) + 1 / 2"
proof -
  have f: "of_int \<lfloor>x\<rfloor> \<le> x" "x < of_int \<lfloor>x\<rfloor> + 1" by linarith+
  consider "x - of_int \<lfloor>x\<rfloor> \<le> 1 / 2" "round_half_even x = \<lfloor>x\<rfloor>"
    | "1 / 2 \<le> x - of_int \<lfloor>x\<rfloor>" "round_half_even x = \<lfloor>x\<rfloor> + 1"
    by (cases "even \<lfloor>x\<rfloor>"; cases "x - of_int \<lfloor>x\<rfloor>" "1 / 2 :: rat" rule: linorder_cases)
      (auto simp: round_half_even_def Let_def)
  then have "of_int (round_half_even x) \<le> x + 1 / 2 \<and> x \<le> of_int (round_half_even x) + 1 / 2"
    by cases (use f in \<open>simp_all only: of_int_add of_int_1, linarith+\<close>)
  then show "of_int (round_half_even x) \<le> x + 1 / 2" "x \<le> of_int (round_half_even x) + 1 / 2"
    by blast+
qed

lemma round_half_even_mono:
  assumes "x \<le> y" shows "round_half_even x \<le> round_half_even y"
proof -
  have f: "\<lfloor>x\<rfloor> \<le> \<lfloor>y\<rfloor>" using assms by (rule floor_mono)
  show ?thesis
  proof (cases "\<lfloor>x\<rfloor> = \<lfloor>y\<rfloor>")
    case True
    then show ?thesis using assms by (auto simp: round_half_even_def Let_def)
  next
    case False
    then have "\<lfloor>x\<rfloor> + 1 \<le> \<lfloor>y\<rfloor>" using f by simp
    then show ?thesis by (auto simp: round_half_even_def Let_def)
  qed
qed

lemma round_half_even_int [simp]: "round_half_even (of_int n) = n"
  by (simp add: round_half_even_def)

lemma round6_mono: "x \<le> y \<Longrightarrow> round6 x \<le> round6 y"
  by (simp add: round6_def divide_right_mono round_half_even_mono mult_right_mono)

lemma round6_multiple [simp]: "round6 (of_int k / 1000000) = of_int k / 1000000"
  by (simp add: round6_def)

lemma round6_zero [simp]: "round6 0 = 0"
  using round6_multiple [of 0] by simp

lemma round6_near: "round6 x \<le> x + 1 / 2000000" "x \<le> round6 x + 1 / 2000000"
  using round_half_even_bounds [of "x * 1000000"] by (simp_all add: round6_def field_simps)

section \<open>Plans\<close>

definition base_delay :: "retry_config \<Rightarrow> int \<Rightarrow> rat" where
  "base_delay c i = rc_base_delay_seconds c * rc_backoff_factor c ^ nat i"

lemma plan_retry_Inr:
  "plan_retry rng c i b seed = Inr p \<longleftrightarrow>
     validate_retry_config c = Inr () \<and> 0 \<le> i \<and>
     (if \<not> b then p = stop_plan i ''non_retryable''
      else if i \<ge> rc_max_attempts c then p = stop_plan i ''attempt_cap_reached''
      else rc_backoff_factor c ^ nat i \<le> float_max \<and> base_delay c i \<le> float_max \<and>
        p = \<lparr>rp_terminal_type = RETRY,
             rp_delay_seconds = round6 (min (max (jitter rng c i seed (base_delay c i)) 0) (rc_max_delay_seconds c)),
             rp_next_attempt = i + 1, rp_reason_code = ''retry_scheduled''\<rparr>)"
  by (auto simp: plan_retry_def result_simps Let_def base_delay_def not_less)

lemma validate_retry_config_Inr:
  "validate_retry_config c = Inr u \<longleftrightarrow>
     0 < rc_max_attempts c \<and> 0 \<le> rc_base_delay_seconds c \<and> 0 \<le> rc_max_delay_seconds c \<and>
     0 < rc_backoff_factor c \<and> 0 \<le> rc_jitter_ratio c"
  by (auto simp: validate_retry_config_def result_simps)

text \<open>
  C39. A retry is planned exactly for a retryable failure below the attempt cap, and then for the next
  attempt; otherwise planning stops with no delay. The delay is never negative and exceeds the maximum
  by at most the half millionth the final rounding can add, not at all when the maximum is a whole number
  of microseconds. Without jitter it is the rounded minimum of the exponential backoff and the maximum.
\<close>

theorem plan_retry_bounds:
  assumes "plan_retry rng c i b seed = Inr p"
  shows "(rp_terminal_type p = RETRY \<longleftrightarrow> b \<and> i < rc_max_attempts c)
       \<and> rp_next_attempt p = (if rp_terminal_type p = RETRY then i + 1 else i)
       \<and> (rp_terminal_type p = STOP_RETRYING \<longrightarrow> rp_delay_seconds p = 0)
       \<and> 0 \<le> rp_delay_seconds p \<and> rp_delay_seconds p \<le> rc_max_delay_seconds c + 1 / 2000000
       \<and> (\<forall>k. rc_max_delay_seconds c = of_int k / 1000000 \<longrightarrow> rp_delay_seconds p \<le> rc_max_delay_seconds c)
       \<and> (rp_terminal_type p = RETRY \<and> rc_jitter_ratio c = 0 \<longrightarrow>
            rp_delay_seconds p = round6 (min (base_delay c i) (rc_max_delay_seconds c)))"
proof -
  note cfg = assms [unfolded plan_retry_Inr validate_retry_config_Inr]
  show ?thesis
  proof (cases "b \<and> i < rc_max_attempts c")
    case False
    then have "\<exists>reason. p = stop_plan i reason" using cfg by (auto split: if_splits)
    then show ?thesis using False cfg by (auto simp: stop_plan_def)
  next
    case True
    let ?x = "min (max (jitter rng c i seed (base_delay c i)) 0) (rc_max_delay_seconds c)"
    have p: "p = \<lparr>rp_terminal_type = RETRY, rp_delay_seconds = round6 ?x,
             rp_next_attempt = i + 1, rp_reason_code = ''retry_scheduled''\<rparr>"
      using True cfg by (simp split: if_splits)
    have x: "0 \<le> ?x" "?x \<le> rc_max_delay_seconds c" using cfg by auto
    have "0 \<le> round6 ?x" using round6_mono [OF x(1)] by simp
    moreover have "round6 ?x \<le> rc_max_delay_seconds c + 1 / 2000000"
      using round6_near(1) [of ?x] x(2) by linarith
    moreover have "round6 ?x \<le> rc_max_delay_seconds c" if "rc_max_delay_seconds c = of_int k / 1000000" for k
      using round6_mono [OF x(2)] round6_multiple [of k] by (simp only: that)
    moreover have "?x = min (base_delay c i) (rc_max_delay_seconds c)" if "rc_jitter_ratio c = 0"
    proof -
      have "0 \<le> base_delay c i" using cfg by (simp add: base_delay_def)
      then show ?thesis using that by (simp add: jitter_def)
    qed
    ultimately show ?thesis using True p by simp
  qed
qed

definition demo_retry_config :: retry_config where
  "demo_retry_config = \<lparr>rc_max_attempts = 3, rc_base_delay_seconds = 1, rc_max_delay_seconds = 5,
     rc_backoff_factor = 2, rc_jitter_ratio = 0\<rparr>"

lemma small_le_float_max: "x \<le> 2 ^ 53 \<Longrightarrow> x \<le> float_max"
  by (rule order_trans, assumption) (simp add: float_max_def)

theorem plan_retry_bounds_witness:
  "\<exists>p. plan_retry (\<lambda>_. 0) demo_retry_config 1 True ''s'' = Inr p \<and> rp_terminal_type p = RETRY \<and>
     rp_delay_seconds p = 2 \<and> rp_next_attempt p = 2"
proof -
  let ?p = "\<lparr>rp_terminal_type = RETRY, rp_delay_seconds = 2, rp_next_attempt = 2,
      rp_reason_code = ''retry_scheduled''\<rparr>"
  have "round6 2 = 2" using round6_multiple [of 2000000] by simp
  then have p: "plan_retry (\<lambda>_. 0) demo_retry_config 1 True ''s'' = Inr ?p"
    unfolding plan_retry_Inr
    by (simp add: validate_retry_config_def demo_retry_config_def base_delay_def jitter_def small_le_float_max)
  from plan_retry_bounds [OF p] p show ?thesis by auto
qed



end
