(* ===== verification/Ingestion_State.thy ===== *)
theory Ingestion_State
  imports Candidate Processor_Factory Pipeline Retry_Planner
begin

text \<open>
  The state the ingestion stages share (\<^verbatim>\<open>application/ingestion/state.py\<close>), the processor result of
  \<^verbatim>\<open>application/contracts/plugin_contracts.py\<close>, the processor as the stages see it, and the result
  envelope of side-effect calls (\<^verbatim>\<open>application/ingestion/runtime_services.py\<close>). The processing context
  is passed through only, so its type is a parameter \<open>'c\<close>.
\<close>

record processor_result =
  pres_final_path :: string
  pres_datatype :: string
  pres_force_paths :: "string list"

datatype process_output = OutResult processor_result | OutRaw pyval

text \<open>A processor: the three methods are looked up by name and may be missing.\<close>

record ('w, 'c) processor =
  px_prepare :: "(mapping \<Rightarrow> ('w, py_exception, pyval) io) option"
  px_can_process :: "(mapping \<Rightarrow> ('w, py_exception, bool) io) option"
  px_process :: "(mapping \<Rightarrow> 'c \<Rightarrow> ('w, py_exception, process_output) io) option"

record ('w, 'c) ingestion_state =
  ig_event :: mapping
  ig_correlation_id :: "string option"
  ig_candidate :: "candidate option"
  ig_processor :: "('w, 'c) processor option"
  ig_processing_context :: "'c option"
  ig_prepared_input :: "mapping option"
  ig_processor_result :: "processor_result option"
  ig_record_id :: "string option"
  ig_record_snapshot :: "mapping option"
  ig_retry_plan :: "mapping option"
  ig_sync_warning :: "string option"
  ig_attempt_index :: int
  ig_diagnostics :: mapping

text \<open>\<open>digest16\<close> is the first sixteen characters of the SHA-256 digest of a text.\<close>

definition state_from_event ::
    "conv_env \<Rightarrow> (string \<Rightarrow> string) \<Rightarrow> mapping \<Rightarrow> 'c option \<Rightarrow> ('w, 'c) ingestion_state" where
  "state_from_event cv digest16 event context =
     (let event_id = strip (py_str (cv_repr cv) (dict_get_or event ''event_id'' (VStr [])));
          base = py_str (cv_repr cv) (dict_get_or event ''path'' (VStr [])) @ ''|'' @
                 py_str (cv_repr cv) (dict_get_or event ''observed_at'' (VStr []))
      in \<lparr>ig_event = event, ig_correlation_id = Some (if event_id \<noteq> [] then event_id else digest16 base),
          ig_candidate = None, ig_processor = None, ig_processing_context = context,
          ig_prepared_input = None, ig_processor_result = None, ig_record_id = None,
          ig_record_snapshot = None, ig_retry_plan = None, ig_sync_warning = None,
          ig_attempt_index = 0, ig_diagnostics = []\<rparr>)"

text \<open>\<^verbatim>\<open>with_updates(diagnostics={stage: entry})\<close>.\<close>

definition with_diagnostics ::
    "string \<Rightarrow> mapping \<Rightarrow> ('w, 'c) ingestion_state \<Rightarrow> ('w, 'c) ingestion_state" where
  "with_diagnostics stage entry st = st\<lparr>ig_diagnostics := dict_update (ig_diagnostics st) [(stage, VDict entry)]\<rparr>"

definition reason :: "string \<Rightarrow> mapping" where
  "reason code = [(''reason_code'', VStr code)]"

definition make_processor_result ::
    "string \<Rightarrow> string \<Rightarrow> pyval list \<Rightarrow> py_exception + processor_result" where
  "make_processor_result final_path datatype force_paths =
     (if strip final_path = []
      then Inl (plain_exception ''InvalidProcessorError'' ''processor result final_path must be non-empty'')
      else if strip datatype = []
      then Inl (plain_exception ''InvalidProcessorError'' ''processor result datatype must be non-empty'')
      else
        rbind (rmap (\<lambda>v. case v of
            VStr s \<Rightarrow> if strip s = []
                      then Inl (plain_exception ''InvalidProcessorError'' ''force_paths entries must be non-empty'')
                      else Inr (strip s)
          | _ \<Rightarrow> Inl (plain_exception ''InvalidProcessorError'' ''force_paths entries must be non-empty'')) force_paths)
        (\<lambda>ps. Inr \<lparr>pres_final_path = final_path, pres_datatype = datatype, pres_force_paths = ps\<rparr>))"

definition validate_processor_result :: "conv_env \<Rightarrow> process_output \<Rightarrow> py_exception + processor_result" where
  "validate_processor_result cv out =
     (case out of
        OutResult r \<Rightarrow> Inr r
      | OutRaw (VDict d) \<Rightarrow>
          (case dict_get_or d ''force_paths'' (VList []) of
             VList ps \<Rightarrow>
               make_processor_result (py_str (cv_repr cv) (dict_get_or d ''final_path'' (VStr [])))
                 (py_str (cv_repr cv) (dict_get_or d ''datatype'' (VStr []))) ps
           | _ \<Rightarrow> Inl (plain_exception ''InvalidProcessorError'' ''force_paths must be tuple/list of strings''))
      | OutRaw _ \<Rightarrow> Inl (plain_exception ''InvalidProcessorError''
                      ''processor result must be ProcessorResult or mapping payload''))"

section \<open>Result envelopes\<close>

datatype call_status = CALL_SUCCESS | CALL_DISABLED | CALL_FAILED

record call_result =
  cr_status :: call_status
  cr_value :: pyval
  cr_diagnostics :: pyval

definition call_diagnostics :: "call_result \<Rightarrow> mapping" where
  "call_diagnostics r = (case cr_diagnostics r of VDict d \<Rightarrow> d | _ \<Rightarrow> [])"

definition call_reason :: "conv_env \<Rightarrow> call_result \<Rightarrow> string \<Rightarrow> string" where
  "call_reason cv r fallback = py_str (cv_repr cv) (dict_get_or (call_diagnostics r) ''reason_code'' (VStr fallback))"

section \<open>Directives\<close>

definition proceed :: "string \<Rightarrow> 'st \<Rightarrow> 'st stage_directive" where
  "proceed stage st = \<lparr>sd_kind = ''continue'', sd_next_stage = Some stage, sd_outcome = None, sd_state = Some st\<rparr>"

lemma continue_to_proceed: "stage \<noteq> [] \<Longrightarrow> continue_to stage (Some st) = Inr (proceed stage st)"
  by (simp add: continue_to_def proceed_def)

lemma directive_fields [simp]:
  "sd_state (proceed s st) = Some st" "sd_state (terminal x y) = y"
  "check_directive u p (proceed s st) =
     (if s \<in> set (allowed_next_stages p) then Inr (Inl s)
      else Inl (PipelineTransitionError u (''next stage '' @ [CHR 39] @ s @ [CHR 39] @
             '' is not allowed by transition table'')))"
  "check_directive u p (terminal x y) =
     (if x \<in> set (allowed_terminal_outcomes p) then Inr (Inr x)
      else Inl (PipelineTransitionError u (''terminal outcome '' @ [CHR 39] @ outcome_value x @ [CHR 39] @
             '' is not allowed by transition table'')))"
  by (simp_all add: proceed_def terminal_def check_directive_def)

lemma with_diagnostics_frame [simp]:
  "ig_event (with_diagnostics k e st) = ig_event st"
  "ig_candidate (with_diagnostics k e st) = ig_candidate st"
  "ig_processor (with_diagnostics k e st) = ig_processor st"
  "ig_processing_context (with_diagnostics k e st) = ig_processing_context st"
  "ig_processor_result (with_diagnostics k e st) = ig_processor_result st"
  "ig_prepared_input (with_diagnostics k e st) = ig_prepared_input st"
  "ig_record_id (with_diagnostics k e st) = ig_record_id st"
  "ig_retry_plan (with_diagnostics k e st) = ig_retry_plan st"
  "ig_attempt_index (with_diagnostics k e st) = ig_attempt_index st"
  "ig_correlation_id (with_diagnostics k e st) = ig_correlation_id st"
  by (simp_all add: with_diagnostics_def)

end
