(* ===== verification/Stages.thy ===== *)
theory Stages
  imports Ingestion_State
begin

text \<open>
  The six ingestion stages (\<^verbatim>\<open>application/ingestion/stages\<close>): resolve, stabilize, transform, route,
  persist, post_persist. What a stage is given as callables (file facts, processor selection, clock, gate,
  route and file name, file moves, record store, retry planner, sync) are computations over the world. An
  exception a stage does not catch leaves it, to be handled by the engine.
\<close>

type_synonym ('w, 'c) stage = "('w, 'c) ingestion_state \<Rightarrow> ('w, py_exception, ('w, 'c) ingestion_state stage_directive) io"

fun factory_exception :: "factory_error \<Rightarrow> py_exception" where
  "factory_exception (ProcessorNotFoundError m) = (plain_exception ''ProcessorNotFoundError'' m)\<lparr>ex_is_runtime_error := True\<rparr>"
| "factory_exception (ProcessorAmbiguousMatchError m) =
     (plain_exception ''ProcessorAmbiguousMatchError'' m)\<lparr>ex_is_runtime_error := True\<rparr>"
| "factory_exception (ProcessorInitializationError m) =
     (plain_exception ''ProcessorInitializationError'' m)\<lparr>ex_is_runtime_error := True\<rparr>"
| "factory_exception (InvalidProcessorError m) = (plain_exception ''InvalidProcessorError'' m)\<lparr>ex_is_runtime_error := True\<rparr>"
| "factory_exception (LookupRaised e) = e"

section \<open>Resolve\<close>

definition run_resolve_stage ::
    "conv_env \<Rightarrow> (pyval \<Rightarrow> string) \<Rightarrow> (string \<Rightarrow> ('w, py_exception, pyval) io) \<Rightarrow>
     (candidate \<Rightarrow> ('w, factory_error, ('w, 'c) processor processor_selection) io) \<Rightarrow> ('w, 'c) stage" where
  "run_resolve_stage cv digest fs_facts_provider processor_selector st w =
     (let fail = (\<lambda>out code. terminal out (Some (with_diagnostics ''resolve'' (reason code) st)));
          path = strip (py_str (cv_repr cv) (dict_get_or (ig_event st) ''path'' (VStr [])))
      in case fs_facts_provider path w of
           (Inl _, w1) \<Rightarrow> (Inr (fail P_FAILED ''fs_facts_unavailable''), w1)
         | (Inr (VDict fs_facts), w1) \<Rightarrow>
             (case candidate_from_event cv digest (ig_event st) fs_facts of
                Inl e \<Rightarrow>
                  if is_candidate_error e then (Inr (fail P_REJECTED ''invalid_candidate''), w1)
                  else (Inl (candidate_exception e), w1)
              | Inr cand \<Rightarrow>
                  (case processor_selector cand w1 of
                     (Inl (ProcessorNotFoundError _), w2) \<Rightarrow> (Inr (fail P_REJECTED ''processor_not_found''), w2)
                   | (Inl (ProcessorAmbiguousMatchError _), w2) \<Rightarrow> (Inr (fail P_FAILED ''processor_ambiguous''), w2)
                   | (Inl e, w2) \<Rightarrow> (Inl (factory_exception e), w2)
                   | (Inr selection, w2) \<Rightarrow>
                       (let d = sel_descriptor selection in
                        case with_resolution (sl_plugin_id d) (sl_processor_key d) cand of
                          Inl e \<Rightarrow> (Inl (candidate_exception e), w2)
                        | Inr resolved \<Rightarrow>
                            (Inr (proceed ''stabilize''
                               (with_diagnostics ''resolve''
                                  [(''plugin_id'', VStr (sl_plugin_id d)),
                                   (''capability_reason'', VStr (sl_capability_reason d)),
                                   (''cache_hit'', VBool (sl_cache_hit d))]
                                  (st\<lparr>ig_candidate := Some resolved, ig_processor := Some (sel_processor selection)\<rparr>))),
                             w2))))
         | (Inr _, w1) \<Rightarrow> (Inr (fail P_FAILED ''invalid_fs_facts''), w1))"

section \<open>Stabilize\<close>

text \<open>
  The gate's answer is asked for its attribute \<^verbatim>\<open>decision\<close>: \<open>Some\<close> token of it, or \<open>None\<close> when
  the answer has no such attribute, which counts as \<^verbatim>\<open>allow\<close>.
\<close>

definition decision_token :: "string option \<Rightarrow> string" where
  "decision_token answer = (case answer of None \<Rightarrow> ''allow'' | Some token \<Rightarrow> token)"

definition run_stabilize_stage ::
    "(string \<Rightarrow> rat \<Rightarrow> ('w, py_exception, string option) io) \<Rightarrow> ('w, py_exception, rat) io \<Rightarrow> rat \<Rightarrow> ('w, 'c) stage" where
  "run_stabilize_stage modified_event_gate now_provider settle_delay st w =
     (if settle_delay < 0
      then (Inl (plain_exception ''StabilizePolicyConfigurationError'' ''settle_delay_seconds must be non-negative.''), w)
      else
      case ig_candidate st of
        None \<Rightarrow> (Inr (terminal P_FAILED (Some st)), w)
      | Some cand \<Rightarrow>
          (case now_provider w of
             (Inl e, w1) \<Rightarrow> (Inl e, w1)
           | (Inr now, w1) \<Rightarrow>
          (case modified_event_gate (cd_identity_token cand) now w1 of
             (Inl e, w2) \<Rightarrow> (Inl e, w2)
           | (Inr answer, w2) \<Rightarrow>
               let decision = decision_token answer;
                   done = (\<lambda>out entry. terminal out (Some (with_diagnostics ''stabilize'' entry st))) in
               (Inr (if decision = ''drop_duplicate'' then done P_REJECTED (reason ''duplicate_event'')
                     else if decision = ''defer'' \<or> decision = ''defer_retry''
                     then done P_RETRY (reason ''gate_deferred'')
                     else
                       case cd_modified_at cand of
                         None \<Rightarrow> done P_FAILED (reason ''missing_modified_timestamp'')
                       | Some modified \<Rightarrow>
                           if now < modified then done P_FAILED (reason ''clock_regression'')
                           else if now - modified < settle_delay
                           then done P_RETRY (reason ''settle_delay_not_elapsed'' @
                                  [(''age_seconds'', VFloat (now - modified)), (''required_seconds'', VFloat settle_delay)])
                           else proceed ''transform'' (with_diagnostics ''stabilize'' (reason ''ready'') st)), w2))))"

section \<open>Transform\<close>

text \<open>\<^verbatim>\<open>bool(can_process(prepared))\<close>, false when it raises; a processor without the method accepts.\<close>

definition supported ::
    "('w, 'c) processor \<Rightarrow> mapping \<Rightarrow> 'w \<Rightarrow> bool \<times> 'w" where
  "supported px prepared w =
     (case px_can_process px of
        None \<Rightarrow> (True, w)
      | Some f \<Rightarrow> (case f prepared w of (Inl _, w1) \<Rightarrow> (False, w1) | (Inr b, w1) \<Rightarrow> (b, w1)))"

definition run_process ::
    "conv_env \<Rightarrow> (mapping \<Rightarrow> 'c \<Rightarrow> ('w, py_exception, process_output) io) \<Rightarrow> mapping \<Rightarrow> 'c \<Rightarrow>
     'w \<Rightarrow> (py_exception + processor_result) \<times> 'w" where
  "run_process cv process prepared context w =
     (case process prepared context w of
        (Inl e, w1) \<Rightarrow> (Inl e, w1)
      | (Inr out, w1) \<Rightarrow> (validate_processor_result cv out, w1))"

definition run_transform_stage :: "conv_env \<Rightarrow> ('w, 'c) stage" where
  "run_transform_stage cv st w =
     (let fail = (\<lambda>code. terminal P_FAILED (Some (with_diagnostics ''transform'' (reason code) st))) in
      case (ig_candidate st, ig_processor st, ig_processing_context st) of
        (Some cand, Some px, Some context) \<Rightarrow>
          (case to_payload cand of
             Inl e \<Rightarrow> (Inl (candidate_exception e), w)
           | Inr raw_input \<Rightarrow>
          (case (case px_prepare px of None \<Rightarrow> (Inr (VDict raw_input), w) | Some prepare \<Rightarrow> prepare raw_input w) of
             (Inl _, w1) \<Rightarrow> (Inr (fail ''prepare_failed''), w1)
           | (Inr (VDict prepared), w1) \<Rightarrow>
               (case supported px prepared w1 of
                  (False, w2) \<Rightarrow>
                    (Inr (terminal P_DEFERRED_STAGE (Some (with_diagnostics ''transform''
                       (reason ''deferred'' @ [(''prepared_kind'',
                          VStr (strip (py_str (cv_repr cv) (dict_get_or prepared ''prepared_kind'' (VStr [])))))]) st))), w2)
                | (True, w2) \<Rightarrow>
                    (case px_process px of
                       None \<Rightarrow> (Inr (fail ''missing_process''), w2)
                     | Some process \<Rightarrow>
                         (case run_process cv process prepared context w2 of
                            (Inl _, w3) \<Rightarrow> (Inr (fail ''process_failed''), w3)
                          | (Inr result, w3) \<Rightarrow>
                              (Inr (proceed ''route''
                                 (with_diagnostics ''transform''
                                    (reason ''processed'' @ [(''datatype'', VStr (pres_datatype result))])
                                    (st\<lparr>ig_prepared_input := Some prepared,
                                        ig_processor_result := Some result\<rparr>))), w3))))
           | (Inr _, w1) \<Rightarrow> (Inr (fail ''invalid_prepared_input''), w1)))
      | _ \<Rightarrow> (Inr (fail ''missing_processing_context''), w))"

section \<open>Route\<close>

text \<open>\<^verbatim>\<open>PurePath(a) / b\<close> joins like \<^verbatim>\<open>posixpath.join\<close>.\<close>

definition path_join :: "string \<Rightarrow> string \<Rightarrow> string" where
  "path_join a b =
     pure_path (if starts_with ''/'' b then b
                else if a = [] \<or> last a = CHR ''/'' then a @ b else a @ ''/'' @ b)"

fun decision_value :: "force_path_decision_type \<Rightarrow> string" where
  "decision_value APPLY_OVERRIDE = ''apply_override''"
| "decision_value IGNORE_OVERRIDE = ''ignore_override''"
| "decision_value REJECT_OVERRIDE = ''reject_override''"

definition run_route_stage ::
    "conv_env \<Rightarrow> string list \<Rightarrow> (candidate \<Rightarrow> ('w, py_exception, string option) io) \<Rightarrow>
     (('w, 'c) ingestion_state \<Rightarrow> ('w, py_exception, string) io) \<Rightarrow> ('w, 'c) stage" where
  "run_route_stage cv allowed_roots route_selector filename_builder st w =
     (case ig_candidate st of
        None \<Rightarrow> (Inr (terminal P_FAILED (Some st)), w)
      | Some cand \<Rightarrow>
          (case route_selector cand w of
             (Inl e, w1) \<Rightarrow> (Inl e, w1)
           | (Inr rt, w1) \<Rightarrow>
               let route_root = (case rt of None \<Rightarrow> [] | Some s \<Rightarrow> s) in
               if route_root = []
               then (Inr (terminal P_REJECTED (Some (with_diagnostics ''route'' (reason ''no_route_rule'') st))), w1)
               else
               (case filename_builder st w1 of
                  (Inl e, w2) \<Rightarrow> (Inl e, w2)
                | (Inr filename, w2) \<Rightarrow>
                    let override_path = (case get_or_none (ig_event st) ''force_path'' of VNone \<Rightarrow> None
                                         | v \<Rightarrow> Some (py_str (cv_repr cv) v));
                        decision = evaluate_force_path override_path allowed_roots (path_join route_root filename) None
                    in
                    if fp_decision_type decision = REJECT_OVERRIDE
                    then (Inr (terminal P_REJECTED
                           (Some (with_diagnostics ''route'' (reason (fp_reason_code decision)) st))), w2)
                    else
                    (case fp_normalized_path decision of
                       None \<Rightarrow> (Inr (terminal P_FAILED
                                 (Some (with_diagnostics ''route'' (reason ''missing_target_path'') st))), w2)
                     | Some target \<Rightarrow>
                         (case with_route target
                                 [(''force_path_decision'', decision_value (fp_decision_type decision)),
                                  (''reason_code'', fp_reason_code decision)] cand of
                            Inl e \<Rightarrow> (Inl (candidate_exception e), w2)
                          | Inr routed \<Rightarrow>
                              (Inr (proceed ''persist''
                                 (with_diagnostics ''route''
                                    ((''target_path'', VStr target) # reason (fp_reason_code decision))
                                    (st\<lparr>ig_candidate := Some routed\<rparr>))), w2))))))"

end
