(* ===== verification/Persist_Stage.thy ===== *)
theory Persist_Stage
  imports Stages
begin

text \<open>
  The persist and post_persist stages (\<^verbatim>\<open>application/ingestion/stages/persist.py\<close> and
  \<^verbatim>\<open>post_persist.py\<close>): moving the artefacts, saving the record, planning a retry when either fails,
  and the bookkeeping and immediate sync that follow.
\<close>

definition path_parent :: "string \<Rightarrow> string" where
  "path_parent s = render (path_root s) (butlast (path_parts s))"

definition normalized_retry_plan :: "conv_env \<Rightarrow> pyval \<Rightarrow> int \<Rightarrow> py_error + mapping option" where
  "normalized_retry_plan cv raw_plan attempt =
     (case raw_plan of
        VDict plan \<Rightarrow>
          (let terminal_type = str_lower (strip (py_str (cv_repr cv) (dict_get_or plan ''terminal_type'' (VStr []))))
           in if terminal_type \<noteq> ''retry'' then Inr (Some plan)
              else
                rbind (try_convert
                  (rbind (py_int cv (dict_get_or plan ''next_attempt'' (VInt (attempt + 1)))) (\<lambda>next_attempt.
                   rbind (py_float cv (dict_get_or plan ''delay_seconds'' (VFloat 0))) (\<lambda>delay.
                   Inr (next_attempt, delay))))) (\<lambda>converted.
                Inr (map_option (\<lambda>(next_attempt, delay).
                       AList.update ''delay_seconds'' (VFloat (round6 (if delay < 0 then 0 else delay)))
                       (AList.update ''next_attempt''
                         (VInt (if next_attempt \<le> attempt then attempt + 1 else next_attempt))
                         (AList.update ''terminal_type'' (VStr ''retry'') plan))) converted)))
      | _ \<Rightarrow> Inr None)"

definition retry_or_terminal_for_failure ::
    "conv_env \<Rightarrow> string \<Rightarrow> (string \<Rightarrow> int \<Rightarrow> ('w, py_exception, pyval) io) \<Rightarrow> ('w, 'c) ingestion_state \<Rightarrow>
     'w \<Rightarrow> (py_exception + ('w, 'c) ingestion_state stage_directive option) \<times> 'w" where
  "retry_or_terminal_for_failure cv why retry_planner st w =
     (let invalid = terminal P_FAILED (Some (with_diagnostics ''persist'' (reason ''invalid_retry_plan'') st)) in
      case retry_planner why (ig_attempt_index st) w of
        (Inl _, w1) \<Rightarrow> (Inr (Some invalid), w1)
      | (Inr raw_plan, w1) \<Rightarrow>
          (case normalized_retry_plan cv raw_plan (ig_attempt_index st) of
             Inl e \<Rightarrow> (Inl (plain_exception (py_error_name e) (py_error_text e)), w1)
           | Inr None \<Rightarrow> (Inr (Some invalid), w1)
           | Inr (Some plan) \<Rightarrow>
               if get_or_none plan ''terminal_type'' \<noteq> VStr ''retry'' then (Inr None, w1)
               else
                 (case py_int cv (dict_get_or plan ''next_attempt'' (VInt (ig_attempt_index st + 1))) of
                    Inl e \<Rightarrow> (Inl (plain_exception (py_error_name e) (py_error_text e)), w1)
                  | Inr n \<Rightarrow>
                      (Inr (Some (terminal P_RETRY (Some (with_diagnostics ''persist'' (reason why)
                         (st\<lparr>ig_retry_plan := Some plan, ig_attempt_index := n\<rparr>))))), w1))))"

section \<open>The move plan\<close>

definition add_move ::
    "(string \<times> string) list \<Rightarrow> string \<times> string \<Rightarrow> (string \<times> string) list" where
  "add_move pairs p =
     (let s = normalize_path (fst p); t = normalize_path (snd p) in
      if s \<in> set (map fst pairs) \<or> t \<in> set (map snd pairs) then pairs else pairs @ [(s, t)])"

definition companion_target :: "string \<Rightarrow> string \<Rightarrow> string" where
  "companion_target target source = path_join (path_parent target) (path_name source)"

definition build_move_plan ::
    "string \<Rightarrow> processor_result option \<Rightarrow> string \<Rightarrow> (string \<times> string) list" where
  "build_move_plan target result source_path =
     (case result of
        None \<Rightarrow> [(source_path, target)]
      | Some r \<Rightarrow>
          foldl add_move (add_move [] (pres_final_path r, target))
            (map (\<lambda>s. (s, companion_target target s)) (pres_force_paths r)))"

definition build_persisted_processor_result ::
    "processor_result option \<Rightarrow> string \<Rightarrow> py_exception + processor_result option" where
  "build_persisted_processor_result result target =
     (case result of
        None \<Rightarrow> Inr None
      | Some r \<Rightarrow>
          let force_targets = foldl (\<lambda>ts s. let t = replace_char (CHR 92) (CHR ''/'') (companion_target target s) in
                if t = target \<or> t \<in> set ts then ts else ts @ [t]) [] (pres_force_paths r)
          in rbind (make_processor_result target (pres_datatype r) (map VStr force_targets)) (\<lambda>x. Inr (Some x)))"

text \<open>The moves in order; the reason of the first one that does not succeed ends the loop.\<close>

fun run_moves ::
    "conv_env \<Rightarrow> (string \<Rightarrow> string \<Rightarrow> ('w, py_exception, call_result) io) \<Rightarrow> (string \<times> string) list \<Rightarrow>
     ('w, py_exception, string option) io" where
  "run_moves cv move_file [] w = (Inr None, w)"
| "run_moves cv move_file ((s, t) # ps) w =
     (case move_file s t w of
        (Inl e, w1) \<Rightarrow> (Inl e, w1)
      | (Inr r, w1) \<Rightarrow>
          if cr_status r = CALL_SUCCESS then run_moves cv move_file ps w1
          else (Inr (Some (call_reason cv r ''move_failed'')), w1))"

definition result_payload :: "processor_result option \<Rightarrow> pyval" where
  "result_payload result =
     (case result of
        None \<Rightarrow> VNone
      | Some r \<Rightarrow> VDict [(''final_path'', VStr (pres_final_path r)), (''datatype'', VStr (pres_datatype r)),
                        (''force_paths'', VList (map VStr (pres_force_paths r)))])"

text \<open>\<^verbatim>\<open>getattr(save_result, "value", {}) or {}\<close>, on which \<^verbatim>\<open>.get\<close> is called.\<close>

definition saved_mapping :: "pyval \<Rightarrow> py_exception + mapping" where
  "saved_mapping v =
     (if \<not> py_truthy v then Inr []
      else case v of VDict d \<Rightarrow> Inr d
           | _ \<Rightarrow> Inl (plain_exception ''AttributeError'' ''object has no attribute get''))"

definition after_save ::
    "conv_env \<Rightarrow> candidate \<Rightarrow> string \<Rightarrow> processor_result option \<Rightarrow> pyval \<Rightarrow> ('w, 'c) ingestion_state \<Rightarrow>
     py_exception + ('w, 'c) ingestion_state stage_directive" where
  "after_save cv cand target persisted saved st =
     rbind (saved_mapping saved) (\<lambda>d.
     let rid = strip (py_str (cv_repr cv) (dict_get_or d ''record_id'' (VStr [])));
         record_id = (if rid = [] then ''unknown-record'' else rid);
         snapshot = (case get_or_none d ''record_snapshot'' of VDict s \<Rightarrow> Some s | _ \<Rightarrow> None)
     in rbind (map_error candidate_exception (with_persist_result record_id target cand)) (\<lambda>cand'.
        Inr (proceed ''post_persist'' (with_diagnostics ''persist'' (reason ''persisted'')
          (st\<lparr>ig_candidate := Some cand', ig_processor_result := persisted, ig_record_id := Some record_id,
              ig_record_snapshot := snapshot\<rparr>)))))"

text \<open>A failed move or save: the retry directive if there is one, otherwise the given terminal directive.\<close>

definition failure_directive ::
    "conv_env \<Rightarrow> string \<Rightarrow> (string \<Rightarrow> int \<Rightarrow> ('w, py_exception, pyval) io) \<Rightarrow> pipeline_outcome \<Rightarrow> ('w, 'c) stage" where
  "failure_directive cv why retry_planner out st w =
     (case retry_or_terminal_for_failure cv why retry_planner st w of
        (Inl e, w1) \<Rightarrow> (Inl e, w1)
      | (Inr (Some d), w1) \<Rightarrow> (Inr d, w1)
      | (Inr None, w1) \<Rightarrow> (Inr (terminal out (Some (with_diagnostics ''persist'' (reason why) st))), w1))"

definition run_persist_stage ::
    "conv_env \<Rightarrow> (string \<Rightarrow> string \<Rightarrow> ('w, py_exception, call_result) io) \<Rightarrow>
     (mapping \<Rightarrow> ('w, py_exception, call_result) io) \<Rightarrow> (string \<Rightarrow> int \<Rightarrow> ('w, py_exception, pyval) io) \<Rightarrow>
     ('w, 'c) stage" where
  "run_persist_stage cv move_file save_record retry_planner st w =
     (case ig_candidate st of
        None \<Rightarrow> (Inr (terminal P_FAILED (Some st)), w)
      | Some cand \<Rightarrow>
     (case cd_target_path cand of
        None \<Rightarrow> (Inr (terminal P_FAILED (Some st)), w)
      | Some target \<Rightarrow>
     (case build_persisted_processor_result (ig_processor_result st) target of
        Inl e \<Rightarrow> (Inl e, w)
      | Inr persisted \<Rightarrow>
     (case run_moves cv move_file (build_move_plan target (ig_processor_result st) (cd_source_path cand)) w of
        (Inl e, w1) \<Rightarrow> (Inl e, w1)
      | (Inr (Some move_reason), w1) \<Rightarrow>
          failure_directive cv move_reason retry_planner
            (if move_reason = ''collision'' then P_REJECTED else P_FAILED) st w1
      | (Inr None, w1) \<Rightarrow>
     (case to_payload cand of
        Inl e \<Rightarrow> (Inl (candidate_exception e), w1)
      | Inr payload \<Rightarrow>
     (case save_record [(''candidate'', VDict payload), (''processor_result'', result_payload persisted),
                        (''target_path'', VStr target)] w1 of
        (Inl e, w2) \<Rightarrow> (Inl e, w2)
      | (Inr saved, w2) \<Rightarrow>
          if cr_status saved \<noteq> CALL_SUCCESS
          then failure_directive cv (call_reason cv saved ''record_save_failed'') retry_planner P_FAILED st w2
          else (after_save cv cand target persisted (cr_value saved) st, w2)))))))"

section \<open>After persisting\<close>

definition run_post_persist_stage ::
    "conv_env \<Rightarrow> (string \<Rightarrow> candidate \<Rightarrow> ('w, py_exception, call_result) io) \<Rightarrow>
     (('w, 'c) ingestion_state \<Rightarrow> ('w, py_exception, call_result) io) \<Rightarrow>
     (string \<Rightarrow> string \<Rightarrow> string \<Rightarrow> ('w, py_exception, unit) io) \<Rightarrow> bool \<Rightarrow> ('w, 'c) stage" where
  "run_post_persist_stage cv update_bookkeeping trigger_sync emit_sync_error immediate st w =
     (case (ig_candidate st, ig_record_id st) of
        (Some cand, Some rid) \<Rightarrow>
          (case update_bookkeeping rid cand w of
             (Inl e, w1) \<Rightarrow> (Inl e, w1)
           | (Inr r, w1) \<Rightarrow>
               if cr_status r \<noteq> CALL_SUCCESS
               then (Inr (terminal P_FAILED (Some (with_diagnostics ''post_persist'' (reason ''bookkeeping_failed'') st))), w1)
               else
                 let completed = terminal P_COMPLETED (Some (with_diagnostics ''post_persist'' (reason ''completed'') st)) in
                 if \<not> immediate then (Inr completed, w1)
                 else
                   (case trigger_sync st w1 of
                      (Inl e, w2) \<Rightarrow> (Inl e, w2)
                    | (Inr s, w2) \<Rightarrow>
                        if cr_status s = CALL_SUCCESS then (Inr completed, w2)
                        else
                          let why = call_reason cv s ''sync_failed'';
                              correlation = (case ig_correlation_id st of None \<Rightarrow> [] | Some c \<Rightarrow> c)
                          in (case emit_sync_error
                                     (py_str (cv_repr cv) (dict_get_or (ig_event st) ''event_id'' (VStr correlation)))
                                     rid why w2 of
                                (Inl e, w3) \<Rightarrow> (Inl e, w3)
                              | (Inr _, w3) \<Rightarrow>
                                  (Inr (terminal P_COMPLETED (Some (with_diagnostics ''post_persist'' (reason ''sync_warning'')
                                     (st\<lparr>ig_sync_warning := Some why\<rparr>)))), w3))))
      | _ \<Rightarrow> (Inr (terminal P_FAILED (Some st)), w))"

section \<open>Properties of the move plan\<close>

definition injective_plan :: "(string \<times> string) list \<Rightarrow> bool" where
  "injective_plan ps \<longleftrightarrow> distinct (map fst ps) \<and> distinct (map snd ps)"

lemma add_move_injective: "injective_plan ps \<Longrightarrow> injective_plan (add_move ps p)"
  by (auto simp: injective_plan_def add_move_def Let_def)

lemma add_move_extends: "\<exists>qs. add_move ps p = ps @ qs \<and> set qs \<subseteq> {(normalize_path (fst p), normalize_path (snd p))}"
  by (auto simp: add_move_def Let_def)

lemma foldl_add_move:
  assumes "injective_plan ps"
  shows "injective_plan (foldl add_move ps xs) \<and>
    (\<exists>qs. foldl add_move ps xs = ps @ qs \<and> set qs \<subseteq> (\<lambda>p. (normalize_path (fst p), normalize_path (snd p))) ` set xs) \<and>
    (\<forall>p \<in> set xs. normalize_path (fst p) \<in> set (map fst (foldl add_move ps xs)) \<or>
        normalize_path (snd p) \<in> set (map snd (foldl add_move ps xs)))"
  using assms
proof (induction xs arbitrary: ps)
  case (Cons x xs)
  let ?a = "add_move ps x"
  have IH: "injective_plan (foldl add_move ?a xs)"
    "\<exists>qs. foldl add_move ?a xs = ?a @ qs \<and> set qs \<subseteq> (\<lambda>p. (normalize_path (fst p), normalize_path (snd p))) ` set xs"
    "\<forall>p \<in> set xs. normalize_path (fst p) \<in> set (map fst (foldl add_move ?a xs)) \<or>
        normalize_path (snd p) \<in> set (map snd (foldl add_move ?a xs))"
    using Cons.IH [OF add_move_injective [OF Cons.prems, of x]] by blast+
  have x: "normalize_path (fst x) \<in> set (map fst ?a) \<or> normalize_path (snd x) \<in> set (map snd ?a)"
    by (auto simp: add_move_def Let_def)
  obtain qs where q: "foldl add_move ?a xs = ?a @ qs"
    "set qs \<subseteq> (\<lambda>p. (normalize_path (fst p), normalize_path (snd p))) ` set xs" using IH(2) by blast
  obtain rs where r: "?a = ps @ rs" "set rs \<subseteq> {(normalize_path (fst x), normalize_path (snd x))}"
    using add_move_extends by blast
  have "foldl add_move ps (x # xs) = ps @ (rs @ qs)" using q r by simp
  moreover have "set (rs @ qs) \<subseteq> (\<lambda>p. (normalize_path (fst p), normalize_path (snd p))) ` set (x # xs)"
    using q(2) r(2) by auto
  moreover have "normalize_path (fst x) \<in> set (map fst (foldl add_move ?a xs)) \<or>
      normalize_path (snd x) \<in> set (map snd (foldl add_move ?a xs))"
    using x by (simp only: q(1)) auto
  ultimately show ?case using IH(1,3) by auto
qed simp

text \<open>
  C37. The move plan never moves one file twice and never moves two files to one place: its sources and its
  targets are each pairwise different. It begins with the processed file and the routed target; every
  further move takes a declared companion file into the target's directory under its own name, and a
  companion is left out only when its source or its target is already in the plan.
\<close>

theorem build_move_plan_correct:
  "injective_plan (build_move_plan target (Some r) src) \<and>
   hd (build_move_plan target (Some r) src) = (normalize_path (pres_final_path r), normalize_path target) \<and>
   set (tl (build_move_plan target (Some r) src)) \<subseteq>
     (\<lambda>s. (normalize_path s, normalize_path (companion_target target s))) ` set (pres_force_paths r) \<and>
   list_all (\<lambda>s. normalize_path s \<in> set (map fst (build_move_plan target (Some r) src)) \<or>
     normalize_path (companion_target target s) \<in> set (map snd (build_move_plan target (Some r) src)))
     (pres_force_paths r)"
proof -
  let ?first = "add_move [] (pres_final_path r, target)"
  let ?xs = "map (\<lambda>s. (s, companion_target target s)) (pres_force_paths r)"
  have f: "?first = [(normalize_path (pres_final_path r), normalize_path target)]"
    by (simp add: add_move_def)
  have "injective_plan ?first" by (simp add: f injective_plan_def)
  from foldl_add_move [OF this, of ?xs] f show ?thesis
    by (auto simp: build_move_plan_def list_all_iff image_image)
qed

text \<open>
  The persisted result can name a companion that was never moved: when a companion path is the processed
  file itself, the move plan leaves it out, but the stored processor result still lists its target.
\<close>

theorem persisted_companion_not_moved:
  "build_move_plan ''/out/x.txt'' (Some \<lparr>pres_final_path = ''/in/a.txt'', pres_datatype = ''d'',
      pres_force_paths = [''/in/a.txt'']\<rparr>) ''/in/a.txt'' = [(''/in/a.txt'', ''/out/x.txt'')] \<and>
   build_persisted_processor_result (Some \<lparr>pres_final_path = ''/in/a.txt'', pres_datatype = ''d'',
      pres_force_paths = [''/in/a.txt'']\<rparr>) ''/out/x.txt'' =
     Inr (Some \<lparr>pres_final_path = ''/out/x.txt'', pres_datatype = ''d'', pres_force_paths = [''/out/a.txt'']\<rparr>)"
  by code_simp

section \<open>Properties of the persist stage\<close>

lemma py_int_VInt_update [simp]:
  "py_int cv (dict_get_or (AList.update ''delay_seconds'' d (AList.update ''next_attempt'' (VInt n) m)) ''next_attempt'' v) = Inr n"
  by (simp add: dict_get_or_def)

lemma strip_retry: "str_lower (strip ''retry'') = ''retry''"
  by code_simp

text \<open>A normalised retry plan goes forward: a later attempt, after a delay that is not negative.\<close>

definition forward_plan :: "int \<Rightarrow> mapping \<Rightarrow> int \<Rightarrow> bool" where
  "forward_plan attempt plan n \<longleftrightarrow>
     attempt < n \<and> map_of plan ''next_attempt'' = Some (VInt n) \<and> map_of plan ''terminal_type'' = Some (VStr ''retry'') \<and>
     (\<exists>delay. map_of plan ''delay_seconds'' = Some (VFloat delay) \<and> 0 \<le> delay)"

lemma normalized_retry_plan_forward:
  assumes "normalized_retry_plan cv raw attempt = Inr (Some plan)" and "get_or_none plan ''terminal_type'' = VStr ''retry''"
  shows "\<exists>n. forward_plan attempt plan n \<and> py_int cv (dict_get_or plan ''next_attempt'' v) = Inr n"
proof -
  obtain d where raw: "raw = VDict d" using assms(1) by (cases raw) (auto simp: normalized_retry_plan_def)
  have r: "0 \<le> round6 (if x < 0 then 0 else x)" for x
    using round6_mono [of 0 "if x < 0 then 0 else x"] by simp
  show ?thesis
  proof (cases "str_lower (strip (py_str (cv_repr cv) (dict_get_or d ''terminal_type'' (VStr [])))) = ''retry''")
    case True
    then show ?thesis using assms(1) r
      by (auto simp: normalized_retry_plan_def raw forward_plan_def Let_def result_simps)
  next
    case False
    then have "plan = d" using assms(1) by (simp add: normalized_retry_plan_def raw Let_def)
    then have "dict_get_or d ''terminal_type'' (VStr []) = VStr ''retry''"
      using assms(2) by (auto simp: get_or_none_def dict_get_or_def split: option.splits)
    with False show ?thesis by (simp add: strip_retry)
  qed
qed

lemma failure_directive_cases:
  assumes "failure_directive cv why rp out st w = (Inr d, w')"
  shows "(\<exists>st'. d = terminal P_FAILED (Some st') \<or> d = terminal out (Some st')) \<or>
    (\<exists>st' plan n. d = terminal P_RETRY (Some st') \<and> ig_candidate st' = ig_candidate st \<and>
       ig_retry_plan st' = Some plan \<and> ig_attempt_index st' = n \<and> forward_plan (ig_attempt_index st) plan n)"
proof -
  obtain raw w1 where raw: "rp why (ig_attempt_index st) w = (raw, w1)" by (rule prod.exhaust)
  show ?thesis
  proof (cases "\<exists>v plan. raw = Inr v \<and> normalized_retry_plan cv v (ig_attempt_index st) = Inr (Some plan) \<and>
      get_or_none plan ''terminal_type'' = VStr ''retry''")
    case True
    then obtain v plan where v: "raw = Inr v" "normalized_retry_plan cv v (ig_attempt_index st) = Inr (Some plan)"
      "get_or_none plan ''terminal_type'' = VStr ''retry''" by blast
    then obtain n where "forward_plan (ig_attempt_index st) plan n"
      "py_int cv (dict_get_or plan ''next_attempt'' (VInt (ig_attempt_index st + 1))) = Inr n"
      using normalized_retry_plan_forward by blast
    then show ?thesis using assms raw v
      by (auto simp: failure_directive_def retry_or_terminal_for_failure_def Let_def)
  next
    case False
    then show ?thesis using assms raw
      by (auto simp: failure_directive_def retry_or_terminal_for_failure_def Let_def
          split: sum.splits option.splits if_splits)
  qed
qed

lemma run_persist_stage_E:
  assumes "run_persist_stage cv mv save rp st w = (Inr d, w')"
  obtains (no_target) "d = terminal P_FAILED (Some st)"
  | (failure) why out v where "out \<in> {P_REJECTED, P_FAILED}" "failure_directive cv why rp out st v = (Inr d, w')"
  | (saved) cand target persisted w1 s where "ig_candidate st = Some cand" "cd_target_path cand = Some target"
      "run_moves cv mv (build_move_plan target (ig_processor_result st) (cd_source_path cand)) w = (Inr None, w1)"
      "save [(''candidate'', VDict (candidate_payload cand)), (''processor_result'', result_payload persisted),
             (''target_path'', VStr target)] w1 = (Inr s, w')" "cr_status s = CALL_SUCCESS"
      "after_save cv cand target persisted (cr_value s) st = Inr d"
      "build_persisted_processor_result (ig_processor_result st) target = Inr persisted"
proof (cases "ig_candidate st = None \<or> (\<exists>c. ig_candidate st = Some c \<and> cd_target_path c = None)")
  case True
  then show thesis using assms no_target by (auto simp: run_persist_stage_def)
next
  case False
  then obtain cand target where c: "ig_candidate st = Some cand" "cd_target_path cand = Some target" by auto
  let ?moves = "run_moves cv mv (build_move_plan target (ig_processor_result st) (cd_source_path cand)) w"
  from assms c obtain persisted where p: "build_persisted_processor_result (ig_processor_result st) target = Inr persisted"
    by (cases "build_persisted_processor_result (ig_processor_result st) target") (auto simp: run_persist_stage_def)
  obtain m w1 where m: "?moves = (m, w1)" by (rule prod.exhaust)
  consider e where "m = Inl e" | why where "m = Inr (Some why)" | "m = Inr None"
    by (cases m; cases "projr m") auto
  then show thesis
  proof cases
    case 1
    then show thesis using assms c p m by (simp add: run_persist_stage_def)
  next
    case 2
    then show thesis using assms c p m failure [of "if why = ''collision'' then P_REJECTED else P_FAILED" why w1]
      by (simp add: run_persist_stage_def)
  next
    case 3
    let ?args = "[(''candidate'', VDict (candidate_payload cand)), (''processor_result'', result_payload persisted),
             (''target_path'', VStr target)]"
    obtain r w2 where r: "save ?args w1 = (r, w2)" by (rule prod.exhaust)
    then obtain s where s: "r = Inr s" using assms c p m 3
      by (cases r) (simp_all add: run_persist_stage_def to_payload_total)
    show thesis
    proof (cases "cr_status s = CALL_SUCCESS")
      case True
      then show thesis using assms c p m 3 r s saved by (simp add: run_persist_stage_def to_payload_total)
    next
      case False
      then show thesis using assms c p m 3 r s failure [of P_FAILED]
        by (simp add: run_persist_stage_def to_payload_total)
    qed
  qed
qed

lemma after_save_Inr:
  assumes "after_save cv cand target persisted v st = Inr d"
  shows "\<exists>st' cand' rid. d = proceed ''post_persist'' st' \<and> with_persist_result rid target cand = Inr cand' \<and>
    ig_candidate st' = Some cand' \<and> ig_record_id st' = Some rid \<and> ig_processor st' = ig_processor st \<and>
    ig_processor_result st' = persisted"
  using assms by (fastforce simp: after_save_def result_simps Let_def)

lemma build_persisted_keeps:
  "build_persisted_processor_result r target = Inr p \<Longrightarrow> r \<noteq> None \<Longrightarrow> p \<noteq> None"
  by (auto simp: build_persisted_processor_result_def result_simps Let_def)

text \<open>
  C38. Persisting is ordered: the stage continues only when every planned move succeeded and then the record
  was saved, and the state then carries the record id and the persisted path. A failed move means no save:
  the result then does not depend on the record store at all. A retry goes forward, to a strictly later
  attempt after a delay that is not negative, with the candidate as it was.
\<close>

theorem persist_stage_ordered:
  assumes "run_persist_stage cv mv save rp st w = (Inr d, w')"
  shows "(sd_kind d = ''continue'' \<longrightarrow>
      (\<exists>cand target persisted w1 saved cand' rid.
         ig_candidate st = Some cand \<and> cd_target_path cand = Some target \<and>
         run_moves cv mv (build_move_plan target (ig_processor_result st) (cd_source_path cand)) w = (Inr None, w1) \<and>
         save [(''candidate'', VDict (candidate_payload cand)), (''processor_result'', result_payload persisted),
               (''target_path'', VStr target)] w1 = (Inr saved, w') \<and> cr_status saved = CALL_SUCCESS \<and>
         with_persist_result rid target cand = Inr cand' \<and>
         (\<exists>st'. sd_state d = Some st' \<and> ig_candidate st' = Some cand' \<and> ig_record_id st' = Some rid)))
    \<and> (sd_outcome d = Some P_RETRY \<longrightarrow>
      (\<exists>st' plan. sd_state d = Some st' \<and> ig_candidate st' = ig_candidate st \<and> ig_retry_plan st' = Some plan \<and>
         forward_plan (ig_attempt_index st) plan (ig_attempt_index st')))
    \<and> (\<forall>cand target save'. ig_candidate st = Some cand \<and> cd_target_path cand = Some target \<and>
         fst (run_moves cv mv (build_move_plan target (ig_processor_result st) (cd_source_path cand)) w) \<noteq> Inr None \<longrightarrow>
         run_persist_stage cv mv save' rp st w = (Inr d, w'))"
  using assms
proof (cases rule: run_persist_stage_E)
  case no_target
  then show ?thesis using assms
    by (auto simp: terminal_def run_persist_stage_def split: sum.splits option.splits prod.splits)
next
  case (failure why out v)
  then show ?thesis using failure_directive_cases [OF failure(2)] assms
    by (auto simp: terminal_def run_persist_stage_def split: sum.splits option.splits prod.splits)
next
  case (saved cand target persisted w1 s)
  obtain st' cand' rid where d: "d = proceed ''post_persist'' st'" "with_persist_result rid target cand = Inr cand'"
    "ig_candidate st' = Some cand'" "ig_record_id st' = Some rid"
    using after_save_Inr [OF saved(6)] by blast
  then show ?thesis using saved(1-5)
    by (intro conjI impI allI) (fastforce simp: proceed_def)+
qed

definition demo_candidate :: candidate where
  "demo_candidate = \<lparr>cd_identity_token = ''tok'', cd_source_path = ''/in/a.txt'', cd_event_kind = ''created'',
     cd_observed_at = 0, cd_size = Some 3, cd_modified_at = Some 1, cd_fingerprint = None,
     cd_plugin_id = Some ''p'', cd_processor_key = Some ''p'', cd_target_path = Some ''/out/a.txt'',
     cd_route_tokens = Some [], cd_record_id = None, cd_persisted_path = None\<rparr>"

definition demo_conv :: conv_env where
  "demo_conv = \<lparr>cv_repr = (\<lambda>_. []), cv_float_of_str = (\<lambda>_. None), cv_int_of_str = (\<lambda>_. None)\<rparr>"

definition demo_state :: "(string list, unit) ingestion_state" where
  "demo_state = (state_from_event demo_conv (\<lambda>_. ''h'') [(''event_id'', VStr ''e1'')] (Some ()))
     \<lparr>ig_candidate := Some demo_candidate\<rparr>"

definition log_move :: "string \<Rightarrow> string \<Rightarrow> (string list, py_exception, call_result) io" where
  "log_move s t w = (Inr \<lparr>cr_status = CALL_SUCCESS, cr_value = VNone, cr_diagnostics = VNone\<rparr>, w @ [s @ ''>'' @ t])"

definition log_save :: "mapping \<Rightarrow> (string list, py_exception, call_result) io" where
  "log_save m w = (Inr \<lparr>cr_status = CALL_SUCCESS, cr_value = VDict [(''record_id'', VStr ''r7'')],
     cr_diagnostics = VNone\<rparr>, w @ [''save''])"

theorem persist_stage_ordered_witness:
  "\<exists>d st'. run_persist_stage demo_conv log_move log_save (\<lambda>_ _ w. (Inr VNone, w)) demo_state []
     = (Inr d, [''/in/a.txt>/out/a.txt'', ''save'']) \<and> sd_state d = Some st' \<and> ig_record_id st' = Some ''r7''"
proof -
  let ?run = "run_persist_stage demo_conv log_move log_save (\<lambda>_ _ w. (Inr VNone, w)) demo_state []"
  have ok: "isl (fst ?run) = False" "snd ?run = [''/in/a.txt>/out/a.txt'', ''save'']"
    "sd_kind (projr (fst ?run)) = ''continue''" by code_simp+
  have rid: "map_option ig_record_id (sd_state (projr (fst ?run))) = Some (Some ''r7'')" by code_simp
  have run: "?run = (Inr (projr (fst ?run)), [''/in/a.txt>/out/a.txt'', ''save''])"
    using ok(1,2) by (metis prod.collapse sum.collapse(2))
  from persist_stage_ordered [OF run] ok(3) obtain st' where "sd_state (projr (fst ?run)) = Some st'" by blast
  with run rid show ?thesis by auto
qed

end
