(* ===== verification/Ingestion.thy ===== *)
theory Ingestion
  imports Persist_Stage
begin

text \<open>
  The ingestion pipeline as it is wired: the six stages bound to their callables (the \<^verbatim>\<open>stage_handlers\<close>
  of \<^verbatim>\<open>runtime/composition.py\<close>) under the default transition table. Its two guarantees span the
  stages and the runner: the stages obey the table, and they hand each other well-formed states.
\<close>

record ('w, 'c) stage_ports =
  sp_conv :: conv_env
  sp_digest :: "pyval \<Rightarrow> string"
  sp_fs_facts :: "string \<Rightarrow> ('w, py_exception, pyval) io"
  sp_selector :: "candidate \<Rightarrow> ('w, factory_error, ('w, 'c) processor processor_selection) io"
  sp_gate :: "string \<Rightarrow> rat \<Rightarrow> ('w, py_exception, string option) io"
  sp_now :: "('w, py_exception, rat) io"
  sp_settle_delay :: rat
  sp_allowed_roots :: "string list"
  sp_route_selector :: "candidate \<Rightarrow> ('w, py_exception, string option) io"
  sp_filename :: "('w, 'c) ingestion_state \<Rightarrow> ('w, py_exception, string) io"
  sp_move :: "string \<Rightarrow> string \<Rightarrow> ('w, py_exception, call_result) io"
  sp_save :: "mapping \<Rightarrow> ('w, py_exception, call_result) io"
  sp_retry_planner :: "string \<Rightarrow> int \<Rightarrow> ('w, py_exception, pyval) io"
  sp_bookkeeping :: "string \<Rightarrow> candidate \<Rightarrow> ('w, py_exception, call_result) io"
  sp_sync :: "('w, 'c) ingestion_state \<Rightarrow> ('w, py_exception, call_result) io"
  sp_emit_sync_error :: "string \<Rightarrow> string \<Rightarrow> string \<Rightarrow> ('w, py_exception, unit) io"
  sp_immediate_sync :: bool

definition ingestion_handlers ::
    "('w, 'c) stage_ports \<Rightarrow> ('w, py_exception, ('w, 'c) ingestion_state) stage_handler dict" where
  "ingestion_handlers sp =
     [(''resolve'', run_resolve_stage (sp_conv sp) (sp_digest sp) (sp_fs_facts sp) (sp_selector sp)),
      (''stabilize'', run_stabilize_stage (sp_gate sp) (sp_now sp) (sp_settle_delay sp)),
      (''transform'', run_transform_stage (sp_conv sp)),
      (''route'', run_route_stage (sp_conv sp) (sp_allowed_roots sp) (sp_route_selector sp) (sp_filename sp)),
      (''persist'', run_persist_stage (sp_conv sp) (sp_move sp) (sp_save sp) (sp_retry_planner sp)),
      (''post_persist'', run_post_persist_stage (sp_conv sp) (sp_bookkeeping sp) (sp_sync sp)
         (sp_emit_sync_error sp) (sp_immediate_sync sp))]"

section \<open>What each stage returns\<close>

text \<open>
  \<open>emits P Q m\<close>: whatever directive the computation \<open>m\<close> returns, it is a terminal one with an outcome and
  state in \<open>Q\<close> or goes on to a stage with a state in \<open>P\<close>.
\<close>

definition emits ::
    "(string \<Rightarrow> 'st \<Rightarrow> bool) \<Rightarrow> (pipeline_outcome \<Rightarrow> 'st \<Rightarrow> bool) \<Rightarrow> ('e + 'st stage_directive) \<times> 'w \<Rightarrow> bool" where
  "emits P Q out \<longleftrightarrow>
     (case fst out of Inl _ \<Rightarrow> True
      | Inr d \<Rightarrow> (\<exists>s st. d = proceed s st \<and> P s st) \<or> (\<exists>x st. d = terminal x (Some st) \<and> Q x st))"

lemma emits_simps [simp]:
  "emits P Q (Inl e, w)"
  "emits P Q (Inr (proceed s st), w) \<longleftrightarrow> P s st"
  "emits P Q (Inr (terminal x (Some st)), w) \<longleftrightarrow> Q x st"
  by (auto simp: emits_def proceed_def terminal_def)

lemma emits_cases:
  "(case m of (Inl e, w1) \<Rightarrow> (Inl e, w1) | (Inr x, w1) \<Rightarrow> f x w1) = r \<Longrightarrow>
     (\<And>x w1. m = (Inr x, w1) \<Longrightarrow> emits P Q (f x w1)) \<Longrightarrow> emits P Q r"
  by (cases m; cases "fst m") auto

text \<open>The state a stage may rely on.\<close>

definition resolved :: "('w, 'c) ingestion_state \<Rightarrow> bool" where
  "resolved st \<longleftrightarrow> (\<exists>c. ig_candidate st = Some c \<and> candidate_ok c \<and> cd_plugin_id c \<noteq> None) \<and> ig_processor st \<noteq> None"

definition routed :: "('w, 'c) ingestion_state \<Rightarrow> bool" where
  "routed st \<longleftrightarrow> resolved st \<and> ig_processor_result st \<noteq> None \<and>
     (\<exists>c. ig_candidate st = Some c \<and> cd_target_path c \<noteq> None)"

definition persisted :: "('w, 'c) ingestion_state \<Rightarrow> bool" where
  "persisted st \<longleftrightarrow> routed st \<and>
     (\<exists>c r. ig_candidate st = Some c \<and> cd_record_id c = Some r \<and> cd_persisted_path c \<noteq> None \<and> ig_record_id st = Some r)"

fun stage_inv :: "string \<Rightarrow> ('w, 'c) ingestion_state \<Rightarrow> bool" where
  "stage_inv s st =
     (if s = ''resolve'' then True
      else if s \<in> {''stabilize'', ''transform''} then resolved st
      else if s = ''route'' then resolved st \<and> ig_processor_result st \<noteq> None
      else if s = ''persist'' then routed st
      else if s = ''post_persist'' then persisted st
      else False)"

declare stage_inv.simps [simp del]

lemma resolved_diag [simp]: "resolved (with_diagnostics k e st) = resolved st"
  "routed (with_diagnostics k e st) = routed st" "persisted (with_diagnostics k e st) = persisted st"
  by (simp_all add: resolved_def routed_def persisted_def)

lemma resolve_emits:
  "emits (\<lambda>s st'. s = ''stabilize'' \<and> resolved st') (\<lambda>x _. x \<in> {P_REJECTED, P_FAILED})
     (run_resolve_stage cv digest facts sel st w)"
proof -
  have "resolved (st\<lparr>ig_candidate := Some c', ig_processor := Some p\<rparr>)"
    if "candidate_from_event cv digest e fs = Inr c" "with_resolution a b c = Inr c'" for e fs c a b c' p
    using enrichment_ok(1) [OF that(2) candidate_from_event_ok [OF that(1)]] that(2)
    by (auto simp: resolved_def with_resolution_def split: if_splits)
  then show ?thesis
    by (auto simp: run_resolve_stage_def Let_def split: prod.splits sum.splits pyval.splits factory_error.splits)
qed

lemma stabilize_emits:
  assumes "resolved st"
  shows "emits (\<lambda>s st'. s = ''transform'' \<and> resolved st') (\<lambda>x _. x \<in> {P_RETRY, P_REJECTED, P_FAILED})
     (run_stabilize_stage gate now settle st w)"
  using assms
  by (auto simp: run_stabilize_stage_def Let_def split: prod.splits sum.splits option.splits)

lemma transform_emits:
  assumes "resolved st"
  shows "emits (\<lambda>s st'. s = ''route'' \<and> resolved st' \<and> ig_processor_result st' \<noteq> None)
     (\<lambda>x _. x \<in> {P_DEFERRED_STAGE, P_RETRY, P_REJECTED, P_FAILED}) (run_transform_stage cv st w)"
  using assms
  by (auto simp: run_transform_stage_def to_payload_total resolved_def Let_def
      split: prod.splits sum.splits option.splits pyval.splits bool.splits)

lemma route_emits:
  assumes "resolved st" and "ig_processor_result st \<noteq> None"
  shows "emits (\<lambda>s st'. s = ''persist'' \<and> routed st') (\<lambda>x _. x \<in> {P_REJECTED, P_FAILED})
     (run_route_stage cv roots sel fn st w)"
proof -
  obtain c where c: "ig_candidate st = Some c" "candidate_ok c" "cd_plugin_id c \<noteq> None"
    using assms(1) by (auto simp: resolved_def)
  have r: "routed (with_diagnostics k d (st\<lparr>ig_candidate := Some c'\<rparr>))" if "with_route t ts c = Inr c'" for k d t ts c'
    using that c enrichment_ok(2) [OF that c(2)] assms
    by (auto simp: routed_def resolved_def with_route_def split: if_splits)
  show ?thesis using c(1) r
    by (auto simp: run_route_stage_def Let_def split: prod.splits sum.splits option.splits)
qed

lemma persist_emits:
  assumes "routed st"
  shows "emits (\<lambda>s st'. s = ''post_persist'' \<and> persisted st') (\<lambda>x _. x \<in> {P_RETRY, P_REJECTED, P_FAILED})
     (run_persist_stage cv mv save rp st w)"
proof (cases "fst (run_persist_stage cv mv save rp st w)")
  case (Inl e)
  then show ?thesis by (simp add: emits_def)
next
  case (Inr d)
  then obtain w' where run: "run_persist_stage cv mv save rp st w = (Inr d, w')" by (metis prod.collapse)
  show ?thesis unfolding run
  proof (rule run_persist_stage_E [OF run], goal_cases no_target failure saved)
    case no_target
    then show ?case by simp
  next
    case (failure out why v)
    then show ?case using failure_directive_cases [OF failure(2)] by auto
  next
    case (saved cand target pr w1 s)
    obtain st' c' rid where d: "d = proceed ''post_persist'' st'" "with_persist_result rid target cand = Inr c'"
      "ig_candidate st' = Some c'" "ig_record_id st' = Some rid" "ig_processor st' = ig_processor st"
      "ig_processor_result st' = pr" using after_save_Inr [OF saved(6)] by blast
    have ok: "candidate_ok cand" "cd_plugin_id cand \<noteq> None" "ig_processor st \<noteq> None" "pr \<noteq> None"
      using assms saved(1) build_persisted_keeps [OF saved(7)] by (auto simp: routed_def resolved_def)
    have "candidate_ok c'" by (rule enrichment_ok(3) [OF d(2) ok(1)])
    moreover have "cd_plugin_id c' = cd_plugin_id cand" "cd_target_path c' = Some target" "cd_record_id c' = Some rid"
      "cd_persisted_path c' \<noteq> None"
      using d(2) saved(2) by (auto simp: with_persist_result_def split: if_splits)
    ultimately show ?case using d ok by (simp add: persisted_def routed_def resolved_def)
  qed
qed

lemma post_persist_emits:
  assumes "persisted st"
  shows "emits (\<lambda>s st'. False) (\<lambda>x st'. x \<in> {P_COMPLETED, P_FAILED} \<and> persisted st')
     (run_post_persist_stage cv bk sync em imm st w)"
  using assms
  by (auto simp: run_post_persist_stage_def Let_def persisted_def routed_def resolved_def
      split: prod.splits sum.splits option.splits)

section \<open>The stages together\<close>

lemma emits_mono:
  "emits P Q r \<Longrightarrow> (\<And>s st. P s st \<Longrightarrow> P' s st) \<Longrightarrow> (\<And>x st. Q x st \<Longrightarrow> Q' x st) \<Longrightarrow> emits P' Q' r"
  unfolding emits_def by (cases "fst r"; simp; blast)

lemma table_entries:
  "map_of DEFAULT_INGESTION_TRANSITION_TABLE ''resolve'' = Some \<lparr>allowed_next_stages = [''stabilize''],
     allowed_terminal_outcomes = [P_REJECTED, P_FAILED]\<rparr>"
  "map_of DEFAULT_INGESTION_TRANSITION_TABLE ''stabilize'' = Some \<lparr>allowed_next_stages = [''transform''],
     allowed_terminal_outcomes = [P_RETRY, P_REJECTED, P_FAILED]\<rparr>"
  "map_of DEFAULT_INGESTION_TRANSITION_TABLE ''transform'' = Some \<lparr>allowed_next_stages = [''route''],
     allowed_terminal_outcomes = [P_DEFERRED_STAGE, P_RETRY, P_REJECTED, P_FAILED]\<rparr>"
  "map_of DEFAULT_INGESTION_TRANSITION_TABLE ''route'' = Some \<lparr>allowed_next_stages = [''persist''],
     allowed_terminal_outcomes = [P_REJECTED, P_FAILED]\<rparr>"
  "map_of DEFAULT_INGESTION_TRANSITION_TABLE ''persist'' = Some \<lparr>allowed_next_stages = [''post_persist''],
     allowed_terminal_outcomes = [P_RETRY, P_REJECTED, P_FAILED]\<rparr>"
  "map_of DEFAULT_INGESTION_TRANSITION_TABLE ''post_persist'' = Some \<lparr>allowed_next_stages = [],
     allowed_terminal_outcomes = [P_COMPLETED, P_FAILED]\<rparr>"
  by (simp_all add: DEFAULT_INGESTION_TRANSITION_TABLE_def)

lemma handler_resolve:
  "stage_inv ''resolve'' st \<Longrightarrow>
   emits (\<lambda>n st'. n \<in> set [''stabilize''] \<and> stage_inv n st')
     (\<lambda>x st'. x \<in> set [P_REJECTED, P_FAILED] \<and> (x = P_COMPLETED \<longrightarrow> persisted st'))
     (run_resolve_stage (sp_conv sp) (sp_digest sp) (sp_fs_facts sp) (sp_selector sp) st w)"
  by (rule emits_mono [OF resolve_emits]) (auto simp: stage_inv.simps)

lemma handler_stabilize:
  "stage_inv ''stabilize'' st \<Longrightarrow>
   emits (\<lambda>n st'. n \<in> set [''transform''] \<and> stage_inv n st')
     (\<lambda>x st'. x \<in> set [P_RETRY, P_REJECTED, P_FAILED] \<and> (x = P_COMPLETED \<longrightarrow> persisted st'))
     (run_stabilize_stage (sp_gate sp) (sp_now sp) (sp_settle_delay sp) st w)"
  by (rule emits_mono [OF stabilize_emits]) (auto simp: stage_inv.simps)

lemma handler_transform:
  "stage_inv ''transform'' st \<Longrightarrow>
   emits (\<lambda>n st'. n \<in> set [''route''] \<and> stage_inv n st')
     (\<lambda>x st'. x \<in> set [P_DEFERRED_STAGE, P_RETRY, P_REJECTED, P_FAILED] \<and> (x = P_COMPLETED \<longrightarrow> persisted st'))
     (run_transform_stage (sp_conv sp) st w)"
  by (rule emits_mono [OF transform_emits]) (auto simp: stage_inv.simps)

lemma handler_route:
  "stage_inv ''route'' st \<Longrightarrow>
   emits (\<lambda>n st'. n \<in> set [''persist''] \<and> stage_inv n st')
     (\<lambda>x st'. x \<in> set [P_REJECTED, P_FAILED] \<and> (x = P_COMPLETED \<longrightarrow> persisted st'))
     (run_route_stage (sp_conv sp) (sp_allowed_roots sp) (sp_route_selector sp) (sp_filename sp) st w)"
  by (rule emits_mono [OF route_emits]) (auto simp: stage_inv.simps)

lemma handler_persist:
  "stage_inv ''persist'' st \<Longrightarrow>
   emits (\<lambda>n st'. n \<in> set [''post_persist''] \<and> stage_inv n st')
     (\<lambda>x st'. x \<in> set [P_RETRY, P_REJECTED, P_FAILED] \<and> (x = P_COMPLETED \<longrightarrow> persisted st'))
     (run_persist_stage (sp_conv sp) (sp_move sp) (sp_save sp) (sp_retry_planner sp) st w)"
  by (rule emits_mono [OF persist_emits]) (auto simp: stage_inv.simps)

lemma handler_post_persist:
  "stage_inv ''post_persist'' st \<Longrightarrow>
   emits (\<lambda>n st'. n \<in> set [] \<and> stage_inv n st')
     (\<lambda>x st'. x \<in> set [P_COMPLETED, P_FAILED] \<and> (x = P_COMPLETED \<longrightarrow> persisted st'))
     (run_post_persist_stage (sp_conv sp) (sp_bookkeeping sp) (sp_sync sp) (sp_emit_sync_error sp) (sp_immediate_sync sp) st w)"
  by (rule emits_mono [OF post_persist_emits]) (auto simp: stage_inv.simps)

text \<open>Every stage obeys its entry of the transition table and establishes the next stage's invariant.\<close>

lemma handler_emits:
  assumes "map_of (ingestion_handlers sp) s = Some h" and "map_of DEFAULT_INGESTION_TRANSITION_TABLE s = Some p"
    and "stage_inv s st"
  shows "emits (\<lambda>n st'. n \<in> set (allowed_next_stages p) \<and> stage_inv n st')
     (\<lambda>x st'. x \<in> set (allowed_terminal_outcomes p) \<and> (x = P_COMPLETED \<longrightarrow> persisted st')) (h st w)"
proof -
  have "s \<in> {''resolve'', ''stabilize'', ''transform'', ''route'', ''persist'', ''post_persist''}"
    using assms(1) by (simp add: ingestion_handlers_def split: if_splits)
  then show ?thesis
  proof (elim insertE emptyE, goal_cases)
    case 1
    then show ?case using assms handler_resolve [where sp = sp and st = st and w = w]
      by (simp add: ingestion_handlers_def table_entries, hypsubst, simp)
  next
    case 2
    then show ?case using assms handler_stabilize [where sp = sp and st = st and w = w]
      by (simp add: ingestion_handlers_def table_entries, hypsubst, simp)
  next
    case 3
    then show ?case using assms handler_transform [where sp = sp and st = st and w = w]
      by (simp add: ingestion_handlers_def table_entries, hypsubst, simp)
  next
    case 4
    then show ?case using assms handler_route [where sp = sp and st = st and w = w]
      by (simp add: ingestion_handlers_def table_entries, hypsubst, simp)
  next
    case 5
    then show ?case using assms handler_persist [where sp = sp and st = st and w = w]
      by (simp add: ingestion_handlers_def table_entries, hypsubst, simp)
  next
    case 6
    then show ?case using assms handler_post_persist [where sp = sp and st = st and w = w]
      by (simp add: ingestion_handlers_def table_entries, hypsubst, simp)
  qed
qed

lemma emitted_directive:
  assumes "emits (\<lambda>n st'. n \<in> set (allowed_next_stages p) \<and> I n st')
     (\<lambda>x st'. x \<in> set (allowed_terminal_outcomes p) \<and> F x st') (Inr d, w)"
  shows "(\<exists>n st'. (check_directive s p d :: 'e pipeline_error + _) = Inr (Inl n) \<and> sd_state d = Some st' \<and> I n st') \<or>
    (\<exists>x st'. (check_directive s p d :: 'e pipeline_error + _) = Inr (Inr x) \<and> sd_state d = Some st' \<and> F x st')"
  using assms by (auto simp: emits_def)

lemma handlers_dom: "map_of DEFAULT_INGESTION_TRANSITION_TABLE s = Some p \<Longrightarrow> map_of (ingestion_handlers sp) s \<noteq> None"
  by (auto simp: DEFAULT_INGESTION_TRANSITION_TABLE_def ingestion_handlers_def split: if_splits)

lemma ingestion_loop:
  assumes "run_loop DEFAULT_INGESTION_TRANSITION_TABLE n (ingestion_handlers sp) sc co stage st tlog steps prior w = (out, w')"
    and "log_path DEFAULT_INGESTION_TRANSITION_TABLE ''resolve'' tlog stage"
    and "steps = int (length tlog)" and "6 \<le> n" and "stage_inv stage st" and "co \<noteq> P_COMPLETED"
  shows "case out of Inl e \<Rightarrow> \<exists>x. e = HandlerRaised x
    | Inr r \<Rightarrow> rr_outcome r = P_COMPLETED \<longrightarrow> persisted (rr_state r)"
  using assms(1-5)
proof (induction "nat (n - steps)" arbitrary: stage st tlog steps prior w rule: less_induct)
  case less
  note k = default_log_path [OF less.prems(2)]
  obtain p where p: "map_of DEFAULT_INGESTION_TRANSITION_TABLE stage = Some p"
    using default_stage_policy [of "length tlog"] k by auto
  have dir: "(\<exists>n st'. (check_directive stage p d :: py_exception pipeline_error + _) = Inr (Inl n) \<and> sd_state d = Some st' \<and>
        stage_inv n st') \<or>
      (\<exists>x st'. (check_directive stage p d :: py_exception pipeline_error + _) = Inr (Inr x) \<and> sd_state d = Some st' \<and>
        (x = P_COMPLETED \<longrightarrow> persisted st'))"
    if "map_of (ingestion_handlers sp) stage = Some h" "h st v = (Inr d, v')" for h v d v'
    using handler_emits [OF that(1) p less.prems(5), of v]
    unfolding that(2) by (rule emitted_directive)
  from less.prems(1) show ?case
  proof (cases rule: run_loop_E)
    case guard
    then show ?thesis using k less.prems(3,4) by simp
  next
    case (no_handler q)
    then show ?thesis using handlers_dom [OF p, of sp] by simp
  next
    case (refused q d e h v v')
    then show ?thesis using dir [OF refused(3,4)] p by simp
  next
    case (onward q d nxt st2 w2 h v)
    have "stage_inv nxt st2" using dir [OF onward(5,6)] onward(2,3,7) p by auto
    moreover have "log_path DEFAULT_INGESTION_TRANSITION_TABLE ''resolve'' (tlog @ [continue_record stage nxt]) nxt"
      using less.prems(2) onward(2) check_directive_Inr(1) [OF onward(3)] by (rule log_path.onwards)
    ultimately show ?thesis using less.hyps [OF _ onward(4)] less.prems(3,4) onward(1) by simp
  next
    case (stop q d fin st2 h v)
    then show ?thesis using dir [OF stop(5,6)] p by auto
  qed (use p assms(6) in auto)
qed

text \<open>
  C5. The wired pipeline is consistent: whatever the ports do, a run of the six stages under the default
  table never fails on a missing handler, a missing policy, a forbidden transition or the cycle guard; the
  only error is an exception a stage did not catch. A run that completes leaves a persisted state: a
  well-formed candidate that was resolved, routed and persisted, its processor and processor result, and the
  record id of the candidate.
\<close>

theorem ingestion_pipeline_consistent:
  assumes "6 \<le> n" and "co \<noteq> P_COMPLETED"
    and "run_pipeline (ingestion_runner n) st (ingestion_handlers sp) cancel co w = (out, w')"
  shows "case out of Inl e \<Rightarrow> \<exists>x. e = HandlerRaised x
    | Inr r \<Rightarrow> rr_outcome r = P_COMPLETED \<longrightarrow> persisted (rr_state r)"
proof -
  have run: "run_loop DEFAULT_INGESTION_TRANSITION_TABLE n (ingestion_handlers sp)
      (case cancel of None \<Rightarrow> io_return False | Some c \<Rightarrow> c) co ''resolve'' st [] 0 None w = (out, w')"
    using assms(1,3) by (simp add: run_pipeline_def ingestion_runner_def)
  have i: "stage_inv ''resolve'' st" by (simp add: stage_inv.simps)
  show ?thesis by (rule ingestion_loop [OF run log_path.here _ assms(1) i assms(2)]) simp
qed

definition demo_processor :: "(string list, unit) processor" where
  "demo_processor = \<lparr>px_prepare = None, px_can_process = None,
     px_process = Some (\<lambda>m _ w. (Inr (OutRaw (VDict [(''final_path'', get_or_none m ''source_path''),
       (''datatype'', VStr ''txt'')])), w @ [''process'']))\<rparr>"

definition demo_ports :: "(string list, unit) stage_ports" where
  "demo_ports = \<lparr>sp_conv = demo_conv, sp_digest = (\<lambda>_. ''tok''),
     sp_fs_facts = (\<lambda>_ w. (Inr (VDict [(''modified_at'', VInt 1)]), w)),
     sp_selector = (\<lambda>_ w. (Inr \<lparr>sel_processor = demo_processor, sel_descriptor = \<lparr>sl_plugin_id = ''p'',
        sl_processor_key = ''p'', sl_capability_reason = ''ranked_match'', sl_cache_hit = False\<rparr>\<rparr>, w)),
     sp_gate = (\<lambda>_ _ w. (Inr (Some ''allow''), w)), sp_now = (\<lambda>w. (Inr 9, w)), sp_settle_delay = 2,
     sp_allowed_roots = [''/out''], sp_route_selector = (\<lambda>_ w. (Inr (Some ''/out''), w)),
     sp_filename = (\<lambda>_ w. (Inr ''a.txt'', w)), sp_move = log_move, sp_save = log_save,
     sp_retry_planner = (\<lambda>_ _ w. (Inr VNone, w)),
     sp_bookkeeping = (\<lambda>_ _ w. (Inr \<lparr>cr_status = CALL_SUCCESS, cr_value = VNone, cr_diagnostics = VNone\<rparr>, w)),
     sp_sync = (\<lambda>_ w. (Inr \<lparr>cr_status = CALL_SUCCESS, cr_value = VNone, cr_diagnostics = VNone\<rparr>, w @ [''sync''])),
     sp_emit_sync_error = (\<lambda>_ _ _ w. (Inr (), w)), sp_immediate_sync = True\<rparr>"

definition demo_event :: mapping where
  "demo_event = [(''event_id'', VStr ''e1''), (''path'', VStr ''/in/a.txt''), (''event_kind'', VStr ''created'')]"

theorem ingestion_pipeline_consistent_witness:
  "\<exists>r. run_pipeline (ingestion_runner 50) (state_from_event demo_conv (\<lambda>_. ''h'') demo_event (Some ()))
        (ingestion_handlers demo_ports) None P_FAILED [] =
      (Inr r, [''process'', ''/in/a.txt>/out/a.txt'', ''save'', ''sync'']) \<and>
     rr_outcome r = P_COMPLETED \<and> persisted (rr_state r)"
proof -
  define run where "run = run_pipeline (ingestion_runner 50) (state_from_event demo_conv (\<lambda>_. ''h'') demo_event (Some ()))
      (ingestion_handlers demo_ports) None P_FAILED []"
  have ok: "\<not> isl (fst run)" "snd run = [''process'', ''/in/a.txt>/out/a.txt'', ''save'', ''sync'']"
    "rr_outcome (projr (fst run)) = P_COMPLETED" unfolding run_def by code_simp+
  have "run_pipeline (ingestion_runner 50) (state_from_event demo_conv (\<lambda>_. ''h'') demo_event (Some ()))
      (ingestion_handlers demo_ports) None P_FAILED [] = (Inr (projr (fst run)), snd run)"
    using ok(1) by (metis prod.collapse run_def sum.collapse(2))
  from ingestion_pipeline_consistent [OF _ _ this] this ok(2,3) show ?thesis by simp
qed

end
