(* ===== verification/Engine.thy ===== *)
theory Engine
  imports Ingestion
begin

text \<open>
  The ingestion engine (\<^verbatim>\<open>application/ingestion/engine.py\<close>): one event through the pipeline, with every
  exception normalised into an outcome by the failure policies. The engine compares terminal types with
  its own enumeration by identity; \<open>terminal_kind\<close> keeps the engine's members apart from those of the
  equally named enumeration of \<^verbatim>\<open>policies/failure_outcome.py\<close>.
\<close>

datatype outcome_kind = SUCCEEDED | DEFERRED_STAGE | DEFERRED_RETRY | KIND_REJECTED | FAILED_TERMINAL

datatype engine_terminal = ET_RETRY | ET_REJECTED | ET_FAILED

datatype terminal_kind = EngineTerminal engine_terminal | PolicyTerminal failure_terminal_type

datatype engine_error = IngestionEngineConfigurationError string

record engine_failure =
  ef_terminal_type :: terminal_kind
  ef_stage_id :: "string option"
  ef_reason_code :: string
  ef_severity :: string
  ef_retry_plan :: "mapping option"
  ef_should_emit :: bool

record 'st ingestion_outcome =
  io_kind :: outcome_kind
  io_final_stage_id :: "string option"
  io_state :: "'st option"
  io_stage_trace :: "transition_record list"
  io_retry_plan :: "mapping option"
  io_emission_status :: string

record ('w, 'st) ingestion_engine =
  en_runner :: pipeline_runner
  en_stage_handlers :: "('w, py_exception, 'st) stage_handler dict"
  en_error_handling_policy :: "(py_exception \<Rightarrow> string option \<Rightarrow> ('w, py_exception, error_classification) io) option"
  en_failure_outcome_policy :: "(error_classification \<Rightarrow> ('w, py_exception, engine_failure) io) option"
  en_failure_emitter :: "(engine_failure \<Rightarrow> mapping \<Rightarrow> ('w, py_exception, unit) io) option"
  en_cancellation_signal :: "('w, py_exception, bool) io option"

definition REQUIRED_STAGE_ORDER :: "string list" where
  "REQUIRED_STAGE_ORDER = [''resolve'', ''stabilize'', ''transform'', ''route'', ''persist'', ''post_persist'']"

definition make_engine :: "('w, 'st) ingestion_engine \<Rightarrow> engine_error + ('w, 'st) ingestion_engine" where
  "make_engine en =
     (let missing = filter (\<lambda>s. map_of (en_stage_handlers en) s = None) REQUIRED_STAGE_ORDER in
      if missing \<noteq> []
      then Inl (IngestionEngineConfigurationError (''Missing required stage handlers: '' @ str_join '', '' missing))
      else Inr en)"

definition coerce_event_payload :: "conv_env \<Rightarrow> pyval \<Rightarrow> mapping" where
  "coerce_event_payload cv event =
     (case event of VDict d \<Rightarrow> d | _ \<Rightarrow> [(''raw_event'', VStr (cv_repr cv event))])"

fun map_pipeline_terminal :: "pipeline_outcome \<Rightarrow> outcome_kind" where
  "map_pipeline_terminal P_COMPLETED = SUCCEEDED"
| "map_pipeline_terminal P_DEFERRED_STAGE = DEFERRED_STAGE"
| "map_pipeline_terminal P_RETRY = DEFERRED_RETRY"
| "map_pipeline_terminal P_REJECTED = KIND_REJECTED"
| "map_pipeline_terminal P_FAILED = FAILED_TERMINAL"

definition map_failure_terminal :: "terminal_kind \<Rightarrow> outcome_kind" where
  "map_failure_terminal t =
     (if t = EngineTerminal ET_RETRY then DEFERRED_RETRY
      else if t = EngineTerminal ET_REJECTED then KIND_REJECTED
      else FAILED_TERMINAL)"

definition map_pipeline_result :: "'st run_result \<Rightarrow> 'st ingestion_outcome" where
  "map_pipeline_result r =
     \<lparr>io_kind = map_pipeline_terminal (rr_outcome r), io_final_stage_id = rr_final_stage_id r,
      io_state = Some (rr_state r), io_stage_trace = rr_transition_log r, io_retry_plan = None,
      io_emission_status = ''skipped''\<rparr>"

text \<open>The exceptions of the runner, with the attributes the engine reads.\<close>

fun pipeline_exception :: "py_exception pipeline_error \<Rightarrow> py_exception" where
  "pipeline_exception (PipelineValueError m) = plain_exception ''ValueError'' m"
| "pipeline_exception (PipelineMissingStageError s) =
     (plain_exception ''PipelineMissingStageError'' (''Missing stage handler for stage '' @ [CHR 39] @ s @ [CHR 39] @ ''.''))
       \<lparr>ex_is_runtime_error := True, ex_stage_id := Some s\<rparr>"
| "pipeline_exception (PipelineTransitionError s m) =
     (plain_exception ''PipelineTransitionError''
        (''Invalid transition from stage '' @ [CHR 39] @ s @ [CHR 39] @ '': '' @ m))
       \<lparr>ex_is_runtime_error := True, ex_stage_id := Some s\<rparr>"
| "pipeline_exception (PipelineCycleGuardError n) =
     (plain_exception ''PipelineCycleGuardError'' (''Pipeline exceeded max step guard ('' @ int_str n @ '').''))
       \<lparr>ex_is_runtime_error := True\<rparr>"
| "pipeline_exception (HandlerRaised e) = e"

definition engine_classify ::
    "('w, 'st) ingestion_engine \<Rightarrow> py_exception \<Rightarrow> string option \<Rightarrow> ('w, py_exception, error_classification) io" where
  "engine_classify en exc stage w =
     (case en_error_handling_policy en of
        Some policy \<Rightarrow> policy exc stage w
      | None \<Rightarrow>
          (Inr \<lparr>ec_reason_code = ''ingestion_unhandled_exception'', ec_severity = ''error'', ec_retryable = False,
                ec_stage_id = stage,
                ec_diagnostics = [(''type'', VStr (ex_type_name exc)), (''message'', VStr (ex_text exc))]\<rparr>, w))"

definition safe_classification ::
    "('w, 'st) ingestion_engine \<Rightarrow> py_exception \<Rightarrow> string option \<Rightarrow> 'w \<Rightarrow> error_classification \<times> 'w" where
  "safe_classification en exc stage w =
     (case engine_classify en exc stage w of
        (Inr c, w1) \<Rightarrow> (c, w1)
      | (Inl policy_exc, w1) \<Rightarrow>
          (\<lparr>ec_reason_code = ''error_handling_policy_failed'', ec_severity = ''error'', ec_retryable = False,
            ec_stage_id = stage,
            ec_diagnostics = [(''type'', VStr (ex_type_name exc)), (''message'', VStr (ex_text exc)),
              (''policy_error_type'', VStr (ex_type_name policy_exc)),
              (''policy_error_message'', VStr (ex_text policy_exc))]\<rparr>, w1))"

definition engine_failure_outcome ::
    "('w, 'st) ingestion_engine \<Rightarrow> error_classification \<Rightarrow> ('w, py_exception, engine_failure) io" where
  "engine_failure_outcome en c w =
     (case en_failure_outcome_policy en of
        Some policy \<Rightarrow> policy c w
      | None \<Rightarrow>
          (Inr \<lparr>ef_terminal_type = EngineTerminal (if ec_retryable c then ET_RETRY else ET_FAILED),
                ef_stage_id = ec_stage_id c, ef_reason_code = ec_reason_code c, ef_severity = ec_severity c,
                ef_retry_plan = (if ec_retryable c
                   then Some [(''delay_seconds'', VInt 0), (''next_attempt'', VInt 1)] else None),
                ef_should_emit = True\<rparr>, w))"

definition safe_failure_outcome ::
    "('w, 'st) ingestion_engine \<Rightarrow> error_classification \<Rightarrow> 'w \<Rightarrow> engine_failure \<times> 'w" where
  "safe_failure_outcome en c w =
     (case engine_failure_outcome en c w of
        (Inr f, w1) \<Rightarrow> (f, w1)
      | (Inl _, w1) \<Rightarrow>
          (\<lparr>ef_terminal_type = EngineTerminal ET_FAILED, ef_stage_id = ec_stage_id c,
            ef_reason_code = ec_reason_code c, ef_severity = ec_severity c, ef_retry_plan = None,
            ef_should_emit = True\<rparr>, w1))"

definition emit_failure_if_needed ::
    "('w, 'st) ingestion_engine \<Rightarrow> engine_failure \<Rightarrow> mapping \<Rightarrow> 'w \<Rightarrow> string \<times> 'w" where
  "emit_failure_if_needed en f event w =
     (case en_failure_emitter en of
        None \<Rightarrow> (''skipped'', w)
      | Some emitter \<Rightarrow>
          if \<not> ef_should_emit f then (''skipped'', w)
          else (case emitter f event w of (Inr _, w1) \<Rightarrow> (''emitted'', w1) | (Inl _, w1) \<Rightarrow> (''failed'', w1)))"

definition normalize_exception ::
    "('w, 'st) ingestion_engine \<Rightarrow> py_exception \<Rightarrow> mapping \<Rightarrow> 'w \<Rightarrow> 'st ingestion_outcome \<times> 'w" where
  "normalize_exception en exc event w =
     (case safe_classification en exc (ex_stage_id exc) w of
        (c, w1) \<Rightarrow>
     (case safe_failure_outcome en c w1 of
        (f, w2) \<Rightarrow>
     (case emit_failure_if_needed en f event w2 of
        (status, w3) \<Rightarrow>
          (\<lparr>io_kind = map_failure_terminal (ef_terminal_type f), io_final_stage_id = ef_stage_id f,
            io_state = None, io_stage_trace = [], io_retry_plan = ef_retry_plan f,
            io_emission_status = status\<rparr>, w3))))"

definition process_event ::
    "conv_env \<Rightarrow> ('w, 'st) ingestion_engine \<Rightarrow> (mapping \<Rightarrow> ('w, py_exception, 'st) io) \<Rightarrow> pyval \<Rightarrow>
     'w \<Rightarrow> 'st ingestion_outcome \<times> 'w" where
  "process_event cv en state_factory event w =
     (let payload = coerce_event_payload cv event in
      case state_factory payload w of
        (Inl exc, w1) \<Rightarrow> normalize_exception en exc payload w1
      | (Inr st, w1) \<Rightarrow>
          (case run_pipeline (en_runner en) st (en_stage_handlers en) (en_cancellation_signal en) P_FAILED w1 of
             (Inl e, w2) \<Rightarrow> normalize_exception en (pipeline_exception e) payload w2
           | (Inr r, w2) \<Rightarrow> (map_pipeline_result r, w2)))"

section \<open>Properties\<close>

definition wired_engine :: "('w, 'c) stage_ports \<Rightarrow> ('w, ('w, 'c) ingestion_state) ingestion_engine \<Rightarrow> bool" where
  "wired_engine sp en \<longleftrightarrow> en_stage_handlers en = ingestion_handlers sp \<and> en_runner en = ingestion_runner 50"

lemma map_pipeline_terminal_succeeded [simp]: "map_pipeline_terminal x = SUCCEEDED \<longleftrightarrow> x = P_COMPLETED"
  by (cases x) auto

lemma normalize_exception_fields:
  "io_state (fst (normalize_exception en exc ev w)) = None"
  "io_stage_trace (fst (normalize_exception en exc ev w)) = []"
  "io_kind (fst (normalize_exception en exc ev w)) \<in> {DEFERRED_RETRY, KIND_REJECTED, FAILED_TERMINAL}"
  by (auto simp: normalize_exception_def map_failure_terminal_def split: prod.splits)

lemma wired_run:
  assumes "run_pipeline (ingestion_runner 50) st (ingestion_handlers sp) cancel P_FAILED w = (Inr r, w')"
    and "rr_outcome r = P_COMPLETED"
  shows "persisted (rr_state r) \<and> map tr_stage_id (rr_transition_log r) = stage_order"
proof -
  let ?sc = "case cancel of None \<Rightarrow> io_return False | Some c \<Rightarrow> c"
  have run: "run_loop DEFAULT_INGESTION_TRANSITION_TABLE 50 (ingestion_handlers sp) ?sc P_FAILED ''resolve'' st [] 0 None w
      = (Inr r, w')"
    using assms(1) by (simp add: run_pipeline_def ingestion_runner_def)
  have "stage_inv ''resolve'' st" by (simp add: stage_inv.simps)
  then have "persisted (rr_state r)" using ingestion_loop [OF run log_path.here] assms(2) by simp
  moreover have "closed_log DEFAULT_INGESTION_TRANSITION_TABLE ''resolve'' (rr_transition_log r) P_COMPLETED"
    using run_loop_log [OF run log_path.here] assms(2) by auto
  from default_closed_log [OF this] have "map tr_stage_id (rr_transition_log r) = stage_order"
    by (simp add: stage_order_def)
  ultimately show ?thesis ..
qed

text \<open>
  C6. The engine answers every event with an outcome, whatever raises on the way. It reports success only
  after all six stages ran in order and the state is persisted; an outcome without a state comes from an
  exception, carries no trace and is never a success.
\<close>

theorem process_event_sound:
  assumes "wired_engine sp en" and "process_event cv en sf event w = (out, w')"
  shows "(io_kind out = SUCCEEDED \<longrightarrow>
            (\<exists>st. io_state out = Some st \<and> persisted st \<and> map tr_stage_id (io_stage_trace out) = stage_order)) \<and>
    (io_state out = None \<longrightarrow>
       io_stage_trace out = [] \<and> io_kind out \<in> {DEFERRED_RETRY, KIND_REJECTED, FAILED_TERMINAL})"
proof -
  consider exc v where "out = fst (normalize_exception en exc (coerce_event_payload cv event) v)"
    | st v r where "out = map_pipeline_result r"
      "run_pipeline (ingestion_runner 50) st (ingestion_handlers sp) (en_cancellation_signal en) P_FAILED v = (Inr r, w')"
    using assms by (auto simp: process_event_def wired_engine_def Let_def split: prod.splits sum.splits) (metis fst_conv)+
  then show ?thesis
  proof cases
    case 1
    then show ?thesis
      using normalize_exception_fields [of en exc "coerce_event_payload cv event" v] by auto
  next
    case 2
    then show ?thesis using wired_run [OF 2(2)] by (auto simp: map_pipeline_result_def)
  qed
qed

definition demo_engine :: "(string list, (string list, unit) ingestion_state) ingestion_engine" where
  "demo_engine = \<lparr>en_runner = ingestion_runner 50, en_stage_handlers = ingestion_handlers demo_ports,
     en_error_handling_policy = None, en_failure_outcome_policy = None, en_failure_emitter = None,
     en_cancellation_signal = None\<rparr>"

definition demo_factory :: "mapping \<Rightarrow> (string list, py_exception, (string list, unit) ingestion_state) io" where
  "demo_factory payload w = (Inr (state_from_event demo_conv (\<lambda>_. ''h'') payload (Some ())), w)"

theorem process_event_sound_witness:
  "\<exists>st. io_kind (fst (process_event demo_conv demo_engine demo_factory (VDict demo_event) [])) = SUCCEEDED \<and>
     io_state (fst (process_event demo_conv demo_engine demo_factory (VDict demo_event) [])) = Some st \<and> persisted st"
proof -
  let ?p = "process_event demo_conv demo_engine demo_factory (VDict demo_event) []"
  have w: "wired_engine demo_ports demo_engine" by (simp add: wired_engine_def demo_engine_def)
  have k: "io_kind (fst ?p) = SUCCEEDED" by code_simp
  have "?p = (fst ?p, snd ?p)" by simp
  from process_event_sound [OF w this] k show ?thesis by auto
qed

lemma policies_without_emitter [simp]:
  "safe_classification (en\<lparr>en_failure_emitter := E\<rparr>) = safe_classification en"
  "safe_failure_outcome (en\<lparr>en_failure_emitter := E\<rparr>) = safe_failure_outcome en"
  by (simp_all add: fun_eq_iff safe_classification_def engine_classify_def safe_failure_outcome_def engine_failure_outcome_def)

lemma without_emitter:
  "normalize_exception (en\<lparr>en_failure_emitter := None\<rparr>) exc event w =
     (let (c, w1) = safe_classification en exc (ex_stage_id exc) w; (f, w2) = safe_failure_outcome en c w1 in
      (\<lparr>io_kind = map_failure_terminal (ef_terminal_type f), io_final_stage_id = ef_stage_id f,
        io_state = None, io_stage_trace = [], io_retry_plan = ef_retry_plan f, io_emission_status = ''skipped''\<rparr>, w2))"
  by (simp add: normalize_exception_def emit_failure_if_needed_def split: prod.splits)

lemma with_emitter:
  assumes "en_failure_emitter en = Some E"
    and "normalize_exception (en\<lparr>en_failure_emitter := None\<rparr>) exc event w = (quiet, v)"
  obtains f where "ef_stage_id f = io_final_stage_id quiet" "ef_retry_plan f = io_retry_plan quiet"
    "map_failure_terminal (ef_terminal_type f) = io_kind quiet" "en_failure_outcome_policy en = None \<longrightarrow> ef_should_emit f"
    "io_emission_status quiet = ''skipped''"
    "normalize_exception en exc event w = (if \<not> ef_should_emit f then (quiet, v) else case E f event v of
       (Inr _, w') \<Rightarrow> (quiet\<lparr>io_emission_status := ''emitted''\<rparr>, w') | (Inl _, w') \<Rightarrow> (quiet\<lparr>io_emission_status := ''failed''\<rparr>, w'))"
proof -
  obtain c w1 where c: "safe_classification en exc (ex_stage_id exc) w = (c, w1)" by fastforce
  obtain f w2 where f: "safe_failure_outcome en c w1 = (f, w2)" by fastforce
  show thesis
  proof (rule that [of f])
    show "en_failure_outcome_policy en = None \<longrightarrow> ef_should_emit f"
      using f by (auto simp: safe_failure_outcome_def engine_failure_outcome_def)
  qed (use assms c f in \<open>auto simp: without_emitter normalize_exception_def emit_failure_if_needed_def
      split: prod.splits sum.splits\<close>)
qed

text \<open>The event ends in an exception: of the factory of the state, or of the pipeline.\<close>

definition run_raises ::
    "('w, 'st) ingestion_engine \<Rightarrow> (mapping \<Rightarrow> ('w, py_exception, 'st) io) \<Rightarrow> mapping \<Rightarrow> 'w \<Rightarrow> py_exception \<Rightarrow> 'w \<Rightarrow> bool" where
  "run_raises en sf payload w exc w2 \<longleftrightarrow> sf payload w = (Inl exc, w2) \<or>
     (\<exists>st w1 e. sf payload w = (Inr st, w1) \<and> exc = pipeline_exception e \<and>
        run_pipeline (en_runner en) st (en_stage_handlers en) (en_cancellation_signal en) P_FAILED w1 = (Inl e, w2))"

lemma raised_event:
  "run_raises en sf (coerce_event_payload cv event) w exc w2 \<Longrightarrow>
   process_event cv en sf event w = normalize_exception en exc (coerce_event_payload cv event) w2"
  by (auto simp: run_raises_def process_event_def)

lemma raised_without_emitter:
  "run_raises (en\<lparr>en_failure_emitter := None\<rparr>) sf payload w exc w2 = run_raises en sf payload w exc w2"
  by (simp add: run_raises_def)

lemma failure_kinds:
  assumes "normalize_exception en exc payload w2 = (out, w')"
  shows "(en_failure_outcome_policy en = None \<and>
      (\<forall>P. en_error_handling_policy en = Some P \<longrightarrow> isl (fst (P exc (ex_stage_id exc) w2))) \<longrightarrow>
      io_kind out = FAILED_TERMINAL \<and> io_retry_plan out = None)
    \<and> (\<forall>F. en_failure_outcome_policy en = Some F \<and> (\<forall>c v. isl (fst (F c v))) \<longrightarrow>
      io_kind out = FAILED_TERMINAL \<and> io_retry_plan out = None)
    \<and> (\<forall>P c v. en_error_handling_policy en = Some P \<and> en_failure_outcome_policy en = None \<and>
      P exc (ex_stage_id exc) w2 = (Inr c, v) \<longrightarrow>
      (io_kind out = DEFERRED_RETRY \<longleftrightarrow> ec_retryable c) \<and> (io_retry_plan out \<noteq> None \<longleftrightarrow> ec_retryable c))"
proof -
  let ?sc = "safe_classification en exc (ex_stage_id exc) w2"
  let ?fo = "safe_failure_outcome en (fst ?sc) (snd ?sc)"
  have out: "io_kind out = map_failure_terminal (ef_terminal_type (fst ?fo))"
    "io_retry_plan out = ef_retry_plan (fst ?fo)"
    using assms by (auto simp: normalize_exception_def split: prod.splits)
  have plain: "ef_terminal_type (fst ?fo) = EngineTerminal (if ec_retryable (fst ?sc) then ET_RETRY else ET_FAILED)"
    "ef_retry_plan (fst ?fo) \<noteq> None \<longleftrightarrow> ec_retryable (fst ?sc)" if "en_failure_outcome_policy en = None"
    using that by (simp_all add: safe_failure_outcome_def engine_failure_outcome_def)
  have failed: "\<not> ec_retryable (fst ?sc)"
    if "\<forall>P. en_error_handling_policy en = Some P \<longrightarrow> isl (fst (P exc (ex_stage_id exc) w2))"
    using that
    by (cases "en_error_handling_policy en")
      (auto simp: safe_classification_def engine_classify_def isl_def split: prod.splits sum.splits)
  have raised: "ef_terminal_type (fst ?fo) = EngineTerminal ET_FAILED \<and> ef_retry_plan (fst ?fo) = None"
    if "en_failure_outcome_policy en = Some F" "\<forall>c v. isl (fst (F c v))" for F
    using that(1) that(2) [rule_format, of "fst ?sc" "snd ?sc"]
    by (cases "F (fst ?sc) (snd ?sc)")
      (auto simp: safe_failure_outcome_def engine_failure_outcome_def isl_def)
  have cl: "fst ?sc = c" if "en_error_handling_policy en = Some P" "P exc (ex_stage_id exc) w2 = (Inr c, v)" for P c v
    using that by (simp add: safe_classification_def engine_classify_def)
  show ?thesis
    using plain failed raised cl by (auto simp: out map_failure_terminal_def)
qed

text \<open>
  C26. Failures are contained: when the factory of the state or the pipeline raises, a failing error policy (with
  the built-in outcome policy) or a failing outcome policy gives a terminal failure without a retry plan, never
  a retry and never an exception of its own; so does having no policies at all. With a working error policy and
  the built-in outcome policy the outcome is a deferred retry, with a plan, exactly for a retryable
  classification. Without an emitter nothing is emitted: the status is \<^verbatim>\<open>skipped\<close>. With one, everything but
  the status is as without it, and the emitter is called after the policies, once, with the failure the outcome
  reports, if that asks to be emitted (with the built-in outcome policy it always does): the status is
  \<^verbatim>\<open>emitted\<close> if the call returns, \<^verbatim>\<open>failed\<close> if it raises, and \<^verbatim>\<open>skipped\<close> if there is none.
\<close>

theorem failure_policies_contained:
  assumes "run_raises en sf (coerce_event_payload cv event) w exc w2"
    and "process_event cv en sf event w = (out, w')"
    and "process_event cv (en\<lparr>en_failure_emitter := None\<rparr>) sf event w = (quiet, v)"
  shows "(en_failure_outcome_policy en = None \<and>
            (\<forall>P. en_error_handling_policy en = Some P \<longrightarrow> isl (fst (P exc (ex_stage_id exc) w2))) \<longrightarrow>
            io_kind out = FAILED_TERMINAL \<and> io_retry_plan out = None)
       \<and> (\<forall>F. en_failure_outcome_policy en = Some F \<and> (\<forall>c v. isl (fst (F c v))) \<longrightarrow>
            io_kind out = FAILED_TERMINAL \<and> io_retry_plan out = None)
       \<and> (\<forall>P c v. en_error_handling_policy en = Some P \<and> en_failure_outcome_policy en = None \<and>
            P exc (ex_stage_id exc) w2 = (Inr c, v) \<longrightarrow>
            (io_kind out = DEFERRED_RETRY \<longleftrightarrow> ec_retryable c) \<and> (io_retry_plan out \<noteq> None \<longleftrightarrow> ec_retryable c))
       \<and> io_emission_status quiet = ''skipped'' \<and> (en_failure_emitter en = None \<longrightarrow> (out, w') = (quiet, v))
       \<and> (\<forall>E. en_failure_emitter en = Some E \<longrightarrow>
            (\<exists>f. ef_stage_id f = io_final_stage_id quiet \<and> ef_retry_plan f = io_retry_plan quiet \<and>
               map_failure_terminal (ef_terminal_type f) = io_kind quiet \<and>
               (en_failure_outcome_policy en = None \<longrightarrow> ef_should_emit f) \<and>
               (out, w') = (if \<not> ef_should_emit f then (quiet, v)
                 else case E f (coerce_event_payload cv event) v of
                   (Inr _, v') \<Rightarrow> (quiet\<lparr>io_emission_status := ''emitted''\<rparr>, v')
                 | (Inl _, v') \<Rightarrow> (quiet\<lparr>io_emission_status := ''failed''\<rparr>, v'))))"
proof -
  note run = raised_event [OF assms(1)]
  have out: "normalize_exception en exc (coerce_event_payload cv event) w2 = (out, w')" using assms(2) run by simp
  have quiet: "normalize_exception (en\<lparr>en_failure_emitter := None\<rparr>) exc (coerce_event_payload cv event) w2 = (quiet, v)"
    using assms(3) raised_event [of "en\<lparr>en_failure_emitter := None\<rparr>"] assms(1) raised_without_emitter by metis
  have status: "io_emission_status quiet = ''skipped''"
    using quiet by (auto simp: without_emitter Let_def split: prod.splits)
  have none: "en_failure_emitter en = None \<longrightarrow> (out, w') = (quiet, v)"
  proof
    assume "en_failure_emitter en = None"
    then have "en\<lparr>en_failure_emitter := None\<rparr> = en" by simp
    with out quiet show "(out, w') = (quiet, v)" by simp
  qed
  have some: "\<exists>f. ef_stage_id f = io_final_stage_id quiet \<and> ef_retry_plan f = io_retry_plan quiet \<and>
      map_failure_terminal (ef_terminal_type f) = io_kind quiet \<and> (en_failure_outcome_policy en = None \<longrightarrow> ef_should_emit f) \<and>
      (out, w') = (if \<not> ef_should_emit f then (quiet, v) else case E f (coerce_event_payload cv event) v of
         (Inr _, v') \<Rightarrow> (quiet\<lparr>io_emission_status := ''emitted''\<rparr>, v')
       | (Inl _, v') \<Rightarrow> (quiet\<lparr>io_emission_status := ''failed''\<rparr>, v'))" if "en_failure_emitter en = Some E" for E
    by (rule with_emitter [OF that quiet]) (use out in auto)
  note kinds = failure_kinds [OF out]
  show ?thesis
    by (intro conjI kinds [THEN conjunct1] kinds [THEN conjunct2, THEN conjunct1] kinds [THEN conjunct2, THEN conjunct2]
        status none) (intro allI impI, rule some)
qed

text \<open>An engine whose resolve stage times out, with the repository's own policies bound to it.\<close>

definition timeout_exception :: py_exception where
  "timeout_exception = \<lparr>ex_type_name = ''TimeoutError'', ex_text = ''slow'', ex_is_timeout_or_connection = True,
     ex_is_runtime_error = False, ex_stage_id = None\<rparr>"

definition policy_outcome :: "mapping option \<Rightarrow> error_classification \<Rightarrow> ('w, py_exception, engine_failure) io" where
  "policy_outcome plan c w =
     (case build_failure_outcome c None plan True of
        Inl (FailureOutcomeTypeError m) \<Rightarrow> (Inl (plain_exception ''FailureOutcomeTypeError'' m), w)
      | Inr fo \<Rightarrow> (Inr \<lparr>ef_terminal_type = PolicyTerminal (fo_terminal_type fo), ef_stage_id = fo_stage_id fo,
          ef_reason_code = fo_reason_code fo, ef_severity = fo_severity fo, ef_retry_plan = fo_retry_plan fo,
          ef_should_emit = fo_should_emit fo\<rparr>, w))"

definition timeout_engine :: "(string list, (string list, unit) ingestion_state) ingestion_engine" where
  "timeout_engine = demo_engine\<lparr>
     en_stage_handlers := AList.update ''resolve'' (\<lambda>_ w. (Inl timeout_exception, w)) (ingestion_handlers demo_ports),
     en_error_handling_policy := Some (\<lambda>exc stage w. (Inr (classify_exception exc stage), w)),
     en_failure_outcome_policy := Some (policy_outcome (Some [(''next_attempt'', VInt 1)]))\<rparr>"

theorem failure_policies_contained_witness:
  "let en = timeout_engine\<lparr>en_failure_outcome_policy := None,
       en_failure_emitter := Some (\<lambda>_ _ log. (Inl (plain_exception ''OSError'' ''x''), log @ [''called'']))\<rparr>;
     (out, log) = process_event demo_conv en demo_factory (VDict demo_event) [] in
   io_kind out = DEFERRED_RETRY \<and> io_emission_status out = ''failed'' \<and> log = [''called'']"
proof -
  let ?en = "timeout_engine\<lparr>en_failure_outcome_policy := None,
    en_failure_emitter := Some (\<lambda>_ _ log. (Inl (plain_exception ''OSError'' ''x''), log @ [''called'']))\<rparr>"
  let ?st = "state_from_event demo_conv (\<lambda>_. ''h'') demo_event (Some ()) :: (string list, unit) ingestion_state"
  have f: "demo_factory (coerce_event_payload demo_conv (VDict demo_event)) [] = (Inr ?st, [])"
    by (simp add: demo_factory_def coerce_event_payload_def)
  have r: "run_pipeline (en_runner ?en) ?st (en_stage_handlers ?en) (en_cancellation_signal ?en) P_FAILED [] =
      (Inl (HandlerRaised timeout_exception), [])"
    by (simp add: timeout_engine_def demo_engine_def ingestion_runner_def run_pipeline_def run_loop.simps table_entries)
  from f r have raises: "run_raises ?en demo_factory (coerce_event_payload demo_conv (VDict demo_event)) [] timeout_exception []"
    unfolding run_raises_def by (metis pipeline_exception.simps(5))
  have p: "en_error_handling_policy ?en = Some (\<lambda>exc stage w. (Inr (classify_exception exc stage), w))"
    by (simp add: timeout_engine_def)
  have c: "ec_retryable (classify_exception timeout_exception None)"
    by (simp add: classify_exception_def timeout_exception_def)
  obtain out log where out: "process_event demo_conv ?en demo_factory (VDict demo_event) [] = (out, log)" by fastforce
  obtain quiet v where quiet: "process_event demo_conv (?en\<lparr>en_failure_emitter := None\<rparr>) demo_factory (VDict demo_event) [] = (quiet, v)"
    by fastforce
  have v: "snd (process_event demo_conv (?en\<lparr>en_failure_emitter := None\<rparr>) demo_factory (VDict demo_event) []) = []"
    by code_simp
  show ?thesis
    using failure_policies_contained [OF raises out quiet] p c v quiet out by (auto simp: timeout_exception_def)
qed

text \<open>
  The outcome policy of this repository does not fit the engine: bound as its failure outcome policy,
  it answers a retryable timeout with its own retry member, which the engine does not recognise, so the
  event ends as a terminal failure although a retry plan was made.
\<close>

theorem policy_retry_not_recognised:
  "(let out = fst (process_event demo_conv timeout_engine demo_factory (VDict demo_event) []) in
    io_kind out = FAILED_TERMINAL \<and> io_retry_plan out = Some [(''next_attempt'', VInt 1)])"
  by code_simp

end
