(* ===== verification/Context.thy ===== *)
theory Context
  imports Prelude
begin

text \<open>
  The runtime and processing contexts of \<^verbatim>\<open>application/contracts/context.py\<close>. A context is an immutable
  value: constructing one, and every clone of one, runs its validation. Datetimes are integers
  (microseconds); a set of allowed profiles is read like a list. The three required dependency ids are
  validated in alphabetical order, where the code iterates over a frozen set.
\<close>

section \<open>Model\<close>

datatype context_error =
    ContextValidationError string
  | UnsupportedRuntimeModeError string
  | InvalidCandidateContextError string
  | RetryStateError string

definition SUPPORTED_RUNTIME_MODES :: "string list" where
  "SUPPORTED_RUNTIME_MODES = [''headless'', ''desktop'', ''shadow'', ''v1'', ''v2'']"

definition REQUIRED_DEPENDENCY_IDS :: "string list" where
  "REQUIRED_DEPENDENCY_IDS = [''clock'', ''sync'', ''ui'']"

record runtime_context =
  rx_mode :: string
  rx_profile :: string
  rx_session_id :: string
  rx_event_id :: string
  rx_trace_id :: string
  rx_dependency_ids :: mapping
  rx_settings_snapshot :: mapping

record processing_context =
  pcx_runtime_context :: runtime_context
  pcx_source_path :: string
  pcx_event_type :: string
  pcx_observed_at :: int
  pcx_event_id :: string
  pcx_trace_id :: string
  pcx_retry_attempt :: int
  pcx_retry_delay_seconds :: rat
  pcx_force_paths :: "string list"
  pcx_failure_reason :: "string option"
  pcx_route_hint :: "string option"

definition as_non_empty_string :: "string \<Rightarrow> pyval \<Rightarrow> context_error + string" where
  "as_non_empty_string field v =
     (case v of
        VStr s \<Rightarrow> if strip s = [] then Inl (ContextValidationError (field @ '' must be a non-empty string''))
                  else Inr (strip s)
      | _ \<Rightarrow> Inl (ContextValidationError (field @ '' must be a non-empty string'')))"

definition validate_path_token :: "string \<Rightarrow> string \<Rightarrow> context_error + string" where
  "validate_path_token field path =
     (let normalized = strip path in
      if normalized = [] then Inl (InvalidCandidateContextError (field @ '' must be non-empty''))
      else if CHR 0x00 \<in> set normalized
      then Inl (InvalidCandidateContextError (field @ '' contains invalid token''))
      else Inr normalized)"

definition normalize_force_path :: "pyval \<Rightarrow> context_error + string" where
  "normalize_force_path v =
     (case v of VStr s \<Rightarrow> validate_path_token ''force_paths entry'' s
      | _ \<Rightarrow> Inl (InvalidCandidateContextError ''force_paths entries must be strings''))"

definition normalize_force_paths :: "pyval \<Rightarrow> context_error + string list" where
  "normalize_force_paths v =
     (case v of
        VNone \<Rightarrow> Inr []
      | VStr s \<Rightarrow> rmap normalize_force_path [VStr s]
      | VList vs \<Rightarrow> rmap normalize_force_path vs
      | _ \<Rightarrow> Inl (InvalidCandidateContextError ''force_paths must be a sequence of paths''))"

definition is_profile_allowed_for_mode :: "string \<Rightarrow> string \<Rightarrow> mapping \<Rightarrow> context_error + bool" where
  "is_profile_allowed_for_mode mode profile settings =
     (case get_or_none settings ''allowed_profiles_by_mode'' of
        VNone \<Rightarrow> Inr True
      | VDict allowed \<Rightarrow>
          (case get_or_none allowed mode of
             VNone \<Rightarrow> Inr True
           | VList entries \<Rightarrow>
               rbind (rmap (as_non_empty_string ''allowed profile'') entries) (\<lambda>ps.
               Inr (profile \<in> set (map str_lower ps)))
           | _ \<Rightarrow> Inl (ContextValidationError ''allowed_profiles_by_mode entries must be tuple/list/set''))
      | _ \<Rightarrow> Inl (ContextValidationError ''allowed_profiles_by_mode must be a mapping''))"

text \<open>\<^verbatim>\<open>RuntimeContext.__post_init__\<close>: the validated context, with mode and profile normalised.\<close>

definition validate_runtime_context :: "runtime_context \<Rightarrow> context_error + runtime_context" where
  "validate_runtime_context rx =
     (let mode = str_lower (strip (rx_mode rx)) in
      rbind (raise_if (mode \<notin> set SUPPORTED_RUNTIME_MODES)
        (UnsupportedRuntimeModeError (''unsupported runtime mode: '' @ rx_mode rx))) (\<lambda>_.
      rbind (as_non_empty_string ''profile'' (VStr (rx_profile rx))) (\<lambda>profile.
      rbind (as_non_empty_string ''session_id'' (VStr (rx_session_id rx))) (\<lambda>_.
      rbind (as_non_empty_string ''event_id'' (VStr (rx_event_id rx))) (\<lambda>_.
      rbind (as_non_empty_string ''trace_id'' (VStr (rx_trace_id rx))) (\<lambda>_.
      let missing = filter (\<lambda>k. map_of (rx_dependency_ids rx) k = None) REQUIRED_DEPENDENCY_IDS in
      rbind (raise_if (missing \<noteq> [])
        (ContextValidationError (''missing dependency_ids: '' @ str_join '', '' missing))) (\<lambda>_.
      rbind (rmap (\<lambda>k. as_non_empty_string (k @ '' id'') (get_or_none (rx_dependency_ids rx) k))
               REQUIRED_DEPENDENCY_IDS) (\<lambda>_.
      Inr (rx\<lparr>rx_mode := mode, rx_profile := str_lower profile\<rparr>)))))))))"

definition runtime_from_settings :: "mapping \<Rightarrow> mapping \<Rightarrow> context_error + runtime_context" where
  "runtime_from_settings settings dependency_ids =
     rbind (as_non_empty_string ''mode'' (get_or_none settings ''mode'')) (\<lambda>m. let mode = str_lower m in
     rbind (as_non_empty_string ''profile'' (get_or_none settings ''profile'')) (\<lambda>p. let profile = str_lower p in
     rbind (raise_if (mode \<notin> set SUPPORTED_RUNTIME_MODES)
       (UnsupportedRuntimeModeError (''unsupported runtime mode: '' @ mode))) (\<lambda>_.
     rbind (is_profile_allowed_for_mode mode profile settings) (\<lambda>allowed.
     rbind (raise_if (\<not> allowed)
       (UnsupportedRuntimeModeError (''profile '' @ [CHR 39] @ profile @ [CHR 39] @
          '' is not allowed for mode '' @ [CHR 39] @ mode @ [CHR 39]))) (\<lambda>_.
     rbind (as_non_empty_string ''session_id'' (get_or_none settings ''session_id'')) (\<lambda>session_id.
     rbind (as_non_empty_string ''event_id'' (get_or_none settings ''event_id'')) (\<lambda>event_id.
     rbind (as_non_empty_string ''trace_id'' (get_or_none settings ''trace_id'')) (\<lambda>trace_id.
     rbind (validate_runtime_context
       \<lparr>rx_mode = mode, rx_profile = profile, rx_session_id = session_id, rx_event_id = event_id,
        rx_trace_id = trace_id, rx_dependency_ids = dependency_ids, rx_settings_snapshot = settings\<rparr>)
       validate_runtime_context))))))))"

text \<open>\<^verbatim>\<open>ProcessingContext.__post_init__\<close> validates and changes nothing of its own.\<close>

definition validate_processing_context :: "processing_context \<Rightarrow> context_error + processing_context" where
  "validate_processing_context px =
     rbind (validate_runtime_context (pcx_runtime_context px)) (\<lambda>rx.
     rbind (validate_path_token ''source_path'' (pcx_source_path px)) (\<lambda>_.
     rbind (as_non_empty_string ''event_type'' (VStr (pcx_event_type px))) (\<lambda>_.
     rbind (as_non_empty_string ''event_id'' (VStr (pcx_event_id px))) (\<lambda>_.
     rbind (as_non_empty_string ''trace_id'' (VStr (pcx_trace_id px))) (\<lambda>_.
     rbind (raise_if (pcx_retry_attempt px < 0) (RetryStateError ''retry_attempt cannot be negative'')) (\<lambda>_.
     rbind (raise_if (pcx_retry_delay_seconds px < 0) (RetryStateError ''retry_delay_seconds cannot be negative'')) (\<lambda>_.
     rbind (normalize_force_paths (VList (map VStr (pcx_force_paths px)))) (\<lambda>_.
     Inr (px\<lparr>pcx_runtime_context := rx\<rparr>)))))))))"

definition for_candidate :: "runtime_context \<Rightarrow> mapping \<Rightarrow> context_error + processing_context" where
  "for_candidate rx0 candidate_event =
     rbind (validate_runtime_context rx0) (\<lambda>rx.
     rbind (as_non_empty_string ''source_path'' (get_or_none candidate_event ''source_path'')) (\<lambda>raw.
     rbind (validate_path_token ''source_path'' raw) (\<lambda>source_path.
     rbind (as_non_empty_string ''event_type'' (get_or_none candidate_event ''event_type'')) (\<lambda>event_type.
     case get_or_none candidate_event ''observed_at'' of
       VTime observed_at \<Rightarrow>
         rbind (normalize_force_paths (get_or_none candidate_event ''force_paths'')) (\<lambda>force_paths.
         rbind (as_non_empty_string ''event_id''
                  (dict_get_or candidate_event ''event_id'' (VStr (rx_event_id rx)))) (\<lambda>event_id.
         rbind (as_non_empty_string ''trace_id''
                  (dict_get_or candidate_event ''trace_id'' (VStr (rx_trace_id rx)))) (\<lambda>trace_id.
         rbind (validate_processing_context
           \<lparr>pcx_runtime_context = rx, pcx_source_path = source_path, pcx_event_type = event_type,
            pcx_observed_at = observed_at, pcx_event_id = event_id, pcx_trace_id = trace_id,
            pcx_retry_attempt = 0, pcx_retry_delay_seconds = 0, pcx_force_paths = force_paths,
            pcx_failure_reason = None, pcx_route_hint = None\<rparr>)
           validate_processing_context)))
     | _ \<Rightarrow> Inl (InvalidCandidateContextError ''observed_at must be a datetime'')))))"

definition with_retry :: "int \<Rightarrow> rat \<Rightarrow> processing_context \<Rightarrow> context_error + processing_context" where
  "with_retry attempt_index delay_seconds px =
     rbind (raise_if (attempt_index < 0 \<or> attempt_index < pcx_retry_attempt px)
       (RetryStateError ''retry attempt must be monotonic and non-negative'')) (\<lambda>_.
     rbind (raise_if (delay_seconds < 0) (RetryStateError ''retry delay cannot be negative'')) (\<lambda>_.
     validate_processing_context (px\<lparr>pcx_retry_attempt := attempt_index, pcx_retry_delay_seconds := delay_seconds\<rparr>)))"

definition with_failure :: "pyval \<Rightarrow> processing_context \<Rightarrow> context_error + processing_context" where
  "with_failure reason px =
     rbind (as_non_empty_string ''reason'' reason) (\<lambda>r.
     validate_processing_context (px\<lparr>pcx_failure_reason := Some r\<rparr>))"

definition with_route_hint :: "pyval \<Rightarrow> processing_context \<Rightarrow> context_error + processing_context" where
  "with_route_hint route_hint px =
     rbind (as_non_empty_string ''route_hint'' route_hint) (\<lambda>r.
     validate_processing_context (px\<lparr>pcx_route_hint := Some r\<rparr>))"

section \<open>Valid contexts\<close>

definition runtime_ok :: "runtime_context \<Rightarrow> bool" where
  "runtime_ok rx \<longleftrightarrow>
     rx_mode rx \<in> set SUPPORTED_RUNTIME_MODES \<and> strip (rx_profile rx) \<noteq> [] \<and>
     str_lower (strip (rx_profile rx)) = rx_profile rx \<and> strip (rx_session_id rx) \<noteq> [] \<and>
     strip (rx_event_id rx) \<noteq> [] \<and> strip (rx_trace_id rx) \<noteq> [] \<and>
     (\<forall>k \<in> set REQUIRED_DEPENDENCY_IDS. \<exists>s. map_of (rx_dependency_ids rx) k = Some (VStr s) \<and> strip s \<noteq> [])"

definition path_token :: "string \<Rightarrow> bool" where
  "path_token s \<longleftrightarrow> strip s \<noteq> [] \<and> CHR 0x00 \<notin> set (strip s)"

definition processing_ok :: "processing_context \<Rightarrow> bool" where
  "processing_ok px \<longleftrightarrow>
     runtime_ok (pcx_runtime_context px) \<and> path_token (pcx_source_path px) \<and>
     strip (pcx_event_type px) \<noteq> [] \<and> strip (pcx_event_id px) \<noteq> [] \<and> strip (pcx_trace_id px) \<noteq> [] \<and>
     0 \<le> pcx_retry_attempt px \<and> 0 \<le> pcx_retry_delay_seconds px \<and> list_all path_token (pcx_force_paths px)"

lemma as_non_empty_string_Inr [result_simps]:
  "as_non_empty_string f v = Inr s \<longleftrightarrow> (\<exists>t. v = VStr t \<and> strip t \<noteq> [] \<and> s = strip t)"
  by (auto simp: as_non_empty_string_def split: pyval.splits if_splits)

lemma as_non_empty_string_VStr:
  "strip t \<noteq> [] \<Longrightarrow> as_non_empty_string f (VStr t) = Inr (strip t)"
  by (simp add: as_non_empty_string_def)

lemma validate_path_token_Inr [result_simps]:
  "validate_path_token f s = Inr r \<longleftrightarrow> path_token s \<and> r = strip s"
  by (auto simp: validate_path_token_def path_token_def Let_def split: if_splits)

lemma path_token_strip [simp]: "path_token (strip s) = path_token s"
  by (simp add: path_token_def)

lemma normalize_force_path_Inr [result_simps]:
  "normalize_force_path v = Inr r \<longleftrightarrow> (\<exists>s. v = VStr s \<and> path_token s \<and> r = strip s)"
  by (auto simp: normalize_force_path_def result_simps split: pyval.splits)

lemma normalize_force_paths_VList:
  "normalize_force_paths (VList vs) = Inr rs \<longleftrightarrow> list_all2 (\<lambda>v r. \<exists>s. v = VStr s \<and> path_token s \<and> r = strip s) vs rs"
  by (simp add: normalize_force_paths_def rmap_eq_Inr result_simps)

lemma normalize_force_paths_tokens:
  assumes "normalize_force_paths v = Inr rs"
  shows "list_all path_token rs"
proof -
  have "list_all path_token rs" if "list_all2 (\<lambda>v r. \<exists>s. v = VStr s \<and> path_token s \<and> r = strip s) vs rs" for vs
    using that by (induction rule: list_all2_induct) auto
  with assms show ?thesis
    by (auto simp: normalize_force_paths_def rmap_eq_Inr result_simps simp del: rmap.simps split: pyval.splits)
qed

lemma normalize_stored_paths:
  "list_all path_token ps \<Longrightarrow> normalize_force_paths (VList (map VStr ps)) = Inr (map strip ps)"
  by (induction ps) (auto simp: normalize_force_paths_VList)

lemma normalize_stored_pathsD:
  "normalize_force_paths (VList (map VStr ps)) = Inr rs \<Longrightarrow> list_all path_token ps"
  by (induction ps arbitrary: rs) (auto simp: normalize_force_paths_VList list_all2_Cons1)

lemma supported_mode_normal:
  "m \<in> set SUPPORTED_RUNTIME_MODES \<Longrightarrow> str_lower (strip m) = m"
proof -
  have "list_all (\<lambda>m. str_lower (strip m) = m) SUPPORTED_RUNTIME_MODES" by code_simp
  then show "m \<in> set SUPPORTED_RUNTIME_MODES \<Longrightarrow> ?thesis" by (simp add: list_all_iff)
qed

lemma dependency_ids_checked:
  "(\<exists>ys. rmap (\<lambda>k. as_non_empty_string (k @ '' id'') (get_or_none d k)) ks = Inr ys) \<longleftrightarrow>
   (\<forall>k \<in> set ks. \<exists>s. map_of d k = Some (VStr s) \<and> strip s \<noteq> [])"
  by (induction ks) (auto simp: result_simps get_or_none_def dict_get_or_def split: option.splits)

lemma validate_runtime_ok: "validate_runtime_context rx = Inr rx' \<Longrightarrow> runtime_ok rx'"
  using dependency_ids_checked [of "rx_dependency_ids rx" REQUIRED_DEPENDENCY_IDS]
  by (auto simp: validate_runtime_context_def runtime_ok_def result_simps Let_def str_lower_strip [symmetric] simp del: rmap.simps)

lemma validate_runtime_same: "runtime_ok rx \<Longrightarrow> validate_runtime_context rx = Inr rx"
proof -
  assume ok: "runtime_ok rx"
  then have mode: "rx_mode rx \<in> set SUPPORTED_RUNTIME_MODES" "str_lower (strip (rx_mode rx)) = rx_mode rx"
    by (auto simp: runtime_ok_def supported_mode_normal)
  from ok have ids: "\<forall>k \<in> set REQUIRED_DEPENDENCY_IDS. \<exists>s. map_of (rx_dependency_ids rx) k = Some (VStr s) \<and> strip s \<noteq> []"
    by (simp add: runtime_ok_def)
  then have missing: "filter (\<lambda>k. map_of (rx_dependency_ids rx) k = None) REQUIRED_DEPENDENCY_IDS = []"
    by (auto simp: filter_empty_conv)
  from ids obtain ys where
    "rmap (\<lambda>k. as_non_empty_string (k @ '' id'') (get_or_none (rx_dependency_ids rx) k)) REQUIRED_DEPENDENCY_IDS = Inr ys"
    using dependency_ids_checked by blast
  with ok mode missing show ?thesis
    by (cases rx) (simp add: validate_runtime_context_def runtime_ok_def as_non_empty_string_VStr Let_def)
qed

lemma runtime_from_settings_ok: "runtime_from_settings s d = Inr rx \<Longrightarrow> runtime_ok rx"
  by (auto simp: runtime_from_settings_def result_simps Let_def dest: validate_runtime_ok)

lemma validate_processing_Inr [result_simps]:
  "validate_processing_context px = Inr px' \<longleftrightarrow>
     (\<exists>rx. validate_runtime_context (pcx_runtime_context px) = Inr rx \<and> px' = px\<lparr>pcx_runtime_context := rx\<rparr>) \<and>
     processing_ok px'"
  using validate_runtime_ok
  by (auto simp: validate_processing_context_def processing_ok_def result_simps list_all_iff normalize_stored_paths
      dest: normalize_stored_pathsD)

lemma processing_same: "processing_ok px \<Longrightarrow> validate_processing_context px = Inr px"
  by (simp add: validate_processing_Inr validate_runtime_same processing_ok_def)

lemma for_candidate_ok: "for_candidate rx ev = Inr px \<Longrightarrow> processing_ok px"
  by (cases "get_or_none ev ''observed_at''") (auto simp: for_candidate_def result_simps)

text \<open>What a clone keeps: the event the context is about. The attempt index never goes back.\<close>

definition same_event :: "processing_context \<Rightarrow> processing_context \<Rightarrow> bool" where
  "same_event px px' \<longleftrightarrow>
     pcx_runtime_context px' = pcx_runtime_context px \<and> pcx_source_path px' = pcx_source_path px \<and>
     pcx_event_type px' = pcx_event_type px \<and> pcx_observed_at px' = pcx_observed_at px \<and>
     pcx_event_id px' = pcx_event_id px \<and> pcx_trace_id px' = pcx_trace_id px \<and>
     pcx_force_paths px' = pcx_force_paths px \<and> pcx_retry_attempt px \<le> pcx_retry_attempt px'"

datatype context_op = ContextRetry int rat | ContextFailure pyval | ContextRoute pyval

fun context_call :: "context_op \<Rightarrow> processing_context \<Rightarrow> context_error + processing_context" where
  "context_call (ContextRetry n d) px = with_retry n d px"
| "context_call (ContextFailure r) px = with_failure r px"
| "context_call (ContextRoute r) px = with_route_hint r px"

text \<open>A clone that raises leaves the caller with the context it had.\<close>

definition context_step :: "context_op \<Rightarrow> processing_context \<Rightarrow> processing_context" where
  "context_step x px = (case context_call x px of Inl _ \<Rightarrow> px | Inr px' \<Rightarrow> px')"

lemma context_call_Inr:
  assumes "processing_ok px" and "context_call x px = Inr px'"
  shows "processing_ok px' \<and> same_event px px'"
proof -
  have "runtime_ok (pcx_runtime_context px)" using assms(1) by (simp add: processing_ok_def)
  with assms(2) show ?thesis
    by (cases x) (auto simp: with_retry_def with_failure_def with_route_hint_def result_simps same_event_def
        dest!: validate_runtime_same)
qed

interpretation contexts: guarded_calls context_step "\<lambda>_. True" processing_ok same_event
  by unfold_locales
    (auto simp: context_step_def same_event_def split: sum.splits dest: context_call_Inr)

section \<open>Properties\<close>

text \<open>
  C28. Every processing context is valid and stays about its event: one made for a candidate passes its
  own validation, and after any sequence of retry, failure and route clones it still does, with the
  event's identity, path, kind and time unchanged, never on an earlier attempt; a retry for an earlier
  attempt or with a negative delay is refused.
\<close>

theorem processing_context_life:
  assumes "for_candidate rx ev = Inr px"
  shows "processing_ok (fold context_step xs px) \<and> same_event px (fold context_step xs px) \<and>
    (n < pcx_retry_attempt (fold context_step xs px) \<or> d < 0 \<longrightarrow>
      (\<exists>m. with_retry n d (fold context_step xs px) = Inl (RetryStateError m)))"
proof -
  let ?px = "fold context_step xs px"
  have ok: "processing_ok px" using assms by (rule for_candidate_ok)
  have "processing_ok ?px" "same_event px ?px"
    using contexts.runs_inv [of xs px] contexts.runs_rel [of xs px] ok by (simp_all add: list_all_iff)
  then show ?thesis by (auto simp: with_retry_def raise_if_def)
qed

definition demo_runtime :: runtime_context where
  "demo_runtime = \<lparr>rx_mode = ''headless'', rx_profile = ''default'', rx_session_id = ''s1'', rx_event_id = ''e0'',
     rx_trace_id = ''t1'', rx_dependency_ids = [(''clock'', VStr ''c''), (''ui'', VStr ''u''), (''sync'', VStr ''n'')],
     rx_settings_snapshot = []\<rparr>"

definition demo_context :: processing_context where
  "demo_context = \<lparr>pcx_runtime_context = demo_runtime, pcx_source_path = ''/in/a.txt'', pcx_event_type = ''created'',
     pcx_observed_at = 5, pcx_event_id = ''e1'', pcx_trace_id = ''t1'', pcx_retry_attempt = 0,
     pcx_retry_delay_seconds = 0, pcx_force_paths = [], pcx_failure_reason = None, pcx_route_hint = None\<rparr>"

theorem processing_context_life_witness:
  "for_candidate demo_runtime [(''source_path'', VStr '' /in/a.txt''), (''event_type'', VStr ''created''),
     (''observed_at'', VTime 5), (''event_id'', VStr ''e1'')] = Inr demo_context \<and>
   (\<exists>m. with_retry 0 1 (fold context_step [ContextRetry 2 (1 / 2), ContextFailure (VStr ''x'')] demo_context) =
      Inl (RetryStateError m))"
proof -
  have c: "for_candidate demo_runtime [(''source_path'', VStr '' /in/a.txt''), (''event_type'', VStr ''created''),
     (''observed_at'', VTime 5), (''event_id'', VStr ''e1'')] = Inr demo_context" by code_simp
  have "0 < pcx_retry_attempt (fold context_step [ContextRetry 2 (1 / 2), ContextFailure (VStr ''x'')] demo_context)"
    by code_simp
  with c processing_context_life [OF c, where xs = "[ContextRetry 2 (1 / 2), ContextFailure (VStr ''x'')]" and n = 0 and d = 1]
  show ?thesis by blast
qed

end
