(* ===== verification/Events.thy ===== *)
theory Events
  imports Context
begin

text \<open>
  The canonical events of \<^verbatim>\<open>application/contracts/events.py\<close>. The class of an event is its kind; the
  environment gives the current time (\<^verbatim>\<open>datetime.now(tz=UTC)\<close>), the text of a datetime and whether a
  datetime carries a zone. A dynamic value of the model is never a dataclass, so an object that is no
  primitive, mapping or sequence is not serialisable.
\<close>

section \<open>Model\<close>

datatype event_error =
    EventValidationError string
  | EventSerializationError string
  | UnsupportedOutcomeError string

datatype event_kind = INGESTION_SUCCEEDED | INGESTION_DEFERRED | INGESTION_FAILED | SYNC_TRIGGERED | STARTUP_FAILED

datatype event_severity = SEV_INFO | SEV_WARNING | SEV_ERROR

datatype event_stage = STAGE_STARTUP | STAGE_RUNTIME | STAGE_INGESTION | STAGE_SYNC

fun event_kind_value :: "event_kind \<Rightarrow> string" where
  "event_kind_value INGESTION_SUCCEEDED = ''ingestion_succeeded''"
| "event_kind_value INGESTION_DEFERRED = ''ingestion_deferred''"
| "event_kind_value INGESTION_FAILED = ''ingestion_failed''"
| "event_kind_value SYNC_TRIGGERED = ''sync_triggered''"
| "event_kind_value STARTUP_FAILED = ''startup_failed''"

fun severity_value :: "event_severity \<Rightarrow> string" where
  "severity_value SEV_INFO = ''info''"
| "severity_value SEV_WARNING = ''warning''"
| "severity_value SEV_ERROR = ''error''"

fun event_stage_value :: "event_stage \<Rightarrow> string" where
  "event_stage_value STAGE_STARTUP = ''startup''"
| "event_stage_value STAGE_RUNTIME = ''runtime''"
| "event_stage_value STAGE_INGESTION = ''ingestion''"
| "event_stage_value STAGE_SYNC = ''sync''"

record event_env =
  ee_now :: int
  ee_isoformat :: "int \<Rightarrow> string"
  ee_aware :: "int \<Rightarrow> bool"

record base_event =
  ev_event_id :: string
  ev_trace_id :: string
  ev_occurred_at :: int
  ev_stage :: event_stage
  ev_kind :: event_kind
  ev_severity :: event_severity
  ev_payload :: mapping

fun normalize_primitive :: "(int \<Rightarrow> string) \<Rightarrow> pyval \<Rightarrow> event_error + pyval"
and normalize_items :: "(int \<Rightarrow> string) \<Rightarrow> (string \<times> pyval) list \<Rightarrow> event_error + (string \<times> pyval) list"
and normalize_sequence :: "(int \<Rightarrow> string) \<Rightarrow> pyval list \<Rightarrow> event_error + pyval list" where
  "normalize_primitive fmt (VTime t) = Inr (VStr (fmt t))"
| "normalize_primitive fmt (VDict d) = rbind (normalize_items fmt d) (\<lambda>e. Inr (VDict e))"
| "normalize_primitive fmt (VList vs) = rbind (normalize_sequence fmt vs) (\<lambda>us. Inr (VList us))"
| "normalize_primitive fmt (VObj t) =
     Inl (EventSerializationError (''non-serializable payload value: '' @ t))"
| "normalize_primitive fmt v = Inr v"
| "normalize_items fmt [] = Inr []"
| "normalize_items fmt ((k, v) # d) =
     rbind (normalize_primitive fmt v) (\<lambda>u. rbind (normalize_items fmt d) (\<lambda>e. Inr ((k, u) # e)))"
| "normalize_sequence fmt [] = Inr []"
| "normalize_sequence fmt (v # vs) =
     rbind (normalize_primitive fmt v) (\<lambda>u. rbind (normalize_sequence fmt vs) (\<lambda>us. Inr (u # us)))"

text \<open>\<^verbatim>\<open>BaseEvent.__post_init__\<close>: the validated event with its payload normalised.\<close>

definition make_event :: "event_env \<Rightarrow> base_event \<Rightarrow> event_error + base_event" where
  "make_event env ev =
     rbind (raise_if (strip (ev_event_id ev) = []) (EventValidationError ''event_id must be a non-empty string'')) (\<lambda>_.
     rbind (raise_if (strip (ev_trace_id ev) = []) (EventValidationError ''trace_id must be a non-empty string'')) (\<lambda>_.
     rbind (raise_if (\<not> ee_aware env (ev_occurred_at ev))
       (EventValidationError ''occurred_at must be timezone-aware'')) (\<lambda>_.
     rbind (normalize_items (ee_isoformat env) (ev_payload ev)) (\<lambda>p. Inr (ev\<lparr>ev_payload := p\<rparr>)))))"

definition extract_occurred_at :: "event_env \<Rightarrow> mapping \<Rightarrow> event_error + int" where
  "extract_occurred_at env outcome =
     (case get_or_none outcome ''occurred_at'' of
        VNone \<Rightarrow> Inr (ee_now env)
      | VTime t \<Rightarrow> Inr t
      | _ \<Rightarrow> Inl (EventValidationError ''outcome.occurred_at must be datetime when provided''))"

text \<open>The correlation pair of a runtime or processing context is passed as two strings.\<close>

definition event_from_outcome :: "event_env \<Rightarrow> mapping \<Rightarrow> string \<Rightarrow> string \<Rightarrow> event_error + base_event" where
  "event_from_outcome env outcome event_id trace_id =
     (case get_or_none outcome ''status'' of
        VStr status \<Rightarrow>
          rbind (extract_occurred_at env outcome) (\<lambda>occurred_at.
          let s = str_lower (strip status);
              event = (\<lambda>stage kind severity payload. make_event env
                \<lparr>ev_event_id = event_id, ev_trace_id = trace_id, ev_occurred_at = occurred_at, ev_stage = stage,
                 ev_kind = kind, ev_severity = severity, ev_payload = payload\<rparr>);
              given = (\<lambda>k. case map_of outcome k of None \<Rightarrow> [] | Some v \<Rightarrow> [(k, v)])
          in if s = ''succeeded'' then event STAGE_INGESTION INGESTION_SUCCEEDED SEV_INFO (given ''candidate_id'')
             else if s = ''failed''
             then event STAGE_INGESTION INGESTION_FAILED SEV_ERROR
               [(''reason_code'', dict_get_or outcome ''reason_code'' (VStr ''unknown_failure''))]
             else if s = ''deferred_retry'' \<or> s = ''deferred_stage''
             then event STAGE_INGESTION INGESTION_DEFERRED SEV_WARNING
               [(''reason_code'', dict_get_or outcome ''reason_code'' (VStr s))]
             else if s = ''sync_triggered'' then event STAGE_SYNC SYNC_TRIGGERED SEV_INFO (given ''record_id'')
             else if s = ''startup_failed''
             then event STAGE_STARTUP STARTUP_FAILED SEV_ERROR
               [(''reason_code'', dict_get_or outcome ''reason_code'' (VStr ''startup_failed''))]
             else Inl (UnsupportedOutcomeError (''unsupported outcome status: '' @ status)))
      | _ \<Rightarrow> Inl (UnsupportedOutcomeError ''outcome.status must be a string''))"

definition event_payload :: "event_env \<Rightarrow> base_event \<Rightarrow> event_error + mapping" where
  "event_payload env ev =
     rbind (normalize_items (ee_isoformat env) (ev_payload ev)) (\<lambda>p.
     Inr [(''event_id'', VStr (ev_event_id ev)), (''trace_id'', VStr (ev_trace_id ev)),
          (''occurred_at'', VStr (ee_isoformat env (ev_occurred_at ev))),
          (''stage'', VStr (event_stage_value (ev_stage ev))), (''kind'', VStr (event_kind_value (ev_kind ev))),
          (''severity'', VStr (severity_value (ev_severity ev))), (''payload'', VDict p)])"

section \<open>Serialisable values\<close>

text \<open>The values a transport can carry: no datetimes and no foreign objects, at any depth.\<close>

fun plain_value :: "pyval \<Rightarrow> bool"
and plain_items :: "(string \<times> pyval) list \<Rightarrow> bool"
and plain_sequence :: "pyval list \<Rightarrow> bool" where
  "plain_value (VTime _) = False"
| "plain_value (VObj _) = False"
| "plain_value (VDict d) = plain_items d"
| "plain_value (VList vs) = plain_sequence vs"
| "plain_value _ = True"
| "plain_items [] = True"
| "plain_items ((k, v) # d) = (plain_value v \<and> plain_items d)"
| "plain_sequence [] = True"
| "plain_sequence (v # vs) = (plain_value v \<and> plain_sequence vs)"

lemma normalize_plain:
  "normalize_primitive fmt v = Inr u \<Longrightarrow> plain_value u"
  "normalize_items fmt d = Inr e \<Longrightarrow> plain_items e"
  "normalize_sequence fmt vs = Inr us \<Longrightarrow> plain_sequence us"
  by (induction fmt v and fmt d and fmt vs arbitrary: u and e and us
      rule: normalize_primitive_normalize_items_normalize_sequence.induct)
    (auto simp: result_simps)

lemma normalize_plain_id:
  "plain_value v \<Longrightarrow> normalize_primitive fmt v = Inr v"
  "plain_items d \<Longrightarrow> normalize_items fmt d = Inr d"
  "plain_sequence vs \<Longrightarrow> normalize_sequence fmt vs = Inr vs"
  by (induction fmt v and fmt d and fmt vs
      rule: normalize_primitive_normalize_items_normalize_sequence.induct) auto

lemma normalize_items_keys: "normalize_items fmt d = Inr e \<Longrightarrow> map fst e = map fst d"
proof (induction d arbitrary: e)
  case (Cons p d)
  then show ?case by (cases p) (auto simp: result_simps)
qed simp

lemma make_event_Inr:
  "make_event env ev = Inr ev' \<longleftrightarrow>
     strip (ev_event_id ev) \<noteq> [] \<and> strip (ev_trace_id ev) \<noteq> [] \<and> ee_aware env (ev_occurred_at ev) \<and>
     (\<exists>p. normalize_items (ee_isoformat env) (ev_payload ev) = Inr p \<and> ev' = ev\<lparr>ev_payload := p\<rparr>)"
  by (auto simp: make_event_def result_simps)

lemma event_payload_total:
  "event_from_outcome env outcome i t = Inr ev \<Longrightarrow>
     \<exists>m. event_payload env ev = Inr m \<and> plain_items m \<and> get_or_none m ''payload'' = VDict (ev_payload ev)"
proof -
  assume "event_from_outcome env outcome i t = Inr ev"
  then obtain ev0 where "make_event env ev0 = Inr ev"
    by (auto simp: event_from_outcome_def result_simps Let_def split: pyval.splits if_splits)
  then have "plain_items (ev_payload ev)" by (auto simp: make_event_Inr dest: normalize_plain(2))
  then show ?thesis by (simp add: event_payload_def normalize_plain_id get_or_none_def dict_get_or_def)
qed

end
