(* ===== verification/App.thy ===== *)
theory App
  imports Engine Session Events
begin

text \<open>
  The runtime loop (\<^verbatim>\<open>application/runtime/dpost_app.py\<close>) and its host (\<^verbatim>\<open>runtime_host.py\<close>): the session
  around the loop, the batches of the event source, each event at most once by its id, the runtime and
  canonical events it emits and the summary it returns. The collaborators act on a world, which the
  session manager carries for its callbacks; the clock is read exactly where the code reads it. The
  continuous loop may run for ever, so a run is a value of \<open>option\<close> type: \<open>None\<close> is a run that does
  not return.
\<close>

section \<open>Model\<close>

datatype 'w event_source =
    PollSource "('w, py_exception, mapping list option) io"
  | OnceSource "('w, py_exception, mapping list) io"

record 'w app_ports =
  ap_event_source :: "'w event_source"
  ap_event_emitter :: "mapping \<Rightarrow> ('w, py_exception, unit) io"
  ap_clock :: "('w, py_exception, int) io"
  ap_engine_process :: "mapping \<Rightarrow> processing_context \<Rightarrow> ('w, py_exception, outcome_kind) io"
  ap_cancellation_signal :: "('w, py_exception, bool) io"
  ap_idle_wait :: "rat \<Rightarrow> ('w, py_exception, unit) io"
  ap_event_env :: "'w \<Rightarrow> event_env"
  ap_session_id :: string
  ap_trace_id :: string
  ap_stop_on_failure :: bool
  ap_loop_mode :: string
  ap_poll_interval_seconds :: rat
  ap_runtime_context :: runtime_context

record 'w app =
  app_session_manager :: "'w session_manager"
  app_seen_event_ids :: "string list"
  app_event_source_consumed :: bool

record run_counts =
  rn_processed :: int
  rn_skipped :: int
  rn_failed :: int

record app_result =
  ar_counts :: run_counts
  ar_terminal_reason :: string

fun session_exception :: "session_error \<Rightarrow> py_exception" where
  "session_exception (SessionTransitionError m) =
     (plain_exception ''SessionTransitionError'' m)\<lparr>ex_is_runtime_error := True\<rparr>"
| "session_exception (SessionNotStartedError m) =
     (plain_exception ''SessionNotStartedError'' m)\<lparr>ex_is_runtime_error := True\<rparr>"
| "session_exception (SessionTimeSourceError m) =
     (plain_exception ''SessionTimeSourceError'' m)\<lparr>ex_is_runtime_error := True\<rparr>"
| "session_exception (SessionPolicyError m) = plain_exception ''ValueError'' m"

fun context_exception :: "context_error \<Rightarrow> py_exception" where
  "context_exception (ContextValidationError m) = plain_exception ''ContextValidationError'' m"
| "context_exception (UnsupportedRuntimeModeError m) = plain_exception ''UnsupportedRuntimeModeError'' m"
| "context_exception (InvalidCandidateContextError m) = plain_exception ''InvalidCandidateContextError'' m"
| "context_exception (RetryStateError m) = plain_exception ''RetryStateError'' m"

fun event_exception :: "event_error \<Rightarrow> py_exception" where
  "event_exception (EventValidationError m) = plain_exception ''EventValidationError'' m"
| "event_exception (EventSerializationError m) = plain_exception ''EventSerializationError'' m"
| "event_exception (UnsupportedOutcomeError m) = plain_exception ''UnsupportedOutcomeError'' m"

fun outcome_kind_value :: "outcome_kind \<Rightarrow> string" where
  "outcome_kind_value SUCCEEDED = ''succeeded''"
| "outcome_kind_value DEFERRED_STAGE = ''deferred_stage''"
| "outcome_kind_value DEFERRED_RETRY = ''deferred_retry''"
| "outcome_kind_value KIND_REJECTED = ''rejected''"
| "outcome_kind_value FAILED_TERMINAL = ''failed_terminal''"

definition value_error :: "string \<Rightarrow> py_exception" where
  "value_error m = plain_exception ''ValueError'' m"

text \<open>The context every event of the run shares, and the checks of the constructor.\<close>

definition build_runtime_context ::
    "string \<Rightarrow> string \<Rightarrow> string \<Rightarrow> string \<Rightarrow> mapping \<Rightarrow> mapping \<Rightarrow> context_error + runtime_context" where
  "build_runtime_context mode profile session_id trace_id settings_snapshot dependency_ids =
     runtime_from_settings
       (dict_update [(''mode'', VStr mode), (''profile'', VStr profile), (''session_id'', VStr session_id),
          (''event_id'', VStr (trace_id @ '':runtime'')), (''trace_id'', VStr trace_id)] settings_snapshot)
       dependency_ids"

definition make_app ::
    "'w app_ports \<Rightarrow> string \<Rightarrow> string \<Rightarrow> mapping \<Rightarrow> mapping \<Rightarrow> 'w session_manager \<Rightarrow>
     py_exception + 'w app_ports \<times> 'w app" where
  "make_app p mode profile settings_snapshot dependency_ids m =
     (let lowered = str_lower (strip (ap_loop_mode p));
          loop_mode = (if lowered = [] then ''oneshot'' else lowered);
          ids = (if dependency_ids = [] then [(''clock'', VStr ''clock-default''), (''ui'', VStr ''ui-default''),
                   (''sync'', VStr ''sync-default'')] else dependency_ids)
      in rbind (raise_if (loop_mode \<noteq> ''oneshot'' \<and> loop_mode \<noteq> ''continuous'')
           (value_error (''loop_mode must be '' @ [CHR 39] @ ''oneshot'' @ [CHR 39] @ '' or '' @ [CHR 39] @ ''continuous'' @ [CHR 39]))) (\<lambda>_.
         rbind (raise_if (ap_poll_interval_seconds p < 0)
           (value_error ''poll_interval_seconds must be >= 0'')) (\<lambda>_.
         rbind (map_error context_exception
           (build_runtime_context mode profile (ap_session_id p) (ap_trace_id p) settings_snapshot ids)) (\<lambda>rx.
         Inr (p\<lparr>ap_loop_mode := loop_mode, ap_runtime_context := rx\<rparr>,
              \<lparr>app_session_manager = m, app_seen_event_ids = [], app_event_source_consumed = False\<rparr>)))))"

subsection \<open>Calls of the collaborators\<close>

definition app_world :: "'w app \<Rightarrow> 'w" where
  "app_world a = sm_world (app_session_manager a)"

definition on_world :: "('w, 'e, 'a) io \<Rightarrow> ('w app, 'e, 'a) io" where
  "on_world m a =
     (case m (app_world a) of
        (r, w) \<Rightarrow> (r, a\<lparr>app_session_manager := (app_session_manager a)\<lparr>sm_world := w\<rparr>\<rparr>))"

text \<open>A call of the session manager, which reads the clock only if it gets as far as needing the time.\<close>

definition session_io ::
    "'w app_ports \<Rightarrow> (session_state \<Rightarrow> bool) \<Rightarrow>
     (int \<Rightarrow> 'w session_manager \<Rightarrow> (session_error + 'x) \<times> 'w session_manager) \<Rightarrow> ('w app, py_exception, 'x) io" where
  "session_io p reads f a =
     io_bind (if reads (sm_state (app_session_manager a)) then on_world (ap_clock p) else io_return 0)
       (\<lambda>clk b. case f clk (app_session_manager b) of
          (r, m) \<Rightarrow> (map_error session_exception r, b\<lparr>app_session_manager := m\<rparr>)) a"

definition app_start :: "'w app_ports \<Rightarrow> ('w app, py_exception, session_transition_result) io" where
  "app_start p = session_io p (\<lambda>s. strip (ap_session_id p) \<noteq> [] \<and> ss_kind s = INACTIVE)
     (\<lambda>clk. start_session clk (ap_session_id p) None)"

definition needs_active :: "'w app_ports \<Rightarrow> session_state \<Rightarrow> bool" where
  "needs_active p s = (case require_active_session (ap_session_id p) s of Inl _ \<Rightarrow> False | Inr _ \<Rightarrow> True)"

definition app_activity :: "'w app_ports \<Rightarrow> ('w app, py_exception, session_transition_result) io" where
  "app_activity p = session_io p (needs_active p) (\<lambda>clk. record_activity clk (ap_session_id p) None)"

definition app_stop :: "'w app_ports \<Rightarrow> ('w app, py_exception, session_transition_result) io" where
  "app_stop p = session_io p (needs_active p) (\<lambda>clk. stop_session clk (ap_session_id p) None)"

definition app_abort :: "'w app_ports \<Rightarrow> string \<Rightarrow> ('w app, py_exception, session_transition_result) io" where
  "app_abort p why = session_io p (needs_active p) (\<lambda>clk. abort_session clk (ap_session_id p) None why)"

definition app_timeouts :: "'w app_ports \<Rightarrow> ('w app, py_exception, timeout_outcome) io" where
  "app_timeouts p = session_io p (\<lambda>s. ss_kind s = ACTIVE)
     (\<lambda>clk m. (rbind (evaluate_timeouts clk None (sm_policy m) (sm_state m)) (\<lambda>t. Inr (te_outcome t)), m))"

definition app_emit :: "'w app_ports \<Rightarrow> string \<Rightarrow> mapping \<Rightarrow> ('w app, py_exception, unit) io" where
  "app_emit p kind extra =
     io_bind (on_world (ap_clock p)) (\<lambda>now a.
       on_world (ap_event_emitter p
         (dict_update [(''kind'', VStr kind), (''session_id'', VStr (ap_session_id p)),
            (''trace_id'', VStr (ap_trace_id p)),
            (''occurred_at'', VStr (ee_isoformat (ap_event_env p (app_world a)) now))] extra)) a)"

subsection \<open>One event\<close>

definition extract_event_id :: "mapping \<Rightarrow> py_exception + string" where
  "extract_event_id event =
     (case get_or_none event ''event_id'' of
        VStr s \<Rightarrow> if strip s = []
                  then Inl (value_error ''event_id must be a non-empty string in runtime event payload'')
                  else Inr (strip s)
      | _ \<Rightarrow> Inl (value_error ''event_id must be a non-empty string in runtime event payload''))"

definition nonblank_text :: "string \<Rightarrow> pyval \<Rightarrow> py_exception + string" where
  "nonblank_text message v =
     (case v of VStr s \<Rightarrow> if strip s = [] then Inl (value_error message) else Inr s
      | _ \<Rightarrow> Inl (value_error message))"

definition build_processing_context ::
    "'w app_ports \<Rightarrow> mapping \<Rightarrow> string \<Rightarrow> ('w app, py_exception, processing_context) io" where
  "build_processing_context p event event_id =
     io_bind (io_lift (nonblank_text (''runtime event must include non-empty '' @ [CHR 39] @ ''path'' @ [CHR 39] @
          '' or '' @ [CHR 39] @ ''source_path'' @ [CHR 39])
       (dict_get_or event ''path'' (get_or_none event ''source_path'')))) (\<lambda>source_path.
     io_bind (on_world (ap_clock p)) (\<lambda>now.
     io_lift
       (case dict_get_or event ''observed_at'' (VTime now) of
          VTime observed_at \<Rightarrow>
            rbind (nonblank_text ''runtime event must include non-empty event type''
              (dict_get_or event ''event_type'' (dict_get_or event ''event_kind'' (VStr ''created'')))) (\<lambda>event_type.
            map_error context_exception (for_candidate (ap_runtime_context p)
              [(''source_path'', VStr source_path), (''event_type'', VStr event_type),
               (''observed_at'', VTime observed_at), (''event_id'', VStr event_id),
               (''trace_id'', VStr (ap_trace_id p))]))
        | _ \<Rightarrow> Inl (value_error (''runtime event '' @ [CHR 39] @ ''observed_at'' @ [CHR 39] @
            '' must be datetime when provided'')))))"

definition outcome_payload :: "outcome_kind \<Rightarrow> processing_context \<Rightarrow> mapping" where
  "outcome_payload kind px =
     (case kind of
        SUCCEEDED \<Rightarrow> [(''status'', VStr ''succeeded''), (''candidate_id'', VStr (pcx_event_id px))]
      | DEFERRED_STAGE \<Rightarrow> [(''status'', VStr ''deferred_stage''), (''reason_code'', VStr ''deferred_stage'')]
      | DEFERRED_RETRY \<Rightarrow> [(''status'', VStr ''deferred_retry''), (''reason_code'', VStr ''deferred_retry'')]
      | KIND_REJECTED \<Rightarrow> [(''status'', VStr ''failed''), (''reason_code'', VStr ''rejected'')]
      | FAILED_TERMINAL \<Rightarrow> [(''status'', VStr ''failed''), (''reason_code'', VStr ''failed_terminal'')])"

definition canonical_event :: "event_env \<Rightarrow> outcome_kind \<Rightarrow> processing_context \<Rightarrow> event_error + mapping" where
  "canonical_event env kind px =
     rbind (event_from_outcome env (outcome_payload kind px) (pcx_event_id px) (pcx_trace_id px)) (event_payload env)"

definition emit_canonical_outcome_event ::
    "'w app_ports \<Rightarrow> outcome_kind \<Rightarrow> processing_context \<Rightarrow> ('w app, py_exception, unit) io" where
  "emit_canonical_outcome_event p kind px a =
     io_bind (io_lift (map_error event_exception (canonical_event (ap_event_env p (app_world a)) kind px)))
       (\<lambda>m. on_world (ap_event_emitter p m)) a"

text \<open>The body of the batch loop: the counters after the event, and why the loop ends, if it does.\<close>

definition process_new_event ::
    "'w app_ports \<Rightarrow> mapping \<Rightarrow> string \<Rightarrow> run_counts \<Rightarrow> ('w app, py_exception, run_counts \<times> string option) io" where
  "process_new_event p event event_id c =
     io_bind (build_processing_context p event event_id) (\<lambda>px.
     io_bind (app_activity p) (\<lambda>_.
     io_bind (on_world (ap_engine_process p event px)) (\<lambda>kind.
     io_bind (app_emit p ''runtime_event_processed''
       [(''event_id'', VStr event_id), (''outcome_kind'', VStr (outcome_kind_value kind))]) (\<lambda>_.
     io_bind (emit_canonical_outcome_event p kind px) (\<lambda>_.
     let c1 = c\<lparr>rn_processed := rn_processed c + 1\<rparr> in
     io_return
       (if kind = KIND_REJECTED \<or> kind = FAILED_TERMINAL
        then (c1\<lparr>rn_failed := rn_failed c + 1\<rparr>, if ap_stop_on_failure p then Some ''failed_terminal'' else None)
        else (c1, None)))))))"

definition handle_event ::
    "'w app_ports \<Rightarrow> mapping \<Rightarrow> run_counts \<Rightarrow> ('w app, py_exception, run_counts \<times> string option) io" where
  "handle_event p event c =
     io_bind (app_timeouts p) (\<lambda>t.
     if t = HARD_TIMEOUT then io_return (c, Some ''hard_timeout'')
     else if t = SOFT_TIMEOUT then io_return (c, Some ''soft_timeout'')
     else
     io_bind (on_world (ap_cancellation_signal p)) (\<lambda>cancelled.
     if cancelled then io_return (c, Some ''cancelled'')
     else
     io_bind (io_lift (extract_event_id event)) (\<lambda>event_id a.
     if event_id \<in> set (app_seen_event_ids a)
     then io_bind (app_emit p ''runtime_event_skipped''
            [(''event_id'', VStr event_id), (''reason_code'', VStr ''duplicate_event_id'')])
            (\<lambda>_. io_return (c\<lparr>rn_skipped := rn_skipped c + 1\<rparr>, None)) a
     else process_new_event p event event_id c
            (a\<lparr>app_seen_event_ids := event_id # app_seen_event_ids a\<rparr>))))"

fun process_event_batch ::
    "'w app_ports \<Rightarrow> mapping list \<Rightarrow> run_counts \<Rightarrow> ('w app, py_exception, run_counts \<times> string option) io" where
  "process_event_batch p [] c a = (Inr (c, None), a)"
| "process_event_batch p (e # es) c a =
     (case handle_event p e c a of
        (Inl x, b) \<Rightarrow> (Inl x, b)
      | (Inr (c1, Some why), b) \<Rightarrow> (Inr (c1, Some why), b)
      | (Inr (c1, None), b) \<Rightarrow> process_event_batch p es c1 b)"

definition next_event_batch :: "'w app_ports \<Rightarrow> ('w app, py_exception, mapping list) io" where
  "next_event_batch p a =
     (case ap_event_source p of
        PollSource f \<Rightarrow> io_bind (on_world f) (\<lambda>src. io_return (case src of None \<Rightarrow> [] | Some es \<Rightarrow> es)) a
      | OnceSource f \<Rightarrow>
          if app_event_source_consumed a then (Inr [], a)
          else on_world f (a\<lparr>app_event_source_consumed := True\<rparr>))"

subsection \<open>The loop\<close>

definition no_counts :: run_counts where
  "no_counts = \<lparr>rn_processed = 0, rn_skipped = 0, rn_failed = 0\<rparr>"

definition add_counts :: "run_counts \<Rightarrow> run_counts \<Rightarrow> run_counts" where
  "add_counts c d = \<lparr>rn_processed = rn_processed c + rn_processed d, rn_skipped = rn_skipped c + rn_skipped d,
     rn_failed = rn_failed c + rn_failed d\<rparr>"

definition loop_body ::
    "'w app_ports \<Rightarrow> run_counts \<Rightarrow> ('w app, py_exception, run_counts \<times> string option) io" where
  "loop_body p c =
     io_bind (app_timeouts p) (\<lambda>t.
     if t = HARD_TIMEOUT then io_return (c, Some ''hard_timeout'')
     else if t = SOFT_TIMEOUT then io_return (c, Some ''soft_timeout'')
     else
     io_bind (next_event_batch p) (\<lambda>batch.
     if batch = []
     then io_bind (on_world (ap_cancellation_signal p)) (\<lambda>cancelled.
            if cancelled then io_return (c, Some ''cancelled'')
            else if ap_loop_mode p = ''oneshot'' then io_return (c, Some ''end_of_stream'')
            else io_bind (on_world (ap_idle_wait p (ap_poll_interval_seconds p))) (\<lambda>_. io_return (c, None)))
     else io_bind (process_event_batch p batch no_counts) (\<lambda>r.
            io_return (add_counts c (fst r),
              case snd r of Some why \<Rightarrow> Some why
              | None \<Rightarrow> if ap_loop_mode p = ''oneshot'' then Some ''end_of_stream'' else None))))"

partial_function (option) app_loop ::
    "'w app_ports \<Rightarrow> run_counts \<Rightarrow> 'w app \<Rightarrow> ((py_exception + run_counts \<times> string) \<times> 'w app) option" where
  "app_loop p c a =
     (case loop_body p c a of
        (Inl e, b) \<Rightarrow> Some (Inl e, b)
      | (Inr (c1, Some why), b) \<Rightarrow> Some (Inr (c1, why), b)
      | (Inr (c1, None), b) \<Rightarrow> app_loop p c1 b)"

definition finish_run :: "'w app_ports \<Rightarrow> string \<Rightarrow> ('w app, py_exception, unit) io" where
  "finish_run p why =
     (if why = ''failed_terminal'' \<or> why = ''hard_timeout''
      then io_bind (app_abort p why) (\<lambda>_. app_emit p ''runtime_failed'' [(''reason_code'', VStr why)])
      else if why = ''cancelled''
      then io_bind (app_abort p why) (\<lambda>_. app_emit p ''runtime_cancelled'' [(''reason_code'', VStr why)])
      else io_bind (app_stop p) (\<lambda>_. app_emit p ''runtime_completed'' [(''reason_code'', VStr why)]))"

definition fail_run :: "'w app_ports \<Rightarrow> py_exception \<Rightarrow> ('w app, py_exception, 'x) io" where
  "fail_run p exc =
     io_bind (app_abort p ''runtime_exception'') (\<lambda>_.
     io_bind (app_emit p ''runtime_failed'' [(''reason_code'', VStr ''runtime_exception'')]) (\<lambda>_.
     io_raise exc))"

definition run_app :: "'w app_ports \<Rightarrow> 'w app \<Rightarrow> ((py_exception + app_result) \<times> 'w app) option" where
  "run_app p a =
     (case io_bind (app_start p) (\<lambda>_. app_emit p ''runtime_started'' []) a of
        (Inl e, b) \<Rightarrow> Some (Inl e, b)
      | (Inr _, b) \<Rightarrow>
          (case app_loop p no_counts b of
             None \<Rightarrow> None
           | Some (Inl e, d) \<Rightarrow> Some (fail_run p e d)
           | Some (Inr (c, why), d) \<Rightarrow>
               Some (io_bind (finish_run p why)
                 (\<lambda>_. io_return \<lparr>ar_counts = c, ar_terminal_reason = why\<rparr>) d)))"

subsection \<open>The host\<close>

record 'w host =
  ho_run :: "('w, py_exception, app_result) io option"
  ho_shutdown_hook :: "('w, py_exception, unit) io option"
  ho_shutdown_completed :: bool

definition host_run :: "'w host \<Rightarrow> ('w, py_exception, app_result) io" where
  "host_run h w =
     (case ho_run h of
        None \<Rightarrow> (Inl ((plain_exception ''RuntimeError'' ''runtime app must provide callable run()'')
                      \<lparr>ex_is_runtime_error := True\<rparr>), w)
      | Some run \<Rightarrow> run w)"

definition host_shutdown :: "'w host \<Rightarrow> 'w \<Rightarrow> (py_exception + unit) \<times> 'w host \<times> 'w" where
  "host_shutdown h w =
     (if ho_shutdown_completed h then (Inr (), h, w)
      else case ho_shutdown_hook h of
             None \<Rightarrow> (Inr (), h\<lparr>ho_shutdown_completed := True\<rparr>, w)
           | Some hook \<Rightarrow> (case hook w of (r, w') \<Rightarrow> (r, h\<lparr>ho_shutdown_completed := True\<rparr>, w')))"

end
