(* ===== verification/Io_Logic.thy ===== *)
theory Io_Logic
  imports Prelude
begin

text \<open>
  A Hoare logic for computations over a world that may raise: \<open>io_spec P m Q E\<close> says that from a state
  with \<open>P\<close> the computation \<open>m\<close> either returns some \<open>x\<close> in a state with \<open>Q x\<close> or raises in a state with
  \<open>E\<close>. There is one rule per combinator, collected as \<open>spec_rules\<close>.
\<close>

named_theorems spec_rules \<open>Hoare rules of the combinators\<close>

definition io_spec ::
    "('w \<Rightarrow> bool) \<Rightarrow> ('w, 'e, 'a) io \<Rightarrow> ('a \<Rightarrow> 'w \<Rightarrow> bool) \<Rightarrow> ('w \<Rightarrow> bool) \<Rightarrow> bool" where
  "io_spec P m Q E \<longleftrightarrow>
     (\<forall>w. P w \<longrightarrow> (case m w of (Inl _, w') \<Rightarrow> E w' | (Inr x, w') \<Rightarrow> Q x w'))"

text \<open>A computation that keeps an invariant however it ends.\<close>

abbreviation keeps :: "('w \<Rightarrow> bool) \<Rightarrow> ('w, 'e, 'a) io \<Rightarrow> bool" where
  "keeps J m \<equiv> io_spec J m (\<lambda>_. J) J"

lemma io_specI:
  "(\<And>w x w'. P w \<Longrightarrow> m w = (Inr x, w') \<Longrightarrow> Q x w') \<Longrightarrow>
   (\<And>w e w'. P w \<Longrightarrow> m w = (Inl e, w') \<Longrightarrow> E w') \<Longrightarrow> io_spec P m Q E"
  by (auto simp: io_spec_def split: prod.splits sum.splits)

lemma io_spec_Inr: "io_spec P m Q E \<Longrightarrow> P w \<Longrightarrow> m w = (Inr x, w') \<Longrightarrow> Q x w'"
  by (auto simp: io_spec_def split: prod.splits)

lemma io_spec_Inl: "io_spec P m Q E \<Longrightarrow> P w \<Longrightarrow> m w = (Inl e, w') \<Longrightarrow> E w'"
  by (auto simp: io_spec_def split: prod.splits)

lemma keeps_snd: "keeps J m \<Longrightarrow> J w \<Longrightarrow> J (snd (m w))"
  by (cases "m w"; cases "fst (m w)") (auto simp: io_spec_def)

lemma spec_conseq:
  "io_spec P m Q E \<Longrightarrow> (\<And>w. P' w \<Longrightarrow> P w) \<Longrightarrow> (\<And>x w. Q x w \<Longrightarrow> Q' x w) \<Longrightarrow> (\<And>w. E w \<Longrightarrow> E' w) \<Longrightarrow>
   io_spec P' m Q' E'"
  by (fastforce simp: io_spec_def split: prod.splits sum.splits)

lemma spec_bind [spec_rules]:
  "io_spec P m Q E \<Longrightarrow> (\<And>x. io_spec (Q x) (f x) R E) \<Longrightarrow> io_spec P (io_bind m f) R E"
  by (fastforce simp: io_spec_def io_bind_def split: prod.splits sum.splits)

lemma spec_return [spec_rules]: "(\<And>w. P w \<Longrightarrow> Q x w) \<Longrightarrow> io_spec P (io_return x) Q E"
  by (simp add: io_spec_def)

lemma spec_raise [spec_rules]: "(\<And>w. P w \<Longrightarrow> E w) \<Longrightarrow> io_spec P (io_raise e) Q E"
  by (simp add: io_spec_def)

lemma spec_lift [spec_rules]:
  "(\<And>x w. P w \<Longrightarrow> r = Inr x \<Longrightarrow> Q x w) \<Longrightarrow> (\<And>w. P w \<Longrightarrow> E w) \<Longrightarrow> io_spec P (io_lift r) Q E"
  by (auto simp: io_spec_def split: sum.splits)

lemma spec_if [spec_rules]:
  "(b \<Longrightarrow> io_spec P m Q E) \<Longrightarrow> (\<not> b \<Longrightarrow> io_spec P m' Q E) \<Longrightarrow> io_spec P (if b then m else m') Q E"
  by simp

lemma spec_state_if:
  "io_spec (\<lambda>w. P w \<and> b w) m Q E \<Longrightarrow> io_spec (\<lambda>w. P w \<and> \<not> b w) m' Q E \<Longrightarrow>
   io_spec P (\<lambda>w. if b w then m w else m' w) Q E"
  by (simp add: io_spec_def)

lemma spec_conj:
  "io_spec P m Q E \<Longrightarrow> (\<And>w x w'. P w \<Longrightarrow> m w = (Inr x, w') \<Longrightarrow> R x w') \<Longrightarrow>
   io_spec P m (\<lambda>x w. Q x w \<and> R x w) E"
  by (rule io_specI) (auto dest: io_spec_Inr io_spec_Inl)

lemma spec_given: "(C \<Longrightarrow> io_spec P m Q E) \<Longrightarrow> io_spec (\<lambda>w. P w \<and> C) m Q E"
  by (auto simp: io_spec_def)

lemma spec_given_keep: "(C \<Longrightarrow> io_spec P m Q E) \<Longrightarrow> io_spec (\<lambda>w. P w \<and> C) m (\<lambda>x w. Q x w \<and> C) E"
  by (rule io_specI) (auto dest: io_spec_Inr io_spec_Inl)

lemma spec_update:
  "io_spec P' m Q E \<Longrightarrow> (\<And>w. P w \<Longrightarrow> P' (g w)) \<Longrightarrow> io_spec P (\<lambda>w. m (g w)) Q E"
  by (simp add: io_spec_def)

end
