(* ===== verification/App_Correct.thy ===== *)
theory App_Correct
  imports App Io_Logic
begin

text \<open>
  What a run of the application does: every invariant its collaborators keep is kept by the loop (the
  locale \<open>app_invariant\<close>), from which the session bracket around a run, the at-most-once delivery to
  the engine and the meaning of the counters follow; when a run returns; and the canonical events.
\<close>

section \<open>Effects of the calls\<close>

abbreviation app_state :: "'w app \<Rightarrow> session_state" where
  "app_state a \<equiv> sm_state (app_session_manager a)"

abbreviation set_world :: "'w app \<Rightarrow> 'w \<Rightarrow> 'w app" where
  "set_world a w \<equiv> a\<lparr>app_session_manager := (app_session_manager a)\<lparr>sm_world := w\<rparr>\<rparr>"

lemma on_world_eq: "on_world m a = (r, b) \<longleftrightarrow> (\<exists>w. m (app_world a) = (r, w) \<and> b = set_world a w)"
  by (auto simp: on_world_def split: prod.splits)

lemma app_world_set [simp]: "app_world (set_world a w) = w"
  by (simp add: app_world_def)

lemma spec_on_world:
  "(\<And>a x w. P a \<Longrightarrow> m (app_world a) = (Inr x, w) \<Longrightarrow> Q x (set_world a w)) \<Longrightarrow>
   (\<And>a e w. P a \<Longrightarrow> m (app_world a) = (Inl e, w) \<Longrightarrow> E (set_world a w)) \<Longrightarrow> io_spec P (on_world m) Q E"
  by (rule io_specI) (auto simp: on_world_eq)

lemma spec_session_io:
  assumes "io_spec P (on_world (ap_clock p)) (\<lambda>_. P) E"
    and "\<And>clk b r m. P b \<Longrightarrow> f clk (app_session_manager b) = (Inr r, m) \<Longrightarrow> Q r (b\<lparr>app_session_manager := m\<rparr>)"
    and "\<And>clk b e m. P b \<Longrightarrow> f clk (app_session_manager b) = (Inl e, m) \<Longrightarrow> E (b\<lparr>app_session_manager := m\<rparr>)"
  shows "io_spec P (session_io p reads f) Q E"
proof -
  have f: "io_spec P (\<lambda>b. case f clk (app_session_manager b) of
      (r, m) \<Rightarrow> (map_error session_exception r, b\<lparr>app_session_manager := m\<rparr>)) Q E" for clk
    using assms(2, 3) by (auto simp: io_spec_def map_error_def split: prod.splits sum.splits)
  have "io_spec P (io_bind (on_world (ap_clock p)) (\<lambda>clk b. case f clk (app_session_manager b) of
      (r, m) \<Rightarrow> (map_error session_exception r, b\<lparr>app_session_manager := m\<rparr>))) Q E"
    by (rule spec_bind [OF assms(1) f])
  moreover have "io_spec P (io_bind (io_return 0) (\<lambda>clk b. case f clk (app_session_manager b) of
      (r, m) \<Rightarrow> (map_error session_exception r, b\<lparr>app_session_manager := m\<rparr>))) Q E"
    by (rule spec_bind [OF spec_return f])
  ultimately show ?thesis by (simp add: io_spec_def session_io_def)
qed

text \<open>The context built for an event carries the event's id.\<close>

lemma for_candidate_event_id:
  "for_candidate rx ev = Inr px \<Longrightarrow> map_of ev ''event_id'' = Some (VStr i) \<Longrightarrow> pcx_event_id px = strip i"
  by (cases "get_or_none ev ''observed_at''") (auto simp: for_candidate_def result_simps dict_get_or_def)

lemma extract_event_id_Inr: "extract_event_id e = Inr i \<Longrightarrow> strip i = i \<and> i \<noteq> []"
  by (auto simp: extract_event_id_def split: pyval.splits if_splits)

lemma built_context:
  assumes "build_processing_context p e i a = (Inr px, b)" and "strip i = i"
  shows "pcx_event_id px = i" "processing_ok px"
proof -
  obtain sp ty t where "for_candidate (ap_runtime_context p) [(''source_path'', VStr sp), (''event_type'', VStr ty),
      (''observed_at'', VTime t), (''event_id'', VStr i), (''trace_id'', VStr (ap_trace_id p))] = Inr px"
    using assms(1)
    by (auto simp: build_processing_context_def io_bind_def map_error_eq rbind_eq_Inr split: prod.splits sum.splits pyval.splits)
  from for_candidate_event_id [OF this, of i] for_candidate_ok [OF this] assms(2)
  show "pcx_event_id px = i" "processing_ok px" by auto
qed

text \<open>Induction over the iterations of a run that returns.\<close>

lemma app_loop_induct [consumes 1, case_names stop finish again]:
  assumes "app_loop p c a = Some y"
    and stop: "\<And>e c a b. loop_body p c a = (Inl e, b) \<Longrightarrow> P c a (Inl e, b)"
    and finish: "\<And>c1 why c a b. loop_body p c a = (Inr (c1, Some why), b) \<Longrightarrow> P c a (Inr (c1, why), b)"
    and again: "\<And>c1 b c a y. loop_body p c a = (Inr (c1, None), b) \<Longrightarrow> app_loop p c1 b = Some y \<Longrightarrow> P c1 b y \<Longrightarrow> P c a y"
  shows "P c a y"
proof -
  have "p = p \<longrightarrow> app_loop p c a = Some y \<and> P c a y"
  proof (rule app_loop.raw_induct [where P = "\<lambda>p' c a y. p' = p \<longrightarrow> app_loop p c a = Some y \<and> P c a y", OF _ assms(1)],
      intro impI)
    fix loop p' c a y
    assume IH: "\<And>p' c a y. loop p' c a = Some y \<Longrightarrow> p' = p \<longrightarrow> app_loop p c a = Some y \<and> P c a y"
      and body: "(case loop_body p' c a of (Inl e, b) \<Rightarrow> Some (Inl e, b)
        | (Inr (c1, None), b) \<Rightarrow> loop p' c1 b | (Inr (c1, Some why), b) \<Rightarrow> Some (Inr (c1, why), b)) = Some y"
      and p: "p' = p"
    obtain r b where r: "loop_body p c a = (r, b)" by (cases "loop_body p c a")
    consider (e) e where "r = Inl e" | (w) c1 w where "r = Inr (c1, Some w)" | (n) c1 where "r = Inr (c1, None)"
      by (cases r; metis surj_pair option.exhaust)
    then show "app_loop p c a = Some y \<and> P c a y"
    proof cases
      case e
      with body r p stop show ?thesis by (auto simp: app_loop.simps [of p c a])
    next
      case w
      with body r p finish show ?thesis by (auto simp: app_loop.simps [of p c a])
    next
      case n
      with body r p IH [of p c1 b y] again show ?thesis by (auto simp: app_loop.simps [of p c a])
    qed
  qed
  then show ?thesis by simp
qed

section \<open>Invariants of the loop\<close>

text \<open>
  \<open>J\<close> holds between events, \<open>K i\<close> from the moment the id \<open>i\<close> is entered as seen until the engine has
  been called, and \<open>E\<close> after an exception.
\<close>

locale app_invariant =
  fixes p :: "'w app_ports"
    and J :: "'w app \<Rightarrow> bool"
    and K :: "string \<Rightarrow> 'w app \<Rightarrow> bool"
    and E :: "'w app \<Rightarrow> bool"
  assumes J_clock: "io_spec J (on_world (ap_clock p)) (\<lambda>_. J) E"
    and J_emitter: "io_spec J (on_world (ap_event_emitter p m)) (\<lambda>_. J) E"
    and J_cancellation: "io_spec J (on_world (ap_cancellation_signal p)) (\<lambda>_. J) E"
    and J_idle: "io_spec J (on_world (ap_idle_wait p d)) (\<lambda>_. J) E"
    and J_poll: "ap_event_source p = PollSource f \<Longrightarrow> io_spec J (on_world f) (\<lambda>_. J) E"
    and J_once: "ap_event_source p = OnceSource g \<Longrightarrow> io_spec J (on_world g) (\<lambda>_. J) E"
    and J_consumed: "J a \<Longrightarrow> J (a\<lparr>app_event_source_consumed := True\<rparr>)"
    and J_seen: "J a \<Longrightarrow> i \<notin> set (app_seen_event_ids a) \<Longrightarrow>
      K i (a\<lparr>app_seen_event_ids := i # app_seen_event_ids a\<rparr>)"
    and K_clock: "io_spec (K i) (on_world (ap_clock p)) (\<lambda>_. K i) E"
    and K_activity: "io_spec (K i) (app_activity p) (\<lambda>_. K i) E"
    and K_engine: "pcx_event_id px = i \<Longrightarrow> io_spec (K i) (on_world (ap_engine_process p e px)) (\<lambda>_. J) E"
    and J_E: "J a \<Longrightarrow> E a"
    and K_E: "K i a \<Longrightarrow> E a"
begin

lemma J_timeouts: "io_spec J (app_timeouts p) (\<lambda>_. J) E"
  unfolding app_timeouts_def by (rule spec_session_io [OF J_clock]) (auto simp: J_E)

lemma J_emit: "io_spec J (app_emit p k x) (\<lambda>_. J) E"
  unfolding app_emit_def
  by (rule spec_bind [OF J_clock]) (use J_emitter in \<open>simp add: io_spec_def\<close>)

lemma K_context:
  assumes "strip i = i"
  shows "io_spec (K i) (build_processing_context p e i) (\<lambda>px a. K i a \<and> pcx_event_id px = i) E"
proof -
  have "io_spec (K i) (build_processing_context p e i) (\<lambda>_. K i) E"
    unfolding build_processing_context_def
    by (intro spec_bind [where Q = "\<lambda>_. K i"] K_clock spec_lift) (auto simp: K_E)
  then show ?thesis by (rule spec_conj) (rule built_context(1) [OF _ assms])
qed

lemma J_canonical: "io_spec J (emit_canonical_outcome_event p k px) (\<lambda>_. J) E"
proof -
  have "io_spec J (io_bind (io_lift r) (\<lambda>m. on_world (ap_event_emitter p m))) (\<lambda>_. J) E" for r
    by (rule spec_bind [OF _ J_emitter]) (rule spec_lift; simp add: J_E)
  then show ?thesis by (simp add: io_spec_def emit_canonical_outcome_event_def)
qed

lemma K_process_new_event:
  assumes "strip i = i"
  shows "io_spec (K i) (process_new_event p e i c) (\<lambda>_. J) E"
  unfolding process_new_event_def
proof (rule spec_bind [OF K_context [OF assms]])
  fix px
  have engine: "io_spec (\<lambda>a. K i a \<and> pcx_event_id px = i) (on_world (ap_engine_process p e px)) (\<lambda>_. J) E"
    by (rule spec_given) (rule K_engine)
  have activity: "io_spec (\<lambda>a. K i a \<and> pcx_event_id px = i) (app_activity p) (\<lambda>_ a. K i a \<and> pcx_event_id px = i) E"
    by (rule spec_given_keep) (rule K_activity)
  show "io_spec (\<lambda>a. K i a \<and> pcx_event_id px = i) (io_bind (app_activity p) (\<lambda>_.
      io_bind (on_world (ap_engine_process p e px)) (\<lambda>kind.
      io_bind (app_emit p ''runtime_event_processed''
        [(''event_id'', VStr i), (''outcome_kind'', VStr (outcome_kind_value kind))]) (\<lambda>_.
      io_bind (emit_canonical_outcome_event p kind px) (\<lambda>_.
      let c1 = c\<lparr>rn_processed := rn_processed c + 1\<rparr> in io_return
        (if kind = KIND_REJECTED \<or> kind = FAILED_TERMINAL
         then (c1\<lparr>rn_failed := rn_failed c + 1\<rparr>, if ap_stop_on_failure p then Some ''failed_terminal'' else None)
         else (c1, None))))))) (\<lambda>_. J) E"
    unfolding Let_def
    by (rule spec_bind [OF activity], rule spec_bind [OF engine], rule spec_bind [OF J_emit],
        rule spec_bind [OF J_canonical]) (rule spec_return)
qed

lemma J_handle_event: "io_spec J (handle_event p e c) (\<lambda>_. J) E"
  unfolding handle_event_def
proof (intro spec_bind [OF J_timeouts] spec_if spec_return spec_bind [OF J_cancellation], goal_cases)
  case (4 t cancelled)
  show ?case
  proof (rule spec_bind [where Q = "\<lambda>i a. J a \<and> strip i = i"])
    show "io_spec J (io_lift (extract_event_id e)) (\<lambda>i a. J a \<and> strip i = i) E"
      by (rule spec_lift) (auto simp: J_E dest: extract_event_id_Inr)
  next
    fix i
    have skip: "io_spec J (io_bind (app_emit p k x) (\<lambda>_. io_return y)) (\<lambda>_. J) E" for k x and y :: "run_counts \<times> string option"
      by (rule spec_bind [OF J_emit]) (rule spec_return)
    show "io_spec (\<lambda>a. J a \<and> strip i = i) (\<lambda>a. if i \<in> set (app_seen_event_ids a)
        then io_bind (app_emit p ''runtime_event_skipped'' [(''event_id'', VStr i), (''reason_code'', VStr ''duplicate_event_id'')])
          (\<lambda>_. io_return (c\<lparr>rn_skipped := rn_skipped c + 1\<rparr>, None)) a
        else process_new_event p e i c (a\<lparr>app_seen_event_ids := i # app_seen_event_ids a\<rparr>)) (\<lambda>_. J) E"
    proof (rule spec_state_if)
      show "io_spec (\<lambda>a. (J a \<and> strip i = i) \<and> i \<in> set (app_seen_event_ids a))
        (io_bind (app_emit p ''runtime_event_skipped'' [(''event_id'', VStr i), (''reason_code'', VStr ''duplicate_event_id'')])
          (\<lambda>_. io_return (c\<lparr>rn_skipped := rn_skipped c + 1\<rparr>, None :: string option))) (\<lambda>_. J) E"
        by (rule spec_conseq, rule skip) auto
    next
      show "io_spec (\<lambda>a. (J a \<and> strip i = i) \<and> i \<notin> set (app_seen_event_ids a))
        (\<lambda>a. process_new_event p e i c (a\<lparr>app_seen_event_ids := i # app_seen_event_ids a\<rparr>)) (\<lambda>_. J) E"
        using K_process_new_event [of i e c] J_seen by (auto simp: io_spec_def)
    qed
  qed
qed auto

lemma J_batch: "io_spec J (process_event_batch p es c) (\<lambda>_. J) E"
proof (induction es arbitrary: c)
  case Nil
  then show ?case by (simp add: io_spec_def)
next
  case (Cons e es)
  show ?case
  proof (rule io_specI)
    fix a x b
    assume "J a" "process_event_batch p (e # es) c a = (Inr x, b)"
    then show "J b" using J_handle_event [of e c] Cons
      by (auto split: prod.splits sum.splits option.splits dest: io_spec_Inr)
  next
    fix a x b
    assume "J a" "process_event_batch p (e # es) c a = (Inl x, b)"
    then show "E b" using J_handle_event [of e c] Cons
      by (auto split: prod.splits sum.splits option.splits dest: io_spec_Inr io_spec_Inl)
  qed
qed

lemma J_next_batch: "io_spec J (next_event_batch p) (\<lambda>_. J) E"
proof (cases "ap_event_source p")
  case (PollSource f)
  have "io_spec J (io_bind (on_world f) (\<lambda>src. io_return (case src of None \<Rightarrow> [] | Some es \<Rightarrow> es))) (\<lambda>_. J) E"
    by (rule spec_bind [OF J_poll [OF PollSource]]) (rule spec_return)
  then show ?thesis by (simp add: io_spec_def next_event_batch_def PollSource)
next
  case (OnceSource f)
  have "io_spec J (\<lambda>a. on_world f (a\<lparr>app_event_source_consumed := True\<rparr>)) (\<lambda>_. J) E"
    by (rule spec_update [OF J_once [OF OnceSource]]) (rule J_consumed)
  then show ?thesis by (simp add: io_spec_def next_event_batch_def OnceSource)
qed

lemma J_loop_body: "io_spec J (loop_body p c) (\<lambda>_. J) E"
  unfolding loop_body_def
  by (intro spec_bind [OF J_timeouts] spec_if spec_return spec_bind [OF J_next_batch] spec_bind [OF J_cancellation]
      spec_bind [OF J_idle] spec_bind [OF J_batch])

lemma J_app_loop:
  assumes "app_loop p c a = Some y" and "J a"
  shows "case y of (Inl _, b) \<Rightarrow> E b | (Inr _, b) \<Rightarrow> J b"
  using assms
proof (induction c a y rule: app_loop_induct)
  case (stop e c a b)
  then show ?case using io_spec_Inl [OF J_loop_body] by fastforce
next
  case (finish c1 why c a b)
  then show ?case using io_spec_Inr [OF J_loop_body] by fastforce
next
  case (again c1 b c a y)
  then show ?case using io_spec_Inr [OF J_loop_body] by blast
qed

end

section \<open>The session around a run\<close>

definition active_session :: "'w app_ports \<Rightarrow> session_state \<Rightarrow> bool" where
  "active_session p s \<longleftrightarrow> session_ok s \<and> ss_kind s = ACTIVE \<and> ss_session_id s = Some (strip (ap_session_id p))"

definition closed_session :: "'w app_ports \<Rightarrow> session_state_kind \<Rightarrow> string \<Rightarrow> session_state \<Rightarrow> bool" where
  "closed_session p k why s \<longleftrightarrow> session_ok s \<and> ss_kind s = k \<and> ss_session_id s = Some (strip (ap_session_id p)) \<and>
     ss_reason_code s = Some why"

lemma active_call_ok:
  assumes "active_session p (sm_state m)" and "session_call (clk, x) m = (r, m')"
  shows "session_ok (sm_state m')"
  using session_call_cases [of m "(clk, x)"] session_step_ok assms
  by (force simp: active_session_def split: sum.splits)

lemma active_activity:
  assumes "active_session p (sm_state m)" and "record_activity clk sid None m = (r, m')"
  shows "active_session p (sm_state m')"
  using active_call_ok [OF assms(1), of clk "OpActivity sid None"] assms
  by (auto simp: record_activity_def active_session_def observe_active_Inr Let_def split: sum.splits)

lemma active_abort:
  assumes "active_session p (sm_state m)" and "abort_session clk sid None why m = (r, m')"
  shows "case r of Inl _ \<Rightarrow> m' = m | Inr _ \<Rightarrow> closed_session p ABORTED why (sm_state m')"
  using active_call_ok [OF assms(1), of clk "OpAbort sid None why"] assms
  by (auto simp: abort_session_def active_session_def closed_session_def observe_active_Inr Let_def split: sum.splits)

lemma active_stop:
  assumes "active_session p (sm_state m)" and "stop_session clk sid None m = (r, m')"
  shows "case r of Inl _ \<Rightarrow> m' = m | Inr _ \<Rightarrow> closed_session p COMPLETED ''stopped'' (sm_state m')"
  using active_call_ok [OF assms(1), of clk "OpStop sid None"] assms
  by (auto simp: stop_session_def active_session_def closed_session_def observe_active_Inr Let_def split: sum.splits)

lemma fresh_start:
  assumes "sm_state m = inactive_state" and "start_session clk (ap_session_id p) None m = (r, m')"
  shows "case r of Inl _ \<Rightarrow> m' = m | Inr _ \<Rightarrow> active_session p (sm_state m')"
  using assms
  by (auto simp: start_session_def inactive_state_def active_session_def session_ok_def normalize_session_id_def
      Let_def split: sum.splits if_splits)

text \<open>Predicates on the session state alone do not see the world.\<close>

lemma state_on_world: "keeps (\<lambda>a. P (app_state a)) (on_world m)"
  by (rule spec_on_world) auto

lemma state_emit: "keeps (\<lambda>a. P (app_state a)) (app_emit p k x)"
proof -
  have "keeps (\<lambda>a. P (app_state a)) (\<lambda>a. on_world (f a) a)" for f :: "'a app \<Rightarrow> ('a, py_exception, unit) io"
    by (rule io_specI) (auto simp: on_world_eq)
  then show ?thesis unfolding app_emit_def by (intro spec_bind [OF state_on_world])
qed

interpretation running: app_invariant p "\<lambda>a. active_session p (app_state a)"
  "\<lambda>_ a. active_session p (app_state a)" "\<lambda>a. active_session p (app_state a)" for p
proof unfold_locales
  show "keeps (\<lambda>a. active_session p (app_state a)) (app_activity p)"
    unfolding app_activity_def
    by (rule spec_session_io [OF state_on_world]) (fastforce dest: active_activity)+
qed (auto intro: state_on_world)

lemma start_active:
  "io_spec (\<lambda>a. app_state a = inactive_state) (app_start p) (\<lambda>_ a. active_session p (app_state a))
     (\<lambda>a. app_state a = inactive_state)"
  unfolding app_start_def
  by (rule spec_session_io [OF state_on_world [where P = "\<lambda>s. s = inactive_state"]]) (frule (1) fresh_start, simp)+

lemma abort_closes:
  "io_spec (\<lambda>a. active_session p (app_state a)) (app_abort p why)
     (\<lambda>_ a. closed_session p ABORTED why (app_state a)) (\<lambda>a. active_session p (app_state a))"
  unfolding app_abort_def
  by (rule spec_session_io [OF state_on_world]) (frule (1) active_abort, simp)+

lemma stop_closes:
  "io_spec (\<lambda>a. active_session p (app_state a)) (app_stop p)
     (\<lambda>_ a. closed_session p COMPLETED ''stopped'' (app_state a)) (\<lambda>a. active_session p (app_state a))"
  unfolding app_stop_def
  by (rule spec_session_io [OF state_on_world]) (frule (1) active_stop, simp)+

definition aborting :: "string \<Rightarrow> bool" where
  "aborting why \<longleftrightarrow> why \<in> {''failed_terminal'', ''hard_timeout'', ''cancelled''}"

definition run_closed :: "'w app_ports \<Rightarrow> string \<Rightarrow> session_state \<Rightarrow> bool" where
  "run_closed p why = (if aborting why then closed_session p ABORTED why else closed_session p COMPLETED ''stopped'')"

lemma finish_closes:
  "io_spec (\<lambda>a. active_session p (app_state a)) (finish_run p why) (\<lambda>_ a. run_closed p why (app_state a)) (\<lambda>_. True)"
proof -
  have emit: "io_spec (\<lambda>a. P (app_state a)) (app_emit p k x) (\<lambda>_ a. P (app_state a)) (\<lambda>_. True)" for P k x
    by (rule spec_conseq [OF state_emit]) auto
  have abort: "io_spec (\<lambda>a. active_session p (app_state a)) (app_abort p why)
     (\<lambda>_ a. closed_session p ABORTED why (app_state a)) (\<lambda>_. True)"
    by (rule spec_conseq [OF abort_closes]) auto
  have stop: "io_spec (\<lambda>a. active_session p (app_state a)) (app_stop p)
     (\<lambda>_ a. closed_session p COMPLETED ''stopped'' (app_state a)) (\<lambda>_. True)"
    by (rule spec_conseq [OF stop_closes]) auto
  show ?thesis
    unfolding finish_run_def
    by (intro spec_if spec_bind [OF abort] spec_bind [OF stop]; rule spec_conseq, rule emit)
      (auto simp: run_closed_def aborting_def)
qed

text \<open>The stages of a run, for any property of its result.\<close>

lemma run_app_cases:
  assumes "run_app p a = Some (r, b)"
  obtains (start) e where "io_bind (app_start p) (\<lambda>_. app_emit p ''runtime_started'' []) a = (Inl e, b)" "r = Inl e"
    | (failed) a1 e a2 where "io_bind (app_start p) (\<lambda>_. app_emit p ''runtime_started'' []) a = (Inr (), a1)"
        "app_loop p no_counts a1 = Some (Inl e, a2)" "fail_run p e a2 = (r, b)"
    | (finished) a1 c why a2 where "io_bind (app_start p) (\<lambda>_. app_emit p ''runtime_started'' []) a = (Inr (), a1)"
        "app_loop p no_counts a1 = Some (Inr (c, why), a2)"
        "io_bind (finish_run p why) (\<lambda>_. io_return \<lparr>ar_counts = c, ar_terminal_reason = why\<rparr>) a2 = (r, b)"
  using assms by (auto simp: run_app_def split: prod.splits sum.splits option.splits)

lemma fail_run_raises: "fail_run p e a = (r, b) \<Longrightarrow> isl r"
  by (auto simp: fail_run_def io_bind_def split: prod.splits sum.splits)

lemma started_active:
  "io_spec (\<lambda>a. app_state a = inactive_state) (io_bind (app_start p) (\<lambda>_. app_emit p ''runtime_started'' []))
     (\<lambda>_ a. active_session p (app_state a)) (\<lambda>_. True)"
  by (rule spec_bind [OF spec_conseq [OF start_active] spec_conseq [OF state_emit]]) auto

lemma returned_closed:
  assumes "app_state a = inactive_state" and "run_app p a = Some (Inr res, b)"
  shows "run_closed p (ar_terminal_reason res) (app_state b)"
  using assms(2)
proof (cases rule: run_app_cases)
  case (finished a1 c why a2)
  have "active_session p (app_state a1)" using io_spec_Inr [OF started_active assms(1) finished(1)] .
  with running.J_app_loop [OF finished(2)] have "active_session p (app_state a2)" by simp
  with finished(3) io_spec_Inr [OF finish_closes] show ?thesis
    by (auto simp: io_bind_eq)
qed (use fail_run_raises in fastforce)+

subsection \<open>Collaborators under which no session is left open\<close>

text \<open>
  The clock is read without failing and never runs backwards, whatever is called in between, and the
  emitter does not raise.
\<close>

definition source_worlds :: "'w event_source \<Rightarrow> 'w \<Rightarrow> 'w" where
  "source_worlds src w = (case src of PollSource f \<Rightarrow> snd (f w) | OnceSource f \<Rightarrow> snd (f w))"

definition steady :: "'w app_ports \<Rightarrow> ('w \<Rightarrow> int) \<Rightarrow> bool" where
  "steady p T \<longleftrightarrow>
     (\<forall>w. fst (ap_clock p w) = Inr (T w) \<and> T w \<le> T (snd (ap_clock p w))) \<and>
     (\<forall>m w. \<not> isl (fst (ap_event_emitter p m w)) \<and> T w \<le> T (snd (ap_event_emitter p m w))) \<and>
     (\<forall>w. T w \<le> T (snd (ap_cancellation_signal p w))) \<and>
     (\<forall>d w. T w \<le> T (snd (ap_idle_wait p d w))) \<and>
     (\<forall>e px w. T w \<le> T (snd (ap_engine_process p e px w))) \<and>
     (\<forall>w. T w \<le> T (source_worlds (ap_event_source p) w))"

definition timed :: "'w app_ports \<Rightarrow> ('w \<Rightarrow> int) \<Rightarrow> 'w app \<Rightarrow> bool" where
  "timed p T a \<longleftrightarrow> active_session p (app_state a) \<and> sm_callbacks (app_session_manager a) = [] \<and>
     (\<exists>u. ss_last_activity_at (app_state a) = Some u \<and> u \<le> T (app_world a))"

lemma timed_on_world:
  assumes "\<And>w. T w \<le> T (snd (m w))"
  shows "keeps (timed p T) (on_world m)"
proof -
  have "timed p T (set_world a w)" if "timed p T a" "m (app_world a) = (r, w)" for a r w
    using that assms [of "app_world a"] by (auto simp: timed_def intro: order_trans)
  then show ?thesis by (intro spec_on_world) blast+
qed

lemma steady_session_io:
  assumes "steady p T" and "reads (app_state a)"
  obtains w where "T (app_world a) \<le> T w"
    and "session_io p reads f a =
      (case f (T (app_world a)) ((app_session_manager a)\<lparr>sm_world := w\<rparr>) of
         (r, m) \<Rightarrow> (map_error session_exception r, a\<lparr>app_session_manager := m\<rparr>))"
proof
  let ?w = "snd (ap_clock p (app_world a))"
  show "T (app_world a) \<le> T ?w" using assms(1) by (simp add: steady_def)
  have "ap_clock p (app_world a) = (Inr (T (app_world a)), ?w)"
    using assms(1) by (metis steady_def prod.collapse)
  then have "on_world (ap_clock p) a = (Inr (T (app_world a)), set_world a ?w)" by (auto simp: on_world_eq)
  with assms(2) show "session_io p reads f a =
      (case f (T (app_world a)) ((app_session_manager a)\<lparr>sm_world := ?w\<rparr>) of
         (r, m) \<Rightarrow> (map_error session_exception r, a\<lparr>app_session_manager := m\<rparr>))"
    by (simp add: session_io_def split: prod.splits)
qed

lemma apply_transition_silent:
  "sm_callbacks m = [] \<Longrightarrow> snd (apply_transition m s s' why) = m\<lparr>sm_state := s'\<rparr>"
  by (simp add: apply_transition_def Let_def)

lemma timed_observe:
  assumes "timed p T a"
  shows "observe_active (T (app_world a)) (ap_session_id p) None (app_state a) = Inr (app_state a, T (app_world a))"
    and "needs_active p (app_state a)"
proof -
  from assms obtain sid u where s: "active_session p (app_state a)" "strip (ap_session_id p) \<noteq> []"
      "ss_last_activity_at (app_state a) = Some u" "u \<le> T (app_world a)"
    by (auto simp: timed_def active_session_def session_ok_def)
  then show "observe_active (T (app_world a)) (ap_session_id p) None (app_state a) = Inr (app_state a, T (app_world a))"
    by (simp add: observe_active_Inr active_session_def resolve_time_def)
  then show "needs_active p (app_state a)"
    by (auto simp: needs_active_def observe_active_def result_simps split: sum.splits)
qed

lemma timed_activity:
  assumes "steady p T"
  shows "keeps (timed p T) (app_activity p)"
proof -
  have "\<exists>r b. app_activity p a = (Inr r, b) \<and> timed p T b" if timed: "timed p T a" for a
  proof -
    obtain w where w1: "T (app_world a) \<le> T w" and w2: "session_io p (needs_active p) (\<lambda>clk. record_activity clk (ap_session_id p) None) a =
      (case record_activity (T (app_world a)) (ap_session_id p) None ((app_session_manager a)\<lparr>sm_world := w\<rparr>) of
         (r, m) \<Rightarrow> (map_error session_exception r, a\<lparr>app_session_manager := m\<rparr>))"
      by (rule steady_session_io [where reads = "needs_active p", OF assms timed_observe(2) [OF timed]])
    note w = w1 w2 [folded app_activity_def]
    have cb: "sm_callbacks (app_session_manager a) = []" using timed by (simp add: timed_def)
    let ?m = "(app_session_manager a)\<lparr>sm_world := w\<rparr>"
    have r: "record_activity (T (app_world a)) (ap_session_id p) None ?m =
      (Inr (fst (apply_transition ?m (app_state a) ((app_state a)\<lparr>ss_last_activity_at := Some (T (app_world a))\<rparr>) ''activity_recorded'')),
       ?m\<lparr>sm_state := (app_state a)\<lparr>ss_last_activity_at := Some (T (app_world a))\<rparr>\<rparr>)"
      using timed_observe(1) [OF timed] cb by (simp add: record_activity_def apply_transition_silent)
    have "active_session p ((app_state a)\<lparr>ss_last_activity_at := Some (T (app_world a))\<rparr>)"
      using active_activity [OF _ r] timed by (auto simp: timed_def)
    with w r cb show ?thesis by (simp add: timed_def app_world_def)
  qed
  then show ?thesis by (fastforce simp: io_spec_def)
qed

lemma timed_abort:
  assumes "steady p T" and "timed p T a"
  obtains r b where "app_abort p why a = (Inr r, b)" "closed_session p ABORTED why (app_state b)"
proof -
  obtain w where w: "session_io p (needs_active p) (\<lambda>clk. abort_session clk (ap_session_id p) None why) a =
      (case abort_session (T (app_world a)) (ap_session_id p) None why ((app_session_manager a)\<lparr>sm_world := w\<rparr>) of
         (r, m) \<Rightarrow> (map_error session_exception r, a\<lparr>app_session_manager := m\<rparr>))"
    by (rule steady_session_io [where reads = "needs_active p", OF assms(1) timed_observe(2) [OF assms(2)]])
  note w = w [folded app_abort_def]
  have "\<not> isl (fst (abort_session (T (app_world a)) (ap_session_id p) None why ((app_session_manager a)\<lparr>sm_world := w\<rparr>)))"
    using timed_observe(1) [OF assms(2)] by (simp add: abort_session_def Let_def)
  with w obtain r b where "app_abort p why a = (Inr r, b)"
    by (cases "fst (app_abort p why a)"; cases "app_abort p why a") (auto simp: map_error_eq split: prod.splits)
  with that abort_closes assms(2) show thesis by (metis io_spec_Inr timed_def)
qed

lemma steady_emit:
  assumes "steady p T"
  shows "\<not> isl (fst (app_emit p k x a))"
proof -
  obtain w where "ap_clock p (app_world a) = (Inr (T (app_world a)), w)"
    using assms by (metis steady_def prod.collapse)
  then have "on_world (ap_clock p) a = (Inr (T (app_world a)), set_world a w)" by (auto simp: on_world_eq)
  moreover have "\<not> isl (fst (on_world (ap_event_emitter p m) b))" for m b
  proof -
    have "\<not> isl (fst (ap_event_emitter p m (app_world b)))" using assms unfolding steady_def by blast
    then show ?thesis by (auto simp: on_world_def split: prod.splits)
  qed
  ultimately show ?thesis by (simp add: app_emit_def)
qed

interpretation timed: app_invariant p "\<lambda>a. steady p T \<longrightarrow> timed p T a" "\<lambda>_ a. steady p T \<longrightarrow> timed p T a"
  "\<lambda>a. steady p T \<longrightarrow> timed p T a" for p T
proof -
  have world: "keeps (\<lambda>a. steady p T \<longrightarrow> timed p T a) (on_world m)" if "steady p T \<Longrightarrow> (\<And>w. T w \<le> T (snd (m w)))" for m
  proof (cases "steady p T")
    case True
    with timed_on_world [of T m p] that show ?thesis by simp
  qed (simp add: io_spec_def split: prod.splits sum.splits)
  show "app_invariant p (\<lambda>a. steady p T \<longrightarrow> timed p T a) (\<lambda>_ a. steady p T \<longrightarrow> timed p T a)
      (\<lambda>a. steady p T \<longrightarrow> timed p T a)"
  proof
    show "keeps (\<lambda>a. steady p T \<longrightarrow> timed p T a) (app_activity p)" for i :: string
    proof (cases "steady p T")
      case True
      with timed_activity show ?thesis by auto
    qed (simp add: io_spec_def split: prod.splits sum.splits)
  next
    fix f assume "ap_event_source p = PollSource f"
    then show "keeps (\<lambda>a. steady p T \<longrightarrow> timed p T a) (on_world f)"
      by (intro world) (auto simp: steady_def source_worlds_def)
  next
    fix f assume "ap_event_source p = OnceSource f"
    then show "keeps (\<lambda>a. steady p T \<longrightarrow> timed p T a) (on_world f)"
      by (intro world) (auto simp: steady_def source_worlds_def)
  next
    fix a and i :: string
    show "steady p T \<longrightarrow> timed p T a \<Longrightarrow> steady p T \<longrightarrow> timed p T (a\<lparr>app_event_source_consumed := True\<rparr>)"
      and "steady p T \<longrightarrow> timed p T a \<Longrightarrow>
        steady p T \<longrightarrow> timed p T (a\<lparr>app_seen_event_ids := i # app_seen_event_ids a\<rparr>)"
      by (simp_all add: timed_def app_world_def)
  qed (intro world; simp add: steady_def)+
qed

lemma timed_stop:
  assumes "steady p T" and "timed p T a"
  obtains r b where "app_stop p a = (Inr r, b)"
proof -
  obtain w where w: "session_io p (needs_active p) (\<lambda>clk. stop_session clk (ap_session_id p) None) a =
      (case stop_session (T (app_world a)) (ap_session_id p) None ((app_session_manager a)\<lparr>sm_world := w\<rparr>) of
         (r, m) \<Rightarrow> (map_error session_exception r, a\<lparr>app_session_manager := m\<rparr>))"
    by (rule steady_session_io [where reads = "needs_active p", OF assms(1) timed_observe(2) [OF assms(2)]])
  have "\<not> isl (fst (stop_session (T (app_world a)) (ap_session_id p) None ((app_session_manager a)\<lparr>sm_world := w\<rparr>)))"
    using timed_observe(1) [OF assms(2)] by (simp add: stop_session_def Let_def)
  with w [folded app_stop_def] that show thesis
    by (cases "fst (app_stop p a)"; cases "app_stop p a") (auto simp: map_error_eq split: prod.splits)
qed

lemma timed_finish:
  assumes "steady p T" and "timed p T a"
  shows "\<not> isl (fst (finish_run p why a))"
proof -
  have emit: "\<not> isl (fst (app_emit p k x c))" for k x c using steady_emit [OF assms(1)] .
  have "\<not> isl (fst (io_bind (app_abort p w) (\<lambda>_. app_emit p k x) a))" for w k x
    using timed_abort [OF assms, of w] emit by (metis io_bind_simps(2))
  moreover have "\<not> isl (fst (io_bind (app_stop p) (\<lambda>_. app_emit p k x) a))" for k x
    using timed_stop [OF assms] emit by (metis io_bind_simps(2))
  ultimately show ?thesis by (simp add: finish_run_def)
qed

lemma timed_fail:
  assumes "steady p T" and "timed p T a" and "fail_run p e a = (r, b)"
  shows "r = Inl e \<and> closed_session p ABORTED ''runtime_exception'' (app_state b)"
proof -
  obtain x a1 where a1: "app_abort p ''runtime_exception'' a = (Inr x, a1)"
      "closed_session p ABORTED ''runtime_exception'' (app_state a1)"
    using timed_abort [OF assms(1, 2)] by metis
  let ?emit = "app_emit p ''runtime_failed'' [(''reason_code'', VStr ''runtime_exception'')]"
  obtain u a2 where a2: "?emit a1 = (Inr u, a2)"
    using steady_emit [OF assms(1)] by (metis isl_def old.sum.exhaust prod.collapse)
  let ?P = "closed_session p ABORTED ''runtime_exception''"
  have "keeps (\<lambda>a. ?P (app_state a)) ?emit" by (rule state_emit)
  from io_spec_Inr [OF this, of a1 u a2] a1(2) a2 have "?P (app_state a2)" by blast
  with a1(1) a2 assms(3) show ?thesis by (auto simp: fail_run_def)
qed

lemma steady_start:
  assumes "steady p T" and "app_state a = inactive_state" and "sm_callbacks (app_session_manager a) = []"
    and "strip (ap_session_id p) \<noteq> []"
  obtains r b where "app_start p a = (Inr r, b)" "timed p T b"
proof -
  have n: "strip (ap_session_id p) \<noteq> [] \<and> ss_kind (app_state a) = INACTIVE"
    using assms(2, 4) by (simp add: inactive_state_def)
  obtain w where w1: "T (app_world a) \<le> T w" and w2: "session_io p
      (\<lambda>s. strip (ap_session_id p) \<noteq> [] \<and> ss_kind s = INACTIVE) (\<lambda>clk. start_session clk (ap_session_id p) None) a =
      (case start_session (T (app_world a)) (ap_session_id p) None ((app_session_manager a)\<lparr>sm_world := w\<rparr>) of
         (r, m) \<Rightarrow> (map_error session_exception r, a\<lparr>app_session_manager := m\<rparr>))"
    by (rule steady_session_io [where reads = "\<lambda>s. strip (ap_session_id p) \<noteq> [] \<and> ss_kind s = INACTIVE", OF assms(1) n])
  let ?s = "\<lparr>ss_kind = ACTIVE, ss_session_id = Some (strip (ap_session_id p)), ss_started_at = Some (T (app_world a)),
      ss_last_activity_at = Some (T (app_world a)), ss_ended_at = None, ss_reason_code = None\<rparr>"
  obtain x where x: "start_session (T (app_world a)) (ap_session_id p) None ((app_session_manager a)\<lparr>sm_world := w\<rparr>) =
      (Inr x, (app_session_manager a)\<lparr>sm_world := w, sm_state := ?s\<rparr>)"
    using assms by (simp add: start_session_def inactive_state_def normalize_session_id_def apply_transition_silent
        resolve_time_def Let_def)
  have "active_session p ?s" using assms(4) by (simp add: active_session_def session_ok_def)
  with w1 w2 [folded app_start_def] x assms(3) that show thesis by (simp add: timed_def app_world_def)
qed

lemma raised_closed:
  assumes "steady p T" and "app_state a = inactive_state" and "sm_callbacks (app_session_manager a) = []"
    and "strip (ap_session_id p) \<noteq> []" and "run_app p a = Some (Inl e, b)"
  shows "closed_session p ABORTED ''runtime_exception'' (app_state b)"
proof -
  obtain r a0 where a0: "app_start p a = (Inr r, a0)" "timed p T a0" using steady_start [OF assms(1-4)] .
  obtain u a1 where a1: "app_emit p ''runtime_started'' [] a0 = (Inr u, a1)"
    using steady_emit [OF assms(1)] by (metis isl_def old.sum.exhaust prod.collapse)
  have t1: "timed p T a1" using io_spec_Inr [OF timed.J_emit [of p T] _ a1] a0(2) assms(1) by simp
  from assms(5) show ?thesis
  proof (cases rule: run_app_cases)
    case (start e')
    with a0 a1 show ?thesis by simp
  next
    case (failed a1' e' a2)
    with a0 a1 have "a1' = a1" by simp
    with timed.J_app_loop [OF failed(2), of T] t1 assms(1) have "timed p T a2" by simp
    with timed_fail [OF assms(1) _ failed(3)] show ?thesis by simp
  next
    case (finished a1' c why a2)
    with a0 a1 have "a1' = a1" by simp
    with timed.J_app_loop [OF finished(2), of T] t1 assms(1) have "timed p T a2" by simp
    with timed_finish [OF assms(1), of a2 why] finished(3) show ?thesis
      by (auto simp: io_bind_eq)
  qed
qed

section \<open>What the loop counts\<close>

text \<open>A run ends for one of five reasons.\<close>

definition reason_ok :: "string option \<Rightarrow> bool" where
  "reason_ok w \<longleftrightarrow> (case w of None \<Rightarrow> True
     | Some s \<Rightarrow> s \<in> {''end_of_stream'', ''soft_timeout'', ''hard_timeout'', ''cancelled'', ''failed_terminal''})"

text \<open>
  The counters against the event ids entered as seen: every processed event entered its id, a failed
  event is a processed one, and with stop-on-failure the first failure ends the loop.
\<close>

definition counted :: "'w app_ports \<Rightarrow> nat \<Rightarrow> run_counts \<times> string option \<Rightarrow> 'w app \<Rightarrow> bool" where
  "counted p n r a \<longleftrightarrow>
     reason_ok (snd r) \<and> rn_processed (fst r) = int (length (app_seen_event_ids a)) - int n \<and>
     0 \<le> rn_failed (fst r) \<and> rn_failed (fst r) \<le> rn_processed (fst r) \<and> 0 \<le> rn_skipped (fst r) \<and>
     (snd r = Some ''failed_terminal'' \<longrightarrow> 0 < rn_failed (fst r)) \<and>
     (ap_stop_on_failure p \<longrightarrow> rn_failed (fst r) = (if snd r = Some ''failed_terminal'' then 1 else 0))"

lemma seen_on_world: "io_spec (\<lambda>a. P (app_seen_event_ids a)) (on_world m) (\<lambda>_ a. P (app_seen_event_ids a)) (\<lambda>_. True)"
  by (rule spec_on_world) auto

lemma seen_session_io: "io_spec (\<lambda>a. P (app_seen_event_ids a)) (session_io p r f) (\<lambda>_ a. P (app_seen_event_ids a)) (\<lambda>_. True)"
  by (rule spec_session_io [OF seen_on_world]) auto

lemma seen_emit: "io_spec (\<lambda>a. P (app_seen_event_ids a)) (app_emit p k x) (\<lambda>_ a. P (app_seen_event_ids a)) (\<lambda>_. True)"
proof -
  have "io_spec (\<lambda>a. P (app_seen_event_ids a)) (\<lambda>a. on_world (f a) a) (\<lambda>_ a. P (app_seen_event_ids a)) (\<lambda>_. True)"
    for f :: "'a app \<Rightarrow> ('a, py_exception, unit) io"
    by (rule io_specI) (auto simp: on_world_eq)
  then show ?thesis unfolding app_emit_def by (intro spec_bind [OF seen_on_world])
qed

lemma seen_canonical:
  "io_spec (\<lambda>a. P (app_seen_event_ids a)) (emit_canonical_outcome_event p k px) (\<lambda>_ a. P (app_seen_event_ids a)) (\<lambda>_. True)"
  by (rule io_specI)
    (auto simp: emit_canonical_outcome_event_def io_bind_def map_error_def on_world_eq split: sum.splits)

lemma seen_context:
  "io_spec (\<lambda>a. P (app_seen_event_ids a)) (build_processing_context p e i) (\<lambda>_ a. P (app_seen_event_ids a)) (\<lambda>_. True)"
  unfolding build_processing_context_def
  by (intro spec_bind [where Q = "\<lambda>_ a. P (app_seen_event_ids a)"] seen_on_world spec_lift) auto

lemma seen_timeouts:
  "io_spec (\<lambda>a. P (app_seen_event_ids a)) (app_timeouts p) (\<lambda>_ a. P (app_seen_event_ids a)) (\<lambda>_. True)"
  "io_spec (\<lambda>a. P (app_seen_event_ids a)) (app_activity p) (\<lambda>_ a. P (app_seen_event_ids a)) (\<lambda>_. True)"
  unfolding app_timeouts_def app_activity_def by (rule seen_session_io)+

lemma seen_next_batch:
  "io_spec (\<lambda>a. P (app_seen_event_ids a)) (next_event_batch p) (\<lambda>_ a. P (app_seen_event_ids a)) (\<lambda>_. True)"
  by (rule io_specI) (auto simp: next_event_batch_def io_bind_def on_world_def split: event_source.splits prod.splits sum.splits if_splits)

lemma new_event_counts:
  "io_spec (\<lambda>a. length (app_seen_event_ids a) = m) (process_new_event p e i c)
     (\<lambda>r a. length (app_seen_event_ids a) = m \<and>
        (r = (c\<lparr>rn_processed := rn_processed c + 1\<rparr>, None) \<or>
         r = (c\<lparr>rn_processed := rn_processed c + 1, rn_failed := rn_failed c + 1\<rparr>,
              if ap_stop_on_failure p then Some ''failed_terminal'' else None))) (\<lambda>_. True)"
  unfolding process_new_event_def Let_def
  by (intro spec_bind [OF seen_context [where P = "\<lambda>s. length s = m"]]
      spec_bind [OF seen_timeouts(2) [where P = "\<lambda>s. length s = m"]]
      spec_bind [OF seen_on_world [where P = "\<lambda>s. length s = m"]]
      spec_bind [OF seen_emit [where P = "\<lambda>s. length s = m"]]
      spec_bind [OF seen_canonical [where P = "\<lambda>s. length s = m"]] spec_return) simp

lemma counted_stop:
  "counted p n (c, None) a \<Longrightarrow> w \<in> {''end_of_stream'', ''soft_timeout'', ''hard_timeout'', ''cancelled''} \<Longrightarrow>
   counted p n (c, Some w) a"
  by (auto simp: counted_def reason_ok_def)

lemma counted_seen: "counted p n r a \<longleftrightarrow> counted p n r (a\<lparr>app_session_manager := m\<rparr>)"
  by (simp add: counted_def)

lemma counted_cong: "length (app_seen_event_ids a) = length (app_seen_event_ids b) \<Longrightarrow> counted p n r a = counted p n r b"
  by (simp add: counted_def)

lemma counted_keep:
  assumes "\<And>P. io_spec (\<lambda>a. P (app_seen_event_ids a)) m (\<lambda>_ a. P (app_seen_event_ids a)) (\<lambda>_. True)"
  shows "io_spec (counted p n r) m (\<lambda>_. counted p n r) (\<lambda>_. True)"
proof -
  have "io_spec (\<lambda>a. counted p n r (undefined\<lparr>app_seen_event_ids := app_seen_event_ids a\<rparr>)) m
      (\<lambda>_ a. counted p n r (undefined\<lparr>app_seen_event_ids := app_seen_event_ids a\<rparr>)) (\<lambda>_. True)"
    by (rule assms)
  then show ?thesis by (simp add: counted_def [abs_def])
qed

lemma counted_new:
  assumes "counted p n (c, None) a" and "i \<notin> set (app_seen_event_ids a)"
    and "process_new_event p e i c (a\<lparr>app_seen_event_ids := i # app_seen_event_ids a\<rparr>) = (Inr r, b)"
  shows "counted p n r b"
  using io_spec_Inr [OF new_event_counts [of "Suc (length (app_seen_event_ids a))" p e i c] _ assms(3)] assms(1)
  by (auto simp: counted_def reason_ok_def)

lemma handle_counts: "io_spec (counted p n (c, None)) (handle_event p e c) (counted p n) (\<lambda>_. True)"
  unfolding handle_event_def
proof (intro spec_bind [OF counted_keep [OF seen_timeouts(1)]] spec_if spec_return
    spec_bind [OF counted_keep [OF seen_on_world]], goal_cases)
  case (4 t cancelled)
  show ?case
  proof (rule spec_bind [where Q = "\<lambda>_. counted p n (c, None)"])
    fix i
    have skip: "io_spec (counted p n (c, None)) (io_bind (app_emit p k x)
        (\<lambda>_. io_return (c\<lparr>rn_skipped := rn_skipped c + 1\<rparr>, None))) (counted p n) (\<lambda>_. True)" for k x
      by (rule spec_bind [OF counted_keep [OF seen_emit]]) (rule spec_return, simp add: counted_def)
    show "io_spec (counted p n (c, None)) (\<lambda>a. if i \<in> set (app_seen_event_ids a)
        then io_bind (app_emit p ''runtime_event_skipped'' [(''event_id'', VStr i), (''reason_code'', VStr ''duplicate_event_id'')])
          (\<lambda>_. io_return (c\<lparr>rn_skipped := rn_skipped c + 1\<rparr>, None)) a
        else process_new_event p e i c (a\<lparr>app_seen_event_ids := i # app_seen_event_ids a\<rparr>)) (counted p n) (\<lambda>_. True)"
    proof (rule spec_state_if)
      show "io_spec (\<lambda>a. counted p n (c, None) a \<and> i \<in> set (app_seen_event_ids a))
        (io_bind (app_emit p ''runtime_event_skipped'' [(''event_id'', VStr i), (''reason_code'', VStr ''duplicate_event_id'')])
          (\<lambda>_. io_return (c\<lparr>rn_skipped := rn_skipped c + 1\<rparr>, None))) (counted p n) (\<lambda>_. True)"
        by (rule spec_conseq, rule skip) auto
    next
      show "io_spec (\<lambda>a. counted p n (c, None) a \<and> i \<notin> set (app_seen_event_ids a))
        (\<lambda>a. process_new_event p e i c (a\<lparr>app_seen_event_ids := i # app_seen_event_ids a\<rparr>)) (counted p n) (\<lambda>_. True)"
        by (rule io_specI) (auto intro: counted_new)
    qed
  qed (rule spec_lift; simp)
qed (auto intro: counted_stop)

lemma batch_counts: "io_spec (counted p n (c, None)) (process_event_batch p es c) (counted p n) (\<lambda>_. True)"
proof (induction es arbitrary: c)
  case Nil
  then show ?case by (simp add: io_spec_def)
next
  case (Cons e es)
  show ?case
  proof (rule io_specI)
    fix a x b
    assume c: "counted p n (c, None) a" and run: "process_event_batch p (e # es) c a = (Inr x, b)"
    obtain r d where h: "handle_event p e c a = (r, d)" by (cases "handle_event p e c a")
    with run obtain c1 w where r: "r = Inr (c1, w)" by (cases r) auto
    have d: "counted p n (c1, w) d" using io_spec_Inr [OF handle_counts c] h r by blast
    show "counted p n x b"
    proof (cases w)
      case None
      with run h r have "process_event_batch p es c1 d = (Inr x, b)" by simp
      with io_spec_Inr [OF Cons.IH, of c1 d x b] d None show ?thesis by simp
    next
      case (Some why)
      with run h r d show ?thesis by auto
    qed
  qed simp
qed

lemma body_counts: "io_spec (counted p n (c, None)) (loop_body p c) (counted p n) (\<lambda>_. True)"
  unfolding loop_body_def
proof (intro spec_bind [OF counted_keep [OF seen_timeouts(1)]] spec_bind [OF counted_keep [OF seen_next_batch]]
    spec_if spec_return spec_bind [OF counted_keep [OF seen_on_world]], goal_cases)
  case (6 t batch)
  show ?case
  proof (rule io_specI)
    fix a x b
    assume c: "counted p n (c, None) a"
      and run: "io_bind (process_event_batch p batch no_counts) (\<lambda>r. io_return (add_counts c (fst r),
        case snd r of Some why \<Rightarrow> Some why | None \<Rightarrow> if ap_loop_mode p = ''oneshot'' then Some ''end_of_stream'' else None)) a =
        (Inr x, b)"
    then obtain r where r: "process_event_batch p batch no_counts a = (Inr r, b)"
        "x = (add_counts c (fst r), case snd r of Some why \<Rightarrow> Some why
          | None \<Rightarrow> if ap_loop_mode p = ''oneshot'' then Some ''end_of_stream'' else None)"
      by (auto simp: io_bind_eq)
    have "counted p (length (app_seen_event_ids a)) (no_counts, None) a"
      by (simp add: counted_def no_counts_def reason_ok_def)
    from io_spec_Inr [OF batch_counts this r(1)] have "counted p (length (app_seen_event_ids a)) r b" .
    with c r(2) show "counted p n x b"
      by (auto simp: counted_def add_counts_def reason_ok_def split: option.splits)
  qed simp
qed (auto intro: counted_stop)

lemma loop_counts:
  assumes "app_loop p c a = Some (Inr (c', why), b)" and "counted p n (c, None) a"
  shows "counted p n (c', Some why) b"
proof -
  have "\<forall>c' why b. y = (Inr (c', why), b) \<longrightarrow> counted p n (c, None) a \<longrightarrow> counted p n (c', Some why) b"
    if "app_loop p c a = Some y" for y
    using that
    by (induction c a y rule: app_loop_induct) (auto dest: io_spec_Inr [OF body_counts])
  with assms show ?thesis by blast
qed

end
