(* ===== verification/App_Run.thy ===== *)
theory App_Run
  imports App_Correct
begin

text \<open>
  The properties of a run of the application: the session it brackets, delivery to the engine at most
  once, the counters, when a run returns, the canonical events, and what happens to an event whose id
  was seen before.
\<close>

section \<open>Delivery to the engine\<close>

text \<open>
  \<open>log\<close> reads from the world what the engine was called with: every call of the engine appends its
  event's id, no other collaborator touches it.
\<close>

definition logging :: "'w app_ports \<Rightarrow> ('w \<Rightarrow> string list) \<Rightarrow> bool" where
  "logging p lg \<longleftrightarrow>
     (\<forall>w. lg (snd (ap_clock p w)) = lg w) \<and> (\<forall>m w. lg (snd (ap_event_emitter p m w)) = lg w) \<and>
     (\<forall>w. lg (snd (ap_cancellation_signal p w)) = lg w) \<and> (\<forall>d w. lg (snd (ap_idle_wait p d w)) = lg w) \<and>
     (\<forall>w. lg (source_worlds (ap_event_source p) w) = lg w) \<and>
     (\<forall>e px w. lg (snd (ap_engine_process p e px w)) = lg w @ [pcx_event_id px])"

definition delivered :: "('w \<Rightarrow> string list) \<Rightarrow> 'w app \<Rightarrow> bool" where
  "delivered lg a \<longleftrightarrow> sm_callbacks (app_session_manager a) = [] \<and> distinct (app_seen_event_ids a) \<and>
     lg (app_world a) = rev (app_seen_event_ids a)"

definition pending :: "('w \<Rightarrow> string list) \<Rightarrow> string \<Rightarrow> 'w app \<Rightarrow> bool" where
  "pending lg i a \<longleftrightarrow> sm_callbacks (app_session_manager a) = [] \<and> distinct (app_seen_event_ids a) \<and>
     app_seen_event_ids a \<noteq> [] \<and> hd (app_seen_event_ids a) = i \<and> lg (app_world a) = rev (tl (app_seen_event_ids a))"

definition once :: "('w \<Rightarrow> string list) \<Rightarrow> 'w app \<Rightarrow> bool" where
  "once lg a \<longleftrightarrow> sm_callbacks (app_session_manager a) = [] \<and> distinct (lg (app_world a))"

lemma delivered_once: "delivered lg a \<Longrightarrow> once lg a"
  by (simp add: delivered_def once_def)

lemma pending_once: "pending lg i a \<Longrightarrow> once lg a"
  by (cases "app_seen_event_ids a") (auto simp: pending_def once_def)

lemma log_on_world:
  assumes "\<And>w. lg (snd (m w)) = lg w"
  shows "keeps (\<lambda>a. Q (lg (app_world a)) (app_seen_event_ids a) (sm_callbacks (app_session_manager a))) (on_world m)"
proof (rule io_specI)
  fix a x b
  assume "Q (lg (app_world a)) (app_seen_event_ids a) (sm_callbacks (app_session_manager a))" "on_world m a = (Inr x, b)"
  with assms [of "app_world a"] show "Q (lg (app_world b)) (app_seen_event_ids b) (sm_callbacks (app_session_manager b))"
    by (auto simp: on_world_eq)
next
  fix a e b
  assume "Q (lg (app_world a)) (app_seen_event_ids a) (sm_callbacks (app_session_manager a))" "on_world m a = (Inl e, b)"
  with assms [of "app_world a"] show "Q (lg (app_world b)) (app_seen_event_ids b) (sm_callbacks (app_session_manager b))"
    by (auto simp: on_world_eq)
qed

lemma silent_session_calls:
  assumes "sm_callbacks m = []"
  shows "record_activity clk sid t m = (r, m') \<Longrightarrow> sm_world m' = sm_world m \<and> sm_callbacks m' = []"
    "stop_session clk sid t m = (r, m') \<Longrightarrow> sm_world m' = sm_world m \<and> sm_callbacks m' = []"
    "abort_session clk sid t why m = (r, m') \<Longrightarrow> sm_world m' = sm_world m \<and> sm_callbacks m' = []"
    "start_session clk sid t m = (r, m') \<Longrightarrow> sm_world m' = sm_world m \<and> sm_callbacks m' = []"
  using assms
  by (auto simp: record_activity_def stop_session_def abort_session_def start_session_def apply_transition_silent Let_def
      split: sum.splits if_splits)

lemma log_session_io:
  assumes "\<And>w. lg (snd (ap_clock p w)) = lg w"
    and "\<And>clk m r m'. sm_callbacks m = [] \<Longrightarrow> f clk m = (r, m') \<Longrightarrow> sm_world m' = sm_world m \<and> sm_callbacks m' = []"
  shows "keeps (\<lambda>a. sm_callbacks (app_session_manager a) = [] \<and> Q (lg (app_world a)) (app_seen_event_ids a)) (session_io p rd f)"
proof (rule spec_session_io [OF log_on_world [where Q = "\<lambda>l s cb. cb = [] \<and> Q l s" and lg = lg and m = "ap_clock p", OF assms(1)]])
  fix clk b r m
  assume "sm_callbacks (app_session_manager b) = [] \<and> Q (lg (app_world b)) (app_seen_event_ids b)"
    and "f clk (app_session_manager b) = (Inr r, m)"
  then show "sm_callbacks (app_session_manager (b\<lparr>app_session_manager := m\<rparr>)) = [] \<and>
      Q (lg (app_world (b\<lparr>app_session_manager := m\<rparr>))) (app_seen_event_ids (b\<lparr>app_session_manager := m\<rparr>))"
    using assms(2) [of "app_session_manager b" clk "Inr r" m] by (simp add: app_world_def)
next
  fix clk b e m
  assume "sm_callbacks (app_session_manager b) = [] \<and> Q (lg (app_world b)) (app_seen_event_ids b)"
    and "f clk (app_session_manager b) = (Inl e, m)"
  then show "sm_callbacks (app_session_manager (b\<lparr>app_session_manager := m\<rparr>)) = [] \<and>
      Q (lg (app_world (b\<lparr>app_session_manager := m\<rparr>))) (app_seen_event_ids (b\<lparr>app_session_manager := m\<rparr>))"
    using assms(2) [of "app_session_manager b" clk "Inl e" m] by (simp add: app_world_def)
qed

lemma log_emit:
  assumes "logging p lg"
  shows "keeps (\<lambda>a. sm_callbacks (app_session_manager a) = [] \<and> Q (lg (app_world a)) (app_seen_event_ids a)) (app_emit p k x)"
proof -
  have l: "lg (snd (ap_clock p w)) = lg w" "lg (snd (ap_event_emitter p m w)) = lg w" for m w
    using assms by (simp_all add: logging_def)
  have "keeps (\<lambda>a. sm_callbacks (app_session_manager a) = [] \<and> Q (lg (app_world a)) (app_seen_event_ids a))
      (on_world (ap_event_emitter p m))" for m
    by (rule log_on_world [where Q = "\<lambda>l s cb. cb = [] \<and> Q l s"]) (rule l)
  then show ?thesis
    unfolding app_emit_def
    by (intro spec_bind [OF log_on_world [where Q = "\<lambda>l s cb. cb = [] \<and> Q l s" and lg = lg and m = "ap_clock p", OF l(1)]]) (simp add: io_spec_def)
qed

lemma log_calls_kept:
  assumes "logging p lg"
  shows "keeps (\<lambda>a. sm_callbacks (app_session_manager a) = [] \<and> Q (lg (app_world a)) (app_seen_event_ids a)) (app_activity p)"
    "keeps (\<lambda>a. sm_callbacks (app_session_manager a) = [] \<and> Q (lg (app_world a)) (app_seen_event_ids a)) (app_stop p)"
    "keeps (\<lambda>a. sm_callbacks (app_session_manager a) = [] \<and> Q (lg (app_world a)) (app_seen_event_ids a)) (app_abort p why)"
    "keeps (\<lambda>a. sm_callbacks (app_session_manager a) = [] \<and> Q (lg (app_world a)) (app_seen_event_ids a)) (app_start p)"
proof -
  have l: "lg (snd (ap_clock p w)) = lg w" for w using assms by (simp add: logging_def)
  show "keeps (\<lambda>a. sm_callbacks (app_session_manager a) = [] \<and> Q (lg (app_world a)) (app_seen_event_ids a)) (app_activity p)"
    "keeps (\<lambda>a. sm_callbacks (app_session_manager a) = [] \<and> Q (lg (app_world a)) (app_seen_event_ids a)) (app_stop p)"
    "keeps (\<lambda>a. sm_callbacks (app_session_manager a) = [] \<and> Q (lg (app_world a)) (app_seen_event_ids a)) (app_abort p why)"
    "keeps (\<lambda>a. sm_callbacks (app_session_manager a) = [] \<and> Q (lg (app_world a)) (app_seen_event_ids a)) (app_start p)"
    unfolding app_activity_def app_stop_def app_abort_def app_start_def
    by (rule log_session_io, rule l, erule (1) silent_session_calls)+
qed

lemma silent_port:
  assumes "\<And>w. lg (snd (m w)) = lg w"
  shows "io_spec (delivered lg) (on_world m) (\<lambda>_. delivered lg) (once lg)"
    "io_spec (pending lg i) (on_world m) (\<lambda>_. pending lg i) (once lg)"
    "keeps (once lg) (on_world m)"
proof -
  note world = log_on_world [where lg = lg and m = m, OF assms]
  show "io_spec (delivered lg) (on_world m) (\<lambda>_. delivered lg) (once lg)"
    by (rule spec_conseq, rule world [where Q = "\<lambda>l s cb. cb = [] \<and> distinct s \<and> l = rev s"])
      (auto simp: delivered_def once_def)
  show "io_spec (pending lg i) (on_world m) (\<lambda>_. pending lg i) (once lg)"
    by (rule spec_conseq, rule world [where Q = "\<lambda>l s cb. cb = [] \<and> distinct s \<and> s \<noteq> [] \<and> hd s = i \<and> l = rev (tl s)"])
      (auto simp: pending_def once_def neq_Nil_conv)
  show "keeps (once lg) (on_world m)"
    by (rule spec_conseq, rule world [where Q = "\<lambda>l s cb. cb = [] \<and> distinct l"]) (auto simp: once_def)
qed

lemma engine_delivers:
  assumes "\<And>w. lg (snd (m w)) = lg w @ [i]"
  shows "io_spec (pending lg i) (on_world m) (\<lambda>_. delivered lg) (once lg)"
proof -
  have "delivered lg (set_world a w)" if "pending lg i a" "m (app_world a) = (r, w)" for a r w
    using that assms [of "app_world a"] by (cases "app_seen_event_ids a") (auto simp: pending_def delivered_def)
  then show ?thesis by (intro spec_on_world) (blast intro: delivered_once)+
qed

lemma activity_pending:
  assumes "logging p lg"
  shows "io_spec (pending lg i) (app_activity p) (\<lambda>_. pending lg i) (once lg)"
  by (rule spec_conseq, rule log_calls_kept(1) [OF assms,
        where Q = "\<lambda>l s. distinct s \<and> s \<noteq> [] \<and> hd s = i \<and> l = rev (tl s)"])
    (auto simp: pending_def once_def neq_Nil_conv)

interpretation delivery: app_invariant p "\<lambda>a. logging p lg \<longrightarrow> delivered lg a" "\<lambda>i a. logging p lg \<longrightarrow> pending lg i a"
  "\<lambda>a. logging p lg \<longrightarrow> once lg a" for p lg
proof (cases "logging p lg")
  case False
  then show "app_invariant p (\<lambda>a. logging p lg \<longrightarrow> delivered lg a) (\<lambda>i a. logging p lg \<longrightarrow> pending lg i a)
      (\<lambda>a. logging p lg \<longrightarrow> once lg a)"
    by unfold_locales (auto simp: io_spec_def split: prod.splits sum.splits)
next
  case True
  note l = True [unfolded logging_def]
  have src: "lg (snd (f w)) = lg w" if "ap_event_source p = PollSource f" for f w
    using l that by (auto simp: source_worlds_def)
  have src': "lg (snd (f w)) = lg w" if "ap_event_source p = OnceSource f" for f w
    using l that by (auto simp: source_worlds_def)
  have "app_invariant p (delivered lg) (pending lg) (once lg)"
  proof
    fix i e and px :: processing_context
    assume "pcx_event_id px = i"
    with l show "io_spec (pending lg i) (on_world (ap_engine_process p e px)) (\<lambda>_. delivered lg) (once lg)"
      by (intro engine_delivers) auto
  next
    fix a i assume "delivered lg a" "i \<notin> set (app_seen_event_ids a)"
    then show "pending lg i (a\<lparr>app_seen_event_ids := i # app_seen_event_ids a\<rparr>)"
      by (simp add: delivered_def pending_def app_world_def)
  next
    fix a assume "delivered lg a"
    then show "delivered lg (a\<lparr>app_event_source_consumed := True\<rparr>)" by (simp add: delivered_def app_world_def)
  qed (use l in \<open>auto intro!: silent_port src src' activity_pending [OF True] elim: delivered_once pending_once\<close>)
  with True show "app_invariant p (\<lambda>a. logging p lg \<longrightarrow> delivered lg a) (\<lambda>i a. logging p lg \<longrightarrow> pending lg i a)
      (\<lambda>a. logging p lg \<longrightarrow> once lg a)" by simp
qed

text \<open>Closing the session calls the engine no more.\<close>

lemma log_emit_kept:
  assumes "logging p lg"
  shows "keeps (\<lambda>a. sm_callbacks (app_session_manager a) = [] \<and> lg (app_world a) = l) (app_emit p k x)"
    "keeps (\<lambda>a. sm_callbacks (app_session_manager a) = [] \<and> lg (app_world a) = l) (app_abort p why)"
    "keeps (\<lambda>a. sm_callbacks (app_session_manager a) = [] \<and> lg (app_world a) = l) (app_stop p)"
    "keeps (\<lambda>a. sm_callbacks (app_session_manager a) = [] \<and> lg (app_world a) = l) (app_start p)"
  using log_emit [OF assms, of "\<lambda>m s. m = l"] log_calls_kept [OF assms, of "\<lambda>m s. m = l"] by auto

lemma log_finish:
  assumes "logging p lg"
  shows "keeps (\<lambda>a. sm_callbacks (app_session_manager a) = [] \<and> lg (app_world a) = l) (finish_run p why)"
    "keeps (\<lambda>a. sm_callbacks (app_session_manager a) = [] \<and> lg (app_world a) = l) (fail_run p e)"
  unfolding finish_run_def fail_run_def
  by (intro spec_if spec_bind [OF log_emit_kept(2) [OF assms]] spec_bind [OF log_emit_kept(3) [OF assms]]
      spec_bind [OF log_emit_kept(1) [OF assms]] log_emit_kept(1) [OF assms] spec_raise)+

lemma fresh_loop_counts:
  assumes "app_seen_event_ids a = []" and "io_bind (app_start p) (\<lambda>_. app_emit p ''runtime_started'' []) a = (Inr (), a1)"
    and "app_loop p no_counts a1 = Some (Inr (c, why), a2)"
  shows "counted p 0 (c, Some why) a2"
proof -
  have "io_spec (\<lambda>a. app_seen_event_ids a = []) (io_bind (app_start p) (\<lambda>_. app_emit p ''runtime_started'' []))
      (\<lambda>_ a. app_seen_event_ids a = []) (\<lambda>_. True)"
    unfolding app_start_def
    by (intro spec_bind [OF seen_session_io [where P = "\<lambda>s. s = []"]] seen_emit)
  from io_spec_Inr [OF this assms(1, 2)] have "counted p 0 (no_counts, None) a1"
    by (simp add: counted_def no_counts_def reason_ok_def)
  with loop_counts [OF assms(3)] show ?thesis .
qed

lemma delivery_run:
  assumes lg: "logging p lg" and fresh: "app_seen_event_ids a = []" "sm_callbacks (app_session_manager a) = []"
      "lg (app_world a) = []" and run: "run_app p a = Some (r, b)"
  shows "distinct (lg (app_world b))"
    and "r = Inr res \<Longrightarrow> int (length (lg (app_world b))) = rn_processed (ar_counts res)"
proof -
  let ?A = "\<lambda>l a. sm_callbacks (app_session_manager a) = [] \<and> lg (app_world a) = l"
  let ?D = "\<lambda>a. sm_callbacks (app_session_manager a) = [] \<and>
      (\<lambda>l s. distinct s \<and> l = rev s) (lg (app_world a)) (app_seen_event_ids a)"
  have D: "delivered lg = ?D" by (auto simp: delivered_def)
  have start: "keeps (delivered lg) (io_bind (app_start p) (\<lambda>_. app_emit p ''runtime_started'' []))"
    unfolding D by (intro spec_bind [OF log_calls_kept(4) [OF lg]] log_emit [OF lg])
  have d: "delivered lg a" using fresh by (simp add: delivered_def)
  from run have "distinct (lg (app_world b)) \<and> (r = Inr res \<longrightarrow> int (length (lg (app_world b))) = rn_processed (ar_counts res))"
  proof (cases rule: run_app_cases)
    case (start e)
    then show ?thesis using io_spec_Inl [OF \<open>keeps (delivered lg) _\<close> d start(1)] by (simp add: delivered_def)
  next
    case (failed a1 e a2)
    have "delivered lg a1" using io_spec_Inr [OF start d failed(1)] .
    with delivery.J_app_loop [OF failed(2), of lg] lg have "once lg a2" by simp
    then have a2: "?A (lg (app_world a2)) a2" "distinct (lg (app_world a2))" by (auto simp: once_def)
    then have "?A (lg (app_world a2)) (snd (r, b))"
      unfolding failed(3) [symmetric] by (intro keeps_snd [OF log_finish(2) [OF lg]])
    with a2 fail_run_raises [OF failed(3)] show ?thesis by auto
  next
    case (finished a1 c why a2)
    have d1: "delivered lg a1" using io_spec_Inr [OF start d finished(1)] .
    with delivery.J_app_loop [OF finished(2), of lg] lg have d2: "delivered lg a2" by simp
    have "counted p 0 (c, Some why) a2" by (rule fresh_loop_counts [OF fresh(1) finished(1, 2)])
    then have n: "rn_processed c = int (length (lg (app_world a2)))" using d2 by (simp add: counted_def delivered_def)
    obtain x a3 where f: "finish_run p why a2 = (x, a3)" by (cases "finish_run p why a2")
    then have "?A (lg (app_world a2)) a3"
      using keeps_snd [OF log_finish(1) [OF lg, where l = "lg (app_world a2)" and why = why], of a2] d2 by (simp add: delivered_def)
    moreover have "b = a3" "r = Inr res \<Longrightarrow> ar_counts res = c"
      using f finished(3) by (auto simp: io_bind_def split: sum.splits)
    ultimately show ?thesis using n d2 by (auto simp: delivered_def)
  qed
  then show "distinct (lg (app_world b))"
    and "r = Inr res \<Longrightarrow> int (length (lg (app_world b))) = rn_processed (ar_counts res)" by auto
qed

section \<open>When a run returns\<close>

lemma oneshot_ends: "ap_loop_mode p = ''oneshot'' \<Longrightarrow> loop_body p c a = (Inr (c1, w), b) \<Longrightarrow> w \<noteq> None"
  by (auto simp: loop_body_def io_bind_eq split: if_splits option.splits)

text \<open>
  The worlds \<open>C\<close> in which the cancellation signal is on, and stays on when the clock is read or the
  source is asked.
\<close>

definition stays_cancelled :: "'w app_ports \<Rightarrow> ('w \<Rightarrow> bool) \<Rightarrow> bool" where
  "stays_cancelled p C \<longleftrightarrow>
     (\<forall>w. C w \<longrightarrow> fst (ap_cancellation_signal p w) = Inr True \<and> C (snd (ap_clock p w)) \<and>
        C (source_worlds (ap_event_source p) w))"

text \<open>The state before the \<open>n\<close>-th further iteration, if the loop gets there.\<close>

fun loop_prefix :: "'w app_ports \<Rightarrow> nat \<Rightarrow> run_counts \<Rightarrow> 'w app \<Rightarrow> (run_counts \<times> 'w app) option" where
  "loop_prefix p 0 c a = Some (c, a)"
| "loop_prefix p (Suc n) c a =
     (case loop_body p c a of (Inr (c1, None), b) \<Rightarrow> loop_prefix p n c1 b | _ \<Rightarrow> None)"

lemma stays_cancelledD:
  assumes "stays_cancelled p C" and "C w"
  shows "ap_clock p w = (r, w') \<Longrightarrow> C w'" "ap_event_source p = PollSource f \<Longrightarrow> f w = (r', w') \<Longrightarrow> C w'"
    "ap_event_source p = OnceSource g \<Longrightarrow> g w = (r'', w') \<Longrightarrow> C w'"
    "\<exists>v. ap_cancellation_signal p w = (Inr True, v)"
proof -
  from assms have c: "C (snd (ap_clock p w))" "C (source_worlds (ap_event_source p) w)"
      "fst (ap_cancellation_signal p w) = Inr True"
    by (auto simp: stays_cancelled_def)
  show "ap_clock p w = (r, w') \<Longrightarrow> C w'" using c(1) by simp
  show "ap_event_source p = PollSource f \<Longrightarrow> f w = (r', w') \<Longrightarrow> C w'" using c(2) by (simp add: source_worlds_def)
  show "ap_event_source p = OnceSource g \<Longrightarrow> g w = (r'', w') \<Longrightarrow> C w'" using c(2) by (simp add: source_worlds_def)
  show "\<exists>v. ap_cancellation_signal p w = (Inr True, v)"
    using c(3) by (cases "ap_cancellation_signal p w") simp
qed

lemma cancelled_timeouts:
  assumes "stays_cancelled p C"
  shows "io_spec (\<lambda>a. C (app_world a)) (app_timeouts p) (\<lambda>_ a. C (app_world a)) (\<lambda>_. True)"
  unfolding app_timeouts_def
proof (rule spec_session_io)
  show "io_spec (\<lambda>a. C (app_world a)) (on_world (ap_clock p)) (\<lambda>_ a. C (app_world a)) (\<lambda>_. True)"
    by (intro spec_on_world) (auto intro: stays_cancelledD(1) [OF assms])
qed (auto simp: app_world_def)

lemma cancelled_batch:
  assumes "stays_cancelled p C"
  shows "io_spec (\<lambda>a. C (app_world a)) (next_event_batch p) (\<lambda>_ a. C (app_world a)) (\<lambda>_. True)"
proof (rule io_specI)
  fix a x b
  assume C: "C (app_world a)" and n: "next_event_batch p a = (Inr x, b)"
  show "C (app_world b)"
  proof (cases "ap_event_source p")
    case (PollSource f)
    with n obtain src where "on_world f a = (Inr src, b)" by (auto simp: next_event_batch_def io_bind_eq)
    with stays_cancelledD(2) [OF assms C PollSource] show ?thesis by (auto simp: on_world_eq)
  next
    case (OnceSource f)
    show ?thesis
    proof (cases "app_event_source_consumed a")
      case True
      with n OnceSource C show ?thesis by (simp add: next_event_batch_def)
    next
      case False
      with n OnceSource have "on_world f (a\<lparr>app_event_source_consumed := True\<rparr>) = (Inr x, b)"
        by (simp add: next_event_batch_def)
      with stays_cancelledD(3) [OF assms C OnceSource] show ?thesis by (auto simp: on_world_eq app_world_def)
    qed
  qed
qed simp

lemma cancelled_ends:
  assumes C: "stays_cancelled p C" "C (app_world a)" and body: "loop_body p c a = (Inr (c1, w), b)"
  shows "w \<noteq> None"
proof
  assume w: "w = None"
  obtain t a1 where t: "app_timeouts p a = (Inr t, a1)" "t \<noteq> HARD_TIMEOUT" "t \<noteq> SOFT_TIMEOUT"
    using body w by (auto simp: loop_body_def io_bind_eq split: if_splits)
  have a1: "C (app_world a1)" using io_spec_Inr [OF cancelled_timeouts [OF C(1)] C(2) t(1)] .
  obtain es a2 where es: "next_event_batch p a1 = (Inr es, a2)"
    using body w t by (auto simp: loop_body_def io_bind_eq split: if_splits)
  have a2: "C (app_world a2)" using io_spec_Inr [OF cancelled_batch [OF C(1)] a1 es] .
  have cancelled: "\<exists>d. on_world (ap_cancellation_signal p) x = (Inr True, d)" if "C (app_world x)" for x
    using stays_cancelledD(4) [OF C(1) that] by (auto simp: on_world_eq)
  show False
  proof (cases es)
    case Nil
    with body w t es cancelled [OF a2] show False by (auto simp: loop_body_def io_bind_eq split: if_splits)
  next
    case (Cons e es')
    have "case handle_event p e no_counts a2 of (Inl _, _) \<Rightarrow> True | (Inr (_, v), _) \<Rightarrow> v \<noteq> None"
    proof -
      obtain r a3 where r: "app_timeouts p a2 = (r, a3)" by (cases "app_timeouts p a2")
      show ?thesis
      proof (cases r)
        case (Inl x)
        with r show ?thesis by (simp add: handle_event_def)
      next
        case (Inr t')
        have "C (app_world a3)" using io_spec_Inr [OF cancelled_timeouts [OF C(1)] a2] r Inr by blast
        then obtain d where "on_world (ap_cancellation_signal p) a3 = (Inr True, d)" using cancelled by blast
        with r Inr show ?thesis by (simp add: handle_event_def)
      qed
    qed
    with body w t es Cons show False
      by (auto simp: loop_body_def io_bind_eq split: if_splits sum.splits prod.splits option.splits)
  qed
qed

lemma loop_returns:
  assumes "\<And>c b c1 d. loop_prefix p n c0 a = Some (c, b) \<Longrightarrow> loop_body p c b \<noteq> (Inr (c1, None), d)"
  shows "app_loop p c0 a \<noteq> None"
  using assms
proof (induction n arbitrary: c0 a)
  case 0
  then show ?case
    by (cases "loop_body p c0 a") (auto simp: app_loop.simps [of p c0 a] split: sum.splits option.splits)
next
  case (Suc n)
  obtain r b where r: "loop_body p c0 a = (r, b)" by (cases "loop_body p c0 a")
  show ?case
  proof (cases "\<exists>c1. r = Inr (c1, None)")
    case True
    then obtain c1 where c1: "r = Inr (c1, None)" by blast
    with r Suc.prems have "app_loop p c1 b \<noteq> None" by (intro Suc.IH) auto
    with r c1 show ?thesis by (simp add: app_loop.simps [of p c0 a])
  next
    case False
    with r show ?thesis by (auto simp: app_loop.simps [of p c0 a] split: sum.splits option.splits)
  qed
qed

section \<open>Canonical events\<close>

fun canonical_kind :: "outcome_kind \<Rightarrow> event_kind" where
  "canonical_kind SUCCEEDED = INGESTION_SUCCEEDED"
| "canonical_kind DEFERRED_STAGE = INGESTION_DEFERRED"
| "canonical_kind DEFERRED_RETRY = INGESTION_DEFERRED"
| "canonical_kind KIND_REJECTED = INGESTION_FAILED"
| "canonical_kind FAILED_TERMINAL = INGESTION_FAILED"

definition outcome_details :: "outcome_kind \<Rightarrow> processing_context \<Rightarrow> mapping" where
  "outcome_details kind px =
     (case kind of SUCCEEDED \<Rightarrow> [(''candidate_id'', VStr (pcx_event_id px))]
      | DEFERRED_STAGE \<Rightarrow> [(''reason_code'', VStr ''deferred_stage'')]
      | DEFERRED_RETRY \<Rightarrow> [(''reason_code'', VStr ''deferred_retry'')]
      | KIND_REJECTED \<Rightarrow> [(''reason_code'', VStr ''rejected'')]
      | FAILED_TERMINAL \<Rightarrow> [(''reason_code'', VStr ''failed_terminal'')])"

lemma canonical_event_eq:
  assumes "processing_ok px" and "ee_aware env (ee_now env)"
  shows "\<exists>stage severity. canonical_event env kind px = Inr
    [(''event_id'', VStr (pcx_event_id px)), (''trace_id'', VStr (pcx_trace_id px)),
     (''occurred_at'', VStr (ee_isoformat env (ee_now env))), (''stage'', VStr stage),
     (''kind'', VStr (event_kind_value (canonical_kind kind))), (''severity'', VStr severity),
     (''payload'', VDict (outcome_details kind px))]"
proof -
  have status: "str_lower (strip s) = s" if "s \<in> {''succeeded'', ''failed'', ''deferred_stage'', ''deferred_retry''}" for s
  proof -
    have "list_all (\<lambda>s. str_lower (strip s) = s) [''succeeded'', ''failed'', ''deferred_stage'', ''deferred_retry'']"
      by code_simp
    with that show ?thesis by (auto simp: list_all_iff)
  qed
  show ?thesis using assms
    by (cases kind)
      (simp_all add: canonical_event_def event_from_outcome_def outcome_payload_def outcome_details_def get_or_none_def
        dict_get_or_def extract_occurred_at_def status make_event_def event_payload_def processing_ok_def Let_def)
qed

section \<open>Seen events\<close>

lemma growing_on_world: "keeps (\<lambda>a. S \<subseteq> set (app_seen_event_ids a)) (on_world m)"
  by (rule spec_on_world) auto

interpretation growing: app_invariant p "\<lambda>a. S \<subseteq> set (app_seen_event_ids a)" "\<lambda>_ a. S \<subseteq> set (app_seen_event_ids a)"
  "\<lambda>a. S \<subseteq> set (app_seen_event_ids a)" for p S
proof
  show "keeps (\<lambda>a. S \<subseteq> set (app_seen_event_ids a)) (app_activity p)"
    unfolding app_activity_def by (rule spec_session_io [OF growing_on_world]) auto
qed (auto intro: growing_on_world)

lemma prefix_grows:
  "loop_prefix p n c a = Some (c', b) \<Longrightarrow> set (app_seen_event_ids a) \<subseteq> set (app_seen_event_ids b)"
proof (induction n arbitrary: c a)
  case (Suc n)
  from Suc.prems obtain c1 d where d: "loop_body p c a = (Inr (c1, None), d)" "loop_prefix p n c1 d = Some (c', b)"
    by (auto split: prod.splits sum.splits option.splits)
  from io_spec_Inr [OF growing.J_loop_body [of "set (app_seen_event_ids a)"] order_refl d(1)] Suc.IH [OF d(2)]
  show ?case by auto
qed simp

lemma handled_seen:
  assumes "handle_event p e c a = (Inr (c1, None), b)" and "extract_event_id e = Inr i"
  shows "i \<in> set (app_seen_event_ids b)"
proof -
  obtain t a1 x a2 where t: "app_timeouts p a = (Inr t, a1)" "on_world (ap_cancellation_signal p) a1 = (Inr x, a2)"
    and rest: "(if i \<in> set (app_seen_event_ids a2)
      then io_bind (app_emit p ''runtime_event_skipped'' [(''event_id'', VStr i), (''reason_code'', VStr ''duplicate_event_id'')])
        (\<lambda>_. io_return (c\<lparr>rn_skipped := rn_skipped c + 1\<rparr>, None)) a2
      else process_new_event p e i c (a2\<lparr>app_seen_event_ids := i # app_seen_event_ids a2\<rparr>)) = (Inr (c1, None), b)"
    using assms by (auto simp: handle_event_def io_bind_eq split: if_splits)
  show ?thesis
  proof (cases "i \<in> set (app_seen_event_ids a2)")
    case True
    with rest obtain u where "app_emit p ''runtime_event_skipped''
        [(''event_id'', VStr i), (''reason_code'', VStr ''duplicate_event_id'')] a2 = (Inr u, b)"
      by (auto simp: io_bind_eq)
    from io_spec_Inr [OF growing.J_emit [where S = "{i}"] _ this] True show ?thesis by simp
  next
    case False
    with rest have "process_new_event p e i c (a2\<lparr>app_seen_event_ids := i # app_seen_event_ids a2\<rparr>) = (Inr (c1, None), b)"
      by simp
    from io_spec_Inr [OF growing.K_process_new_event [where S = "{i}"] _ this] extract_event_id_Inr [OF assms(2)]
    show ?thesis by simp
  qed
qed

lemma same_app_ports [simp]:
  "app_timeouts (p\<lparr>ap_engine_process := f\<rparr>) = app_timeouts p" "app_emit (p\<lparr>ap_engine_process := f\<rparr>) = app_emit p"
  by (simp_all add: app_timeouts_def app_emit_def session_io_def fun_eq_iff)

lemma seen_timeouts_cancel:
  assumes "app_timeouts p a = (Inr t, a1)" and "on_world (ap_cancellation_signal p) a1 = (Inr x, a2)"
  shows "app_seen_event_ids a2 = app_seen_event_ids a"
proof -
  have "app_seen_event_ids a1 = app_seen_event_ids a"
    using io_spec_Inr [OF seen_timeouts(1) [where P = "\<lambda>s. s = app_seen_event_ids a"] _ assms(1)] by simp
  with assms(2) show ?thesis by (auto simp: on_world_eq)
qed

section \<open>Properties\<close>

text \<open>
  C3. A run brackets one session. Whatever the collaborators do, a run of a fresh application that
  returns has closed its session: aborted with the terminal reason after a failure, a hard timeout or
  a cancellation, completed otherwise. With a clock that is read without failing and never runs
  backwards and an emitter that does not raise, no run leaves its session open: one that raises has
  aborted it as a runtime exception.
\<close>

theorem run_closes_session:
  assumes "sm_state (app_session_manager a) = inactive_state" and "run_app p a = Some (r, b)"
  shows "(\<forall>res. r = Inr res \<longrightarrow> run_closed p (ar_terminal_reason res) (sm_state (app_session_manager b))) \<and>
    (\<forall>T e. steady p T \<and> sm_callbacks (app_session_manager a) = [] \<and> strip (ap_session_id p) \<noteq> [] \<and> r = Inl e \<longrightarrow>
      closed_session p ABORTED ''runtime_exception'' (sm_state (app_session_manager b)))"
  using returned_closed [OF assms(1)] raised_closed [OF _ assms(1)] assms(2) by blast

text \<open>
  C4. Every event is handed to the engine at most once per run, whatever batches the source delivers
  and however the run ends; when the run returns, the number of processed events is the number of
  engine calls.
\<close>

theorem delivered_at_most_once:
  assumes "logging p lg" and "app_seen_event_ids a = []" and "sm_callbacks (app_session_manager a) = []"
    and "lg (app_world a) = []" and "run_app p a = Some (r, b)"
  shows "distinct (lg (app_world b)) \<and>
    (\<forall>res. r = Inr res \<longrightarrow> int (length (lg (app_world b))) = rn_processed (ar_counts res))"
  using delivery_run [OF assms] by blast

text \<open>
  C8. A run returns in one-shot mode, whatever the collaborators do; in continuous mode it returns if
  after finitely many iterations the cancellation signal is on and stays on.
\<close>

theorem run_app_returns:
  assumes "ap_loop_mode p = ''oneshot'' \<or>
    (\<exists>C n. stays_cancelled p C \<and> (\<forall>a1 c b.
       io_bind (app_start p) (\<lambda>_. app_emit p ''runtime_started'' []) a = (Inr (), a1) \<longrightarrow>
       loop_prefix p n no_counts a1 = Some (c, b) \<longrightarrow> C (app_world b)))"
  shows "\<exists>r b. run_app p a = Some (r, b)"
proof -
  have "app_loop p no_counts a1 \<noteq> None"
    if start: "io_bind (app_start p) (\<lambda>_. app_emit p ''runtime_started'' []) a = (Inr (), a1)" for a1
    using assms
  proof (elim disjE exE conjE)
    assume "ap_loop_mode p = ''oneshot''"
    then show ?thesis by (intro loop_returns [where n = 0]) (auto dest: oneshot_ends)
  next
    fix C n
    assume C: "stays_cancelled p C" and n: "\<forall>a1 c b.
       io_bind (app_start p) (\<lambda>_. app_emit p ''runtime_started'' []) a = (Inr (), a1) \<longrightarrow>
       loop_prefix p n no_counts a1 = Some (c, b) \<longrightarrow> C (app_world b)"
    show ?thesis
      by (rule loop_returns [where n = n]) (use cancelled_ends [OF C] n start in blast)
  qed
  then show ?thesis by (auto simp: run_app_def split: prod.splits sum.splits option.splits)
qed

text \<open>
  The counters of a run: a failed event is a processed one, the run ends for one of five reasons,
  and with stop-on-failure at most one event fails, exactly when the run ends as failed.
\<close>

theorem run_counters:
  assumes "run_app p a = Some (Inr res, b)" and "app_seen_event_ids a = []"
  shows "0 \<le> rn_failed (ar_counts res) \<and> rn_failed (ar_counts res) \<le> rn_processed (ar_counts res) \<and>
    0 \<le> rn_skipped (ar_counts res) \<and>
    ar_terminal_reason res \<in> {''end_of_stream'', ''soft_timeout'', ''hard_timeout'', ''cancelled'', ''failed_terminal''} \<and>
    (ap_stop_on_failure p \<longrightarrow>
       rn_failed (ar_counts res) = (if ar_terminal_reason res = ''failed_terminal'' then 1 else 0))"
  using assms(1)
proof (cases rule: run_app_cases)
  case (finished a1 c why a2)
  have "counted p 0 (c, Some why) a2" by (rule fresh_loop_counts [OF assms(2) finished(1, 2)])
  moreover have "ar_counts res = c" "ar_terminal_reason res = why"
    using finished(3) by (auto simp: io_bind_eq)
  ultimately show ?thesis
    unfolding counted_def reason_ok_def by (simp del: insert_iff)
qed (use fail_run_raises in fastforce)+

text \<open>
  Every outcome of the engine has a canonical event: for a valid context it is built without
  error, carries the event's ids and the kind that belongs to the outcome, is plain data throughout,
  and different outcomes give different events.
\<close>

theorem canonical_event_total:
  assumes "processing_ok px" and "ee_aware env (ee_now env)"
  shows "\<exists>m. canonical_event env kind px = Inr m \<and> plain_items m \<and>
    get_or_none m ''event_id'' = VStr (pcx_event_id px) \<and> get_or_none m ''trace_id'' = VStr (pcx_trace_id px) \<and>
    get_or_none m ''kind'' = VStr (event_kind_value (canonical_kind kind)) \<and>
    (canonical_event env kind' px = Inr m \<longleftrightarrow> kind' = kind)"
proof -
  have "(outcome_details kind' px = outcome_details kind px) = (kind' = kind)"
    by (cases kind; cases kind') (simp_all add: outcome_details_def)
  moreover have "plain_items (outcome_details k px)" for k by (cases k) (simp_all add: outcome_details_def)
  ultimately show ?thesis
    using canonical_event_eq [OF assms, of kind] canonical_event_eq [OF assms, of kind']
    by (auto simp: get_or_none_def dict_get_or_def)
qed


section \<open>A run\<close>

text \<open>The world is the log of engine calls and the time; the source offers three events, two with one id.\<close>

type_synonym demo_world = "string list \<times> int"

definition demo_app_event :: "string \<Rightarrow> mapping" where
  "demo_app_event i = [(''event_id'', VStr i), (''path'', VStr ''/in/a.txt'')]"

definition demo_app_ports :: "demo_world app_ports" where
  "demo_app_ports =
     \<lparr>ap_event_source = PollSource (\<lambda>w. (Inr (Some [demo_app_event ''e1'', demo_app_event '' e1'', demo_app_event ''e2'']), w)),
      ap_event_emitter = (\<lambda>_ w. (Inr (), w)), ap_clock = (\<lambda>w. (Inr (snd w), w)),
      ap_engine_process = (\<lambda>_ px w. (Inr SUCCEEDED, (fst w @ [pcx_event_id px], snd w + 3))),
      ap_cancellation_signal = (\<lambda>w. (Inr (100 < snd w), w)), ap_idle_wait = (\<lambda>_ w. (Inr (), (fst w, snd w + 200))),
      ap_event_env = (\<lambda>_. \<lparr>ee_now = 0, ee_isoformat = int_str, ee_aware = (\<lambda>_. True)\<rparr>),
      ap_session_id = ''s1'', ap_trace_id = ''t1'', ap_stop_on_failure = True, ap_loop_mode = ''oneshot'',
      ap_poll_interval_seconds = 1, ap_runtime_context = demo_runtime\<rparr>"

definition demo_app :: "demo_world app" where
  "demo_app = \<lparr>app_session_manager = new_manager \<lparr>sp_idle_timeout_seconds = None, sp_max_runtime_seconds = None\<rparr> [] ([], 7),
     app_seen_event_ids = [], app_event_source_consumed = False\<rparr>"

declare app_loop.simps [code]

lemma demo_app_run:
  "case run_app demo_app_ports demo_app of
     Some (Inr res, b) \<Rightarrow> ar_terminal_reason res = ''end_of_stream'' \<and> rn_processed (ar_counts res) = 2 \<and>
       rn_skipped (ar_counts res) = 1 \<and> rn_failed (ar_counts res) = 0
   | _ \<Rightarrow> False"
  by code_simp

lemma demo_app_returns:
  obtains res b where "run_app demo_app_ports demo_app = Some (Inr res, b)" "ar_terminal_reason res = ''end_of_stream''"
    "rn_processed (ar_counts res) = 2" "rn_skipped (ar_counts res) = 1" "rn_failed (ar_counts res) = 0"
  using demo_app_run by (auto split: option.splits prod.splits sum.splits)

lemma demo_app_fresh:
  "sm_state (app_session_manager demo_app) = inactive_state" "app_seen_event_ids demo_app = []"
  "sm_callbacks (app_session_manager demo_app) = []" "fst (app_world demo_app) = []"
  by (simp_all add: demo_app_def new_manager_def app_world_def)

theorem run_closes_session_witness:
  "\<exists>res b. run_app demo_app_ports demo_app = Some (Inr res, b) \<and> ar_terminal_reason res = ''end_of_stream'' \<and>
     run_closed demo_app_ports ''end_of_stream'' (sm_state (app_session_manager b))"
proof -
  obtain res b where r: "run_app demo_app_ports demo_app = Some (Inr res, b)" "ar_terminal_reason res = ''end_of_stream''"
    by (rule demo_app_returns)
  with run_closes_session [OF demo_app_fresh(1) r(1)] show ?thesis by auto
qed

theorem delivered_at_most_once_witness:
  "logging demo_app_ports fst \<and>
   (\<exists>res b. run_app demo_app_ports demo_app = Some (Inr res, b) \<and> distinct (fst (app_world b)) \<and>
      length (fst (app_world b)) = 2)"
proof -
  have lg: "logging demo_app_ports fst" by (simp add: logging_def demo_app_ports_def source_worlds_def)
  obtain res b where r: "run_app demo_app_ports demo_app = Some (Inr res, b)" "rn_processed (ar_counts res) = 2"
    by (rule demo_app_returns)
  with delivered_at_most_once [OF lg demo_app_fresh(2, 3, 4) r(1)] lg show ?thesis by auto
qed

theorem run_counters_witness:
  "\<exists>res b. run_app demo_app_ports demo_app = Some (Inr res, b) \<and> rn_failed (ar_counts res) = 0 \<and>
     ar_terminal_reason res \<noteq> ''failed_terminal''"
proof -
  obtain res b where r: "run_app demo_app_ports demo_app = Some (Inr res, b)" "rn_failed (ar_counts res) = 0"
    by (rule demo_app_returns)
  have "ap_stop_on_failure demo_app_ports" by (simp add: demo_app_ports_def)
  with run_counters [OF r(1) demo_app_fresh(2)] r show ?thesis by auto
qed

definition polling_ports :: "demo_world app_ports" where
  "polling_ports = demo_app_ports\<lparr>ap_loop_mode := ''continuous'', ap_event_source := PollSource (\<lambda>w. (Inr None, w))\<rparr>"

theorem run_app_returns_witness: "\<exists>r b. run_app polling_ports demo_app = Some (r, b)"
proof (rule run_app_returns, intro disjI2 exI conjI allI impI)
  show "stays_cancelled polling_ports (\<lambda>w. 100 < snd w)"
    by (simp add: stays_cancelled_def polling_ports_def demo_app_ports_def source_worlds_def)
next
  fix a1 c b
  assume a1: "io_bind (app_start polling_ports) (\<lambda>_. app_emit polling_ports ''runtime_started'' []) demo_app = (Inr (), a1)"
    and b: "loop_prefix polling_ports (Suc 0) no_counts a1 = Some (c, b)"
  have "case io_bind (app_start polling_ports) (\<lambda>_. app_emit polling_ports ''runtime_started'' []) demo_app of
      (Inr _, a1) \<Rightarrow> (case loop_prefix polling_ports (Suc 0) no_counts a1 of Some (c, b) \<Rightarrow> 100 < snd (app_world b) | None \<Rightarrow> True)
    | (Inl _, _) \<Rightarrow> True" by code_simp
  with a1 b show "100 < snd (app_world b)" by simp
qed

theorem canonical_event_total_witness:
  "\<exists>m. canonical_event \<lparr>ee_now = 0, ee_isoformat = int_str, ee_aware = (\<lambda>_. True)\<rparr> DEFERRED_RETRY demo_context = Inr m \<and>
     get_or_none m ''kind'' = VStr ''ingestion_deferred''"
proof -
  have "processing_ok demo_context"
    by (rule for_candidate_ok [of demo_runtime "[(''source_path'', VStr ''/in/a.txt''), (''event_type'', VStr ''created''),
       (''observed_at'', VTime 5), (''event_id'', VStr ''e1'')]"]) code_simp
  from canonical_event_total [OF this, of "\<lparr>ee_now = 0, ee_isoformat = int_str, ee_aware = (\<lambda>_. True)\<rparr>" DEFERRED_RETRY]
  show ?thesis by auto
qed


end
