(* ===== verification/Plugin_Contracts.thy ===== *)
theory Plugin_Contracts
  imports Ingestion_State
begin

text \<open>
  The plugin contract (\<^verbatim>\<open>application/contracts/plugin_contracts.py\<close> with the version gate of
  \<^verbatim>\<open>plugins/contracts.py\<close>) and plugin discovery (\<^verbatim>\<open>plugins/discovery.py\<close>). A plugin module is the
  table of its exports; an export is missing, present but not callable, or a computation over a world.
  Importing a module and hashing are parameters. A type test of a processor instance is the predicate
  \<open>is_processor\<close>.
\<close>

section \<open>The contract\<close>

datatype contract_error =
    PluginContractError string
  | PluginInvalidProcessorError string
  | PluginDuplicateRegistrationError string
  | PluginRaised py_exception

record plugin_capabilities =
  cap_can_process :: bool
  cap_supports_preprocess :: bool
  cap_supports_batch :: bool
  cap_supports_sync :: bool

record plugin_metadata =
  pmd_plugin_id :: string
  pmd_family :: string
  pmd_version :: string
  pmd_contract_version :: string
  pmd_supported_profiles :: "string list"

datatype 'm declared = DeclaredObject 'm | DeclaredRaw pyval

datatype 'f export = Missing | NotCallable | Callable 'f

record ('w, 'p) module_exports =
  mx_metadata :: "('w, py_exception, plugin_metadata declared) io export"
  mx_capabilities :: "('w, py_exception, plugin_capabilities declared) io export"
  mx_create_processor :: "(mapping \<Rightarrow> ('w, py_exception, 'p) io) export"
  mx_validate_settings :: "(mapping \<Rightarrow> ('w, py_exception, pyval) io) export"
  mx_create_sync_adapter :: "(mapping \<Rightarrow> ('w, py_exception, pyval) io) export"
  mx_prepare_sync_payload :: "(mapping \<Rightarrow> pyval \<Rightarrow> ('w, py_exception, pyval) io) export"
  mx_on_activate :: "(mapping \<Rightarrow> ('w, py_exception, unit) io) export"
  mx_on_shutdown :: "('w, py_exception, unit) io export"

definition PLUGIN_CONTRACT_VERSION :: string where
  "PLUGIN_CONTRACT_VERSION = ''2.0.0''"

definition contract_major :: "string \<Rightarrow> string" where
  "contract_major v = takeWhile (\<lambda>c. c \<noteq> CHR ''.'') v"

definition is_contract_version_compatible :: "string \<Rightarrow> bool" where
  "is_contract_version_compatible declared_version \<longleftrightarrow>
     CHR ''.'' \<in> set declared_version \<and> contract_major declared_version = contract_major PLUGIN_CONTRACT_VERSION"

datatype version_gate_error = PluginContractMetadataError string | PluginContractVersionError string

definition require_contract_version_compatible :: "pyval \<Rightarrow> version_gate_error + string" where
  "require_contract_version_compatible v =
     (case v of
        VStr s \<Rightarrow>
          if strip s = []
          then Inl (PluginContractMetadataError ''declared contract_version must be a non-empty string'')
          else if \<not> is_contract_version_compatible (strip s)
          then Inl (PluginContractVersionError (''incompatible plugin contract version: '' @ strip s))
          else Inr (strip s)
      | _ \<Rightarrow> Inl (PluginContractMetadataError ''declared contract_version must be a non-empty string''))"

text \<open>\<^verbatim>\<open>PluginMetadata.__post_init__\<close>.\<close>

definition make_metadata ::
    "string \<Rightarrow> string \<Rightarrow> string \<Rightarrow> string \<Rightarrow> pyval list \<Rightarrow> contract_error + plugin_metadata" where
  "make_metadata plugin_id family version contract_version profiles =
     rbind (raise_if (strip plugin_id = []) (PluginContractError ''plugin_id must be a non-empty string'')) (\<lambda>_.
     rbind (raise_if (family \<noteq> ''device'' \<and> family \<noteq> ''pc'')
       (PluginContractError (''family must be '' @ [CHR 39] @ ''device'' @ [CHR 39] @ '' or '' @ [CHR 39] @ ''pc'' @ [CHR 39]))) (\<lambda>_.
     rbind (raise_if (strip version = []) (PluginContractError ''version must be a non-empty string'')) (\<lambda>_.
     rbind (raise_if (strip contract_version = []) (PluginContractError ''contract_version must be a non-empty string'')) (\<lambda>_.
     rbind (rmap (\<lambda>v. case v of
         VStr s \<Rightarrow> if strip s = [] then Inl (PluginContractError ''supported profile entries must be non-empty'')
                   else Inr (strip s)
       | _ \<Rightarrow> Inl (PluginContractError ''supported profile entries must be non-empty'')) profiles) (\<lambda>ps.
     Inr \<lparr>pmd_plugin_id = plugin_id, pmd_family = family, pmd_version = version,
          pmd_contract_version = contract_version, pmd_supported_profiles = ps\<rparr>)))))"

definition coerce_metadata :: "conv_env \<Rightarrow> plugin_metadata declared \<Rightarrow> contract_error + plugin_metadata" where
  "coerce_metadata cv v =
     (case v of
        DeclaredObject m \<Rightarrow> Inr m
      | DeclaredRaw (VDict d) \<Rightarrow>
          (let text = (\<lambda>k. py_str (cv_repr cv) (dict_get_or d k (VStr []))) in
           case dict_get_or d ''supported_profiles'' (VList []) of
             VList ps \<Rightarrow> make_metadata (text ''plugin_id'') (text ''family'') (text ''version'') (text ''contract_version'') ps
           | _ \<Rightarrow> Inl (PluginContractError ''supported_profiles must be a sequence''))
      | DeclaredRaw _ \<Rightarrow> Inl (PluginContractError ''metadata() must return PluginMetadata or mapping''))"

definition require_flag :: "mapping \<Rightarrow> string \<Rightarrow> contract_error + bool" where
  "require_flag d k =
     (case get_or_none d k of VBool b \<Rightarrow> Inr b | _ \<Rightarrow> Inl (PluginContractError (k @ '' must be a bool'')))"

definition coerce_capabilities :: "plugin_capabilities declared \<Rightarrow> contract_error + plugin_capabilities" where
  "coerce_capabilities v =
     (case v of
        DeclaredObject c \<Rightarrow> Inr c
      | DeclaredRaw (VDict d) \<Rightarrow>
          rbind (require_flag d ''can_process'') (\<lambda>a.
          rbind (require_flag d ''supports_preprocess'') (\<lambda>b.
          rbind (require_flag d ''supports_batch'') (\<lambda>c.
          rbind (require_flag d ''supports_sync'') (\<lambda>e.
          Inr \<lparr>cap_can_process = a, cap_supports_preprocess = b, cap_supports_batch = c, cap_supports_sync = e\<rparr>))))
      | DeclaredRaw _ \<Rightarrow> Inl (PluginContractError ''capabilities() must return PluginCapabilities or mapping''))"

definition require_callable :: "string \<Rightarrow> 'f export \<Rightarrow> contract_error + 'f" where
  "require_callable name x =
     (case x of Callable f \<Rightarrow> Inr f | _ \<Rightarrow> Inl (PluginContractError (''missing required plugin export: '' @ name)))"

definition validate_capability_combinations :: "plugin_metadata \<Rightarrow> plugin_capabilities \<Rightarrow> contract_error + unit" where
  "validate_capability_combinations m c =
     rbind (raise_if (cap_supports_preprocess c \<and> \<not> cap_can_process c)
       (PluginContractError ''supports_preprocess requires can_process=True capability'')) (\<lambda>_.
     rbind (raise_if (cap_supports_batch c \<and> \<not> cap_can_process c)
       (PluginContractError ''supports_batch requires can_process=True capability'')) (\<lambda>_.
     rbind (raise_if (pmd_family m = ''device'' \<and> \<not> cap_can_process c)
       (PluginContractError ''device plugins must declare can_process=True capability'')) (\<lambda>_.
     raise_if (pmd_family m = ''pc'' \<and> \<not> cap_supports_sync c)
       (PluginContractError ''pc plugins must declare supports_sync=True capability''))))"

definition io_mapped :: "('e \<Rightarrow> 'f) \<Rightarrow> ('w, 'e, 'a) io \<Rightarrow> ('w, 'f, 'a) io" where
  "io_mapped g m w = (case m w of (r, w') \<Rightarrow> (map_error g r, w'))"

definition validate_device_exports ::
    "('p \<Rightarrow> bool) \<Rightarrow> ('w, 'p) module_exports \<Rightarrow> ('w, contract_error, unit) io" where
  "validate_device_exports is_processor mx =
     io_bind (io_lift (require_callable ''create_processor'' (mx_create_processor mx))) (\<lambda>create.
     io_bind (io_lift (require_callable ''validate_settings'' (mx_validate_settings mx))) (\<lambda>_.
     io_bind (io_mapped (\<lambda>_. PluginInvalidProcessorError
         ''device create_processor failed during contract validation'') (create [])) (\<lambda>p.
     io_lift (raise_if (\<not> is_processor p) (PluginInvalidProcessorError
       ''create_processor returned object that does not satisfy ProcessorContract'')))))"

definition validate_plugin_contract ::
    "conv_env \<Rightarrow> ('p \<Rightarrow> bool) \<Rightarrow> ('w, 'p) module_exports \<Rightarrow> ('w, contract_error, plugin_metadata) io" where
  "validate_plugin_contract cv is_processor mx =
     io_bind (io_lift (require_callable ''metadata'' (mx_metadata mx))) (\<lambda>metadata.
     io_bind (io_lift (require_callable ''capabilities'' (mx_capabilities mx))) (\<lambda>capabilities.
     io_bind (io_mapped PluginRaised metadata) (\<lambda>mv.
     io_bind (io_mapped PluginRaised capabilities) (\<lambda>cpv.
     io_bind (io_lift (coerce_metadata cv mv)) (\<lambda>m.
     io_bind (io_lift (coerce_capabilities cpv)) (\<lambda>c.
     io_bind (io_lift (raise_if (\<not> is_contract_version_compatible (pmd_contract_version m))
       (PluginContractError (''incompatible contract_version: '' @ pmd_contract_version m)))) (\<lambda>_.
     io_bind (io_lift (validate_capability_combinations m c)) (\<lambda>_.
     io_bind
       (if pmd_family m = ''device'' then validate_device_exports is_processor mx
        else io_bind (io_lift (require_callable ''create_sync_adapter'' (mx_create_sync_adapter mx))) (\<lambda>_.
             io_bind (io_lift (require_callable ''prepare_sync_payload'' (mx_prepare_sync_payload mx))) (\<lambda>_.
             io_return ()))) (\<lambda>_.
     io_bind (io_lift (raise_if (cap_can_process c \<and> (case mx_create_processor mx of Missing \<Rightarrow> True | _ \<Rightarrow> False))
       (PluginContractError ''can_process=True requires create_processor export''))) (\<lambda>_.
     io_return m))))))))))"

section \<open>Discovery\<close>

record ('w, 'p) plugin_descriptor =
  pd_plugin_id :: string
  pd_family :: string
  pd_version :: string
  pd_contract_version :: string
  pd_supported_profiles :: "string list"
  pd_capabilities :: plugin_capabilities
  pd_module_name :: string
  pd_module_exports :: "('w, 'p) module_exports"

datatype discovery_error =
    PluginDiscoveryFamilyError string
  | PluginDiscoveryDuplicateIdError string
  | DiscoveryValueError string
  | DiscoveryRaised py_exception

record discovery_issue =
  di_module_name :: string
  di_reason :: string

record ('w, 'p) discovery_result =
  dr_descriptors :: "('w, 'p) plugin_descriptor list"
  dr_import_errors :: "discovery_issue list"
  dr_manifest_errors :: "discovery_issue list"
  dr_skipped_modules :: "string list"
  dr_fingerprint :: string

text \<open>\<^verbatim>\<open>PluginDescriptor.__post_init__\<close>: blank profiles are dropped, the others stripped and lowered.\<close>

definition make_descriptor :: "('w, 'p) plugin_descriptor \<Rightarrow> discovery_error + ('w, 'p) plugin_descriptor" where
  "make_descriptor d =
     rbind (raise_if (strip (pd_plugin_id d) = []) (DiscoveryValueError ''plugin_id must be a non-empty string'')) (\<lambda>_.
     rbind (raise_if (pd_family d \<noteq> ''device'' \<and> pd_family d \<noteq> ''pc'')
       (DiscoveryValueError (''family must be '' @ [CHR 39] @ ''device'' @ [CHR 39] @ '' or '' @ [CHR 39] @ ''pc'' @ [CHR 39]))) (\<lambda>_.
     rbind (raise_if (strip (pd_version d) = []) (DiscoveryValueError ''version must be a non-empty string'')) (\<lambda>_.
     rbind (raise_if (strip (pd_contract_version d) = []) (DiscoveryValueError ''contract_version must be a non-empty string'')) (\<lambda>_.
     rbind (raise_if (strip (pd_module_name d) = []) (DiscoveryValueError ''module_name must be a non-empty string'')) (\<lambda>_.
     Inr (d\<lparr>pd_supported_profiles :=
       map (\<lambda>s. str_lower (strip s)) (filter (\<lambda>s. strip s \<noteq> []) (pd_supported_profiles d))\<rparr>))))))"

fun contract_error_text :: "contract_error \<Rightarrow> string" where
  "contract_error_text (PluginContractError m) = m"
| "contract_error_text (PluginInvalidProcessorError m) = m"
| "contract_error_text (PluginDuplicateRegistrationError m) = m"
| "contract_error_text (PluginRaised e) = ex_text e"

text \<open>
  What the discovery loop does with one module: the metadata and capabilities of a valid plugin, the
  issue of an invalid one, or an exception that is neither a contract error nor a \<^verbatim>\<open>KeyError\<close>.
\<close>

definition read_manifest ::
    "conv_env \<Rightarrow> ('p \<Rightarrow> bool) \<Rightarrow> ('w, 'p) module_exports \<Rightarrow>
     ('w, py_exception, string + plugin_metadata \<times> plugin_capabilities) io" where
  "read_manifest cv is_processor mx w =
     (case io_bind (validate_plugin_contract cv is_processor mx) (\<lambda>m.
           io_bind (io_lift (require_callable ''capabilities'' (mx_capabilities mx))) (\<lambda>capabilities.
           io_bind (io_mapped PluginRaised capabilities) (\<lambda>v.
           io_bind (io_lift (coerce_capabilities v)) (\<lambda>c. io_return (m, c))))) w of
        (Inr mc, w1) \<Rightarrow> (Inr (Inr mc), w1)
      | (Inl (PluginRaised e), w1) \<Rightarrow>
          (if ex_type_name e = ''KeyError'' then Inr (Inl (ex_text e)) else Inl e, w1)
      | (Inl e, w1) \<Rightarrow> (Inr (Inl (contract_error_text e)), w1))"

fun discover_modules ::
    "conv_env \<Rightarrow> ('p \<Rightarrow> bool) \<Rightarrow> (string \<Rightarrow> ('w, py_exception, ('w, 'p) module_exports) io) \<Rightarrow> string list \<Rightarrow>
     string list \<Rightarrow> ('w, 'p) discovery_result \<Rightarrow> ('w, discovery_error, ('w, 'p) discovery_result) io" where
  "discover_modules cv is_processor importer allowed [] acc w = (Inr acc, w)"
| "discover_modules cv is_processor importer allowed (name # names) acc w =
     (case importer name w of
        (Inl exc, w1) \<Rightarrow>
          discover_modules cv is_processor importer allowed names
            (acc\<lparr>dr_import_errors := dr_import_errors acc @ [\<lparr>di_module_name = name, di_reason = ex_text exc\<rparr>],
                 dr_skipped_modules := dr_skipped_modules acc @ [name]\<rparr>) w1
      | (Inr mx, w1) \<Rightarrow>
          (case read_manifest cv is_processor mx w1 of
             (Inl e, w2) \<Rightarrow> (Inl (DiscoveryRaised e), w2)
           | (Inr (Inl why), w2) \<Rightarrow>
               discover_modules cv is_processor importer allowed names
                 (acc\<lparr>dr_manifest_errors := dr_manifest_errors acc @ [\<lparr>di_module_name = name, di_reason = why\<rparr>],
                      dr_skipped_modules := dr_skipped_modules acc @ [name]\<rparr>) w2
           | (Inr (Inr (m, c)), w2) \<Rightarrow>
               if pmd_family m \<notin> set allowed
               then (Inl (PluginDiscoveryFamilyError (''plugin '' @ [CHR 39] @ pmd_plugin_id m @ [CHR 39] @
                       '' declared family '' @ [CHR 39] @ pmd_family m @ [CHR 39] @ '' not allowed by policy'')), w2)
               else if pmd_plugin_id m \<in> set (map pd_plugin_id (dr_descriptors acc))
               then (Inl (PluginDiscoveryDuplicateIdError (''duplicate plugin id discovered: '' @ pmd_plugin_id m)), w2)
               else
                 (case make_descriptor \<lparr>pd_plugin_id = pmd_plugin_id m, pd_family = pmd_family m,
                        pd_version = pmd_version m, pd_contract_version = pmd_contract_version m,
                        pd_supported_profiles = pmd_supported_profiles m, pd_capabilities = c,
                        pd_module_name = name, pd_module_exports = mx\<rparr> of
                    Inl e \<Rightarrow> (Inl e, w2)
                  | Inr d \<Rightarrow>
                      discover_modules cv is_processor importer allowed names
                        (acc\<lparr>dr_descriptors := dr_descriptors acc @ [d]\<rparr>) w2)))"

definition discovery_blob :: "('w, 'p) plugin_descriptor list \<Rightarrow> string" where
  "discovery_blob ds = concat (map (\<lambda>d. str_join ''|'' [pd_plugin_id d, pd_family d, pd_version d,
     pd_contract_version d, str_join '','' (pd_supported_profiles d), pd_module_name d]) ds)"

definition discover_plugins ::
    "conv_env \<Rightarrow> (string \<Rightarrow> string) \<Rightarrow> ('p \<Rightarrow> bool) \<Rightarrow> (string \<Rightarrow> ('w, py_exception, ('w, 'p) module_exports) io) \<Rightarrow>
     string list \<Rightarrow> string list \<Rightarrow> ('w, discovery_error, ('w, 'p) discovery_result) io" where
  "discover_plugins cv sha256 is_processor importer allowed_families module_names =
     (let allowed = filter (\<lambda>s. s \<noteq> []) (map (\<lambda>s. str_lower (strip s)) allowed_families) in
      if allowed = [] then io_raise (PluginDiscoveryFamilyError ''allowed_families cannot be empty'')
      else io_bind (discover_modules cv is_processor importer allowed (sort (remdups module_names))
             \<lparr>dr_descriptors = [], dr_import_errors = [], dr_manifest_errors = [], dr_skipped_modules = [],
              dr_fingerprint = []\<rparr>) (\<lambda>acc.
           let ds = sort_key (\<lambda>d. (pd_plugin_id d, pd_module_name d)) (dr_descriptors acc) in
           io_return (acc\<lparr>dr_descriptors := ds, dr_skipped_modules := sort (remdups (dr_skipped_modules acc)),
             dr_fingerprint := sha256 (discovery_blob ds)\<rparr>)))"

section \<open>What discovery returns\<close>

definition valid_descriptor :: "('w, 'p) plugin_descriptor \<Rightarrow> bool" where
  "valid_descriptor d \<longleftrightarrow> strip (pd_plugin_id d) \<noteq> [] \<and> pd_family d \<in> {''device'', ''pc''} \<and>
     is_contract_version_compatible (pd_contract_version d) \<and>
     (pd_family d = ''device'' \<longrightarrow> (\<exists>f. mx_create_processor (pd_module_exports d) = Callable f)) \<and>
     (pd_family d = ''pc'' \<longrightarrow> (\<exists>f. mx_prepare_sync_payload (pd_module_exports d) = Callable f))"

lemma require_callable_Inr [result_simps]: "require_callable n x = Inr f \<longleftrightarrow> x = Callable f"
  by (cases x) (auto simp: require_callable_def)

lemma validated_contract:
  assumes "validate_plugin_contract cv ip mx w = (Inr m, w')"
  shows "is_contract_version_compatible (pmd_contract_version m)"
    and "pmd_family m = ''device'' \<Longrightarrow> \<exists>f. mx_create_processor mx = Callable f"
    and "pmd_family m \<noteq> ''device'' \<Longrightarrow> \<exists>f. mx_prepare_sync_payload mx = Callable f"
proof -
  from assms have "is_contract_version_compatible (pmd_contract_version m) \<and>
      (pmd_family m = ''device'' \<longrightarrow> (\<exists>f. mx_create_processor mx = Callable f)) \<and>
      (pmd_family m \<noteq> ''device'' \<longrightarrow> (\<exists>f. mx_prepare_sync_payload mx = Callable f))"
    unfolding validate_plugin_contract_def validate_device_exports_def
    by (simp add: io_bind_eq result_simps split: if_splits) blast+
  then show "is_contract_version_compatible (pmd_contract_version m)"
    and "pmd_family m = ''device'' \<Longrightarrow> \<exists>f. mx_create_processor mx = Callable f"
    and "pmd_family m \<noteq> ''device'' \<Longrightarrow> \<exists>f. mx_prepare_sync_payload mx = Callable f" by blast+
qed

lemma read_manifest_valid:
  assumes "read_manifest cv ip mx w = (Inr (Inr (m, c)), w')"
  shows "is_contract_version_compatible (pmd_contract_version m)"
    "pmd_family m = ''device'' \<Longrightarrow> \<exists>f. mx_create_processor mx = Callable f"
    "pmd_family m \<noteq> ''device'' \<Longrightarrow> \<exists>f. mx_prepare_sync_payload mx = Callable f"
proof -
  from assms obtain w1 where "validate_plugin_contract cv ip mx w = (Inr m, w1)"
    by (auto simp: read_manifest_def io_bind_eq split: prod.splits sum.splits contract_error.splits if_splits)
  from validated_contract [OF this] show "is_contract_version_compatible (pmd_contract_version m)"
    "pmd_family m = ''device'' \<Longrightarrow> \<exists>f. mx_create_processor mx = Callable f"
    "pmd_family m \<noteq> ''device'' \<Longrightarrow> \<exists>f. mx_prepare_sync_payload mx = Callable f" by blast+
qed

lemma make_descriptor_Inr:
  "make_descriptor d = Inr d' \<Longrightarrow> strip (pd_plugin_id d) \<noteq> [] \<and> pd_family d \<in> {''device'', ''pc''} \<and>
     d' = d\<lparr>pd_supported_profiles := map (\<lambda>s. str_lower (strip s)) (filter (\<lambda>s. strip s \<noteq> []) (pd_supported_profiles d))\<rparr>"
  by (auto simp: make_descriptor_def result_simps)

text \<open>The accumulated result after a part of the modules, given as \<open>done\<close>.\<close>

definition discovery_ok :: "string list \<Rightarrow> string set \<Rightarrow> ('w, 'p) discovery_result \<Rightarrow> bool" where
  "discovery_ok allowed ready acc \<longleftrightarrow>
     list_all valid_descriptor (dr_descriptors acc) \<and> distinct (map pd_plugin_id (dr_descriptors acc)) \<and>
     pd_family ` set (dr_descriptors acc) \<subseteq> set allowed \<and>
     ready = pd_module_name ` set (dr_descriptors acc) \<union> set (dr_skipped_modules acc) \<and>
     pd_module_name ` set (dr_descriptors acc) \<inter> set (dr_skipped_modules acc) = {} \<and>
     set (dr_skipped_modules acc) = di_module_name ` (set (dr_import_errors acc) \<union> set (dr_manifest_errors acc))"

lemma discover_modules_ok:
  assumes "discover_modules cv ip importer allowed names acc w = (Inr r, w')" and "discovery_ok allowed ready acc"
    and "distinct names" and "ready \<inter> set names = {}"
  shows "discovery_ok allowed (ready \<union> set names) r"
  using assms
proof (induction names arbitrary: acc w ready)
  case (Cons n ns)
  have fresh: "n \<notin> ready" "insert n ready \<inter> set ns = {}" "distinct ns" using Cons.prems(3, 4) by auto
  obtain x w1 where x: "importer n w = (x, w1)" by (cases "importer n w")
  have step: "discovery_ok allowed (ready \<union> set (n # ns)) r"
    if "discovery_ok allowed (insert n ready) acc'" "discover_modules cv ip importer allowed ns acc' w2 = (Inr r, w')"
    for acc' w2
    using Cons.IH [OF that(2, 1) fresh(3, 2)] by simp
  show ?case
  proof (cases x)
    case (Inl e)
    with Cons.prems(1) x have "discover_modules cv ip importer allowed ns
        (acc\<lparr>dr_import_errors := dr_import_errors acc @ [\<lparr>di_module_name = n, di_reason = ex_text e\<rparr>],
             dr_skipped_modules := dr_skipped_modules acc @ [n]\<rparr>) w1 = (Inr r, w')" by simp
    then show ?thesis by (rule step [rotated]) (use Cons.prems(2) fresh(1) in \<open>auto simp: discovery_ok_def\<close>)
  next
    case (Inr mx)
    obtain y w2 where y: "read_manifest cv ip mx w1 = (y, w2)" by (cases "read_manifest cv ip mx w1")
    with Cons.prems(1) x Inr obtain z where z: "y = Inr z" by (cases y) auto
    show ?thesis
    proof (cases z)
      case (Inl why)
      with Cons.prems(1) x \<open>x = Inr mx\<close> y z have "discover_modules cv ip importer allowed ns
          (acc\<lparr>dr_manifest_errors := dr_manifest_errors acc @ [\<lparr>di_module_name = n, di_reason = why\<rparr>],
               dr_skipped_modules := dr_skipped_modules acc @ [n]\<rparr>) w2 = (Inr r, w')" by simp
      then show ?thesis by (rule step [rotated]) (use Cons.prems(2) fresh(1) in \<open>auto simp: discovery_ok_def\<close>)
    next
      case (Inr mc)
      obtain m c where mc: "mc = (m, c)" by (cases mc)
      let ?d = "\<lparr>pd_plugin_id = pmd_plugin_id m, pd_family = pmd_family m, pd_version = pmd_version m,
        pd_contract_version = pmd_contract_version m, pd_supported_profiles = pmd_supported_profiles m,
        pd_capabilities = c, pd_module_name = n, pd_module_exports = mx\<rparr>"
      from Cons.prems(1) x \<open>x = Inr mx\<close> y z Inr mc obtain d where
        d: "pmd_family m \<in> set allowed" "pmd_plugin_id m \<notin> set (map pd_plugin_id (dr_descriptors acc))"
          "make_descriptor ?d = Inr d"
          "discover_modules cv ip importer allowed ns (acc\<lparr>dr_descriptors := dr_descriptors acc @ [d]\<rparr>) w2 = (Inr r, w')"
        by (auto split: if_splits sum.splits)
      have m: "read_manifest cv ip mx w1 = (Inr (Inr (m, c)), w2)" using y z Inr mc by simp
      have d': "valid_descriptor d" "pd_plugin_id d = pmd_plugin_id m" "pd_family d = pmd_family m" "pd_module_name d = n"
        using make_descriptor_Inr [OF d(3)] read_manifest_valid [OF m] by (auto simp: valid_descriptor_def)
      from d(4) show ?thesis
        by (rule step [rotated]) (use Cons.prems(2) fresh(1) d d' in \<open>auto simp: discovery_ok_def\<close>)
    qed
  qed
qed simp

section \<open>Properties\<close>


definition demo_exports :: "string \<Rightarrow> string \<Rightarrow> (unit, string) module_exports" where
  "demo_exports i family =
     \<lparr>mx_metadata = Callable (io_return (DeclaredRaw (VDict [(''plugin_id'', VStr i), (''family'', VStr family),
        (''version'', VStr ''1.0.0''), (''contract_version'', VStr ''2.1''), (''supported_profiles'', VList [VStr ''prod''])]))),
      mx_capabilities = Callable (io_return (DeclaredObject \<lparr>cap_can_process = (family = ''device''),
        cap_supports_preprocess = False, cap_supports_batch = False, cap_supports_sync = (family = ''pc'')\<rparr>)),
      mx_create_processor = (if family = ''device'' then Callable (\<lambda>_. io_return (''processor '' @ i)) else Missing),
      mx_validate_settings = Callable (\<lambda>d. io_return (VDict [(''active_device_plugins'', VList [VStr ''d2'', VStr ''d1''])])),
      mx_create_sync_adapter = Callable (\<lambda>_. io_return VNone),
      mx_prepare_sync_payload = Callable (\<lambda>r _. io_return (VDict r)),
      mx_on_activate = Missing, mx_on_shutdown = Missing\<rparr>"

definition demo_importer :: "string \<Rightarrow> (unit, py_exception, (unit, string) module_exports) io" where
  "demo_importer n =
     (if n = ''broken'' then io_raise (plain_exception ''ImportError'' ''no module'')
      else io_return (demo_exports n (if n = ''horiba'' then ''pc'' else ''device'')))"

definition demo_conv_env :: conv_env where
  "demo_conv_env = \<lparr>cv_repr = (\<lambda>_. ''?''), cv_float_of_str = (\<lambda>_. None), cv_int_of_str = (\<lambda>_. None)\<rparr>"


end
