(* ===== verification/Plugin_Host.thy ===== *)
theory Plugin_Host
  imports Plugin_Contracts
begin

text \<open>
  The plugin catalog (\<^verbatim>\<open>plugins/catalog.py\<close>), the selection of plugins for a profile
  (\<^verbatim>\<open>plugins/profile_selection.py\<close>) and the plugin host (\<^verbatim>\<open>plugins/host.py\<close>), whose state is its catalog
  and the set of active plugin ids, kept as a list. Sets of strings are lists whose order and repetition
  do not matter. The SHA-256 digest is a parameter.
\<close>

section \<open>Catalog\<close>

datatype catalog_error =
    PluginCatalogNotFoundError string
  | PluginCatalogQueryError string
  | PluginCatalogDuplicateError string
  | PluginCatalogVersionError string

record ('w, 'p) catalog =
  ct_descriptors :: "('w, 'p) plugin_descriptor list"
  ct_by_id :: "('w, 'p) plugin_descriptor dict"
  ct_by_family :: "('w, 'p) plugin_descriptor list dict"
  ct_by_capability :: "('w, 'p) plugin_descriptor list dict"
  ct_by_profile :: "('w, 'p) plugin_descriptor list dict"
  ct_version :: string

record catalog_diff =
  cdf_added_plugin_ids :: "string list"
  cdf_removed_plugin_ids :: "string list"

definition bool_str :: "bool \<Rightarrow> string" where
  "bool_str b = (if b then ''True'' else ''False'')"

definition catalog_blob :: "('w, 'p) plugin_descriptor list \<Rightarrow> string" where
  "catalog_blob ds = concat (map (\<lambda>d. str_join ''|'' [pd_plugin_id d, pd_family d, pd_version d, pd_contract_version d,
     str_join '','' (pd_supported_profiles d), bool_str (cap_can_process (pd_capabilities d)),
     bool_str (cap_supports_preprocess (pd_capabilities d)), bool_str (cap_supports_batch (pd_capabilities d)),
     bool_str (cap_supports_sync (pd_capabilities d))]) ds)"

definition index_by_id :: "('w, 'p) plugin_descriptor list \<Rightarrow> catalog_error + ('w, 'p) plugin_descriptor dict" where
  "index_by_id ds =
     rfold (\<lambda>by_id d. if map_of by_id (pd_plugin_id d) \<noteq> None
        then Inl (PluginCatalogDuplicateError (''duplicate plugin_id in catalog snapshot: '' @ pd_plugin_id d))
        else Inr (AList.update (pd_plugin_id d) d by_id)) [] ds"

definition build_catalog ::
    "(string \<Rightarrow> string) \<Rightarrow> ('w, 'p) plugin_descriptor list \<Rightarrow> catalog_error + ('w, 'p) catalog" where
  "build_catalog sha256 descriptors =
     (let ordered = sort_key (\<lambda>d. (pd_plugin_id d, pd_family d)) descriptors in
      rbind (index_by_id ordered) (\<lambda>by_id.
      let profiles = sort (remdups (concat (map pd_supported_profiles ordered))) in
      Inr \<lparr>ct_descriptors = ordered, ct_by_id = by_id,
           ct_by_family = map (\<lambda>f. (f, filter (\<lambda>d. pd_family d = f) ordered)) [''device'', ''pc''],
           ct_by_capability =
             [(''can_process'', filter (\<lambda>d. cap_can_process (pd_capabilities d)) ordered),
              (''supports_preprocess'', filter (\<lambda>d. cap_supports_preprocess (pd_capabilities d)) ordered),
              (''supports_batch'', filter (\<lambda>d. cap_supports_batch (pd_capabilities d)) ordered),
              (''supports_sync'', filter (\<lambda>d. cap_supports_sync (pd_capabilities d)) ordered)],
           ct_by_profile = map (\<lambda>p. (p, filter (\<lambda>d. pd_supported_profiles d = [] \<or> p \<in> set (pd_supported_profiles d)) ordered)) profiles,
           ct_version = sha256 (catalog_blob ordered)\<rparr>))"

definition sorted_difference :: "string list \<Rightarrow> string list \<Rightarrow> string list" where
  "sorted_difference xs ys = sort (filter (\<lambda>x. x \<notin> set ys) (remdups xs))"

definition refresh_catalog ::
    "(string \<Rightarrow> string) \<Rightarrow> ('w, 'p) catalog \<Rightarrow> ('w, 'p) plugin_descriptor list \<Rightarrow> string option \<Rightarrow>
     catalog_error + ('w, 'p) catalog \<times> catalog_diff" where
  "refresh_catalog sha256 current new_descriptors expected_version =
     rbind (raise_if (case expected_version of None \<Rightarrow> False | Some v \<Rightarrow> v \<noteq> ct_version current)
       (PluginCatalogVersionError (''stale catalog version token '' @ [CHR 39] @ the expected_version @ [CHR 39] @
          ''; current='' @ [CHR 39] @ ct_version current @ [CHR 39]))) (\<lambda>_.
     rbind (build_catalog sha256 new_descriptors) (\<lambda>refreshed.
     let current_ids = map pd_plugin_id (ct_descriptors current);
         refreshed_ids = map pd_plugin_id (ct_descriptors refreshed)
     in Inr (refreshed, \<lparr>cdf_added_plugin_ids = sorted_difference refreshed_ids current_ids,
                        cdf_removed_plugin_ids = sorted_difference current_ids refreshed_ids\<rparr>)))"

definition get_plugin :: "('w, 'p) catalog \<Rightarrow> string \<Rightarrow> catalog_error + ('w, 'p) plugin_descriptor" where
  "get_plugin ct plugin_id =
     (case map_of (ct_by_id ct) plugin_id of
        None \<Rightarrow> Inl (PluginCatalogNotFoundError (''unknown plugin_id: '' @ plugin_id))
      | Some d \<Rightarrow> Inr d)"

definition query_by_family :: "('w, 'p) catalog \<Rightarrow> string \<Rightarrow> catalog_error + ('w, 'p) plugin_descriptor list" where
  "query_by_family ct family =
     (let normalized = str_lower (strip family) in
      if normalized \<noteq> ''device'' \<and> normalized \<noteq> ''pc''
      then Inl (PluginCatalogQueryError (''unsupported plugin family: '' @ family))
      else Inr (dict_get_or (ct_by_family ct) normalized []))"

definition query_by_capability :: "('w, 'p) catalog \<Rightarrow> string \<Rightarrow> catalog_error + ('w, 'p) plugin_descriptor list" where
  "query_by_capability ct capability =
     (case map_of (ct_by_capability ct) (strip capability) of
        None \<Rightarrow> Inl (PluginCatalogQueryError (''unsupported capability filter: '' @ capability))
      | Some ds \<Rightarrow> Inr ds)"

section \<open>Profile selection\<close>

datatype profile_error =
    PluginProfileUnknownError string
  | PluginProfileOverrideConflictError string
  | PluginProfileCatalogMismatchError string
  | PluginProfilePolicyError string

record selection_result =
  sr_device :: "string list"
  sr_pc :: "string list"
  sr_included :: "string dict"
  sr_excluded :: "string dict"
  sr_fingerprint :: string

definition nonblank_entries :: "string \<Rightarrow> pyval list \<Rightarrow> profile_error + string list" where
  "nonblank_entries message vs =
     rmap (\<lambda>v. case v of
         VStr s \<Rightarrow> if strip s = [] then Inl (PluginProfilePolicyError message) else Inr (strip s)
       | _ \<Rightarrow> Inl (PluginProfilePolicyError message)) vs"

definition normalize_profile :: "pyval \<Rightarrow> profile_error + string" where
  "normalize_profile v =
     (case v of
        VStr s \<Rightarrow> if strip s = [] then Inl (PluginProfilePolicyError ''profile must be a non-empty string'')
                  else Inr (str_lower (strip s))
      | _ \<Rightarrow> Inl (PluginProfilePolicyError ''profile must be a non-empty string''))"

definition normalize_known_profiles ::
    "pyval list option \<Rightarrow> ('w, 'p) catalog \<Rightarrow> profile_error + string list" where
  "normalize_known_profiles known ct =
     (case known of
        None \<Rightarrow>
          (let from_catalog = concat (map pd_supported_profiles (ct_descriptors ct)) in
           Inr (if from_catalog = [] then [''default''] else from_catalog))
      | Some vs \<Rightarrow>
          rbind (nonblank_entries ''known_profiles entries must be non-empty strings'' vs) (\<lambda>ps.
          if ps = [] then Inl (PluginProfilePolicyError ''known_profiles cannot be empty'')
          else Inr (map str_lower ps)))"

text \<open>Why a descriptor is in or out, in the order of the code's tests.\<close>

definition selection_reason :: "string \<Rightarrow> string list \<Rightarrow> string list \<Rightarrow> ('w, 'p) plugin_descriptor \<Rightarrow> bool \<times> string" where
  "selection_reason profile allow deny d =
     (if pd_plugin_id d \<in> set deny then (False, ''deny_override'')
      else if pd_plugin_id d \<in> set allow then (True, ''allow_override'')
      else if pd_supported_profiles d = [] \<or> profile \<in> set (pd_supported_profiles d) then (True, ''profile_match'')
      else (False, ''profile_mismatch''))"

definition selection_fingerprint :: "(string \<Rightarrow> string) \<Rightarrow> string \<Rightarrow> string list \<Rightarrow> string list \<Rightarrow> string" where
  "selection_fingerprint sha256 profile device pc =
     sha256 (profile @ ''|device:'' @ str_join '','' device @ ''|pc:'' @ str_join '','' pc)"

definition select_plugins_for_profile ::
    "(string \<Rightarrow> string) \<Rightarrow> ('w, 'p) catalog \<Rightarrow> pyval \<Rightarrow> pyval list option \<Rightarrow> pyval list \<Rightarrow> pyval list \<Rightarrow>
     profile_error + selection_result" where
  "select_plugins_for_profile sha256 ct profile known_profiles allow_ids deny_ids =
     rbind (normalize_profile profile) (\<lambda>normalized.
     rbind (normalize_known_profiles known_profiles ct) (\<lambda>known.
     rbind (raise_if (normalized \<notin> set known)
       (PluginProfileUnknownError (''unknown plugin profile '' @ [CHR 39] @ normalized @ [CHR 39] @
          ''; known profiles: '' @ str_join '', '' (sort (remdups known))))) (\<lambda>_.
     rbind (nonblank_entries ''allow_plugin_ids entries must be non-empty strings'' allow_ids) (\<lambda>allow.
     rbind (nonblank_entries ''deny_plugin_ids entries must be non-empty strings'' deny_ids) (\<lambda>deny.
     let overlap = filter (\<lambda>x. x \<in> set deny) (remdups allow) in
     rbind (raise_if (overlap \<noteq> [])
       (PluginProfileOverrideConflictError (''plugin ids cannot be both allowed and denied: '' @
          str_join '', '' (sort overlap)))) (\<lambda>_.
     let missing = sorted_difference (allow @ deny) (map fst (ct_by_id ct)) in
     rbind (raise_if (missing \<noteq> [])
       (PluginProfileCatalogMismatchError (''override references unknown plugin ids: '' @ str_join '', '' missing))) (\<lambda>_.
     let verdict = selection_reason normalized allow deny;
         ids = (\<lambda>P. sort (map pd_plugin_id (filter (\<lambda>d. fst (verdict d) \<and> P d) (ct_descriptors ct))));
         device = ids (\<lambda>d. pd_family d = ''device'');
         pc = ids (\<lambda>d. pd_family d \<noteq> ''device'');
         reasons = (\<lambda>b. sort_key fst (fold (\<lambda>d. AList.update (pd_plugin_id d) (snd (verdict d)))
                      (filter (\<lambda>d. fst (verdict d) = b) (ct_descriptors ct)) []))
     in Inr \<lparr>sr_device = device, sr_pc = pc, sr_included = reasons True, sr_excluded = reasons False,
             sr_fingerprint = selection_fingerprint sha256 normalized device pc\<rparr>)))))))"

section \<open>Host\<close>

datatype host_error =
    PluginHostDuplicateIdError string
  | PluginHostContractError string
  | PluginHostActivationError string
  | PluginHostShutdownError string
  | HostCatalogError catalog_error
  | HostProfileError profile_error
  | HostRaised py_exception

record ('w, 'p) plugin_host =
  ph_catalog :: "('w, 'p) catalog"
  ph_active_plugin_ids :: "string list"

record host_env =
  he_conv :: conv_env
  he_sha256 :: "string \<Rightarrow> string"

definition quoted_id :: "string \<Rightarrow> string" where
  "quoted_id s = [CHR 39] @ s @ [CHR 39]"

definition validate_descriptor_contract ::
    "host_env \<Rightarrow> ('p \<Rightarrow> bool) \<Rightarrow> ('w, 'p) plugin_descriptor \<Rightarrow> ('w, host_error, unit) io" where
  "validate_descriptor_contract he is_processor d w =
     (case validate_plugin_contract (he_conv he) is_processor (pd_module_exports d) w of
        (Inl (PluginRaised e), w1) \<Rightarrow> (Inl (HostRaised e), w1)
      | (Inl e, w1) \<Rightarrow> (Inl (PluginHostContractError (''plugin '' @ quoted_id (pd_plugin_id d) @
            '' failed contract validation: '' @ contract_error_text e)), w1)
      | (Inr m, w1) \<Rightarrow>
          (if pmd_plugin_id m \<noteq> pd_plugin_id d
           then Inl (PluginHostContractError (''descriptor plugin id '' @ quoted_id (pd_plugin_id d) @
                  '' does not match manifest plugin id '' @ quoted_id (pmd_plugin_id m)))
           else if pmd_family m \<noteq> pd_family d
           then Inl (PluginHostContractError (''descriptor family '' @ quoted_id (pd_family d) @
                  '' does not match manifest family '' @ quoted_id (pmd_family m)))
           else Inr (), w1))"

fun merge_descriptors ::
    "host_env \<Rightarrow> ('p \<Rightarrow> bool) \<Rightarrow> ('w, 'p) plugin_descriptor list \<Rightarrow> ('w, 'p) plugin_descriptor dict \<Rightarrow>
     ('w, host_error, ('w, 'p) plugin_descriptor dict) io" where
  "merge_descriptors he is_processor [] merged w = (Inr merged, w)"
| "merge_descriptors he is_processor (d # ds) merged w =
     (if map_of merged (pd_plugin_id d) \<noteq> None
      then (Inl (PluginHostDuplicateIdError (''duplicate plugin id registration: '' @ pd_plugin_id d)), w)
      else case validate_descriptor_contract he is_processor d w of
             (Inl e, w1) \<Rightarrow> (Inl e, w1)
           | (Inr _, w1) \<Rightarrow> merge_descriptors he is_processor ds (AList.update (pd_plugin_id d) d merged) w1)"

definition register_descriptors ::
    "host_env \<Rightarrow> ('p \<Rightarrow> bool) \<Rightarrow> ('w, 'p) plugin_descriptor list \<Rightarrow> ('w, 'p) plugin_host \<Rightarrow> 'w \<Rightarrow>
     (host_error + unit) \<times> ('w, 'p) plugin_host \<times> 'w" where
  "register_descriptors he is_processor ds h w =
     (let merged = fold (\<lambda>d. AList.update (pd_plugin_id d) d) (ct_descriptors (ph_catalog h)) [] in
      case merge_descriptors he is_processor ds merged w of
        (Inl e, w1) \<Rightarrow> (Inl e, h, w1)
      | (Inr all, w1) \<Rightarrow>
          (case build_catalog (he_sha256 he) (map snd all) of
             Inl e \<Rightarrow> (Inl (HostCatalogError e), h, w1)
           | Inr ct \<Rightarrow> (Inr (), h\<lparr>ph_catalog := ct\<rparr>, w1)))"

text \<open>\<^verbatim>\<open>PluginHost.__init__\<close>: an empty catalog, then the registration of the given descriptors.\<close>

definition make_plugin_host ::
    "host_env \<Rightarrow> ('p \<Rightarrow> bool) \<Rightarrow> ('w, 'p) plugin_descriptor list \<Rightarrow> ('w, host_error, ('w, 'p) plugin_host) io" where
  "make_plugin_host he is_processor ds w =
     (case build_catalog (he_sha256 he) [] of
        Inl e \<Rightarrow> (Inl (HostCatalogError e), w)
      | Inr ct \<Rightarrow>
          (let h = \<lparr>ph_catalog = ct, ph_active_plugin_ids = []\<rparr> in
           if ds = [] then (Inr h, w)
           else case register_descriptors he is_processor ds h w of
                  (Inl e, _, w1) \<Rightarrow> (Inl e, w1)
                | (Inr _, h1, w1) \<Rightarrow> (Inr h1, w1)))"

text \<open>
  The two hook loops of \<^verbatim>\<open>activate_profile\<close>. A failing hook is reported with the ids as they stand then,
  which the host keeps; an unknown plugin id leaves the host's ids alone (\<open>None\<close>).
\<close>

fun run_shutdown_hooks ::
    "('w, 'p) catalog \<Rightarrow> string list \<Rightarrow> string list \<Rightarrow> 'w \<Rightarrow> (host_error \<times> string list option + string list) \<times> 'w" where
  "run_shutdown_hooks ct [] current w = (Inr current, w)"
| "run_shutdown_hooks ct (i # ids) current w =
     (case get_plugin ct i of
        Inl e \<Rightarrow> (Inl (HostCatalogError e, None), w)
      | Inr d \<Rightarrow>
          (case mx_on_shutdown (pd_module_exports d) of
             Callable hook \<Rightarrow>
               (case hook w of
                  (Inl _, w1) \<Rightarrow>
                    (Inl (PluginHostShutdownError (''plugin '' @ quoted_id i @ '' shutdown hook failed''), Some current), w1)
                | (Inr _, w1) \<Rightarrow> run_shutdown_hooks ct ids (removeAll i current) w1)
           | _ \<Rightarrow> run_shutdown_hooks ct ids (removeAll i current) w))"

fun run_activate_hooks ::
    "('w, 'p) catalog \<Rightarrow> pyval \<Rightarrow> string list \<Rightarrow> string list \<Rightarrow> 'w \<Rightarrow> (host_error \<times> string list option + string list) \<times> 'w" where
  "run_activate_hooks ct profile [] current w = (Inr current, w)"
| "run_activate_hooks ct profile (i # ids) current w =
     (case get_plugin ct i of
        Inl e \<Rightarrow> (Inl (HostCatalogError e, None), w)
      | Inr d \<Rightarrow>
          (case mx_on_activate (pd_module_exports d) of
             Callable hook \<Rightarrow>
               (case hook [(''plugin_id'', VStr i), (''profile'', profile)] w of
                  (Inl _, w1) \<Rightarrow>
                    (Inl (PluginHostActivationError (''plugin '' @ quoted_id i @ '' activation hook failed''), Some current), w1)
                | (Inr _, w1) \<Rightarrow> run_activate_hooks ct profile ids (List.insert i current) w1)
           | _ \<Rightarrow> run_activate_hooks ct profile ids (List.insert i current) w))"

definition keep_progress :: "('w, 'p) plugin_host \<Rightarrow> string list option \<Rightarrow> ('w, 'p) plugin_host" where
  "keep_progress h ids = (case ids of None \<Rightarrow> h | Some current \<Rightarrow> h\<lparr>ph_active_plugin_ids := current\<rparr>)"

definition activate_profile ::
    "host_env \<Rightarrow> pyval \<Rightarrow> pyval list option \<Rightarrow> pyval list \<Rightarrow> pyval list \<Rightarrow> ('w, 'p) plugin_host \<Rightarrow> 'w \<Rightarrow>
     (host_error + selection_result) \<times> ('w, 'p) plugin_host \<times> 'w" where
  "activate_profile he profile known allow deny h w =
     (case select_plugins_for_profile (he_sha256 he) (ph_catalog h) profile known allow deny of
        Inl e \<Rightarrow> (Inl (HostProfileError e), h, w)
      | Inr selection \<Rightarrow>
          (let selected = sr_device selection @ sr_pc selection;
               current = ph_active_plugin_ids h;
               removed = rev (sorted_difference current selected);
               added = sorted_difference selected current
           in case run_shutdown_hooks (ph_catalog h) removed current w of
                (Inl (e, ids), w1) \<Rightarrow> (Inl e, keep_progress h ids, w1)
              | (Inr current1, w1) \<Rightarrow>
                  (case run_activate_hooks (ph_catalog h) profile added current1 w1 of
                     (Inl (e, ids), w2) \<Rightarrow> (Inl e, keep_progress h ids, w2)
                   | (Inr current2, w2) \<Rightarrow> (Inr selection, h\<lparr>ph_active_plugin_ids := current2\<rparr>, w2))))"

definition plugins_for_family :: "string \<Rightarrow> bool \<Rightarrow> ('w, 'p) plugin_host \<Rightarrow> string list" where
  "plugins_for_family family active_only h =
     map pd_plugin_id (filter (\<lambda>d. \<not> active_only \<or> pd_plugin_id d \<in> set (ph_active_plugin_ids h))
       (dict_get_or (ct_by_family (ph_catalog h)) family []))"

definition get_by_capability :: "string \<Rightarrow> bool \<Rightarrow> ('w, 'p) plugin_host \<Rightarrow> host_error + string list" where
  "get_by_capability capability active_only h =
     (case map_of (ct_by_capability (ph_catalog h)) capability of
        None \<Rightarrow> Inl (PluginHostActivationError (''unknown capability filter: '' @ capability))
      | Some ds \<Rightarrow>
          Inr (filter (\<lambda>i. \<not> active_only \<or> i \<in> set (ph_active_plugin_ids h)) (map pd_plugin_id ds)))"

definition require_plugin ::
    "string \<Rightarrow> string \<Rightarrow> bool \<Rightarrow> ('w, 'p) plugin_host \<Rightarrow> string \<Rightarrow> host_error + ('w, 'p) plugin_descriptor" where
  "require_plugin family article active_only h i =
     rbind (map_error HostCatalogError (get_plugin (ph_catalog h) i)) (\<lambda>d.
     rbind (raise_if (pd_family d \<noteq> family)
       (PluginHostActivationError (''plugin '' @ quoted_id i @ '' is not a '' @ article @ '' plugin''))) (\<lambda>_.
     rbind (raise_if (active_only \<and> i \<notin> set (ph_active_plugin_ids h))
       (PluginHostActivationError (''plugin '' @ quoted_id i @ '' is not active for the current profile''))) (\<lambda>_. Inr d)))"

definition create_device_processor ::
    "('p \<Rightarrow> bool) \<Rightarrow> ('w, 'p) plugin_host \<Rightarrow> string \<Rightarrow> mapping \<Rightarrow> ('w, host_error, 'p) io" where
  "create_device_processor is_processor h i settings =
     io_bind (io_lift (require_plugin ''device'' ''device'' True h i)) (\<lambda>d.
     case mx_create_processor (pd_module_exports d) of
       Callable create \<Rightarrow>
         io_bind (io_mapped (\<lambda>_. PluginHostActivationError
             (''device plugin '' @ quoted_id i @ '' failed to build processor'')) (create settings)) (\<lambda>p.
         io_bind (io_lift (raise_if (\<not> is_processor p) (PluginHostActivationError
             (''device plugin '' @ quoted_id i @ '' returned invalid processor contract'')))) (\<lambda>_. io_return p))
     | _ \<Rightarrow> io_raise (PluginHostActivationError (''device plugin '' @ quoted_id i @ '' missing create_processor export'')))"

text \<open>
  The settings a PC plugin's validator returns are a mapping, or an object whose attribute \<^verbatim>\<open>extra\<close> is
  read; \<open>extra\<close> gives that attribute.
\<close>

definition extract_active_device_plugins ::
    "conv_env \<Rightarrow> (pyval \<Rightarrow> pyval) \<Rightarrow> pyval \<Rightarrow> string list" where
  "extract_active_device_plugins cv extra settings =
     (let get = (\<lambda>d. dict_get_or d ''active_device_plugins'' (VList []));
          chosen = (case settings of
             VDict d \<Rightarrow> get d
           | v \<Rightarrow> (case extra v of VDict d \<Rightarrow> get d | _ \<Rightarrow> VList []))
      in case chosen of
           VList vs \<Rightarrow> filter (\<lambda>s. s \<noteq> []) (map (\<lambda>v. strip (py_str (cv_repr cv) v)) vs)
         | _ \<Rightarrow> [])"

record pc_device_scope =
  ps_pc_plugin_id :: string
  ps_device_plugin_ids :: "string list"
  ps_normalized_settings :: pyval

definition resolve_device_scope_for_pc ::
    "host_env \<Rightarrow> (pyval \<Rightarrow> pyval) \<Rightarrow> ('w, 'p) plugin_host \<Rightarrow> string \<Rightarrow> mapping \<Rightarrow> bool \<Rightarrow>
     ('w, host_error, pc_device_scope) io" where
  "resolve_device_scope_for_pc he extra h i settings active_only =
     io_bind (io_lift (require_plugin ''pc'' ''pc'' active_only h i)) (\<lambda>d.
     io_bind
       (case mx_validate_settings (pd_module_exports d) of
          Callable validate \<Rightarrow>
            io_mapped (\<lambda>_. PluginHostActivationError (''pc plugin '' @ quoted_id i @ '' failed to validate settings''))
              (validate settings)
        | _ \<Rightarrow> io_return (VDict settings)) (\<lambda>normalized.
     io_return \<lparr>ps_pc_plugin_id = strip i,
       ps_device_plugin_ids = map strip (sort (filter (\<lambda>n. n \<in> set (plugins_for_family ''device'' active_only h))
         (extract_active_device_plugins (he_conv he) extra normalized))),
       ps_normalized_settings = normalized\<rparr>))"

definition host_prepare_sync_payload ::
    "('w, 'p) plugin_host \<Rightarrow> string \<Rightarrow> mapping \<Rightarrow> pyval \<Rightarrow> bool \<Rightarrow> ('w, host_error, mapping) io" where
  "host_prepare_sync_payload h i rec context active_only =
     io_bind (io_lift (require_plugin ''pc'' ''pc'' active_only h i)) (\<lambda>d.
     case mx_prepare_sync_payload (pd_module_exports d) of
       Callable prepare \<Rightarrow>
         io_bind (io_mapped (\<lambda>_. PluginHostActivationError
             (''pc plugin '' @ quoted_id i @ '' failed to prepare sync payload'')) (prepare rec context)) (\<lambda>v.
         case v of VDict m \<Rightarrow> io_return m
         | _ \<Rightarrow> io_raise (PluginHostActivationError (''pc plugin '' @ quoted_id i @ '' returned invalid sync payload'')))
     | _ \<Rightarrow> io_raise (PluginHostActivationError (''pc plugin '' @ quoted_id i @ '' missing prepare_sync_payload export'')))"

fun shutdown_hooks :: "('w, 'p) catalog \<Rightarrow> string list \<Rightarrow> ('w, host_error, unit) io" where
  "shutdown_hooks ct [] w = (Inr (), w)"
| "shutdown_hooks ct (i # ids) w =
     (case get_plugin ct i of
        Inl e \<Rightarrow> (Inl (HostCatalogError e), w)
      | Inr d \<Rightarrow>
          (case mx_on_shutdown (pd_module_exports d) of
             Callable hook \<Rightarrow>
               (case hook w of
                  (Inl _, w1) \<Rightarrow> (Inl (PluginHostShutdownError (''plugin '' @ quoted_id i @ '' shutdown hook failed'')), w1)
                | (Inr _, w1) \<Rightarrow> shutdown_hooks ct ids w1)
           | _ \<Rightarrow> shutdown_hooks ct ids w))"

definition plugin_shutdown :: "('w, 'p) plugin_host \<Rightarrow> 'w \<Rightarrow> (host_error + unit) \<times> ('w, 'p) plugin_host \<times> 'w" where
  "plugin_shutdown h w =
     (case shutdown_hooks (ph_catalog h) (rev (sort (remdups (ph_active_plugin_ids h)))) w of
        (Inl e, w1) \<Rightarrow> (Inl e, h, w1)
      | (Inr _, w1) \<Rightarrow> (Inr (), h\<lparr>ph_active_plugin_ids := []\<rparr>, w1))"

end
