(* ===== verification/Plugin_Host_Correct.thy ===== *)
theory Plugin_Host_Correct
  imports Plugin_Host Io_Logic
begin

text \<open>
  Lemmas and properties of the plugin catalog, the profile selection and the plugin host: what a catalog
  answers, which plugins a profile selects, and the invariant every sequence of host calls keeps.
\<close>

text \<open>From an evaluated run to its result.\<close>

lemma run_outcomeE:
  assumes "case m of (Inl _, _) \<Rightarrow> False | (Inr x, w) \<Rightarrow> P x w" obtains x w where "m = (Inr x, w)" "P x w"
  using assms by (cases m; cases "fst m") auto

lemma pair_outcomeE:
  assumes "case p of (x, y) \<Rightarrow> P x y" obtains x y where "p = (x, y)" "P x y"
  using assms by (cases p) auto

section \<open>Catalog\<close>

lemma index_by_id_step:
  "rfold (\<lambda>by_id d. if map_of by_id (pd_plugin_id d) \<noteq> None
      then Inl (PluginCatalogDuplicateError (''duplicate plugin_id in catalog snapshot: '' @ pd_plugin_id d))
      else Inr (AList.update (pd_plugin_id d) d by_id)) (map (\<lambda>d. (pd_plugin_id d, d)) us) ds = Inr r \<longleftrightarrow>
   distinct (map pd_plugin_id ds) \<and> set (map pd_plugin_id us) \<inter> set (map pd_plugin_id ds) = {} \<and>
   r = map (\<lambda>d. (pd_plugin_id d, d)) (us @ ds)"
proof (induction ds arbitrary: us)
  case (Cons d ds)
  have upd: "AList.update (pd_plugin_id d) d (map (\<lambda>d. (pd_plugin_id d, d)) us) = map (\<lambda>d. (pd_plugin_id d, d)) (us @ [d])"
    if "pd_plugin_id d \<notin> pd_plugin_id ` set us"
    using that by (subst update_fresh) (auto simp: image_image)
  have dom: "map_of (map (\<lambda>d. (pd_plugin_id d, d)) us) (pd_plugin_id d) = None \<longleftrightarrow> pd_plugin_id d \<notin> pd_plugin_id ` set us"
    by (simp add: map_of_eq_None_iff image_image)
  show ?case
  proof (cases "pd_plugin_id d \<in> pd_plugin_id ` set us")
    case True
    then show ?thesis by (simp add: dom del: not_None_eq)
  next
    case False
    then show ?thesis using Cons.IH [of "us @ [d]"] by (simp add: dom upd del: not_None_eq) auto
  qed
qed auto

lemma index_by_id_Inr:
  "index_by_id ds = Inr r \<longleftrightarrow> distinct (map pd_plugin_id ds) \<and> r = map (\<lambda>d. (pd_plugin_id d, d)) ds"
  using index_by_id_step [of "[]" ds r] by (simp add: index_by_id_def)

abbreviation catalog_order :: "('w, 'p) plugin_descriptor list \<Rightarrow> ('w, 'p) plugin_descriptor list" where
  "catalog_order \<equiv> sort_key (\<lambda>d. (pd_plugin_id d, pd_family d))"

text \<open>A catalog as \<open>build_catalog\<close> makes them: every table is determined by the list of descriptors.\<close>

definition catalog_ok :: "('w, 'p) catalog \<Rightarrow> bool" where
  "catalog_ok ct \<longleftrightarrow> distinct (map pd_plugin_id (ct_descriptors ct)) \<and> sorted (map pd_plugin_id (ct_descriptors ct)) \<and>
     ct_by_id ct = map (\<lambda>d. (pd_plugin_id d, d)) (ct_descriptors ct) \<and>
     ct_by_family ct = map (\<lambda>f. (f, filter (\<lambda>d. pd_family d = f) (ct_descriptors ct))) [''device'', ''pc'']"

lemma sorted_catalog_order: "sorted (map pd_plugin_id (catalog_order ds))"
proof -
  have "sorted (map fst (map (\<lambda>d. (pd_plugin_id d, pd_family d)) (catalog_order ds)))"
    by (rule sorted_map_mono [OF sorted_sort_key]) (auto simp: mono_on_def less_eq_prod_def)
  then show ?thesis by (simp add: comp_def)
qed

lemma build_catalog_Inr:
  "build_catalog sha ds = Inr ct \<Longrightarrow>
   catalog_ok ct \<and> distinct (map pd_plugin_id ds) \<and> ct_descriptors ct = catalog_order ds"
  by (auto simp: build_catalog_def catalog_ok_def result_simps index_by_id_Inr Let_def sorted_catalog_order distinct_map)

lemma build_catalog_total:
  "distinct (map pd_plugin_id ds) \<Longrightarrow> \<exists>ct. build_catalog sha ds = Inr ct"
proof -
  assume "distinct (map pd_plugin_id ds)"
  then have "index_by_id (catalog_order ds) = Inr (map (\<lambda>d. (pd_plugin_id d, d)) (catalog_order ds))"
    by (simp add: index_by_id_Inr distinct_map)
  then show ?thesis by (simp add: build_catalog_def Let_def)
qed

lemma map_of_by_id:
  "distinct (map pd_plugin_id ds) \<Longrightarrow>
   map_of (map (\<lambda>d. (pd_plugin_id d, d)) ds) i = Some d \<longleftrightarrow> d \<in> set ds \<and> pd_plugin_id d = i"
  by (subst map_of_eq_Some_iff) (auto simp: comp_def)

lemma map_of_by_id_None: "map_of (map (\<lambda>d. (pd_plugin_id d, d)) ds) i = None \<longleftrightarrow> i \<notin> pd_plugin_id ` set ds"
  by (simp add: map_of_eq_None_iff image_image)

lemma get_plugin_eq: "get_plugin ct i = Inr d \<longleftrightarrow> map_of (ct_by_id ct) i = Some d"
  "(\<exists>e. get_plugin ct i = Inl e) \<longleftrightarrow> map_of (ct_by_id ct) i = None"
  by (simp_all add: get_plugin_def split: option.splits)

lemma get_plugin_Inr: "catalog_ok ct \<Longrightarrow> get_plugin ct i = Inr d \<longleftrightarrow> d \<in> set (ct_descriptors ct) \<and> pd_plugin_id d = i"
  by (simp add: get_plugin_eq catalog_ok_def map_of_by_id)

lemma get_plugin_Inl: "catalog_ok ct \<Longrightarrow> (\<exists>e. get_plugin ct i = Inl e) \<longleftrightarrow> i \<notin> pd_plugin_id ` set (ct_descriptors ct)"
  by (simp add: get_plugin_eq catalog_ok_def map_of_by_id_None)

lemma get_plugin_known:
  "catalog_ok ct \<Longrightarrow> i \<in> pd_plugin_id ` set (ct_descriptors ct) \<Longrightarrow> \<exists>d. get_plugin ct i = Inr d"
  using get_plugin_Inr by fastforce

lemma catalog_order_unique:
  assumes "mset ds = mset ds'" and "distinct (map pd_plugin_id ds)"
  shows "catalog_order ds = catalog_order ds'"
proof (rule map_sorted_distinct_set_unique [where f = pd_plugin_id])
  have s: "set ds' = set ds" using assms(1) by (metis set_mset_mset)
  have d: "distinct (map pd_plugin_id ds')" using assms by (metis mset_eq_imp_distinct_iff mset_map)
  show "inj_on pd_plugin_id (set (catalog_order ds) \<union> set (catalog_order ds'))"
    using assms(2) s by (simp add: distinct_map)
  show "distinct (map pd_plugin_id (catalog_order ds))" "distinct (map pd_plugin_id (catalog_order ds'))"
    using assms(2) d by (simp_all add: distinct_map)
  show "set (catalog_order ds) = set (catalog_order ds')" using s by simp
qed (rule sorted_catalog_order)+

lemma build_catalog_order_independent:
  "mset ds = mset ds' \<Longrightarrow> distinct (map pd_plugin_id ds) \<Longrightarrow> build_catalog sha ds = build_catalog sha ds'"
  by (simp add: build_catalog_def catalog_order_unique Let_def)

section \<open>Selection\<close>

lemma set_sorted_difference [simp]: "set (sorted_difference xs ys) = set xs - set ys"
  by (auto simp: sorted_difference_def)

lemma sorted_difference_Nil: "sorted_difference xs ys = [] \<longleftrightarrow> set xs \<subseteq> set ys"
  by (simp flip: set_empty)

lemma map_of_reasons:
  "distinct (map pd_plugin_id ds) \<Longrightarrow>
   map_of (fold (\<lambda>d. AList.update (pd_plugin_id d) (g d)) ds m) = map_of m ++ map_of (map (\<lambda>d. (pd_plugin_id d, g d)) ds)"
proof (induction ds arbitrary: m)
  case (Cons d ds)
  then have "pd_plugin_id d \<notin> dom (map_of (map (\<lambda>d. (pd_plugin_id d, g d)) ds))"
    by (simp add: dom_map_of_conv_image_fst image_image)
  then have "map_of (map (\<lambda>d. (pd_plugin_id d, g d)) ds) (pd_plugin_id d) = None" by (simp add: domIff)
  with Cons show ?case by (auto simp: fun_eq_iff map_add_def split: option.splits)
qed simp

lemma reason_of:
  assumes "distinct (map pd_plugin_id ds)" and "d \<in> set ds"
  shows "map_of (sort_key fst (fold (\<lambda>d. AList.update (pd_plugin_id d) (g d)) (filter P ds) [])) (pd_plugin_id d) =
    (if P d then Some (g d) else None)"
proof -
  have dist: "distinct (map pd_plugin_id (filter P ds))" using assms(1) by (simp add: distinct_map_filter)
  have same: "d' = d" if "d' \<in> set ds" "pd_plugin_id d' = pd_plugin_id d" for d'
    using that assms by (auto simp: distinct_map dest: inj_onD)
  have "map_of (map (\<lambda>d. (pd_plugin_id d, g d)) (filter P ds)) (pd_plugin_id d) = (if P d then Some (g d) else None)"
  proof (cases "P d")
    case True
    with assms(2) have "(pd_plugin_id d, g d) \<in> set (map (\<lambda>d. (pd_plugin_id d, g d)) (filter P ds))" by simp
    with dist have "map_of (map (\<lambda>d. (pd_plugin_id d, g d)) (filter P ds)) (pd_plugin_id d) = Some (g d)"
      by (intro map_of_is_SomeI) (simp_all add: comp_def)
    with True show ?thesis by simp
  next
    case False
    then have "pd_plugin_id d \<notin> pd_plugin_id ` set (filter P ds)" using same by auto
    with False show ?thesis by (simp add: map_of_eq_None_iff image_image)
  qed
  then show ?thesis by (simp add: map_of_sort_key map_of_reasons [OF dist])
qed

lemma select_Inr:
  assumes "select_plugins_for_profile sha ct profile known allow deny = Inr r"
  obtains p al de where "normalize_profile profile = Inr p"
    "nonblank_entries ''allow_plugin_ids entries must be non-empty strings'' allow = Inr al"
    "nonblank_entries ''deny_plugin_ids entries must be non-empty strings'' deny = Inr de"
    "set al \<inter> set de = {}" "set al \<union> set de \<subseteq> fst ` set (ct_by_id ct)"
    "sr_device r = sort (map pd_plugin_id (filter (\<lambda>d. fst (selection_reason p al de d) \<and> pd_family d = ''device'') (ct_descriptors ct)))"
    "sr_pc r = sort (map pd_plugin_id (filter (\<lambda>d. fst (selection_reason p al de d) \<and> pd_family d \<noteq> ''device'') (ct_descriptors ct)))"
    "sr_included r = sort_key fst (fold (\<lambda>d. AList.update (pd_plugin_id d) (snd (selection_reason p al de d)))
       (filter (\<lambda>d. fst (selection_reason p al de d)) (ct_descriptors ct)) [])"
    "sr_excluded r = sort_key fst (fold (\<lambda>d. AList.update (pd_plugin_id d) (snd (selection_reason p al de d)))
       (filter (\<lambda>d. \<not> fst (selection_reason p al de d)) (ct_descriptors ct)) [])"
proof -
  from assms obtain p kn al de where *: "normalize_profile profile = Inr p"
    "nonblank_entries ''allow_plugin_ids entries must be non-empty strings'' allow = Inr al"
    "nonblank_entries ''deny_plugin_ids entries must be non-empty strings'' deny = Inr de"
    "filter (\<lambda>x. x \<in> set de) (remdups al) = []" "sorted_difference (al @ de) (map fst (ct_by_id ct)) = []"
    "r = \<lparr>sr_device = sort (map pd_plugin_id (filter (\<lambda>d. fst (selection_reason p al de d) \<and> pd_family d = ''device'') (ct_descriptors ct))),
      sr_pc = sort (map pd_plugin_id (filter (\<lambda>d. fst (selection_reason p al de d) \<and> pd_family d \<noteq> ''device'') (ct_descriptors ct))),
      sr_included = sort_key fst (fold (\<lambda>d. AList.update (pd_plugin_id d) (snd (selection_reason p al de d)))
       (filter (\<lambda>d. fst (selection_reason p al de d) = True) (ct_descriptors ct)) []),
      sr_excluded = sort_key fst (fold (\<lambda>d. AList.update (pd_plugin_id d) (snd (selection_reason p al de d)))
       (filter (\<lambda>d. fst (selection_reason p al de d) = False) (ct_descriptors ct)) []),
      sr_fingerprint = selection_fingerprint sha p
        (sort (map pd_plugin_id (filter (\<lambda>d. fst (selection_reason p al de d) \<and> pd_family d = ''device'') (ct_descriptors ct))))
        (sort (map pd_plugin_id (filter (\<lambda>d. fst (selection_reason p al de d) \<and> pd_family d \<noteq> ''device'') (ct_descriptors ct))))\<rparr>"
    unfolding select_plugins_for_profile_def Let_def result_simps not_not sum.inject
    by (elim exE conjE) (rule that, assumption+, simp)
  have "set al \<inter> set de = {}" using *(4) by (auto simp: filter_empty_conv)
  moreover have "set al \<union> set de \<subseteq> fst ` set (ct_by_id ct)"
    using *(5) by (simp add: sorted_difference_Nil)
  ultimately show thesis using * by (intro that) simp_all
qed

lemma selection_reason_cases:
  "fst (selection_reason p al de d) \<longleftrightarrow> pd_plugin_id d \<notin> set de \<and>
     (pd_plugin_id d \<in> set al \<or> pd_supported_profiles d = [] \<or> p \<in> set (pd_supported_profiles d))"
  "snd (selection_reason p al de d) = ''deny_override'' \<longleftrightarrow> pd_plugin_id d \<in> set de"
  by (auto simp: selection_reason_def)

lemma member_by_id:
  assumes "distinct (map pd_plugin_id ds)" and "d \<in> set ds"
  shows "pd_plugin_id d \<in> pd_plugin_id ` {d' \<in> set ds. P d'} \<longleftrightarrow> P d"
  using assms by (auto simp: distinct_map dest: inj_onD)

lemma ids_disjoint:
  assumes "distinct (map pd_plugin_id ds)" and "\<And>d. \<not> (P d \<and> Q d)"
  shows "set (map pd_plugin_id (filter P ds)) \<inter> set (map pd_plugin_id (filter Q ds)) = {}"
  using assms by (auto simp: distinct_map dest: inj_onD)

lemma nonblank_entries_strip:
  "nonblank_entries m vs = Inr xs \<Longrightarrow> rmap (\<lambda>v. case v of VStr s \<Rightarrow> Inr (strip s) | _ \<Rightarrow> Inl ()) vs = Inr xs"
  by (auto simp: nonblank_entries_def rmap_eq_Inr elim!: list_all2_mono split: pyval.splits if_splits)

text \<open>
  C32. For a catalog built from any descriptors, \<^verbatim>\<open>select_plugins_for_profile\<close> selects exactly the plugins
  that are not denied and are allowed or declare the normalised profile (or no profile). Each selected
  plugin is listed once, in sorted order, under its family. The diagnostics split the catalog: a plugin has
  an inclusion reason exactly if it is selected and otherwise an exclusion reason, which is the override
  exactly if the plugin was denied. No plugin is both allowed and denied, and every override is in the catalog.
\<close>

theorem selection_correct:
  assumes "build_catalog sha256 ds = Inr ct"
    and "select_plugins_for_profile sha256 ct profile known allow_ids deny_ids = Inr r"
  shows "\<exists>p allow deny. normalize_profile profile = Inr p \<and>
    rmap (\<lambda>v. case v of VStr s \<Rightarrow> Inr (strip s) | _ \<Rightarrow> Inl ()) allow_ids = Inr allow \<and>
    rmap (\<lambda>v. case v of VStr s \<Rightarrow> Inr (strip s) | _ \<Rightarrow> Inl ()) deny_ids = Inr deny \<and>
    set allow \<inter> set deny = {} \<and> set allow \<union> set deny \<subseteq> pd_plugin_id ` set ds \<and>
    sorted (sr_device r) \<and> sorted (sr_pc r) \<and> distinct (sr_device r @ sr_pc r) \<and>
    set (sr_device r @ sr_pc r) \<subseteq> pd_plugin_id ` set ds \<and>
    (\<forall>d \<in> set ds. let i = pd_plugin_id d;
        selected = (i \<notin> set deny \<and> (i \<in> set allow \<or> pd_supported_profiles d = [] \<or> p \<in> set (pd_supported_profiles d)))
      in (i \<in> set (sr_device r) \<longleftrightarrow> selected \<and> pd_family d = ''device'') \<and>
         (i \<in> set (sr_pc r) \<longleftrightarrow> selected \<and> pd_family d \<noteq> ''device'') \<and>
         (map_of (sr_included r) i \<noteq> None \<longleftrightarrow> selected) \<and> (map_of (sr_excluded r) i \<noteq> None \<longleftrightarrow> \<not> selected) \<and>
         (map_of (sr_excluded r) i = Some ''deny_override'' \<longleftrightarrow> i \<in> set deny))"
proof -
  from build_catalog_Inr [OF assms(1)] have ct: "catalog_ok ct" "distinct (map pd_plugin_id ds)" "ct_descriptors ct = catalog_order ds"
    by simp_all
  let ?ds = "ct_descriptors ct"
  have ids: "distinct (map pd_plugin_id ?ds)" and by_id: "fst ` set (ct_by_id ct) = pd_plugin_id ` set ds"
    using ct by (simp_all add: catalog_ok_def image_image)
  from assms(2) obtain p al de where r: "normalize_profile profile = Inr p"
    "nonblank_entries ''allow_plugin_ids entries must be non-empty strings'' allow_ids = Inr al"
    "nonblank_entries ''deny_plugin_ids entries must be non-empty strings'' deny_ids = Inr de"
    "set al \<inter> set de = {}" "set al \<union> set de \<subseteq> fst ` set (ct_by_id ct)"
    "sr_device r = sort (map pd_plugin_id (filter (\<lambda>d. fst (selection_reason p al de d) \<and> pd_family d = ''device'') ?ds))"
    "sr_pc r = sort (map pd_plugin_id (filter (\<lambda>d. fst (selection_reason p al de d) \<and> pd_family d \<noteq> ''device'') ?ds))"
    "sr_included r = sort_key fst (fold (\<lambda>d. AList.update (pd_plugin_id d) (snd (selection_reason p al de d)))
       (filter (\<lambda>d. fst (selection_reason p al de d)) ?ds) [])"
    "sr_excluded r = sort_key fst (fold (\<lambda>d. AList.update (pd_plugin_id d) (snd (selection_reason p al de d)))
       (filter (\<lambda>d. \<not> fst (selection_reason p al de d)) ?ds) [])"
    by (rule select_Inr)
  have each: "let i = pd_plugin_id d;
        selected = (i \<notin> set de \<and> (i \<in> set al \<or> pd_supported_profiles d = [] \<or> p \<in> set (pd_supported_profiles d)))
      in (i \<in> set (sr_device r) \<longleftrightarrow> selected \<and> pd_family d = ''device'') \<and>
         (i \<in> set (sr_pc r) \<longleftrightarrow> selected \<and> pd_family d \<noteq> ''device'') \<and>
         (map_of (sr_included r) i \<noteq> None \<longleftrightarrow> selected) \<and> (map_of (sr_excluded r) i \<noteq> None \<longleftrightarrow> \<not> selected) \<and>
         (map_of (sr_excluded r) i = Some ''deny_override'' \<longleftrightarrow> i \<in> set de)" if d: "d \<in> set ds" for d
  proof -
    have d': "d \<in> set ?ds" using d ct(3) by simp
    show ?thesis
      unfolding Let_def r(6-9) selection_reason_cases(1) [symmetric] reason_of [OF ids d']
      using member_by_id [OF ct(2) d] ct(3) by (simp add: selection_reason_cases)
  qed
  have "set (sr_device r) \<inter> set (sr_pc r) = {}" unfolding r(6, 7) set_sort by (rule ids_disjoint [OF ids]) simp
  with ids have "distinct (sr_device r @ sr_pc r)" by (simp add: r(6, 7) distinct_map_filter)
  moreover have "set (sr_device r @ sr_pc r) \<subseteq> pd_plugin_id ` set ds" by (auto simp: r(6, 7) ct(3))
  ultimately show ?thesis
    using r(1, 4, 5) nonblank_entries_strip [OF r(2)] nonblank_entries_strip [OF r(3)] each
    by (intro exI [where x = p] exI [where x = al] exI [where x = de] conjI ballI) (simp_all add: by_id r(6, 7))
qed

definition demo_descriptor :: "string \<Rightarrow> string \<Rightarrow> string list \<Rightarrow> (unit, string) plugin_descriptor" where
  "demo_descriptor i family profiles =
     \<lparr>pd_plugin_id = i, pd_family = family, pd_version = ''1'', pd_contract_version = ''2.1'',
      pd_supported_profiles = profiles,
      pd_capabilities = \<lparr>cap_can_process = (family = ''device''), cap_supports_preprocess = False,
        cap_supports_batch = False, cap_supports_sync = (family = ''pc'')\<rparr>,
      pd_module_name = ''m.'' @ i, pd_module_exports = demo_exports i family\<rparr>"

definition demo_descriptors :: "(unit, string) plugin_descriptor list" where
  "demo_descriptors = [demo_descriptor ''d2'' ''device'' [''prod''], demo_descriptor ''p1'' ''pc'' [],
     demo_descriptor ''d1'' ''device'' [''test'']]"

theorem selection_correct_witness:
  "\<exists>ct r. build_catalog (\<lambda>s. s) demo_descriptors = Inr ct \<and>
     select_plugins_for_profile (\<lambda>s. s) ct (VStr '' PROD'') None [] [VStr ''p1''] = Inr r \<and>
     sr_device r = [''d2''] \<and> sr_pc r = [] \<and> distinct (sr_device r @ sr_pc r)"
proof -
  have "case build_catalog (\<lambda>s. s) demo_descriptors of Inl _ \<Rightarrow> False
    | Inr ct \<Rightarrow> (case select_plugins_for_profile (\<lambda>s. s) ct (VStr '' PROD'') None [] [VStr ''p1''] of Inl _ \<Rightarrow> False
        | Inr r \<Rightarrow> sr_device r = [''d2''] \<and> sr_pc r = [])" by code_simp
  then obtain ct r where r: "build_catalog (\<lambda>s. s) demo_descriptors = Inr ct"
    "select_plugins_for_profile (\<lambda>s. s) ct (VStr '' PROD'') None [] [VStr ''p1''] = Inr r"
    "sr_device r = [''d2'']" "sr_pc r = []" by (auto split: sum.splits)
  from selection_correct [OF r(1, 2)] have "distinct (sr_device r @ sr_pc r)" by (elim exE conjE)
  with r show ?thesis by (intro exI conjI)
qed

section \<open>The host\<close>

text \<open>A descriptor whose exports satisfy the contract of its family.\<close>

definition usable :: "('w, 'p) plugin_descriptor \<Rightarrow> bool" where
  "usable d \<longleftrightarrow> (pd_family d = ''device'' \<longrightarrow> (\<exists>f. mx_create_processor (pd_module_exports d) = Callable f)) \<and>
     (pd_family d \<noteq> ''device'' \<longrightarrow> (\<exists>f. mx_prepare_sync_payload (pd_module_exports d) = Callable f))"

definition plugin_ids :: "('w, 'p) plugin_host \<Rightarrow> string set" where
  "plugin_ids h = pd_plugin_id ` set (ct_descriptors (ph_catalog h))"

definition host_ok :: "('w, 'p) plugin_host \<Rightarrow> bool" where
  "host_ok h \<longleftrightarrow> catalog_ok (ph_catalog h) \<and> list_all usable (ct_descriptors (ph_catalog h)) \<and>
     distinct (ph_active_plugin_ids h) \<and> set (ph_active_plugin_ids h) \<subseteq> plugin_ids h"

lemma validated_usable: "validate_descriptor_contract he ip d w = (Inr u, w') \<Longrightarrow> usable d"
  using validated_contract(2, 3)
  by (fastforce simp: validate_descriptor_contract_def usable_def
      split: prod.splits sum.splits contract_error.splits if_splits)

lemma merge_descriptors_Inr:
  assumes "merge_descriptors he ip ds (map (\<lambda>d. (pd_plugin_id d, d)) us) w = (Inr all, w')"
    and "distinct (map pd_plugin_id us)"
  shows "all = map (\<lambda>d. (pd_plugin_id d, d)) (us @ ds) \<and> distinct (map pd_plugin_id (us @ ds)) \<and> list_all usable ds"
  using assms
proof (induction ds arbitrary: us w)
  case (Cons d ds)
  from Cons.prems(1) have fresh: "pd_plugin_id d \<notin> pd_plugin_id ` set us"
    by (auto simp: map_of_by_id_None split: if_splits)
  then have upd: "AList.update (pd_plugin_id d) d (map (\<lambda>d. (pd_plugin_id d, d)) us) = map (\<lambda>d. (pd_plugin_id d, d)) (us @ [d])"
    by (subst update_fresh) (auto simp: image_image)
  from Cons.prems(1) fresh obtain w1 where "validate_descriptor_contract he ip d w = (Inr (), w1)"
    and rest: "merge_descriptors he ip ds (map (\<lambda>d. (pd_plugin_id d, d)) (us @ [d])) w1 = (Inr all, w')"
    by (auto simp: map_of_by_id_None upd split: if_splits prod.splits sum.splits)
  with Cons.IH [OF rest] Cons.prems(2) fresh show ?case by (auto intro: validated_usable)
qed simp

lemma merged_catalog:
  "distinct (map pd_plugin_id ds) \<Longrightarrow>
   fold (\<lambda>d. AList.update (pd_plugin_id d) d) ds [] = map (\<lambda>d. (pd_plugin_id d, d)) ds"
proof (induction ds rule: rev_induct)
  case (snoc d ds)
  then show ?case by (simp add: update_fresh image_image)
qed simp

lemma register_Inr:
  assumes "register_descriptors he ip ds h w = (Inr u, h', w')" and "catalog_ok (ph_catalog h)"
  shows "catalog_ok (ph_catalog h') \<and> list_all usable ds \<and> ph_active_plugin_ids h' = ph_active_plugin_ids h \<and>
    mset (ct_descriptors (ph_catalog h')) = mset (ct_descriptors (ph_catalog h)) + mset ds"
proof -
  let ?old = "ct_descriptors (ph_catalog h)"
  have d: "distinct (map pd_plugin_id ?old)" using assms(2) by (simp add: catalog_ok_def)
  from assms(1) obtain all ct where all: "merge_descriptors he ip ds (map (\<lambda>d. (pd_plugin_id d, d)) ?old) w = (Inr all, w')"
    and ct: "build_catalog (he_sha256 he) (map snd all) = Inr ct" and h': "h' = h\<lparr>ph_catalog := ct\<rparr>"
    by (auto simp: register_descriptors_def merged_catalog [OF d] split: prod.splits sum.splits)
  from merge_descriptors_Inr [OF all d] build_catalog_Inr [OF ct] h' show ?thesis by (auto simp: comp_def)
qed

lemma register_Inl: "register_descriptors he ip ds h w = (Inl e, h', w') \<Longrightarrow> h' = h"
  by (auto simp: register_descriptors_def Let_def split: prod.splits sum.splits)

lemma shutdown_hook_step:
  "get_plugin ct i = Inr d \<Longrightarrow>
   (\<exists>w1. run_shutdown_hooks ct (i # ids) current w = run_shutdown_hooks ct ids (removeAll i current) w1) \<or>
   (\<exists>e w1. run_shutdown_hooks ct (i # ids) current w = (Inl (e, Some current), w1))"
  by (auto split: export.split prod.split sum.split)

lemma activate_hook_step:
  "get_plugin ct i = Inr d \<Longrightarrow>
   (\<exists>w1. run_activate_hooks ct profile (i # ids) current w = run_activate_hooks ct profile ids (List.insert i current) w1) \<or>
   (\<exists>e w1. run_activate_hooks ct profile (i # ids) current w = (Inl (e, Some current), w1))"
  by (auto split: export.split prod.split sum.split)

lemma run_shutdown_hooks_ids:
  assumes "run_shutdown_hooks ct ids current w = (r, w')" and "distinct current"
  shows "case r of Inr current' \<Rightarrow> set current' = set current - set ids \<and> distinct current'
    | Inl (_, Some current') \<Rightarrow> set current - set ids \<subseteq> set current' \<and> set current' \<subseteq> set current \<and> distinct current'
    | Inl (_, None) \<Rightarrow> \<not> set ids \<subseteq> {i. \<exists>d. get_plugin ct i = Inr d}"
  using assms
proof (induction ids arbitrary: current w)
  case (Cons i ids)
  have fewer: "distinct (removeAll i current)" using Cons.prems(2) by (simp add: distinct_removeAll)
  show ?case
  proof (cases "get_plugin ct i")
    case (Inr d)
    show ?thesis
    proof (rule disjE [OF shutdown_hook_step [OF Inr, of ids current w]])
      assume "\<exists>w1. run_shutdown_hooks ct (i # ids) current w = run_shutdown_hooks ct ids (removeAll i current) w1"
      with Cons.prems(1) obtain w1 where "run_shutdown_hooks ct ids (removeAll i current) w1 = (r, w')" by auto
      from Cons.IH [OF this fewer] Inr show ?thesis by (auto split: sum.splits prod.splits option.splits)
    qed (use Cons.prems in auto)
  qed (use Cons.prems in auto)
qed auto

lemma run_activate_hooks_ids:
  assumes "run_activate_hooks ct profile ids current w = (r, w')" and "distinct current"
  shows "case r of Inr current' \<Rightarrow> set current' = set current \<union> set ids \<and> distinct current'
    | Inl (_, Some current') \<Rightarrow> set current \<subseteq> set current' \<and> set current' \<subseteq> set current \<union> set ids \<and> distinct current'
    | Inl (_, None) \<Rightarrow> \<not> set ids \<subseteq> {i. \<exists>d. get_plugin ct i = Inr d}"
  using assms
proof (induction ids arbitrary: current w)
  case (Cons i ids)
  have more: "distinct (List.insert i current)" using Cons.prems(2) by simp
  show ?case
  proof (cases "get_plugin ct i")
    case (Inr d)
    show ?thesis
    proof (rule disjE [OF activate_hook_step [OF Inr, of profile ids current w]])
      assume "\<exists>w1. run_activate_hooks ct profile (i # ids) current w = run_activate_hooks ct profile ids (List.insert i current) w1"
      with Cons.prems(1) obtain w1 where "run_activate_hooks ct profile ids (List.insert i current) w1 = (r, w')" by auto
      from Cons.IH [OF this more] Inr show ?thesis by (auto split: sum.splits prod.splits option.splits)
    qed (use Cons.prems in auto)
  qed (use Cons.prems in auto)
qed auto

text \<open>What an activation leaves active, whether or not a hook fails.\<close>

lemma activate_ids:
  assumes "activate_profile he profile known allow deny h w = (r, h', w')" and "host_ok h"
    and "select_plugins_for_profile (he_sha256 he) (ph_catalog h) profile known allow deny = Inr sel"
  defines "selected \<equiv> set (sr_device sel @ sr_pc sel)"
  shows "ph_catalog h' = ph_catalog h \<and> distinct (ph_active_plugin_ids h') \<and>
    set (ph_active_plugin_ids h) \<inter> selected \<subseteq> set (ph_active_plugin_ids h') \<and>
    set (ph_active_plugin_ids h') \<subseteq> set (ph_active_plugin_ids h) \<union> selected \<and>
    (\<forall>sel'. r = Inr sel' \<longrightarrow> sel' = sel \<and> set (ph_active_plugin_ids h') = selected)"
proof -
  let ?current = "ph_active_plugin_ids h"
  let ?removed = "rev (sorted_difference ?current (sr_device sel @ sr_pc sel))"
  let ?added = "sorted_difference (sr_device sel @ sr_pc sel) ?current"
  have d: "distinct ?current" using assms(2) by (simp add: host_ok_def)
  obtain x w1 where x: "run_shutdown_hooks (ph_catalog h) ?removed ?current w = (x, w1)" by fastforce
  note shut = run_shutdown_hooks_ids [OF x d]
  show ?thesis
  proof (cases x)
    case (Inl e)
    with assms(1, 3) x have "r = Inl (fst e)" "h' = keep_progress h (snd e)"
      by (auto simp: activate_profile_def Let_def split: prod.splits)
    with shut Inl d show ?thesis
      by (cases e; cases "snd e") (auto simp: keep_progress_def selected_def)
  next
    case (Inr current1)
    with shut have c1: "set current1 = set ?current \<inter> selected" "distinct current1" by (auto simp: selected_def)
    obtain y w2 where y: "run_activate_hooks (ph_catalog h) profile ?added current1 w1 = (y, w2)" by fastforce
    note act = run_activate_hooks_ids [OF y c1(2)]
    show ?thesis
    proof (cases y)
      case (Inl e)
      with assms(1, 3) x \<open>x = Inr current1\<close> y have "r = Inl (fst e)" "h' = keep_progress h (snd e)"
        by (auto simp: activate_profile_def Let_def split: prod.splits)
      with act Inl d c1 show ?thesis
        by (cases e; cases "snd e") (auto simp: keep_progress_def selected_def)
    next
      case (Inr current2)
      with assms(1, 3) x \<open>x = Inr current1\<close> y have "r = Inr sel" "h' = h\<lparr>ph_active_plugin_ids := current2\<rparr>"
        by (auto simp: activate_profile_def Let_def)
      with act Inr c1 show ?thesis by (auto simp: selected_def)
    qed
  qed
qed

section \<open>Sequences of host calls\<close>

datatype ('w, 'p) host_op =
    Register "('w, 'p) plugin_descriptor list"
  | Activate pyval "pyval list option" "pyval list" "pyval list"
  | Shutdown

fun host_call ::
    "host_env \<Rightarrow> ('p \<Rightarrow> bool) \<Rightarrow> ('w, 'p) host_op \<Rightarrow> ('w, 'p) plugin_host \<times> 'w \<Rightarrow> ('w, 'p) plugin_host \<times> 'w" where
  "host_call he ip (Register ds) (h, w) = snd (register_descriptors he ip ds h w)"
| "host_call he ip (Activate profile known allow deny) (h, w) = snd (activate_profile he profile known allow deny h w)"
| "host_call he ip Shutdown (h, w) = snd (plugin_shutdown h w)"

text \<open>Descriptors are only ever added.\<close>

definition catalog_grows :: "('w, 'p) plugin_host \<times> 'w \<Rightarrow> ('w, 'p) plugin_host \<times> 'w \<Rightarrow> bool" where
  "catalog_grows s t \<longleftrightarrow> set (ct_descriptors (ph_catalog (fst s))) \<subseteq> set (ct_descriptors (ph_catalog (fst t)))"

lemma register_keeps:
  assumes "register_descriptors he ip ds h w = (r, h', w')" and "host_ok h"
  shows "host_ok h' \<and> set (ct_descriptors (ph_catalog h)) \<subseteq> set (ct_descriptors (ph_catalog h'))"
proof (cases r)
  case (Inl e)
  with assms have "h' = h" by (auto dest: register_Inl)
  with assms(2) show ?thesis by simp
next
  case (Inr u)
  from register_Inr [of he ip ds h w u h' w'] assms Inr
  have "catalog_ok (ph_catalog h')" "list_all usable ds" "ph_active_plugin_ids h' = ph_active_plugin_ids h"
    "mset (ct_descriptors (ph_catalog h')) = mset (ct_descriptors (ph_catalog h)) + mset ds"
    by (simp_all add: host_ok_def)
  moreover from this(4) have "set (ct_descriptors (ph_catalog h')) = set (ct_descriptors (ph_catalog h)) \<union> set ds"
    by (metis set_mset_mset set_mset_union)
  ultimately show ?thesis using assms(2) by (auto simp: host_ok_def plugin_ids_def list_all_iff)
qed

lemma select_known_ids:
  "select_plugins_for_profile sha ct profile known allow deny = Inr r \<Longrightarrow>
   set (sr_device r @ sr_pc r) \<subseteq> pd_plugin_id ` set (ct_descriptors ct)"
  by (erule select_Inr) auto

lemma activate_keeps:
  assumes "activate_profile he profile known allow deny h w = (r, h', w')" and "host_ok h"
  shows "host_ok h' \<and> ph_catalog h' = ph_catalog h"
proof (cases "select_plugins_for_profile (he_sha256 he) (ph_catalog h) profile known allow deny")
  case (Inl e)
  with assms show ?thesis by (auto simp: activate_profile_def)
next
  case (Inr sel)
  from activate_ids [OF assms Inr] select_known_ids [OF Inr] assms(2) show ?thesis
    by (auto simp: host_ok_def plugin_ids_def)
qed

lemma plugin_shutdown_keeps:
  "plugin_shutdown h w = (r, h', w') \<Longrightarrow> host_ok h \<Longrightarrow> host_ok h' \<and> ph_catalog h' = ph_catalog h"
  by (auto simp: plugin_shutdown_def host_ok_def plugin_ids_def split: prod.splits sum.splits)

lemma host_call_keeps:
  assumes "host_ok (fst s)"
  shows "host_ok (fst (host_call he ip x s))" and "catalog_grows s (host_call he ip x s)"
proof -
  obtain h w where s: "s = (h, w)" by (cases s)
  have "host_ok (fst (host_call he ip x s)) \<and> catalog_grows s (host_call he ip x s)"
  proof (cases x)
    case (Register ds)
    obtain r h' w' where "register_descriptors he ip ds h w = (r, h', w')" by (cases "register_descriptors he ip ds h w")
    with register_keeps [OF this] assms s Register show ?thesis by (simp add: catalog_grows_def)
  next
    case (Activate profile known allow deny)
    obtain r h' w' where "activate_profile he profile known allow deny h w = (r, h', w')"
      by (cases "activate_profile he profile known allow deny h w")
    with activate_keeps [OF this] assms s Activate show ?thesis by (simp add: catalog_grows_def)
  next
    case Shutdown
    obtain r h' w' where "plugin_shutdown h w = (r, h', w')" by (cases "plugin_shutdown h w")
    with plugin_shutdown_keeps [OF this] assms s Shutdown show ?thesis by (simp add: catalog_grows_def)
  qed
  then show "host_ok (fst (host_call he ip x s))" and "catalog_grows s (host_call he ip x s)" by simp_all
qed

interpretation hosting: guarded_calls "host_call he ip" "\<lambda>_. True" "\<lambda>s. host_ok (fst s)" catalog_grows
  by unfold_locales (simp_all add: host_call_keeps, auto simp: catalog_grows_def)

lemma make_plugin_host_ok:
  fixes ds :: "('w, 'p) plugin_descriptor list"
  assumes "make_plugin_host he ip ds w = (Inr h, w')"
  shows "host_ok h \<and> mset (ct_descriptors (ph_catalog h)) = mset ds"
proof -
  obtain ct :: "('w, 'p) catalog" where ct: "build_catalog (he_sha256 he) [] = Inr ct" using build_catalog_total by force
  let ?h = "\<lparr>ph_catalog = ct, ph_active_plugin_ids = []\<rparr>"
  have empty: "host_ok ?h" "ct_descriptors ct = []" using build_catalog_Inr [OF ct] by (simp_all add: host_ok_def)
  show ?thesis
  proof (cases "ds = []")
    case True
    with assms ct empty show ?thesis by (auto simp: make_plugin_host_def)
  next
    case False
    with assms ct have r: "register_descriptors he ip ds ?h w = (Inr (), h, w')"
      by (auto simp: make_plugin_host_def Let_def split: prod.splits sum.splits)
    with register_keeps [OF r] register_Inr [OF r] empty show ?thesis by (simp add: host_ok_def)
  qed
qed

lemma reachable_host_ok:
  assumes "make_plugin_host he ip ds w = (Inr h0, w0)" and "fold (host_call he ip) calls (h0, w0) = (h, w')"
  shows "host_ok h" and "set ds \<subseteq> set (ct_descriptors (ph_catalog h))"
proof -
  from make_plugin_host_ok [OF assms(1)] have h0: "host_ok h0" "set (ct_descriptors (ph_catalog h0)) = set ds"
    by (auto dest: mset_eq_setD)
  from hosting.runs_inv [of calls "(h0, w0)" he ip] h0 assms(2) show "host_ok h" by (simp add: list_all_iff)
  from hosting.runs_rel [of calls "(h0, w0)" he ip] h0 assms(2)
  show "set ds \<subseteq> set (ct_descriptors (ph_catalog h))" by (simp add: list_all_iff catalog_grows_def)
qed


definition demo_host_env :: host_env where
  "demo_host_env = \<lparr>he_conv = demo_conv_env, he_sha256 = (\<lambda>s. s)\<rparr>"

definition demo_calls :: "(unit, string) host_op list" where
  "demo_calls = [Activate (VStr ''prod'') None [] [], Register [demo_descriptor ''d3'' ''device'' []],
     Activate (VStr ''test'') None [VStr ''d3''] [], Activate (VStr ''other'') None [] []]"


end
