(* ===== verification/Plugin_Calls.thy ===== *)
theory Plugin_Calls
  imports Plugin_Host_Correct
begin

text \<open>
  What the calls on a reachable plugin host return: the plugins active after an activation, the processor
  of a device plugin, the device scope and the sync payload of a PC plugin.
\<close>

section \<open>Activation\<close>

text \<open>A sorted list without repetition is determined by its elements.\<close>

lemma sorted_ids_unique:
  "sorted xs \<Longrightarrow> distinct xs \<Longrightarrow> sorted ys \<Longrightarrow> distinct ys \<Longrightarrow> set xs = set ys \<Longrightarrow> xs = (ys :: string list)"
  by (rule sorted_distinct_set_unique)

lemma family_ids:
  assumes "catalog_ok ct" and "f = ''device'' \<or> f = ''pc''"
  shows "dict_get_or (ct_by_family ct) f [] = filter (\<lambda>d. pd_family d = f) (ct_descriptors ct)"
  using assms by (auto simp: catalog_ok_def dict_get_or_def)

lemma sorted_distinct_filter_ids:
  assumes "catalog_ok ct"
  shows "sorted (map pd_plugin_id (filter P (filter Q (ct_descriptors ct)))) \<and>
    distinct (map pd_plugin_id (filter P (filter Q (ct_descriptors ct))))"
  using assms by (simp add: catalog_ok_def sorted_filter distinct_map_filter)

lemma set_plugins_for_family:
  assumes "host_ok h" and "f = ''device'' \<or> f = ''pc''"
  shows "set (plugins_for_family f active_only h) = {i. (active_only \<longrightarrow> i \<in> set (ph_active_plugin_ids h)) \<and>
      (\<exists>d \<in> set (ct_descriptors (ph_catalog h)). pd_plugin_id d = i \<and> pd_family d = f)}"
    and "sorted (plugins_for_family f active_only h)" and "distinct (plugins_for_family f active_only h)"
proof -
  have ok: "catalog_ok (ph_catalog h)" using assms(1) by (simp add: host_ok_def)
  show "set (plugins_for_family f active_only h) = {i. (active_only \<longrightarrow> i \<in> set (ph_active_plugin_ids h)) \<and>
      (\<exists>d \<in> set (ct_descriptors (ph_catalog h)). pd_plugin_id d = i \<and> pd_family d = f)}"
    unfolding plugins_for_family_def family_ids [OF ok assms(2)] by auto
  show "sorted (plugins_for_family f active_only h)" "distinct (plugins_for_family f active_only h)"
    unfolding plugins_for_family_def family_ids [OF ok assms(2)] using sorted_distinct_filter_ids [OF ok] by blast+
qed

lemma image_split:
  "inj_on f D \<Longrightarrow> f ` {d \<in> D. S d \<and> F d} = {i \<in> f ` {d \<in> D. S d \<and> F d} \<union> f ` {d \<in> D. S d \<and> \<not> F d}. \<exists>d \<in> D. f d = i \<and> F d}"
  by (auto dest: inj_onD)

lemma selected_families:
  assumes "select_plugins_for_profile sha ct profile known allow deny = Inr r" and "catalog_ok ct"
  shows "set (sr_device r) = {i \<in> set (sr_device r @ sr_pc r). \<exists>d \<in> set (ct_descriptors ct). pd_plugin_id d = i \<and> pd_family d = ''device''}"
    and "sorted (sr_device r)" and "distinct (sr_device r)"
  using assms
proof -
  obtain p al de where
    r: "sr_device r = sort (map pd_plugin_id (filter (\<lambda>d. fst (selection_reason p al de d) \<and> pd_family d = ''device'') (ct_descriptors ct)))"
      "sr_pc r = sort (map pd_plugin_id (filter (\<lambda>d. fst (selection_reason p al de d) \<and> pd_family d \<noteq> ''device'') (ct_descriptors ct)))"
    by (rule select_Inr [OF assms(1)])
  have inj: "inj_on pd_plugin_id (set (ct_descriptors ct))" and dist: "distinct (map pd_plugin_id (ct_descriptors ct))"
    using assms(2) by (simp_all add: catalog_ok_def distinct_map)
  show "set (sr_device r) = {i \<in> set (sr_device r @ sr_pc r). \<exists>d \<in> set (ct_descriptors ct). pd_plugin_id d = i \<and> pd_family d = ''device''}"
    unfolding r set_append set_sort set_map set_filter by (rule image_split [OF inj])
  show "sorted (sr_device r)" "distinct (sr_device r)" using dist by (simp_all add: r distinct_map_filter)
qed

text \<open>
  C33. On any reachable host, a successful \<^verbatim>\<open>activate_profile\<close> leaves exactly the selected plugins active,
  and the active device plugins, in the host's order, are those of the selection. When a hook fails, the
  plugins that stay selected are still active and nothing is active that was not active or selected. In
  both cases the catalog is unchanged.
\<close>

theorem activation_reaches_selection:
  assumes "make_plugin_host he is_processor ds w = (Inr h0, w0)"
    and "fold (host_call he is_processor) calls (h0, w0) = (h, w1)"
    and "select_plugins_for_profile (he_sha256 he) (ph_catalog h) profile known allow_ids deny_ids = Inr sel"
    and "activate_profile he profile known allow_ids deny_ids h w1 = (r, h', w')"
  shows "ph_catalog h' = ph_catalog h \<and>
    (case r of
       Inr sel' \<Rightarrow> sel' = sel \<and> set (ph_active_plugin_ids h') = set (sr_device sel @ sr_pc sel) \<and>
         plugins_for_family ''device'' True h' = sr_device sel
     | Inl _ \<Rightarrow> set (ph_active_plugin_ids h) \<inter> set (sr_device sel @ sr_pc sel) \<subseteq> set (ph_active_plugin_ids h') \<and>
         set (ph_active_plugin_ids h') \<subseteq> set (ph_active_plugin_ids h) \<union> set (sr_device sel @ sr_pc sel))"
proof -
  from reachable_host_ok [OF assms(1, 2)] have ok: "host_ok h" by simp
  note ids = activate_ids [OF assms(4) ok assms(3)] and keep = activate_keeps [OF assms(4) ok]
  have "plugins_for_family ''device'' True h' = sr_device sel" if "r = Inr sel'" for sel'
  proof (rule sorted_ids_unique)
    have ct: "catalog_ok (ph_catalog h)" using ok by (simp add: host_ok_def)
    note sel = selected_families [OF assms(3) ct]
    from keep have ok': "host_ok h'" by simp
    note fam = set_plugins_for_family [OF ok', of "''device''" True, simplified]
    show "sorted (plugins_for_family ''device'' True h')" "distinct (plugins_for_family ''device'' True h')" using fam by simp_all
    show "sorted (sr_device sel)" "distinct (sr_device sel)" using sel by simp_all
    show "set (plugins_for_family ''device'' True h') = set (sr_device sel)"
      unfolding fam(1) using sel(1) ids that by auto
  qed
  with ids show ?thesis by (cases r) simp_all
qed

text \<open>The demonstration host, before and after an activation for the profile \<open>prod\<close>.\<close>

definition demo_run :: "(unit, string) host_op list \<Rightarrow> (unit, string) plugin_host \<times> unit" where
  "demo_run calls = fold (host_call demo_host_env (\<lambda>_. True)) calls
     (case make_plugin_host demo_host_env (\<lambda>_. True) demo_descriptors () of (Inr h0, w0) \<Rightarrow> (h0, w0))"

lemma demo_host_exists:
  "\<exists>h0. make_plugin_host demo_host_env (\<lambda>_. True) demo_descriptors () = (Inr h0, ()) \<and>
     demo_run calls = fold (host_call demo_host_env (\<lambda>_. True)) calls (h0, ())"
proof -
  have "case make_plugin_host demo_host_env (\<lambda>_. True) demo_descriptors () of (Inl _, _) \<Rightarrow> False | (Inr h0, w0) \<Rightarrow> True"
    by code_simp
  then obtain h0 w0 where "make_plugin_host demo_host_env (\<lambda>_. True) demo_descriptors () = (Inr h0, w0)"
    by (rule run_outcomeE)
  then show ?thesis by (simp add: demo_run_def)
qed

theorem activation_reaches_selection_witness:
  "\<exists>sel h. activate_profile demo_host_env (VStr ''test'') None [VStr ''d2''] [] (fst (demo_run [Activate (VStr ''prod'') None [] []])) () =
       (Inr sel, h, ()) \<and>
     plugins_for_family ''device'' True h = sr_device sel \<and> sr_device sel = [''d1'', ''d2'']"
proof -
  let ?h = "fst (demo_run [Activate (VStr ''prod'') None [] []])"
  have "case (activate_profile demo_host_env (VStr ''test'') None [VStr ''d2''] [] ?h (),
        select_plugins_for_profile (he_sha256 demo_host_env) (ph_catalog ?h) (VStr ''test'') None [VStr ''d2''] []) of
      ((Inr sel, _), Inr sel') \<Rightarrow> sr_device sel = [''d1'', ''d2'']
    | _ \<Rightarrow> False" by code_simp
  then obtain sel h sel' where a: "activate_profile demo_host_env (VStr ''test'') None [VStr ''d2''] [] ?h () = (Inr sel, h, ())"
    "select_plugins_for_profile (he_sha256 demo_host_env) (ph_catalog ?h) (VStr ''test'') None [VStr ''d2''] [] = Inr sel'"
    "sr_device sel = [''d1'', ''d2'']"
    by (auto split: prod.splits sum.splits)
  obtain h0 where h0: "make_plugin_host demo_host_env (\<lambda>_. True) demo_descriptors () = (Inr h0, ())"
    "demo_run [Activate (VStr ''prod'') None [] []] = fold (host_call demo_host_env (\<lambda>_. True)) [Activate (VStr ''prod'') None [] []] (h0, ())"
    using demo_host_exists by blast
  have "fold (host_call demo_host_env (\<lambda>_. True)) [Activate (VStr ''prod'') None [] []] (h0, ()) = (?h, ())"
    unfolding h0(2) [symmetric] by (simp add: prod_eq_iff)
  from activation_reaches_selection [OF h0(1) this a(2, 1)] a show ?thesis
    by (intro exI [where x = sel] exI [where x = h]) simp
qed

section \<open>Device processors\<close>

text \<open>
  On any reachable host, \<^verbatim>\<open>create_device_processor\<close> either raises without running any plugin code, or
  the id names an active device plugin of the catalog; then the factory export of that plugin is run once
  with the given settings, its exceptions become activation errors, and what is returned satisfies the
  processor contract. The error of a missing factory export cannot occur.
\<close>

theorem processor_only_from_active_device:
  assumes "make_plugin_host he is_processor ds w = (Inr h0, w0)"
    and "fold (host_call he is_processor) calls (h0, w0) = (h, w1)"
  shows "let active = (\<exists>d. get_plugin (ph_catalog h) i = Inr d \<and> pd_family d = ''device'' \<and> i \<in> set (ph_active_plugin_ids h)) in
    (\<not> active \<longrightarrow> (\<exists>e. create_device_processor is_processor h i settings w1 = (Inl e, w1))) \<and>
    (active \<longrightarrow> (\<exists>d factory r w2. get_plugin (ph_catalog h) i = Inr d \<and>
       mx_create_processor (pd_module_exports d) = Callable factory \<and> factory settings w1 = (r, w2) \<and>
       (case r of
          Inr p \<Rightarrow> if is_processor p then create_device_processor is_processor h i settings w1 = (Inr p, w2)
            else create_device_processor is_processor h i settings w1 = (Inl (PluginHostActivationError
                (''device plugin '' @ quoted_id i @ '' returned invalid processor contract'')), w2)
        | Inl _ \<Rightarrow> create_device_processor is_processor h i settings w1 = (Inl (PluginHostActivationError
                (''device plugin '' @ quoted_id i @ '' failed to build processor'')), w2))))"
proof -
  from reachable_host_ok [OF assms] have ok: "host_ok h" by simp
  then have ct: "catalog_ok (ph_catalog h)" by (simp add: host_ok_def)
  show ?thesis
  proof (cases "\<exists>d. get_plugin (ph_catalog h) i = Inr d \<and> pd_family d = ''device'' \<and> i \<in> set (ph_active_plugin_ids h)")
    case True
    then obtain d where d: "get_plugin (ph_catalog h) i = Inr d" "pd_family d = ''device''" "i \<in> set (ph_active_plugin_ids h)" by blast
    with ok get_plugin_Inr [OF ct] obtain factory where f: "mx_create_processor (pd_module_exports d) = Callable factory"
      by (auto simp: host_ok_def list_all_iff usable_def)
    obtain r w2 where r: "factory settings w1 = (r, w2)" by (cases "factory settings w1")
    from d have "require_plugin ''device'' ''device'' True h i = Inr d" by (simp add: require_plugin_def)
    with d f r show ?thesis
      by (cases r) (auto simp: create_device_processor_def io_bind_def io_mapped_def)
  next
    case False
    then have "\<exists>e. require_plugin ''device'' ''device'' True h i = Inl e"
      by (cases "get_plugin (ph_catalog h) i") (auto simp: require_plugin_def raise_if_def)
    with False show ?thesis by (auto simp: create_device_processor_def Let_def)
  qed
qed

theorem processor_only_from_active_device_witness:
  "create_device_processor (\<lambda>_. True) (fst (demo_run [])) ''d1'' [] () =
     (Inl (PluginHostActivationError (''plugin '' @ quoted_id ''d1'' @ '' is not active for the current profile'')), ()) \<and>
   (\<exists>e. create_device_processor (\<lambda>_. True) (fst (demo_run [])) ''d1'' [] () = (Inl e, ()))"
proof -
  have c: "create_device_processor (\<lambda>_. True) (fst (demo_run [])) ''d1'' [] () =
     (Inl (PluginHostActivationError (''plugin '' @ quoted_id ''d1'' @ '' is not active for the current profile'')), ())"
    by code_simp
  have inactive: "''d1'' \<notin> set (ph_active_plugin_ids (fst (demo_run [])))" by code_simp
  obtain h0 where h0: "make_plugin_host demo_host_env (\<lambda>_. True) demo_descriptors () = (Inr h0, ())"
    "demo_run [] = fold (host_call demo_host_env (\<lambda>_. True)) [] (h0, ())"
    using demo_host_exists by blast
  have "fold (host_call demo_host_env (\<lambda>_. True)) [] (h0, ()) = (fst (demo_run []), ())"
    unfolding h0(2) by (simp add: prod_eq_iff)
  from processor_only_from_active_device [OF h0(1) this, of "''d1''" "[]"] inactive
  have "\<exists>e. create_device_processor (\<lambda>_. True) (fst (demo_run [])) ''d1'' [] () = (Inl e, ())"
    by (simp add: Let_def)
  with c show ?thesis ..
qed

section \<open>The scope of a PC plugin\<close>

lemma require_plugin_Inr:
  "require_plugin f a active_only h i = Inr d \<longleftrightarrow>
   get_plugin (ph_catalog h) i = Inr d \<and> pd_family d = f \<and> (active_only \<longrightarrow> i \<in> set (ph_active_plugin_ids h))"
  by (auto simp: require_plugin_def result_simps)

lemma stripped_names: "set (extract_active_device_plugins cv extra v) \<subseteq> {s. s \<noteq> [] \<and> strip s = s}"
  by (auto simp: extract_active_device_plugins_def Let_def split: pyval.splits)

lemma map_strip_filter: "(\<And>x. x \<in> set xs \<Longrightarrow> strip x = x) \<Longrightarrow> map strip (sort (filter P xs)) = sort (filter P xs)"
  by (rule map_idI) auto

lemma device_scope_facts:
  assumes "make_plugin_host he is_processor ds w = (Inr h0, w0)"
    and "fold (host_call he is_processor) calls (h0, w0) = (h, w1)"
    and "resolve_device_scope_for_pc he extra h i settings active_only w1 = (Inr s, w2)"
  shows "\<exists>d. get_plugin (ph_catalog h) i = Inr d \<and> pd_family d = ''pc'' \<and>
    (active_only \<longrightarrow> i \<in> set (ph_active_plugin_ids h)) \<and> ps_pc_plugin_id s = strip i \<and>
    sorted (ps_device_plugin_ids s) \<and>
    set (ps_device_plugin_ids s) =
      {n \<in> set (extract_active_device_plugins (he_conv he) extra (ps_normalized_settings s)).
         (active_only \<longrightarrow> n \<in> set (ph_active_plugin_ids h)) \<and>
         (\<exists>dv. get_plugin (ph_catalog h) n = Inr dv \<and> pd_family dv = ''device'')}"
proof -
  from reachable_host_ok [OF assms(1, 2)] have ok: "host_ok h" by simp
  then have ct: "catalog_ok (ph_catalog h)" by (simp add: host_ok_def)
  from assms(3) obtain d v where d: "get_plugin (ph_catalog h) i = Inr d" "pd_family d = ''pc''"
      "active_only \<longrightarrow> i \<in> set (ph_active_plugin_ids h)"
    and s: "s = \<lparr>ps_pc_plugin_id = strip i,
       ps_device_plugin_ids = map strip (sort (filter (\<lambda>n. n \<in> set (plugins_for_family ''device'' active_only h))
         (extract_active_device_plugins (he_conv he) extra v))), ps_normalized_settings = v\<rparr>"
    unfolding resolve_device_scope_for_pc_def by (auto simp: io_bind_eq require_plugin_Inr)
  have names: "ps_device_plugin_ids s = sort (filter (\<lambda>n. n \<in> set (plugins_for_family ''device'' active_only h))
         (extract_active_device_plugins (he_conv he) extra v))"
    unfolding s by (simp add: map_strip_filter [OF stripped_names [THEN subsetD, THEN CollectD, THEN conjunct2]])
  have "set (plugins_for_family ''device'' active_only h) = {n. (active_only \<longrightarrow> n \<in> set (ph_active_plugin_ids h)) \<and>
         (\<exists>dv. get_plugin (ph_catalog h) n = Inr dv \<and> pd_family dv = ''device'')}"
    by (subst set_plugins_for_family(1) [OF ok]) (auto simp: get_plugin_Inr [OF ct])
  then have "set (ps_device_plugin_ids s) =
      {n \<in> set (extract_active_device_plugins (he_conv he) extra (ps_normalized_settings s)).
         (active_only \<longrightarrow> n \<in> set (ph_active_plugin_ids h)) \<and>
         (\<exists>dv. get_plugin (ph_catalog h) n = Inr dv \<and> pd_family dv = ''device'')}"
    unfolding names by (auto simp: s)
  moreover have "sorted (ps_device_plugin_ids s)" unfolding names by simp
  moreover have "ps_pc_plugin_id s = strip i" by (simp add: s)
  ultimately show ?thesis using d by blast
qed

text \<open>
  C34. On any reachable host, a device scope is only returned for a PC plugin that is in the catalog (and
  active, when only active plugins are asked for). Its device plugins are, in sorted order, exactly the
  configured names that are device plugins of the catalog, all of them active when only active plugins are
  asked for.
\<close>

theorem device_scope_sound:
  assumes "make_plugin_host he is_processor ds w = (Inr h0, w0)"
    and "fold (host_call he is_processor) calls (h0, w0) = (h, w1)"
    and "resolve_device_scope_for_pc he extra h i settings active_only w1 = (Inr s, w2)"
  shows "\<exists>d. get_plugin (ph_catalog h) i = Inr d \<and> pd_family d = ''pc'' \<and>
    (active_only \<longrightarrow> i \<in> set (ph_active_plugin_ids h)) \<and> ps_pc_plugin_id s = strip i \<and>
    sorted (ps_device_plugin_ids s) \<and>
    set (ps_device_plugin_ids s) =
      {n \<in> set (extract_active_device_plugins (he_conv he) extra (ps_normalized_settings s)).
         (active_only \<longrightarrow> n \<in> set (ph_active_plugin_ids h)) \<and>
         (\<exists>dv. get_plugin (ph_catalog h) n = Inr dv \<and> pd_family dv = ''device'')}"
  by (rule device_scope_facts [OF assms])

theorem device_scope_sound_witness:
  "\<exists>s. resolve_device_scope_for_pc demo_host_env (\<lambda>v. v) (fst (demo_run [Activate (VStr ''prod'') None [] []])) ''p1'' [] True () =
      (Inr s, ()) \<and> ps_device_plugin_ids s = [''d2''] \<and> sorted (ps_device_plugin_ids s)"
proof -
  let ?h = "fst (demo_run [Activate (VStr ''prod'') None [] []])"
  have "case resolve_device_scope_for_pc demo_host_env (\<lambda>v. v) ?h ''p1'' [] True () of (Inl _, _) \<Rightarrow> False
    | (Inr s, _) \<Rightarrow> ps_device_plugin_ids s = [''d2'']" by code_simp
  then obtain s where s: "resolve_device_scope_for_pc demo_host_env (\<lambda>v. v) ?h ''p1'' [] True () = (Inr s, ())"
    "ps_device_plugin_ids s = [''d2'']" by (elim run_outcomeE) simp
  obtain h0 where h0: "make_plugin_host demo_host_env (\<lambda>_. True) demo_descriptors () = (Inr h0, ())"
    "demo_run [Activate (VStr ''prod'') None [] []] = fold (host_call demo_host_env (\<lambda>_. True)) [Activate (VStr ''prod'') None [] []] (h0, ())"
    using demo_host_exists by blast
  have "fold (host_call demo_host_env (\<lambda>_. True)) [Activate (VStr ''prod'') None [] []] (h0, ()) = (?h, ())"
    unfolding h0(2) [symmetric] by (simp add: prod_eq_iff)
  from device_scope_sound [OF h0(1) this s(1)] have "sorted (ps_device_plugin_ids s)" by (elim exE conjE)
  with s show ?thesis by (intro exI [where x = s] conjI)
qed

section \<open>Catalogs\<close>

text \<open>
  The catalog does not depend on the order in which its descriptors are given: two lists with the same
  descriptors, their ids distinct, build the same catalog, version token included, and it answers a lookup
  by id with the descriptor of that id and with a not-found error for any other id.
\<close>

theorem catalog_order_independent:
  assumes "mset ds = mset ds'" and "distinct (map pd_plugin_id ds)"
  shows "\<exists>ct. build_catalog sha256 ds = Inr ct \<and> build_catalog sha256 ds' = Inr ct \<and>
    (\<forall>d \<in> set ds. get_plugin ct (pd_plugin_id d) = Inr d) \<and>
    (\<forall>i. i \<notin> pd_plugin_id ` set ds \<longrightarrow> get_plugin ct i = Inl (PluginCatalogNotFoundError (''unknown plugin_id: '' @ i)))"
proof -
  obtain ct where ct: "build_catalog sha256 ds = Inr ct" using build_catalog_total [OF assms(2)] by blast
  from build_catalog_Inr [OF ct] have ok: "catalog_ok ct" "set (ct_descriptors ct) = set ds" by simp_all
  have "get_plugin ct (pd_plugin_id d) = Inr d" if "d \<in> set ds" for d
    using that ok get_plugin_Inr by blast
  moreover have "get_plugin ct i = Inl (PluginCatalogNotFoundError (''unknown plugin_id: '' @ i))"
    if "i \<notin> pd_plugin_id ` set ds" for i
    using that ok by (simp add: get_plugin_def catalog_ok_def map_of_by_id_None [THEN iffD2])
  ultimately show ?thesis using ct build_catalog_order_independent [OF assms, of sha256] by auto
qed

theorem catalog_order_independent_witness:
  "build_catalog (\<lambda>s. s) demo_descriptors = build_catalog (\<lambda>s. s) (rev demo_descriptors) \<and>
   (\<exists>ct. build_catalog (\<lambda>s. s) demo_descriptors = Inr ct)"
proof -
  have "mset demo_descriptors = mset (rev demo_descriptors)" by simp
  moreover have "distinct (map pd_plugin_id demo_descriptors)" by code_simp
  ultimately show ?thesis using catalog_order_independent [of demo_descriptors "rev demo_descriptors" "\<lambda>s. s"] by fastforce
qed

end
