(* ===== verification/Runtime_Records.thy ===== *)
theory Runtime_Records
  imports Record_Store Persist_Stage Context
begin

text \<open>
  The callables the runtime gives to the persist and post_persist stages (the closures of
  \<^verbatim>\<open>_build_runtime_ingestion_engine\<close> in \<^verbatim>\<open>runtime/composition.py\<close>) and the sync envelopes of
  \<^verbatim>\<open>application/contracts/ports.py\<close>. Their shared state is the runtime world: the record store, the
  revisions the runtime remembers, the times its gate has seen, its processor cache, and the rest of the
  world, which the ports act on. A processor is a token \<open>'p\<close>, its methods given by the ports. The store is
  the SQLite store, called with the environment the rest of the world determines.
\<close>

section \<open>The world and the ports\<close>

text \<open>The store calls of the runtime: each runs in an environment of its own.\<close>

datatype store_action = SaveAction | UpdateAction | MarkAction | GetAction

record ('x, 'p) runtime_world =
  rw_store :: store
  rw_revisions :: "int dict"
  rw_last_seen :: "rat dict"
  rw_cache :: "'p dict"
  rw_rest :: 'x

record sync_response =
  sy_status :: string
  sy_remote_id :: "string option"
  sy_reason_code :: "string option"
  sy_metadata :: mapping

record runtime_plugin_policy =
  rpp_selected_pc_plugin :: "string option"
  rpp_scoped_device_plugins :: "string list"
  rpp_pc_scope_applied :: bool

record ('x, 'p) runtime_ports =
  rp_conv :: conv_env
  rp_digest :: "pyval \<Rightarrow> string"
  rp_sha256 :: "string \<Rightarrow> string"
  rp_move :: "string \<Rightarrow> string \<Rightarrow> ('x, py_exception, pyval) io"
  rp_store_env :: "'x \<Rightarrow> store_action \<Rightarrow> store_env"
  rp_sync_record :: "string option \<Rightarrow> mapping \<Rightarrow> ('x, py_exception, sync_response) io"
  rp_prepare_sync_payload :: "(string \<Rightarrow> mapping \<Rightarrow> runtime_context \<Rightarrow> ('x, py_exception, mapping) io) option"
  rp_emit :: "mapping \<Rightarrow> ('x, py_exception, unit) io"
  rp_clock_now :: "('x, py_exception, pyval) io"
  rp_normalize_path :: "(string \<Rightarrow> ('x, py_exception, pyval) io) option"
  rp_stat :: "'x \<Rightarrow> string \<Rightarrow> (int \<times> rat) option"
  rp_get_device_plugins :: "('x, py_exception, pyval list) io option"
  rp_create_device_processor :: "(string \<Rightarrow> mapping \<Rightarrow> ('x, py_exception, 'p) io) option"
  rp_methods :: "'p \<Rightarrow> ('x, processing_context) processor"
  rp_source_extensions :: "'p \<Rightarrow> pyval"
  rp_policy :: runtime_plugin_policy
  rp_dest :: pyval
  rp_settle_delay :: rat

text \<open>A port call changes only the rest of the world.\<close>

definition on_rest :: "('x, 'e, 'a) io \<Rightarrow> (('x, 'p) runtime_world, 'e, 'a) io" where
  "on_rest m w = (case m (rw_rest w) of (r, x) \<Rightarrow> (r, w\<lparr>rw_rest := x\<rparr>))"

fun store_exception :: "record_store_error \<Rightarrow> py_exception" where
  "store_exception (RecordStoreSchemaError m) = plain_exception ''RecordStoreSchemaError'' m"
| "store_exception (RecordStoreConflictError m) = plain_exception ''RecordStoreConflictError'' m"
| "store_exception (RecordStoreIntegrityError m) = plain_exception ''RecordStoreIntegrityError'' m"
| "store_exception (RecordStoreTimeoutError m) = plain_exception ''RecordStoreTimeoutError'' m"
| "store_exception (SqliteError (OperationalError m)) = plain_exception ''OperationalError'' m"
| "store_exception (SqliteError (DatabaseError m)) = plain_exception ''DatabaseError'' m"
| "store_exception (StorePyError e) = plain_exception (py_error_name e) (py_error_text e)"

definition store_call ::
    "('x, 'p) runtime_ports \<Rightarrow> store_action \<Rightarrow> (store_env \<Rightarrow> store \<Rightarrow> (record_store_error + mapping) \<times> store) \<Rightarrow>
     (('x, 'p) runtime_world, py_exception, mapping) io" where
  "store_call rp action f w =
     (case f (rp_store_env rp (rw_rest w) action) (rw_store w) of
        (Inl e, st) \<Rightarrow> (Inl (store_exception e), w\<lparr>rw_store := st\<rparr>)
      | (Inr m, st) \<Rightarrow> (Inr m, w\<lparr>rw_store := st\<rparr>))"

definition call_success :: "pyval \<Rightarrow> string \<Rightarrow> call_result" where
  "call_success v operation =
     \<lparr>cr_status = CALL_SUCCESS, cr_value = v, cr_diagnostics = VDict [(''operation'', VStr operation)]\<rparr>"

definition call_failed :: "string \<Rightarrow> py_exception \<Rightarrow> call_result" where
  "call_failed code exc =
     \<lparr>cr_status = CALL_FAILED, cr_value = VNone,
      cr_diagnostics = VDict [(''reason_code'', VStr code), (''error'', VStr (ex_text exc))]\<rparr>"

section \<open>Moves and record saves\<close>

definition runtime_move_file ::
    "('x, 'p) runtime_ports \<Rightarrow> string \<Rightarrow> string \<Rightarrow> (('x, 'p) runtime_world, py_exception, call_result) io" where
  "runtime_move_file rp s t w =
     (case on_rest (rp_move rp s t) w of
        (Inl exc, w1) \<Rightarrow> (Inr (call_failed ''move_failed'' exc), w1)
      | (Inr v, w1) \<Rightarrow> (Inr (call_success v ''move''), w1))"

definition identity_record_id :: "mapping \<Rightarrow> string option" where
  "identity_record_id record_payload =
     (case get_or_none record_payload ''candidate'' of
        VDict c \<Rightarrow>
          (case get_or_none c ''identity_token'' of
             VStr s \<Rightarrow> if strip s = [] then None else Some (''record-'' @ take 12 s)
           | _ \<Rightarrow> None)
      | _ \<Rightarrow> None)"

definition resolve_runtime_record_id :: "(string \<Rightarrow> string) \<Rightarrow> mapping \<Rightarrow> string" where
  "resolve_runtime_record_id sha256 record_payload =
     (case identity_record_id record_payload of
        Some rid \<Rightarrow> rid
      | None \<Rightarrow>
          (case get_or_none record_payload ''target_path'' of
             VStr t \<Rightarrow> if strip t = [] then ''record-generated'' else ''record-'' @ take 12 (sha256 t)
           | _ \<Rightarrow> ''record-generated''))"

definition extract_record_id :: "mapping \<Rightarrow> pyval \<Rightarrow> string" where
  "extract_record_id record_payload saved =
     (let fallback = (case identity_record_id record_payload of Some rid \<Rightarrow> rid | None \<Rightarrow> ''record-generated'') in
      case saved of
        VDict m \<Rightarrow>
          (case get_or_none m ''record_id'' of
             VStr s \<Rightarrow> if strip s = [] then fallback else strip s
           | _ \<Rightarrow> fallback)
      | _ \<Rightarrow> fallback)"

definition extract_record_revision :: "conv_env \<Rightarrow> pyval \<Rightarrow> int \<Rightarrow> int" where
  "extract_record_revision cv saved fallback =
     (case saved of
        VDict m \<Rightarrow>
          (case get_or_none m ''revision'' of
             VInt i \<Rightarrow> i
           | VBool b \<Rightarrow> if b then 1 else 0
           | VStr s \<Rightarrow> if strip s = [] then fallback
                      else (case cv_int_of_str cv s of Some i \<Rightarrow> i | None \<Rightarrow> fallback)
           | _ \<Rightarrow> fallback)
      | _ \<Rightarrow> fallback)"

definition extract_runtime_record_snapshot ::
    "conv_env \<Rightarrow> pyval \<Rightarrow> string \<Rightarrow> int \<Rightarrow> mapping \<Rightarrow> mapping" where
  "extract_runtime_record_snapshot cv saved record_id revision payload =
     (case saved of
        VDict m \<Rightarrow>
          (case get_or_none m ''payload'' of
             VDict p \<Rightarrow>
               [(''record_id'', VStr (py_str (cv_repr cv) (dict_get_or m ''record_id'' (VStr record_id)))),
                (''revision'', VInt (extract_record_revision cv saved revision)), (''payload'', VDict p)]
           | _ \<Rightarrow> [(''record_id'', VStr record_id), (''revision'', VInt revision), (''payload'', VDict payload)])
      | _ \<Rightarrow> [(''record_id'', VStr record_id), (''revision'', VInt revision), (''payload'', VDict payload)])"

text \<open>\<^verbatim>\<open>dict(value)\<close> of a payload entry; the persist stage passes mappings (or nothing) there.\<close>

definition entry_mapping :: "pyval \<Rightarrow> py_exception + mapping" where
  "entry_mapping v =
     (case v of VDict d \<Rightarrow> Inr d | _ \<Rightarrow> Inl (plain_exception ''TypeError'' ''object is not a mapping''))"

definition save_payload :: "mapping \<Rightarrow> py_exception + mapping" where
  "save_payload record_payload =
     rbind (entry_mapping (dict_get_or record_payload ''candidate'' (VDict []))) (\<lambda>c.
     rbind (let r = get_or_none record_payload ''processor_result''
            in entry_mapping (if py_truthy r then r else VDict [])) (\<lambda>r.
     Inr [(''candidate'', VDict c), (''processor_result'', VDict r),
          (''target_path'', get_or_none record_payload ''target_path''), (''sync_status'', VStr ''pending'')]))"

definition runtime_save_record ::
    "('x, 'p) runtime_ports \<Rightarrow> mapping \<Rightarrow> (('x, 'p) runtime_world, py_exception, call_result) io" where
  "runtime_save_record rp record_payload w =
     (let rid = resolve_runtime_record_id (rp_sha256 rp) record_payload;
          next_revision = dict_get_or (rw_revisions w) rid (-1) + 1
      in case save_payload record_payload of
           Inl exc \<Rightarrow> (Inr (call_failed ''record_save_failed'' exc), w)
         | Inr payload \<Rightarrow>
             (case store_call rp SaveAction (\<lambda>env. store_save env (VDict [(''record_id'', VStr rid),
                     (''revision'', VInt next_revision), (''payload'', VDict payload)])) w of
                (Inl exc, w1) \<Rightarrow> (Inr (call_failed ''record_save_failed'' exc), w1)
              | (Inr saved, w1) \<Rightarrow>
                  let record_id = extract_record_id record_payload (VDict saved);
                      revision = extract_record_revision (rp_conv rp) (VDict saved) next_revision;
                      snapshot = extract_runtime_record_snapshot (rp_conv rp) (VDict saved) record_id revision payload
                  in (Inr (call_success (VDict [(''record_id'', VStr record_id), (''revision'', VInt revision),
                             (''record_snapshot'', VDict snapshot)]) ''save_record''),
                      w1\<lparr>rw_revisions := AList.update record_id revision (rw_revisions w1)\<rparr>)))"

text \<open>\<^verbatim>\<open>retry_planner\<close> of the runtime.\<close>

definition runtime_retry_planner :: "string \<Rightarrow> int \<Rightarrow> ('w, py_exception, pyval) io" where
  "runtime_retry_planner why attempt =
     io_return (VDict [(''terminal_type'', VStr ''stop_retrying''), (''reason_code'', VStr why)])"

section \<open>Bookkeeping\<close>

definition opt_text :: "string option \<Rightarrow> pyval" where
  "opt_text v = (case v of None \<Rightarrow> VNone | Some s \<Rightarrow> VStr s)"

definition runtime_update_bookkeeping ::
    "('x, 'p) runtime_ports \<Rightarrow> string \<Rightarrow> candidate \<Rightarrow> (('x, 'p) runtime_world, py_exception, call_result) io" where
  "runtime_update_bookkeeping rp rid cand w =
     (case map_of (rw_revisions w) rid of
        None \<Rightarrow> (Inr (call_success (VBool True) ''update_bookkeeping''), w)
      | Some expected \<Rightarrow>
          (case store_call rp UpdateAction (\<lambda>env. store_update env rid (VDict [(''expected_revision'', VInt expected),
                  (''payload'', VDict [(''bookkeeping'', VStr ''updated''), (''plugin_id'', opt_text (cd_plugin_id cand)),
                     (''persisted_path'', opt_text (cd_persisted_path cand))])])) w of
             (Inl exc, w1) \<Rightarrow> (Inr (call_failed ''bookkeeping_failed'' exc), w1)
           | (Inr updated, w1) \<Rightarrow>
               (Inr (call_success (VBool True) ''update_bookkeeping''),
                w1\<lparr>rw_revisions := AList.update rid
                     (extract_record_revision (rp_conv rp) (VDict updated) (expected + 1)) (rw_revisions w1)\<rparr>)))"

section \<open>Sync\<close>

definition as_normalized_token :: "string \<Rightarrow> string \<Rightarrow> bool \<Rightarrow> py_exception + string" where
  "as_normalized_token field s lowercase =
     (if strip s = []
      then Inl (plain_exception ''PortResponseContractError'' (field @ '' must be a non-empty string''))
      else Inr (if lowercase then str_lower (strip s) else strip s))"

definition as_optional_token :: "string \<Rightarrow> string option \<Rightarrow> py_exception + string option" where
  "as_optional_token field v =
     (case v of None \<Rightarrow> Inr None | Some s \<Rightarrow> rbind (as_normalized_token field s False) (\<lambda>t. Inr (Some t)))"

text \<open>\<^verbatim>\<open>SyncResponse.__post_init__\<close>; a sync request only normalises its record id.\<close>

definition make_sync_response :: "sync_response \<Rightarrow> py_exception + sync_response" where
  "make_sync_response r =
     rbind (as_normalized_token ''status'' (sy_status r) True) (\<lambda>status.
     rbind (as_optional_token ''remote_id'' (sy_remote_id r)) (\<lambda>remote_id.
     rbind (as_optional_token ''reason_code'' (sy_reason_code r)) (\<lambda>reason_code.
     Inr (r\<lparr>sy_status := status, sy_remote_id := remote_id, sy_reason_code := reason_code\<rparr>))))"

text \<open>A getter that raises is as one that finds nothing.\<close>

definition load_runtime_record_snapshot :: "store_env \<Rightarrow> store \<Rightarrow> string \<Rightarrow> mapping option \<Rightarrow> mapping" where
  "load_runtime_record_snapshot env st record_id fallback =
     (case (case store_get env Read_Current st record_id of Inl _ \<Rightarrow> None | Inr found \<Rightarrow> found) of
        Some snapshot \<Rightarrow> snapshot
      | None \<Rightarrow>
          (case fallback of
             Some f \<Rightarrow> f
           | None \<Rightarrow> [(''record_id'', VStr record_id), (''payload'', VDict [(''sync_status'', VStr ''pending'')])]))"

definition build_runtime_sync_payload ::
    "('x, 'p) runtime_ports \<Rightarrow> (('x, 'p) runtime_world, processing_context) ingestion_state \<Rightarrow>
     (('x, 'p) runtime_world, py_exception, mapping) io" where
  "build_runtime_sync_payload rp st w =
     (let record_id = strip (case ig_record_id st of None \<Rightarrow> [] | Some r \<Rightarrow> r);
          plain = (Inr [(''record_id'', VStr record_id)], w)
      in case (rpp_selected_pc_plugin (rp_policy rp), ig_processing_context st, rp_prepare_sync_payload rp) of
           (Some pc, Some px, Some prepare) \<Rightarrow>
             on_rest (prepare pc (load_runtime_record_snapshot (rp_store_env rp (rw_rest w) GetAction) (rw_store w) record_id (ig_record_snapshot st))
               (pcx_runtime_context px)) w
         | _ \<Rightarrow> plain)"

text \<open>
  Neither an error of the marker nor one of the getter after it leaves the function; after the second the
  row is marked and the remembered revision is not renewed.
\<close>

definition mark_runtime_record_unsynced ::
    "('x, 'p) runtime_ports \<Rightarrow> string \<Rightarrow> ('x, 'p) runtime_world \<Rightarrow> ('x, 'p) runtime_world" where
  "mark_runtime_record_unsynced rp rid w =
     (case store_call rp MarkAction (\<lambda>env. store_mark_unsynced env rid) w of
        (Inl _, w1) \<Rightarrow> w1
      | (Inr _, w1) \<Rightarrow>
          (case store_get (rp_store_env rp (rw_rest w1) GetAction) Read_Current (rw_store w1) rid of
             Inl _ \<Rightarrow> w1
           | Inr None \<Rightarrow> w1
           | Inr (Some snapshot) \<Rightarrow>
               w1\<lparr>rw_revisions := AList.update rid
                 (extract_record_revision (rp_conv rp) (VDict snapshot) (dict_get_or (rw_revisions w1) rid 0))
                 (rw_revisions w1)\<rparr>))"

definition sync_accepted :: "string \<Rightarrow> bool" where
  "sync_accepted status \<longleftrightarrow> str_lower status \<in> {''synced'', ''queued'', ''skipped_noop''}"

text \<open>A response without a reason has the attribute, with value \<^verbatim>\<open>None\<close>.\<close>

definition runtime_trigger_sync ::
    "('x, 'p) runtime_ports \<Rightarrow> (('x, 'p) runtime_world, processing_context) ingestion_state \<Rightarrow>
     (('x, 'p) runtime_world, py_exception, call_result) io" where
  "runtime_trigger_sync rp st w =
     (case ig_record_id st of
        None \<Rightarrow> (Inr \<lparr>cr_status = CALL_FAILED, cr_value = VNone, cr_diagnostics = VDict (reason ''sync_failed'')\<rparr>, w)
      | Some rid \<Rightarrow>
          if strip rid = []
          then (Inr \<lparr>cr_status = CALL_FAILED, cr_value = VNone, cr_diagnostics = VDict (reason ''sync_failed'')\<rparr>, w)
          else
            (case io_bind (build_runtime_sync_payload rp st) (\<lambda>payload.
                    on_rest (rp_sync_record rp (Some (strip rid)) payload)) w of
               (Inl exc, w1) \<Rightarrow> (Inr (call_failed ''sync_failed'' exc), mark_runtime_record_unsynced rp rid w1)
             | (Inr response, w1) \<Rightarrow>
                 if sync_accepted (sy_status response)
                 then (Inr (call_success (VObj ''SyncResponse'') ''trigger_sync''), w1)
                 else (Inr \<lparr>cr_status = CALL_FAILED, cr_value = VObj ''SyncResponse'',
                         cr_diagnostics = VDict (reason (case sy_reason_code response of None \<Rightarrow> ''None'' | Some c \<Rightarrow> c))\<rparr>,
                       mark_runtime_record_unsynced rp rid w1)))"

definition runtime_emit_sync_error ::
    "('x, 'p) runtime_ports \<Rightarrow> string \<Rightarrow> string \<Rightarrow> string \<Rightarrow> (('x, 'p) runtime_world, py_exception, unit) io" where
  "runtime_emit_sync_error rp event_id rid why =
     on_rest (rp_emit rp [(''kind'', VStr ''immediate_sync_error''), (''event_id'', VStr event_id),
       (''record_id'', VStr rid), (''reason_code'', VStr why)])"

section \<open>The modified-event gate\<close>

definition gate_state_evaluate :: "string \<Rightarrow> rat \<Rightarrow> rat dict \<Rightarrow> mapping \<times> rat dict" where
  "gate_state_evaluate event_key timestamp last_seen =
     (let seen = (case map_of last_seen event_key of None \<Rightarrow> False | Some t \<Rightarrow> timestamp \<le> t) in
      ([(''decision'', VStr (if seen then ''drop_duplicate'' else ''allow'')),
        (''reason_code'', VStr (if seen then ''inside_debounce_window'' else ''outside_debounce_window''))],
       AList.update event_key timestamp last_seen))"

text \<open>The stage reads the attribute \<^verbatim>\<open>decision\<close> of the answer; a mapping proxy has no such attribute.\<close>

definition decision_attribute :: "mapping \<Rightarrow> string option" where
  "decision_attribute answer = None"

definition runtime_gate ::
    "string \<Rightarrow> rat \<Rightarrow> (('x, 'p) runtime_world, py_exception, string option) io" where
  "runtime_gate event_key timestamp w =
     (case gate_state_evaluate event_key timestamp (rw_last_seen w) of
        (answer, seen) \<Rightarrow> (Inr (decision_attribute answer), w\<lparr>rw_last_seen := seen\<rparr>))"

end
