(* ===== verification/Runtime_Select.thy ===== *)
theory Runtime_Select
  imports Runtime_Records Plugin_Host
begin

text \<open>
  How the runtime chooses the processor of a candidate (\<^verbatim>\<open>_resolve_runtime_plugin_policy\<close>,
  \<^verbatim>\<open>_select_runtime_processor\<close> and their helpers in \<^verbatim>\<open>runtime/composition.py\<close>): the plugin policy from
  the settings and the PC plugin's scope, then the first plugin in scope whose processor supports the file,
  with the processors of plugins cached by plugin id.
\<close>

section \<open>The plugin policy\<close>

datatype composition_error =
    CompositionBindingError string
  | CompositionInitializationError string
  | CompositionDuplicateBindingError string
  | CompositionPluginBindingError string
  | CompositionHostError host_error
  | CompositionRaised py_exception

text \<open>The settings are an object with a block \<^verbatim>\<open>plugins\<close> (its two attributes), or a mapping.\<close>

datatype plugin_settings = SettingsObject pyval pyval | SettingsMapping mapping

definition plugins_entry :: "plugin_settings \<Rightarrow> string \<Rightarrow> pyval \<Rightarrow> pyval" where
  "plugins_entry settings key fallback =
     (case settings of
        SettingsObject _ _ \<Rightarrow> VNone
      | SettingsMapping d \<Rightarrow> (case get_or_none d ''plugins'' of VDict p \<Rightarrow> dict_get_or p key fallback | _ \<Rightarrow> VNone))"

definition nonblank_lower :: "pyval \<Rightarrow> string option" where
  "nonblank_lower v = (case v of VStr s \<Rightarrow> if strip s = [] then None else Some (str_lower (strip s)) | _ \<Rightarrow> None)"

definition extract_selected_pc_plugin :: "plugin_settings \<Rightarrow> string option" where
  "extract_selected_pc_plugin settings =
     (case nonblank_lower (case settings of SettingsObject pc _ \<Rightarrow> pc | _ \<Rightarrow> VNone) of
        Some s \<Rightarrow> Some s
      | None \<Rightarrow> nonblank_lower (plugins_entry settings ''pc_name'' VNone))"

definition lowered_tokens :: "conv_env \<Rightarrow> pyval list \<Rightarrow> string list" where
  "lowered_tokens cv vs =
     map (\<lambda>v. str_lower (strip (py_str (cv_repr cv) v))) (filter (\<lambda>v. strip (py_str (cv_repr cv) v) \<noteq> []) vs)"

definition extract_selected_device_plugins :: "conv_env \<Rightarrow> plugin_settings \<Rightarrow> string list" where
  "extract_selected_device_plugins cv settings =
     (case (case settings of SettingsObject _ ds \<Rightarrow> ds | _ \<Rightarrow> VNone) of
        VList vs \<Rightarrow> lowered_tokens cv vs
      | _ \<Rightarrow> (case plugins_entry settings ''device_plugins'' (VList []) of VList vs \<Rightarrow> lowered_tokens cv vs | _ \<Rightarrow> []))"

text \<open>
  The resolver is the host's \<^verbatim>\<open>resolve_device_scope_for_pc\<close>, when it has one; of its errors only the
  activation error is translated.
\<close>

definition resolve_runtime_plugin_policy ::
    "conv_env \<Rightarrow> (string \<Rightarrow> ('w, host_error, pc_device_scope) io) option \<Rightarrow> plugin_settings \<Rightarrow>
     ('w, composition_error, runtime_plugin_policy) io" where
  "resolve_runtime_plugin_policy cv resolver settings w =
     (let devices = extract_selected_device_plugins cv settings in
      case extract_selected_pc_plugin settings of
        None \<Rightarrow> (Inr \<lparr>rpp_selected_pc_plugin = None, rpp_scoped_device_plugins = devices, rpp_pc_scope_applied = False\<rparr>, w)
      | Some pc \<Rightarrow>
          (case resolver of
             None \<Rightarrow> (Inl (CompositionPluginBindingError
               (''binding for '' @ quoted_id ''plugin_host'' @ '' does not support PC device scope resolution'')), w)
           | Some resolve \<Rightarrow>
               (case resolve pc w of
                  (Inl (PluginHostActivationError m), w1) \<Rightarrow> (Inl (CompositionPluginBindingError m), w1)
                | (Inl e, w1) \<Rightarrow> (Inl (CompositionHostError e), w1)
                | (Inr scope, w1) \<Rightarrow>
                    (Inr \<lparr>rpp_selected_pc_plugin = Some pc,
                       rpp_scoped_device_plugins = (if devices = [] then ps_device_plugin_ids scope
                          else filter (\<lambda>i. i \<in> set devices) (ps_device_plugin_ids scope)),
                       rpp_pc_scope_applied = True\<rparr>, w1))))"

section \<open>Processors\<close>

datatype 'p runtime_processor = PluginProcessor 'p | DefaultDeviceProcessor string

text \<open>A processor of a plugin acts on the rest of the world only.\<close>

definition lift_processor :: "('x, 'c) processor \<Rightarrow> (('x, 'p) runtime_world, 'c) processor" where
  "lift_processor px =
     \<lparr>px_prepare = map_option (\<lambda>f m. on_rest (f m)) (px_prepare px),
      px_can_process = map_option (\<lambda>f m. on_rest (f m)) (px_can_process px),
      px_process = map_option (\<lambda>f m c. on_rest (f m c)) (px_process px)\<rparr>"

definition default_processor_methods :: "conv_env \<Rightarrow> string \<Rightarrow> ('w, 'c) processor" where
  "default_processor_methods cv plugin_id =
     (let source = (\<lambda>m. py_str (cv_repr cv) (dict_get_or m ''source_path'' (VStr []))) in
      \<lparr>px_prepare = None,
       px_can_process = Some (\<lambda>m w. (Inr (strip (source m) \<noteq> []), w)),
       px_process = Some (\<lambda>m _ w. (Inr (OutRaw (VDict [(''final_path'', VStr (source m)),
          (''datatype'', VStr (plugin_id @ ''/output''))])), w))\<rparr>)"

definition processor_methods ::
    "('x, 'p) runtime_ports \<Rightarrow> 'p runtime_processor \<Rightarrow> (('x, 'p) runtime_world, processing_context) processor" where
  "processor_methods rp x =
     (case x of
        PluginProcessor p \<Rightarrow> lift_processor (rp_methods rp p)
      | DefaultDeviceProcessor i \<Rightarrow> default_processor_methods (rp_conv rp) i)"

definition source_extensions :: "('x, 'p) runtime_ports \<Rightarrow> 'p runtime_processor \<Rightarrow> pyval" where
  "source_extensions rp x = (case x of PluginProcessor p \<Rightarrow> rp_source_extensions rp p | DefaultDeviceProcessor _ \<Rightarrow> VNone)"

text \<open>\<^verbatim>\<open>Path(s).suffix\<close>: the text from the last dot of the name, which is neither its first nor last character.\<close>

definition path_suffix :: "string \<Rightarrow> string" where
  "path_suffix s =
     (let name = path_name s;
          tail = takeWhile (\<lambda>c. c \<noteq> CHR ''.'') (rev name);
          i = length name - length tail - 1
      in if CHR ''.'' \<in> set name \<and> 0 < i \<and> tail \<noteq> [] then CHR ''.'' # rev tail else [])"

definition processor_supports_candidate ::
    "('x, 'p) runtime_ports \<Rightarrow> 'p runtime_processor \<Rightarrow> candidate \<Rightarrow> ('x, 'p) runtime_world \<Rightarrow> bool \<times> ('x, 'p) runtime_world" where
  "processor_supports_candidate rp x cand w =
     (let extension = str_lower (path_suffix (cd_source_path cand));
          by_method = (case px_can_process (processor_methods rp x) of
             None \<Rightarrow> (True, w)
           | Some can \<Rightarrow> (case can [(''source_path'', VStr (cd_source_path cand))] w of
                (Inl _, w1) \<Rightarrow> (False, w1) | (Inr b, w1) \<Rightarrow> (b, w1)))
      in case source_extensions rp x of
           VList vs \<Rightarrow> if extension \<noteq> [] then (extension \<in> set (lowered_tokens (rp_conv rp) vs), w) else by_method
         | _ \<Rightarrow> by_method)"

text \<open>The processor of a plugin: cached, built by the host, or the default one, which is not cached.\<close>

definition build_runtime_processor ::
    "('x, 'p) runtime_ports \<Rightarrow> string \<Rightarrow> ('x, 'p) runtime_world \<Rightarrow> ('p runtime_processor \<times> bool) \<times> ('x, 'p) runtime_world" where
  "build_runtime_processor rp i w =
     (case map_of (rw_cache w) i of
        Some p \<Rightarrow> ((PluginProcessor p, True), w)
      | None \<Rightarrow>
          (case rp_create_device_processor rp of
             None \<Rightarrow> ((DefaultDeviceProcessor i, False), w)
           | Some create \<Rightarrow>
               (case on_rest (create i []) w of
                  (Inl _, w1) \<Rightarrow> ((DefaultDeviceProcessor i, False), w1)
                | (Inr p, w1) \<Rightarrow> ((PluginProcessor p, False), w1\<lparr>rw_cache := AList.update i p (rw_cache w1)\<rparr>))))"

definition usable_processor ::
    "('x, 'p) runtime_ports \<Rightarrow> string \<Rightarrow> candidate \<Rightarrow> ('x, 'p) runtime_world \<Rightarrow>
     ('p runtime_processor option \<times> bool) \<times> ('x, 'p) runtime_world" where
  "usable_processor rp i cand w =
     (case build_runtime_processor rp i w of
        ((x, hit), w1) \<Rightarrow>
          (case processor_supports_candidate rp x cand w1 of
             (ok, w2) \<Rightarrow> ((if ok \<and> px_process (processor_methods rp x) \<noteq> None then Some x else None, hit), w2)))"

definition resolve_device_plugin_ids ::
    "('x, 'p) runtime_ports \<Rightarrow> ('x, 'p) runtime_world \<Rightarrow> string list \<times> ('x, 'p) runtime_world" where
  "resolve_device_plugin_ids rp w =
     (case rp_get_device_plugins rp of
        None \<Rightarrow> ([''default_device''], w)
      | Some getter \<Rightarrow>
          (case on_rest getter w of
             (Inl _, w1) \<Rightarrow> ([''default_device''], w1)
           | (Inr raw, w1) \<Rightarrow>
               (let ids = filter (\<lambda>s. s \<noteq> []) (map (\<lambda>v. strip (py_str (cv_repr (rp_conv rp)) v)) raw)
                in (if ids = [] then [''default_device''] else ids, w1))))"

definition candidate_plugin_ids ::
    "('x, 'p) runtime_ports \<Rightarrow> ('x, 'p) runtime_world \<Rightarrow> string list \<times> ('x, 'p) runtime_world" where
  "candidate_plugin_ids rp w =
     (let scoped = rpp_scoped_device_plugins (rp_policy rp) in
      if rpp_pc_scope_applied (rp_policy rp) \<or> scoped \<noteq> []
      then (filter (\<lambda>s. s \<noteq> []) (map strip scoped), w)
      else resolve_device_plugin_ids rp w)"

definition capability_reason :: "runtime_plugin_policy \<Rightarrow> string" where
  "capability_reason policy =
     (if rpp_scoped_device_plugins policy = [] then ''pc_scope_default''
      else if rpp_pc_scope_applied policy then ''pc_scope_selected'' else ''device_scope_selected'')"

fun first_usable ::
    "('x, 'p) runtime_ports \<Rightarrow> candidate \<Rightarrow> string list \<Rightarrow>
     (('x, 'p) runtime_world, factory_error, (('x, 'p) runtime_world, processing_context) processor processor_selection) io" where
  "first_usable rp cand [] w = (Inl (ProcessorNotFoundError ''No runtime processor available for candidate.''), w)"
| "first_usable rp cand (i # ids) w =
     (case usable_processor rp i cand w of
        ((None, _), w1) \<Rightarrow> first_usable rp cand ids w1
      | ((Some x, hit), w1) \<Rightarrow>
          (Inr \<lparr>sel_processor = processor_methods rp x,
             sel_descriptor = \<lparr>sl_plugin_id = i, sl_processor_key = i,
               sl_capability_reason = capability_reason (rp_policy rp), sl_cache_hit = hit\<rparr>\<rparr>, w1))"

definition select_runtime_processor ::
    "('x, 'p) runtime_ports \<Rightarrow> candidate \<Rightarrow>
     (('x, 'p) runtime_world, factory_error, (('x, 'p) runtime_world, processing_context) processor processor_selection) io" where
  "select_runtime_processor rp cand w = (case candidate_plugin_ids rp w of (ids, w1) \<Rightarrow> first_usable rp cand ids w1)"

section \<open>The selection\<close>

text \<open>The cache only grows; nothing but the cache and the rest of the world changes.\<close>

definition cache_grows :: "('x, 'p) runtime_world \<Rightarrow> ('x, 'p) runtime_world \<Rightarrow> bool" where
  "cache_grows w w' \<longleftrightarrow> map_of (rw_cache w) \<subseteq>\<^sub>m map_of (rw_cache w') \<and> rw_store w' = rw_store w \<and>
     rw_revisions w' = rw_revisions w \<and> rw_last_seen w' = rw_last_seen w"

lemma cache_grows_refl [simp]: "cache_grows w w"
  by (simp add: cache_grows_def)

lemma cache_grows_trans: "cache_grows w w1 \<Longrightarrow> cache_grows w1 w2 \<Longrightarrow> cache_grows w w2"
  unfolding cache_grows_def by (auto intro: map_le_trans)

lemma on_rest_cache: "on_rest m w = (r, w') \<Longrightarrow> cache_grows w w' \<and> rw_cache w' = rw_cache w"
  by (auto simp: on_rest_def cache_grows_def split: prod.splits)

lemma methods_cache:
  "px_can_process (processor_methods rp x) = Some can \<Longrightarrow> can m w = (r, w') \<Longrightarrow> cache_grows w w' \<and> rw_cache w' = rw_cache w"
  by (auto simp: processor_methods_def lift_processor_def default_processor_methods_def Let_def on_rest_cache
      split: runtime_processor.splits)

lemma supports_cache:
  "processor_supports_candidate rp x cand w = (b, w') \<Longrightarrow> cache_grows w w' \<and> rw_cache w' = rw_cache w"
  by (auto simp: processor_supports_candidate_def Let_def methods_cache split: option.splits pyval.splits prod.splits sum.splits if_splits)

lemma build_cache:
  assumes "build_runtime_processor rp i w = ((x, hit), w')"
  shows "cache_grows w w' \<and> (hit \<longleftrightarrow> map_of (rw_cache w) i \<noteq> None) \<and>
    (case x of PluginProcessor p \<Rightarrow> map_of (rw_cache w') i = Some p | DefaultDeviceProcessor j \<Rightarrow> j = i \<and> map_of (rw_cache w') i = None)"
  using assms
  by (auto simp: build_runtime_processor_def cache_grows_def on_rest_def map_le_def
      split: option.splits prod.splits sum.splits)

lemma usable_cache:
  assumes "usable_processor rp i cand w = ((r, hit), w')"
  shows "cache_grows w w' \<and> (hit \<longleftrightarrow> map_of (rw_cache w) i \<noteq> None) \<and>
    (\<forall>x. r = Some x \<longrightarrow> px_process (processor_methods rp x) \<noteq> None \<and>
      (case x of PluginProcessor p \<Rightarrow> map_of (rw_cache w') i = Some p | DefaultDeviceProcessor j \<Rightarrow> j = i \<and> map_of (rw_cache w') i = None))"
proof -
  obtain x h w1 where b: "build_runtime_processor rp i w = ((x, h), w1)" by (metis prod.collapse)
  obtain ok w2 where s: "processor_supports_candidate rp x cand w1 = (ok, w2)" by fastforce
  from assms b s have "hit = h" "w' = w2" "r = (if ok \<and> px_process (processor_methods rp x) \<noteq> None then Some x else None)"
    by (auto simp: usable_processor_def)
  with build_cache [OF b] supports_cache [OF s] show ?thesis
    by (auto intro: cache_grows_trans split: runtime_processor.splits if_splits)
qed

lemma candidate_ids_cache: "candidate_plugin_ids rp w = (ids, w') \<Longrightarrow> cache_grows w w' \<and> rw_cache w' = rw_cache w"
  by (auto simp: candidate_plugin_ids_def resolve_device_plugin_ids_def Let_def on_rest_cache
      split: if_splits option.splits prod.splits sum.splits)

end
