(* ===== verification/Runtime_Engine.thy ===== *)
theory Runtime_Engine
  imports Runtime_Select Engine
begin

text \<open>
  The ingestion engine as the runtime wires it (\<^verbatim>\<open>_build_runtime_ingestion_engine\<close>,
  \<^verbatim>\<open>_RuntimeIngestionEngineAdapter\<close> and \<^verbatim>\<open>_build_runtime_processing_context\<close> of
  \<^verbatim>\<open>runtime/composition.py\<close>), and the discovery of headless events. What the startup context contributes
  is a record; the system clock (\<^verbatim>\<open>datetime.now\<close>) is a reading of the rest of the world.
\<close>

section \<open>Facts, names and times\<close>

text \<open>
  \<^verbatim>\<open>float(value)\<close> under \<^verbatim>\<open>except (TypeError, ValueError)\<close>: an integer too large for a float escapes.
\<close>

definition runtime_float :: "conv_env \<Rightarrow> pyval \<Rightarrow> py_exception + rat option" where
  "runtime_float cv v = map_error (\<lambda>e. plain_exception (py_error_name e) (py_error_text e)) (try_convert (py_float cv v))"

text \<open>\<^verbatim>\<open>_clock_seconds\<close>; a \<^verbatim>\<open>datetime\<close> is in microseconds.\<close>

definition seconds_of :: "conv_env \<Rightarrow> pyval \<Rightarrow> py_exception + rat" where
  "seconds_of cv v =
     (case v of VTime t \<Rightarrow> Inr (of_int t / 1000000)
      | _ \<Rightarrow> rbind (runtime_float cv v) (\<lambda>x. Inr (case x of None \<Rightarrow> 0 | Some r \<Rightarrow> r)))"

definition clock_seconds :: "('x, 'p) runtime_ports \<Rightarrow> (('x, 'p) runtime_world, py_exception, rat) io" where
  "clock_seconds rp = io_bind (on_rest (rp_clock_now rp)) (\<lambda>v. io_lift (seconds_of (rp_conv rp) v))"

definition runtime_normalize_path ::
    "('x, 'p) runtime_ports \<Rightarrow> string \<Rightarrow> ('x, 'p) runtime_world \<Rightarrow> string \<times> ('x, 'p) runtime_world" where
  "runtime_normalize_path rp s w =
     (case rp_normalize_path rp of
        None \<Rightarrow> (pure_path s, w)
      | Some f \<Rightarrow>
          (case on_rest (f s) w of
             (Inl _, w1) \<Rightarrow> (pure_path s, w1)
           | (Inr v, w1) \<Rightarrow> (py_str (cv_repr (rp_conv rp)) v, w1)))"

text \<open>\<^verbatim>\<open>int(x)\<close> of a float: towards zero.\<close>

definition truncate_rat :: "rat \<Rightarrow> int" where
  "truncate_rat r = (if r < 0 then \<lceil>r\<rceil> else \<lfloor>r\<rfloor>)"

definition read_runtime_file_facts ::
    "('x, 'p) runtime_ports \<Rightarrow> string \<Rightarrow> (('x, 'p) runtime_world, py_exception, pyval) io" where
  "read_runtime_file_facts rp s =
     io_bind (clock_seconds rp) (\<lambda>now w.
       let path = pure_path s;
           (size, modified_at) = (case rp_stat rp (rw_rest w) path of None \<Rightarrow> (0, now) | Some facts \<Rightarrow> facts)
       in (Inr (VDict [(''size'', VInt size), (''modified_at'', VFloat modified_at),
             (''fingerprint'', VStr (''fp:'' @ path @ '':'' @ int_str size @ '':'' @ int_str (truncate_rat modified_at)))]), w))"

definition fs_facts_provider ::
    "('x, 'p) runtime_ports \<Rightarrow> string \<Rightarrow> (('x, 'p) runtime_world, py_exception, pyval) io" where
  "fs_facts_provider rp s w = (case runtime_normalize_path rp s w of (path, w1) \<Rightarrow> read_runtime_file_facts rp path w1)"

definition resolve_route_root :: "pyval \<Rightarrow> string" where
  "resolve_route_root v =
     (case v of VStr s \<Rightarrow> if strip s = [] then ''processed'' else pure_path s | _ \<Rightarrow> ''processed'')"

text \<open>The settle delay is resolved once, when the engine is built; \<open>rp_settle_delay\<close> holds it.\<close>

definition resolve_settle_delay :: "conv_env \<Rightarrow> pyval \<Rightarrow> py_exception + rat" where
  "resolve_settle_delay cv v =
     rbind (runtime_float cv v) (\<lambda>x. Inr (case x of None \<Rightarrow> 0 | Some r \<Rightarrow> if r < 0 then 0 else r))"

definition fallback_filename :: "candidate option \<Rightarrow> string" where
  "fallback_filename c =
     (case c of
        None \<Rightarrow> ''artifact.dat''
      | Some cand \<Rightarrow>
          (let filename = path_name (cd_source_path cand)
           in if strip filename \<noteq> [] then filename else cd_identity_token cand @ ''.dat''))"

definition build_runtime_filename :: "('w, 'c) ingestion_state \<Rightarrow> string" where
  "build_runtime_filename st =
     (case ig_processor_result st of
        None \<Rightarrow> fallback_filename (ig_candidate st)
      | Some r \<Rightarrow> (let name = path_name (pres_final_path r)
                  in if strip name \<noteq> [] then name else fallback_filename (ig_candidate st)))"

section \<open>The wiring\<close>

definition runtime_stage_ports ::
    "('x, 'p) runtime_ports \<Rightarrow> (('x, 'p) runtime_world, processing_context) stage_ports" where
  "runtime_stage_ports rp =
     (let route_root = resolve_route_root (rp_dest rp) in
      \<lparr>sp_conv = rp_conv rp, sp_digest = rp_digest rp, sp_fs_facts = fs_facts_provider rp,
       sp_selector = select_runtime_processor rp, sp_gate = runtime_gate, sp_now = clock_seconds rp,
       sp_settle_delay = rp_settle_delay rp, sp_allowed_roots = [route_root],
       sp_route_selector = (\<lambda>_. io_return (Some route_root)), sp_filename = (\<lambda>st. io_return (build_runtime_filename st)),
       sp_move = runtime_move_file rp, sp_save = runtime_save_record rp, sp_retry_planner = runtime_retry_planner,
       sp_bookkeeping = runtime_update_bookkeeping rp, sp_sync = runtime_trigger_sync rp,
       sp_emit_sync_error = runtime_emit_sync_error rp, sp_immediate_sync = True\<rparr>)"

definition runtime_engine ::
    "('x, 'p) runtime_ports \<Rightarrow>
     (('x, 'p) runtime_world, (('x, 'p) runtime_world, processing_context) ingestion_state) ingestion_engine" where
  "runtime_engine rp =
     \<lparr>en_runner = ingestion_runner 50, en_stage_handlers = ingestion_handlers (runtime_stage_ports rp),
      en_error_handling_policy = None, en_failure_outcome_policy = None, en_failure_emitter = None,
      en_cancellation_signal = None\<rparr>"

section \<open>The processing context of an event\<close>

record launch_facts =
  lf_trace_id :: string
  lf_mode :: string
  lf_profile :: "string option"
  lf_backends :: "string dict"

definition runtime_dependency_ids :: "launch_facts \<Rightarrow> mapping" where
  "runtime_dependency_ids lf =
     [(''clock'', VStr (''clock:'' @ dict_get_or (lf_backends lf) ''observability'' ''default'')),
      (''ui'', VStr (''ui:'' @ dict_get_or (lf_backends lf) ''ui'' ''default'')),
      (''sync'', VStr (''sync:'' @ dict_get_or (lf_backends lf) ''sync'' ''default''))]"

definition runtime_profile :: "launch_facts \<Rightarrow> string" where
  "runtime_profile lf = (case lf_profile lf of None \<Rightarrow> ''default'' | Some s \<Rightarrow> if s = [] then ''default'' else s)"

text \<open>
  \<^verbatim>\<open>datetime.fromtimestamp\<close>: to the nearest microsecond, for the years 1 to 9999; a time that is no 64-bit
  number of seconds raises an \<^verbatim>\<open>OverflowError\<close>, which the code does not catch.
\<close>

definition from_timestamp :: "rat \<Rightarrow> int option" where
  "from_timestamp r =
     (let t = round_half_even (r * 1000000)
      in if -62135596800000000 \<le> t \<and> t < 253402300800000000 then Some t else None)"

definition coerce_observed_at ::
    "('x, 'p) runtime_ports \<Rightarrow> ('x \<Rightarrow> int) \<Rightarrow> mapping \<Rightarrow> (('x, 'p) runtime_world, py_exception, int) io" where
  "coerce_observed_at rp system_now event =
     (let from_clock = io_bind (on_rest (rp_clock_now rp)) (\<lambda>v w. case v of
            VTime t \<Rightarrow> (Inr t, w) | _ \<Rightarrow> (Inr (system_now (rw_rest w)), w))
      in case get_or_none event ''observed_at'' of
           VTime t \<Rightarrow> io_return t
         | VNone \<Rightarrow> from_clock
         | v \<Rightarrow> io_bind (io_lift (runtime_float (rp_conv rp) v)) (\<lambda>x.
               case x of
                  None \<Rightarrow> from_clock
                | Some r \<Rightarrow>
                    if r < - (2 ^ 63) \<or> 2 ^ 63 \<le> r
                    then io_raise (plain_exception ''OverflowError'' ''timestamp out of range for platform time_t'')
                    else (case from_timestamp r of Some t \<Rightarrow> io_return t | None \<Rightarrow> from_clock)))"

definition context_error_exception :: "context_error \<Rightarrow> py_exception" where
  "context_error_exception e =
     (case e of
        ContextValidationError m \<Rightarrow> plain_exception ''ContextValidationError'' m
      | UnsupportedRuntimeModeError m \<Rightarrow> plain_exception ''UnsupportedRuntimeModeError'' m
      | InvalidCandidateContextError m \<Rightarrow> plain_exception ''InvalidCandidateContextError'' m
      | RetryStateError m \<Rightarrow> plain_exception ''RetryStateError'' m)"

definition runtime_event_id :: "conv_env \<Rightarrow> launch_facts \<Rightarrow> mapping \<Rightarrow> string" where
  "runtime_event_id cv lf event =
     (let i = strip (py_str (cv_repr cv) (dict_get_or event ''event_id'' (VStr [])))
      in if i = [] then lf_trace_id lf @ '':event'' else i)"

definition runtime_settings_mapping :: "conv_env \<Rightarrow> launch_facts \<Rightarrow> runtime_plugin_policy \<Rightarrow> mapping \<Rightarrow> mapping" where
  "runtime_settings_mapping cv lf policy event =
     [(''mode'', VStr (lf_mode lf)), (''profile'', VStr (runtime_profile lf)),
      (''session_id'', VStr (''session-'' @ lf_trace_id lf)), (''event_id'', VStr (runtime_event_id cv lf event)),
      (''trace_id'', VStr (lf_trace_id lf)), (''selected_pc_plugin'', opt_text (rpp_selected_pc_plugin policy)),
      (''scoped_device_plugins'', VList (map VStr (rpp_scoped_device_plugins policy)))]"

definition candidate_event ::
    "conv_env \<Rightarrow> launch_facts \<Rightarrow> mapping \<Rightarrow> int \<Rightarrow> mapping" where
  "candidate_event cv lf event observed_at =
     (let text = py_str (cv_repr cv);
          source_path = strip (text (dict_get_or event ''path'' (dict_get_or event ''source_path'' (VStr []))));
          event_type = strip (text (dict_get_or event ''event_type'' (dict_get_or event ''event_kind'' (VStr ''created''))))
      in [(''source_path'', VStr source_path), (''event_type'', VStr (if event_type = [] then ''created'' else event_type)),
          (''observed_at'', VTime observed_at), (''event_id'', VStr (runtime_event_id cv lf event)),
          (''trace_id'', VStr (lf_trace_id lf))] @
         (case map_of event ''force_paths'' of
            Some v \<Rightarrow> [(''force_paths'', v)]
          | None \<Rightarrow> (case map_of event ''force_path'' of Some v \<Rightarrow> [(''force_paths'', v)] | None \<Rightarrow> [])))"

definition build_runtime_processing_context ::
    "('x, 'p) runtime_ports \<Rightarrow> ('x \<Rightarrow> int) \<Rightarrow> launch_facts \<Rightarrow> mapping \<Rightarrow>
     (('x, 'p) runtime_world, py_exception, processing_context) io" where
  "build_runtime_processing_context rp system_now lf event =
     io_bind (io_lift (map_error context_error_exception
       (runtime_from_settings (runtime_settings_mapping (rp_conv rp) lf (rp_policy rp) event) (runtime_dependency_ids lf)))) (\<lambda>rx.
     io_bind (coerce_observed_at rp system_now event) (\<lambda>observed_at.
     io_lift (map_error context_error_exception
       (for_candidate rx (candidate_event (rp_conv rp) lf event observed_at)))))"

text \<open>
  \<^verbatim>\<open>_RuntimeIngestionEngineAdapter.process\<close>: the given context, or one built for the event; \<open>digest16\<close>
  is the correlation digest of the state.
\<close>

definition runtime_process ::
    "('x, 'p) runtime_ports \<Rightarrow> ('x \<Rightarrow> int) \<Rightarrow> launch_facts \<Rightarrow> (string \<Rightarrow> string) \<Rightarrow> mapping \<Rightarrow> processing_context option \<Rightarrow>
     (('x, 'p) runtime_world, py_exception,
      (('x, 'p) runtime_world, processing_context) ingestion_state ingestion_outcome) io" where
  "runtime_process rp system_now lf digest16 event given =
     io_bind (case given of Some px \<Rightarrow> io_return px | None \<Rightarrow> build_runtime_processing_context rp system_now lf event)
       (\<lambda>px w. case process_event (rp_conv rp) (runtime_engine rp)
            (\<lambda>payload. io_return (state_from_event (rp_conv rp) digest16 payload (Some px))) (VDict event) w of
          (outcome, w1) \<Rightarrow> (Inr outcome, w1))"

section \<open>Headless events\<close>

text \<open>
  What the directory listing gives: every entry's path, whether it is a file, and its modification time as
  the sort key and the event see it (nanoseconds and seconds), where it can be read.
\<close>

record dir_entry =
  de_path :: string
  de_is_file :: bool
  de_mtime_ns :: "int option"
  de_mtime :: "rat option"

definition event_sort_key :: "dir_entry \<Rightarrow> int \<times> string" where
  "event_sort_key e = ((case de_mtime_ns e of None \<Rightarrow> 0 | Some n \<Rightarrow> n), de_path e)"

text \<open>How paths and floats print, and the listing of a directory in the rest of the world.\<close>

record 'x discovery_env =
  dc_resolve :: "string \<Rightarrow> string"
  dc_float_repr :: "rat \<Rightarrow> string"
  dc_listing :: "'x \<Rightarrow> string \<Rightarrow> dir_entry list option"

definition headless_event ::
    "('x, 'p) runtime_ports \<Rightarrow> 'x discovery_env \<Rightarrow> dir_entry \<Rightarrow> (('x, 'p) runtime_world, py_exception, mapping) io" where
  "headless_event rp dc e =
     io_bind (case de_mtime e of Some t \<Rightarrow> io_return t | None \<Rightarrow> clock_seconds rp) (\<lambda>observed_at.
     io_return
       [(''event_id'', VStr (take 16 (rp_sha256 rp (dc_resolve dc (de_path e) @ ''|'' @ dc_float_repr dc observed_at)))),
        (''path'', VStr (de_path e)), (''event_kind'', VStr ''created'')])"

fun headless_events ::
    "('x, 'p) runtime_ports \<Rightarrow> 'x discovery_env \<Rightarrow> dir_entry list \<Rightarrow> (('x, 'p) runtime_world, py_exception, mapping list) io" where
  "headless_events rp dc [] = io_return []"
| "headless_events rp dc (e # es) =
     io_bind (headless_event rp dc e) (\<lambda>ev. io_bind (headless_events rp dc es) (\<lambda>evs. io_return (ev # evs)))"

text \<open>The listing is \<open>None\<close> when the watch directory is missing, no directory, or not readable.\<close>

definition discover_headless_events ::
    "('x, 'p) runtime_ports \<Rightarrow> 'x discovery_env \<Rightarrow> string \<Rightarrow> pyval \<Rightarrow>
     (('x, 'p) runtime_world, py_exception, mapping list) io" where
  "discover_headless_events rp dc mode watch w =
     (if str_lower mode \<noteq> ''headless'' then (Inr [], w)
      else case watch of
        VStr s \<Rightarrow>
          if strip s = [] then (Inr [], w)
          else (case dc_listing dc (rw_rest w) s of
             None \<Rightarrow> (Inr [], w)
           | Some entries \<Rightarrow> headless_events rp dc (sort_key event_sort_key (filter de_is_file entries)) w)
      | _ \<Rightarrow> (Inr [], w))"

end
