(* ===== verification/Runtime_Records_Correct.thy ===== *)
theory Runtime_Records_Correct
  imports Runtime_Records
begin

text \<open>
  Lemmas and properties of the runtime's record callables: over any sequence of their calls, successful or
  not, the revisions the runtime remembers are those of the store, so that within one run bookkeeping and a
  renewed save never conflict; a restarted runtime, which remembers nothing, cannot save an existing record.
\<close>

section \<open>Store calls\<close>

lemma run_write_snapshot:
  "run_write env n payload rid stmt st = (Inr snap, st') \<Longrightarrow> \<exists>r. snap = row_to_snapshot rid r \<and> map_of (st_rows st') rid = Some r"
  by (auto simp: run_write_def rollback_def Let_def split: sum.splits option.splits if_splits dest: store_get_or_raise_Inr)

lemma store_save_snapshot:
  "store_save env (VDict [(''record_id'', VStr rid), (''revision'', VInt n), (''payload'', VDict p)]) st = (Inr snap, st') \<Longrightarrow>
   \<exists>r. snap = row_to_snapshot rid r \<and> map_of (st_rows st') rid = Some r"
  by (auto simp: store_save_def store_create_def normalize_record_input_def dict_get_or_def
      split: option.splits if_splits dest: run_write_snapshot)

lemma store_update_snapshot:
  "store_update env rid m st = (Inr snap, st') \<Longrightarrow> \<exists>r. snap = row_to_snapshot rid r \<and> map_of (st_rows st') rid = Some r"
  by (auto simp: store_update_def Let_def split: option.splits pyval.splits sum.splits if_splits prod.splits
      dest!: run_write_snapshot)

lemma store_mark_unsynced_snapshot:
  "store_mark_unsynced env rid st = (Inr snap, st') \<Longrightarrow> \<exists>r. snap = row_to_snapshot rid r \<and> map_of (st_rows st') rid = Some r"
  by (auto simp: store_mark_unsynced_def split: option.splits dest: store_update_snapshot)

text \<open>The three store calls of the runtime, with the id they are about.\<close>

definition calls_record :: "string \<Rightarrow> (store_env \<Rightarrow> store \<Rightarrow> (record_store_error + mapping) \<times> store) \<Rightarrow> bool" where
  "calls_record rid f \<longleftrightarrow> (\<forall>env st. quiet env \<longrightarrow> store_effect env rid st (f env st))"

lemma calls_record_save:
  "calls_record rid (\<lambda>env. store_save env (VDict [(''record_id'', VStr rid), (''revision'', VInt n), (''payload'', VDict p)]))"
proof -
  have "input_id env (VDict [(''record_id'', VStr rid), (''revision'', VInt n), (''payload'', VDict p)]) = rid" for env
    by (simp add: input_id_def normalize_record_input_def dict_get_or_def)
  then show ?thesis unfolding calls_record_def using store_save_effect by metis
qed

lemma calls_record_update: "calls_record rid (\<lambda>env. store_update env rid m)"
  unfolding calls_record_def using store_update_effect by blast

lemma calls_record_mark: "calls_record rid (\<lambda>env. store_mark_unsynced env rid)"
  unfolding calls_record_def using store_mark_unsynced_effect by blast

section \<open>Remembered revisions\<close>

text \<open>
  No statement of the engine fails after a row was written: no commit, rollback or read-back, and no read
  of the getter by which the runtime learns the revision of a row it has marked.
\<close>

definition reads_back :: "('x, 'p) runtime_ports \<Rightarrow> bool" where
  "reads_back rp \<longleftrightarrow> (\<forall>x. (\<forall>a. lossless (rp_store_env rp x a)) \<and> se_fault (rp_store_env rp x GetAction) Read_Current = None)"

definition tracked :: "('x, 'p) runtime_ports \<Rightarrow> ('x, 'p) runtime_world \<Rightarrow> bool" where
  "tracked rp w \<longleftrightarrow> (\<forall>rid v. map_of (rw_revisions w) rid = Some v \<longrightarrow>
     (\<exists>v'. store_version (rw_store w) rid = Some v' \<and> v \<le> v' \<and> (reads_back rp \<longrightarrow> v' = v)))"

definition no_other_writer :: "('x, 'p) runtime_ports \<Rightarrow> bool" where
  "no_other_writer rp \<longleftrightarrow> (\<forall>x a. quiet (rp_store_env rp x a))"

lemma store_call_cases:
  assumes "no_other_writer rp" and "calls_record rid f" and "store_call rp a f w = (out, w')"
  obtains (failed) e where "out = Inl e" "rw_revisions w' = rw_revisions w" "st_rows (rw_store w') = st_rows (rw_store w)"
  | (stored) r where "out = Inr (row_to_snapshot rid r)" "rw_revisions w' = rw_revisions w"
      "row_written rid r (st_rows (rw_store w)) (st_rows (rw_store w'))"
  | (lost) e r where "out = Inl e" "\<not> reads_back rp" "rw_revisions w' = rw_revisions w"
      "row_written rid r (st_rows (rw_store w)) (st_rows (rw_store w'))"
proof (cases "f (rp_store_env rp (rw_rest w) a) (rw_store w)")
  case (Pair res st)
  let ?env = "rp_store_env rp (rw_rest w) a"
  have "quiet ?env" using assms(1) by (simp add: no_other_writer_def)
  then have "store_effect ?env rid (rw_store w) (res, st)" using assms(2) Pair by (metis calls_record_def)
  then show ?thesis
  proof (cases rule: store_effect_rows)
    case (same e)
    with Pair assms(3) show ?thesis by (intro failed) (auto simp: store_call_def)
  next
    case (written r)
    have w': "rw_revisions w' = rw_revisions w" "rw_store w' = st"
      using Pair assms(3) by (auto simp: store_call_def split: sum.splits)
    from written(2) show ?thesis
    proof (elim disjE exE conjE)
      assume "res = Inr (row_to_snapshot rid r)"
      with Pair assms(3) have "out = Inr (row_to_snapshot rid r)" by (simp add: store_call_def)
      with w' written(1) show ?thesis by (intro stored [of r]) simp_all
    next
      fix e
      assume e: "res = Inl e" "\<not> lossless ?env"
      then have "\<not> reads_back rp" by (auto simp: reads_back_def)
      moreover have "out = Inl (store_exception e)" using e(1) Pair assms(3) by (auto simp: store_call_def)
      ultimately show ?thesis using w' written(1) by (intro lost) simp_all
    qed
  qed
qed

definition versions_grow :: "('x, 'p) runtime_world \<Rightarrow> ('x, 'p) runtime_world \<Rightarrow> bool" where
  "versions_grow w w' \<longleftrightarrow> (\<forall>rid v. store_version (rw_store w) rid = Some v \<longrightarrow>
     (\<exists>v'. store_version (rw_store w') rid = Some v' \<and> v \<le> v'))"

text \<open>What every record call keeps: no stored revision falls, and the remembered ones stay close to them.\<close>

definition advances :: "('x, 'p) runtime_ports \<Rightarrow> ('x, 'p) runtime_world \<Rightarrow> ('x, 'p) runtime_world \<Rightarrow> bool" where
  "advances rp w w' \<longleftrightarrow> (tracked rp w \<longrightarrow> tracked rp w') \<and> versions_grow w w'"

lemma advances_refl [simp]: "advances rp w w"
  by (simp add: advances_def versions_grow_def)

lemma advances_trans: "advances rp w w1 \<Longrightarrow> advances rp w1 w2 \<Longrightarrow> advances rp w w2"
  unfolding advances_def versions_grow_def by (meson order_trans)

lemma advances_same:
  "st_rows (rw_store w') = st_rows (rw_store w) \<Longrightarrow> rw_revisions w' = rw_revisions w \<Longrightarrow> advances rp w w'"
  by (auto simp: advances_def tracked_def versions_grow_def store_version_def)

lemma written_version:
  assumes "row_written rid r (st_rows (rw_store w)) (st_rows (rw_store w'))"
  shows "store_version (rw_store w') k = (if k = rid then Some (row_revision r) else store_version (rw_store w) k)"
    and "store_version (rw_store w) rid = Some v \<Longrightarrow> v < row_revision r"
  using row_written_lookup [OF assms] by (auto simp: store_version_def)

lemma advances_written:
  assumes "row_written rid r (st_rows (rw_store w)) (st_rows (rw_store w'))"
    and "rw_revisions w' = rw_revisions w \<and> \<not> reads_back rp \<or>
      rw_revisions w' = AList.update rid (row_revision r) (rw_revisions w)"
  shows "advances rp w w'"
  unfolding advances_def
proof
  note v = written_version [OF assms(1)]
  show "versions_grow w w'" unfolding versions_grow_def using v by (auto simp: less_imp_le)
  show "tracked rp w \<longrightarrow> tracked rp w'"
  proof
    assume t: "tracked rp w"
    have "\<exists>v'. store_version (rw_store w') k = Some v' \<and> u \<le> v' \<and> (reads_back rp \<longrightarrow> v' = u)"
      if u: "map_of (rw_revisions w') k = Some u" for k u
    proof (cases "k = rid \<and> rw_revisions w' = AList.update rid (row_revision r) (rw_revisions w)")
      case True
      with u v(1) show ?thesis by auto
    next
      case False
      then have "map_of (rw_revisions w) k = Some u" using u assms(2) by (auto split: if_splits)
      with t obtain v' where v': "store_version (rw_store w) k = Some v'" "u \<le> v'" "reads_back rp \<longrightarrow> v' = u"
        by (auto simp: tracked_def)
      show ?thesis
      proof (cases "k = rid")
        case True
        with False assms(2) have "\<not> reads_back rp" by auto
        with True v v' show ?thesis by fastforce
      qed (use v v' in auto)
    qed
    then show "tracked rp w'" by (simp add: tracked_def)
  qed
qed

lemmas advances_stored = advances_written [OF _ disjI2]
lemmas advances_lost = advances_written [OF _ disjI1]

lemma revision_of_snapshot [simp]:
  "extract_record_revision cv (VDict (row_to_snapshot rid r)) fallback = row_revision r"
  by (simp add: extract_record_revision_def)

lemma id_of_snapshot:
  "strip rid = rid \<Longrightarrow> rid \<noteq> [] \<Longrightarrow> extract_record_id p (VDict (row_to_snapshot rid r)) = rid"
  by (simp add: extract_record_id_def Let_def)

lemma resolved_id_ne: "resolve_runtime_record_id sha p \<noteq> []"
  by (auto simp: resolve_runtime_record_id_def identity_record_id_def split: option.splits pyval.splits)

lemma save_advances:
  assumes "no_other_writer rp" and "strip (resolve_runtime_record_id (rp_sha256 rp) p) = resolve_runtime_record_id (rp_sha256 rp) p"
    and "runtime_save_record rp p w = (out, w')"
  shows "advances rp w w'"
proof (cases "save_payload p")
  case (Inl e)
  with assms show ?thesis by (simp add: runtime_save_record_def Let_def)
next
  case (Inr payload)
  let ?rid = "resolve_runtime_record_id (rp_sha256 rp) p"
  let ?n = "dict_get_or (rw_revisions w) ?rid (-1) + 1"
  let ?f = "\<lambda>env. store_save env (VDict [(''record_id'', VStr ?rid), (''revision'', VInt ?n), (''payload'', VDict payload)])"
  obtain res w1 where c: "store_call rp SaveAction ?f w = (res, w1)" by (cases "store_call rp SaveAction ?f w")
  from assms(1) calls_record_save c show ?thesis
  proof (cases rule: store_call_cases)
    case (failed e)
    with assms(3) c Inr show ?thesis by (intro advances_same) (auto simp: runtime_save_record_def Let_def)
  next
    case (lost e r)
    with assms(3) c Inr show ?thesis by (intro advances_lost [of ?rid r]) (auto simp: runtime_save_record_def Let_def)
  next
    case (stored r)
    have "extract_record_id p (VDict (row_to_snapshot ?rid r)) = ?rid"
      using assms(2) resolved_id_ne by (rule id_of_snapshot)
    with assms(3) c Inr stored(1, 2) have "w' = w1\<lparr>rw_revisions := AList.update ?rid (row_revision r) (rw_revisions w)\<rparr>"
      by (simp add: runtime_save_record_def Let_def)
    then show ?thesis using stored(3) by (intro advances_stored [of ?rid r]) simp_all
  qed
qed

lemma bookkeeping_advances:
  assumes "no_other_writer rp" and "runtime_update_bookkeeping rp rid cand w = (out, w')"
  shows "advances rp w w'"
proof (cases "map_of (rw_revisions w) rid")
  case None
  with assms show ?thesis by (simp add: runtime_update_bookkeeping_def)
next
  case (Some expected)
  let ?f = "\<lambda>env. store_update env rid (VDict [(''expected_revision'', VInt expected),
      (''payload'', VDict [(''bookkeeping'', VStr ''updated''), (''plugin_id'', opt_text (cd_plugin_id cand)),
         (''persisted_path'', opt_text (cd_persisted_path cand))])])"
  obtain res w1 where c: "store_call rp UpdateAction ?f w = (res, w1)" by (cases "store_call rp UpdateAction ?f w")
  from assms(1) calls_record_update c show ?thesis
  proof (cases rule: store_call_cases)
    case (failed e)
    with assms c Some show ?thesis by (intro advances_same) (auto simp: runtime_update_bookkeeping_def)
  next
    case (lost e r)
    with assms c Some show ?thesis by (intro advances_lost [of rid r]) (auto simp: runtime_update_bookkeeping_def)
  next
    case (stored r)
    with assms(2) c Some have "w' = w1\<lparr>rw_revisions := AList.update rid (row_revision r) (rw_revisions w)\<rparr>"
      by (simp add: runtime_update_bookkeeping_def)
    then show ?thesis using stored(3) by (intro advances_stored [of rid r]) simp_all
  qed
qed

lemma mark_advances:
  assumes "no_other_writer rp" shows "advances rp w (mark_runtime_record_unsynced rp rid w)"
proof -
  obtain res w1 where c: "store_call rp MarkAction (\<lambda>env. store_mark_unsynced env rid) w = (res, w1)"
    by (cases "store_call rp MarkAction (\<lambda>env. store_mark_unsynced env rid) w")
  from assms calls_record_mark c show ?thesis
  proof (cases rule: store_call_cases)
    case (failed e)
    with c show ?thesis by (intro advances_same) (auto simp: mark_runtime_record_unsynced_def)
  next
    case (lost e r)
    with c show ?thesis by (intro advances_lost [of rid r]) (auto simp: mark_runtime_record_unsynced_def)
  next
    case (stored r)
    show ?thesis
    proof (cases "se_fault (rp_store_env rp (rw_rest w1) GetAction) Read_Current")
      case None
      then have "store_get (rp_store_env rp (rw_rest w1) GetAction) Read_Current (rw_store w1) rid = Inr (Some (row_to_snapshot rid r))"
        using row_written_lookup(1) [OF stored(3)] by (simp add: store_get_def)
      then have "mark_runtime_record_unsynced rp rid w = w1\<lparr>rw_revisions := AList.update rid (row_revision r) (rw_revisions w)\<rparr>"
        using c stored(1, 2) by (simp add: mark_runtime_record_unsynced_def)
      then show ?thesis using stored(3) by (intro advances_stored [of rid r]) simp_all
    next
      case (Some fault)
      then have "\<not> reads_back rp" by (auto simp: reads_back_def)
      moreover have "mark_runtime_record_unsynced rp rid w = w1"
        using Some c stored(1) by (simp add: mark_runtime_record_unsynced_def store_get_def)
      ultimately show ?thesis using stored(2, 3) by (intro advances_lost [of rid r]) simp_all
    qed
  qed
qed

lemma rest_advances: "on_rest m w = (r, w') \<Longrightarrow> advances rp w w'"
  by (auto simp: on_rest_def split: prod.splits intro: advances_same)

lemma sync_payload_advances: "build_runtime_sync_payload rp st w = (r, w') \<Longrightarrow> advances rp w w'"
  by (auto simp: build_runtime_sync_payload_def Let_def split: option.splits dest: rest_advances)

lemma sync_advances:
  assumes "no_other_writer rp" and "runtime_trigger_sync rp st w = (out, w')"
  shows "advances rp w w'"
proof (cases "\<exists>rid. ig_record_id st = Some rid \<and> strip rid \<noteq> []")
  case False
  with assms show ?thesis by (auto simp: runtime_trigger_sync_def split: option.splits if_splits)
next
  case True
  then obtain rid where rid: "ig_record_id st = Some rid" "strip rid \<noteq> []" by blast
  let ?sync = "io_bind (build_runtime_sync_payload rp st) (\<lambda>payload. on_rest (rp_sync_record rp (Some (strip rid)) payload))"
  obtain r w1 where s: "?sync w = (r, w1)" by (cases "?sync w")
  then have "advances rp w w1"
    by (auto simp: io_bind_def split: prod.splits sum.splits dest!: sync_payload_advances rest_advances intro: advances_trans)
  moreover have "advances rp w1 w'"
    using assms(2) rid s mark_advances [OF assms(1), of w1 rid]
    by (cases r) (auto simp: runtime_trigger_sync_def split: if_splits)
  ultimately show ?thesis by (rule advances_trans)
qed

lemma move_advances: "runtime_move_file rp s t w = (out, w') \<Longrightarrow> advances rp w w'"
  by (auto simp: runtime_move_file_def split: prod.splits sum.splits dest: rest_advances)

section \<open>Runs of the runtime's record calls\<close>

datatype ('x, 'p) record_op =
    RunMove string string
  | RunSave mapping
  | RunBookkeeping string candidate
  | RunSync "(('x, 'p) runtime_world, processing_context) ingestion_state"
  | RunEmitSyncError string string string

fun record_call :: "('x, 'p) runtime_ports \<Rightarrow> ('x, 'p) record_op \<Rightarrow> ('x, 'p) runtime_world \<Rightarrow> ('x, 'p) runtime_world" where
  "record_call rp (RunMove s t) w = snd (runtime_move_file rp s t w)"
| "record_call rp (RunSave p) w = snd (runtime_save_record rp p w)"
| "record_call rp (RunBookkeeping rid cand) w = snd (runtime_update_bookkeeping rp rid cand w)"
| "record_call rp (RunSync st) w = snd (runtime_trigger_sync rp st w)"
| "record_call rp (RunEmitSyncError i rid why) w = snd (runtime_emit_sync_error rp i rid why w)"

text \<open>A record id without outer white space, as every digest of the candidate gives.\<close>

fun clean_op :: "('x, 'p) runtime_ports \<Rightarrow> ('x, 'p) record_op \<Rightarrow> bool" where
  "clean_op rp (RunSave p) \<longleftrightarrow>
     strip (resolve_runtime_record_id (rp_sha256 rp) p) = resolve_runtime_record_id (rp_sha256 rp) p"
| "clean_op rp _ \<longleftrightarrow> True"

lemma record_call_advances:
  assumes "no_other_writer rp" and "clean_op rp x"
  shows "advances rp w (record_call rp x w)"
proof (cases x)
  case (RunSave p)
  obtain a b where c: "runtime_save_record rp p w = (a, b)" by fastforce
  with save_advances [OF assms(1) _ c] assms(2) RunSave show ?thesis by simp
next
  case (RunSync st)
  obtain a b where c: "runtime_trigger_sync rp st w = (a, b)" by fastforce
  with sync_advances [OF assms(1) c] RunSync show ?thesis by simp
next
  case (RunBookkeeping rid cand)
  obtain a b where c: "runtime_update_bookkeeping rp rid cand w = (a, b)" by fastforce
  with bookkeeping_advances [OF assms(1) c] RunBookkeeping show ?thesis by simp
next
  case (RunMove s t)
  obtain a b where c: "runtime_move_file rp s t w = (a, b)" by fastforce
  with move_advances [OF c] RunMove show ?thesis by simp
next
  case (RunEmitSyncError i rid why)
  obtain a b where c: "runtime_emit_sync_error rp i rid why w = (a, b)" by fastforce
  with rest_advances have "advances rp w b" unfolding runtime_emit_sync_error_def by blast
  with c RunEmitSyncError show ?thesis by simp
qed

interpretation recording: guarded_calls "record_call rp" "\<lambda>x. no_other_writer rp \<and> clean_op rp x" "tracked rp" "advances rp"
  by unfold_locales (use record_call_advances in \<open>auto simp: advances_def [of _ _ "record_call _ _ _"] intro: advances_trans\<close>)

text \<open>A bookkeeping call on a remembered revision, with no fault of the engine.\<close>

abbreviation bookkeeping_patch :: "candidate \<Rightarrow> mapping" where
  "bookkeeping_patch cand \<equiv> [(''bookkeeping'', VStr ''updated''), (''plugin_id'', opt_text (cd_plugin_id cand)),
     (''persisted_path'', opt_text (cd_persisted_path cand))]"

lemma bookkeeping_succeeds:
  assumes "undisturbed (rp_store_env rp (rw_rest w) UpdateAction) (rw_store w)"
    and "map_of (rw_revisions w) rid = Some v" and "map_of (st_rows (rw_store w)) rid = Some r" and "row_revision r = v"
    and "sqlite_integer (v + 1)" and "json_payload (dict_update (row_payload r) (bookkeeping_patch cand)) = Inr q"
  shows "\<exists>w'. runtime_update_bookkeeping rp rid cand w = (Inr (call_success (VBool True) ''update_bookkeeping''), w') \<and>
    (\<exists>r'. map_of (st_rows (rw_store w')) rid = Some r' \<and> row_revision r' = v + 1 \<and> row_payload r' = q) \<and>
    map_of (rw_revisions w') rid = Some (v + 1)"
proof -
  let ?env = "rp_store_env rp (rw_rest w) UpdateAction"
  let ?new = "\<lparr>row_revision = v + 1, row_payload = q, row_updated_at = se_now ?env\<rparr>"
  let ?st = "rw_store w\<lparr>st_rows := sql_update (\<lambda>k r. k = rid \<and> row_revision r = v) ?new (st_rows (rw_store w))\<rparr>"
  have "store_update ?env rid (VDict [(''expected_revision'', VInt v), (''payload'', VDict (bookkeeping_patch cand))]) (rw_store w) =
      (Inr (row_to_snapshot rid ?new), ?st)"
    by (rule store_update_undisturbed [OF assms(1) _ _ assms(3, 4, 5, 6)]) simp_all
  then have "store_call rp UpdateAction (\<lambda>env. store_update env rid
      (VDict [(''expected_revision'', VInt v), (''payload'', VDict (bookkeeping_patch cand))])) w =
      (Inr (row_to_snapshot rid ?new), w\<lparr>rw_store := ?st\<rparr>)" by (simp add: store_call_def)
  then show ?thesis using assms(2, 3, 4) by (simp add: runtime_update_bookkeeping_def map_of_sql_update)
qed

text \<open>Bookkeeping on a revision the store has left behind changes nothing.\<close>

lemma stale_bookkeeping_fails:
  assumes "map_of (rw_revisions w) rid = Some v" and "store_version (rw_store w) rid = Some v'" and "v \<noteq> v'"
  shows "\<exists>e. runtime_update_bookkeeping rp rid cand w = (Inr (call_failed ''bookkeeping_failed'' e), w)"
proof -
  obtain r where r: "map_of (st_rows (rw_store w)) rid = Some r" "row_revision r = v'" using assms(2) by (auto simp: store_version_def)
  have "\<exists>e. store_update env rid (VDict [(''expected_revision'', VInt v), (''payload'', VDict p)]) (rw_store w) = (Inl e, rw_store w)" for env p
    using r assms(3) by (auto simp: store_update_def split: option.split)
  from this [of "rp_store_env rp (rw_rest w) UpdateAction" "bookkeeping_patch cand"] obtain e where
    "store_update (rp_store_env rp (rw_rest w) UpdateAction) rid
       (VDict [(''expected_revision'', VInt v), (''payload'', VDict (bookkeeping_patch cand))]) (rw_store w) = (Inl e, rw_store w)" by blast
  then have "store_call rp UpdateAction (\<lambda>env. store_update env rid
      (VDict [(''expected_revision'', VInt v), (''payload'', VDict (bookkeeping_patch cand))])) w = (Inl (store_exception e), w)"
    by (simp add: store_call_def)
  then show ?thesis using assms(1) by (auto simp: runtime_update_bookkeeping_def)
qed


definition demo_runtime_ports :: "(string list, string) runtime_ports" where
  "demo_runtime_ports = \<lparr>rp_conv = demo_conv, rp_digest = (\<lambda>_. ''0123456789abcdef''), rp_sha256 = (\<lambda>s. s),
     rp_move = (\<lambda>s t x. (Inr (VStr t), x @ [s @ ''>'' @ t])), rp_store_env = (\<lambda>_ _. demo_env),
     rp_sync_record = (\<lambda>rid p x. (Inr \<lparr>sy_status = ''synced'', sy_remote_id = None, sy_reason_code = None, sy_metadata = []\<rparr>, x @ [''sync''])),
     rp_prepare_sync_payload = None, rp_emit = (\<lambda>e x. (Inr (), x @ [''event''])), rp_clock_now = (\<lambda>x. (Inr (VInt 9), x)),
     rp_normalize_path = None, rp_stat = (\<lambda>_ _. Some (3, 5)), rp_get_device_plugins = Some (\<lambda>x. (Inr [VStr ''d1''], x)),
     rp_create_device_processor = Some (\<lambda>i _ x. (Inr i, x)),
     rp_methods = (\<lambda>_. \<lparr>px_prepare = None, px_can_process = None, px_process = Some (\<lambda>m _ w. (Inr (OutRaw (VDict
        [(''final_path'', get_or_none m ''source_path''), (''datatype'', VStr ''txt'')])), w))\<rparr>),
     rp_source_extensions = (\<lambda>_. VNone),
     rp_policy = \<lparr>rpp_selected_pc_plugin = None, rpp_scoped_device_plugins = [], rpp_pc_scope_applied = False\<rparr>,
     rp_dest = VStr ''/out'', rp_settle_delay = 2\<rparr>"

definition demo_runtime_world :: "(string list, string) runtime_world" where
  "demo_runtime_world = \<lparr>rw_store = \<lparr>st_rows = [], st_schema_version = Some 1, st_in_transaction = False\<rparr>, rw_revisions = [], rw_last_seen = [],
     rw_cache = [], rw_rest = []\<rparr>"

definition demo_record_calls :: "(string list, string) record_op list" where
  "demo_record_calls = [RunMove ''/in/a'' ''/out/a'',
     RunSave [(''candidate'', VDict [(''identity_token'', VStr ''0123456789abcdef'')]), (''target_path'', VStr ''/out/a'')]]"


section \<open>After a restart\<close>

lemma planner_stops [simp]:
  "failure_directive cv why runtime_retry_planner x st w =
     (Inr (terminal x (Some (with_diagnostics ''persist'' (reason why) st))), w)"
proof -
  have "str_lower (strip ''stop_retrying'') = ''stop_retrying''" by code_simp
  then show ?thesis
    by (simp add: failure_directive_def retry_or_terminal_for_failure_def runtime_retry_planner_def
        normalized_retry_plan_def dict_get_or_def get_or_none_def)
qed


definition stored_world :: "(string list, string) runtime_world" where
  "stored_world = demo_runtime_world\<lparr>rw_store := \<lparr>st_rows = [(''record-0123456789ab'',
     \<lparr>row_revision = 1, row_payload = [], row_updated_at = ''t0''\<rparr>)], st_schema_version = Some 1, st_in_transaction = False\<rparr>\<rparr>"

definition routed_candidate :: candidate where
  "routed_candidate = \<lparr>cd_identity_token = ''0123456789abcdef'', cd_source_path = ''/in/a'', cd_event_kind = ''created'',
     cd_observed_at = 0, cd_size = None, cd_modified_at = None, cd_fingerprint = None, cd_plugin_id = Some ''d1'',
     cd_processor_key = Some ''d1'', cd_target_path = Some ''/out/a'', cd_route_tokens = None, cd_record_id = None,
     cd_persisted_path = None\<rparr>"

definition routed_state :: "((string list, string) runtime_world, processing_context) ingestion_state" where
  "routed_state = (state_from_event demo_conv (\<lambda>_. ''h'') [] None)\<lparr>ig_candidate := Some routed_candidate\<rparr>"


section \<open>Deferral\<close>

lemma runtime_stabilize_outcomes:
  "case run_stabilize_stage runtime_gate now_provider delay st w of
     (Inl _, _) \<Rightarrow> True
   | (Inr d, _) \<Rightarrow> sd_outcome d \<noteq> Some P_REJECTED \<and>
       (sd_outcome d = Some P_RETRY \<longrightarrow>
        (\<exists>cand m now w1. ig_candidate st = Some cand \<and> cd_modified_at cand = Some m \<and> now_provider w = (Inr now, w1) \<and>
           now - m < delay))"
  by (auto simp: run_stabilize_stage_def runtime_gate_def gate_state_evaluate_def decision_attribute_def
      decision_token_def Let_def terminal_def proceed_def split: option.split prod.split sum.split)

lemma runtime_persist_outcomes:
  "case run_persist_stage cv move save runtime_retry_planner st w of
     (Inl _, _) \<Rightarrow> True | (Inr d, _) \<Rightarrow> sd_outcome d \<noteq> Some P_RETRY"
  by (auto simp: run_persist_stage_def after_save_def Let_def terminal_def proceed_def rbind_def
      split: option.split prod.split sum.split)


text \<open>The gate has seen the candidate at this very time, and answers \<^verbatim>\<open>drop_duplicate\<close>.\<close>

definition repeated_state :: "((string list, string) runtime_world, processing_context) ingestion_state" where
  "repeated_state = routed_state\<lparr>ig_candidate := Some (routed_candidate\<lparr>cd_modified_at := Some 0\<rparr>)\<rparr>"

definition seen_world :: "(string list, string) runtime_world" where
  "seen_world = demo_runtime_world\<lparr>rw_last_seen := [(''0123456789abcdef'', 9)]\<rparr>"


end
