(* ===== verification/Runtime_Select_Correct.thy ===== *)
theory Runtime_Select_Correct
  imports Runtime_Select Plugin_Calls Runtime_Records_Correct
begin

text \<open>
  Properties of the runtime's processor selection, alone and over the plugin policy that a PC plugin of the
  plugin host resolves.
\<close>

text \<open>What a successful selection has chosen, over the ids it tried.\<close>

definition chosen ::
    "('x, 'p) runtime_ports \<Rightarrow> string list \<Rightarrow> ('x, 'p) runtime_world \<Rightarrow> ('x, 'p) runtime_world \<Rightarrow>
     (('x, 'p) runtime_world, processing_context) processor processor_selection \<Rightarrow> bool" where
  "chosen rp ids w w' sel \<longleftrightarrow>
     (let i = sl_plugin_id (sel_descriptor sel) in
      i \<in> set ids \<and> sl_processor_key (sel_descriptor sel) = i \<and> px_process (sel_processor sel) \<noteq> None \<and>
      (map_of (rw_cache w) i \<noteq> None \<longrightarrow> sl_cache_hit (sel_descriptor sel)) \<and>
      (case map_of (rw_cache w') i of
         Some p \<Rightarrow> sel_processor sel = lift_processor (rp_methods rp p)
       | None \<Rightarrow> sel_processor sel = default_processor_methods (rp_conv rp) i))"

lemma cached_later: "cache_grows w w1 \<Longrightarrow> map_of (rw_cache w) i \<noteq> None \<Longrightarrow> map_of (rw_cache w1) i \<noteq> None"
  by (force simp: cache_grows_def map_le_def dom_def)

lemma first_usable_chosen:
  "first_usable rp cand ids w = (out, w') \<Longrightarrow> cache_grows w w' \<and>
     (case out of Inl e \<Rightarrow> e = ProcessorNotFoundError ''No runtime processor available for candidate.''
      | Inr sel \<Rightarrow> chosen rp ids w w' sel)"
proof (induction ids arbitrary: w)
  case (Cons i ids)
  obtain r hit w1 where u: "usable_processor rp i cand w = ((r, hit), w1)" by (metis prod.collapse)
  note c = usable_cache [OF u]
  show ?case
  proof (cases r)
    case None
    with Cons.prems u have "first_usable rp cand ids w1 = (out, w')" by simp
    from Cons.IH [OF this] c cached_later show ?thesis
      by (auto simp: chosen_def Let_def intro: cache_grows_trans split: sum.splits)
  next
    case (Some x)
    with Cons.prems u c show ?thesis
      by (cases x) (auto simp: chosen_def processor_methods_def Let_def)
  qed
qed auto

text \<open>
  Selecting a processor for a candidate only adds to the processor cache and never replaces an entry. It
  either finds no processor, and then raises exactly that error, or returns a processor with a process
  method for one of the plugins tried, in their order: the cached one of the plugin if there is one, and the
  default processor if the plugin could not build any. With a PC scope in force only the plugins of that
  scope are tried, and with an empty scope none.
\<close>

theorem runtime_selection_sound:
  assumes "candidate_plugin_ids rp w = (ids, w0)" and "select_runtime_processor rp cand w = (out, w')"
  shows "map_of (rw_cache w) \<subseteq>\<^sub>m map_of (rw_cache w') \<and> rw_store w' = rw_store w \<and>
    (rpp_pc_scope_applied (rp_policy rp) \<longrightarrow> set ids \<subseteq> strip ` set (rpp_scoped_device_plugins (rp_policy rp))) \<and>
    (case out of
       Inl e \<Rightarrow> e = ProcessorNotFoundError ''No runtime processor available for candidate.''
     | Inr sel \<Rightarrow> (let i = sl_plugin_id (sel_descriptor sel) in
         i \<in> set ids \<and> px_process (sel_processor sel) \<noteq> None \<and>
         (map_of (rw_cache w) i \<noteq> None \<longrightarrow> sl_cache_hit (sel_descriptor sel)) \<and>
         (case map_of (rw_cache w') i of
            Some p \<Rightarrow> sel_processor sel = lift_processor (rp_methods rp p)
          | None \<Rightarrow> sel_processor sel = default_processor_methods (rp_conv rp) i)))"
proof -
  note c0 = candidate_ids_cache [OF assms(1)]
  from assms have "first_usable rp cand ids w0 = (out, w')" by (simp add: select_runtime_processor_def)
  note f = first_usable_chosen [OF this]
  from c0 f have g: "cache_grows w w'" using cache_grows_trans by blast
  have "rpp_pc_scope_applied (rp_policy rp) \<longrightarrow> set ids \<subseteq> strip ` set (rpp_scoped_device_plugins (rp_policy rp))"
    using assms(1) by (auto simp: candidate_plugin_ids_def)
  moreover have "case out of
       Inl e \<Rightarrow> e = ProcessorNotFoundError ''No runtime processor available for candidate.''
     | Inr sel \<Rightarrow> (let i = sl_plugin_id (sel_descriptor sel) in
         i \<in> set ids \<and> px_process (sel_processor sel) \<noteq> None \<and>
         (map_of (rw_cache w) i \<noteq> None \<longrightarrow> sl_cache_hit (sel_descriptor sel)) \<and>
         (case map_of (rw_cache w') i of
            Some p \<Rightarrow> sel_processor sel = lift_processor (rp_methods rp p)
          | None \<Rightarrow> sel_processor sel = default_processor_methods (rp_conv rp) i))"
    using f c0 by (cases out) (simp_all add: chosen_def Let_def)
  ultimately show ?thesis using g by (simp add: cache_grows_def)
qed

definition scoped_ports :: "(string list, string) runtime_ports" where
  "scoped_ports = demo_runtime_ports\<lparr>rp_policy := \<lparr>rpp_selected_pc_plugin = Some ''p1'',
     rpp_scoped_device_plugins = [''d1'', ''d2''], rpp_pc_scope_applied = True\<rparr>,
     rp_source_extensions := (\<lambda>p. VList [VStr (if p = ''d1'' then ''.csv'' else '' .TXT '')])\<rparr>"

theorem runtime_selection_sound_witness:
  "\<exists>sel w. select_runtime_processor scoped_ports (routed_candidate\<lparr>cd_source_path := ''/in/a.txt''\<rparr>) demo_runtime_world = (Inr sel, w) \<and>
     sl_plugin_id (sel_descriptor sel) = ''d2'' \<and> px_process (sel_processor sel) \<noteq> None \<and> map fst (rw_cache w) = [''d1'', ''d2'']"
proof -
  let ?c = "routed_candidate\<lparr>cd_source_path := ''/in/a.txt''\<rparr>"
  have "case select_runtime_processor scoped_ports ?c demo_runtime_world of (Inl _, _) \<Rightarrow> False
    | (Inr sel, w) \<Rightarrow> sl_plugin_id (sel_descriptor sel) = ''d2'' \<and> map fst (rw_cache w) = [''d1'', ''d2'']" by code_simp
  then obtain sel w where r: "select_runtime_processor scoped_ports ?c demo_runtime_world = (Inr sel, w)"
    "sl_plugin_id (sel_descriptor sel) = ''d2'' \<and> map fst (rw_cache w) = [''d1'', ''d2'']" by (rule run_outcomeE)
  obtain ids w0 where i: "candidate_plugin_ids scoped_ports demo_runtime_world = (ids, w0)" by fastforce
  from runtime_selection_sound [OF i r(1)] have "px_process (sel_processor sel) \<noteq> None" by (simp add: Let_def)
  with r show ?thesis by (intro exI [where x = sel] exI [where x = w] conjI) simp_all
qed

section \<open>Under the scope of a PC plugin\<close>

text \<open>
  C13. When the runtime's policy was resolved by a PC plugin of a reachable plugin host, every processor the
  runtime selects belongs to an active device plugin of that host that the PC plugin's settings name and,
  where the runtime's settings list device plugins, that list contains.
\<close>

theorem runtime_selects_active_device:
  assumes "make_plugin_host he is_processor ds hw = (Inr h0, hw0)"
    and "fold (host_call he is_processor) calls (h0, hw0) = (h, hw1)"
    and "resolve_runtime_plugin_policy cv (Some (\<lambda>pc. resolve_device_scope_for_pc he extra h pc [] True)) settings hw1 = (Inr policy, hw2)"
    and "extract_selected_pc_plugin settings = Some pc" and "rp_policy rp = policy"
    and "select_runtime_processor rp cand w = (Inr sel, w')"
  shows "let i = sl_plugin_id (sel_descriptor sel); configured = extract_selected_device_plugins cv settings in
    i \<in> set (ph_active_plugin_ids h) \<and> (\<exists>d. get_plugin (ph_catalog h) i = Inr d \<and> pd_family d = ''device'') \<and>
    (configured \<noteq> [] \<longrightarrow> i \<in> set configured)"
proof -
  let ?resolve = "resolve_device_scope_for_pc he extra h pc [] True"
  obtain s where s: "?resolve hw1 = (Inr s, hw2)"
    and policy: "rpp_scoped_device_plugins policy = (if extract_selected_device_plugins cv settings = [] then ps_device_plugin_ids s
        else filter (\<lambda>i. i \<in> set (extract_selected_device_plugins cv settings)) (ps_device_plugin_ids s))"
      "rpp_pc_scope_applied policy"
    using assms(3, 4) by (auto simp: resolve_runtime_plugin_policy_def Let_def split: prod.splits sum.splits host_error.splits)
  note scope = device_scope_facts [OF assms(1, 2) s]
  obtain ids w0 where ids: "candidate_plugin_ids rp w = (ids, w0)" by fastforce
  with assms(6) have "first_usable rp cand ids w0 = (Inr sel, w')" by (simp add: select_runtime_processor_def)
  from first_usable_chosen [OF this] have "sl_plugin_id (sel_descriptor sel) \<in> set ids" by (simp add: chosen_def Let_def)
  with ids assms(5) policy(2) obtain j where j: "j \<in> set (rpp_scoped_device_plugins policy)"
      "sl_plugin_id (sel_descriptor sel) = strip j"
    by (auto simp: candidate_plugin_ids_def)
  from j(1) policy(1) have jd: "j \<in> set (ps_device_plugin_ids s)"
    "extract_selected_device_plugins cv settings \<noteq> [] \<longrightarrow> j \<in> set (extract_selected_device_plugins cv settings)"
    by (auto split: if_splits)
  from scope jd(1) have "j \<in> set (extract_active_device_plugins (he_conv he) extra (ps_normalized_settings s))"
    "j \<in> set (ph_active_plugin_ids h)" "\<exists>d. get_plugin (ph_catalog h) j = Inr d \<and> pd_family d = ''device''" by auto
  moreover from this(1) have "strip j = j" using stripped_names by blast
  ultimately show ?thesis using j(2) jd(2) by (simp add: Let_def)
qed

theorem runtime_selects_active_device_witness:
  "\<exists>policy sel w. resolve_runtime_plugin_policy demo_conv_env
       (Some (\<lambda>pc. resolve_device_scope_for_pc demo_host_env (\<lambda>v. v) (fst (demo_run [Activate (VStr ''prod'') None [] []])) pc [] True))
       (SettingsObject (VStr '' P1'') (VList [])) () = (Inr policy, ()) \<and>
     select_runtime_processor (demo_runtime_ports\<lparr>rp_policy := policy\<rparr>) routed_candidate demo_runtime_world = (Inr sel, w) \<and>
     sl_plugin_id (sel_descriptor sel) = ''d2'' \<and>
     ''d2'' \<in> set (ph_active_plugin_ids (fst (demo_run [Activate (VStr ''prod'') None [] []])))"
proof -
  let ?h = "fst (demo_run [Activate (VStr ''prod'') None [] []])"
  let ?settings = "SettingsObject (VStr '' P1'') (VList [])"
  let ?resolver = "Some (\<lambda>pc. resolve_device_scope_for_pc demo_host_env (\<lambda>v. v) ?h pc [] True)"
  have pc: "extract_selected_pc_plugin ?settings = Some ''p1''" by code_simp
  have "case resolve_runtime_plugin_policy demo_conv_env ?resolver ?settings () of (Inl _, _) \<Rightarrow> False
    | (Inr policy, _) \<Rightarrow> rpp_selected_pc_plugin policy = Some ''p1'' \<and> rpp_scoped_device_plugins policy = [''d2''] \<and> rpp_pc_scope_applied policy"
    by code_simp
  then obtain policy u where p: "resolve_runtime_plugin_policy demo_conv_env ?resolver ?settings () = (Inr policy, u)"
    "rpp_selected_pc_plugin policy = Some ''p1'' \<and> rpp_scoped_device_plugins policy = [''d2''] \<and> rpp_pc_scope_applied policy"
    by (rule run_outcomeE)
  define rp where "rp = demo_runtime_ports\<lparr>rp_policy := policy\<rparr>"
  have policy: "policy = \<lparr>rpp_selected_pc_plugin = Some ''p1'', rpp_scoped_device_plugins = [''d2''], rpp_pc_scope_applied = True\<rparr>"
    using p(2) by simp
  have "case select_runtime_processor rp routed_candidate demo_runtime_world of (Inl _, _) \<Rightarrow> False
    | (Inr sel, w) \<Rightarrow> sl_plugin_id (sel_descriptor sel) = ''d2''" unfolding rp_def policy by code_simp
  then obtain sel w where sel: "select_runtime_processor rp routed_candidate demo_runtime_world = (Inr sel, w)"
    "sl_plugin_id (sel_descriptor sel) = ''d2''" by (rule run_outcomeE)
  obtain h0 where h0: "make_plugin_host demo_host_env (\<lambda>_. True) demo_descriptors () = (Inr h0, ())"
    "demo_run [Activate (VStr ''prod'') None [] []] = fold (host_call demo_host_env (\<lambda>_. True)) [Activate (VStr ''prod'') None [] []] (h0, ())"
    using demo_host_exists by blast
  have run: "fold (host_call demo_host_env (\<lambda>_. True)) [Activate (VStr ''prod'') None [] []] (h0, ()) = (?h, ())"
    unfolding h0(2) [symmetric] by (simp add: prod_eq_iff)
  have "rp_policy rp = policy" by (simp add: rp_def)
  from runtime_selects_active_device [OF h0(1) run p(1) pc this sel(1)] sel(2)
  have "''d2'' \<in> set (ph_active_plugin_ids ?h)" by (simp add: Let_def)
  with p(1) sel show ?thesis unfolding rp_def by (intro exI [where x = policy] exI [where x = sel] exI [where x = w] conjI) simp_all
qed

end
