(* ===== verification/Runtime_Engine_Correct.thy ===== *)
theory Runtime_Engine_Correct
  imports Runtime_Engine Runtime_Select_Correct
begin

text \<open>
  The runtime's engine over its record store: a Hoare rule for the pipeline runner with an assertion per
  stage, the specification of each wired stage, and from them what the processing of an event leaves in the
  store. The digests are assumed to be texts without white space, as hexadecimal digests are.
\<close>

section \<open>A rule for the pipeline runner\<close>

text \<open>What a stage does from an assertion: go on under \<open>A\<close>, stop under \<open>Q\<close>, or raise under \<open>E\<close>.\<close>

definition leads ::
    "(string \<Rightarrow> 'st \<Rightarrow> 'w \<Rightarrow> bool) \<Rightarrow> (pipeline_outcome \<Rightarrow> 'st \<Rightarrow> 'w \<Rightarrow> bool) \<Rightarrow> ('w \<Rightarrow> bool) \<Rightarrow>
     ('e + 'st stage_directive) \<times> 'w \<Rightarrow> bool" where
  "leads A Q E out \<longleftrightarrow>
     (case out of (Inl _, w) \<Rightarrow> E w
      | (Inr d, w) \<Rightarrow> (\<exists>s st. d = proceed s st \<and> A s st w) \<or> (\<exists>x st. d = terminal x (Some st) \<and> Q x st w))"

lemma leads_simps [simp]:
  "leads A Q E (Inl e, w) \<longleftrightarrow> E w"
  "leads A Q E (Inr (proceed s st), w) \<longleftrightarrow> A s st w"
  "leads A Q E (Inr (terminal x (Some st)), w) \<longleftrightarrow> Q x st w"
  by (auto simp: leads_def proceed_def terminal_def)

lemma run_loop_leads:
  assumes "run_loop table n hs (io_return False) co stage st tlog steps prior w = (out, w')" and "A stage st w"
    and stages: "\<And>s h st w. map_of hs s = Some h \<Longrightarrow> A s st w \<Longrightarrow> leads A Q E (h st w)"
    and fails: "\<And>s st w. A s st w \<Longrightarrow> E w" "\<And>x st w. Q x st w \<Longrightarrow> E w"
  shows "case out of Inl _ \<Rightarrow> E w' | Inr r \<Rightarrow> Q (rr_outcome r) (rr_state r) w'"
  using assms(1, 2)
proof (induction "nat (n - steps)" arbitrary: stage st tlog steps prior w rule: less_induct)
  case less
  have no_cancel: "io_return False w = (Inr False, w)" by simp
  note run = less.prems(1) [unfolded run_loop.simps [of table n hs "io_return False" co stage st tlog steps prior w] no_cancel
      prod.case sum.case bool.case]
  show ?case
  proof (cases "n \<le> steps \<or> map_of table stage = None \<or> map_of hs stage = None")
    case True
    then show ?thesis using run fails(1) [OF less.prems(2)] by (auto split: if_splits option.splits)
  next
    case False
    then obtain p h where p: "map_of table stage = Some p" "map_of hs stage = Some h" "steps < n" by auto
    obtain x w2 where h: "h st w = (x, w2)" by (cases "h st w")
    from stages [OF p(2) less.prems(2)] have l: "leads A Q E (x, w2)" unfolding h .
    show ?thesis
    proof (cases x)
      case (Inl e)
      with l run p h show ?thesis by auto
    next
      case (Inr d)
      then consider (go) s st2 where "d = proceed s st2" "A s st2 w2" | (stop) y st2 where "d = terminal y (Some st2)" "Q y st2 w2"
        using l by (auto simp: leads_def)
      then show ?thesis
      proof cases
        case go
        show ?thesis
        proof (cases "s \<in> set (allowed_next_stages p)")
          case True
          with run p h Inr go have "run_loop table n hs (io_return False) co s st2 (tlog @ [continue_record stage s]) (steps + 1) (Some stage) w2 = (out, w')"
            by (simp add: Let_def)
          from less.hyps [OF _ this go(2)] p(3) show ?thesis by simp
        next
          case False
          with run p h Inr go fails(1) [OF go(2)] show ?thesis by (auto simp: Let_def)
        qed
      next
        case stop
        with run p h Inr fails(2) [OF stop(2)] show ?thesis by (auto simp: Let_def split: if_splits)
      qed
    qed
  qed
qed

section \<open>Assertions\<close>

definition clean_token :: "string \<Rightarrow> bool" where
  "clean_token t \<longleftrightarrow> t \<noteq> [] \<and> list_all (\<lambda>c. \<not> is_space c) t"

definition clean_digests :: "('x, 'p) runtime_ports \<Rightarrow> bool" where
  "clean_digests rp \<longleftrightarrow> (\<forall>v. clean_token (rp_digest rp v))"

text \<open>The state of the stages: its candidate's token is a digest, its processor one the runtime selected.\<close>

definition runtime_state ::
    "('x, 'p) runtime_ports \<Rightarrow> (('x, 'p) runtime_world, processing_context) ingestion_state \<Rightarrow> bool" where
  "runtime_state rp st \<longleftrightarrow> (\<forall>c. ig_candidate st = Some c \<longrightarrow> clean_token (cd_identity_token c)) \<and>
     (\<forall>px. ig_processor st = Some px \<longrightarrow> (\<exists>x. px = processor_methods rp x))"

text \<open>The record of a state is remembered.\<close>

definition remembered :: "('w, 'c) ingestion_state \<Rightarrow> ('x, 'p) runtime_world \<Rightarrow> bool" where
  "remembered st w \<longleftrightarrow> (\<exists>rid. ig_record_id st = Some rid \<and> map_of (rw_revisions w) rid \<noteq> None)"

definition stage_pre ::
    "('x, 'p) runtime_ports \<Rightarrow> ('x, 'p) runtime_world \<Rightarrow> string \<Rightarrow>
     (('x, 'p) runtime_world, processing_context) ingestion_state \<Rightarrow> ('x, 'p) runtime_world \<Rightarrow> bool" where
  "stage_pre rp w0 s st w \<longleftrightarrow> runtime_state rp st \<and> advances rp w0 w \<and> (s = ''post_persist'' \<longrightarrow> remembered st w)"

text \<open>
  After a completed run the record is remembered; without a sync warning its row is the one bookkeeping wrote.
\<close>

definition booked :: "('w, 'c) ingestion_state \<Rightarrow> ('x, 'p) runtime_world \<Rightarrow> bool" where
  "booked st w \<longleftrightarrow> (\<exists>rid c r. ig_record_id st = Some rid \<and> ig_candidate st = Some c \<and>
     map_of (st_rows (rw_store w)) rid = Some r \<and> map_of (rw_revisions w) rid = Some (row_revision r) \<and>
     map_of (row_payload r) ''bookkeeping'' = Some (VStr ''updated'') \<and>
     map_of (row_payload r) ''plugin_id'' = Some (opt_text (cd_plugin_id c)) \<and>
     map_of (row_payload r) ''persisted_path'' = Some (opt_text (cd_persisted_path c)))"

definition stage_post ::
    "('x, 'p) runtime_ports \<Rightarrow> ('x, 'p) runtime_world \<Rightarrow> pipeline_outcome \<Rightarrow> ('w, 'c) ingestion_state \<Rightarrow> ('x, 'p) runtime_world \<Rightarrow> bool" where
  "stage_post rp w0 out st w \<longleftrightarrow> advances rp w0 w \<and>
     (out = P_COMPLETED \<longrightarrow> remembered st w \<and> (ig_sync_warning st = None \<longrightarrow> booked st w))"

lemma runtime_state_diag [simp]: "runtime_state rp (with_diagnostics k e st) = runtime_state rp st"
  "remembered (with_diagnostics k e st) w = remembered st w"
  by (simp_all add: runtime_state_def remembered_def)

lemma stage_pre_post: "stage_pre rp w0 s st w \<Longrightarrow> out \<noteq> P_COMPLETED \<Longrightarrow> stage_post rp w0 out st' w"
  by (simp add: stage_pre_def stage_post_def)

abbreviation wired :: "('x, 'p) runtime_ports \<Rightarrow> ('x, 'p) runtime_world \<Rightarrow>
    (py_exception + (('x, 'p) runtime_world, processing_context) ingestion_state stage_directive) \<times> ('x, 'p) runtime_world \<Rightarrow> bool" where
  "wired rp w0 \<equiv> leads (stage_pre rp w0) (stage_post rp w0) (advances rp w0)"

section \<open>The stages\<close>

lemma clock_advances: "clock_seconds rp w = (r, w') \<Longrightarrow> advances rp w w'"
  by (auto simp: clock_seconds_def io_bind_def split: prod.splits sum.splits dest: rest_advances)

lemma facts_advance:
  assumes "fs_facts_provider rp s w = (r, w')" shows "advances rp w w'"
proof -
  obtain path w1 where p: "runtime_normalize_path rp s w = (path, w1)" by fastforce
  then have "advances rp w w1"
    by (auto simp: runtime_normalize_path_def split: option.splits prod.splits sum.splits dest: rest_advances)
  moreover have "advances rp w1 w'"
    using assms p by (auto simp: fs_facts_provider_def read_runtime_file_facts_def io_bind_def Let_def
        split: prod.splits sum.splits dest: clock_advances)
  ultimately show ?thesis by (rule advances_trans)
qed

lemma selection_runtime:
  assumes "select_runtime_processor rp cand w = (out, w')"
  shows "advances rp w w' \<and> (\<forall>sel. out = Inr sel \<longrightarrow> (\<exists>x. sel_processor sel = processor_methods rp x))"
proof -
  obtain ids w0 where i: "candidate_plugin_ids rp w = (ids, w0)" by fastforce
  with assms have f: "first_usable rp cand ids w0 = (out, w')" by (simp add: select_runtime_processor_def)
  from candidate_ids_cache [OF i] first_usable_chosen [OF f] have "cache_grows w w'" using cache_grows_trans by blast
  then have "advances rp w w'" by (simp add: cache_grows_def advances_same)
  moreover have "\<exists>x. sel_processor sel = processor_methods rp x" if "first_usable rp cand js v = (Inr sel, w')" for js v sel
    using that by (induction js arbitrary: v) (auto split: prod.splits option.splits)
  ultimately show ?thesis using f by blast
qed

lemma gate_advances: "runtime_gate k t w = (r, w') \<Longrightarrow> advances rp w w'"
  by (auto simp: runtime_gate_def gate_state_evaluate_def Let_def intro: advances_same)

lemma method_advances:
  "px_prepare (processor_methods rp x) = Some f \<Longrightarrow> f m w = (r, w') \<Longrightarrow> advances rp w w'"
  "px_can_process (processor_methods rp x) = Some g \<Longrightarrow> g m w = (b, w') \<Longrightarrow> advances rp w w'"
  "px_process (processor_methods rp x) = Some h \<Longrightarrow> h m c w = (y, w') \<Longrightarrow> advances rp w w'"
  by (auto simp: processor_methods_def lift_processor_def default_processor_methods_def Let_def
      split: runtime_processor.splits dest: rest_advances)

lemma method_after:
  "px_prepare (processor_methods rp x) = Some f \<Longrightarrow> f m w = (r, w') \<Longrightarrow> advances rp w0 w \<Longrightarrow> advances rp w0 w'"
  "px_can_process (processor_methods rp x) = Some g \<Longrightarrow> g m w = (b, w') \<Longrightarrow> advances rp w0 w \<Longrightarrow> advances rp w0 w'"
  "px_process (processor_methods rp x) = Some h \<Longrightarrow> h m c w = (y, w') \<Longrightarrow> advances rp w0 w \<Longrightarrow> advances rp w0 w'"
  by (blast intro: advances_trans method_advances)+

lemma candidate_token:
  "candidate_from_event cv digest ev facts = Inr c \<Longrightarrow> \<exists>v. cd_identity_token c = digest v"
  by (auto simp: candidate_from_event_def Let_def result_simps split: if_splits)

lemma wired_resolve:
  assumes "stage_pre rp w0 s st w" and "clean_digests rp"
  shows "wired rp w0 (run_resolve_stage cv (rp_digest rp) (fs_facts_provider rp) (select_runtime_processor rp) st w)"
proof -
  let ?path = "strip (py_str (cv_repr cv) (dict_get_or (ig_event st) ''path'' (VStr [])))"
  obtain r1 w1 where f: "fs_facts_provider rp ?path w = (r1, w1)" by fastforce
  have a1: "advances rp w0 w1" using assms(1) facts_advance [OF f] advances_trans by (auto simp: stage_pre_def)
  have token: "clean_token (cd_identity_token c')"
    if "candidate_from_event cv (rp_digest rp) (ig_event st) fs = Inr c" "with_resolution a b c = Inr c'" for fs c a b c'
    using candidate_token [OF that(1)] that(2) assms(2) by (auto simp: with_resolution_def clean_digests_def split: if_splits)
  have sel: "advances rp w0 w2 \<and> (\<forall>sel. r2 = Inr sel \<longrightarrow> (\<exists>x. sel_processor sel = processor_methods rp x))"
    if "select_runtime_processor rp c w1 = (r2, w2)" for c r2 w2
    using selection_runtime [OF that] a1 advances_trans by blast
  have state: "stage_pre rp w0 ''stabilize'' (with_diagnostics k e (st\<lparr>ig_candidate := Some c', ig_processor := Some (sel_processor y)\<rparr>)) w2"
    if "candidate_from_event cv (rp_digest rp) (ig_event st) fs = Inr c" "with_resolution a b c = Inr c'"
      "select_runtime_processor rp c w1 = (Inr y, w2)" for fs c a b c' y w2 k e
    using token [OF that(1, 2)] sel [OF that(3)] by (auto simp: stage_pre_def runtime_state_def)
  have stop: "stage_post rp w0 x st2 v" if "advances rp w0 v" "x \<in> {P_REJECTED, P_FAILED}" for x st2 v
    using that by (auto simp: stage_post_def)
  show ?thesis
    by (auto simp: run_resolve_stage_def f a1 Let_def dest: sel state intro!: stop
        split: prod.split sum.split pyval.split factory_error.split)
qed

lemma wired_stabilize:
  assumes "stage_pre rp w0 s st w"
  shows "wired rp w0 (run_stabilize_stage runtime_gate (clock_seconds rp) delay st w)"
proof -
  have now: "advances rp w0 w1" if "clock_seconds rp w = (r, w1)" for r w1
    using advances_trans [OF _ clock_advances [OF that]] assms by (simp add: stage_pre_def)
  have gate: "advances rp w0 w2" if "clock_seconds rp w = (r, w1)" "runtime_gate i t w1 = (g, w2)" for r w1 i t g w2
    using now [OF that(1)] gate_advances [OF that(2)] advances_trans by blast
  have state: "runtime_state rp st" "advances rp w0 w" using assms by (simp_all add: stage_pre_def)
  show ?thesis
    by (auto simp: run_stabilize_stage_def stage_pre_def stage_post_def state Let_def dest: now gate
        split: prod.split sum.split option.split)
qed

lemma wired_route:
  assumes "stage_pre rp w0 s st w"
  shows "wired rp w0 (run_route_stage cv roots (\<lambda>_. io_return rt) (\<lambda>st. io_return (fname st)) st w)"
proof -
  have state: "runtime_state rp st" "advances rp w0 w" using assms by (simp_all add: stage_pre_def)
  have "runtime_state rp (st\<lparr>ig_candidate := Some c'\<rparr>)" if "ig_candidate st = Some c" "with_route t ts c = Inr c'" for c c' t ts
    using that state(1) by (auto simp: runtime_state_def with_route_def split: if_splits)
  then show ?thesis
    by (auto simp: run_route_stage_def stage_pre_def stage_post_def state Let_def
        split: prod.split sum.split option.split)
qed

lemma wired_transform:
  assumes "stage_pre rp w0 s st w"
  shows "wired rp w0 (run_transform_stage cv st w)"
proof (cases "(ig_candidate st, ig_processor st, ig_processing_context st)")
  case (fields c px ctx)
  have state: "runtime_state rp st" "advances rp w0 w" using assms by (simp_all add: stage_pre_def)
  show ?thesis
  proof (cases "\<exists>cand p cx. c = Some cand \<and> px = Some p \<and> ctx = Some cx")
    case False
    with fields show ?thesis
      by (auto simp: run_transform_stage_def stage_post_def state split: option.splits)
  next
    case True
    then obtain cand p cx where some: "ig_candidate st = Some cand" "ig_processor st = Some p" "ig_processing_context st = Some cx"
      using fields by auto
    then obtain x where p: "p = processor_methods rp x" using state(1) by (auto simp: runtime_state_def)
    have prep: "advances rp w0 v'" if "px_prepare p = Some f" "f m v = (r, v')" "advances rp w0 v" for f m v r v'
      using that p by (auto dest: method_after(1))
    have supp: "advances rp w0 v'" if "supported p m v = (b, v')" "advances rp w0 v" for m v b v'
      using that p by (auto simp: supported_def split: option.splits prod.splits sum.splits dest: method_after(2))
    have proc: "advances rp w0 v'" if "px_process p = Some h" "run_process cv h m cx v = (y, v')" "advances rp w0 v" for h m v y v'
      using that p by (auto simp: run_process_def split: prod.splits sum.splits dest: method_after(3))
    have keep: "runtime_state rp (st\<lparr>ig_prepared_input := a, ig_processor_result := b\<rparr>)" for a b
      using state(1) by (simp add: runtime_state_def)
    show ?thesis
      by (auto simp: run_transform_stage_def some stage_pre_def stage_post_def state(1) keep Let_def
          split: prod.split sum.split pyval.split bool.split option.split)
        (blast intro: state(2) prep supp proc)+
  qed
qed

lemma moves_advance: "run_moves cv (runtime_move_file rp) ps w = (r, w') \<Longrightarrow> advances rp w w'"
proof (induction ps arbitrary: w)
  case (Cons p ps)
  obtain s t where p: "p = (s, t)" by (cases p)
  obtain y w1 where m: "runtime_move_file rp s t w = (y, w1)" by fastforce
  from Cons m p move_advances [OF m] show ?case
    by (auto split: sum.splits if_splits intro: advances_trans)
qed simp

lemma persist_record_id:
  assumes "clean_token (cd_identity_token cand)"
  shows "resolve_runtime_record_id sha [(''candidate'', VDict (candidate_payload cand)), (''processor_result'', x), (''target_path'', y)] =
      ''record-'' @ take 12 (cd_identity_token cand)"
    and "strip (''record-'' @ take 12 (cd_identity_token cand)) = ''record-'' @ take 12 (cd_identity_token cand)"
proof -
  have "get_or_none (candidate_payload cand) ''identity_token'' = VStr (cd_identity_token cand)"
    by (simp add: candidate_payload_def get_or_none_def dict_get_or_def)
  moreover have "strip (cd_identity_token cand) \<noteq> []"
    using assms by (simp add: clean_token_def strip_no_space)
  ultimately show "resolve_runtime_record_id sha [(''candidate'', VDict (candidate_payload cand)), (''processor_result'', x), (''target_path'', y)] =
      ''record-'' @ take 12 (cd_identity_token cand)"
    by (simp add: resolve_runtime_record_id_def identity_record_id_def get_or_none_def dict_get_or_def)
  have "list_all (\<lambda>c. \<not> is_space c) ''record-''" by code_simp
  moreover have "list_all (\<lambda>c. \<not> is_space c) (take 12 (cd_identity_token cand))"
    using assms by (auto simp: clean_token_def list_all_iff dest: in_set_takeD)
  ultimately show "strip (''record-'' @ take 12 (cd_identity_token cand)) = ''record-'' @ take 12 (cd_identity_token cand)"
    by (intro strip_no_space) simp
qed

text \<open>What a save that reports success returns, and what it leaves remembered.\<close>

lemma save_success:
  assumes "no_other_writer rp" and "clean_token (cd_identity_token cand)"
    and "runtime_save_record rp [(''candidate'', VDict (candidate_payload cand)), (''processor_result'', x), (''target_path'', y)] w = (Inr s, w')"
    and "cr_status s = CALL_SUCCESS"
  shows "\<exists>d. cr_value s = VDict d \<and> get_or_none d ''record_id'' = VStr (''record-'' @ take 12 (cd_identity_token cand)) \<and>
    map_of (rw_revisions w') (''record-'' @ take 12 (cd_identity_token cand)) \<noteq> None"
proof -
  let ?p = "[(''candidate'', VDict (candidate_payload cand)), (''processor_result'', x), (''target_path'', y)]"
  let ?rid = "''record-'' @ take 12 (cd_identity_token cand)"
  let ?n = "dict_get_or (rw_revisions w) ?rid (-1) + 1"
  note rid = persist_record_id [OF assms(2)]
  obtain sp where sp: "save_payload ?p = Inr sp"
    using assms(3, 4) by (cases "save_payload ?p") (auto simp: runtime_save_record_def call_failed_def Let_def)
  let ?f = "\<lambda>env. store_save env (VDict [(''record_id'', VStr ?rid), (''revision'', VInt ?n), (''payload'', VDict sp)])"
  obtain res w1 where c: "store_call rp SaveAction ?f w = (res, w1)" by (cases "store_call rp SaveAction ?f w")
  from assms(1) calls_record_save c show ?thesis
  proof (cases rule: store_call_cases)
    case (failed e)
    with assms(3, 4) c sp rid(1) show ?thesis by (auto simp: runtime_save_record_def call_failed_def Let_def)
  next
    case (lost e r)
    with assms(3, 4) c sp rid(1) show ?thesis by (auto simp: runtime_save_record_def call_failed_def Let_def)
  next
    case (stored r)
    have "extract_record_id ?p (VDict (row_to_snapshot ?rid r)) = ?rid"
      using rid(2) by (intro id_of_snapshot) simp_all
    with assms(3) c sp rid(1) stored(1) show ?thesis
      by (auto simp: runtime_save_record_def call_success_def get_or_none_def dict_get_or_def Let_def)
  qed
qed

lemma wired_persist:
  assumes "stage_pre rp w0 s st w" and "no_other_writer rp"
  shows "wired rp w0 (run_persist_stage cv (runtime_move_file rp) (runtime_save_record rp) runtime_retry_planner st w)"
proof -
  have state: "runtime_state rp st" "advances rp w0 w" using assms(1) by (simp_all add: stage_pre_def)
  have moves: "advances rp w0 w1" if "run_moves cv (runtime_move_file rp) ps w = (r, w1)" for ps r w1
    using advances_trans [OF state(2) moves_advance [OF that]] .
  show ?thesis
  proof (cases "ig_candidate st")
    case None
    then show ?thesis by (simp add: run_persist_stage_def stage_post_def state)
  next
    case (Some cand)
    then have token: "clean_token (cd_identity_token cand)" using state(1) by (simp add: runtime_state_def)
    have save: "advances rp w0 w2" if "run_moves cv (runtime_move_file rp) ps w = (r, w1)" "runtime_save_record rp
        [(''candidate'', VDict (candidate_payload cand)), (''processor_result'', x), (''target_path'', y)] w1 = (s, w2)" for ps r w1 x y s w2
      using moves [OF that(1)] save_advances [OF assms(2) _ that(2)] persist_record_id [OF token] advances_trans by metis
    have payload: "to_payload cand = Inr p \<Longrightarrow> p = candidate_payload cand" for p
      by (auto simp: to_payload_def split: sum.splits)
    have after: "leads (stage_pre rp w0) (stage_post rp w0) (advances rp w0) (after_save cv cand target pr (cr_value s) st, w2)"
      if "run_moves cv (runtime_move_file rp) ps w = (r, w1)" "runtime_save_record rp
        [(''candidate'', VDict (candidate_payload cand)), (''processor_result'', x), (''target_path'', y)] w1 = (Inr s, w2)"
        "cr_status s = CALL_SUCCESS" for ps r w1 x y s w2 target pr
    proof -
      note adv = save [OF that(1, 2)] and saved = save_success [OF assms(2) token that(2, 3)]
      obtain d where d: "cr_value s = VDict d" "get_or_none d ''record_id'' = VStr (''record-'' @ take 12 (cd_identity_token cand))"
        "map_of (rw_revisions w2) (''record-'' @ take 12 (cd_identity_token cand)) \<noteq> None"
        using saved by blast
      have "dict_get_or d ''record_id'' (VStr []) = VStr (''record-'' @ take 12 (cd_identity_token cand))"
        using d(2) by (auto simp: get_or_none_def dict_get_or_def split: option.splits)
      then have "saved_mapping (cr_value s) = Inr d" "dict_get_or d ''record_id'' (VStr []) = VStr (''record-'' @ take 12 (cd_identity_token cand))"
        using d(1) by (auto simp: saved_mapping_def dict_get_or_def)
      with persist_record_id(2) [OF token] d(3) adv state(1) Some show ?thesis
        by (auto simp: after_save_def stage_pre_def runtime_state_def remembered_def with_persist_result_def Let_def rbind_def split: sum.split)
    qed
    show ?thesis
      using moves save after state
      by (auto simp: run_persist_stage_def Some stage_post_def dest!: payload split: option.split sum.split prod.split)
  qed
qed

lemma json_payload_lookup:
  "json_payload d = Inr p \<Longrightarrow> map_of d k = Some v \<Longrightarrow> json_trip v = Inr v \<Longrightarrow> map_of p k = Some v"
  by (auto simp: json_payload_def result_simps map_of_sort_key dest: json_trip_items_lookup)

lemma json_trip_opt_text [simp]: "json_trip (opt_text v) = Inr (opt_text v)"
  by (cases v) (simp_all add: opt_text_def)

lemma store_update_payload:
  assumes "quiet env"
    and "store_update env rid (VDict [(''expected_revision'', VInt v), (''payload'', VDict patch)]) st = (Inr snap, st')"
  shows "\<exists>old row. map_of (st_rows st') rid = Some row \<and> snap = row_to_snapshot rid row \<and>
    json_payload (dict_update old patch) = Inr (row_payload row)"
proof -
  obtain old where old: "map_of (st_rows st) rid = Some old" "row_revision old = v" and f: "se_fault env Read_Current = None"
    using assms(2) by (auto simp: store_update_def split: option.splits if_splits)
  let ?new = "\<lambda>p. \<lparr>row_revision = v + 1, row_payload = p, row_updated_at = se_now env\<rparr>"
  let ?w = "run_write env (v + 1) (dict_update (row_payload old) patch) rid
      (\<lambda>p rs. Inr (sql_update (\<lambda>k r. k = rid \<and> row_revision r = v) (?new p) rs)) st"
  have u: "store_update env rid (VDict [(''expected_revision'', VInt v), (''payload'', VDict patch)]) st = (case ?w of
      (Inr snapshot, st') \<Rightarrow> if get_or_none snapshot ''revision'' \<noteq> VInt (v + 1)
        then (Inl (RecordStoreConflictError ''concurrent write detected''), st') else (Inr snapshot, st')
    | (Inl e, st') \<Rightarrow> (Inl e, st'))"
    using old f by (simp add: store_update_def dict_get_or_def Let_def)
  have w: "?w = (Inr snap, st')"
    using assms(2) unfolding u by (auto split: prod.splits sum.splits if_splits)
  obtain p where p: "json_payload (dict_update (row_payload old) patch) = Inr p"
    "st_rows st' = sql_update (\<lambda>k r. k = rid \<and> row_revision r = v) (?new p) (st_rows st)"
    using run_write_rows [OF assms(1) w] by auto
  then have "map_of (st_rows st') rid = Some (?new p)" using old by (simp add: map_of_sql_update)
  with p(1) run_write_snapshot [OF w] show ?thesis by force
qed

lemma bookkeeping_booked:
  assumes "no_other_writer rp" and "ig_candidate st = Some cand" and "ig_record_id st = Some rid"
    and "map_of (rw_revisions w) rid = Some v" and "runtime_update_bookkeeping rp rid cand w = (Inr r, w')"
    and "cr_status r = CALL_SUCCESS"
  shows "booked st w'"
proof -
  let ?f = "\<lambda>env. store_update env rid (VDict [(''expected_revision'', VInt v), (''payload'', VDict (bookkeeping_patch cand))])"
  let ?env = "rp_store_env rp (rw_rest w) UpdateAction"
  obtain res st1 where c: "?f ?env (rw_store w) = (res, st1)" by (cases "?f ?env (rw_store w)")
  have q: "quiet ?env" using assms(1) by (simp add: no_other_writer_def)
  from assms(4, 5, 6) c obtain snap where snap: "res = Inr snap"
    by (cases res) (auto simp: runtime_update_bookkeeping_def store_call_def call_failed_def)
  with store_update_payload [OF q] c obtain old row where row: "map_of (st_rows st1) rid = Some row"
    "snap = row_to_snapshot rid row" "json_payload (dict_update old (bookkeeping_patch cand)) = Inr (row_payload row)"
    by blast
  have "dict_wf (bookkeeping_patch cand)" by (simp add: dict_wf_def)
  note look = map_of_dict_update [OF this, of old]
  have "map_of (row_payload row) ''bookkeeping'' = Some (VStr ''updated'')"
    "map_of (row_payload row) ''plugin_id'' = Some (opt_text (cd_plugin_id cand))"
    "map_of (row_payload row) ''persisted_path'' = Some (opt_text (cd_persisted_path cand))"
    by (rule json_payload_lookup [OF row(3)]; simp add: look)+
  moreover have "w' = w\<lparr>rw_store := st1, rw_revisions := AList.update rid (row_revision row) (rw_revisions w)\<rparr>"
    using assms(4, 5) c snap row(2) by (simp add: runtime_update_bookkeeping_def store_call_def)
  ultimately show ?thesis using row(1) assms(2, 3) by (simp add: booked_def)
qed

lemma booked_rest: "booked st w \<Longrightarrow> rw_store w' = rw_store w \<Longrightarrow> rw_revisions w' = rw_revisions w \<Longrightarrow> booked st w'"
  by (simp add: booked_def)

lemma on_rest_frame: "on_rest m w = (r, w') \<Longrightarrow> rw_store w' = rw_store w \<and> rw_revisions w' = rw_revisions w"
  by (auto simp: on_rest_def split: prod.splits)

lemma sync_success_frame:
  assumes "runtime_trigger_sync rp st w = (Inr s, w')" and "cr_status s = CALL_SUCCESS"
  shows "rw_store w' = rw_store w \<and> rw_revisions w' = rw_revisions w"
proof -
  obtain rid where rid: "ig_record_id st = Some rid" "strip rid \<noteq> []"
    using assms by (auto simp: runtime_trigger_sync_def split: option.splits if_splits)
  let ?sync = "io_bind (build_runtime_sync_payload rp st) (\<lambda>payload. on_rest (rp_sync_record rp (Some (strip rid)) payload))"
  obtain y w1 where y: "?sync w = (y, w1)" by (cases "?sync w")
  have "rw_store v = rw_store w \<and> rw_revisions v = rw_revisions w" if "build_runtime_sync_payload rp st w = (p, v)" for p v
    using that by (auto simp: build_runtime_sync_payload_def Let_def split: option.splits dest: on_rest_frame)
  with y have "rw_store w1 = rw_store w \<and> rw_revisions w1 = rw_revisions w"
    by (auto simp: io_bind_def split: prod.splits sum.splits dest: on_rest_frame)
  moreover have "w' = w1"
    using assms rid y by (cases y) (auto simp: runtime_trigger_sync_def call_failed_def split: if_splits)
  ultimately show ?thesis by simp
qed

text \<open>Remembered records stay remembered.\<close>

lemma remembered_mark: "map_of (rw_revisions w) k \<noteq> None \<Longrightarrow> map_of (rw_revisions (mark_runtime_record_unsynced rp rid w)) k \<noteq> None"
  by (auto simp: mark_runtime_record_unsynced_def store_call_def split: prod.splits sum.splits option.splits)

lemma remembered_sync:
  assumes "runtime_trigger_sync rp st w = (out, w')" and "map_of (rw_revisions w) k \<noteq> None"
  shows "map_of (rw_revisions w') k \<noteq> None"
proof (cases "\<exists>rid. ig_record_id st = Some rid \<and> strip rid \<noteq> []")
  case False
  with assms show ?thesis by (auto simp: runtime_trigger_sync_def split: option.splits if_splits)
next
  case True
  then obtain rid where rid: "ig_record_id st = Some rid" "strip rid \<noteq> []" by blast
  let ?sync = "io_bind (build_runtime_sync_payload rp st) (\<lambda>payload. on_rest (rp_sync_record rp (Some (strip rid)) payload))"
  obtain y w1 where y: "?sync w = (y, w1)" by (cases "?sync w")
  have "rw_revisions v = rw_revisions w" if "build_runtime_sync_payload rp st w = (p, v)" for p v
    using that by (auto simp: build_runtime_sync_payload_def Let_def split: option.splits dest: on_rest_frame)
  with y have "rw_revisions w1 = rw_revisions w"
    by (auto simp: io_bind_def split: prod.splits sum.splits dest: on_rest_frame)
  moreover have "w' = w1 \<or> w' = mark_runtime_record_unsynced rp rid w1"
    using assms(1) rid y by (cases y) (auto simp: runtime_trigger_sync_def split: if_splits)
  ultimately show ?thesis using assms(2) remembered_mark [of w1 k rp rid] by auto
qed

lemma wired_post_persist:
  assumes "stage_pre rp w0 ''post_persist'' st w" and "no_other_writer rp"
  shows "wired rp w0 (run_post_persist_stage cv (runtime_update_bookkeeping rp) (runtime_trigger_sync rp)
    (runtime_emit_sync_error rp) True st w)"
proof -
  have state: "advances rp w0 w" "remembered st w" using assms(1) by (simp_all add: stage_pre_def)
  then obtain rid v where rid: "ig_record_id st = Some rid" "map_of (rw_revisions w) rid = Some v"
    by (auto simp: remembered_def)
  show ?thesis
  proof (cases "ig_candidate st")
    case None
    then show ?thesis by (simp add: run_post_persist_stage_def stage_post_def state)
  next
    case (Some cand)
    obtain b w1 where b: "runtime_update_bookkeeping rp rid cand w = (b, w1)" by fastforce
    have a1: "advances rp w0 w1" using advances_trans [OF state(1) bookkeeping_advances [OF assms(2) b]] .
    have book: "booked st w1" if "b = Inr r" "cr_status r = CALL_SUCCESS" for r
      using bookkeeping_booked [OF assms(2) Some rid] b that by blast
    obtain y w2 where y: "runtime_trigger_sync rp st w1 = (y, w2)" by fastforce
    have a2: "advances rp w0 w2" using advances_trans [OF a1 sync_advances [OF assms(2) y]] .
    have synced: "booked st w2" if "b = Inr r" "cr_status r = CALL_SUCCESS" "y = Inr s" "cr_status s = CALL_SUCCESS" for r s
      using booked_rest [OF book [OF that(1, 2)]] sync_success_frame y that(3, 4) by blast
    have rem2: "remembered st w2" if "b = Inr r" "cr_status r = CALL_SUCCESS" for r
    proof -
      have "map_of (rw_revisions w1) rid \<noteq> None" using book [OF that] rid(1) by (auto simp: booked_def)
      from remembered_sync [OF y this] show ?thesis using rid(1) by (simp add: remembered_def)
    qed
    have booked_diag: "booked (with_diagnostics k e st) w2 = booked st w2" for k e
      by (simp add: booked_def)
    have emit: "advances rp w0 w3 \<and> rw_revisions w3 = rw_revisions w2" if "runtime_emit_sync_error rp i j z w2 = (q, w3)" for i j z q w3
      using that rest_advances on_rest_frame advances_trans [OF a2] unfolding runtime_emit_sync_error_def by blast
    have warned: "remembered (with_diagnostics k e (st\<lparr>ig_sync_warning := sw\<rparr>)) w3" if "b = Inr r" "cr_status r = CALL_SUCCESS"
        "runtime_emit_sync_error rp i j z w2 = (q, w3)" for r i j z q w3 k e sw
      using rem2 [OF that(1, 2)] emit [OF that(3)] by (simp add: remembered_def)
    have diag: "ig_sync_warning (with_diagnostics k e st') = ig_sync_warning st'" for k e and st' :: "(('a, 'b) runtime_world, processing_context) ingestion_state"
      by (simp add: with_diagnostics_def)
    show ?thesis
      using a1 a2 synced rem2 emit warned
      by (auto simp: run_post_persist_stage_def Some rid(1) b y stage_post_def booked_diag diag Let_def
          split: sum.split prod.split)
  qed
qed

end
