(* ===== verification/Runtime_Event.thy ===== *)
theory Runtime_Event
  imports Runtime_Engine_Correct Runtime_Select_Correct
begin

text \<open>
  The processing of an event by the composed runtime: the wired pipeline followed through a whole run, the
  adapter between dpost_app and the engine (_RuntimeEngineAdapter.process of runtime/composition.py), and a
  sequence of events processed one after another.
\<close>

section \<open>The processing of an event\<close>

lemma runtime_handlers:
  assumes "map_of (ingestion_handlers (runtime_stage_ports rp)) s = Some h" and "stage_pre rp w0 s st w"
    and "no_other_writer rp" and "clean_digests rp"
  shows "wired rp w0 (h st w)"
proof -
  have "s \<in> {''resolve'', ''stabilize'', ''transform'', ''route'', ''persist'', ''post_persist''}"
    using assms(1) by (simp add: ingestion_handlers_def split: if_splits)
  then show ?thesis
    using assms(1) wired_resolve [OF assms(2, 4)] wired_stabilize [OF assms(2)] wired_transform [OF assms(2)]
      wired_route [OF assms(2)] wired_persist [OF assms(2, 3)] wired_post_persist [OF _ assms(3)] assms(2)
    by (elim insertE emptyE) (auto simp: ingestion_handlers_def runtime_stage_ports_def Let_def)
qed

lemma runtime_pipeline:
  assumes "run_pipeline (ingestion_runner 50) (state_from_event cv dg payload (Some px))
      (ingestion_handlers (runtime_stage_ports rp)) None P_FAILED w = (out, w')"
    and "no_other_writer rp" and "clean_digests rp"
  shows "case out of Inl _ \<Rightarrow> advances rp w w' | Inr r \<Rightarrow> stage_post rp w (rr_outcome r) (rr_state r) w'"
proof -
  let ?st = "state_from_event cv dg payload (Some px) :: (('a, 'b) runtime_world, processing_context) ingestion_state"
  have run: "run_loop DEFAULT_INGESTION_TRANSITION_TABLE 50 (ingestion_handlers (runtime_stage_ports rp)) (io_return False)
      P_FAILED ''resolve'' ?st [] 0 None w = (out, w')"
    using assms(1) by (simp add: run_pipeline_def ingestion_runner_def)
  have pre: "stage_pre rp w ''resolve'' ?st w"
    by (simp add: stage_pre_def runtime_state_def state_from_event_def Let_def)
  show ?thesis
  proof (rule run_loop_leads [where A = "stage_pre rp w" and Q = "stage_post rp w" and E = "advances rp w", OF run pre])
    fix s h and st :: "(('a, 'b) runtime_world, processing_context) ingestion_state" and v
    assume "map_of (ingestion_handlers (runtime_stage_ports rp)) s = Some h" "stage_pre rp w s st v"
    then show "wired rp w (h st v)" using assms(2, 3) by (rule runtime_handlers)
  qed (simp_all add: stage_pre_def stage_post_def)
qed

lemma runtime_normalize: "normalize_exception (runtime_engine rp) exc payload w = (out, w') \<Longrightarrow> w' = w \<and> io_kind out \<noteq> SUCCEEDED"
  by (auto simp: normalize_exception_def runtime_engine_def safe_classification_def engine_classify_def
      safe_failure_outcome_def engine_failure_outcome_def emit_failure_if_needed_def map_failure_terminal_def split: if_splits)

lemma runtime_process_event:
  assumes "process_event cv (runtime_engine rp) (\<lambda>payload. io_return (state_from_event cv dg payload (Some px))) event w = (out, w')"
    and "no_other_writer rp" and "clean_digests rp"
  shows "advances rp w w' \<and> (io_kind out = SUCCEEDED \<longrightarrow>
    (\<exists>st. io_state out = Some st \<and> remembered st w' \<and> (ig_sync_warning st = None \<longrightarrow> booked st w')))"
proof -
  let ?st = "state_from_event cv dg (coerce_event_payload cv event) (Some px)"
  obtain r w1 where r: "run_pipeline (ingestion_runner 50) ?st (ingestion_handlers (runtime_stage_ports rp)) None P_FAILED w = (r, w1)"
    by fastforce
  note p = runtime_pipeline [OF r assms(2, 3)]
  have engine: "en_runner (runtime_engine rp) = ingestion_runner 50" "en_stage_handlers (runtime_engine rp) = ingestion_handlers (runtime_stage_ports rp)"
    "en_cancellation_signal (runtime_engine rp) = None" by (simp_all add: runtime_engine_def)
  show ?thesis
  proof (cases r)
    case (Inl e)
    with assms(1) r have "normalize_exception (runtime_engine rp) (pipeline_exception e) (coerce_event_payload cv event) w1 = (out, w')"
      by (simp add: process_event_def engine Let_def)
    from runtime_normalize [OF this] p Inl show ?thesis by simp
  next
    case (Inr rr)
    with assms(1) r have "out = map_pipeline_result rr" "w' = w1" by (simp_all add: process_event_def engine Let_def)
    with p Inr show ?thesis by (simp add: stage_post_def map_pipeline_result_def)
  qed
qed

lemma coerce_observed_advances: "coerce_observed_at rp now ev w = (r, w') \<Longrightarrow> advances rp w w'"
  by (auto simp: coerce_observed_at_def io_bind_def Let_def
      split: pyval.splits if_splits sum.splits option.splits prod.splits dest: rest_advances)

lemma build_context_advances: "build_runtime_processing_context rp now lf ev w = (r, w') \<Longrightarrow> advances rp w w'"
  by (auto simp: build_runtime_processing_context_def io_bind_def split: sum.splits prod.splits dest: coerce_observed_advances)

lemma runtime_process_advances:
  assumes "runtime_process rp now lf dg ev given w = (out, w')" and "no_other_writer rp" and "clean_digests rp"
  shows "advances rp w w' \<and> (\<forall>x. out = Inr x \<longrightarrow> io_kind x = SUCCEEDED \<longrightarrow>
    (\<exists>st. io_state x = Some st \<and> remembered st w' \<and> (ig_sync_warning st = None \<longrightarrow> booked st w')))"
proof -
  let ?ctx = "case given of Some px \<Rightarrow> io_return px | None \<Rightarrow> build_runtime_processing_context rp now lf ev"
  obtain c w1 where c: "?ctx w = (c, w1)" by (cases "?ctx w")
  then have a: "advances rp w w1" by (auto split: option.splits dest: build_context_advances)
  show ?thesis
  proof (cases c)
    case (Inl e)
    with assms(1) c a show ?thesis by (auto simp: runtime_process_def io_bind_def)
  next
    case (Inr px)
    obtain x w2 where x: "process_event (rp_conv rp) (runtime_engine rp)
        (\<lambda>payload. io_return (state_from_event (rp_conv rp) dg payload (Some px))) (VDict ev) w1 = (x, w2)" by fastforce
    with assms(1) c Inr have "out = Inr x" "w' = w2" by (simp_all add: runtime_process_def io_bind_def)
    with runtime_process_event [OF x assms(2, 3)] a show ?thesis by (auto intro: advances_trans)
  qed
qed

text \<open>One event after another, whatever becomes of each.\<close>

definition process_next ::
    "('x, 'p) runtime_ports \<Rightarrow> ('x \<Rightarrow> int) \<Rightarrow> launch_facts \<Rightarrow> (string \<Rightarrow> string) \<Rightarrow> mapping \<times> processing_context option \<Rightarrow>
     ('x, 'p) runtime_world \<Rightarrow> ('x, 'p) runtime_world" where
  "process_next rp now lf dg x w = snd (runtime_process rp now lf dg (fst x) (snd x) w)"

interpretation eventing: guarded_calls "process_next rp now lf dg" "\<lambda>_. no_other_writer rp \<and> clean_digests rp" "tracked rp" "advances rp"
proof (unfold_locales, goal_cases)
  case (1 x w)
  obtain r w' where "runtime_process rp now lf dg (fst x) (snd x) w = (r, w')" by fastforce
  with runtime_process_advances [OF this] 1 show ?case by (simp add: process_next_def advances_def)
next
  case (2 x w)
  obtain r w' where "runtime_process rp now lf dg (fst x) (snd x) w = (r, w')" by fastforce
  with runtime_process_advances [OF this] 2 show ?case by (simp add: process_next_def)
qed (auto intro: advances_trans)


definition demo_launch :: launch_facts where
  "demo_launch = \<lparr>lf_trace_id = ''t1'', lf_mode = ''headless'', lf_profile = None, lf_backends = []\<rparr>"

definition demo_event :: mapping where
  "demo_event = [(''event_id'', VStr ''e1''), (''path'', VStr ''/in/a.txt''), (''event_kind'', VStr ''created'')]"

lemma demo_event_succeeds:
  "case fst (runtime_process demo_runtime_ports (\<lambda>_. 0) demo_launch (\<lambda>_. ''h'') demo_event None demo_runtime_world) of
     Inl _ \<Rightarrow> False | Inr out \<Rightarrow> io_kind out = SUCCEEDED"
  by code_simp


end
