(* ===== verification/Composition.thy ===== *)
theory Composition
  imports Runtime_Engine Session
begin

text \<open>
  The composition of the runtime (\<^verbatim>\<open>compose_runtime\<close> of \<^verbatim>\<open>runtime/composition.py\<close>): the required ports
  in their fixed order, the adapters their factories make, the application ports the adapters are coerced
  to, and the shutdown hook over them; the check of the application ports is \<^verbatim>\<open>validate_port_bindings\<close> of
  \<^verbatim>\<open>application/contracts/ports.py\<close>.

  An adapter is what composition can see of an object: the names of its callable attributes, the attributes
  the runtime protocol check sees, whether it is itself callable, its entries if it is a mapping, and for
  each attribute read its identity and what calling it without arguments does. \<^verbatim>\<open>None\<close> is no adapter.
\<close>

section \<open>Adapters and ports\<close>

record 'w adapter =
  ad_methods :: "string list"
  ad_protocol_attrs :: "string list"
  ad_callable :: bool
  ad_mapping :: "mapping option"
  ad_attr_id :: "string \<Rightarrow> nat"
  ad_invoke :: "string \<Rightarrow> ('w, py_exception, unit) io"

type_synonym 'w bindings = "(string \<times> 'w adapter option) list"
type_synonym 'w factories = "(string \<times> ('w, py_exception, 'w adapter option) io) list"

datatype 'w application_port =
    BoundPort "'w adapter"
  | UiAdapter string
  | EventAdapter
  | CallableEventAdapter "'w adapter"
  | InMemoryRecordStore
  | FileOpsAdapter
  | SyncAdapter string
  | PluginHostAdapter
  | SystemClock
  | FilesystemAdapter

definition DEFAULT_REQUIRED_PORTS :: "string list" where
  "DEFAULT_REQUIRED_PORTS =
     [''observability'', ''storage'', ''filesystem'', ''clock'', ''sync'', ''ui'', ''event_sink'', ''plugins'']"

definition bindings_get :: "'w bindings \<Rightarrow> string \<Rightarrow> 'w adapter option" where
  "bindings_get bs p = (case map_of bs p of None \<Rightarrow> None | Some b \<Rightarrow> b)"

section \<open>The required ports\<close>

fun duplicate_port :: "string list \<Rightarrow> string list \<Rightarrow> string option" where
  "duplicate_port seen [] = None"
| "duplicate_port seen (p # ps) = (if p \<in> set seen then Some p else duplicate_port (p # seen) ps)"

definition validate_no_duplicate_ports :: "string list \<Rightarrow> composition_error + unit" where
  "validate_no_duplicate_ports required =
     (case duplicate_port [] required of
        None \<Rightarrow> Inr ()
      | Some p \<Rightarrow> Inl (CompositionDuplicateBindingError (''Duplicate port binding requested for '' @ quoted_id p @ ''.'')))"

definition validate_required_bindings :: "'w factories \<Rightarrow> string list \<Rightarrow> composition_error + unit" where
  "validate_required_bindings factories required =
     (case List.find (\<lambda>p. map_of factories p = None) required of
        None \<Rightarrow> Inr ()
      | Some p \<Rightarrow> Inl (CompositionBindingError (''Missing required port binding: '' @ quoted_id p @ ''.'')))"

definition port_priority :: "string \<Rightarrow> int" where
  "port_priority p =
     dict_get_or [(''observability'', 0), (''storage'', 1), (''filesystem'', 2), (''clock'', 3), (''sync'', 4),
       (''ui'', 5), (''event_sink'', 6), (''plugins'', 7)] p 100"

definition deterministic_port_order :: "string list \<Rightarrow> string list" where
  "deterministic_port_order required = sort_key (\<lambda>name. (port_priority name, name)) required"

text \<open>The factory of a port is looked up outside the \<^verbatim>\<open>try\<close>.\<close>

fun instantiate_bindings :: "'w factories \<Rightarrow> string list \<Rightarrow> ('w, composition_error, 'w bindings) io" where
  "instantiate_bindings factories [] w = (Inr [], w)"
| "instantiate_bindings factories (p # ps) w =
     (case map_of factories p of
        None \<Rightarrow> (Inl (CompositionRaised (plain_exception ''KeyError'' p)), w)
      | Some factory \<Rightarrow>
          (case factory w of
             (Inl _, w1) \<Rightarrow> (Inl (CompositionInitializationError
               (''Failed to initialize adapter for port '' @ quoted_id p @ ''.'')), w1)
           | (Inr b, w1) \<Rightarrow> io_bind (instantiate_bindings factories ps) (\<lambda>bs. io_return ((p, b) # bs)) w1))"

fun run_healthchecks :: "'w bindings \<Rightarrow> ('w bindings \<Rightarrow> ('w, py_exception, unit) io) list \<Rightarrow> ('w, composition_error, unit) io" where
  "run_healthchecks bs [] w = (Inr (), w)"
| "run_healthchecks bs (check # checks) w =
     (case check bs w of
        (Inl _, w1) \<Rightarrow> (Inl (CompositionInitializationError ''Composition healthcheck failed.''), w1)
      | (Inr _, w1) \<Rightarrow> run_healthchecks bs checks w1)"

definition validate_plugin_binding :: "'w adapter option \<Rightarrow> composition_error + unit" where
  "validate_plugin_binding b =
     raise_if (b = None) (CompositionPluginBindingError
       (''Missing plugin host binding for required '' @ quoted_id ''plugins'' @ '' port.''))"

definition compose_bindings ::
    "'w factories \<Rightarrow> string list \<Rightarrow> ('w bindings \<Rightarrow> ('w, py_exception, unit) io) list \<Rightarrow>
     ('w, composition_error, 'w bindings) io" where
  "compose_bindings factories required checks =
     io_bind (io_lift (validate_no_duplicate_ports required)) (\<lambda>_.
     io_bind (io_lift (validate_required_bindings factories required)) (\<lambda>_.
     io_bind (instantiate_bindings factories (deterministic_port_order required)) (\<lambda>bs.
     io_bind (io_lift (validate_plugin_binding (bindings_get bs ''plugins''))) (\<lambda>_.
     io_bind (run_healthchecks bs checks) (\<lambda>_.
     io_return bs)))))"

section \<open>Shutdown\<close>

definition extract_shutdown_hook :: "'w adapter \<Rightarrow> string option" where
  "extract_shutdown_hook a = List.find (\<lambda>m. m \<in> set (ad_methods a)) [''shutdown'', ''close'', ''stop'']"

text \<open>The hooks in the order of the bindings, each identity once.\<close>

fun collect_hooks :: "nat list \<Rightarrow> 'w adapter option list \<Rightarrow> (nat \<times> ('w, py_exception, unit) io) list" where
  "collect_hooks seen [] = []"
| "collect_hooks seen (None # bs) = collect_hooks seen bs"
| "collect_hooks seen (Some a # bs) =
     (case extract_shutdown_hook a of
        None \<Rightarrow> collect_hooks seen bs
      | Some m \<Rightarrow>
          if ad_attr_id a m \<in> set seen then collect_hooks seen bs
          else (ad_attr_id a m, ad_invoke a m) # collect_hooks (ad_attr_id a m # seen) bs)"

definition build_shutdown_hook :: "'w bindings \<Rightarrow> ('w, py_exception, unit) io list" where
  "build_shutdown_hook bs = map snd (collect_hooks [] (map snd bs))"

fun invoke_hooks :: "('w, py_exception, unit) io list \<Rightarrow> ('w, py_exception, unit) io" where
  "invoke_hooks [] w = (Inr (), w)"
| "invoke_hooks (h # hs) w = io_bind h (\<lambda>_. invoke_hooks hs) w"

text \<open>The closure's state is \<^verbatim>\<open>has_run\<close>.\<close>

definition shutdown_all :: "('w, py_exception, unit) io list \<Rightarrow> (bool \<times> 'w, py_exception, unit) io" where
  "shutdown_all hooks s =
     (if fst s then (Inr (), s)
      else case invoke_hooks (rev hooks) (snd s) of (r, w) \<Rightarrow> (r, (True, w)))"

section \<open>The application ports\<close>

definition coerce_binding ::
    "string list \<Rightarrow> string \<Rightarrow> string \<Rightarrow> (mapping \<Rightarrow> 'w application_port) \<Rightarrow> 'w adapter \<Rightarrow>
     composition_error + 'w application_port" where
  "coerce_binding required_methods kind port wrap b =
     (if list_all (\<lambda>m. m \<in> set (ad_methods b)) required_methods then Inr (BoundPort b)
      else case ad_mapping b of
             Some d \<Rightarrow> if get_or_none d ''kind'' = VStr kind then Inr (wrap d)
               else Inl (CompositionBindingError (''binding for '' @ quoted_id port @ '' does not match protocol''))
           | None \<Rightarrow> Inl (CompositionBindingError (''binding for '' @ quoted_id port @ '' does not match protocol'')))"

definition coerce_ui_port :: "conv_env \<Rightarrow> 'w adapter \<Rightarrow> composition_error + 'w application_port" where
  "coerce_ui_port cv = coerce_binding [''initialize'', ''notify'', ''prompt'', ''show_status'', ''shutdown''] ''ui'' ''ui''
     (\<lambda>d. UiAdapter (py_str (cv_repr cv) (dict_get_or d ''backend'' (VStr ''headless''))))"

definition coerce_event_port :: "'w adapter \<Rightarrow> composition_error + 'w application_port" where
  "coerce_event_port b =
     (if ''emit'' \<in> set (ad_methods b) then Inr (BoundPort b)
      else if ad_callable b then Inr (CallableEventAdapter b)
      else coerce_binding [''emit''] ''event_sink'' ''event'' (\<lambda>_. EventAdapter) b)"

definition coerce_record_store_port :: "'w adapter \<Rightarrow> composition_error + 'w application_port" where
  "coerce_record_store_port = coerce_binding [''create'', ''update'', ''mark_unsynced'', ''save''] ''storage'' ''record_store''
     (\<lambda>_. InMemoryRecordStore)"

definition coerce_file_ops_port :: "'w adapter \<Rightarrow> composition_error + 'w application_port" where
  "coerce_file_ops_port = coerce_binding [''read_bytes'', ''move'', ''exists'', ''mkdir'', ''delete''] ''filesystem'' ''file_ops''
     (\<lambda>_. FileOpsAdapter)"

definition coerce_sync_port :: "conv_env \<Rightarrow> 'w adapter \<Rightarrow> composition_error + 'w application_port" where
  "coerce_sync_port cv = coerce_binding [''sync_record''] ''sync'' ''sync''
     (\<lambda>d. SyncAdapter (py_str (cv_repr cv) (dict_get_or d ''backend'' (VStr ''noop''))))"

definition coerce_plugin_host_port :: "'w adapter \<Rightarrow> composition_error + 'w application_port" where
  "coerce_plugin_host_port = coerce_binding [''get_device_plugins'', ''get_pc_plugins'', ''get_by_capability''] ''plugins'' ''plugin_host''
     (\<lambda>_. PluginHostAdapter)"

definition coerce_filesystem_port :: "'w adapter \<Rightarrow> composition_error + 'w application_port" where
  "coerce_filesystem_port = coerce_binding [''normalize_path''] ''filesystem'' ''filesystem'' (\<lambda>_. FilesystemAdapter)"

definition resolve_clock_binding ::
    "'w factories \<Rightarrow> 'w bindings \<Rightarrow> ('w, composition_error, 'w application_port) io" where
  "resolve_clock_binding factories bs =
     io_bind (case bindings_get bs ''clock'' of
        Some b \<Rightarrow> io_return (Some b)
      | None \<Rightarrow> (case map_of factories ''clock'' of
          None \<Rightarrow> io_return None
        | Some factory \<Rightarrow> (\<lambda>w. case factory w of (Inl e, w1) \<Rightarrow> (Inl (CompositionRaised e), w1) | (Inr b, w1) \<Rightarrow> (Inr b, w1))))
     (\<lambda>candidate. case candidate of
        None \<Rightarrow> io_raise (CompositionBindingError ''Missing required clock binding for runtime app.'')
      | Some b \<Rightarrow> io_lift (coerce_binding [''now''] ''clock'' ''clock'' (\<lambda>_. SystemClock) b))"

fun port_attrs :: "'w application_port \<Rightarrow> string list" where
  "port_attrs (BoundPort a) = ad_protocol_attrs a"
| "port_attrs (UiAdapter _) = [''backend'', ''initialize'', ''notify'', ''prompt'', ''show_status'', ''shutdown'']"
| "port_attrs EventAdapter = [''emit'']"
| "port_attrs (CallableEventAdapter _) = [''emit'']"
| "port_attrs InMemoryRecordStore = [''create'', ''update'', ''mark_unsynced'', ''save'']"
| "port_attrs FileOpsAdapter = [''read_bytes'', ''move'', ''exists'', ''mkdir'', ''delete'']"
| "port_attrs (SyncAdapter _) = [''sync_record'']"
| "port_attrs PluginHostAdapter = [''get_device_plugins'', ''get_pc_plugins'', ''get_by_capability'']"
| "port_attrs SystemClock = [''now'']"
| "port_attrs FilesystemAdapter = [''normalize_path'']"

definition REQUIRED_PORT_PROTOCOLS :: "(string \<times> string list) list" where
  "REQUIRED_PORT_PROTOCOLS =
     [(''ui'', [''initialize'', ''notify'', ''prompt'', ''show_status'', ''shutdown'']),
      (''event'', [''emit'']),
      (''record_store'', [''create'', ''update'', ''mark_unsynced'', ''save'']),
      (''file_ops'', [''read_bytes'', ''move'', ''exists'', ''mkdir'', ''delete'']),
      (''sync'', [''sync_record'']),
      (''plugin_host'', [''get_device_plugins'', ''get_pc_plugins'', ''get_by_capability'']),
      (''clock'', [''now'']),
      (''filesystem'', [''normalize_path''])]"

text \<open>The message of the \<^verbatim>\<open>PortBindingError\<close>; \<open>bs\<close> has every name once.\<close>

definition validate_port_bindings ::
    "(string \<times> 'w application_port) list \<Rightarrow> string + (string \<times> 'w application_port) list" where
  "validate_port_bindings bs =
     (let required = map fst REQUIRED_PORT_PROTOCOLS;
          missing = sort (filter (\<lambda>p. p \<notin> fst ` set bs) required);
          unknown = sort (filter (\<lambda>p. p \<notin> set required) (map fst bs))
      in if missing \<noteq> [] then Inl (''missing required port bindings: '' @ str_join '', '' missing)
         else if unknown \<noteq> [] then Inl (''unknown port bindings: '' @ str_join '', '' unknown)
         else case List.find (\<lambda>(p, attrs). case map_of bs p of
                  None \<Rightarrow> True | Some b \<Rightarrow> \<not> list_all (\<lambda>m. m \<in> set (port_attrs b)) attrs) REQUIRED_PORT_PROTOCOLS of
                Some (p, _) \<Rightarrow> Inl (''binding for '' @ quoted_id p @ '' does not match protocol'')
              | None \<Rightarrow> Inr bs)"

definition require_binding :: "'w bindings \<Rightarrow> string \<Rightarrow> composition_error + 'w adapter" where
  "require_binding bs p =
     (case bindings_get bs p of
        None \<Rightarrow> Inl (CompositionBindingError (''Missing required port binding: '' @ quoted_id p @ ''.''))
      | Some b \<Rightarrow> Inr b)"

definition build_application_ports ::
    "conv_env \<Rightarrow> 'w factories \<Rightarrow> 'w bindings \<Rightarrow> ('w, composition_error, (string \<times> 'w application_port) list) io" where
  "build_application_ports cv factories bs =
     io_bind (io_lift (require_binding bs ''event_sink'')) (\<lambda>event_sink.
     io_bind (io_lift (require_binding bs ''storage'')) (\<lambda>storage.
     io_bind (io_lift (require_binding bs ''filesystem'')) (\<lambda>filesystem.
     io_bind (io_lift (require_binding bs ''sync'')) (\<lambda>sync.
     io_bind (io_lift (require_binding bs ''ui'')) (\<lambda>ui.
     io_bind (io_lift (require_binding bs ''plugins'')) (\<lambda>plugins.
     io_bind (io_lift (coerce_ui_port cv ui)) (\<lambda>ui_port.
     io_bind (io_lift (coerce_event_port event_sink)) (\<lambda>event_port.
     io_bind (io_lift (coerce_record_store_port storage)) (\<lambda>record_store.
     io_bind (io_lift (coerce_file_ops_port filesystem)) (\<lambda>file_ops.
     io_bind (io_lift (coerce_sync_port cv sync)) (\<lambda>sync_port.
     io_bind (io_lift (coerce_plugin_host_port plugins)) (\<lambda>plugin_host.
     io_bind (resolve_clock_binding factories bs) (\<lambda>clock.
     io_bind (io_lift (coerce_filesystem_port filesystem)) (\<lambda>filesystem_port.
     io_lift (map_error CompositionBindingError (validate_port_bindings
       [(''ui'', ui_port), (''event'', event_port), (''record_store'', record_store), (''file_ops'', file_ops),
        (''sync'', sync_port), (''plugin_host'', plugin_host), (''clock'', clock), (''filesystem'', filesystem_port)]))))))))))))))))"

section \<open>The bundle\<close>

definition resolve_plugin_visibility :: "bool \<Rightarrow> bool \<Rightarrow> string" where
  "resolve_plugin_visibility bound valid = (if \<not> bound then ''missing'' else if valid then ''bound'' else ''configured'')"

record ('w, 'a) composition_bundle =
  cb_app :: 'a
  cb_port_bindings :: "'w bindings"
  cb_shutdown_hooks :: "('w, py_exception, unit) io list"
  cb_plugin_policy :: runtime_plugin_policy
  cb_required_ports :: "string list"
  cb_bound_ports :: "string list"
  cb_application_ports :: "string list"
  cb_plugin_visibility :: string

definition no_plugin_policy :: runtime_plugin_policy where
  "no_plugin_policy = \<lparr>rpp_selected_pc_plugin = None, rpp_scoped_device_plugins = [], rpp_pc_scope_applied = False\<rparr>"

text \<open>
  \<open>app_factory\<close> is the caller's factory, if it gives one; \<open>default_app\<close> is \<^verbatim>\<open>_default_app_factory\<close>, and
  \<open>resolver\<close> the method \<^verbatim>\<open>resolve_device_scope_for_pc\<close> of the plugin host port, if it has one.
\<close>

definition compose_runtime ::
    "conv_env \<Rightarrow> 'w factories \<Rightarrow> string list \<Rightarrow> ('w bindings \<Rightarrow> ('w, py_exception, unit) io) list \<Rightarrow>
     ('w application_port \<Rightarrow> (string \<Rightarrow> ('w, host_error, pc_device_scope) io) option) \<Rightarrow> plugin_settings \<Rightarrow>
     ('w bindings \<Rightarrow> ('w, py_exception, 'a) io) option \<Rightarrow>
     ((string \<times> 'w application_port) list \<Rightarrow> runtime_plugin_policy \<Rightarrow> ('w, py_exception, 'a) io) \<Rightarrow>
     ('w, composition_error, ('w, 'a) composition_bundle) io" where
  "compose_runtime cv factories required checks resolver settings app_factory default_app =
     io_bind (compose_bindings factories required checks) (\<lambda>bs.
     io_bind (case app_factory of
         Some _ \<Rightarrow> io_return (None, no_plugin_policy)
       | None \<Rightarrow>
           io_bind (build_application_ports cv factories bs) (\<lambda>ports.
           io_bind (resolve_runtime_plugin_policy cv (case map_of ports ''plugin_host'' of None \<Rightarrow> None | Some h \<Rightarrow> resolver h) settings)
             (\<lambda>policy. io_return (Some ports, policy)))) (\<lambda>(ports, policy).
     io_bind (\<lambda>w. case (case app_factory of Some f \<Rightarrow> f bs
                       | None \<Rightarrow> default_app (case ports of None \<Rightarrow> [] | Some ps \<Rightarrow> ps) policy) w of
         (Inl _, w1) \<Rightarrow> (Inl (CompositionInitializationError ''Failed to build runtime app.''), w1)
       | (Inr app, w1) \<Rightarrow> (Inr app, w1)) (\<lambda>app.
     io_return
       \<lparr>cb_app = app, cb_port_bindings = bs, cb_shutdown_hooks = build_shutdown_hook bs, cb_plugin_policy = policy,
        cb_required_ports = deterministic_port_order required, cb_bound_ports = sort (map fst bs),
        cb_application_ports = (case ports of None \<Rightarrow> [] | Some ps \<Rightarrow> sort (map fst ps)),
        cb_plugin_visibility = resolve_plugin_visibility (bindings_get bs ''plugins'' \<noteq> None)
          (case ports of None \<Rightarrow> False | Some ps \<Rightarrow> map_of ps ''plugin_host'' \<noteq> None)\<rparr>)))"

end
