(* ===== verification/Composition_Correct.thy ===== *)
theory Composition_Correct
  imports Composition
begin

text \<open>
  What composition guarantees: the bindings, whatever the order in which ports are required; application
  ports that all conform to their protocols; and shutdown hooks that run once, newest adapter first.
\<close>

section \<open>Bindings\<close>

lemma duplicate_port_None: "duplicate_port seen ps = None \<longleftrightarrow> distinct ps \<and> set ps \<inter> set seen = {}"
  by (induction ps arbitrary: seen) auto

lemma no_duplicates: "validate_no_duplicate_ports ps = Inr () \<longleftrightarrow> distinct ps"
  "validate_no_duplicate_ports ps = Inl e \<Longrightarrow> \<exists>m. e = CompositionDuplicateBindingError m"
  using duplicate_port_None [of "[]" ps] by (auto simp: validate_no_duplicate_ports_def split: option.splits)

lemma required_bound: "validate_required_bindings fs ps = Inr () \<longleftrightarrow> set ps \<subseteq> fst ` set fs"
  "validate_required_bindings fs ps = Inl e \<Longrightarrow> \<exists>m. e = CompositionBindingError m"
  by (auto simp: validate_required_bindings_def find_None_iff find_Some_iff map_of_eq_None_iff split: option.splits)
    (use nth_mem in blast)

lemma port_order_perm:
  assumes "mset ps = mset qs"
  shows "deterministic_port_order ps = deterministic_port_order qs"
  unfolding deterministic_port_order_def
  by (rule sort_key_inj_key_eq) (auto simp: assms inj_on_def)

lemma instantiated:
  assumes "instantiate_bindings fs ps w = (out, w')" and "set ps \<subseteq> fst ` set fs"
  shows "case out of Inl e \<Rightarrow> (\<exists>m. e = CompositionInitializationError m)
    | Inr bs \<Rightarrow> map fst bs = ps \<and> (\<forall>(p, b) \<in> set bs. \<exists>f v v'. map_of fs p = Some f \<and> f v = (Inr b, v'))"
  using assms
proof (induction ps arbitrary: out w w')
  case (Cons p ps)
  then obtain f where f: "map_of fs p = Some f" by (cases "map_of fs p") (auto simp: map_of_eq_None_iff)
  show ?case
  proof (cases "f w")
    case (Pair r w1)
    show ?thesis
    proof (cases r)
      case (Inr b)
      obtain x w2 where x: "instantiate_bindings fs ps w1 = (x, w2)" by fastforce
      with Cons.IH [OF x] Cons.prems f Pair Inr show ?thesis by (cases x) (auto 4 4 simp: io_bind_def)
    qed (use Cons.prems f Pair in auto)
  qed
qed simp

lemma healthchecked: "run_healthchecks bs checks w = (Inl e, w') \<Longrightarrow> \<exists>m. e = CompositionInitializationError m"
  by (induction checks arbitrary: w) (auto split: prod.splits sum.splits)

lemma port_order_set [simp]: "set (deterministic_port_order ps) = set ps"
  by (simp add: deterministic_port_order_def)

lemma compose_bindings_checked:
  assumes "distinct req" and "set req \<subseteq> fst ` set fs" and "compose_bindings fs req checks w = (out, w')"
  shows "case out of Inl e \<Rightarrow> (\<exists>m. e = CompositionInitializationError m \<or> e = CompositionPluginBindingError m)
    | Inr bs \<Rightarrow> map fst bs = deterministic_port_order req \<and> bindings_get bs ''plugins'' \<noteq> None \<and>
        (\<forall>(p, b) \<in> set bs. \<exists>f v v'. map_of fs p = Some f \<and> f v = (Inr b, v'))"
proof -
  have ok: "validate_no_duplicate_ports req = Inr ()" "validate_required_bindings fs req = Inr ()"
    using assms(1, 2) by (simp_all add: no_duplicates(1) required_bound(1))
  obtain x w1 where x: "instantiate_bindings fs (deterministic_port_order req) w = (x, w1)" by fastforce
  from instantiated [OF this] assms(2) have i: "case x of Inl e \<Rightarrow> (\<exists>m. e = CompositionInitializationError m)
    | Inr bs \<Rightarrow> map fst bs = deterministic_port_order req \<and>
        (\<forall>(p, b) \<in> set bs. \<exists>f v v'. map_of fs p = Some f \<and> f v = (Inr b, v'))" by simp
  show ?thesis
    using assms(3) i healthchecked [of _ checks]
    by (cases x) (fastforce simp: compose_bindings_def ok x io_bind_def validate_plugin_binding_def raise_if_def
        split: prod.splits sum.splits if_splits)+
qed

text \<open>
  C16. Composition checks before it acts and does not depend on the order in which ports are required: a
  duplicate or an unknown required port is refused before any factory is called. Otherwise any
  permutation of the required ports gives the same result in the same world, and when the result is a set
  of bindings it binds exactly the required ports, in the fixed order, each to what its own factory
  returned, with a plugin host among them; when it is an error, it is an initialization or a plugin
  binding error.
\<close>

theorem compose_bindings_correct:
  assumes "compose_bindings fs req checks w = (out, w')"
  shows "if \<not> distinct req then (\<exists>m. out = Inl (CompositionDuplicateBindingError m)) \<and> w' = w
    else if \<not> set req \<subseteq> fst ` set fs then (\<exists>m. out = Inl (CompositionBindingError m)) \<and> w' = w
    else (\<forall>req'. mset req' = mset req \<longrightarrow> compose_bindings fs req' checks w = (out, w')) \<and>
      (case out of Inl e \<Rightarrow> (\<exists>m. e = CompositionInitializationError m \<or> e = CompositionPluginBindingError m)
       | Inr bs \<Rightarrow> map fst bs = deterministic_port_order req \<and> bindings_get bs ''plugins'' \<noteq> None \<and>
           (\<forall>(p, b) \<in> set bs. \<exists>f v v'. map_of fs p = Some f \<and> f v = (Inr b, v')))"
proof -
  have dup: "(\<exists>m. out = Inl (CompositionDuplicateBindingError m)) \<and> w' = w" if "\<not> distinct req"
    using that assms no_duplicates [of req]
    by (cases "validate_no_duplicate_ports req") (auto simp: compose_bindings_def io_bind_def)
  have missing: "(\<exists>m. out = Inl (CompositionBindingError m)) \<and> w' = w" if "distinct req" "\<not> set req \<subseteq> fst ` set fs"
    using that assms no_duplicates(1) [of req] required_bound [of fs req]
    by (cases "validate_required_bindings fs req") (auto simp: compose_bindings_def io_bind_def)
  have perm: "compose_bindings fs req' checks w = (out, w')"
    if "distinct req" "set req \<subseteq> fst ` set fs" "mset req' = mset req" for req'
  proof -
    have "distinct req'" "set req' = set req" using that(1, 3) by (metis mset_eq_imp_distinct_iff, metis mset_eq_setD)
    with that(1, 2) have "validate_no_duplicate_ports req' = Inr ()" "validate_no_duplicate_ports req = Inr ()"
      "validate_required_bindings fs req' = Inr ()" "validate_required_bindings fs req = Inr ()"
      by (simp_all add: no_duplicates(1) required_bound(1))
    with assms show ?thesis by (simp add: compose_bindings_def port_order_perm [OF that(3)])
  qed
  show ?thesis using dup missing perm compose_bindings_checked [OF _ _ assms] by simp
qed

definition demo_adapter :: "string \<Rightarrow> string list \<Rightarrow> nat \<Rightarrow> string list adapter" where
  "demo_adapter kind methods i = \<lparr>ad_methods = methods, ad_protocol_attrs = methods, ad_callable = False,
     ad_mapping = Some [(''kind'', VStr kind)], ad_attr_id = (\<lambda>_. i), ad_invoke = (\<lambda>m log. (Inr (), log @ [kind]))\<rparr>"

text \<open>Every port bound to the mapping that names it; the UI and the storage have hooks of their own.\<close>

definition demo_factories :: "(string list) factories" where
  "demo_factories = map (\<lambda>(p, kind, methods, i). (p, \<lambda>log. (Inr (Some (demo_adapter kind methods i)), log @ [p])))
     [(''ui'', ''ui'', [''stop''], 1), (''plugins'', ''plugins'', [], 2), (''storage'', ''storage'', [''close''], 3),
      (''sync'', ''sync'', [], 4), (''event_sink'', ''event_sink'', [], 5), (''clock'', ''clock'', [], 6),
      (''filesystem'', ''filesystem'', [], 7), (''observability'', ''observability'', [''close''], 3)]"

definition demo_required :: "string list" where
  "demo_required = map fst demo_factories"

theorem compose_bindings_correct_witness:
  "map_prod (map_sum id (map fst)) id (compose_bindings demo_factories demo_required [] []) =
     (Inr DEFAULT_REQUIRED_PORTS, DEFAULT_REQUIRED_PORTS) \<and>
   compose_bindings demo_factories (rev demo_required) [] [] = compose_bindings demo_factories demo_required [] []"
proof -
  obtain out w' where run: "compose_bindings demo_factories demo_required [] [] = (out, w')" by fastforce
  have ok: "distinct demo_required" "set demo_required \<subseteq> fst ` set demo_factories"
    by (code_simp, simp add: demo_required_def)
  have "map_prod (map_sum id (map fst)) id (compose_bindings demo_factories demo_required [] []) =
     (Inr DEFAULT_REQUIRED_PORTS, DEFAULT_REQUIRED_PORTS)" by code_simp
  with compose_bindings_correct [OF run] ok run show ?thesis by (simp del: mset_map)
qed

section \<open>Application ports\<close>

lemma validated:
  assumes "validate_port_bindings bs = Inr bs'"
  shows "bs' = bs \<and> (\<forall>(p, attrs) \<in> set REQUIRED_PORT_PROTOCOLS. \<exists>b. map_of bs p = Some b \<and> set attrs \<subseteq> set (port_attrs b))"
  using assms
  by (fastforce simp: validate_port_bindings_def Let_def find_None_iff list_all_iff split: if_splits option.splits)

text \<open>
  What each application port is made of: the binding it comes from, the methods an adapter needs to be the
  port itself, the kind of a mapping that describes a built-in adapter, and that built-in adapter.
\<close>

definition port_sources :: "conv_env \<Rightarrow> (string \<times> string \<times> string list \<times> string \<times> (mapping \<Rightarrow> 'w application_port)) list" where
  "port_sources cv =
     (let backend = (\<lambda>d default. py_str (cv_repr cv) (dict_get_or d ''backend'' (VStr default))) in
      [(''ui'', ''ui'', [''initialize'', ''notify'', ''prompt'', ''show_status'', ''shutdown''], ''ui'', \<lambda>d. UiAdapter (backend d ''headless'')),
       (''event'', ''event_sink'', [''emit''], ''event_sink'', \<lambda>_. EventAdapter),
       (''record_store'', ''storage'', [''create'', ''update'', ''mark_unsynced'', ''save''], ''storage'', \<lambda>_. InMemoryRecordStore),
       (''file_ops'', ''filesystem'', [''read_bytes'', ''move'', ''exists'', ''mkdir'', ''delete''], ''filesystem'', \<lambda>_. FileOpsAdapter),
       (''sync'', ''sync'', [''sync_record''], ''sync'', \<lambda>d. SyncAdapter (backend d ''noop'')),
       (''plugin_host'', ''plugins'', [''get_device_plugins'', ''get_pc_plugins'', ''get_by_capability''], ''plugins'', \<lambda>_. PluginHostAdapter),
       (''clock'', ''clock'', [''now''], ''clock'', \<lambda>_. SystemClock),
       (''filesystem'', ''filesystem'', [''normalize_path''], ''filesystem'', \<lambda>_. FilesystemAdapter)])"

definition port_of :: "string \<Rightarrow> string list \<Rightarrow> string \<Rightarrow> (mapping \<Rightarrow> 'w application_port) \<Rightarrow> 'w adapter \<Rightarrow> 'w application_port \<Rightarrow> bool" where
  "port_of p methods kind builtin a b \<longleftrightarrow>
     (if set methods \<subseteq> set (ad_methods a) then b = BoundPort a
      else if p = ''event'' \<and> ad_callable a then b = CallableEventAdapter a
      else \<exists>d. ad_mapping a = Some d \<and> get_or_none d ''kind'' = VStr kind \<and> b = builtin d)"

text \<open>The adapter of a port: its binding, or, for a clock that is not bound, what the clock factory returns.\<close>

definition adapter_for :: "'w factories \<Rightarrow> 'w bindings \<Rightarrow> 'w \<Rightarrow> 'w \<Rightarrow> string \<Rightarrow> 'w adapter \<Rightarrow> bool" where
  "adapter_for factories bs w w' source a \<longleftrightarrow> bindings_get bs source = Some a \<or>
     source = ''clock'' \<and> bindings_get bs ''clock'' = None \<and> (\<exists>f. map_of factories ''clock'' = Some f \<and> f w = (Inr (Some a), w'))"

lemma coerced: "p \<noteq> ''event'' \<Longrightarrow> coerce_binding ms kind port wrap a = Inr b \<longleftrightarrow> port_of p ms kind wrap a b"
  by (auto simp: coerce_binding_def port_of_def list_all_iff split: option.splits)

lemma coerced_ports:
  "coerce_ui_port cv a = Inr b \<longleftrightarrow> port_of ''ui'' [''initialize'', ''notify'', ''prompt'', ''show_status'', ''shutdown''] ''ui''
     (\<lambda>d. UiAdapter (py_str (cv_repr cv) (dict_get_or d ''backend'' (VStr ''headless'')))) a b"
  "coerce_event_port a = Inr b \<longleftrightarrow> port_of ''event'' [''emit''] ''event_sink'' (\<lambda>_. EventAdapter) a b"
  "coerce_record_store_port a = Inr b \<longleftrightarrow> port_of ''record_store'' [''create'', ''update'', ''mark_unsynced'', ''save''] ''storage''
     (\<lambda>_. InMemoryRecordStore) a b"
  "coerce_file_ops_port a = Inr b \<longleftrightarrow> port_of ''file_ops'' [''read_bytes'', ''move'', ''exists'', ''mkdir'', ''delete''] ''filesystem''
     (\<lambda>_. FileOpsAdapter) a b"
  "coerce_sync_port cv a = Inr b \<longleftrightarrow> port_of ''sync'' [''sync_record''] ''sync''
     (\<lambda>d. SyncAdapter (py_str (cv_repr cv) (dict_get_or d ''backend'' (VStr ''noop'')))) a b"
  "coerce_plugin_host_port a = Inr b \<longleftrightarrow> port_of ''plugin_host'' [''get_device_plugins'', ''get_pc_plugins'', ''get_by_capability''] ''plugins''
     (\<lambda>_. PluginHostAdapter) a b"
  "coerce_filesystem_port a = Inr b \<longleftrightarrow> port_of ''filesystem'' [''normalize_path''] ''filesystem'' (\<lambda>_. FilesystemAdapter) a b"
  unfolding coerce_ui_port_def coerce_record_store_port_def coerce_file_ops_port_def coerce_sync_port_def
    coerce_plugin_host_port_def coerce_filesystem_port_def
  by (simp_all add: coerced)
    (auto simp: coerce_event_port_def coerce_binding_def port_of_def split: option.splits)

lemma clock_resolved:
  "resolve_clock_binding factories bs w = (Inr b, w') \<longleftrightarrow>
     (\<exists>a. adapter_for factories bs w w' ''clock'' a \<and> (bindings_get bs ''clock'' \<noteq> None \<longrightarrow> w' = w) \<and>
        port_of ''clock'' [''now''] ''clock'' (\<lambda>_. SystemClock) a b)"
  using coerced [of "''clock''" "[''now'']" "''clock''" "''clock''" "\<lambda>_. SystemClock"]
  by (auto simp: resolve_clock_binding_def adapter_for_def io_bind_def io_return_def io_lift_def io_raise_def
      split: option.splits prod.splits sum.splits)

definition ports_complete :: "conv_env \<Rightarrow> 'w factories \<Rightarrow> 'w bindings \<Rightarrow> 'w \<Rightarrow> 'w \<Rightarrow> (string \<Rightarrow> 'w application_port option) \<Rightarrow> bool" where
  "ports_complete cv factories bs w w' ports \<longleftrightarrow>
     (\<forall>(p, source, methods, kind, builtin) \<in> set (port_sources cv). \<exists>a b.
        adapter_for factories bs w w' source a \<and> ports p = Some b \<and> port_of p methods kind builtin a b) \<and>
     (\<forall>(p, attrs) \<in> set REQUIRED_PORT_PROTOCOLS. \<exists>b. ports p = Some b \<and> set attrs \<subseteq> set (port_attrs b))"

lemma built_ports:
  assumes "build_application_ports cv factories bs w = (Inr ps, w')"
  shows "map fst ps = map fst REQUIRED_PORT_PROTOCOLS \<and> ports_complete cv factories bs w w' (map_of ps)"
proof -
  from assms obtain ad_e ad_s ad_f ad_y ad_u ad_p u e r f y h c g where
    bound: "bindings_get bs ''event_sink'' = Some ad_e" "bindings_get bs ''storage'' = Some ad_s"
      "bindings_get bs ''filesystem'' = Some ad_f" "bindings_get bs ''sync'' = Some ad_y" "bindings_get bs ''ui'' = Some ad_u"
      "bindings_get bs ''plugins'' = Some ad_p"
    and ports: "coerce_ui_port cv ad_u = Inr u" "coerce_event_port ad_e = Inr e" "coerce_record_store_port ad_s = Inr r"
      "coerce_file_ops_port ad_f = Inr f" "coerce_sync_port cv ad_y = Inr y" "coerce_plugin_host_port ad_p = Inr h"
      "resolve_clock_binding factories bs w = (Inr c, w')" "coerce_filesystem_port ad_f = Inr g"
    and v: "validate_port_bindings [(''ui'', u), (''event'', e), (''record_store'', r),
        (''file_ops'', f), (''sync'', y), (''plugin_host'', h), (''clock'', c), (''filesystem'', g)] = Inr ps"
    by (auto simp: build_application_ports_def io_bind_eq map_error_eq require_binding_def split: option.splits)
  note ps = validated [OF v]
  from ports(7) obtain ad_c where clock: "adapter_for factories bs w w' ''clock'' ad_c"
    "port_of ''clock'' [''now''] ''clock'' (\<lambda>_. SystemClock) ad_c c" by (auto simp: clock_resolved)
  have "adapter_for factories bs w w' ''event_sink'' ad_e" "adapter_for factories bs w w' ''storage'' ad_s"
    "adapter_for factories bs w w' ''filesystem'' ad_f" "adapter_for factories bs w w' ''sync'' ad_y"
    "adapter_for factories bs w w' ''ui'' ad_u" "adapter_for factories bs w w' ''plugins'' ad_p"
    using bound by (simp_all add: adapter_for_def)
  with clock ports [unfolded coerced_ports] ps show ?thesis
    by (simp add: ports_complete_def port_sources_def Let_def REQUIRED_PORT_PROTOCOLS_def) blast
qed

lemma unbuilt_ports:
  assumes "build_application_ports cv factories bs w = (Inl e, w')"
  shows "\<not> (bindings_get bs ''clock'' \<noteq> None \<and> ports_complete cv factories bs w w ports)"
proof
  assume asm: "bindings_get bs ''clock'' \<noteq> None \<and> ports_complete cv factories bs w w ports"
  have src: "adapter_for factories bs w w source a \<longleftrightarrow> bindings_get bs source = Some a" for source a
    using asm by (auto simp: adapter_for_def)
  from asm obtain ad_e ad_s ad_f ad_y ad_u ad_p ad_c u ev r f y h c g where
    bound: "bindings_get bs ''event_sink'' = Some ad_e" "bindings_get bs ''storage'' = Some ad_s"
      "bindings_get bs ''filesystem'' = Some ad_f" "bindings_get bs ''sync'' = Some ad_y" "bindings_get bs ''ui'' = Some ad_u"
      "bindings_get bs ''plugins'' = Some ad_p" "bindings_get bs ''clock'' = Some ad_c"
    and ports: "coerce_ui_port cv ad_u = Inr u" "coerce_event_port ad_e = Inr ev" "coerce_record_store_port ad_s = Inr r"
      "coerce_file_ops_port ad_f = Inr f" "coerce_sync_port cv ad_y = Inr y" "coerce_plugin_host_port ad_p = Inr h"
      "port_of ''clock'' [''now''] ''clock'' (\<lambda>_. SystemClock) ad_c c" "coerce_filesystem_port ad_f = Inr g"
    and names: "ports ''ui'' = Some u" "ports ''event'' = Some ev" "ports ''record_store'' = Some r" "ports ''file_ops'' = Some f"
      "ports ''sync'' = Some y" "ports ''plugin_host'' = Some h" "ports ''clock'' = Some c" "ports ''filesystem'' = Some g"
    by (simp add: ports_complete_def port_sources_def Let_def src coerced_ports) (elim conjE exE, clarsimp)
  have clock: "resolve_clock_binding factories bs w = (Inr c, w)"
    unfolding clock_resolved using bound(7) ports(7) by (auto simp: adapter_for_def)
  have "validate_port_bindings [(''ui'', u), (''event'', ev), (''record_store'', r), (''file_ops'', f), (''sync'', y),
      (''plugin_host'', h), (''clock'', c), (''filesystem'', g)] = Inr [(''ui'', u), (''event'', ev), (''record_store'', r),
      (''file_ops'', f), (''sync'', y), (''plugin_host'', h), (''clock'', c), (''filesystem'', g)]"
    using asm names by (simp add: ports_complete_def validate_port_bindings_def REQUIRED_PORT_PROTOCOLS_def list_all_iff)
  with assms bound ports clock show False
    by (simp add: build_application_ports_def require_binding_def)
qed

text \<open>
  C17. The application ports are complete: what \<^verbatim>\<open>_build_application_ports\<close> returns binds exactly the eight
  ports the application requires. Each port comes from its own binding (a clock that is not bound, from the
  clock factory) and is the adapter bound there if that has the port's methods, else, if the adapter is a
  mapping of the port's kind, the built-in adapter for it (for the event port, first the wrapper of a
  callable); and it has every member of the port's protocol. It is refused only where that is impossible: with
  a bound clock, an error means that some port has no such adapter. Nothing but the clock factory is called
  on the way, and that only when no clock is bound.
\<close>

theorem application_ports_complete:
  assumes "build_application_ports cv factories bs w = (out, w')"
  shows "(case out of Inl _ \<Rightarrow> bindings_get bs ''clock'' \<noteq> None \<longrightarrow> (\<nexists>ports. ports_complete cv factories bs w w ports)
     | Inr ps \<Rightarrow> map fst ps = map fst REQUIRED_PORT_PROTOCOLS \<and> ports_complete cv factories bs w w' (map_of ps)) \<and>
    (bindings_get bs ''clock'' \<noteq> None \<longrightarrow> w' = w)"
proof
  show "case out of Inl _ \<Rightarrow> bindings_get bs ''clock'' \<noteq> None \<longrightarrow> (\<nexists>ports. ports_complete cv factories bs w w ports)
     | Inr ps \<Rightarrow> map fst ps = map fst REQUIRED_PORT_PROTOCOLS \<and> ports_complete cv factories bs w w' (map_of ps)"
  proof (cases out)
    case (Inl e)
    with assms unbuilt_ports [of cv factories bs w e w'] show ?thesis by auto
  next
    case (Inr ps)
    with assms built_ports show ?thesis by fastforce
  qed
next
  show "bindings_get bs ''clock'' \<noteq> None \<longrightarrow> w' = w"
    using assms
    by (auto simp: build_application_ports_def resolve_clock_binding_def io_bind_def io_return_def io_lift_def
        split: prod.splits sum.splits option.splits)
qed

theorem application_ports_complete_witness:
  "case compose_bindings demo_factories demo_required [] [] of
     (Inl _, _) \<Rightarrow> False
   | (Inr bs, w) \<Rightarrow>
       (case build_application_ports demo_conv demo_factories bs w of
          (Inl _, _) \<Rightarrow> False
        | (Inr ps, w') \<Rightarrow> w' = w \<and> map_of ps ''record_store'' = Some InMemoryRecordStore)"
proof -
  obtain r w where c: "compose_bindings demo_factories demo_required [] [] = (r, w)" by fastforce
  obtain x w' where x: "build_application_ports demo_conv demo_factories (case r of Inl _ \<Rightarrow> [] | Inr bs \<Rightarrow> bs) w = (x, w')"
    by fastforce
  have "case compose_bindings demo_factories demo_required [] [] of (r, w) \<Rightarrow>
      (case r of Inl _ \<Rightarrow> False | Inr bs \<Rightarrow> bindings_get bs ''clock'' \<noteq> None \<and>
        (case bindings_get bs ''storage'' of None \<Rightarrow> False | Some a \<Rightarrow> ad_methods a = [''close''])) \<and>
      \<not> isl (fst (build_application_ports demo_conv demo_factories (case r of Inl _ \<Rightarrow> [] | Inr bs \<Rightarrow> bs) w))"
    by code_simp
  with c x obtain bs ps a where b: "r = Inr bs" "bindings_get bs ''clock'' \<noteq> None" "x = Inr ps"
      "bindings_get bs ''storage'' = Some a" "ad_methods a = [''close'']"
    by (cases r; cases x) (auto split: option.splits)
  have p: "(''record_store'', ''storage'', [''create'', ''update'', ''mark_unsynced'', ''save''], ''storage'', \<lambda>_. InMemoryRecordStore)
      \<in> set (port_sources demo_conv)" by (simp add: port_sources_def Let_def)
  from application_ports_complete [OF x [unfolded b sum.case]] b(2)
  have "w' = w" "ports_complete demo_conv demo_factories bs w w' (map_of ps)" by auto
  with p have "\<exists>a b. adapter_for demo_factories bs w w' ''storage'' a \<and> map_of ps ''record_store'' = Some b \<and>
      port_of ''record_store'' [''create'', ''update'', ''mark_unsynced'', ''save''] ''storage'' (\<lambda>_. InMemoryRecordStore) a b"
    unfolding ports_complete_def by fastforce
  with b(4, 5) have "map_of ps ''record_store'' = Some InMemoryRecordStore"
    by (auto simp: adapter_for_def port_of_def)
  with \<open>w' = w\<close> b c x show ?thesis by simp
qed

section \<open>Shutdown\<close>

text \<open>
  The method that shuts an adapter down, the hooks of the bound adapters with their identities, in binding
  order, and the pass over them: newest first, a hook that several adapters share at the place of the oldest.
\<close>

definition hook_method :: "'w adapter \<Rightarrow> string option" where
  "hook_method a =
     (if ''shutdown'' \<in> set (ad_methods a) then Some ''shutdown''
      else if ''close'' \<in> set (ad_methods a) then Some ''close''
      else if ''stop'' \<in> set (ad_methods a) then Some ''stop'' else None)"

definition adapter_hooks :: "'w bindings \<Rightarrow> (nat \<times> ('w, py_exception, unit) io) list" where
  "adapter_hooks bs = concat (map (\<lambda>(p, b). case b of None \<Rightarrow> []
     | Some a \<Rightarrow> (case hook_method a of None \<Rightarrow> [] | Some m \<Rightarrow> [(ad_attr_id a m, ad_invoke a m)])) bs)"

definition shutdown_pass :: "'w bindings \<Rightarrow> ('w, py_exception, unit) io list" where
  "shutdown_pass bs = map (\<lambda>i. the (map_of (adapter_hooks bs) i)) (remdups (rev (map fst (adapter_hooks bs))))"

lemma extracted: "extract_shutdown_hook a = hook_method a"
  by (simp add: extract_shutdown_hook_def hook_method_def)

lemma remdups_snoc: "remdups (xs @ [i]) = filter (\<lambda>j. j \<noteq> i) (remdups xs) @ [i]"
  by (induction xs) auto

lemma collected:
  "collect_hooks seen (map snd bs) = map (\<lambda>i. (i, the (map_of (adapter_hooks bs) i)))
     (rev (filter (\<lambda>i. i \<notin> set seen) (remdups (rev (map fst (adapter_hooks bs))))))"
proof (induction bs arbitrary: seen)
  case (Cons pb bs)
  obtain p b where pb: "pb = (p, b)" by (cases pb)
  show ?case
  proof (cases "b = None \<or> (\<exists>a. b = Some a \<and> hook_method a = None)")
    case True
    with pb Cons.IH show ?thesis by (auto simp: adapter_hooks_def extracted)
  next
    case False
    then obtain a m where b: "b = Some a" "hook_method a = Some m" by auto
    define i where "i = ad_attr_id a m"
    have h: "adapter_hooks (pb # bs) = (i, ad_invoke a m) # adapter_hooks bs"
      by (simp add: adapter_hooks_def pb b i_def)
    have c: "collect_hooks seen (map snd (pb # bs)) =
      (if i \<in> set seen then collect_hooks seen (map snd bs) else (i, ad_invoke a m) # collect_hooks (i # seen) (map snd bs))"
      by (simp add: pb b extracted i_def)
    have "filter (\<lambda>j. j \<noteq> i \<and> j \<notin> set seen) xs = filter (\<lambda>j. j \<notin> set seen) xs" if "i \<in> set seen" for xs
      using that by (auto intro!: filter_cong)
    then show ?thesis unfolding c Cons.IH h by (auto simp: remdups_snoc conj_commute)
  qed
qed (simp add: adapter_hooks_def)

lemma hooks_of_pass: "rev (build_shutdown_hook bs) = shutdown_pass bs"
  by (simp add: build_shutdown_hook_def collected shutdown_pass_def rev_map comp_def)

text \<open>The world after the hooks of a list have run, each from where the one before it left off.\<close>

definition after_hooks :: "('w, py_exception, unit) io list \<Rightarrow> 'w \<Rightarrow> 'w" where
  "after_hooks hs w = fold (\<lambda>h u. snd (h u)) hs w"

lemma invoked:
  assumes "\<forall>j < n. fst ((hs ! j) (after_hooks (take j hs) w)) = Inr ()" and "n \<le> length hs"
  shows "invoke_hooks hs w = invoke_hooks (drop n hs) (after_hooks (take n hs) w)"
  using assms
proof (induction hs arbitrary: n w)
  case (Cons h hs)
  show ?case
  proof (cases n)
    case (Suc m)
    have "\<forall>j < m. fst ((hs ! j) (after_hooks (take j hs) (snd (h w)))) = Inr ()"
      using Cons.prems(1) Suc by (auto simp: after_hooks_def dest: spec [where x = "Suc j" for j])
    moreover have "fst (h w) = Inr ()" using Cons.prems(1) Suc by (auto simp: after_hooks_def dest: spec [where x = "0"])
    ultimately show ?thesis
      using Cons.IH [of m "snd (h w)"] Cons.prems(2) Suc
      by (cases "h w") (simp add: after_hooks_def io_bind_def)
  qed (simp add: after_hooks_def)
qed (simp add: after_hooks_def)

lemma shutdown_done: "((\<lambda>s. snd (shutdown_all hooks s)) ^^ n) (True, w) = (True, w)"
  by (induction n) (simp_all add: shutdown_all_def)

lemma shutdown_again:
  "((\<lambda>s. snd (shutdown_all hooks s)) ^^ Suc n) (False, w) = snd (shutdown_all hooks (False, w))"
  by (cases "invoke_hooks (rev hooks) w")
    (simp add: shutdown_all_def [where s = "(False, w)"] funpow_Suc_right shutdown_done del: funpow.simps)

lemma shutdown_stops:
  assumes "\<forall>j < n. fst ((shutdown_pass bs ! j) (after_hooks (take j (shutdown_pass bs)) w)) = Inr ()"
  shows "n = length (shutdown_pass bs) \<Longrightarrow>
      shutdown_all (build_shutdown_hook bs) (False, w) = (Inr (), True, after_hooks (shutdown_pass bs) w)"
    and "n < length (shutdown_pass bs) \<Longrightarrow>
      fst ((shutdown_pass bs ! n) (after_hooks (take n (shutdown_pass bs)) w)) = Inl e \<Longrightarrow>
      shutdown_all (build_shutdown_hook bs) (False, w) = (Inl e, True, after_hooks (take (Suc n) (shutdown_pass bs)) w)"
proof -
  show "shutdown_all (build_shutdown_hook bs) (False, w) = (Inr (), True, after_hooks (shutdown_pass bs) w)"
    if "n = length (shutdown_pass bs)"
    using invoked [OF assms] that by (simp add: shutdown_all_def hooks_of_pass)
  show "shutdown_all (build_shutdown_hook bs) (False, w) = (Inl e, True, after_hooks (take (Suc n) (shutdown_pass bs)) w)"
    if "n < length (shutdown_pass bs)" "fst ((shutdown_pass bs ! n) (after_hooks (take n (shutdown_pass bs)) w)) = Inl e"
    using invoked [OF assms] that
    by (cases "(shutdown_pass bs ! n) (after_hooks (take n (shutdown_pass bs)) w)")
      (simp add: shutdown_all_def hooks_of_pass io_bind_def take_Suc_conv_app_nth after_hooks_def flip: Cons_nth_drop_Suc)
qed

text \<open>
  C18. Shutdown runs once, newest adapter first. The pass takes the hooks of the bound adapters (the first of
  \<^verbatim>\<open>shutdown\<close>, \<^verbatim>\<open>close\<close> and \<^verbatim>\<open>stop\<close> an adapter has) in reverse binding order, a shared one only once, where
  the oldest adapter that has it stands. If the first n hooks succeed, each in the world the one before it
  left, and the pass has no more, the shutdown succeeds in the world they leave; if the next one raises,
  the shutdown raises that exception there and the hooks after it, those of the adapters bound earlier,
  are not run. Either way, however often it is called, the world stays the one the first call left, and
  every later call succeeds and does nothing: hooks that were not run never will be.
\<close>

theorem shutdown_runs_once:
  fixes bs :: "'w bindings"
  defines "hooks \<equiv> build_shutdown_hook bs" and "pass \<equiv> shutdown_pass bs"
  assumes "\<forall>j < n. fst ((pass ! j) (after_hooks (take j pass) w)) = Inr ()"
  shows "(n = length pass \<longrightarrow> shutdown_all hooks (False, w) = (Inr (), True, after_hooks pass w)) \<and>
    (\<forall>e. n < length pass \<longrightarrow> fst ((pass ! n) (after_hooks (take n pass) w)) = Inl e \<longrightarrow>
       shutdown_all hooks (False, w) = (Inl e, True, after_hooks (take (Suc n) pass) w)) \<and>
    ((\<lambda>s. snd (shutdown_all hooks s)) ^^ Suc k) (False, w) = snd (shutdown_all hooks (False, w)) \<and>
    (\<forall>w'. shutdown_all hooks (True, w') = (Inr (), True, w'))"
  using shutdown_stops [OF assms(3) [unfolded pass_def]] shutdown_again
  by (simp add: hooks_def pass_def shutdown_all_def [where s = "(True, w')" for w'])

definition demo_bindings :: "string list bindings" where
  "demo_bindings = [(''storage'', Some (demo_adapter ''storage'' [''close''] 3)), (''sync'', Some (demo_adapter ''sync'' [] 4)),
     (''observability'', Some (demo_adapter ''observability'' [''close''] 3)), (''ui'', Some (demo_adapter ''ui'' [''stop''] 1)),
     (''plugins'', Some (demo_adapter ''plugins'' [] 2\<lparr>ad_methods := [''stop''],
        ad_invoke := (\<lambda>_ log. (Inl (plain_exception ''OSError'' ''x''), log @ [''failed'']))\<rparr>))]"

theorem shutdown_runs_once_witness:
  "((\<lambda>s. snd (shutdown_all (build_shutdown_hook (butlast demo_bindings)) s)) ^^ Suc 1) (False, []) = (True, [''ui'', ''storage'']) \<and>
   shutdown_all (build_shutdown_hook demo_bindings) (False, []) = (Inl (plain_exception ''OSError'' ''x''), (True, [''failed'']))"
proof
  let ?p = "shutdown_pass (butlast demo_bindings)" and ?q = "shutdown_pass demo_bindings"
  have p: "length ?p = 2" "fst ((?p ! 0) []) = Inr ()" "fst ((?p ! 1) (after_hooks (take 1 ?p) [])) = Inr ()"
    "after_hooks ?p [] = [''ui'', ''storage'']" by code_simp+
  then have "\<forall>j < 2. fst ((?p ! j) (after_hooks (take j ?p) [])) = Inr ()"
    by (auto simp: less_2_cases_iff after_hooks_def)
  from shutdown_runs_once [OF this, of 1] p(1, 4)
  show "((\<lambda>s. snd (shutdown_all (build_shutdown_hook (butlast demo_bindings)) s)) ^^ Suc 1) (False, []) = (True, [''ui'', ''storage''])"
    by simp
  have q: "0 < length ?q" "fst ((?q ! 0) (after_hooks (take 0 ?q) [])) = Inl (plain_exception ''OSError'' ''x'')"
    "after_hooks (take (Suc 0) ?q) [] = [''failed'']" by code_simp+
  from shutdown_runs_once [where bs = demo_bindings and n = 0 and w = "[]"] q
  show "shutdown_all (build_shutdown_hook demo_bindings) (False, []) = (Inl (plain_exception ''OSError'' ''x''), (True, [''failed'']))"
    by simp
qed

end
