(* ===== verification/Composed_App.thy ===== *)
theory Composed_App
  imports Composition_Correct App_Run Runtime_Event
begin

text \<open>
  The application the default factory of \<^verbatim>\<open>runtime/composition.py\<close> builds (\<^verbatim>\<open>_default_app_factory\<close>): the
  session policy, loop mode, poll interval and event source from the settings, the runtime's engine as the
  engine of the loop, and what a whole run of it leaves in the record store. The ports act on the runtime
  world; the application's clock is the clock port, which gives datetimes.
\<close>

section \<open>Settings\<close>

text \<open>
  The settings as composition reads them: the mode, the watch path, an attribute of the runtime block, and
  an attribute of the settings themselves, \<^verbatim>\<open>None\<close> where there is none, and the settle delay (of the
  ingestion block or of the settings, or 0).
\<close>

record app_settings =
  co_mode :: string
  co_watch :: pyval
  co_runtime_block :: "string \<Rightarrow> pyval"
  co_attribute :: "string \<Rightarrow> pyval"
  co_settle_delay :: pyval

definition setting_of :: "app_settings \<Rightarrow> string \<Rightarrow> pyval" where
  "setting_of co field = (case co_runtime_block co field of VNone \<Rightarrow> co_attribute co field | v \<Rightarrow> v)"

definition py_error_exception :: "py_error \<Rightarrow> py_exception" where
  "py_error_exception e = plain_exception (py_error_name e) (py_error_text e)"

definition extract_optional_timeout :: "conv_env \<Rightarrow> app_settings \<Rightarrow> string \<Rightarrow> py_exception + rat option" where
  "extract_optional_timeout cv co field =
     (case setting_of co field of
        VNone \<Rightarrow> Inr None
      | v \<Rightarrow> map_error py_error_exception (rbind (py_float cv v) (\<lambda>r. Inr (Some r))))"

definition default_session_policy :: "conv_env \<Rightarrow> app_settings \<Rightarrow> py_exception + session_policy" where
  "default_session_policy cv co =
     rbind (extract_optional_timeout cv co ''idle_timeout_seconds'') (\<lambda>idle.
     rbind (extract_optional_timeout cv co ''max_runtime_seconds'') (\<lambda>maxrun.
     map_error session_exception (make_policy idle maxrun)))"

definition resolve_runtime_loop_mode :: "conv_env \<Rightarrow> app_settings \<Rightarrow> string" where
  "resolve_runtime_loop_mode cv co =
     (case setting_of co ''loop_mode'' of
        VNone \<Rightarrow> ''oneshot''
      | v \<Rightarrow> (let normalized = str_lower (strip (py_str (cv_repr cv) v))
              in if normalized = ''oneshot'' \<or> normalized = ''continuous'' then normalized else ''oneshot''))"

definition resolve_runtime_poll_interval :: "conv_env \<Rightarrow> app_settings \<Rightarrow> py_exception + rat" where
  "resolve_runtime_poll_interval cv co =
     (case setting_of co ''poll_interval_seconds'' of
        VNone \<Rightarrow> Inr 1
      | v \<Rightarrow> map_error py_error_exception (rbind (py_float cv v) (\<lambda>r. Inr (max 0 r))))"

section \<open>The event source\<close>

text \<open>
  \<^verbatim>\<open>iter_events\<close> of the UI port, if it has it, gives the events, or something that is not iterable. In
  headless mode the watch directory is listed at every poll, otherwise once, when the source is made.
\<close>

definition resolve_event_source ::
    "('x, 'p) runtime_ports \<Rightarrow> 'x discovery_env \<Rightarrow> ('x, py_exception, mapping list option) io option \<Rightarrow> app_settings \<Rightarrow>
     (('x, 'p) runtime_world, py_exception, ('x, 'p) runtime_world event_source) io" where
  "resolve_event_source rp dc iter_events co =
     (let discover = discover_headless_events rp dc (co_mode co) (co_watch co) in
      io_bind (case iter_events of None \<Rightarrow> io_return None | Some f \<Rightarrow> on_rest f) (\<lambda>source.
      case source of
        Some events \<Rightarrow> io_return (OnceSource (io_return events))
      | None \<Rightarrow>
          if str_lower (co_mode co) = ''headless''
          then io_return (PollSource (io_bind discover (\<lambda>events. io_return (Some events))))
          else io_bind discover (\<lambda>events. io_return (OnceSource (io_return events)))))"

section \<open>The application\<close>

text \<open>
  The engine is called with the context the application built; the loop sees the kind of the outcome. The
  clock port and its sleep, the event environment and the system clock are those of the rest of the world.
\<close>

record 'x app_env =
  ae_now :: "('x, py_exception, int) io"
  ae_sleep :: "rat \<Rightarrow> ('x, py_exception, unit) io"
  ae_event_env :: "'x \<Rightarrow> event_env"
  ae_system_now :: "'x \<Rightarrow> int"
  ae_digest16 :: "string \<Rightarrow> string"
  ae_discovery :: "'x discovery_env"
  ae_iter_events :: "('x, py_exception, mapping list option) io option"

definition engine_port ::
    "('x, 'p) runtime_ports \<Rightarrow> 'x app_env \<Rightarrow> launch_facts \<Rightarrow> mapping \<Rightarrow> processing_context \<Rightarrow>
     (('x, 'p) runtime_world, py_exception, outcome_kind) io" where
  "engine_port rp ae lf event px =
     io_bind (runtime_process rp (ae_system_now ae) lf (ae_digest16 ae) event (Some px)) (\<lambda>out. io_return (io_kind out))"

definition default_settings_snapshot :: "conv_env \<Rightarrow> launch_facts \<Rightarrow> runtime_plugin_policy \<Rightarrow> app_settings \<Rightarrow> mapping" where
  "default_settings_snapshot cv lf policy co =
     [(''mode'', VStr (co_mode co)), (''profile'', VStr (runtime_profile lf)),
      (''selected_pc_plugin'', opt_text (rpp_selected_pc_plugin policy)),
      (''scoped_device_plugins'', VList (map VStr (rpp_scoped_device_plugins policy))),
      (''runtime_loop_mode'', VStr (resolve_runtime_loop_mode cv co))]"

definition no_runtime_context :: runtime_context where
  "no_runtime_context = \<lparr>rx_mode = [], rx_profile = [], rx_session_id = [], rx_event_id = [], rx_trace_id = [],
     rx_dependency_ids = [], rx_settings_snapshot = []\<rparr>"

text \<open>
  The ports of the loop; the constructor of the application fills in the runtime context. A new session
  manager has no callbacks.
\<close>

definition default_app_ports ::
    "('x, 'p) runtime_ports \<Rightarrow> 'x app_env \<Rightarrow> launch_facts \<Rightarrow> app_settings \<Rightarrow> ('x, 'p) runtime_world event_source \<Rightarrow> rat \<Rightarrow>
     ('x, 'p) runtime_world app_ports" where
  "default_app_ports rp ae lf co source interval =
     \<lparr>ap_event_source = source, ap_event_emitter = (\<lambda>m. on_rest (rp_emit rp m)), ap_clock = on_rest (ae_now ae),
      ap_engine_process = engine_port rp ae lf, ap_cancellation_signal = io_return False,
      ap_idle_wait = (\<lambda>d. on_rest (ae_sleep ae d)), ap_event_env = (\<lambda>w. ae_event_env ae (rw_rest w)),
      ap_session_id = ''session-'' @ lf_trace_id lf, ap_trace_id = lf_trace_id lf, ap_stop_on_failure = True,
      ap_loop_mode = resolve_runtime_loop_mode (rp_conv rp) co, ap_poll_interval_seconds = interval,
      ap_runtime_context = no_runtime_context\<rparr>"

definition default_app_factory ::
    "('x, 'p) runtime_ports \<Rightarrow> 'x app_env \<Rightarrow> launch_facts \<Rightarrow> string \<Rightarrow> app_settings \<Rightarrow>
     (('x, 'p) runtime_world, py_exception, ('x, 'p) runtime_world app_ports \<times> ('x, 'p) runtime_world app) io" where
  "default_app_factory rp ae lf requested_mode co =
     io_bind (io_lift (default_session_policy (rp_conv rp) co)) (\<lambda>policy.
     io_bind (io_lift (resolve_settle_delay (rp_conv rp) (co_settle_delay co))) (\<lambda>delay.
     io_bind (resolve_event_source rp (ae_discovery ae) (ae_iter_events ae) co) (\<lambda>source.
     io_bind (io_lift (resolve_runtime_poll_interval (rp_conv rp) co)) (\<lambda>interval w.
     (make_app (default_app_ports (rp\<lparr>rp_settle_delay := delay\<rparr>) ae lf co source interval) requested_mode (runtime_profile lf)
        (default_settings_snapshot (rp_conv rp) lf (rp_policy rp) co) (runtime_dependency_ids lf)
        (new_manager policy [] w), w)))))"

section \<open>A predicate of the world every collaborator keeps\<close>

definition preserves :: "('w \<Rightarrow> bool) \<Rightarrow> ('w, 'e, 'a) io \<Rightarrow> bool" where
  "preserves W m \<longleftrightarrow> (\<forall>w. W w \<longrightarrow> W (snd (m w)))"

lemma preservesD: "preserves W m \<Longrightarrow> W w \<Longrightarrow> m w = (r, w') \<Longrightarrow> W w'"
  by (auto simp: preserves_def dest: spec [where x = w])

definition world_kept :: "'w app_ports \<Rightarrow> ('w \<Rightarrow> bool) \<Rightarrow> bool" where
  "world_kept p W \<longleftrightarrow> preserves W (ap_clock p) \<and> (\<forall>m. preserves W (ap_event_emitter p m)) \<and>
     preserves W (ap_cancellation_signal p) \<and> (\<forall>d. preserves W (ap_idle_wait p d)) \<and>
     (\<forall>w. W w \<longrightarrow> W (source_worlds (ap_event_source p) w)) \<and> (\<forall>e px. preserves W (ap_engine_process p e px))"

definition kept :: "('w \<Rightarrow> bool) \<Rightarrow> 'w app \<Rightarrow> bool" where
  "kept W a \<longleftrightarrow> sm_callbacks (app_session_manager a) = [] \<and> W (app_world a)"

lemma kept_on_world: "preserves W m \<Longrightarrow> keeps (kept W) (on_world m)"
  by (rule io_specI) (auto simp: kept_def on_world_eq dest: preservesD)

lemma kept_session_io:
  assumes "preserves W (ap_clock p)"
    and "\<And>clk m r m'. sm_callbacks m = [] \<Longrightarrow> f clk m = (r, m') \<Longrightarrow> sm_world m' = sm_world m \<and> sm_callbacks m' = []"
  shows "keeps (kept W) (session_io p rd f)"
proof (rule spec_session_io [OF kept_on_world [OF assms(1)]])
  fix clk b r m
  assume "kept W b" "f clk (app_session_manager b) = (Inr r, m)"
  then show "kept W (b\<lparr>app_session_manager := m\<rparr>)"
    using assms(2) [of "app_session_manager b" clk "Inr r" m] by (simp add: kept_def app_world_def)
next
  fix clk b e m
  assume "kept W b" "f clk (app_session_manager b) = (Inl e, m)"
  then show "kept W (b\<lparr>app_session_manager := m\<rparr>)"
    using assms(2) [of "app_session_manager b" clk "Inl e" m] by (simp add: kept_def app_world_def)
qed

lemma kept_calls:
  assumes "world_kept p W"
  shows "keeps (kept W) (app_activity p)" "keeps (kept W) (app_stop p)" "keeps (kept W) (app_abort p why)"
    "keeps (kept W) (app_start p)" "keeps (kept W) (app_emit p k x)"
proof -
  have c: "preserves W (ap_clock p)" "preserves W (ap_event_emitter p m)" for m using assms by (simp_all add: world_kept_def)
  show "keeps (kept W) (app_activity p)" "keeps (kept W) (app_stop p)" "keeps (kept W) (app_abort p why)" "keeps (kept W) (app_start p)"
    unfolding app_activity_def app_stop_def app_abort_def app_start_def
    by (rule kept_session_io, rule c, erule (1) silent_session_calls)+
  show "keeps (kept W) (app_emit p k x)"
    unfolding app_emit_def
    by (rule spec_bind [OF kept_on_world [OF c(1)]]) (use kept_on_world [OF c(2)] in \<open>simp add: io_spec_def\<close>)
qed

interpretation keeping: app_invariant p "\<lambda>a. world_kept p W \<longrightarrow> kept W a" "\<lambda>_ a. world_kept p W \<longrightarrow> kept W a"
  "\<lambda>a. world_kept p W \<longrightarrow> kept W a" for p W
proof (cases "world_kept p W")
  case False
  then show "app_invariant p (\<lambda>a. world_kept p W \<longrightarrow> kept W a) (\<lambda>_ a. world_kept p W \<longrightarrow> kept W a) (\<lambda>a. world_kept p W \<longrightarrow> kept W a)"
    by unfold_locales (auto simp: io_spec_def split: prod.splits sum.splits)
next
  case True
  have src: "preserves W f" if "ap_event_source p = PollSource f" for f
    using True that by (auto simp: world_kept_def source_worlds_def preserves_def)
  have src': "preserves W f" if "ap_event_source p = OnceSource f" for f
    using True that by (auto simp: world_kept_def source_worlds_def preserves_def)
  have "app_invariant p (kept W) (\<lambda>_. kept W) (kept W)"
    by unfold_locales
      (use True in \<open>auto simp: world_kept_def kept_def app_world_def intro!: kept_on_world src src' kept_calls(1) [OF True]\<close>)
  with True show "app_invariant p (\<lambda>a. world_kept p W \<longrightarrow> kept W a) (\<lambda>_ a. world_kept p W \<longrightarrow> kept W a) (\<lambda>a. world_kept p W \<longrightarrow> kept W a)"
    by simp
qed

lemma kept_finish:
  assumes "world_kept p W"
  shows "keeps (kept W) (finish_run p why)" "keeps (kept W) (fail_run p e)"
  unfolding finish_run_def fail_run_def
  by (intro spec_if spec_bind [OF kept_calls(2) [OF assms]] spec_bind [OF kept_calls(3) [OF assms]]
      spec_bind [OF kept_calls(5) [OF assms]] kept_calls(5) [OF assms] spec_raise; assumption?)+

lemma run_keeps_world:
  assumes k: "world_kept p W" and a: "kept W a" and run: "run_app p a = Some (r, b)"
  shows "kept W b"
proof -
  have start: "keeps (kept W) (io_bind (app_start p) (\<lambda>_. app_emit p ''runtime_started'' []))"
    by (intro spec_bind [OF kept_calls(4) [OF k]] kept_calls(5) [OF k])
  from run show ?thesis
  proof (cases rule: run_app_cases)
    case (start e)
    then show ?thesis using io_spec_Inl [OF \<open>keeps (kept W) _\<close> a start(1)] by simp
  next
    case (failed a1 e a2)
    have "kept W a1" using io_spec_Inr [OF start a failed(1)] .
    with keeping.J_app_loop [OF failed(2), of W] k have "kept W a2" by simp
    with keeps_snd [OF kept_finish(2) [OF k]] failed(3) show ?thesis by (metis snd_conv)
  next
    case (finished a1 c why a2)
    have "kept W a1" using io_spec_Inr [OF start a finished(1)] .
    with keeping.J_app_loop [OF finished(2), of W] k have "kept W a2" by simp
    with keeps_snd [OF kept_finish(1) [OF k, of why], of a2] finished(3) show ?thesis
      by (auto simp: io_bind_def split: prod.splits sum.splits)
  qed
qed

section \<open>A run of the composed application\<close>

lemma rest_preserves: "preserves (advances rp w0) (on_rest m)"
  unfolding preserves_def by (metis advances_trans prod.collapse rest_advances)

lemma preserves_return: "preserves W (io_return x)"
  by (simp add: preserves_def)

lemma preserves_bind:
  assumes "preserves W m" and "\<And>x. preserves W (f x)"
  shows "preserves W (io_bind m f)"
  unfolding preserves_def
proof (intro allI impI)
  fix w
  assume w: "W w"
  obtain r w1 where m: "m w = (r, w1)" by fastforce
  with w assms(1) have "W w1" by (blast dest: preservesD)
  with m assms(2) show "W (snd (io_bind m f w))" by (auto simp: io_bind_def preserves_def split: sum.split)
qed

lemma preserves_lift: "preserves W (io_lift x)"
  by (simp add: preserves_def)

lemmas preserves_io = preserves_return preserves_lift preserves_bind

lemma discover_preserves: "preserves (advances rp w0) (discover_headless_events rp dc mode watch)"
proof -
  have one: "preserves (advances rp w0) (headless_event rp dc e)" for e
    unfolding headless_event_def clock_seconds_def by (intro preserves_io) (auto intro: preserves_io rest_preserves split: option.split)
  have "preserves (advances rp w0) (headless_events rp dc es)" for es
  proof (induction es)
    case Nil
    show ?case unfolding headless_events.simps by (rule preserves_return)
  next
    case (Cons e es)
    then show ?case unfolding headless_events.simps by (intro preserves_bind one preserves_return)
  qed
  then show ?thesis
    by (auto simp: preserves_def discover_headless_events_def split: pyval.split option.split)
qed

lemma resolved_source:
  assumes "resolve_event_source rp dc it co w = (out, w')"
  shows "advances rp w w'" "out = Inr source \<Longrightarrow> advances rp w0 v \<Longrightarrow> advances rp w0 (source_worlds source v)"
proof -
  note d = discover_preserves [of rp w0 dc "co_mode co" "co_watch co"]
  have "preserves (advances rp w) (resolve_event_source rp dc it co)"
    unfolding resolve_event_source_def Let_def
    by (intro preserves_bind) (auto intro!: preserves_io rest_preserves discover_preserves split: option.split)
  from preservesD [OF this advances_refl assms] show "advances rp w w'" .
  show "advances rp w0 (source_worlds source v)" if "out = Inr source" "advances rp w0 v"
  proof -
    have "source_worlds source v = v \<or> source_worlds source v = snd (discover_headless_events rp dc (co_mode co) (co_watch co) v)"
      using assms that(1) unfolding resolve_event_source_def Let_def
      by (auto simp: io_bind_eq source_worlds_def split: option.splits if_splits) (auto simp: io_bind_def split: prod.split sum.split)
    with d that(2) show ?thesis by (auto simp: preserves_def)
  qed
qed

lemma engine_port_preserves:
  assumes "no_other_writer rp" and "clean_digests rp"
  shows "preserves (advances rp w0) (engine_port rp ae lf event px)"
proof -
  have "preserves (advances rp w0) (runtime_process rp (ae_system_now ae) lf (ae_digest16 ae) event (Some px))"
    unfolding preserves_def using runtime_process_advances [OF _ assms] advances_trans by (metis prod.collapse)
  then show ?thesis unfolding engine_port_def by (intro preserves_io)
qed

lemma made_app:
  assumes "make_app q mode profile snapshot ids m = Inr (p, a)"
  shows "a = \<lparr>app_session_manager = m, app_seen_event_ids = [], app_event_source_consumed = False\<rparr>"
    "\<exists>lm rx. p = q\<lparr>ap_loop_mode := lm, ap_runtime_context := rx\<rparr>"
    "ap_loop_mode q = ''oneshot'' \<Longrightarrow> ap_loop_mode p = ''oneshot''"
proof -
  have "str_lower (strip ''oneshot'') = ''oneshot''" by code_simp
  with assms show "ap_loop_mode q = ''oneshot'' \<Longrightarrow> ap_loop_mode p = ''oneshot''"
    by (auto simp: make_app_def Let_def rbind_def raise_if_def split: sum.splits if_splits)
qed (use assms in \<open>auto simp: make_app_def Let_def rbind_def raise_if_def split: sum.splits if_splits\<close>)

lemma composed_app:
  assumes "default_app_factory rp ae lf requested co w0 = (Inr (p, a), w1)"
  obtains policy delay source interval lm rx where
    "resolve_event_source rp (ae_discovery ae) (ae_iter_events ae) co w0 = (Inr source, w1)"
    "p = (default_app_ports (rp\<lparr>rp_settle_delay := delay\<rparr>) ae lf co source interval)\<lparr>ap_loop_mode := lm, ap_runtime_context := rx\<rparr>"
    "a = \<lparr>app_session_manager = new_manager policy [] w1, app_seen_event_ids = [], app_event_source_consumed = False\<rparr>"
    "resolve_runtime_loop_mode (rp_conv rp) co = ''oneshot'' \<longrightarrow> lm = ''oneshot''"
proof -
  obtain policy delay source interval where s: "resolve_event_source rp (ae_discovery ae) (ae_iter_events ae) co w0 = (Inr source, w1)"
    and m: "make_app (default_app_ports (rp\<lparr>rp_settle_delay := delay\<rparr>) ae lf co source interval) requested (runtime_profile lf)
        (default_settings_snapshot (rp_conv rp) lf (rp_policy rp) co) (runtime_dependency_ids lf) (new_manager policy [] w1) = Inr (p, a)"
    using assms by (auto simp: default_app_factory_def io_bind_eq)
  from made_app(2) [OF m] obtain lm rx where p: "p = (default_app_ports (rp\<lparr>rp_settle_delay := delay\<rparr>) ae lf co source interval)\<lparr>ap_loop_mode := lm, ap_runtime_context := rx\<rparr>"
    by blast
  from made_app(3) [OF m] p have "resolve_runtime_loop_mode (rp_conv rp) co = ''oneshot'' \<longrightarrow> lm = ''oneshot''"
    by (simp add: default_app_ports_def)
  from that [OF s p made_app(1) [OF m] this] show ?thesis .
qed

lemma settle_delay_frame [simp]:
  "advances (rp\<lparr>rp_settle_delay := d\<rparr>) = advances rp"
  "no_other_writer (rp\<lparr>rp_settle_delay := d\<rparr>) = no_other_writer rp"
  "clean_digests (rp\<lparr>rp_settle_delay := d\<rparr>) = clean_digests rp"
  by (simp_all add: fun_eq_iff advances_def tracked_def reads_back_def no_other_writer_def clean_digests_def)

lemma composed_world_kept:
  assumes "default_app_factory rp ae lf requested co w0 = (Inr (p, a), w1)" and "no_other_writer rp" and "clean_digests rp"
  shows "world_kept p (advances rp w0)" "kept (advances rp w0) a"
proof -
  obtain policy delay source interval lm rx where c:
    "resolve_event_source rp (ae_discovery ae) (ae_iter_events ae) co w0 = (Inr source, w1)"
    "p = (default_app_ports (rp\<lparr>rp_settle_delay := delay\<rparr>) ae lf co source interval)\<lparr>ap_loop_mode := lm, ap_runtime_context := rx\<rparr>"
    "a = \<lparr>app_session_manager = new_manager policy [] w1, app_seen_event_ids = [], app_event_source_consumed = False\<rparr>"
    using composed_app [OF assms(1)] by metis
  show "world_kept p (advances rp w0)"
    using resolved_source(2) [OF c(1) refl]
      engine_port_preserves [of "rp\<lparr>rp_settle_delay := delay\<rparr>" w0] assms(2, 3)
    by (simp add: world_kept_def c(2) default_app_ports_def rest_preserves preserves_io)
  show "kept (advances rp w0) a" using resolved_source(1) [OF c(1)] by (simp add: kept_def c(3) app_world_def new_manager_def)
qed

lemma oneshot_run_returns:
  assumes "ap_loop_mode p = ''oneshot''"
  shows "\<exists>r b. run_app p a = Some (r, b)"
proof -
  have "app_loop p no_counts a1 \<noteq> None" for a1
    by (intro loop_returns [where n = 0]) (use assms in \<open>auto dest: oneshot_ends\<close>)
  then show ?thesis by (auto simp del: not_None_eq simp: run_app_def split: prod.splits sum.splits option.splits)
qed


definition demo_app_settings :: app_settings where
  "demo_app_settings = \<lparr>co_mode = ''headless'', co_watch = VStr ''/in'', co_runtime_block = (\<lambda>_. VNone), co_attribute = (\<lambda>_. VNone),
     co_settle_delay = VInt 2\<rparr>"

definition demo_app_env :: "string list app_env" where
  "demo_app_env = \<lparr>ae_now = (\<lambda>x. (Inr 5, x)), ae_sleep = (\<lambda>_ x. (Inr (), x)),
     ae_event_env = (\<lambda>_. \<lparr>ee_now = 0, ee_isoformat = int_str, ee_aware = (\<lambda>_. True)\<rparr>), ae_system_now = (\<lambda>_. 5),
     ae_digest16 = (\<lambda>_. ''h''),
     ae_discovery = \<lparr>dc_resolve = (\<lambda>s. s), dc_float_repr = (\<lambda>_. ''t''),
       dc_listing = (\<lambda>_ _. Some [\<lparr>de_path = ''/in/sub'', de_is_file = False, de_mtime_ns = None, de_mtime = None\<rparr>,
         \<lparr>de_path = ''/in/a.txt'', de_is_file = True, de_mtime_ns = Some 5, de_mtime = Some 5\<rparr>])\<rparr>,
     ae_iter_events = None\<rparr>"

lemma demo_composed_run:
  "case default_app_factory demo_runtime_ports demo_app_env demo_launch ''headless'' demo_app_settings demo_runtime_world of
     (Inl _, _) \<Rightarrow> False
   | (Inr (p, a), _) \<Rightarrow>
       (case run_app p a of
          Some (Inr res, b) \<Rightarrow> rn_processed (ar_counts res) = 1 \<and> rn_failed (ar_counts res) = 0 \<and>
            map_of (rw_revisions (app_world b)) ''record-0123456789ab'' = Some 1
        | _ \<Rightarrow> False)"
  by code_simp


end
