(* ===== verification/Settings_Schema.thy ===== *)
theory Settings_Schema
  imports Paths
begin

text \<open>
  The schema of the startup settings (\<^verbatim>\<open>application/startup/settings_schema.py\<close>): aliases, the canonical
  template, required fields, token and number normalization, enumerations and the cross-field constraint.
  An issue keeps its code and path; its message and hint, which only people read, are left out. A set of
  nested dictionaries is a value \<open>VDict\<close>; lists and tuples are the same value \<open>VList\<close>.
\<close>

section \<open>Model\<close>

record settings_schema_issue =
  si_code :: string
  si_path :: string

datatype settings_schema_error =
    SettingsSchemaMissingFieldError string settings_schema_issue
  | SettingsSchemaValueError string settings_schema_issue
  | SettingsSchemaConstraintError string settings_schema_issue
  | SettingsSchemaAliasError string settings_schema_issue
  | SchemaEscaped py_error

text \<open>\<open>SchemaEscaped\<close> is a Python error that no handler of the schema catches.\<close>

fun schema_error_message :: "settings_schema_error \<Rightarrow> string" where
  "schema_error_message (SettingsSchemaMissingFieldError m _) = m"
| "schema_error_message (SettingsSchemaValueError m _) = m"
| "schema_error_message (SettingsSchemaConstraintError m _) = m"
| "schema_error_message (SettingsSchemaAliasError m _) = m"
| "schema_error_message (SchemaEscaped _) = []"

definition issue :: "string \<Rightarrow> string \<Rightarrow> settings_schema_issue" where
  "issue code path = \<lparr>si_code = code, si_path = path\<rparr>"

definition ALIAS_TO_CANONICAL :: "(string \<times> string list) list" where
  "ALIAS_TO_CANONICAL =
     [(''runtime_mode'', [''mode'']), (''runtime_profile'', [''profile'']),
      (''ui_backend'', [''ui'', ''backend'']), (''sync_backend'', [''sync'', ''backend''])]"

definition CANONICAL_TEMPLATE :: mapping where
  "CANONICAL_TEMPLATE =
     [(''profile'', VNone),
      (''runtime'', VDict [(''loop_mode'', VStr ''oneshot''), (''poll_interval_seconds'', VFloat 1),
         (''idle_timeout_seconds'', VNone), (''max_runtime_seconds'', VNone)]),
      (''paths'', VDict [(''root'', VNone), (''watch'', VStr ''incoming''), (''dest'', VStr ''processed''),
         (''staging'', VStr ''tmp'')]),
      (''ui'', VDict [(''backend'', VStr ''headless'')]),
      (''sync'', VDict [(''backend'', VStr ''noop''), (''api_token'', VNone)]),
      (''ingestion'', VDict [(''retry_limit'', VInt 3), (''retry_delay_seconds'', VFloat 1)]),
      (''naming'', VDict [(''prefix'', VStr ''DPOST''), (''policy'', VStr ''prefix_only'')]),
      (''plugins'', VDict [(''pc_name'', VNone), (''device_plugins'', VList [])])]"

definition ENUMS :: "(string list \<times> string list) list" where
  "ENUMS =
     [([''mode''], [''headless'', ''desktop'']), ([''runtime'', ''loop_mode''], [''oneshot'', ''continuous'']),
      ([''ui'', ''backend''], [''headless'', ''desktop'']), ([''sync'', ''backend''], [''noop'', ''kadi'']),
      ([''naming'', ''policy''], [''prefix_only'', ''prefix_date''])]"

definition SETTINGS_FIELDS :: "string list" where
  "SETTINGS_FIELDS = [''mode'', ''profile'', ''runtime'', ''paths'', ''ui'', ''sync'', ''ingestion'', ''naming'', ''plugins'']"

subsection \<open>Paths into nested dictionaries\<close>

fun get_path :: "pyval \<Rightarrow> string list \<Rightarrow> pyval option" where
  "get_path v [] = Some v"
| "get_path (VDict d) (k # ks) = (case map_of d k of None \<Rightarrow> None | Some v \<Rightarrow> get_path v ks)"
| "get_path _ (k # ks) = None"

definition path_exists :: "mapping \<Rightarrow> string list \<Rightarrow> bool" where
  "path_exists d ks \<longleftrightarrow> get_path (VDict d) ks \<noteq> None"

fun set_path :: "mapping \<Rightarrow> string list \<Rightarrow> pyval \<Rightarrow> mapping" where
  "set_path d [] v = d"
| "set_path d [k] v = AList.update k v d"
| "set_path d (k # k' # ks) v =
     AList.update k (VDict (set_path (case map_of d k of Some (VDict e) \<Rightarrow> e | _ \<Rightarrow> []) (k' # ks) v)) d"

text \<open>\<^verbatim>\<open>==\<close> on values: numbers by value, dictionaries whatever the order of their keys.\<close>

fun py_norm :: "pyval \<Rightarrow> pyval"
and py_norm_items :: "(string \<times> pyval) list \<Rightarrow> (string \<times> pyval) list"
and py_norm_list :: "pyval list \<Rightarrow> pyval list" where
  "py_norm (VBool b) = VFloat (if b then 1 else 0)"
| "py_norm (VInt i) = VFloat (of_int i)"
| "py_norm (VList vs) = VList (py_norm_list vs)"
| "py_norm (VDict d) = VDict (sort_key fst (py_norm_items d))"
| "py_norm v = v"
| "py_norm_items [] = []"
| "py_norm_items ((k, v) # d) = (k, py_norm v) # py_norm_items d"
| "py_norm_list [] = []"
| "py_norm_list (v # vs) = py_norm v # py_norm_list vs"

definition py_eq :: "pyval \<Rightarrow> pyval \<Rightarrow> bool" where
  "py_eq v u \<longleftrightarrow> py_norm v = py_norm u"

subsection \<open>Aliases and the template\<close>

definition resolve_alias :: "mapping \<Rightarrow> string \<times> string list \<Rightarrow> settings_schema_error + mapping" where
  "resolve_alias d a =
     (case map_of d (fst a) of
        None \<Rightarrow> Inr d
      | Some alias_value \<Rightarrow>
          (let e = dict_pop (fst a) d in
           case get_path (VDict e) (snd a) of
             None \<Rightarrow> Inr (set_path e (snd a) alias_value)
           | Some v \<Rightarrow>
               if py_eq v alias_value then Inr e
               else Inl (SettingsSchemaAliasError ''Conflicting startup settings aliases detected.''
                      (issue ''alias_collision'' (fst a)))))"

definition normalize_aliases :: "mapping \<Rightarrow> settings_schema_error + mapping" where
  "normalize_aliases raw = rfold resolve_alias raw ALIAS_TO_CANONICAL"

definition merge_nested_dict :: "string \<Rightarrow> mapping \<Rightarrow> mapping \<Rightarrow> settings_schema_error + mapping" where
  "merge_nested_dict block base override =
     rfold (\<lambda>d (k, v). if map_of d k = None
         then Inl (SettingsSchemaValueError ''Unknown nested startup settings field.''
                (issue ''unknown_field'' (block @ ''.'' @ k)))
         else Inr (AList.update k v d)) base override"

definition merge_field :: "mapping \<Rightarrow> string \<times> pyval \<Rightarrow> settings_schema_error + mapping" where
  "merge_field d kv =
     (let (k, v) = kv in
      if k \<notin> set SETTINGS_FIELDS
      then Inl (SettingsSchemaValueError ''Unknown startup settings field.'' (issue ''unknown_field'' k))
      else case map_of d k of
             Some (VDict base) \<Rightarrow>
               (case v of
                  VDict override \<Rightarrow> rbind (merge_nested_dict k base override) (\<lambda>e. Inr (AList.update k (VDict e) d))
                | _ \<Rightarrow> Inl (SettingsSchemaValueError ''Invalid nested settings type.'' (issue ''invalid_type'' k)))
           | _ \<Rightarrow> Inr (AList.update k v d))"

definition merge_with_template :: "mapping \<Rightarrow> settings_schema_error + mapping" where
  "merge_with_template raw = rfold merge_field CANONICAL_TEMPLATE raw"

subsection \<open>Normalization and checks\<close>

definition validate_required_fields :: "conv_env \<Rightarrow> mapping \<Rightarrow> settings_schema_error + unit" where
  "validate_required_fields cv d =
     (if map_of d ''mode'' = None
      then Inl (SettingsSchemaMissingFieldError ''Missing required startup field.'' (issue ''missing_field'' ''mode''))
      else raise_if (case get_path (VDict d) [''paths'', ''root''] of
                None \<Rightarrow> True
              | Some v \<Rightarrow> strip (if py_truthy v then py_str (cv_repr cv) v else []) = [])
             (SettingsSchemaMissingFieldError ''Missing required startup field.'' (issue ''missing_field'' ''paths.root'')))"

definition coerce_non_negative_float :: "conv_env \<Rightarrow> pyval \<Rightarrow> string \<Rightarrow> settings_schema_error + rat" where
  "coerce_non_negative_float cv v path =
     (case try_convert (py_float cv v) of
        Inl e \<Rightarrow> Inl (SchemaEscaped e)
      | Inr None \<Rightarrow> Inl (SettingsSchemaValueError ''Invalid startup settings field type.'' (issue ''invalid_type'' path))
      | Inr (Some r) \<Rightarrow>
          if r < 0 then Inl (SettingsSchemaValueError ''Invalid startup settings field value.'' (issue ''invalid_value'' path))
          else Inr r)"

definition coerce_optional_non_negative_float :: "conv_env \<Rightarrow> pyval \<Rightarrow> string \<Rightarrow> settings_schema_error + pyval" where
  "coerce_optional_non_negative_float cv v path =
     (if v = VNone then Inr VNone else rbind (coerce_non_negative_float cv v path) (\<lambda>r. Inr (VFloat r)))"

definition lower_token :: "conv_env \<Rightarrow> pyval \<Rightarrow> string" where
  "lower_token cv v = str_lower (strip (py_str (cv_repr cv) v))"

definition block_get :: "mapping \<Rightarrow> string \<Rightarrow> string \<Rightarrow> pyval" where
  "block_get d block k = (case get_path (VDict d) [block, k] of None \<Rightarrow> VNone | Some v \<Rightarrow> v)"

definition normalize_token_at :: "conv_env \<Rightarrow> string \<Rightarrow> string \<Rightarrow> mapping \<Rightarrow> mapping" where
  "normalize_token_at cv block k d = set_path d [block, k] (VStr (lower_token cv (block_get d block k)))"

definition normalize_plugin_id :: "conv_env \<Rightarrow> pyval \<Rightarrow> settings_schema_error + pyval" where
  "normalize_plugin_id cv x =
     (let token = lower_token cv x in
      if token = []
      then Inl (SettingsSchemaValueError ''Invalid startup settings field value.''
             (issue ''invalid_value'' ''plugins.device_plugins''))
      else Inr (VStr token))"

definition normalize_device_plugins :: "conv_env \<Rightarrow> pyval \<Rightarrow> settings_schema_error + pyval" where
  "normalize_device_plugins cv v =
     (if v = VNone \<or> v = VStr [] then Inr (VList [])
      else case v of
        VList vs \<Rightarrow> rbind (rmap (normalize_plugin_id cv) vs) (\<lambda>tokens. Inr (VList tokens))
      | _ \<Rightarrow> Inl (SettingsSchemaValueError ''Invalid startup settings field type.''
               (issue ''invalid_type'' ''plugins.device_plugins'')))"

definition normalize_tokens :: "conv_env \<Rightarrow> mapping \<Rightarrow> settings_schema_error + mapping" where
  "normalize_tokens cv d0 =
     (let d1 = AList.update ''mode'' (VStr (lower_token cv (get_or_none d0 ''mode''))) d0;
          profile = get_or_none d1 ''profile'';
          d2 = AList.update ''profile'' (if profile = VNone then VNone else VStr (lower_token cv profile)) d1;
          d3 = normalize_token_at cv ''runtime'' ''loop_mode'' d2 in
      rbind (coerce_non_negative_float cv (block_get d3 ''runtime'' ''poll_interval_seconds'') ''runtime.poll_interval_seconds'') (\<lambda>r.
      let d4 = set_path d3 [''runtime'', ''poll_interval_seconds''] (VFloat r) in
      rbind (coerce_optional_non_negative_float cv (block_get d4 ''runtime'' ''idle_timeout_seconds'') ''runtime.idle_timeout_seconds'') (\<lambda>v.
      let d5 = set_path d4 [''runtime'', ''idle_timeout_seconds''] v in
      rbind (coerce_optional_non_negative_float cv (block_get d5 ''runtime'' ''max_runtime_seconds'') ''runtime.max_runtime_seconds'') (\<lambda>u.
      let d6 = set_path d5 [''runtime'', ''max_runtime_seconds''] u;
          d7 = normalize_token_at cv ''naming'' ''policy'' (normalize_token_at cv ''sync'' ''backend''
                 (normalize_token_at cv ''ui'' ''backend'' d6));
          pc_name = block_get d7 ''plugins'' ''pc_name'';
          d8 = set_path d7 [''plugins'', ''pc_name'']
                 (if pc_name = VNone \<or> lower_token cv pc_name = [] then VNone else VStr (lower_token cv pc_name)) in
      rbind (normalize_device_plugins cv (block_get d8 ''plugins'' ''device_plugins'')) (\<lambda>tokens.
      Inr (set_path d8 [''plugins'', ''device_plugins''] tokens))))))"

definition validate_enums :: "mapping \<Rightarrow> settings_schema_error + unit" where
  "validate_enums d =
     (case List.find (\<lambda>(ks, allowed). \<not> (\<exists>s \<in> set allowed. get_path (VDict d) ks = Some (VStr s))) ENUMS of
        None \<Rightarrow> Inr ()
      | Some (ks, _) \<Rightarrow> Inl (SettingsSchemaValueError ''Invalid startup enum value.''
               (issue ''invalid_enum'' (str_join ''.'' ks))))"

definition validate_constraints :: "mapping \<Rightarrow> settings_schema_error + unit" where
  "validate_constraints d =
     raise_if (get_or_none d ''mode'' = VStr ''desktop'' \<and> block_get d ''ui'' ''backend'' \<noteq> VStr ''desktop'')
       (SettingsSchemaConstraintError ''Cross-field startup settings constraint violation.''
          (issue ''constraint_violation'' ''ui.backend''))"

definition validate_raw_settings :: "conv_env \<Rightarrow> pyval \<Rightarrow> settings_schema_error + mapping" where
  "validate_raw_settings cv raw =
     (case raw of
        VDict d \<Rightarrow>
          rbind (normalize_aliases d) (\<lambda>canonical.
          rbind (merge_with_template canonical) (\<lambda>merged.
          rbind (validate_required_fields cv merged) (\<lambda>_.
          rbind (normalize_tokens cv merged) (\<lambda>normalized.
          rbind (validate_enums normalized) (\<lambda>_.
          rbind (validate_constraints normalized) (\<lambda>_.
          Inr normalized))))))
      | _ \<Rightarrow> Inl (SettingsSchemaValueError ''Invalid startup settings payload.'' (issue ''invalid_type'' ''$'')))"

end
