(* ===== verification/Settings.thy ===== *)
theory Settings
  imports Settings_Schema
begin

text \<open>
  The typed startup settings (\<^verbatim>\<open>application/startup/settings.py\<close>): the normalization of a raw payload
  into a record, the payload the dependency resolver reads, and the redacted form. \<^verbatim>\<open>Path.resolve\<close> and the
  working directory are parameters.
\<close>

section \<open>Model\<close>

record runtime_settings =
  rs_mode :: string
  rs_profile :: "string option"
  rs_loop_mode :: string
  rs_poll_interval_seconds :: rat
  rs_idle_timeout_seconds :: "rat option"
  rs_max_runtime_seconds :: "rat option"

record path_settings =
  ps_root :: string
  ps_watch :: string
  ps_dest :: string
  ps_staging :: string

record naming_settings =
  ns_prefix :: string
  ns_policy :: string

record ingestion_settings =
  is_retry_limit :: int
  is_retry_delay_seconds :: rat

record sync_settings =
  ys_backend :: string
  ys_api_token :: "string option"

record plugin_policy_settings =
  pp_pc_name :: "string option"
  pp_device_plugins :: "string list"

record startup_settings =
  st_runtime :: runtime_settings
  st_paths :: path_settings
  st_naming :: naming_settings
  st_ingestion :: ingestion_settings
  st_sync :: sync_settings
  st_ui_backend :: string
  st_plugins :: plugin_policy_settings
  st_source_fingerprint :: "string option"

datatype settings_error =
    SettingsNormalizationError string
  | SettingsPathError string
  | SettingsRangeError string
  | SettingsShapeError string
  | SettingsPyError py_error

record path_env =
  pe_resolve :: "string \<Rightarrow> string"
  pe_cwd :: string

subsection \<open>Normalization of values\<close>

definition normalize_optional_string :: "conv_env \<Rightarrow> pyval \<Rightarrow> string option" where
  "normalize_optional_string cv v =
     (if v = VNone then None
      else let s = strip (py_str (cv_repr cv) v) in if s = [] then None else Some s)"

definition normalize_profile_token :: "conv_env \<Rightarrow> pyval \<Rightarrow> string option" where
  "normalize_profile_token cv v = map_option str_lower (normalize_optional_string cv v)"

definition normalize_mode :: "conv_env \<Rightarrow> pyval \<Rightarrow> settings_error + string" where
  "normalize_mode cv v =
     (let mode = str_lower (strip (if py_truthy v then py_str (cv_repr cv) v else [])) in
      if mode = ''headless'' \<or> mode = ''desktop'' then Inr mode
      else Inl (SettingsNormalizationError (''Unsupported startup mode: '' @ cv_repr cv v @ ''.'')))"

definition normalize_optional_float :: "conv_env \<Rightarrow> pyval \<Rightarrow> string \<Rightarrow> settings_error + rat option" where
  "normalize_optional_float cv v field =
     (if v = VNone then Inr None
      else rbind (map_error SettingsPyError (py_float cv v)) (\<lambda>r.
           rbind (raise_if (r < 0) (SettingsRangeError (field @ '' must be >= 0.''))) (\<lambda>_. Inr (Some r))))"

definition normalize_retry_policy :: "conv_env \<Rightarrow> mapping \<Rightarrow> settings_error + int \<times> rat" where
  "normalize_retry_policy cv d =
     rbind (map_error SettingsPyError (py_int cv (dict_get_or d ''retry_limit'' (VInt 0)))) (\<lambda>retry_limit.
     rbind (map_error SettingsPyError (py_float cv (dict_get_or d ''retry_delay_seconds'' (VFloat 0)))) (\<lambda>retry_delay.
     rbind (raise_if (retry_limit < 0)
       (SettingsRangeError (''ingestion.retry_limit must be >= 0. Got '' @ int_str retry_limit @ ''.''))) (\<lambda>_.
     rbind (raise_if (retry_delay < 0)
       (SettingsRangeError (''ingestion.retry_delay_seconds must be >= 0. Got '' @ cv_repr cv (VFloat retry_delay) @ ''.''))) (\<lambda>_.
     Inr (retry_limit, retry_delay)))))"

definition is_absolute :: "string \<Rightarrow> bool" where
  "is_absolute s \<longleftrightarrow> starts_with ''/'' s"

definition normalize_settings_path :: "path_env \<Rightarrow> string \<Rightarrow> string \<Rightarrow> string" where
  "normalize_settings_path pe raw anchor =
     (if is_absolute raw then pe_resolve pe (pure_path raw) else pe_resolve pe (pure_path (anchor @ ''/'' @ raw)))"

definition normalize_paths :: "conv_env \<Rightarrow> path_env \<Rightarrow> mapping \<Rightarrow> string option \<Rightarrow> settings_error + path_settings" where
  "normalize_paths cv pe d root_hint =
     (let field = (\<lambda>k fallback. case normalize_optional_string cv (get_or_none d k) of None \<Rightarrow> fallback | Some s \<Rightarrow> s) in
      case normalize_optional_string cv (get_or_none d ''root'') of
        None \<Rightarrow> Inl (SettingsPathError (''Settings block '' @ [CHR 39] @ ''paths.root'' @ [CHR 39] @ '' is required.''))
      | Some root_raw \<Rightarrow>
          (let base = (case root_hint of None \<Rightarrow> pe_cwd pe | Some h \<Rightarrow> pe_resolve pe (pure_path h));
               root = normalize_settings_path pe root_raw base
           in Inr \<lparr>ps_root = root, ps_watch = normalize_settings_path pe (field ''watch'' ''incoming'') root,
                   ps_dest = normalize_settings_path pe (field ''dest'' ''processed'') root,
                   ps_staging = normalize_settings_path pe (field ''staging'' ''tmp'') root\<rparr>))"

subsection \<open>The settings classes\<close>

definition make_runtime_settings ::
    "conv_env \<Rightarrow> string \<Rightarrow> string option \<Rightarrow> pyval \<Rightarrow> pyval \<Rightarrow> pyval \<Rightarrow> pyval \<Rightarrow> settings_error + runtime_settings" where
  "make_runtime_settings cv mode profile loop_mode poll idle maxrun =
     rbind (normalize_mode cv (VStr mode)) (\<lambda>m.
     let p = (case profile of None \<Rightarrow> None | Some s \<Rightarrow> normalize_profile_token cv (VStr s));
         lm = str_lower (case normalize_optional_string cv loop_mode of None \<Rightarrow> ''oneshot'' | Some s \<Rightarrow> s) in
     rbind (raise_if (lm \<noteq> ''oneshot'' \<and> lm \<noteq> ''continuous'')
       (SettingsNormalizationError (''Unsupported runtime loop mode: '' @ cv_repr cv loop_mode @ ''.''))) (\<lambda>_.
     rbind (map_error SettingsPyError (py_float cv poll)) (\<lambda>interval.
     rbind (raise_if (interval < 0) (SettingsRangeError ''runtime.poll_interval_seconds must be >= 0.'')) (\<lambda>_.
     rbind (normalize_optional_float cv idle ''runtime.idle_timeout_seconds'') (\<lambda>i.
     rbind (normalize_optional_float cv maxrun ''runtime.max_runtime_seconds'') (\<lambda>x.
     Inr \<lparr>rs_mode = m, rs_profile = p, rs_loop_mode = lm, rs_poll_interval_seconds = interval,
          rs_idle_timeout_seconds = i, rs_max_runtime_seconds = x\<rparr>))))))"

definition normalize_plugin_ids :: "conv_env \<Rightarrow> pyval list \<Rightarrow> settings_error + string list" where
  "normalize_plugin_ids cv vs =
     rmap (\<lambda>v. case normalize_optional_string cv v of
         None \<Rightarrow> Inl (SettingsNormalizationError ''plugins.device_plugins entries must be non-empty strings.'')
       | Some token \<Rightarrow> Inr (str_lower token)) vs"

text \<open>
  A dictionary is not hashable, so the membership test raises. So does a list; \<open>VList\<close> is the tuple that
  validation returns.
\<close>

definition normalize_device_plugin_ids :: "conv_env \<Rightarrow> pyval \<Rightarrow> settings_error + string list" where
  "normalize_device_plugin_ids cv v =
     (case v of
        VNone \<Rightarrow> Inr []
      | VStr [] \<Rightarrow> Inr []
      | VList vs \<Rightarrow> normalize_plugin_ids cv vs
      | VDict _ \<Rightarrow> Inl (SettingsPyError (TypeError ''unhashable type''))
      | _ \<Rightarrow> Inl (SettingsNormalizationError ''plugins.device_plugins must be a sequence of plugin ids.''))"

definition make_plugin_policy :: "conv_env \<Rightarrow> string option \<Rightarrow> string list \<Rightarrow> settings_error + plugin_policy_settings" where
  "make_plugin_policy cv pc_name ids =
     rbind (normalize_plugin_ids cv (map VStr ids)) (\<lambda>tokens.
     Inr \<lparr>pp_pc_name = (case pc_name of None \<Rightarrow> None | Some s \<Rightarrow> map_option str_lower (normalize_optional_string cv (VStr s))),
          pp_device_plugins = tokens\<rparr>)"

definition required_block :: "mapping \<Rightarrow> string \<Rightarrow> settings_error + mapping" where
  "required_block d k =
     (case get_or_none d k of
        VDict b \<Rightarrow> Inr b
      | _ \<Rightarrow> Inl (SettingsShapeError (''Settings block '' @ [CHR 39] @ k @ [CHR 39] @ '' is required.'')))"

definition optional_block :: "mapping \<Rightarrow> string \<Rightarrow> settings_error + mapping" where
  "optional_block d k =
     (let v = get_or_none d k in
      if \<not> py_truthy v then Inr []
      else case v of
        VDict b \<Rightarrow> Inr b
      | _ \<Rightarrow> Inl (SettingsShapeError (''Settings block '' @ [CHR 39] @ k @ [CHR 39] @ '' must be a mapping.'')))"

definition token_of :: "conv_env \<Rightarrow> mapping \<Rightarrow> string \<Rightarrow> string" where
  "token_of cv d k = strip (py_str (cv_repr cv) (dict_get_or d k (VStr [])))"

definition from_raw ::
    "conv_env \<Rightarrow> path_env \<Rightarrow> mapping \<Rightarrow> string option \<Rightarrow> string option \<Rightarrow> settings_error + startup_settings" where
  "from_raw cv pe raw root_hint fingerprint =
     rbind (normalize_mode cv (get_or_none raw ''mode'')) (\<lambda>mode.
     let profile = normalize_profile_token cv (get_or_none raw ''profile'') in
     rbind (required_block raw ''paths'') (\<lambda>paths_block.
     rbind (required_block raw ''ui'') (\<lambda>ui_block.
     rbind (required_block raw ''sync'') (\<lambda>sync_block.
     rbind (required_block raw ''ingestion'') (\<lambda>ingestion_block.
     rbind (required_block raw ''naming'') (\<lambda>naming_block.
     rbind (optional_block raw ''runtime'') (\<lambda>runtime_block.
     rbind (optional_block raw ''plugins'') (\<lambda>plugins_block.
     rbind (normalize_paths cv pe paths_block root_hint) (\<lambda>paths.
     rbind (normalize_retry_policy cv ingestion_block) (\<lambda>(retry_limit, retry_delay).
     let prefix = token_of cv naming_block ''prefix'';
         policy = str_lower (token_of cv naming_block ''policy'');
         ui_backend = str_lower (token_of cv ui_block ''backend'');
         sync_backend = str_lower (token_of cv sync_block ''backend'') in
     rbind (raise_if (prefix = [])
       (SettingsShapeError (''Settings block '' @ [CHR 39] @ ''naming.prefix'' @ [CHR 39] @ '' is required.''))) (\<lambda>_.
     rbind (raise_if (policy \<noteq> ''prefix_only'' \<and> policy \<noteq> ''prefix_date'')
       (SettingsNormalizationError (''Unsupported naming policy: '' @ cv_repr cv (get_or_none naming_block ''policy'') @ ''.''))) (\<lambda>_.
     rbind (raise_if (ui_backend \<noteq> ''headless'' \<and> ui_backend \<noteq> ''desktop'')
       (SettingsNormalizationError (''Unsupported ui backend: '' @ cv_repr cv (get_or_none ui_block ''backend'') @ ''.''))) (\<lambda>_.
     rbind (raise_if (sync_backend \<noteq> ''noop'' \<and> sync_backend \<noteq> ''kadi'')
       (SettingsNormalizationError (''Unsupported sync backend: '' @ cv_repr cv (get_or_none sync_block ''backend'') @ ''.''))) (\<lambda>_.
     rbind (make_runtime_settings cv mode profile (dict_get_or runtime_block ''loop_mode'' (VStr ''oneshot''))
       (dict_get_or runtime_block ''poll_interval_seconds'' (VFloat 1)) (get_or_none runtime_block ''idle_timeout_seconds'')
       (get_or_none runtime_block ''max_runtime_seconds'')) (\<lambda>runtime.
     rbind (normalize_device_plugin_ids cv (dict_get_or plugins_block ''device_plugins'' (VList []))) (\<lambda>ids.
     rbind (make_plugin_policy cv (normalize_optional_string cv (get_or_none plugins_block ''pc_name'')) ids) (\<lambda>plugins.
     Inr \<lparr>st_runtime = runtime, st_paths = paths, st_naming = \<lparr>ns_prefix = prefix, ns_policy = policy\<rparr>,
          st_ingestion = \<lparr>is_retry_limit = retry_limit, is_retry_delay_seconds = retry_delay\<rparr>,
          st_sync = \<lparr>ys_backend = sync_backend,
                     ys_api_token = normalize_optional_string cv (get_or_none sync_block ''api_token'')\<rparr>,
          st_ui_backend = ui_backend, st_plugins = plugins, st_source_fingerprint = fingerprint\<rparr>)))))))))))))))))"

subsection \<open>Payloads\<close>

definition opt_value :: "string option \<Rightarrow> pyval" where
  "opt_value v = (case v of None \<Rightarrow> VNone | Some s \<Rightarrow> VStr s)"

definition opt_float :: "rat option \<Rightarrow> pyval" where
  "opt_float v = (case v of None \<Rightarrow> VNone | Some r \<Rightarrow> VFloat r)"

definition paths_dict :: "path_settings \<Rightarrow> pyval" where
  "paths_dict p = VDict [(''root'', VStr (ps_root p)), (''watch'', VStr (ps_watch p)), (''dest'', VStr (ps_dest p)),
     (''staging'', VStr (ps_staging p))]"

definition to_dependency_payload :: "startup_settings \<Rightarrow> mapping" where
  "to_dependency_payload s =
     [(''mode'', VStr (rs_mode (st_runtime s))), (''profile'', opt_value (rs_profile (st_runtime s))),
      (''runtime'', VDict [(''loop_mode'', VStr (rs_loop_mode (st_runtime s))),
         (''poll_interval_seconds'', VFloat (rs_poll_interval_seconds (st_runtime s))),
         (''idle_timeout_seconds'', opt_float (rs_idle_timeout_seconds (st_runtime s))),
         (''max_runtime_seconds'', opt_float (rs_max_runtime_seconds (st_runtime s)))]),
      (''paths'', paths_dict (st_paths s)),
      (''sync'', VDict [(''backend'', VStr (ys_backend (st_sync s))), (''api_token'', opt_value (ys_api_token (st_sync s)))]),
      (''ui'', VDict [(''backend'', VStr (st_ui_backend s))]),
      (''plugins'', VDict [(''pc_name'', opt_value (pp_pc_name (st_plugins s))),
         (''device_plugins'', VList (map VStr (pp_device_plugins (st_plugins s))))]),
      (''backends'', VDict [(''ui'', VStr (st_ui_backend s)), (''sync'', VStr (ys_backend (st_sync s))),
         (''plugins'', VStr ''builtin''), (''observability'', VStr ''structured''), (''storage'', VStr ''filesystem'')])]"

definition to_redacted_dict :: "startup_settings \<Rightarrow> mapping" where
  "to_redacted_dict s =
     [(''runtime'', VDict [(''mode'', VStr (rs_mode (st_runtime s))), (''profile'', opt_value (rs_profile (st_runtime s))),
         (''loop_mode'', VStr (rs_loop_mode (st_runtime s))),
         (''poll_interval_seconds'', VFloat (rs_poll_interval_seconds (st_runtime s))),
         (''idle_timeout_seconds'', opt_float (rs_idle_timeout_seconds (st_runtime s))),
         (''max_runtime_seconds'', opt_float (rs_max_runtime_seconds (st_runtime s)))]),
      (''paths'', paths_dict (st_paths s)),
      (''naming'', VDict [(''prefix'', VStr (ns_prefix (st_naming s))), (''policy'', VStr (ns_policy (st_naming s)))]),
      (''ingestion'', VDict [(''retry_limit'', VInt (is_retry_limit (st_ingestion s))),
         (''retry_delay_seconds'', VFloat (is_retry_delay_seconds (st_ingestion s)))]),
      (''sync'', VDict [(''backend'', VStr (ys_backend (st_sync s))),
         (''api_token'', case ys_api_token (st_sync s) of None \<Rightarrow> VNone | Some _ \<Rightarrow> VStr ''<redacted>'')]),
      (''ui'', VDict [(''backend'', VStr (st_ui_backend s))]),
      (''plugins'', VDict [(''pc_name'', opt_value (pp_pc_name (st_plugins s))),
         (''device_plugins'', VList (map VStr (pp_device_plugins (st_plugins s))))]),
      (''source_fingerprint'', opt_value (st_source_fingerprint s))]"

end
