(* ===== verification/Startup_Dependencies.thy ===== *)
theory Startup_Dependencies
  imports Settings Composition
begin

text \<open>
  The startup dependencies (\<^verbatim>\<open>runtime/startup_dependencies.py\<close>) and the startup context
  (\<^verbatim>\<open>application/startup/context.py\<close>): the backends the settings select, the factory of every port, the
  checks of the mode, and the profile the plugin host is activated with. A factory is a closure; it is
  modelled by the values it captured. The expansion of a path, the directory of temporary files and the
  environment are parameters.
\<close>

section \<open>Backends\<close>

datatype dependency_error =
    DependencyResolutionError string
  | DependencyBackendSelectionError string
  | DependencyImportError string
  | DependencyCompatibilityError string

record dependency_env =
  de_conv :: conv_env
  de_expand :: "string \<Rightarrow> string"
  de_temp_root :: string
  de_environ :: "string dict"

definition resolve_mode :: "conv_env \<Rightarrow> mapping \<Rightarrow> dependency_error + string" where
  "resolve_mode cv d =
     (let raw = dict_get_or d ''mode'' (VStr ''headless''); mode = lower_token cv raw in
      if mode \<noteq> ''headless'' \<and> mode \<noteq> ''desktop''
      then Inl (DependencyBackendSelectionError (''Unknown runtime mode '' @ cv_repr cv raw @
             ''. Supported modes: headless, desktop.''))
      else Inr mode)"

text \<open>\<^verbatim>\<open>allowed\<close> is a set in the code and is sorted for the message.\<close>

definition normalize_backend_token :: "conv_env \<Rightarrow> pyval \<Rightarrow> string \<Rightarrow> string list \<Rightarrow> dependency_error + string" where
  "normalize_backend_token cv v family allowed =
     (let token = lower_token cv v in
      if token \<notin> set allowed
      then Inl (DependencyBackendSelectionError (''Unknown backend '' @ cv_repr cv (VStr token) @ '' for '' @ [CHR 39] @ family @
             [CHR 39] @ ''. Allowed: '' @ str_join '', '' (sort allowed) @ ''.''))
      else Inr token)"

definition BACKEND_FAMILIES :: "(string \<times> string \<times> string list) list" where
  "BACKEND_FAMILIES =
     [(''ui'', ''headless'', [''headless'', ''desktop'']), (''sync'', ''noop'', [''noop'', ''kadi'']),
      (''plugins'', ''builtin'', [''builtin'']), (''observability'', ''structured'', [''structured'']),
      (''storage'', ''filesystem'', [''filesystem''])]"

definition resolve_backend_tokens :: "conv_env \<Rightarrow> mapping \<Rightarrow> dependency_error + string dict" where
  "resolve_backend_tokens cv d =
     (let v = get_or_none d ''backends'' in
      rbind (if \<not> py_truthy v then Inr []
             else case v of
               VDict b \<Rightarrow> Inr b
             | _ \<Rightarrow> Inl (DependencyBackendSelectionError ''Backends selection must be a mapping.'')) (\<lambda>raw.
      rmap (\<lambda>(family, fallback, allowed).
        rbind (normalize_backend_token cv (dict_get_or raw family (VStr fallback)) family allowed) (\<lambda>token.
        Inr (family, token))) BACKEND_FAMILIES))"

fun provenance_lookup :: "conv_env \<Rightarrow> mapping \<Rightarrow> string \<Rightarrow> string list \<Rightarrow> string" where
  "provenance_lookup cv d fallback [] = fallback"
| "provenance_lookup cv d fallback (k # ks) =
     (let v = get_or_none d k in
      if v \<noteq> VNone \<and> lower_token cv v \<noteq> [] then lower_token cv v else provenance_lookup cv d fallback ks)"

definition resolve_backend_provenance :: "conv_env \<Rightarrow> mapping \<Rightarrow> string dict \<Rightarrow> string dict" where
  "resolve_backend_provenance cv d selected =
     (let prov = (case get_or_none d ''provenance'' of VDict p \<Rightarrow> p | _ \<Rightarrow> []);
          look = provenance_lookup cv prov;
          resolved = [(''mode'', look ''unknown'' [''mode'']), (''profile'', look ''unknown'' [''profile'']),
            (''ui'', look ''unknown'' [''ui.backend'', ''backends.ui'']), (''sync'', look ''unknown'' [''sync.backend'', ''backends.sync'']),
            (''plugins'', look ''resolver_default'' [''plugins.backend'', ''backends.plugins'']),
            (''observability'', look ''resolver_default'' [''observability.backend'', ''backends.observability'']),
            (''storage'', look ''resolver_default'' [''storage.backend'', ''backends.storage''])]
      in fold (\<lambda>b r. if map_of selected b \<noteq> None \<and> map_of r b = Some ''unknown'' then AList.update b ''resolver_default'' r else r)
           [''plugins'', ''observability'', ''storage''] resolved)"

definition backend :: "string dict \<Rightarrow> string \<Rightarrow> string" where
  "backend selected family = dict_get_or selected family []"

definition validate_mode_backend_compatibility :: "string \<Rightarrow> string dict \<Rightarrow> dependency_error + unit" where
  "validate_mode_backend_compatibility mode selected =
     raise_if (mode = ''desktop'' \<and> backend selected ''ui'' \<noteq> ''desktop'')
       (DependencyCompatibilityError (''desktop mode requires a desktop-capable '' @ [CHR 39] @ ''ui'' @ [CHR 39] @ '' backend.''))"

text \<open>A string entry of the \<^verbatim>\<open>sync\<close> block, stripped, if it is not blank.\<close>

definition sync_entry :: "mapping \<Rightarrow> string \<Rightarrow> string option" where
  "sync_entry d k =
     (case get_or_none d ''sync'' of
        VDict b \<Rightarrow> (case get_or_none b k of VStr s \<Rightarrow> if strip s = [] then None else Some (strip s) | _ \<Rightarrow> None)
      | _ \<Rightarrow> None)"

definition resolve_sync_setting :: "mapping \<Rightarrow> string \<Rightarrow> string \<Rightarrow> string" where
  "resolve_sync_setting d k fallback = (case sync_entry d k of None \<Rightarrow> fallback | Some s \<Rightarrow> s)"

definition resolve_sync_api_token :: "mapping \<Rightarrow> string dict \<Rightarrow> string" where
  "resolve_sync_api_token d env =
     (let from_environment = strip (dict_get_or env ''KADI_API_TOKEN'' []) in
      if from_environment \<noteq> [] then from_environment
      else case sync_entry d ''api_token'' of None \<Rightarrow> [] | Some s \<Rightarrow> s)"

definition validate_backend_requirements :: "string dict \<Rightarrow> string dict \<Rightarrow> mapping \<Rightarrow> dependency_error + unit" where
  "validate_backend_requirements selected env d =
     (if backend selected ''sync'' \<noteq> ''kadi'' then Inr ()
      else raise_if (resolve_sync_api_token d env = [])
        (DependencyResolutionError (''KADI_API_TOKEN is required when sync backend '' @ [CHR 39] @ ''kadi'' @ [CHR 39] @ '' is selected.'')))"

section \<open>Factories\<close>

definition resolve_profile :: "conv_env \<Rightarrow> mapping \<Rightarrow> string option" where
  "resolve_profile cv d =
     (let v = get_or_none d ''profile'' in
      if v = VNone \<or> lower_token cv v = [] then None else Some (lower_token cv v))"

definition resolve_runtime_root :: "dependency_env \<Rightarrow> mapping \<Rightarrow> string" where
  "resolve_runtime_root de d =
     (case get_path (VDict d) [''paths'', ''root''] of
        Some (VStr s) \<Rightarrow> if strip s \<noteq> [] then de_expand de s else de_temp_root de
      | _ \<Rightarrow> de_temp_root de)"

text \<open>What each factory has captured; \<open>OverrideFactory\<close> is one the caller gave.\<close>

datatype 'f dependency_factory =
    ObservabilityFactory string string
  | StorageFactory string
  | ClockFactory
  | EventSinkFactory string string
  | FilesystemFactory string
  | UiFactory string string
  | KadiFactory string string string
  | NoopFactory
  | PluginsFactory "string option"
  | OverrideFactory 'f

definition profile_or_default :: "conv_env \<Rightarrow> mapping \<Rightarrow> string" where
  "profile_or_default cv d = (case resolve_profile cv d of None \<Rightarrow> ''default'' | Some p \<Rightarrow> p)"

definition import_error :: "string \<Rightarrow> string \<Rightarrow> conv_env \<Rightarrow> dependency_error" where
  "import_error kind b cv = DependencyImportError (''Unsupported '' @ kind @ '' backend import path for '' @ cv_repr cv (VStr b) @ ''.'')"

definition observability_factory_builder :: "conv_env \<Rightarrow> string \<Rightarrow> mapping \<Rightarrow> dependency_error + 'f dependency_factory" where
  "observability_factory_builder cv b d =
     (if b \<noteq> ''structured'' then Inl (import_error ''observability'' b cv)
      else rbind (resolve_mode cv d) (\<lambda>mode. Inr (ObservabilityFactory mode (profile_or_default cv d))))"

definition storage_factory_builder :: "dependency_env \<Rightarrow> string \<Rightarrow> mapping \<Rightarrow> dependency_error + 'f dependency_factory" where
  "storage_factory_builder de b d =
     (if b \<noteq> ''filesystem'' then Inl (import_error ''storage'' b (de_conv de))
      else Inr (StorageFactory (pure_path (resolve_runtime_root de d @ ''/records.sqlite3''))))"

definition event_sink_factory_builder :: "conv_env \<Rightarrow> mapping \<Rightarrow> dependency_error + 'f dependency_factory" where
  "event_sink_factory_builder cv d = rbind (resolve_mode cv d) (\<lambda>mode. Inr (EventSinkFactory mode (profile_or_default cv d)))"

definition sync_factory_builder :: "conv_env \<Rightarrow> string \<Rightarrow> mapping \<Rightarrow> string dict \<Rightarrow> dependency_error + 'f dependency_factory" where
  "sync_factory_builder cv b d env =
     (if b = ''kadi''
      then Inr (KadiFactory (resolve_sync_setting d ''endpoint'' ''https://kadi.invalid/api'') (resolve_sync_api_token d env)
             (resolve_sync_setting d ''workspace_id'' ''dpost_v2''))
      else if b = ''noop'' then Inr NoopFactory
      else Inl (import_error ''sync'' b cv))"

definition plugins_factory_builder :: "conv_env \<Rightarrow> string \<Rightarrow> mapping \<Rightarrow> dependency_error + 'f dependency_factory" where
  "plugins_factory_builder cv b d =
     (if b \<noteq> ''builtin'' then Inl (import_error ''plugins'' b cv) else Inr (PluginsFactory (resolve_profile cv d)))"

text \<open>The smallest of the known profiles is the first of them sorted.\<close>

definition resolve_plugin_profile :: "string option \<Rightarrow> string list \<Rightarrow> string" where
  "resolve_plugin_profile requested known =
     (case requested of
        Some p \<Rightarrow> if p \<in> set known then p
          else if ''default'' \<in> set known then ''default''
          else if ''prod'' \<in> set known then ''prod''
          else if known \<noteq> [] then hd (sort known) else ''default''
      | None \<Rightarrow> if ''default'' \<in> set known then ''default''
          else if ''prod'' \<in> set known then ''prod''
          else if known \<noteq> [] then hd (sort known) else ''default'')"

text \<open>What the plugins factory does when it is called: discovery, the host, and its activation.\<close>

definition plugins_factory ::
    "host_env \<Rightarrow> ('p \<Rightarrow> bool) \<Rightarrow> ('w, discovery_error, ('w, 'p) discovery_result) io \<Rightarrow> string option \<Rightarrow> 'w \<Rightarrow>
     ((discovery_error + host_error) + ('w, 'p) plugin_host) \<times> 'w" where
  "plugins_factory he is_processor discover requested w =
     (case discover w of
        (Inl e, w1) \<Rightarrow> (Inl (Inl e), w1)
      | (Inr found, w1) \<Rightarrow>
          (case make_plugin_host he is_processor (dr_descriptors found) w1 of
             (Inl e, w2) \<Rightarrow> (Inl (Inr e), w2)
           | (Inr host, w2) \<Rightarrow>
               (let known = remdups (concat (map pd_supported_profiles (dr_descriptors found))) in
                case activate_profile he (VStr (resolve_plugin_profile requested known))
                       (if known = [] then None else Some (map VStr known)) [] [] host w2 of
                  (Inl e, _, w3) \<Rightarrow> (Inl (Inr e), w3)
                | (Inr _, host1, w3) \<Rightarrow> (Inr host1, w3))))"

section \<open>The container\<close>

text \<open>The cleanup hook has the identity of its function object.\<close>

record ('f, 'w) startup_dependencies =
  sd_factories :: "'f dict"
  sd_selected_backends :: "string dict"
  sd_lazy_factories :: "string list"
  sd_warnings :: "string list"
  sd_diagnostics :: mapping
  sd_cleanup :: "(nat \<times> ('w, py_exception, unit) io) option"

definition str_dict :: "string dict \<Rightarrow> pyval" where
  "str_dict d = VDict (map (\<lambda>(k, s). (k, VStr s)) d)"

definition resolve_warnings :: "string \<Rightarrow> string dict \<Rightarrow> string dict \<Rightarrow> string list" where
  "resolve_warnings mode selected env =
     (if backend selected ''sync'' = ''noop'' then [''sync backend is noop; outbound sync is disabled''] else []) @
     (if mode = ''desktop'' \<and> dict_get_or env ''DISPLAY'' [] = []
      then [''DISPLAY environment variable is not set for desktop mode''] else [])"

definition resolve_startup_dependencies ::
    "dependency_env \<Rightarrow> mapping \<Rightarrow> 'f dict \<Rightarrow> dependency_error + ('f dependency_factory, 'w) startup_dependencies" where
  "resolve_startup_dependencies de d overrides =
     (let cv = de_conv de in
      rbind (resolve_mode cv d) (\<lambda>mode.
      rbind (resolve_backend_tokens cv d) (\<lambda>selected.
      let provenance = resolve_backend_provenance cv d selected in
      rbind (validate_mode_backend_compatibility mode selected) (\<lambda>_.
      rbind (validate_backend_requirements selected (de_environ de) d) (\<lambda>_.
      rbind (observability_factory_builder cv (backend selected ''observability'') d) (\<lambda>observability.
      rbind (storage_factory_builder de (backend selected ''storage'') d) (\<lambda>storage.
      rbind (event_sink_factory_builder cv d) (\<lambda>event_sink.
      rbind (sync_factory_builder cv (backend selected ''sync'') d (de_environ de)) (\<lambda>sync.
      rbind (plugins_factory_builder cv (backend selected ''plugins'') d) (\<lambda>plugins.
      let factories = [(''observability'', observability), (''storage'', storage), (''clock'', ClockFactory),
            (''event_sink'', event_sink), (''filesystem'', FilesystemFactory (resolve_runtime_root de d)),
            (''ui'', UiFactory mode (backend selected ''ui'')), (''sync'', sync), (''plugins'', plugins)];
          warnings = resolve_warnings mode selected (de_environ de)
      in Inr \<lparr>sd_factories = fold (\<lambda>(k, f). AList.update k (OverrideFactory f)) overrides factories,
              sd_selected_backends = selected, sd_lazy_factories = [''sync'', ''plugins''], sd_warnings = warnings,
              sd_diagnostics = [(''mode'', VStr mode), (''profile'', get_or_none d ''profile''),
                (''selected_backends'', str_dict selected), (''backend_provenance'', str_dict provenance),
                (''plugin_backend'', VStr (backend selected ''plugins'')), (''plugin_visibility'', VStr ''configured''),
                (''warnings'', VList (map VStr warnings))],
              sd_cleanup = None\<rparr>))))))))))"

section \<open>The startup context\<close>

datatype startup_context_error =
    StartupContextBindingError string
  | StartupContextValidationError string
  | StartupContextOverrideError string

record launch_metadata =
  lm_requested_mode :: string
  lm_requested_profile :: "string option"
  lm_trace_id :: string
  lm_process_id :: int
  lm_boot_timestamp_utc :: string

text \<open>\<open>mode_attr\<close> is the attribute \<^verbatim>\<open>mode\<close> of the settings object, if it has one.\<close>

definition resolve_context_mode :: "conv_env \<Rightarrow> pyval option \<Rightarrow> launch_metadata \<Rightarrow> startup_context_error + string" where
  "resolve_context_mode cv mode_attr launch =
     (let mode = (case mode_attr of None \<Rightarrow> VStr (lm_requested_mode launch) | Some v \<Rightarrow> v); normalized = lower_token cv mode in
      if normalized \<noteq> ''headless'' \<and> normalized \<noteq> ''desktop''
      then Inl (StartupContextValidationError (''Unsupported startup mode: '' @ cv_repr cv mode @ ''.''))
      else Inr normalized)"

definition normalize_launch_mode :: "conv_env \<Rightarrow> launch_metadata \<Rightarrow> startup_context_error + string" where
  "normalize_launch_mode cv launch =
     (let mode = str_lower (strip (lm_requested_mode launch)) in
      if mode \<in> {''headless'', ''desktop'', ''v2''} then Inr mode
      else Inl (StartupContextValidationError (''Unsupported startup mode: '' @ cv_repr cv (VStr mode) @ ''.'')))"

definition validate_startup_context ::
    "conv_env \<Rightarrow> pyval option \<Rightarrow> ('f, 'w) startup_dependencies \<Rightarrow> launch_metadata \<Rightarrow> startup_context_error + unit" where
  "validate_startup_context cv mode_attr deps launch =
     rbind (raise_if (sd_factories deps = [])
       (StartupContextBindingError ''Startup dependencies must contain at least one factory binding.'')) (\<lambda>_.
     rbind (resolve_context_mode cv mode_attr launch) (\<lambda>mode.
     rbind (normalize_launch_mode cv launch) (\<lambda>launch_mode.
     rbind (raise_if ((if launch_mode = ''v2'' then mode else launch_mode) \<noteq> mode)
       (StartupContextValidationError ''Launch metadata mode does not match normalized settings mode.'')) (\<lambda>_.
     rbind (raise_if (map_of (sd_factories deps) ''event_sink'' = None)
       (StartupContextBindingError (''Missing required dependency binding: '' @ quoted_id ''event_sink'' @ ''.''))) (\<lambda>_.
     rbind (raise_if (mode = ''desktop'' \<and> map_of (sd_factories deps) ''ui'' = None)
       (StartupContextBindingError (''Missing required dependency binding: '' @ quoted_id ''ui'' @ '' for desktop mode.''))) (\<lambda>_.
     let selected_ui = str_lower (strip (backend (sd_selected_backends deps) ''ui'')) in
     raise_if (mode = ''desktop'' \<and> selected_ui \<noteq> [] \<and> selected_ui \<noteq> ''desktop'')
       (StartupContextValidationError ''Desktop startup context requires desktop UI backend.'')))))))"

end
