(* ===== verification/Settings_Service.thy ===== *)
theory Settings_Service
  imports Settings
begin

text \<open>
  The settings service (\<^verbatim>\<open>application/startup/settings_service.py\<close>): the four layers of settings in their
  order of precedence, the deep merge with its provenance, and the load with its cache. The config file,
  the environment of the process, \<^verbatim>\<open>json\<close> and the digest are parameters.
\<close>

section \<open>Model\<close>

datatype settings_service_error =
    SettingsSourceReadError string
  | SettingsValidationError string
  | SettingsMergeTypeError string

text \<open>
  What the service finds at the path of the config file: nothing, something that is no file, a file that
  cannot be read (an \<^verbatim>\<open>OSError\<close>), whose bytes are not UTF-8, whose text is not JSON, or a JSON value.
\<close>

datatype config_file =
    ConfigMissing | ConfigNotFile | ConfigUnreadable | ConfigNotUtf8 string | ConfigInvalidJson | ConfigPayload pyval

text \<open>What leaves \<^verbatim>\<open>load_startup_settings\<close> as an exception, since only service errors are caught.\<close>

datatype settings_raise = RaisedSettings settings_error | RaisedPy py_error | RaisedUnicodeDecode string

datatype load_error = ServiceFailure settings_service_error | Escaped settings_raise

record settings_request =
  sr_mode :: string
  sr_profile :: "string option"
  sr_metadata :: mapping

record settings_env =
  se_conv :: conv_env
  se_paths :: path_env
  se_sha256 :: "string \<Rightarrow> string"
  se_json_text :: "pyval \<Rightarrow> string"
  se_config :: "string \<Rightarrow> config_file"
  se_environ :: "string dict"

text \<open>A layer is a value, or a function of the request that may raise.\<close>

datatype settings_source = SourceValue pyval | SourceCall "settings_request \<Rightarrow> py_error + pyval"

definition SOURCE_ORDER :: "string list" where
  "SOURCE_ORDER = [''defaults'', ''file'', ''environment'', ''cli'']"

subsection \<open>Layers\<close>

definition normalized_settings_mode :: "settings_request \<Rightarrow> string" where
  "normalized_settings_mode req =
     (let mode = str_lower (strip (sr_mode req)) in
      if mode = ''v2'' then ''headless'' else if mode = [] then ''headless'' else mode)"

fun first_env_value :: "string dict \<Rightarrow> string list \<Rightarrow> string option" where
  "first_env_value env [] = None"
| "first_env_value env (n # ns) =
     (let candidate = strip (dict_get_or env n []) in if candidate \<noteq> [] then Some candidate else first_env_value env ns)"

definition split_env_plugin_ids :: "string option \<Rightarrow> string list" where
  "split_env_plugin_ids raw =
     (case raw of
        None \<Rightarrow> []
      | Some s \<Rightarrow> filter (\<lambda>t. t \<noteq> []) (map strip (split_char (CHR '','') (replace_char (CHR '';'') (CHR '','') s))))"

definition load_environment_settings :: "string dict \<Rightarrow> mapping" where
  "load_environment_settings env =
     (let pc_name = first_env_value env [''DPOST_PC_NAME'', ''PC_NAME''];
          ids = split_env_plugin_ids (first_env_value env [''DPOST_DEVICE_PLUGINS'', ''DEVICE_PLUGINS'']);
          plugins = (case pc_name of None \<Rightarrow> [] | Some s \<Rightarrow> [(''pc_name'', VStr s)]) @
            (if ids = [] then [] else [(''device_plugins'', VList (map VStr ids))])
      in if plugins = [] then [] else [(''plugins'', VDict plugins)])"

definition config_path_of :: "settings_env \<Rightarrow> pyval \<Rightarrow> string option \<Rightarrow> string option" where
  "config_path_of se v root_hint =
     (let s = strip (py_str (cv_repr (se_conv se)) v) in
      if \<not> py_truthy v \<or> s = [] then None
      else Some (case root_hint of
          Some h \<Rightarrow> if is_absolute s then pure_path s else pure_path (pure_path h @ ''/'' @ s)
        | None \<Rightarrow> pure_path s))"

abbreviation source_error :: "string \<Rightarrow> load_error + 'a" where
  "source_error m \<equiv> Inl (ServiceFailure (SettingsSourceReadError m))"

text \<open>\<^verbatim>\<open>UnicodeDecodeError\<close> is neither an \<^verbatim>\<open>OSError\<close> nor a \<^verbatim>\<open>JSONDecodeError\<close>: it escapes.\<close>

definition load_file_config :: "settings_env \<Rightarrow> pyval \<Rightarrow> string option \<Rightarrow> load_error + mapping" where
  "load_file_config se v root_hint =
     (case config_path_of se v root_hint of
        None \<Rightarrow> Inr []
      | Some p \<Rightarrow>
          (case se_config se p of
             ConfigMissing \<Rightarrow> source_error (''Config file not found: '' @ p @ ''.'')
           | ConfigNotFile \<Rightarrow> source_error (''Config path is not a file: '' @ p @ ''.'')
           | ConfigUnreadable \<Rightarrow> source_error (''Failed reading config file '' @ p @ ''.'')
           | ConfigNotUtf8 m \<Rightarrow> Inl (Escaped (RaisedUnicodeDecode m))
           | ConfigInvalidJson \<Rightarrow> source_error (''Invalid JSON in config file '' @ p @ ''.'')
           | ConfigPayload (VDict d) \<Rightarrow> Inr d
           | ConfigPayload _ \<Rightarrow> source_error (''Config file payload must be a mapping: '' @ p @ ''.'')))"

text \<open>The directory of the config file, the hint for relative roots; \<open>parent\<close> drops the last component.\<close>

definition parent :: "string \<Rightarrow> string" where
  "parent s = render (path_root s) (butlast (path_parts s))"

definition resolve_settings_root_hint :: "settings_env \<Rightarrow> settings_request \<Rightarrow> string option \<Rightarrow> string option" where
  "resolve_settings_root_hint se req root_hint =
     (case config_path_of se (get_or_none (sr_metadata req) ''config_path'') root_hint of
        None \<Rightarrow> root_hint
      | Some p \<Rightarrow> Some (parent (pe_resolve (se_paths se) p)))"

definition default_settings :: "string \<Rightarrow> mapping" where
  "default_settings mode =
     [(''mode'', VStr mode), (''profile'', VStr ''default''), (''paths'', VDict [(''root'', VStr ''.'')]),
      (''ui'', VDict [(''backend'', VStr ''headless'')]), (''sync'', VDict [(''backend'', VStr ''noop'')]),
      (''ingestion'', VDict [(''retry_limit'', VInt 3), (''retry_delay_seconds'', VFloat 1)]),
      (''naming'', VDict [(''prefix'', VStr ''DPOST''), (''policy'', VStr ''prefix_only'')]),
      (''plugins'', VDict [(''pc_name'', VNone), (''device_plugins'', VList [])])]"

definition default_sources_from_request ::
    "settings_env \<Rightarrow> settings_request \<Rightarrow> string option \<Rightarrow> load_error + settings_source dict" where
  "default_sources_from_request se req root_hint =
     (case get_or_none (sr_metadata req) ''settings_sources'' of
        VDict d \<Rightarrow> Inr (map (\<lambda>n. (n, SourceValue (dict_get_or d n (VDict [])))) SOURCE_ORDER)
      | _ \<Rightarrow>
          rbind (load_file_config se (get_or_none (sr_metadata req) ''config_path'') root_hint) (\<lambda>config.
          Inr [(''defaults'', SourceValue (VDict (default_settings (normalized_settings_mode req)))),
               (''file'', SourceValue (VDict config)),
               (''environment'', SourceValue (VDict (load_environment_settings (se_environ se)))),
               (''cli'', SourceValue (VDict ((''mode'', VStr (normalized_settings_mode req)) #
                  (case sr_profile req of None \<Rightarrow> [] | Some p \<Rightarrow> [(''profile'', VStr p)]))))]))"

definition read_source :: "settings_request \<Rightarrow> settings_source dict \<Rightarrow> string \<Rightarrow> load_error + string \<times> mapping" where
  "read_source req raw name =
     rbind (case map_of raw name of
        None \<Rightarrow> Inr (VDict [])
      | Some (SourceValue v) \<Rightarrow> Inr v
      | Some (SourceCall f) \<Rightarrow>
          (case f req of
             Inl _ \<Rightarrow> source_error (''Failed reading settings source '' @ [CHR 39] @ name @ [CHR 39] @ ''.'')
           | Inr v \<Rightarrow> Inr v))
     (\<lambda>v. case v of
        VNone \<Rightarrow> Inr (name, [])
      | VDict d \<Rightarrow> Inr (name, d)
      | _ \<Rightarrow> source_error (''Settings source '' @ [CHR 39] @ name @ [CHR 39] @ '' must be a mapping.''))"

text \<open>An empty set of explicit sources counts as none.\<close>

definition resolve_sources ::
    "settings_env \<Rightarrow> settings_request \<Rightarrow> settings_source dict \<Rightarrow> string option \<Rightarrow>
     load_error + (string \<times> mapping) list" where
  "resolve_sources se req explicit root_hint =
     rbind (if explicit \<noteq> [] then Inr explicit else default_sources_from_request se req root_hint) (\<lambda>raw.
     rmap (read_source req raw) SOURCE_ORDER)"

subsection \<open>The merge\<close>

function deep_merge ::
    "string \<Rightarrow> string \<Rightarrow> mapping \<Rightarrow> string dict \<Rightarrow> mapping \<Rightarrow> settings_service_error + mapping \<times> string dict" where
  "deep_merge src pre target prov [] = Inr (target, prov)"
| "deep_merge src pre target prov ((k, v) # rest) =
     (let full = (if pre \<noteq> [] then pre @ ''.'' @ k else k);
          clash = Inl (SettingsMergeTypeError (''Incompatible settings merge at '' @ [CHR 39] @ full @ [CHR 39] @
            '': cannot merge mapping with non-mapping value.'')) in
      case map_of target k of
        Some (VDict e) \<Rightarrow>
          (case v of
             VDict d \<Rightarrow> rbind (deep_merge src full e prov d) (\<lambda>(e', prov').
               deep_merge src pre (AList.update k (VDict e') target) prov' rest)
           | _ \<Rightarrow> clash)
      | Some _ \<Rightarrow>
          (case v of
             VDict _ \<Rightarrow> clash
           | _ \<Rightarrow> deep_merge src pre (AList.update k v target) (AList.update full src prov) rest)
      | None \<Rightarrow> deep_merge src pre (AList.update k v target) (AList.update full src prov) rest)"
  by pat_completeness auto
termination by (relation "measure (\<lambda>(_, _, _, _, d). size (VDict d))") auto

fun merge_layers :: "mapping \<Rightarrow> string dict \<Rightarrow> (string \<times> mapping) list \<Rightarrow> settings_service_error + mapping \<times> string dict" where
  "merge_layers d prov [] = Inr (d, prov)"
| "merge_layers d prov ((name, s) # layers) =
     rbind (deep_merge name [] d prov s) (\<lambda>(d', prov'). merge_layers d' prov' layers)"

definition merge_sources :: "(string \<times> mapping) list \<Rightarrow> settings_service_error + mapping \<times> string dict" where
  "merge_sources layers = merge_layers [] [] layers"

subsection \<open>The load and its cache\<close>

record settings_cache_entry =
  ce_fingerprint :: string
  ce_settings :: "startup_settings option"
  ce_settings_fingerprint :: "string option"

record settings_load_result =
  lr_settings :: startup_settings
  lr_provenance :: "string dict"
  lr_cache_hit :: bool
  lr_redacted_settings :: mapping
  lr_cache_integrity_error :: bool
  lr_fingerprint :: string

definition compute_fingerprint :: "settings_env \<Rightarrow> (string \<times> mapping) list \<Rightarrow> py_error + string" where
  "compute_fingerprint se layers =
     rbind (json_trip (VDict (map (\<lambda>(n, d). (n, VDict d)) layers))) (\<lambda>v. Inr (se_sha256 se (se_json_text se v)))"

definition detect_cache_desync :: "settings_cache_entry \<Rightarrow> bool" where
  "detect_cache_desync e \<longleftrightarrow> (case ce_settings_fingerprint e of None \<Rightarrow> False | Some f \<Rightarrow> f \<noteq> ce_fingerprint e)"

fun schema_load_error :: "settings_schema_error \<Rightarrow> load_error" where
  "schema_load_error (SchemaEscaped e) = Escaped (RaisedPy e)"
| "schema_load_error e = ServiceFailure (SettingsValidationError (schema_error_message e))"

definition fresh_settings ::
    "settings_env \<Rightarrow> settings_request \<Rightarrow> string option \<Rightarrow> string \<Rightarrow> (string \<times> mapping) list \<Rightarrow>
     load_error + startup_settings \<times> string dict" where
  "fresh_settings se req root_hint fingerprint layers =
     rbind (map_error ServiceFailure (merge_sources layers)) (\<lambda>(merged, prov).
     rbind (map_error schema_load_error (validate_raw_settings (se_conv se) (VDict merged))) (\<lambda>validated.
     rbind (map_error (\<lambda>e. Escaped (RaisedSettings e))
       (from_raw (se_conv se) (se_paths se) validated (resolve_settings_root_hint se req root_hint) (Some fingerprint))) (\<lambda>settings.
     Inr (settings, prov))))"

text \<open>
  The cache is the caller's handle: \<open>None\<close> is no handle, \<open>Some entry\<close> its entry. A failed service step is the
  failure of the result; other exceptions escape.
\<close>

definition load_startup_settings ::
    "settings_env \<Rightarrow> settings_request \<Rightarrow> string option \<Rightarrow> settings_source dict \<Rightarrow> settings_cache_entry option option \<Rightarrow>
     (load_error + settings_load_result) \<times> settings_cache_entry option option" where
  "load_startup_settings se req root_hint explicit cache =
     (case resolve_sources se req explicit root_hint of
        Inl e \<Rightarrow> (Inl e, cache)
      | Inr layers \<Rightarrow>
          (case compute_fingerprint se layers of
             Inl e \<Rightarrow> (Inl (Escaped (RaisedPy e)), cache)
           | Inr fingerprint \<Rightarrow>
               (let desync = (case cache of Some (Some e) \<Rightarrow> detect_cache_desync e | _ \<Rightarrow> False);
                    cache1 = (if desync then Some None else cache);
                    hit = (case cache1 of
                        Some (Some e) \<Rightarrow> if ce_fingerprint e = fingerprint then ce_settings e else None
                      | _ \<Rightarrow> None)
                in case hit of
                     Some s \<Rightarrow>
                       (Inr \<lparr>lr_settings = s, lr_provenance = [], lr_cache_hit = True, lr_redacted_settings = to_redacted_dict s,
                          lr_cache_integrity_error = False, lr_fingerprint = fingerprint\<rparr>, cache1)
                   | None \<Rightarrow>
                       (case fresh_settings se req root_hint fingerprint layers of
                          Inl e \<Rightarrow> (Inl e, cache1)
                        | Inr (s, prov) \<Rightarrow>
                            (Inr \<lparr>lr_settings = s, lr_provenance = prov, lr_cache_hit = False,
                               lr_redacted_settings = to_redacted_dict s, lr_cache_integrity_error = desync,
                               lr_fingerprint = fingerprint\<rparr>,
                             map_option (\<lambda>_. Some \<lparr>ce_fingerprint = fingerprint, ce_settings = Some s,
                               ce_settings_fingerprint = st_source_fingerprint s\<rparr>) cache1)))))"

end
