(* ===== verification/Bootstrap.thy ===== *)
theory Bootstrap
  imports Startup_Dependencies Settings_Service Io_Logic
begin

text \<open>
  The bootstrap (\<^verbatim>\<open>run_bootstrap\<close> of \<^verbatim>\<open>application/startup/bootstrap.py\<close>): the fixed sequence settings,
  dependencies, context, composition, launch, with an event at the start and at the end and the cleanup of
  what was built when a step fails. The steps are the callables the function is given; what they raise is
  an \<^verbatim>\<open>Exception\<close> (an interrupt of the process is not caught and not modelled). Copies of payload values
  are the values.
\<close>

section \<open>Requests, events, results\<close>

record bootstrap_request =
  bq_mode :: string
  bq_profile :: "string option"
  bq_trace_id :: string
  bq_metadata :: mapping

record startup_failure =
  sf_stage :: string
  sf_error_type :: string
  sf_message :: string

record startup_event =
  ev_name :: string
  ev_trace_id :: string
  ev_payload :: mapping

text \<open>Settings are the typed record, a mapping, or an object of which the attributes \<^verbatim>\<open>mode\<close> and \<^verbatim>\<open>profile\<close> are read.\<close>

datatype settings_object =
    TypedSettings startup_settings
  | MappingSettings mapping
  | ObjectSettings "pyval option" "pyval option"

record load_result =
  ld_is_success :: bool
  ld_settings :: "settings_object option"
  ld_provenance :: "string dict"
  ld_fingerprint :: "string option"
  ld_failure :: "(string \<times> string) option"

datatype loaded = PlainSettings settings_object | LoadResult load_result

type_synonym 'w hook = "nat \<times> ('w, py_exception, unit) io"

record ('f, 'w) startup_context =
  sc_settings :: settings_object
  sc_dependencies :: "('f, 'w) startup_dependencies"
  sc_launch :: launch_metadata

text \<open>What bootstrap reads of the bundle of the composition.\<close>

record ('h, 'w) composed =
  co_runtime_handle :: 'h
  co_shutdown_all :: "'w hook"
  co_diagnostics :: mapping
  co_port_names :: "string list"

record ('f, 'h, 'r, 'w) bootstrap_env =
  be_conv :: conv_env
  be_boot_timestamp :: string
  be_process_id :: int
  be_load_settings :: "bootstrap_request \<Rightarrow> ('w, py_exception, loaded) io"
  be_resolve_dependencies :: "settings_object \<Rightarrow> bootstrap_request \<Rightarrow> ('w, py_exception, ('f, 'w) startup_dependencies) io"
  be_compose_runtime :: "('f, 'w) startup_context \<Rightarrow> ('w, py_exception, ('h, 'w) composed) io"
  be_launch_runtime :: "'h \<Rightarrow> ('f, 'w) startup_context \<Rightarrow> ('w, py_exception, 'r) io"
  be_emit_event :: "startup_event \<Rightarrow> ('w, py_exception, unit) io"

record ('f, 'r, 'w) bootstrap_result =
  br_is_success :: bool
  br_context :: "('f, 'w) startup_context option"
  br_runtime_handle :: "'r option"
  br_failure :: "startup_failure option"

section \<open>Diagnostics\<close>

definition STARTUP_DIAGNOSTIC_FIELDS :: "string list" where
  "STARTUP_DIAGNOSTIC_FIELDS =
     [''requested_mode'', ''requested_profile'', ''mode'', ''profile'', ''boot_timestamp_utc'', ''settings_fingerprint'',
      ''settings_provenance'', ''selected_backends'', ''plugin_backend'', ''plugin_visibility'']"

definition initialize_event_diagnostics :: "bootstrap_request \<Rightarrow> string \<Rightarrow> mapping" where
  "initialize_event_diagnostics req boot =
     [(''requested_mode'', VStr (bq_mode req)), (''requested_profile'', opt_value (bq_profile req)), (''mode'', VStr (bq_mode req)),
      (''profile'', opt_value (bq_profile req)), (''boot_timestamp_utc'', VStr boot), (''settings_fingerprint'', VNone),
      (''settings_provenance'', VDict []), (''selected_backends'', VDict []), (''plugin_backend'', VNone),
      (''plugin_visibility'', VStr ''unknown'')]"

definition build_startup_event_payload :: "mapping \<Rightarrow> mapping \<Rightarrow> mapping" where
  "build_startup_event_payload diagnostics extra =
     fold (\<lambda>(k, v). AList.update k v) extra (map (\<lambda>k. (k, get_or_none diagnostics k)) STARTUP_DIAGNOSTIC_FIELDS)"

definition mode_attribute :: "settings_object \<Rightarrow> pyval option" where
  "mode_attribute s =
     (case s of TypedSettings t \<Rightarrow> Some (VStr (rs_mode (st_runtime t))) | MappingSettings _ \<Rightarrow> None | ObjectSettings m _ \<Rightarrow> m)"

definition profile_attribute :: "settings_object \<Rightarrow> pyval option" where
  "profile_attribute s =
     (case s of TypedSettings t \<Rightarrow> Some (opt_value (rs_profile (st_runtime t))) | MappingSettings _ \<Rightarrow> None | ObjectSettings _ p \<Rightarrow> p)"

definition plugin_backend_entry :: "conv_env \<Rightarrow> mapping \<Rightarrow> string option" where
  "plugin_backend_entry cv d =
     (case get_or_none d ''backends'' of
        VDict b \<Rightarrow> (let v = get_or_none b ''plugins'' in if v = VNone \<or> lower_token cv v = [] then None else Some (lower_token cv v))
      | _ \<Rightarrow> None)"

definition resolve_plugin_backend_from_settings :: "conv_env \<Rightarrow> settings_object \<Rightarrow> string option" where
  "resolve_plugin_backend_from_settings cv s =
     (case s of
        TypedSettings t \<Rightarrow> plugin_backend_entry cv (to_dependency_payload t)
      | MappingSettings d \<Rightarrow> plugin_backend_entry cv d
      | ObjectSettings _ _ \<Rightarrow> None)"

definition set_plugin_backend :: "string option \<Rightarrow> mapping \<Rightarrow> mapping" where
  "set_plugin_backend b d =
     (case b of None \<Rightarrow> d
      | Some p \<Rightarrow> AList.update ''plugin_visibility'' (VStr ''configured'') (AList.update ''plugin_backend'' (VStr p) d))"

definition set_optional :: "string \<Rightarrow> pyval option \<Rightarrow> mapping \<Rightarrow> mapping" where
  "set_optional k v d = (case v of None \<Rightarrow> d | Some x \<Rightarrow> AList.update k x d)"

definition update_diagnostics_with_settings ::
    "conv_env \<Rightarrow> settings_object \<Rightarrow> string dict \<Rightarrow> string option \<Rightarrow> mapping \<Rightarrow> mapping" where
  "update_diagnostics_with_settings cv s prov fp d =
     set_plugin_backend (resolve_plugin_backend_from_settings cv s)
       (set_optional ''profile'' (profile_attribute s)
          (set_optional ''mode'' (mode_attribute s)
             (AList.update ''settings_provenance'' (str_dict prov) (AList.update ''settings_fingerprint'' (opt_value fp) d))))"

definition update_diagnostics_with_dependencies :: "('f, 'w) startup_dependencies \<Rightarrow> mapping \<Rightarrow> mapping" where
  "update_diagnostics_with_dependencies deps d =
     set_plugin_backend (map_of (sd_selected_backends deps) ''plugins'')
       (AList.update ''selected_backends'' (str_dict (sd_selected_backends deps)) d)"

definition update_diagnostics_with_composition :: "conv_env \<Rightarrow> ('h, 'w) composed \<Rightarrow> mapping \<Rightarrow> mapping" where
  "update_diagnostics_with_composition cv c d =
     (let d1 = (case get_or_none (co_diagnostics c) ''selected_backends'' of VDict b \<Rightarrow> AList.update ''selected_backends'' (VDict b) d | _ \<Rightarrow> d);
          backend = get_or_none (co_diagnostics c) ''plugin_backend'';
          token = strip (py_str (cv_repr cv) backend);
          d2 = (if backend \<noteq> VNone \<and> token \<noteq> [] then AList.update ''plugin_backend'' (VStr token) d1 else d1)
      in case get_or_none (co_diagnostics c) ''plugin_visibility'' of
           VStr v \<Rightarrow> if strip v \<noteq> [] then AList.update ''plugin_visibility'' (VStr (str_lower (strip v))) d2
             else if ''plugins'' \<in> set (co_port_names c) then AList.update ''plugin_visibility'' (VStr ''bound'') d2 else d2
         | _ \<Rightarrow> if ''plugins'' \<in> set (co_port_names c) then AList.update ''plugin_visibility'' (VStr ''bound'') d2 else d2)"

section \<open>Cleanup and failure\<close>

text \<open>The hooks in reverse order, each identity once; what they raise is dropped.\<close>

fun run_hooks :: "nat list \<Rightarrow> 'w hook list \<Rightarrow> 'w \<Rightarrow> 'w" where
  "run_hooks seen [] w = w"
| "run_hooks seen ((i, h) # hs) w = (if i \<in> set seen then run_hooks seen hs w else run_hooks (i # seen) hs (snd (h w)))"

definition run_cleanup :: "'w hook list \<Rightarrow> 'w \<Rightarrow> 'w" where
  "run_cleanup hooks w = run_hooks [] (rev hooks) w"

definition startup_event_of :: "bootstrap_request \<Rightarrow> string \<Rightarrow> mapping \<Rightarrow> mapping \<Rightarrow> startup_event" where
  "startup_event_of req name diagnostics extra =
     \<lparr>ev_name = name, ev_trace_id = bq_trace_id req,
      ev_payload = build_startup_event_payload diagnostics (extra @ [(''metadata'', VDict (bq_metadata req))])\<rparr>"

definition build_failure_result ::
    "('f, 'h, 'r, 'w) bootstrap_env \<Rightarrow> bootstrap_request \<Rightarrow> string \<Rightarrow> py_exception \<Rightarrow> mapping \<Rightarrow> 'w hook list \<Rightarrow>
     ('w, py_exception, ('f, 'r, 'w) bootstrap_result) io" where
  "build_failure_result be req stage exc diagnostics hooks w =
     io_bind (be_emit_event be (startup_event_of req ''startup_failed'' diagnostics
         [(''stage'', VStr stage), (''error_type'', VStr (ex_type_name exc)), (''message'', VStr (ex_text exc))]))
       (\<lambda>_. io_return \<lparr>br_is_success = False, br_context = None, br_runtime_handle = None,
          br_failure = Some \<lparr>sf_stage = stage, sf_error_type = ex_type_name exc, sf_message = ex_text exc\<rparr>\<rparr>)
       (run_cleanup hooks w)"

definition unwrap_settings :: "loaded \<Rightarrow> py_exception + settings_object \<times> string dict \<times> string option" where
  "unwrap_settings l =
     (case l of
        PlainSettings s \<Rightarrow> Inr (s, [], None)
      | LoadResult r \<Rightarrow>
          (case (ld_is_success r, ld_settings r) of
             (True, Some s) \<Rightarrow> Inr (s, ld_provenance r, ld_fingerprint r)
           | _ \<Rightarrow>
               (let (error_type, message) = (case ld_failure r of
                      Some f \<Rightarrow> f | None \<Rightarrow> (''SettingsLoadFailure'', ''Settings load returned unsuccessful result.''))
                in Inl ((plain_exception ''RuntimeError'' (error_type @ '': '' @ message))\<lparr>ex_is_runtime_error := True\<rparr>))))"

fun startup_context_exception :: "startup_context_error \<Rightarrow> py_exception" where
  "startup_context_exception (StartupContextBindingError m) = (plain_exception ''StartupContextBindingError'' m)\<lparr>ex_is_runtime_error := True\<rparr>"
| "startup_context_exception (StartupContextValidationError m) = (plain_exception ''StartupContextValidationError'' m)\<lparr>ex_is_runtime_error := True\<rparr>"
| "startup_context_exception (StartupContextOverrideError m) = (plain_exception ''StartupContextOverrideError'' m)\<lparr>ex_is_runtime_error := True\<rparr>"

definition build_startup_context ::
    "conv_env \<Rightarrow> settings_object \<Rightarrow> ('f, 'w) startup_dependencies \<Rightarrow> launch_metadata \<Rightarrow>
     startup_context_error + ('f, 'w) startup_context" where
  "build_startup_context cv s deps launch =
     rbind (validate_startup_context cv (mode_attribute s) deps launch) (\<lambda>_.
     Inr \<lparr>sc_settings = s, sc_dependencies = deps, sc_launch = launch\<rparr>)"

section \<open>The sequence\<close>

text \<open>A failed step stops the sequence with its stage, the diagnostics so far and the hooks so far.\<close>

type_synonym 'w stop = "string \<times> py_exception \<times> mapping \<times> 'w hook list"

definition guarded :: "string \<Rightarrow> mapping \<Rightarrow> 'w hook list \<Rightarrow> ('w, py_exception, 'a) io \<Rightarrow> ('w, 'w stop, 'a) io" where
  "guarded stage diagnostics hooks m w =
     (case m w of (Inl e, w1) \<Rightarrow> (Inl (stage, e, diagnostics, hooks), w1) | (Inr x, w1) \<Rightarrow> (Inr x, w1))"

definition boot_phases ::
    "('f, 'h, 'r, 'w) bootstrap_env \<Rightarrow> bootstrap_request \<Rightarrow>
     ('w, 'w stop, ('f, 'w) startup_context \<times> 'r \<times> mapping) io" where
  "boot_phases be req =
     (let d0 = initialize_event_diagnostics req (be_boot_timestamp be) in
      io_bind (guarded ''settings'' d0 [] (io_bind (be_load_settings be req) (\<lambda>l. io_lift (unwrap_settings l)))) (\<lambda>(s, prov, fp).
      let d1 = update_diagnostics_with_settings (be_conv be) s prov fp d0 in
      io_bind (guarded ''dependencies'' d1 [] (be_resolve_dependencies be s req)) (\<lambda>deps.
      let hooks1 = (case sd_cleanup deps of None \<Rightarrow> [] | Some h \<Rightarrow> [h]);
          d2 = update_diagnostics_with_dependencies deps d1;
          launch = \<lparr>lm_requested_mode = bq_mode req, lm_requested_profile = bq_profile req, lm_trace_id = bq_trace_id req,
            lm_process_id = be_process_id be, lm_boot_timestamp_utc = be_boot_timestamp be\<rparr> in
      io_bind (guarded ''context'' d2 hooks1
        (io_lift (map_error startup_context_exception (build_startup_context (be_conv be) s deps launch)))) (\<lambda>context.
      io_bind (guarded ''composition'' d2 hooks1 (be_compose_runtime be context)) (\<lambda>composition.
      let hooks2 = hooks1 @ [co_shutdown_all composition];
          d3 = update_diagnostics_with_composition (be_conv be) composition d2 in
      io_bind (guarded ''launch'' d3 hooks2 (be_launch_runtime be (co_runtime_handle composition) context)) (\<lambda>handle.
      io_return (context, handle, d3)))))))"

definition run_bootstrap ::
    "('f, 'h, 'r, 'w) bootstrap_env \<Rightarrow> bootstrap_request \<Rightarrow> ('w, py_exception, ('f, 'r, 'w) bootstrap_result) io" where
  "run_bootstrap be req =
     io_bind (be_emit_event be (startup_event_of req ''startup_started''
         (initialize_event_diagnostics req (be_boot_timestamp be)) [])) (\<lambda>_ w.
     case boot_phases be req w of
       (Inl (stage, exc, diagnostics, hooks), w1) \<Rightarrow> build_failure_result be req stage exc diagnostics hooks w1
     | (Inr (context, handle, diagnostics), w1) \<Rightarrow>
         io_bind (be_emit_event be (startup_event_of req ''startup_succeeded'' diagnostics []))
           (\<lambda>_. io_return \<lparr>br_is_success = True, br_context = Some context, br_runtime_handle = Some handle, br_failure = None\<rparr>) w1)"

section \<open>The protocol\<close>

text \<open>
  The run as an observer sees it: \<open>tr\<close> is a trace in the world, of the ports called (\<open>Called\<close>, by the stage
  they belong to), the events emitted and the cleanup hooks run. A port call, an emission and a hook each
  add their item, whether or not the port or the hook raises; the event sink does not raise. \<open>c\<close> is the
  identity of the hook of the dependencies, if they have one, \<open>k\<close> that of the shutdown of the composition.
\<close>

datatype boot_item = Called string | Emitted string | Cleaned nat

definition logs :: "('w \<Rightarrow> boot_item list) \<Rightarrow> boot_item list \<Rightarrow> ('w, 'e, 'a) io \<Rightarrow> bool" where
  "logs tr items m \<longleftrightarrow> (\<forall>w. tr (snd (m w)) = tr w @ items)"

definition hook_logs :: "('w \<Rightarrow> boot_item list) \<Rightarrow> 'w hook \<Rightarrow> bool" where
  "hook_logs tr h \<longleftrightarrow> logs tr [Cleaned (fst h)] (snd h)"

definition observed ::
    "('f, 'h, 'r, 'w) bootstrap_env \<Rightarrow> ('w \<Rightarrow> boot_item list) \<Rightarrow> nat option \<Rightarrow> nat \<Rightarrow> bool" where
  "observed be tr c k \<longleftrightarrow>
     (\<forall>ev w. \<exists>w'. be_emit_event be ev w = (Inr (), w') \<and> tr w' = tr w @ [Emitted (ev_name ev)]) \<and>
     (\<forall>req. logs tr [Called ''settings''] (be_load_settings be req)) \<and>
     (\<forall>s req. logs tr [Called ''dependencies''] (be_resolve_dependencies be s req)) \<and>
     (\<forall>ctx. logs tr [Called ''composition''] (be_compose_runtime be ctx)) \<and>
     (\<forall>h ctx. logs tr [Called ''launch''] (be_launch_runtime be h ctx)) \<and>
     (\<forall>s req w d w'. be_resolve_dependencies be s req w = (Inr d, w') \<longrightarrow>
        map_option fst (sd_cleanup d) = c \<and> (\<forall>h. sd_cleanup d = Some h \<longrightarrow> hook_logs tr h)) \<and>
     (\<forall>ctx w co w'. be_compose_runtime be ctx w = (Inr co, w') \<longrightarrow>
        fst (co_shutdown_all co) = k \<and> hook_logs tr (co_shutdown_all co))"

text \<open>The hooks a failure at a stage has to run: those of what was built before it, newest first.\<close>

definition cleanup_of :: "nat option \<Rightarrow> nat \<Rightarrow> string \<Rightarrow> nat list" where
  "cleanup_of c k stage =
     (let deps = (case c of None \<Rightarrow> [] | Some i \<Rightarrow> [i]) in
      if stage = ''settings'' \<or> stage = ''dependencies'' then []
      else if stage = ''launch'' then k # (if c = Some k then [] else deps) else deps)"

definition STAGES :: "string list" where
  "STAGES = [''settings'', ''dependencies'', ''context'', ''composition'', ''launch'']"

text \<open>The ports called up to a stage, that stage included; the context is built without a port.\<close>

definition calls_to :: "string \<Rightarrow> boot_item list" where
  "calls_to stage = map Called (filter (\<lambda>s. s \<noteq> ''context'') (takeWhile (\<lambda>s. s \<noteq> stage) STAGES @ [stage]))"

lemma calls_to_simps:
  "calls_to ''settings'' = [Called ''settings'']"
  "calls_to ''dependencies'' = [Called ''settings'', Called ''dependencies'']"
  "calls_to ''context'' = [Called ''settings'', Called ''dependencies'']"
  "calls_to ''composition'' = [Called ''settings'', Called ''dependencies'', Called ''composition'']"
  "calls_to ''launch'' = [Called ''settings'', Called ''dependencies'', Called ''composition'', Called ''launch'']"
  by (simp_all add: calls_to_def STAGES_def)

definition stop_ok :: "('w \<Rightarrow> boot_item list) \<Rightarrow> nat option \<Rightarrow> nat \<Rightarrow> 'w stop \<Rightarrow> bool" where
  "stop_ok tr c k s \<longleftrightarrow> (case s of (stage, exc, diagnostics, hooks) \<Rightarrow>
     stage \<in> set STAGES \<and> (\<forall>w. tr (run_cleanup hooks w) = tr w @ map Cleaned (cleanup_of c k stage)))"

text \<open>Phases that run when \<open>pre\<close> has been added to the trace \<open>t\<close>: where they stop, and what they have called.\<close>

definition phases_ok ::
    "('w \<Rightarrow> boot_item list) \<Rightarrow> nat option \<Rightarrow> nat \<Rightarrow> boot_item list \<Rightarrow> boot_item list \<Rightarrow> ('w, 'w stop, 'a) io \<Rightarrow> bool" where
  "phases_ok tr c k t pre m \<longleftrightarrow> (\<forall>w r w'. tr w = t @ pre \<longrightarrow> m w = (r, w') \<longrightarrow>
     (case r of Inl s \<Rightarrow> stop_ok tr c k s \<and> tr w' = t @ calls_to (fst s) | Inr _ \<Rightarrow> tr w' = t @ calls_to ''launch''))"

lemma phases_guarded:
  assumes "logs tr items m" and "calls_to stage = pre @ items" and "\<And>e. stop_ok tr c k (stage, e, d, hooks)"
    and "\<And>x w w1. m w = (Inr x, w1) \<Longrightarrow> phases_ok tr c k t (pre @ items) (f x)"
  shows "phases_ok tr c k t pre (io_bind (guarded stage d hooks m) f)"
  unfolding phases_ok_def
proof (intro allI impI)
  fix w r w'
  assume start: "tr w = t @ pre" and run: "io_bind (guarded stage d hooks m) f w = (r, w')"
  obtain q w1 where m: "m w = (q, w1)" by (cases "m w")
  with assms(1) start have trace: "tr w1 = t @ pre @ items" unfolding logs_def by (metis append.assoc snd_conv)
  show "case r of Inl s \<Rightarrow> stop_ok tr c k s \<and> tr w' = t @ calls_to (fst s) | Inr _ \<Rightarrow> tr w' = t @ calls_to ''launch''"
  proof (cases q)
    case (Inl e)
    with run m have "r = Inl (stage, e, d, hooks)" "w' = w1" by (auto simp: io_bind_def guarded_def)
    with trace assms(2, 3) show ?thesis by simp
  next
    case (Inr x)
    with run m have f: "f x w1 = (r, w')" by (auto simp: io_bind_def guarded_def)
    have "phases_ok tr c k t (pre @ items) (f x)" using assms(4) m Inr by blast
    with f trace show ?thesis unfolding phases_ok_def by blast
  qed
qed

lemma cleanup_log:
  assumes "stage = ''settings'' \<or> stage = ''dependencies'' \<Longrightarrow> hooks = []"
    and "stage = ''context'' \<or> stage = ''composition'' \<Longrightarrow>
      hooks = (case dep of None \<Rightarrow> [] | Some h \<Rightarrow> [h]) \<and> map_option fst dep = c \<and> (\<forall>h. dep = Some h \<longrightarrow> hook_logs tr h)"
    and "stage = ''launch'' \<Longrightarrow> hooks = (case dep of None \<Rightarrow> [] | Some h \<Rightarrow> [h]) @ [s] \<and> map_option fst dep = c \<and>
      (\<forall>h. dep = Some h \<longrightarrow> hook_logs tr h) \<and> fst s = k \<and> hook_logs tr s"
    and "stage \<in> set STAGES"
  shows "stop_ok tr c k (stage, e, d, hooks)"
  using assms
  by (cases dep; cases s)
    (auto simp: stop_ok_def STAGES_def cleanup_of_def run_cleanup_def hook_logs_def logs_def)

lemma boot_phases_ok:
  assumes "observed be tr c k"
  shows "phases_ok tr c k t [] (boot_phases be req)"
proof -
  note o = assms [unfolded observed_def]
  have load: "logs tr [Called ''settings''] (io_bind (be_load_settings be req) (\<lambda>l. io_lift (unwrap_settings l)))"
    using o unfolding logs_def io_bind_def by (auto split: prod.splits sum.splits) (metis snd_conv)+
  have dep: "map_option fst (sd_cleanup d) = c" "\<And>h. sd_cleanup d = Some h \<Longrightarrow> hook_logs tr h"
    if "be_resolve_dependencies be s req w = (Inr d, w')" for s w d w'
    using o that by blast+
  have comp: "fst (co_shutdown_all co) = k" "hook_logs tr (co_shutdown_all co)"
    if "be_compose_runtime be ctx w = (Inr co, w')" for ctx w co w'
    using o that by blast+
  have logs: "\<And>s. logs tr [Called ''dependencies''] (be_resolve_dependencies be s req)"
    "\<And>ctx. logs tr [Called ''composition''] (be_compose_runtime be ctx)"
    "\<And>h ctx. logs tr [Called ''launch''] (be_launch_runtime be h ctx)"
    "\<And>r :: py_exception + ('f, 'w) startup_context. logs tr [] (io_lift r)"
    using o by (blast, blast, blast, simp add: logs_def)
  show ?thesis
    unfolding boot_phases_def Let_def
    apply (rule phases_guarded [OF load], simp add: calls_to_simps, rule cleanup_log [where dep = None and s = undefined],
        simp_all add: STAGES_def split: prod.split)
    apply (intro allI impI)
    apply (rule phases_guarded [OF logs(1)], simp add: calls_to_simps, rule cleanup_log [where dep = None and s = undefined],
        simp_all add: STAGES_def)
    subgoal for x w w1 s prov fp deps wa w1a
      apply (rule phases_guarded [OF logs(4)], simp add: calls_to_simps,
          rule cleanup_log [where dep = "sd_cleanup deps" and s = undefined], simp_all add: STAGES_def dep)
      apply (rule phases_guarded [OF logs(2)], simp add: calls_to_simps,
          rule cleanup_log [where dep = "sd_cleanup deps" and s = undefined], simp_all add: STAGES_def dep)
      subgoal for ctx co
        apply (rule phases_guarded [OF logs(3)], simp add: calls_to_simps,
            rule cleanup_log [where dep = "sd_cleanup deps" and s = "co_shutdown_all co"], simp_all add: STAGES_def dep comp)
        apply (simp add: phases_ok_def calls_to_simps)
        done
      done
    done
qed

lemma emit_log:
  assumes "observed be tr c k" and "be_emit_event be (startup_event_of req n d x) w = (r, w')"
  shows "r = Inr ()" and "tr w' = tr w @ [Emitted n]"
proof -
  obtain v where "be_emit_event be (startup_event_of req n d x) w = (Inr (), v)"
    "tr v = tr w @ [Emitted (ev_name (startup_event_of req n d x))]"
    using assms(1) unfolding observed_def by blast
  with assms(2) show "r = Inr ()" "tr w' = tr w @ [Emitted n]" by (simp_all add: startup_event_of_def)
qed

text \<open>The three ways a bootstrap goes: not even started, stopped at a stage, or through.\<close>

lemma bootstrap_cases:
  assumes "run_bootstrap be req w = (res, w')"
  obtains (not_started) e where "be_emit_event be (startup_event_of req ''startup_started''
        (initialize_event_diagnostics req (be_boot_timestamp be)) []) w = (Inl e, w')" "res = Inl e"
  | (stopped) w0 w1 stage exc d hooks x r where "be_emit_event be (startup_event_of req ''startup_started''
        (initialize_event_diagnostics req (be_boot_timestamp be)) []) w = (Inr (), w0)"
      "boot_phases be req w0 = (Inl (stage, exc, d, hooks), w1)"
      "be_emit_event be (startup_event_of req ''startup_failed'' d x) (run_cleanup hooks w1) = (r, w')"
      "res = (case r of Inl e \<Rightarrow> Inl e | Inr _ \<Rightarrow> Inr \<lparr>br_is_success = False, br_context = None, br_runtime_handle = None,
         br_failure = Some \<lparr>sf_stage = stage, sf_error_type = ex_type_name exc, sf_message = ex_text exc\<rparr>\<rparr>)"
  | (through) w0 w1 ctx h d r where "be_emit_event be (startup_event_of req ''startup_started''
        (initialize_event_diagnostics req (be_boot_timestamp be)) []) w = (Inr (), w0)"
      "boot_phases be req w0 = (Inr (ctx, h, d), w1)"
      "be_emit_event be (startup_event_of req ''startup_succeeded'' d []) w1 = (r, w')"
      "res = (case r of Inl e \<Rightarrow> Inl e | Inr _ \<Rightarrow> Inr \<lparr>br_is_success = True, br_context = Some ctx, br_runtime_handle = Some h,
         br_failure = None\<rparr>)"
proof -
  obtain r0 w0 where e0: "be_emit_event be (startup_event_of req ''startup_started''
      (initialize_event_diagnostics req (be_boot_timestamp be)) []) w = (r0, w0)" by (rule prod.exhaust)
  show thesis
  proof (cases r0)
    case (Inl e)
    with assms e0 show thesis by (intro not_started) (auto simp: run_bootstrap_def)
  next
    case (Inr u)
    then have e0: "be_emit_event be (startup_event_of req ''startup_started''
        (initialize_event_diagnostics req (be_boot_timestamp be)) []) w = (Inr (), w0)" using e0 by simp
    obtain q w1 where p: "boot_phases be req w0 = (q, w1)" by (rule prod.exhaust)
    show thesis
    proof (cases q)
      case (Inl s)
      obtain stage exc d hooks where s: "s = (stage, exc, d, hooks)" by (rule prod_cases4)
      obtain r w2 where e: "be_emit_event be (startup_event_of req ''startup_failed'' d [(''stage'', VStr stage),
          (''error_type'', VStr (ex_type_name exc)), (''message'', VStr (ex_text exc))]) (run_cleanup hooks w1) = (r, w2)"
        by (rule prod.exhaust)
      have "w2 = w'" "res = (case r of Inl e \<Rightarrow> Inl e | Inr _ \<Rightarrow> Inr \<lparr>br_is_success = False, br_context = None,
          br_runtime_handle = None,
          br_failure = Some \<lparr>sf_stage = stage, sf_error_type = ex_type_name exc, sf_message = ex_text exc\<rparr>\<rparr>)"
        using assms e0 p Inl s e by (auto simp: run_bootstrap_def build_failure_result_def io_bind_def split: sum.splits)
      then show thesis using stopped [OF e0 p [unfolded Inl s]] e by simp
    next
      case (Inr y)
      obtain ctx h d where y: "y = (ctx, h, d)" by (rule prod_cases3)
      obtain r w2 where e: "be_emit_event be (startup_event_of req ''startup_succeeded'' d []) w1 = (r, w2)" by (rule prod.exhaust)
      have "w2 = w'" "res = (case r of Inl e \<Rightarrow> Inl e | Inr _ \<Rightarrow> Inr \<lparr>br_is_success = True, br_context = Some ctx,
          br_runtime_handle = Some h, br_failure = None\<rparr>)"
        using assms e0 p Inr y e by (auto simp: run_bootstrap_def io_bind_def split: sum.splits)
      then show thesis using through [OF e0 p [unfolded Inr y]] e by simp
    qed
  qed
qed


text \<open>
  An event sink that raises: whatever it raises escapes. A raise at \<^verbatim>\<open>startup_succeeded\<close> is the last thing
  that happens, and leaves the composition and the dependencies that were built without any cleanup.
\<close>

theorem raising_sink_escapes:
  assumes "be_emit_event be (startup_event_of req ''startup_started''
        (initialize_event_diagnostics req (be_boot_timestamp be)) []) w = (Inr (), w0)"
    and "boot_phases be req w0 = (Inr (ctx, h, d), w1)"
    and "be_emit_event be (startup_event_of req ''startup_succeeded'' d []) w1 = (Inl e, w2)"
  shows "run_bootstrap be req w = (Inl e, w2)"
  using assms by (simp add: run_bootstrap_def)

definition demo_boot_env :: "(unit, unit, unit, boot_item list) bootstrap_env" where
  "demo_boot_env =
     \<lparr>be_conv = \<lparr>cv_repr = (\<lambda>_. ''?''), cv_float_of_str = (\<lambda>_. None), cv_int_of_str = (\<lambda>_. None)\<rparr>,
      be_boot_timestamp = ''2026'', be_process_id = 7,
      be_load_settings = (\<lambda>_ t. (Inr (PlainSettings (ObjectSettings (Some (VStr ''headless'')) None)), t @ [Called ''settings''])),
      be_resolve_dependencies = (\<lambda>_ _ t. (Inr \<lparr>sd_factories = [(''event_sink'', ())], sd_selected_backends = [],
        sd_lazy_factories = [], sd_warnings = [], sd_diagnostics = [],
        sd_cleanup = Some (1, \<lambda>t. (Inl (plain_exception ''OSError'' ''busy''), t @ [Cleaned 1]))\<rparr>, t @ [Called ''dependencies''])),
      be_compose_runtime = (\<lambda>_ t. (Inr \<lparr>co_runtime_handle = (),
        co_shutdown_all = (2, \<lambda>t. (Inr (), t @ [Cleaned 2])), co_diagnostics = [], co_port_names = [''plugins'']\<rparr>,
        t @ [Called ''composition''])),
      be_launch_runtime = (\<lambda>_ _ t. (Inl (plain_exception ''RuntimeError'' ''no display''), t @ [Called ''launch''])),
      be_emit_event = (\<lambda>ev t. (Inr (), t @ [Emitted (ev_name ev)]))\<rparr>"

definition demo_boot_request :: bootstrap_request where
  "demo_boot_request = \<lparr>bq_mode = ''v2'', bq_profile = None, bq_trace_id = ''t'', bq_metadata = []\<rparr>"

lemma demo_observed: "observed demo_boot_env id (Some 1) 2"
  by (auto simp: observed_def demo_boot_env_def logs_def hook_logs_def)

text \<open>A launch that fails shuts the composition down, then the dependencies, though a hook raises.\<close>

lemma demo_boot:
  "\<exists>r w'. run_bootstrap demo_boot_env demo_boot_request [] = (Inr r, w') \<and> \<not> br_is_success r \<and>
     (\<forall>f. br_failure r = Some f \<longrightarrow> sf_stage f = ''launch'')"
proof -
  have token: "str_lower (strip ''headless'') = ''headless''" "str_lower (strip ''v2'') = ''v2''" by code_simp+
  obtain ctx where ctx: "build_startup_context (be_conv demo_boot_env) (ObjectSettings (Some (VStr ''headless'')) None)
      \<lparr>sd_factories = [(''event_sink'', ())], sd_selected_backends = [], sd_lazy_factories = [], sd_warnings = [],
       sd_diagnostics = [], sd_cleanup = Some (1, \<lambda>t. (Inl (plain_exception ''OSError'' ''busy''), t @ [Cleaned 1]))\<rparr>
      \<lparr>lm_requested_mode = ''v2'', lm_requested_profile = None, lm_trace_id = ''t'', lm_process_id = 7,
       lm_boot_timestamp_utc = ''2026''\<rparr> = (Inr ctx :: startup_context_error + (unit, boot_item list) startup_context)"
    by (simp add: build_startup_context_def validate_startup_context_def mode_attribute_def resolve_context_mode_def
        normalize_launch_mode_def lower_token_def token)
  show ?thesis
    unfolding run_bootstrap_def boot_phases_def Let_def
    by (simp add: io_bind_def guarded_def demo_boot_env_def demo_boot_request_def unwrap_settings_def map_error_def
        build_failure_result_def ctx [unfolded demo_boot_env_def, simplified] split: prod.split)
qed


end
