(* ===== verification/Settings_Correct.thy ===== *)
theory Settings_Correct
  imports Settings_Service
begin

text \<open>
  The startup settings schema: a validated payload has every canonical field, its tokens are lower case and
  in their enumerations, its numbers are not negative, and validating it again changes nothing.
\<close>

section \<open>The shape of a validated payload\<close>

definition settings_payload ::
    "pyval \<Rightarrow> pyval \<Rightarrow> pyval \<Rightarrow> pyval \<Rightarrow> pyval \<Rightarrow> pyval \<times> pyval \<times> pyval \<times> pyval \<Rightarrow> pyval \<Rightarrow> pyval \<times> pyval \<Rightarrow>
     pyval \<times> pyval \<Rightarrow> pyval \<times> pyval \<Rightarrow> pyval \<times> pyval \<Rightarrow> pyval \<Rightarrow> mapping" where
  "settings_payload profile loop poll idle maxrun paths ui sync ingestion naming plugins mode =
     [(''profile'', profile),
      (''runtime'', VDict [(''loop_mode'', loop), (''poll_interval_seconds'', poll), (''idle_timeout_seconds'', idle),
         (''max_runtime_seconds'', maxrun)]),
      (''paths'', VDict [(''root'', fst paths), (''watch'', fst (snd paths)), (''dest'', fst (snd (snd paths))),
         (''staging'', snd (snd (snd paths)))]),
      (''ui'', VDict [(''backend'', ui)]),
      (''sync'', VDict [(''backend'', fst sync), (''api_token'', snd sync)]),
      (''ingestion'', VDict [(''retry_limit'', fst ingestion), (''retry_delay_seconds'', snd ingestion)]),
      (''naming'', VDict [(''prefix'', fst naming), (''policy'', snd naming)]),
      (''plugins'', VDict [(''pc_name'', fst plugins), (''device_plugins'', snd plugins)]),
      (''mode'', mode)]"

definition block_keys :: "(string \<times> string list) list" where
  "block_keys =
     [(''runtime'', [''loop_mode'', ''poll_interval_seconds'', ''idle_timeout_seconds'', ''max_runtime_seconds'']),
      (''paths'', [''root'', ''watch'', ''dest'', ''staging'']), (''ui'', [''backend'']), (''sync'', [''backend'', ''api_token'']),
      (''ingestion'', [''retry_limit'', ''retry_delay_seconds'']), (''naming'', [''prefix'', ''policy'']),
      (''plugins'', [''pc_name'', ''device_plugins''])]"

definition template_keys :: "string list" where
  "template_keys = ''profile'' # map fst block_keys"

definition well_shaped :: "mapping \<Rightarrow> bool" where
  "well_shaped d \<longleftrightarrow> (map fst d = template_keys \<or> map fst d = template_keys @ [''mode'']) \<and>
     (\<forall>(k, ks) \<in> set block_keys. \<exists>b. map_of d k = Some (VDict b) \<and> map fst b = ks)"

lemma update_keys: "k \<in> fst ` set d \<Longrightarrow> map fst (AList.update k v d) = map fst d"
  by (induction d) auto

lemma merge_nested_keys: "merge_nested_dict block base over = Inr d \<Longrightarrow> map fst d = map fst base"
  unfolding merge_nested_dict_def
proof (induction over arbitrary: base)
  case (Cons kv over)
  obtain k v where kv: "kv = (k, v)" by fastforce
  with Cons.prems have "map_of base k \<noteq> None" by (auto simp: result_simps split: if_splits)
  then have "k \<in> fst ` set base" by (meson map_of_eq_None_iff)
  moreover from Cons.prems kv have "map fst d = map fst (AList.update k v base)"
    by (intro Cons.IH) (auto split: if_splits)
  ultimately show ?case by (simp add: update_keys)
qed simp

lemma template_shaped: "well_shaped CANONICAL_TEMPLATE"
  by (simp add: well_shaped_def CANONICAL_TEMPLATE_def template_keys_def block_keys_def)

lemma field_cases: "k \<in> set SETTINGS_FIELDS \<Longrightarrow> k = ''mode'' \<or> k = ''profile'' \<or> k \<in> fst ` set block_keys"
  by (auto simp: SETTINGS_FIELDS_def block_keys_def)

lemma block_keys_distinct: "distinct template_keys" "''mode'' \<notin> set template_keys"
  by code_simp+

lemma merge_field_shaped:
  assumes "well_shaped d" and "merge_field d (k, v) = Inr e"
  shows "well_shaped e"
proof -
  from assms(2) have k: "k \<in> set SETTINGS_FIELDS" by (auto simp: merge_field_def split: if_splits)
  have other: "k \<noteq> j" if "(j, ks) \<in> set block_keys" "k = ''mode'' \<or> k = ''profile''" for j ks
    using that by (auto simp: block_keys_def)
  show ?thesis
  proof (cases "k \<in> fst ` set block_keys")
    case True
    then obtain ks where ks: "(k, ks) \<in> set block_keys" by auto
    with assms(1) obtain b where b: "map_of d k = Some (VDict b)" "map fst b = ks" by (fastforce simp: well_shaped_def)
    with assms(2) k obtain u c where c: "merge_nested_dict k b u = Inr c" "e = AList.update k (VDict c) d"
      by (auto simp: merge_field_def result_simps split: pyval.splits)
    have "k \<in> fst ` set d" using b(1) by (metis map_of_eq_None_iff option.distinct(1))
    have "ks' = ks" if "(k, ks') \<in> set block_keys" for ks'
      using that ks by (auto simp: block_keys_def)
    note same = this
    have keys: "map fst e = map fst d" using c(2) \<open>k \<in> fst ` set d\<close> by (simp add: update_keys)
    have block: "\<exists>b'. map_of e j = Some (VDict b') \<and> map fst b' = js" if "(j, js) \<in> set block_keys" for j js
      using assms(1) c merge_nested_keys [OF c(1)] b(2) that same by (cases "j = k") (fastforce simp: well_shaped_def)+
    from keys block assms(1) show ?thesis by (auto simp: well_shaped_def)
  next
    case False
    with field_cases [OF k] have mp: "k = ''mode'' \<or> k = ''profile''" by blast
    have "map_of d ''profile'' \<noteq> None"
      using assms(1) by (auto simp: well_shaped_def template_keys_def map_of_eq_None_iff set_map [symmetric] simp del: set_map)
    have e: "e = AList.update k v d \<or> (\<exists>b c. map_of d k = Some (VDict b) \<and> e = AList.update k (VDict c) d)"
      using assms(2) k by (auto simp: merge_field_def result_simps split: option.splits pyval.splits)
    then obtain u where u: "e = AList.update k u d" by blast
    have keys: "map fst e = map fst d \<or> (k = ''mode'' \<and> map fst e = map fst d @ [''mode''] \<and> ''mode'' \<notin> set (map fst d))"
      using mp \<open>map_of d ''profile'' \<noteq> None\<close> u update_keys [of k d u] update_fresh [of k d u]
      by (cases "k \<in> fst ` set d") (auto simp: map_of_eq_None_iff)
    have "\<exists>b. map_of e j = Some (VDict b) \<and> map fst b = js" if "(j, js) \<in> set block_keys" for j js
      using assms(1) that u other [OF that mp] by (fastforce simp: well_shaped_def)
    moreover have "map fst e = template_keys \<or> map fst e = template_keys @ [''mode'']"
      using keys assms(1) block_keys_distinct(2) by (auto simp: well_shaped_def simp del: set_map)
    ultimately show ?thesis by (auto simp: well_shaped_def)
  qed
qed

lemma merged_shaped: "merge_with_template raw = Inr d \<Longrightarrow> well_shaped d"
proof -
  have "rfold merge_field e raw = Inr d \<Longrightarrow> well_shaped e \<Longrightarrow> well_shaped d" for e
  proof (induction raw arbitrary: e)
    case (Cons kv raw)
    obtain k v where "kv = (k, v)" by fastforce
    with Cons show ?case by (auto simp: result_simps dest: merge_field_shaped)
  qed simp
  then show "merge_with_template raw = Inr d \<Longrightarrow> well_shaped d"
    using template_shaped by (auto simp: merge_with_template_def)
qed

lemma keys_Cons: "map fst d = k # ks \<longleftrightarrow> (\<exists>v e. d = (k, v) # e \<and> map fst e = ks)"
  by (cases d) auto

lemma well_shaped_payload:
  assumes "well_shaped d" and "map_of d ''mode'' \<noteq> None"
  shows "\<exists>profile loop poll idle maxrun paths ui sync ingestion naming plugins mode.
    d = settings_payload profile loop poll idle maxrun paths ui sync ingestion naming plugins mode"
proof -
  have "map fst d = template_keys @ [''mode'']"
    using assms block_keys_distinct(2) by (auto simp: well_shaped_def map_of_eq_None_iff set_map [symmetric] simp del: set_map)
  then obtain p r a u s i n g m where d: "d = [(''profile'', p), (''runtime'', r), (''paths'', a), (''ui'', u), (''sync'', s),
      (''ingestion'', i), (''naming'', n), (''plugins'', g), (''mode'', m)]"
    by (auto simp: template_keys_def block_keys_def keys_Cons)
  with assms(1) show ?thesis
    by (auto simp: well_shaped_def block_keys_def keys_Cons settings_payload_def)
qed

section \<open>Validation is idempotent\<close>

lemma lower_token_VStr: "lower_token cv (VStr s) = str_lower (strip s)"
  by (simp add: lower_token_def)

lemma lower_token_idem [simp]: "lower_token cv (VStr (lower_token cv v)) = lower_token cv v"
  by (simp add: lower_token_def str_lower_strip)

lemma float_again: "coerce_non_negative_float cv v path = Inr r \<Longrightarrow> 0 \<le> r \<and> coerce_non_negative_float cv (VFloat r) path = Inr r"
  by (auto simp: coerce_non_negative_float_def split: sum.splits option.splits if_splits)

lemma optional_float_again:
  assumes "coerce_optional_non_negative_float cv v path = Inr u"
  shows "(u = VNone \<or> (\<exists>r. u = VFloat r \<and> 0 \<le> r)) \<and> coerce_optional_non_negative_float cv u path = Inr u"
  using assms float_again by (fastforce simp: coerce_optional_non_negative_float_def result_simps split: if_splits)

definition plugin_tokens :: "pyval \<Rightarrow> bool" where
  "plugin_tokens v \<longleftrightarrow> (\<exists>ts. v = VList (map VStr ts) \<and> (\<forall>t \<in> set ts. t \<noteq> [] \<and> str_lower (strip t) = t))"

lemma normalized_plugin_id: "normalize_plugin_id cv v = Inr u \<longleftrightarrow> lower_token cv v \<noteq> [] \<and> u = VStr (lower_token cv v)"
  by (auto simp: normalize_plugin_id_def Let_def)

lemma plugin_tokens_again: "plugin_tokens v \<Longrightarrow> normalize_device_plugins cv v = Inr v"
proof -
  assume "plugin_tokens v"
  then obtain ts where v: "v = VList (map VStr ts)" and ts: "\<forall>t \<in> set ts. t \<noteq> [] \<and> str_lower (strip t) = t"
    by (auto simp: plugin_tokens_def)
  have "rmap (normalize_plugin_id cv) (map VStr ts) = Inr (map VStr ts)"
    using ts by (induction ts) (simp_all add: lower_token_VStr normalize_plugin_id_def)
  then show ?thesis by (simp add: normalize_device_plugins_def v)
qed

lemma normalized_plugins: "normalize_device_plugins cv v = Inr u \<Longrightarrow> plugin_tokens u"
proof -
  have list: "\<exists>ts. us = map VStr ts \<and> (\<forall>t \<in> set ts. t \<noteq> [] \<and> str_lower (strip t) = t)"
    if "rmap (normalize_plugin_id cv) vs = Inr us" for vs us
    using that
  proof (induction vs arbitrary: us)
    case (Cons v vs)
    from Cons.prems obtain us' where us: "rmap (normalize_plugin_id cv) vs = Inr us'" "lower_token cv v \<noteq> []"
        "us = VStr (lower_token cv v) # us'"
      by (auto simp: result_simps normalized_plugin_id)
    from Cons.IH [OF us(1)] us(2, 3) obtain ts where ts: "\<forall>t \<in> set ts. t \<noteq> [] \<and> str_lower (strip t) = t" "lower_token cv v \<noteq> []"
        "us = VStr (lower_token cv v) # map VStr ts"
      by auto
    have "str_lower (strip (lower_token cv v)) = lower_token cv v"
      using lower_token_idem [of cv v] by (simp add: lower_token_VStr)
    with ts show ?case by (intro exI [where x = "lower_token cv v # ts"]) auto
  qed simp
  assume "normalize_device_plugins cv v = Inr u"
  then show ?thesis
    by (auto simp: normalize_device_plugins_def result_simps plugin_tokens_def split: if_splits pyval.splits dest!: list)
qed

definition canonical_settings :: "mapping \<Rightarrow> bool" where
  "canonical_settings d \<longleftrightarrow>
     (\<exists>profile loop poll idle maxrun paths ui sync token ingestion prefix policy pc plugins mode.
        d = settings_payload profile (VStr loop) (VFloat poll) idle maxrun paths (VStr ui) (VStr sync, token) ingestion
              (prefix, VStr policy) (pc, plugins) (VStr mode) \<and>
        mode \<in> {''headless'', ''desktop''} \<and> loop \<in> {''oneshot'', ''continuous''} \<and> ui \<in> {''headless'', ''desktop''} \<and>
        sync \<in> {''noop'', ''kadi''} \<and> policy \<in> {''prefix_only'', ''prefix_date''} \<and> (mode = ''desktop'' \<longrightarrow> ui = ''desktop'') \<and>
        0 \<le> poll \<and> (idle = VNone \<or> (\<exists>r. idle = VFloat r \<and> 0 \<le> r)) \<and> (maxrun = VNone \<or> (\<exists>r. maxrun = VFloat r \<and> 0 \<le> r)) \<and>
        (profile = VNone \<or> (\<exists>s. profile = VStr s \<and> str_lower (strip s) = s)) \<and>
        (pc = VNone \<or> (\<exists>s. pc = VStr s \<and> s \<noteq> [] \<and> str_lower (strip s) = s)) \<and> plugin_tokens plugins)"

lemma payload_set:
  "AList.update ''mode'' v (settings_payload p l q i x a u y n g h m) = settings_payload p l q i x a u y n g h v"
  "AList.update ''profile'' v (settings_payload p l q i x a u y n g h m) = settings_payload v l q i x a u y n g h m"
  "set_path (settings_payload p l q i x a u y n g h m) [''runtime'', ''loop_mode''] v = settings_payload p v q i x a u y n g h m"
  "set_path (settings_payload p l q i x a u y n g h m) [''runtime'', ''poll_interval_seconds''] v = settings_payload p l v i x a u y n g h m"
  "set_path (settings_payload p l q i x a u y n g h m) [''runtime'', ''idle_timeout_seconds''] v = settings_payload p l q v x a u y n g h m"
  "set_path (settings_payload p l q i x a u y n g h m) [''runtime'', ''max_runtime_seconds''] v = settings_payload p l q i v a u y n g h m"
  "set_path (settings_payload p l q i x a u y n g h m) [''ui'', ''backend''] v = settings_payload p l q i x a v y n g h m"
  "set_path (settings_payload p l q i x a u y n g h m) [''sync'', ''backend''] v = settings_payload p l q i x a u (v, snd y) n g h m"
  "set_path (settings_payload p l q i x a u y n g h m) [''naming'', ''policy''] v = settings_payload p l q i x a u y n (fst g, v) h m"
  "set_path (settings_payload p l q i x a u y n g h m) [''plugins'', ''pc_name''] v = settings_payload p l q i x a u y n g (v, snd h) m"
  "set_path (settings_payload p l q i x a u y n g h m) [''plugins'', ''device_plugins''] v = settings_payload p l q i x a u y n g (fst h, v) m"
  by (simp_all add: settings_payload_def)

lemma payload_get:
  "get_or_none (settings_payload p l q i x a u y n g h m) ''mode'' = m"
  "get_or_none (settings_payload p l q i x a u y n g h m) ''profile'' = p"
  "block_get (settings_payload p l q i x a u y n g h m) ''runtime'' ''loop_mode'' = l"
  "block_get (settings_payload p l q i x a u y n g h m) ''runtime'' ''poll_interval_seconds'' = q"
  "block_get (settings_payload p l q i x a u y n g h m) ''runtime'' ''idle_timeout_seconds'' = i"
  "block_get (settings_payload p l q i x a u y n g h m) ''runtime'' ''max_runtime_seconds'' = x"
  "block_get (settings_payload p l q i x a u y n g h m) ''ui'' ''backend'' = u"
  "block_get (settings_payload p l q i x a u y n g h m) ''sync'' ''backend'' = fst y"
  "block_get (settings_payload p l q i x a u y n g h m) ''naming'' ''policy'' = snd g"
  "block_get (settings_payload p l q i x a u y n g h m) ''plugins'' ''pc_name'' = fst h"
  "block_get (settings_payload p l q i x a u y n g h m) ''plugins'' ''device_plugins'' = snd h"
  by (simp_all add: settings_payload_def get_or_none_def dict_get_or_def block_get_def)

lemma normalize_payload:
  "normalize_tokens cv (settings_payload p l q i x a u y n g h m) =
     rbind (coerce_non_negative_float cv q ''runtime.poll_interval_seconds'') (\<lambda>r.
     rbind (coerce_optional_non_negative_float cv i ''runtime.idle_timeout_seconds'') (\<lambda>i'.
     rbind (coerce_optional_non_negative_float cv x ''runtime.max_runtime_seconds'') (\<lambda>x'.
     rbind (normalize_device_plugins cv (snd h)) (\<lambda>ts.
     Inr (settings_payload (if p = VNone then VNone else VStr (lower_token cv p)) (VStr (lower_token cv l)) (VFloat r) i' x' a
       (VStr (lower_token cv u)) (VStr (lower_token cv (fst y)), snd y) n (fst g, VStr (lower_token cv (snd g)))
       (if fst h = VNone \<or> lower_token cv (fst h) = [] then VNone else VStr (lower_token cv (fst h)), ts)
       (VStr (lower_token cv m)))))))"
  by (simp only: normalize_tokens_def normalize_token_at_def payload_set payload_get Let_def fst_conv snd_conv)

lemma payload_path:
  "get_path (VDict (settings_payload p l q i x a u y n g h m)) [''mode''] = Some m"
  "get_path (VDict (settings_payload p l q i x a u y n g h m)) [''runtime'', ''loop_mode''] = Some l"
  "get_path (VDict (settings_payload p l q i x a u y n g h m)) [''ui'', ''backend''] = Some u"
  "get_path (VDict (settings_payload p l q i x a u y n g h m)) [''sync'', ''backend''] = Some (fst y)"
  "get_path (VDict (settings_payload p l q i x a u y n g h m)) [''naming'', ''policy''] = Some (snd g)"
  "get_path (VDict (settings_payload p l q i x a u y n g h m)) [''paths'', ''root''] = Some (fst a)"
  "map_of (settings_payload p l q i x a u y n g h m) ''mode'' = Some m"
  by (simp_all add: settings_payload_def)

lemma enums_payload:
  "validate_enums (settings_payload p l q i x a u y n g h m) = Inr () \<longleftrightarrow>
     m \<in> VStr ` {''headless'', ''desktop''} \<and> l \<in> VStr ` {''oneshot'', ''continuous''} \<and> u \<in> VStr ` {''headless'', ''desktop''} \<and>
     fst y \<in> VStr ` {''noop'', ''kadi''} \<and> snd g \<in> VStr ` {''prefix_only'', ''prefix_date''}"
proof -
  have find: "(case List.find P ((ks, al) # xs) of None \<Rightarrow> Inr () | Some (ks, v) \<Rightarrow> Inl (E ks)) = Inr () \<longleftrightarrow>
      \<not> P (ks, al) \<and> (case List.find P xs of None \<Rightarrow> Inr () | Some (ks, v) \<Rightarrow> Inl (E ks)) = Inr ()"
    for P :: "string list \<times> string list \<Rightarrow> bool" and ks al xs and E :: "string list \<Rightarrow> settings_schema_error"
    by simp
  show ?thesis
    unfolding validate_enums_def ENUMS_def find prod.case payload_path
    by (auto simp: image_iff)
qed

lemma required_payload:
  "validate_required_fields cv (settings_payload p l q i x a u y n g h m) = Inr () \<longleftrightarrow>
     strip (if py_truthy (fst a) then py_str (cv_repr cv) (fst a) else []) \<noteq> []"
proof -
  have "validate_required_fields cv (settings_payload p l q i x a u y n g h m) =
      raise_if (strip (if py_truthy (fst a) then py_str (cv_repr cv) (fst a) else []) = [])
        (SettingsSchemaMissingFieldError ''Missing required startup field.'' (issue ''missing_field'' ''paths.root''))"
    by (simp only: validate_required_fields_def payload_path option.case option.distinct if_False simp_thms)
  then show ?thesis by (simp only: raise_if_eq_Inr)
qed

lemma aliases_payload: "normalize_aliases (settings_payload p l q i x a u y n g h m) = Inr (settings_payload p l q i x a u y n g h m)"
  by (simp add: normalize_aliases_def ALIAS_TO_CANONICAL_def resolve_alias_def settings_payload_def)

lemma template_payload: "merge_with_template (settings_payload p l q i x a u y n g h m) = Inr (settings_payload p l q i x a u y n g h m)"
  by (simp add: merge_with_template_def merge_field_def merge_nested_dict_def CANONICAL_TEMPLATE_def SETTINGS_FIELDS_def settings_payload_def)

definition lower_or_none :: "conv_env \<Rightarrow> pyval \<Rightarrow> pyval" where
  "lower_or_none cv v = (if v = VNone \<or> lower_token cv v = [] then VNone else VStr (lower_token cv v))"

lemma lower_token_fixed: "str_lower (strip (lower_token cv v)) = lower_token cv v"
  using lower_token_idem [of cv v] by (simp add: lower_token_VStr)

lemma validated_payload:
  assumes "merge_with_template c = Inr m" and "validate_required_fields cv m = Inr ()" and "normalize_tokens cv m = Inr d"
  obtains p l q i x a u y n g h w where
    "d = settings_payload (if p = VNone then VNone else VStr (lower_token cv p)) (VStr (lower_token cv l)) (VFloat q) i x a
       (VStr (lower_token cv u)) (VStr (lower_token cv (fst y)), snd y) n (fst g, VStr (lower_token cv (snd g)))
       (lower_or_none cv (fst h), snd h) (VStr (lower_token cv w))"
    and "0 \<le> q" and "i = VNone \<or> (\<exists>r. i = VFloat r \<and> 0 \<le> r)" and "x = VNone \<or> (\<exists>r. x = VFloat r \<and> 0 \<le> r)"
    and "plugin_tokens (snd h)" and "strip (if py_truthy (fst a) then py_str (cv_repr cv) (fst a) else []) \<noteq> []"
proof -
  have "map_of m ''mode'' \<noteq> None" using assms(2) unfolding validate_required_fields_def by (metis Inl_Inr_False)
  with well_shaped_payload [OF merged_shaped [OF assms(1)]] obtain p l q i x a u y n g h w where
    p: "m = settings_payload p l q i x a u y n g h w" by blast
  from assms(3) obtain r i' x' ts where t: "coerce_non_negative_float cv q ''runtime.poll_interval_seconds'' = Inr r"
      "coerce_optional_non_negative_float cv i ''runtime.idle_timeout_seconds'' = Inr i'"
      "coerce_optional_non_negative_float cv x ''runtime.max_runtime_seconds'' = Inr x'"
      "normalize_device_plugins cv (snd h) = Inr ts"
    and d: "d = settings_payload (if p = VNone then VNone else VStr (lower_token cv p)) (VStr (lower_token cv l)) (VFloat r) i' x' a
       (VStr (lower_token cv u)) (VStr (lower_token cv (fst y)), snd y) n (fst g, VStr (lower_token cv (snd g)))
       (lower_or_none cv (fst h), ts) (VStr (lower_token cv w))"
    unfolding p normalize_payload lower_or_none_def [symmetric] rbind_eq_Inr by (metis sum.inject(2))
  show ?thesis
    by (rule that [of p l r i' x' a u y n g "(fst h, ts)" w])
      (use d float_again [OF t(1)] optional_float_again [OF t(2)] optional_float_again [OF t(3)]
         normalized_plugins [OF t(4)] assms(2) in \<open>simp_all add: p required_payload\<close>)
qed

lemma validate_payload_again:
  assumes "d = settings_payload (if p = VNone then VNone else VStr (lower_token cv p)) (VStr (lower_token cv l)) (VFloat q) i x a
       (VStr (lower_token cv u)) (VStr (lower_token cv (fst y)), snd y) n (fst g, VStr (lower_token cv (snd g)))
       (lower_or_none cv (fst h), snd h) (VStr (lower_token cv w))"
    and "0 \<le> q" and "i = VNone \<or> (\<exists>r. i = VFloat r \<and> 0 \<le> r)" and "x = VNone \<or> (\<exists>r. x = VFloat r \<and> 0 \<le> r)"
    and "plugin_tokens (snd h)"
  shows "normalize_tokens cv d = Inr d"
proof -
  have q: "coerce_non_negative_float cv (VFloat q) path = Inr q" for path
    using assms(2) by (simp add: coerce_non_negative_float_def)
  have optional: "coerce_optional_non_negative_float cv v path = Inr v" if "v = VNone \<or> (\<exists>r. v = VFloat r \<and> 0 \<le> r)" for v path
    using that by (auto simp: coerce_optional_non_negative_float_def coerce_non_negative_float_def)
  have lower: "(if (if p = VNone then VNone else VStr (lower_token cv p)) = VNone then VNone
        else VStr (lower_token cv (if p = VNone then VNone else VStr (lower_token cv p)))) =
      (if p = VNone then VNone else VStr (lower_token cv p))"
    "(if lower_or_none cv v = VNone \<or> lower_token cv (lower_or_none cv v) = [] then VNone
        else VStr (lower_token cv (lower_or_none cv v))) = lower_or_none cv v" for v
    by (simp_all add: lower_or_none_def)
  show ?thesis
    by (simp only: assms(1) normalize_payload q optional [OF assms(3)] optional [OF assms(4)] plugin_tokens_again [OF assms(5)]
        rbind_simps fst_conv snd_conv lower lower_token_idem)
qed

lemma validated_sound:
  assumes "validate_raw_settings cv raw = Inr d"
  shows "canonical_settings d \<and> validate_raw_settings cv (VDict d) = Inr d"
proof -
  from assms obtain c m where m: "merge_with_template c = Inr m" "validate_required_fields cv m = Inr ()"
      "normalize_tokens cv m = Inr d" "validate_enums d = Inr ()" "validate_constraints d = Inr ()"
    by (auto simp: validate_raw_settings_def rbind_eq_Inr split: pyval.splits)
  obtain p l q i x a u y n g h w where
    d: "d = settings_payload (if p = VNone then VNone else VStr (lower_token cv p)) (VStr (lower_token cv l)) (VFloat q) i x a
       (VStr (lower_token cv u)) (VStr (lower_token cv (fst y)), snd y) n (fst g, VStr (lower_token cv (snd g)))
       (lower_or_none cv (fst h), snd h) (VStr (lower_token cv w))"
    and q: "0 \<le> q" "i = VNone \<or> (\<exists>r. i = VFloat r \<and> 0 \<le> r)" "x = VNone \<or> (\<exists>r. x = VFloat r \<and> 0 \<le> r)" "plugin_tokens (snd h)"
    and a: "strip (if py_truthy (fst a) then py_str (cv_repr cv) (fst a) else []) \<noteq> []"
    by (rule validated_payload [OF m(1-3)])
  note enums = m(4) [unfolded d enums_payload]
  have constraint: "lower_token cv w = ''desktop'' \<longrightarrow> lower_token cv u = ''desktop''"
    using m(5) unfolding d validate_constraints_def payload_get raise_if_eq_Inr by simp
  have p: "(if p = VNone then VNone else VStr (lower_token cv p)) = VNone \<or>
      (\<exists>s. (if p = VNone then VNone else VStr (lower_token cv p)) = VStr s \<and> str_lower (strip s) = s)"
    by (simp add: lower_token_fixed)
  have h: "lower_or_none cv (fst h) = VNone \<or> (\<exists>s. lower_or_none cv (fst h) = VStr s \<and> s \<noteq> [] \<and> str_lower (strip s) = s)"
    by (simp add: lower_or_none_def lower_token_fixed)
  have tokens: "lower_token cv w \<in> {''headless'', ''desktop''}" "lower_token cv l \<in> {''oneshot'', ''continuous''}"
    "lower_token cv u \<in> {''headless'', ''desktop''}" "lower_token cv (fst y) \<in> {''noop'', ''kadi''}"
    "lower_token cv (snd g) \<in> {''prefix_only'', ''prefix_date''}"
    using enums by (simp_all add: image_iff)
  have "canonical_settings d"
    unfolding canonical_settings_def
    by (rule exI)+ (rule conjI [OF d], intro conjI tokens constraint q p h)
  moreover have "validate_raw_settings cv (VDict d) = Inr d"
  proof -
    have "normalize_tokens cv d = Inr d" by (rule validate_payload_again [OF d q])
    moreover have "validate_required_fields cv d = Inr ()" using a by (simp add: d required_payload)
    moreover have "normalize_aliases d = Inr d" "merge_with_template d = Inr d"
      by (simp_all only: d aliases_payload template_payload)
    ultimately show ?thesis using m(4, 5)
      by (simp add: validate_raw_settings_def)
  qed
  ultimately show ?thesis ..
qed

section \<open>The claim\<close>


definition sample_conv :: conv_env where
  "sample_conv = \<lparr>cv_repr = \<lambda>_. ''?'', cv_float_of_str = \<lambda>_. None, cv_int_of_str = \<lambda>_. None\<rparr>"

definition sample_raw :: pyval where
  "sample_raw = VDict [(''runtime_mode'', VStr '' Headless ''), (''paths'', VDict [(''root'', VStr ''.'')]),
     (''plugins'', VDict [(''pc_name'', VStr ''PC-1''), (''device_plugins'', VList [VStr ''Psa_Horiba'', VStr '' sem ''])])]"

definition sample_validated :: mapping where
  "sample_validated = settings_payload VNone (VStr ''oneshot'') (VFloat 1) VNone VNone
     (VStr ''.'', VStr ''incoming'', VStr ''processed'', VStr ''tmp'') (VStr ''headless'') (VStr ''noop'', VNone)
     (VInt 3, VFloat 1) (VStr ''DPOST'', VStr ''prefix_only'')
     (VStr ''pc-1'', VList [VStr ''psa_horiba'', VStr ''sem'']) (VStr ''headless'')"

lemma sample_merged:
  "merge_with_template [(''paths'', VDict [(''root'', VStr ''.'')]),
     (''plugins'', VDict [(''pc_name'', VStr ''PC-1''), (''device_plugins'', VList [VStr ''Psa_Horiba'', VStr '' sem ''])]),
     (''mode'', VStr '' Headless '')] =
   Inr (settings_payload VNone (VStr ''oneshot'') (VFloat 1) VNone VNone
     (VStr ''.'', VStr ''incoming'', VStr ''processed'', VStr ''tmp'') (VStr ''headless'') (VStr ''noop'', VNone)
     (VInt 3, VFloat 1) (VStr ''DPOST'', VStr ''prefix_only'')
     (VStr ''PC-1'', VList [VStr ''Psa_Horiba'', VStr '' sem '']) (VStr '' Headless ''))"
  by (simp add: merge_with_template_def merge_field_def merge_nested_dict_def CANONICAL_TEMPLATE_def SETTINGS_FIELDS_def settings_payload_def)

lemma sample_tokens:
  "lower_token sample_conv (VStr ''PC-1'') = ''pc-1''" "lower_token sample_conv (VStr ''Psa_Horiba'') = ''psa_horiba''"
  "lower_token sample_conv (VStr '' sem '') = ''sem''" "lower_token sample_conv (VStr '' Headless '') = ''headless''"
  by code_simp+

lemma sample_aliases:
  "normalize_aliases [(''runtime_mode'', VStr '' Headless ''), (''paths'', VDict [(''root'', VStr ''.'')]),
       (''plugins'', VDict [(''pc_name'', VStr ''PC-1''), (''device_plugins'', VList [VStr ''Psa_Horiba'', VStr '' sem ''])])] =
   Inr [(''paths'', VDict [(''root'', VStr ''.'')]),
     (''plugins'', VDict [(''pc_name'', VStr ''PC-1''), (''device_plugins'', VList [VStr ''Psa_Horiba'', VStr '' sem ''])]),
     (''mode'', VStr '' Headless '')]"
  by (simp add: normalize_aliases_def ALIAS_TO_CANONICAL_def resolve_alias_def dict_pop_def)

lemma sample_default_tokens:
  "lower_token sample_conv (VStr ''oneshot'') = ''oneshot''" "lower_token sample_conv (VStr ''headless'') = ''headless''"
  "lower_token sample_conv (VStr ''noop'') = ''noop''" "lower_token sample_conv (VStr ''prefix_only'') = ''prefix_only''"
  by code_simp+

lemma sample_raw_validated: "validate_raw_settings sample_conv sample_raw = Inr sample_validated"
proof -
  have plugins: "normalize_device_plugins sample_conv (VList [VStr ''Psa_Horiba'', VStr '' sem '']) =
      Inr (VList [VStr ''psa_horiba'', VStr ''sem''])"
    by (simp add: normalize_device_plugins_def normalize_plugin_id_def sample_tokens)
  have poll: "coerce_non_negative_float sample_conv (VFloat 1) path = Inr 1" for path
    by (simp add: coerce_non_negative_float_def)
  have root: "strip ''.'' \<noteq> []" by code_simp
  show ?thesis
    by (simp add: validate_raw_settings_def sample_raw_def sample_aliases sample_merged required_payload [THEN iffD2] normalize_payload
        poll coerce_optional_non_negative_float_def plugins sample_tokens sample_default_tokens enums_payload [THEN iffD2]
        validate_constraints_def payload_get root sample_validated_def)
qed


end
