(* ===== verification/Settings_Load.thy ===== *)
theory Settings_Load
  imports Settings_Correct
begin

text \<open>
  The load of the startup settings: at every leaf the last layer that has one wins, the settings a load
  returns are well formed, the cache returns what it was given, and the secret is never shown.
\<close>

section \<open>Leaves of nested dictionaries\<close>

text \<open>A leaf is a value that is not a dictionary, at the end of a path of keys.\<close>

definition leaf :: "mapping \<Rightarrow> string list \<Rightarrow> pyval option" where
  "leaf d ks = (case get_path (VDict d) ks of Some (VDict _) \<Rightarrow> None | v \<Rightarrow> v)"

text \<open>The keys of a dictionary are distinct, at every level.\<close>

fun wf_value :: "pyval \<Rightarrow> bool"
and wf_items :: "(string \<times> pyval) list \<Rightarrow> bool" where
  "wf_value (VDict d) = wf_items d"
| "wf_value _ = True"
| "wf_items [] = True"
| "wf_items ((k, v) # d) \<longleftrightarrow> k \<notin> fst ` set d \<and> wf_value v \<and> wf_items d"

definition over :: "'a option \<Rightarrow> 'a option \<Rightarrow> 'a option" where
  "over new old = (case new of Some v \<Rightarrow> Some v | None \<Rightarrow> old)"

lemma over_simps [simp]: "over None old = old" "over (Some v) old = Some v" "over new None = new"
  by (simp_all add: over_def split: option.split)

lemma over_assoc: "over a (over b c) = over (over a b) c"
  by (simp add: over_def split: option.split)

lemma leaf_Nil [simp]: "leaf d [] = None"
  by (simp add: leaf_def)

lemma leaf_Cons:
  "leaf d (k # ks) = (case map_of d k of
     None \<Rightarrow> None
   | Some (VDict e) \<Rightarrow> leaf e ks
   | Some v \<Rightarrow> if ks = [] then Some v else None)"
  by (cases ks) (auto simp: leaf_def split: option.split pyval.split)

lemma leaf_empty [simp]: "leaf [] ks = None"
  by (cases ks) (simp_all add: leaf_Cons)

lemma leaf_update: "leaf (AList.update k v d) (k' # ks) = (if k' = k then leaf [(k, v)] (k # ks) else leaf d (k' # ks))"
  by (auto simp: leaf_Cons update_conv')

lemma leaf_items: "leaf ((k, v) # d) (k' # ks) = (if k' = k then leaf [(k, v)] (k # ks) else leaf d (k' # ks))"
  by (auto simp: leaf_Cons)

lemma leaf_atom:
  assumes "map_of d k = Some v" and "\<nexists>e. v = VDict e"
  shows "leaf d (k # ks) = (if ks = [] then Some v else None)"
  using assms by (cases v) (simp_all add: leaf_Cons)

lemma leaf_absent: "k \<notin> fst ` set d \<Longrightarrow> leaf d (k # ks) = None"
  by (simp add: leaf_Cons map_of_eq_None_iff [THEN iffD2])

section \<open>The merge\<close>

lemma deep_merge_Cons:
  assumes "deep_merge src pre t prov ((k, v) # rest) = Inr (m, prov')"
  obtains w q where "deep_merge src pre (AList.update k w t) q rest = Inr (m, prov')"
    and "w = v" "map_of t k = None"
  | w q u where "deep_merge src pre (AList.update k w t) q rest = Inr (m, prov')"
    and "w = v" "map_of t k = Some u" "\<nexists>e. u = VDict e" "\<nexists>d. v = VDict d"
  | w q e d e' pre' where "deep_merge src pre (AList.update k w t) q rest = Inr (m, prov')"
    and "map_of t k = Some (VDict e)" "v = VDict d" "w = VDict e'" "deep_merge src pre' e prov d = Inr (e', q)"
proof (cases "map_of t k")
  case None
  with assms that(1) show ?thesis by (simp add: Let_def)
next
  case (Some u)
  show ?thesis
  proof (cases "\<exists>e. u = VDict e")
    case True
    then obtain e where e: "u = VDict e" ..
    with assms Some obtain d where d: "v = VDict d" by (cases v) (simp_all add: Let_def)
    from assms Some e d that(3) show ?thesis by (auto simp: Let_def rbind_eq_Inr)
  next
    case False
    with assms Some have "\<nexists>d. v = VDict d" by (cases u; cases v) (simp_all add: Let_def)
    moreover with assms Some False
    have "\<exists>q. deep_merge src pre (AList.update k v t) q rest = Inr (m, prov')"
      by (cases u; cases v) (auto simp: Let_def)
    ultimately show ?thesis using that(2) Some False by blast
  qed
qed

lemma deep_merge_leaf:
  "deep_merge src pre t prov s = Inr (m, prov') \<Longrightarrow> wf_items s \<Longrightarrow> leaf m ks = over (leaf s ks) (leaf t ks)"
proof (induction "size (VDict s)" arbitrary: s pre t prov m prov' ks rule: less_induct)
  case less
  show ?case
  proof (cases "s = [] \<or> ks = []")
    case True
    with less.prems(1) show ?thesis by auto
  next
    case False
    then obtain k v rest k' ks' where s: "s = (k, v) # rest" and ks: "ks = k' # ks'"
      by (metis neq_Nil_conv surj_pair)
    with less.prems(2) have wf: "k \<notin> fst ` set rest" "wf_value v" "wf_items rest" by auto
    have rest: "leaf m' ks = over (leaf rest ks) (leaf t' ks)" if "deep_merge src pre t' q rest = Inr (m', p')" for t' q m' p'
      using less.hyps [OF _ that wf(3)] by (simp add: s)
    have step: ?thesis if "deep_merge src pre (AList.update k w t) q rest = Inr (m, prov')"
        and "leaf [(k, w)] (k # ks') = over (leaf [(k, v)] (k # ks')) (leaf t (k # ks'))" for w q
      using rest [OF that(1)] that(2) wf(1)
      unfolding s ks leaf_update leaf_items [of k v rest] by (cases "k' = k") (simp_all add: leaf_absent)
    from less.prems(1) [unfolded s] show ?thesis
    proof (cases rule: deep_merge_Cons)
      case (1 w q)
      then show ?thesis by (intro step [OF 1(1)]) (simp add: leaf_Cons)
    next
      case (2 w q u)
      then show ?thesis using leaf_atom [OF 2(3, 4)] leaf_atom [of "[(k, v)]" k v ks'] by (intro step [OF 2(1)]) simp
    next
      case (3 w q e d e' pre')
      with less.hyps [OF _ 3(5), of ks'] wf(2) show ?thesis
        by (intro step [OF 3(1)]) (simp add: s leaf_Cons)
    qed
  qed
qed

text \<open>The leaf of the last layer that has one.\<close>

fun layered_leaf :: "(string \<times> mapping) list \<Rightarrow> string list \<Rightarrow> pyval option" where
  "layered_leaf [] ks = None"
| "layered_leaf ((name, d) # layers) ks = over (layered_leaf layers ks) (leaf d ks)"

lemma merge_layers_leaf:
  "merge_layers d prov layers = Inr (m, prov') \<Longrightarrow> \<forall>(_, s) \<in> set layers. wf_items s \<Longrightarrow>
     leaf m ks = over (layered_leaf layers ks) (leaf d ks)"
  by (induction d prov layers rule: merge_layers.induct)
    (auto simp: rbind_eq_Inr over_assoc deep_merge_leaf)

section \<open>What a load returns\<close>

definition fields_ok :: "startup_settings \<Rightarrow> bool" where
  "fields_ok s \<longleftrightarrow>
     rs_mode (st_runtime s) \<in> {''headless'', ''desktop''} \<and> rs_loop_mode (st_runtime s) \<in> {''oneshot'', ''continuous''} \<and>
     0 \<le> rs_poll_interval_seconds (st_runtime s) \<and> (\<forall>r \<in> set_option (rs_idle_timeout_seconds (st_runtime s)). 0 \<le> r) \<and>
     (\<forall>r \<in> set_option (rs_max_runtime_seconds (st_runtime s)). 0 \<le> r) \<and>
     ns_prefix (st_naming s) \<noteq> [] \<and> ns_policy (st_naming s) \<in> {''prefix_only'', ''prefix_date''} \<and>
     0 \<le> is_retry_limit (st_ingestion s) \<and> 0 \<le> is_retry_delay_seconds (st_ingestion s) \<and>
     ys_backend (st_sync s) \<in> {''noop'', ''kadi''} \<and> st_ui_backend s \<in> {''headless'', ''desktop''} \<and>
     (\<forall>t \<in> set (pp_device_plugins (st_plugins s)). t \<noteq> [] \<and> str_lower (strip t) = t)"

definition settings_ok :: "startup_settings \<Rightarrow> bool" where
  "settings_ok s \<longleftrightarrow> fields_ok s \<and> (rs_mode (st_runtime s) = ''desktop'' \<longrightarrow> st_ui_backend s = ''desktop'')"

lemma normalize_mode_token: "normalize_mode cv v = Inr m \<Longrightarrow> m \<in> {''headless'', ''desktop''}"
  by (auto simp: normalize_mode_def Let_def split: if_splits)

lemma optional_float_ok: "normalize_optional_float cv v field = Inr x \<Longrightarrow> \<forall>r \<in> set_option x. 0 \<le> r"
  by (auto simp: normalize_optional_float_def result_simps split: if_splits)

lemma retry_policy_ok: "normalize_retry_policy cv d = Inr p \<Longrightarrow> 0 \<le> fst p \<and> 0 \<le> snd p"
  by (auto simp: normalize_retry_policy_def result_simps)

lemma runtime_settings_ok:
  "make_runtime_settings cv mode profile lm poll idle maxrun = Inr s \<Longrightarrow>
     rs_mode s \<in> {''headless'', ''desktop''} \<and> rs_loop_mode s \<in> {''oneshot'', ''continuous''} \<and>
     0 \<le> rs_poll_interval_seconds s \<and> (\<forall>r \<in> set_option (rs_idle_timeout_seconds s). 0 \<le> r) \<and>
     (\<forall>r \<in> set_option (rs_max_runtime_seconds s). 0 \<le> r)"
  unfolding make_runtime_settings_def Let_def rbind_eq_Inr raise_if_eq_Inr
  by (auto dest!: normalize_mode_token optional_float_ok)

lemma plugin_policy_ok:
  assumes "make_plugin_policy cv pc ids = Inr s"
  shows "\<forall>t \<in> set (pp_device_plugins s). t \<noteq> [] \<and> str_lower (strip t) = t"
proof -
  have one: "u \<noteq> [] \<and> str_lower (strip u) = u"
    if "(case normalize_optional_string cv v of None \<Rightarrow> Inl e | Some t \<Rightarrow> Inr (str_lower t)) = Inr u" for e :: settings_error and v u
    using that by (auto simp: normalize_optional_string_def Let_def str_lower_strip split: if_splits)
      (simp_all add: str_lower_strip [symmetric])
  have tokens: "\<forall>t \<in> set ts. t \<noteq> [] \<and> str_lower (strip t) = t" if "normalize_plugin_ids cv vs = Inr ts" for vs ts
    using that one unfolding normalize_plugin_ids_def rmap_eq_Inr list_all2_conv_all_nth
    by (metis in_set_conv_nth)
  from assms obtain ts where "normalize_plugin_ids cv (map VStr ids) = Inr ts" "pp_device_plugins s = ts"
    unfolding make_plugin_policy_def rbind_eq_Inr by auto
  with tokens show ?thesis by simp
qed

lemma from_raw_ok: "from_raw cv pe d root_hint fp = Inr s \<Longrightarrow> fields_ok s \<and> st_source_fingerprint s = fp"
  unfolding from_raw_def Let_def case_prod_unfold rbind_eq_Inr raise_if_eq_Inr
  apply (elim exE conjE)
  apply (drule runtime_settings_ok)
  apply (drule retry_policy_ok)
  apply (drule plugin_policy_ok)
  apply (drule sum.inject(2) [THEN iffD1])
  apply hypsubst
  apply (simp add: fields_ok_def)
  done

lemma runtime_settings_mode: "make_runtime_settings cv mode profile lm poll idle maxrun = Inr s \<Longrightarrow>
    normalize_mode cv (VStr mode) = Inr (rs_mode s)"
  unfolding make_runtime_settings_def Let_def rbind_eq_Inr by auto

lemma from_raw_tokens:
  "from_raw cv pe d root_hint fp = Inr s \<Longrightarrow>
     \<exists>m b. normalize_mode cv (get_or_none d ''mode'') = Inr m \<and> normalize_mode cv (VStr m) = Inr (rs_mode (st_runtime s)) \<and>
       required_block d ''ui'' = Inr b \<and> st_ui_backend s = str_lower (token_of cv b ''backend'')"
  unfolding from_raw_def Let_def case_prod_unfold rbind_eq_Inr raise_if_eq_Inr
  apply (elim exE conjE)
  apply (drule runtime_settings_mode)
  apply (drule sum.inject(2) [THEN iffD1])
  apply hypsubst
  apply (intro exI conjI)
     apply assumption
    apply (simp only: startup_settings.select_convs)
   apply assumption
  apply (simp only: startup_settings.select_convs)
  done

lemma literal_modes:
  "str_lower (strip ''headless'') = ''headless''" "str_lower (strip ''desktop'') = ''desktop''"
  "''headless'' \<noteq> ''desktop''"
  by code_simp+

lemma normalize_mode_literal: "m \<in> {''headless'', ''desktop''} \<Longrightarrow> normalize_mode cv (VStr m) = Inr m"
  by (auto simp: normalize_mode_def literal_modes)

lemma from_raw_canonical:
  assumes "canonical_settings d" and "from_raw cv pe d root_hint fp = Inr s"
  shows "get_or_none d ''mode'' = VStr (rs_mode (st_runtime s))"
    and "rs_mode (st_runtime s) = ''desktop'' \<Longrightarrow> st_ui_backend s = ''desktop''"
proof -
  from assms(1) obtain p l q i x a u y n g h w where d: "d = settings_payload p l q i x a (VStr u) y n g h (VStr w)"
    and w: "w \<in> {''headless'', ''desktop''}" "u \<in> {''headless'', ''desktop''}" "w = ''desktop'' \<longrightarrow> u = ''desktop''"
    unfolding canonical_settings_def by (elim exE conjE) (rule that; assumption)
  from from_raw_tokens [OF assms(2)] obtain m b where m: "normalize_mode cv (VStr w) = Inr m"
      "normalize_mode cv (VStr m) = Inr (rs_mode (st_runtime s))" "required_block d ''ui'' = Inr b"
      "st_ui_backend s = str_lower (token_of cv b ''backend'')"
    unfolding d payload_get by blast
  from m(1) normalize_mode_literal [OF w(1)] have "m = w" by simp
  with m(2) normalize_mode_literal [OF w(1)] have r: "rs_mode (st_runtime s) = w" by simp
  then show "get_or_none d ''mode'' = VStr (rs_mode (st_runtime s))" by (simp add: d payload_get)
  have "required_block d ''ui'' = Inr [(''backend'', VStr u)]"
    by (simp add: required_block_def d settings_payload_def get_or_none_def dict_get_or_def)
  with m(3) have "b = [(''backend'', VStr u)]" by simp
  moreover have "str_lower (strip u) = u" using w(2) literal_modes by auto
  ultimately have "st_ui_backend s = u" using m(4) by (simp add: token_of_def dict_get_or_def)
  then show "rs_mode (st_runtime s) = ''desktop'' \<Longrightarrow> st_ui_backend s = ''desktop''" using r w(3) by simp
qed

lemma fresh_settings_ok:
  assumes "fresh_settings se req h fp layers = Inr (s, prov)"
  shows "settings_ok s \<and> st_source_fingerprint s = Some fp"
proof -
  from assms obtain merged d where d: "validate_raw_settings (se_conv se) (VDict merged) = Inr d"
      "from_raw (se_conv se) (se_paths se) d (resolve_settings_root_hint se req h) (Some fp) = Inr s"
    unfolding fresh_settings_def by (auto simp: result_simps)
  from validated_sound [OF d(1)] have "canonical_settings d" ..
  from from_raw_canonical(2) [OF this d(2)] from_raw_ok [OF d(2)] show ?thesis by (simp add: settings_ok_def)
qed

text \<open>The hit the service returns for a cached value.\<close>

definition cache_hit :: "startup_settings \<Rightarrow> string \<Rightarrow> settings_load_result" where
  "cache_hit s fp = \<lparr>lr_settings = s, lr_provenance = [], lr_cache_hit = True, lr_redacted_settings = to_redacted_dict s,
     lr_cache_integrity_error = False, lr_fingerprint = fp\<rparr>"

lemma load_startup_settings_eq:
  assumes "resolve_sources se req explicit h = Inr layers" and "compute_fingerprint se layers = Inr fp"
    and "cache1 = (case cache of Some (Some e) \<Rightarrow> if detect_cache_desync e then Some None else cache | _ \<Rightarrow> cache)"
  shows "load_startup_settings se req h explicit cache =
     (case (case cache1 of Some (Some e) \<Rightarrow> if ce_fingerprint e = fp then ce_settings e else None | _ \<Rightarrow> None) of
        Some s \<Rightarrow> (Inr (cache_hit s fp), cache1)
      | None \<Rightarrow>
          (case fresh_settings se req h fp layers of
             Inl e \<Rightarrow> (Inl e, cache1)
           | Inr (s, prov) \<Rightarrow>
               (Inr \<lparr>lr_settings = s, lr_provenance = prov, lr_cache_hit = False, lr_redacted_settings = to_redacted_dict s,
                  lr_cache_integrity_error = (cache \<noteq> cache1), lr_fingerprint = fp\<rparr>,
                map_option (\<lambda>_. Some \<lparr>ce_fingerprint = fp, ce_settings = Some s,
                  ce_settings_fingerprint = st_source_fingerprint s\<rparr>) cache1)))"
proof -
  have desync: "(case cache of Some (Some e) \<Rightarrow> detect_cache_desync e | _ \<Rightarrow> False) = (cache \<noteq> cache1)"
    and cache1: "(if cache \<noteq> cache1 then Some None else cache) = cache1"
    unfolding assms(3) by (simp_all split: option.split)
  show ?thesis
    unfolding load_startup_settings_def assms(1, 2) map_error_def sum.case Let_def desync cache1 cache_hit_def ..
qed

lemma load_cases:
  assumes "load_startup_settings se req h explicit cache = (Inr r, cache')"
  obtains layers fp where "resolve_sources se req explicit h = Inr layers" "compute_fingerprint se layers = Inr fp"
proof (cases "resolve_sources se req explicit h")
  case (Inr layers)
  with assms that show ?thesis
    by (cases "compute_fingerprint se layers") (simp_all add: load_startup_settings_def map_error_def)
qed (use assms in \<open>simp add: load_startup_settings_def map_error_def\<close>)

lemma load_fresh_or_hit:
  assumes load: "load_startup_settings se req h explicit cache = (Inr r, cache')"
  obtains layers fp where "resolve_sources se req explicit h = Inr layers" "compute_fingerprint se layers = Inr fp"
      and "cache' = cache" "lr_fingerprint r = fp"
      and "\<exists>e. cache = Some (Some e) \<and> ce_settings e = Some (lr_settings r) \<and> \<not> detect_cache_desync e \<and> ce_fingerprint e = fp"
      and "r = cache_hit (lr_settings r) fp"
  | layers fp where "resolve_sources se req explicit h = Inr layers" "compute_fingerprint se layers = Inr fp"
      and "fresh_settings se req h fp layers = Inr (lr_settings r, lr_provenance r)" "lr_fingerprint r = fp"
      and "lr_redacted_settings r = to_redacted_dict (lr_settings r)" "\<not> lr_cache_hit r"
      and "lr_cache_integrity_error r \<longleftrightarrow> (\<exists>e. cache = Some (Some e) \<and> detect_cache_desync e)"
      and "cache' = map_option (\<lambda>_. Some \<lparr>ce_fingerprint = fp, ce_settings = Some (lr_settings r),
        ce_settings_fingerprint = Some fp\<rparr>) cache"
proof -
  from load obtain layers fp where l: "resolve_sources se req explicit h = Inr layers" "compute_fingerprint se layers = Inr fp"
    by (rule load_cases)
  define cache1 where c: "cache1 = (case cache of Some (Some e) \<Rightarrow> if detect_cache_desync e then Some None else cache | _ \<Rightarrow> cache)"
  note eq = load [unfolded load_startup_settings_eq [OF l c]]
  show ?thesis
  proof (cases "case cache1 of Some (Some e) \<Rightarrow> if ce_fingerprint e = fp then ce_settings e else None | _ \<Rightarrow> None")
    case (Some s)
    then obtain e where e: "cache1 = Some (Some e)" "ce_fingerprint e = fp" "ce_settings e = Some s"
      by (auto split: option.splits if_splits)
    from e(1) have c': "cache = Some (Some e)" "\<not> detect_cache_desync e"
      by (auto simp: c split: option.splits if_splits)
    from eq Some e(1) have "r = cache_hit s fp" "cache' = cache" by (auto simp: c')
    with that(1) [OF l] e c' show ?thesis by (simp add: cache_hit_def)
  next
    case None
    with eq obtain s prov where f: "fresh_settings se req h fp layers = Inr (s, prov)"
      by (cases "fresh_settings se req h fp layers") auto
    have same: "map_option (\<lambda>_. a) cache1 = map_option (\<lambda>_. a) cache" for a :: "settings_cache_entry option"
      by (auto simp: c split: option.split)
    from eq None f have r: "lr_settings r = s" "lr_provenance r = prov" "lr_fingerprint r = fp" "lr_redacted_settings r = to_redacted_dict s"
      "\<not> lr_cache_hit r" "lr_cache_integrity_error r = (cache \<noteq> cache1)"
      and c': "cache' = map_option (\<lambda>_. Some \<lparr>ce_fingerprint = fp, ce_settings = Some s,
        ce_settings_fingerprint = st_source_fingerprint s\<rparr>) cache1"
      by auto
    have "(cache \<noteq> cache1) = (\<exists>e. cache = Some (Some e) \<and> detect_cache_desync e)"
      by (auto simp: c split: option.splits)
    with r(6) have i: "lr_cache_integrity_error r \<longleftrightarrow> (\<exists>e. cache = Some (Some e) \<and> detect_cache_desync e)" by simp
    show ?thesis
      by (rule that(2) [OF l]) (use r c' same f i fresh_settings_ok [OF f] in simp_all)
  qed
qed

lemma read_source_name: "read_source req raw n = Inr p \<Longrightarrow> fst p = n"
  unfolding read_source_def rbind_eq_Inr by (elim exE conjE) (case_tac x; auto)

lemma read_source_names: "rmap (read_source req raw) ns = Inr layers \<Longrightarrow> map fst layers = ns"
  by (auto simp: rmap_eq_Inr list_all2_conv_all_nth read_source_name intro!: nth_equalityI)

section \<open>The mode of the request\<close>

lemma resolve_alias_keeps:
  assumes "resolve_alias d a = Inr e" and "a \<in> set ALIAS_TO_CANONICAL" and "map_of d ''mode'' = Some v"
  shows "map_of e ''mode'' = Some v"
  using assms
  by (auto simp: resolve_alias_def ALIAS_TO_CANONICAL_def Let_def update_conv' split: option.splits if_splits)

lemma set_path_distinct: "distinct (map fst d) \<Longrightarrow> distinct (map fst (set_path d ks v))"
  by (induction d ks v rule: set_path.induct) (simp_all add: distinct_update)

lemma resolve_alias_distinct: "resolve_alias d a = Inr e \<Longrightarrow> distinct (map fst d) \<Longrightarrow> distinct (map fst e)"
  by (auto simp: resolve_alias_def Let_def dict_pop_def distinct_map_filter intro!: set_path_distinct
      split: option.splits if_splits)

lemma normalize_aliases_keeps:
  assumes "normalize_aliases d = Inr e" and "map_of d ''mode'' = Some v" and "distinct (map fst d)"
  shows "map_of e ''mode'' = Some v \<and> distinct (map fst e)"
proof -
  have "rfold resolve_alias d as = Inr e \<Longrightarrow> set as \<subseteq> set ALIAS_TO_CANONICAL \<Longrightarrow> map_of d ''mode'' = Some v \<Longrightarrow>
      distinct (map fst d) \<Longrightarrow> map_of e ''mode'' = Some v \<and> distinct (map fst e)" for as
  proof (induction as arbitrary: d)
    case (Cons a as)
    then obtain x where x: "resolve_alias d a = Inr x" "rfold resolve_alias x as = Inr e" by (auto simp only: rfold.simps rbind_eq_Inr)
    show ?case
      by (rule Cons.IH [OF x(2)])
        (use Cons.prems resolve_alias_keeps [OF x(1)] resolve_alias_distinct [OF x(1)] in \<open>simp_all only: list.set insert_subset\<close>)
  qed simp
  with assms show ?thesis by (simp add: normalize_aliases_def)
qed

lemma merge_field_mode:
  assumes "merge_field d (k, v) = Inr e"
  shows "k \<noteq> ''mode'' \<Longrightarrow> map_of e ''mode'' = map_of d ''mode''"
    and "k = ''mode'' \<Longrightarrow> map_of d ''mode'' = None \<Longrightarrow> map_of e ''mode'' = Some v"
  using assms
  by (auto simp: merge_field_def rbind_eq_Inr update_conv' split: if_splits option.splits pyval.splits)

lemma merge_template_mode:
  "rfold merge_field d raw = Inr m \<Longrightarrow> distinct (map fst raw) \<Longrightarrow> map_of raw ''mode'' = Some v \<Longrightarrow> map_of d ''mode'' = None \<Longrightarrow>
     map_of m ''mode'' = Some v"
proof (induction raw arbitrary: d)
  case (Cons kv raw)
  obtain k u where kv: "kv = (k, u)" by fastforce
  with Cons.prems(1) obtain e where e: "merge_field d (k, u) = Inr e" "rfold merge_field e raw = Inr m" by (auto simp: rbind_eq_Inr)
  show ?case
  proof (cases "k = ''mode''")
    case True
    have keep: "rfold merge_field e raw = Inr m \<Longrightarrow> ''mode'' \<notin> fst ` set raw \<Longrightarrow> map_of m ''mode'' = map_of e ''mode''" for e
    proof (induction raw arbitrary: e)
      case (Cons kw raw)
      obtain k' w where "kw = (k', w)" by fastforce
      with Cons show ?case by (auto simp: rbind_eq_Inr merge_field_mode(1))
    qed simp
    from True Cons.prems(2, 3) kv have "''mode'' \<notin> fst ` set raw" "u = v" by auto
    with keep [OF e(2)] merge_field_mode(2) [OF e(1) True Cons.prems(4)] show ?thesis by simp
  next
    case False
    with Cons.IH [OF e(2)] Cons.prems kv merge_field_mode(1) [OF e(1)] show ?thesis by auto
  qed
qed simp

lemma normalized_mode:
  assumes "merge_with_template c = Inr m" and "map_of m ''mode'' = Some v" and "normalize_tokens cv m = Inr d"
  shows "get_or_none d ''mode'' = VStr (lower_token cv v)"
proof -
  from well_shaped_payload [OF merged_shaped [OF assms(1)]] assms(2) obtain p l q i x a u y n g h w where
    m: "m = settings_payload p l q i x a u y n g h w" by (metis option.distinct(1))
  with assms(2) have "w = v" by (simp add: payload_path)
  with assms(3) show ?thesis unfolding m normalize_payload rbind_eq_Inr by (auto simp: payload_get)
qed

lemma deep_merge_distinct:
  "deep_merge src pre t prov s = Inr (m, prov') \<Longrightarrow> distinct (map fst t) \<Longrightarrow> distinct (map fst m)"
proof (induction s arbitrary: t prov)
  case (Cons kv s)
  obtain k v where kv: "kv = (k, v)" by fastforce
  from Cons.prems(1) [unfolded kv] obtain w q where "deep_merge src pre (AList.update k w t) q s = Inr (m, prov')"
    by (rule deep_merge_Cons) auto
  from Cons.IH [OF this] Cons.prems(2) show ?case by (simp add: distinct_update)
qed simp

lemma merge_layers_distinct:
  "merge_layers d prov layers = Inr (m, prov') \<Longrightarrow> distinct (map fst d) \<Longrightarrow> distinct (map fst m)"
  by (induction d prov layers rule: merge_layers.induct) (auto simp: rbind_eq_Inr deep_merge_distinct)

lemma fresh_mode:
  assumes fresh: "fresh_settings se req h fp layers = Inr (s, prov)" and wf: "\<forall>(_, d) \<in> set layers. wf_items d"
    and mode: "layered_leaf layers [''mode''] = Some (VStr mode)"
  shows "rs_mode (st_runtime s) = str_lower (strip mode)"
proof -
  from fresh obtain merged d where m: "merge_layers [] [] layers = Inr (merged, prov)"
    and d: "validate_raw_settings (se_conv se) (VDict merged) = Inr d"
    and s: "from_raw (se_conv se) (se_paths se) d (resolve_settings_root_hint se req h) (Some fp) = Inr s"
    unfolding fresh_settings_def merge_sources_def by (auto simp: result_simps)
  from merge_layers_leaf [OF m wf, of "[''mode'']"] mode have "leaf merged [''mode''] = Some (VStr mode)" by simp
  then have merged: "map_of merged ''mode'' = Some (VStr mode)"
    by (auto simp: leaf_def split: option.splits pyval.splits)
  from d obtain e t where e: "normalize_aliases merged = Inr e" "merge_with_template e = Inr t" "normalize_tokens (se_conv se) t = Inr d"
    unfolding validate_raw_settings_def by (auto simp: rbind_eq_Inr)
  from normalize_aliases_keeps [OF e(1) merged] merge_layers_distinct [OF m]
  have "map_of e ''mode'' = Some (VStr mode)" "distinct (map fst e)" by auto
  from merge_template_mode [OF e(2) [unfolded merge_with_template_def] this(2, 1)]
  have "map_of t ''mode'' = Some (VStr mode)" by (simp add: CANONICAL_TEMPLATE_def)
  from normalized_mode [OF e(2) this e(3)] from_raw_canonical(1) [OF validated_sound [OF d, THEN conjunct1] s]
  show ?thesis by (simp add: lower_token_VStr)
qed

definition cli_settings :: "settings_request \<Rightarrow> mapping" where
  "cli_settings req = (''mode'', VStr (normalized_settings_mode req)) #
     (case sr_profile req of None \<Rightarrow> [] | Some p \<Rightarrow> [(''profile'', VStr p)])"

lemma default_layers:
  assumes "resolve_sources se req [] h = Inr layers" and "\<nexists>d. get_or_none (sr_metadata req) ''settings_sources'' = VDict d"
  shows "\<exists>config. load_file_config se (get_or_none (sr_metadata req) ''config_path'') h = Inr config \<and>
    layers = [(''defaults'', default_settings (normalized_settings_mode req)), (''file'', config),
      (''environment'', load_environment_settings (se_environ se)), (''cli'', cli_settings req)]"
proof -
  from assms obtain config where c: "load_file_config se (get_or_none (sr_metadata req) ''config_path'') h = Inr config"
    and l: "rmap (read_source req [(''defaults'', SourceValue (VDict (default_settings (normalized_settings_mode req)))),
        (''file'', SourceValue (VDict config)), (''environment'', SourceValue (VDict (load_environment_settings (se_environ se)))),
        (''cli'', SourceValue (VDict (cli_settings req)))]) SOURCE_ORDER = Inr layers"
    by (cases "get_or_none (sr_metadata req) ''settings_sources''")
      (auto simp: resolve_sources_def default_sources_from_request_def rbind_eq_Inr cli_settings_def)
  from l have "layers = [(''defaults'', default_settings (normalized_settings_mode req)), (''file'', config),
      (''environment'', load_environment_settings (se_environ se)), (''cli'', cli_settings req)]"
    by (simp add: SOURCE_ORDER_def read_source_def)
  with c show ?thesis by blast
qed

lemma file_config_wf:
  "load_file_config se v h = Inr config \<Longrightarrow> \<forall>p d. se_config se p = ConfigPayload (VDict d) \<longrightarrow> wf_items d \<Longrightarrow> wf_items config"
  by (auto simp: load_file_config_def split: option.splits config_file.splits pyval.splits)

lemma normalized_mode_fixed: "str_lower (strip (normalized_settings_mode req)) = normalized_settings_mode req"
  using literal_modes(1) by (simp add: normalized_settings_mode_def Let_def str_lower_strip)

section \<open>The claims\<close>

text \<open>
  C9. Precedence. The layers are read as defaults, file, environment, command line; when the merge succeeds,
  the value at every path of keys is the one of the last layer that has a value there, and a path no layer
  has stays absent.
\<close>
theorem settings_precedence:
  assumes "resolve_sources se req explicit h = Inr layers" and "\<forall>(_, d) \<in> set layers. wf_items d"
    and "merge_sources layers = Inr (m, prov)"
  shows "map fst layers = SOURCE_ORDER \<and> leaf m ks = layered_leaf layers ks"
proof -
  from assms(1) have "map fst layers = SOURCE_ORDER"
    by (auto simp: resolve_sources_def rbind_eq_Inr read_source_names)
  with assms(3) show ?thesis
    using merge_layers_leaf [OF assms(3) [unfolded merge_sources_def] assms(2)] by simp
qed

text \<open>
  C22. The cache. After a successful load with a handle, the entry is consistent and belongs to the fingerprint
  of the sources. Any later load whose sources resolve to the same layers under the same digest returns the
  same settings from the cache and leaves the entry alone, whatever its request, its environment, its root hint
  and the path of its config file are. A load that starts with a desynchronised entry never serves it: if it
  succeeds it is fresh, reports the integrity error and leaves a consistent entry with the fresh settings.
\<close>
theorem settings_cache_life:
  assumes "load_startup_settings se req h explicit (Some c) = (Inr r, cache')"
    and "resolve_sources se' req' explicit' h' = resolve_sources se req explicit h"
    and "se_sha256 se' = se_sha256 se" and "se_json_text se' = se_json_text se"
  shows "(\<exists>e. cache' = Some (Some e) \<and> \<not> detect_cache_desync e \<and> ce_fingerprint e = lr_fingerprint r \<and>
      ce_settings e = Some (lr_settings r)) \<and>
    load_startup_settings se' req' h' explicit' cache' = (Inr (cache_hit (lr_settings r) (lr_fingerprint r)), cache') \<and>
    (\<forall>old. c = Some old \<longrightarrow> detect_cache_desync old \<longrightarrow> \<not> lr_cache_hit r \<and> lr_cache_integrity_error r \<and>
      (\<exists>layers. resolve_sources se req explicit h = Inr layers \<and>
         fresh_settings se req h (lr_fingerprint r) layers = Inr (lr_settings r, lr_provenance r)))"
proof -
  have fp: "compute_fingerprint se' layers = compute_fingerprint se layers" for layers
    using assms(3, 4) by (simp add: compute_fingerprint_def)
  from assms(1) show ?thesis
  proof (cases rule: load_fresh_or_hit)
    case (1 layers f)
    then show ?thesis
      using load_startup_settings_eq [OF assms(2) [THEN trans, OF 1(1)] fp [THEN trans, OF 1(2)] refl, of cache'] by auto
  next
    case (2 layers f)
    then show ?thesis
      using load_startup_settings_eq [OF assms(2) [THEN trans, OF 2(1)] fp [THEN trans, OF 2(2)] refl, of cache']
      by (auto simp: detect_cache_desync_def)
  qed
qed

lemma loaded_ok:
  assumes "load_startup_settings se req h explicit cache = (Inr r, cache')"
    and "\<forall>e s. cache = Some (Some e) \<longrightarrow> ce_settings e = Some s \<longrightarrow> settings_ok s"
  shows "settings_ok (lr_settings r) \<and> (\<forall>e s. cache' = Some (Some e) \<longrightarrow> ce_settings e = Some s \<longrightarrow> settings_ok s) \<and>
    (\<forall>t. ys_api_token (st_sync (lr_settings r)) \<noteq> None \<longrightarrow>
       lr_redacted_settings r = to_redacted_dict (lr_settings r\<lparr>st_sync := (st_sync (lr_settings r))\<lparr>ys_api_token := Some t\<rparr>\<rparr>))"
proof -
  have redacted: "to_redacted_dict s = to_redacted_dict (s\<lparr>st_sync := (st_sync s)\<lparr>ys_api_token := Some t\<rparr>\<rparr>)"
    if "ys_api_token (st_sync s) \<noteq> None" for s t
    using that by (auto simp: to_redacted_dict_def)
  from assms(1) show ?thesis
  proof (cases rule: load_fresh_or_hit)
    case (1 layers fp)
    then have "lr_redacted_settings r = to_redacted_dict (lr_settings r)" by (metis cache_hit_def settings_load_result.select_convs(1, 4))
    with 1 assms(2) redacted show ?thesis by auto
  next
    case (2 layers fp)
    with fresh_settings_ok [OF 2(3)] redacted show ?thesis by auto
  qed
qed

text \<open>
  What a load returns. Whether it is fresh or from a cache whose entry is well formed, the settings have
  their tokens in the enumerations, non-negative numbers and non-empty plugin ids; the entry left in the cache
  is well formed too, and the redacted form of the result does not depend on the token, only on there being one.
\<close>
theorem loaded_settings_ok:
  assumes "load_startup_settings se req h explicit cache = (Inr r, cache')"
    and "\<forall>e s. cache = Some (Some e) \<longrightarrow> ce_settings e = Some s \<longrightarrow> settings_ok s"
  shows "settings_ok (lr_settings r) \<and> (\<forall>e s. cache' = Some (Some e) \<longrightarrow> ce_settings e = Some s \<longrightarrow> settings_ok s) \<and>
    (\<forall>t. ys_api_token (st_sync (lr_settings r)) \<noteq> None \<longrightarrow>
       lr_redacted_settings r = to_redacted_dict (lr_settings r\<lparr>st_sync := (st_sync (lr_settings r))\<lparr>ys_api_token := Some t\<rparr>\<rparr>))"
  by (rule loaded_ok [OF assms])

text \<open>
  C10. The mode of the request wins. Without explicit sources the command-line layer always holds the mode of
  the request, so a load that succeeds has that mode whatever the config file and the environment say; the
  mode \<open>v2\<close>, the only one the command line accepts, is \<open>headless\<close>.
\<close>
theorem request_mode_wins:
  assumes "\<forall>p d. se_config se p = ConfigPayload (VDict d) \<longrightarrow> wf_items d"
    and "\<nexists>d. get_or_none (sr_metadata req) ''settings_sources'' = VDict d"
    and "load_startup_settings se req h [] None = (Inr r, c)"
  shows "rs_mode (st_runtime (lr_settings r)) = normalized_settings_mode req \<and>
    (str_lower (strip (sr_mode req)) = ''v2'' \<longrightarrow> rs_mode (st_runtime (lr_settings r)) = ''headless'')"
proof -
  from assms(3) obtain layers fp where l: "resolve_sources se req [] h = Inr layers"
    and fresh: "fresh_settings se req h fp layers = Inr (lr_settings r, lr_provenance r)"
    by (cases rule: load_fresh_or_hit) auto
  from default_layers [OF l assms(2)] obtain config where config: "load_file_config se (get_or_none (sr_metadata req) ''config_path'') h = Inr config"
    and layers: "layers = [(''defaults'', default_settings (normalized_settings_mode req)), (''file'', config),
      (''environment'', load_environment_settings (se_environ se)), (''cli'', cli_settings req)]" by blast
  have "wf_items config" using config assms(1) by (rule file_config_wf)
  then have "\<forall>(_, d) \<in> set layers. wf_items d"
    by (simp add: layers default_settings_def load_environment_settings_def cli_settings_def Let_def split: option.split)
  moreover have "layered_leaf layers [''mode''] = Some (VStr (normalized_settings_mode req))"
    by (simp add: layers cli_settings_def leaf_Cons)
  ultimately have "rs_mode (st_runtime (lr_settings r)) = str_lower (strip (normalized_settings_mode req))"
    by (rule fresh_mode [OF fresh])
  then show ?thesis by (simp add: normalized_mode_fixed) (simp add: normalized_settings_mode_def)
qed

section \<open>A concrete load\<close>

definition sample_env :: settings_env where
  "sample_env = \<lparr>se_conv = sample_conv, se_paths = \<lparr>pe_resolve = (\<lambda>p. p), pe_cwd = ''/w''\<rparr>, se_sha256 = (\<lambda>_. ''f''),
     se_json_text = (\<lambda>_. ''{}''), se_config = (\<lambda>_. ConfigMissing), se_environ = []\<rparr>"

definition sample_request :: settings_request where
  "sample_request = \<lparr>sr_mode = ''headless'', sr_profile = None, sr_metadata = []\<rparr>"

definition sample_sources :: "settings_source dict" where
  "sample_sources = [(''defaults'', SourceValue sample_raw)]"

definition sample_layers :: "(string \<times> mapping) list" where
  "sample_layers = [(''defaults'', [(''runtime_mode'', VStr '' Headless ''), (''paths'', VDict [(''root'', VStr ''.'')]),
       (''plugins'', VDict [(''pc_name'', VStr ''PC-1''), (''device_plugins'', VList [VStr ''Psa_Horiba'', VStr '' sem ''])])]),
     (''file'', []), (''environment'', []), (''cli'', [])]"

definition sample_settings :: "string \<Rightarrow> startup_settings" where
  "sample_settings dir =
     \<lparr>st_runtime = \<lparr>rs_mode = ''headless'', rs_profile = None, rs_loop_mode = ''oneshot'', rs_poll_interval_seconds = 1,
        rs_idle_timeout_seconds = None, rs_max_runtime_seconds = None\<rparr>,
      st_paths = \<lparr>ps_root = dir, ps_watch = dir @ ''/incoming'', ps_dest = dir @ ''/processed'', ps_staging = dir @ ''/tmp''\<rparr>,
      st_naming = \<lparr>ns_prefix = ''DPOST'', ns_policy = ''prefix_only''\<rparr>,
      st_ingestion = \<lparr>is_retry_limit = 3, is_retry_delay_seconds = 1\<rparr>,
      st_sync = \<lparr>ys_backend = ''noop'', ys_api_token = None\<rparr>, st_ui_backend = ''headless'',
      st_plugins = \<lparr>pp_pc_name = Some ''pc-1'', pp_device_plugins = [''psa_horiba'', ''sem'']\<rparr>,
      st_source_fingerprint = Some ''f''\<rparr>"

lemma sample_from_raw:
  "from_raw sample_conv (se_paths sample_env) sample_validated None (Some ''f'') = Inr (sample_settings ''/w'')"
  "from_raw sample_conv (se_paths sample_env) sample_validated (Some ''/v'') (Some ''f'') = Inr (sample_settings ''/v'')"
  by code_simp+

lemma sample_resolved: "resolve_sources se req sample_sources h = Inr sample_layers"
  by (simp add: resolve_sources_def sample_sources_def SOURCE_ORDER_def read_source_def sample_raw_def sample_layers_def)

lemma sample_fingerprint: "compute_fingerprint sample_env sample_layers = Inr ''f''"
  by (simp add: compute_fingerprint_def sample_layers_def sample_env_def)

lemma sample_merge:
  "merge_sources sample_layers = Inr (snd (hd sample_layers),
     [(''runtime_mode'', ''defaults''), (''paths'', ''defaults''), (''plugins'', ''defaults'')])"
  by (simp add: merge_sources_def sample_layers_def Let_def)

lemma sample_root_hint: "resolve_settings_root_hint sample_env sample_request h = h"
  by (simp add: resolve_settings_root_hint_def config_path_of_def sample_request_def get_or_none_def dict_get_or_def)

lemma sample_fresh:
  assumes "h = None \<and> dir = ''/w'' \<or> h = Some ''/v'' \<and> dir = ''/v''"
  shows "fresh_settings sample_env sample_request h ''f'' sample_layers = Inr (sample_settings dir,
     [(''runtime_mode'', ''defaults''), (''paths'', ''defaults''), (''plugins'', ''defaults'')])"
proof -
  have raw: "VDict (snd (hd sample_layers)) = sample_raw" by (simp add: sample_layers_def sample_raw_def)
  have cv: "se_conv sample_env = sample_conv" by (simp add: sample_env_def)
  from assms show ?thesis
    unfolding fresh_settings_def sample_merge map_error_def sum.case rbind_simps prod.case raw cv sample_raw_validated
      sample_root_hint
    by (auto simp: sample_from_raw)
qed

definition sample_result :: "string \<Rightarrow> settings_load_result" where
  "sample_result dir = \<lparr>lr_settings = sample_settings dir,
     lr_provenance = [(''runtime_mode'', ''defaults''), (''paths'', ''defaults''), (''plugins'', ''defaults'')], lr_cache_hit = False,
     lr_redacted_settings = to_redacted_dict (sample_settings dir), lr_cache_integrity_error = False, lr_fingerprint = ''f''\<rparr>"

definition sample_entry :: settings_cache_entry where
  "sample_entry = \<lparr>ce_fingerprint = ''f'', ce_settings = Some (sample_settings ''/w''), ce_settings_fingerprint = Some ''f''\<rparr>"

lemma sample_load:
  "load_startup_settings sample_env sample_request None sample_sources (Some None) =
     (Inr (sample_result ''/w''), Some (Some sample_entry))"
  "load_startup_settings sample_env sample_request (Some ''/v'') sample_sources None = (Inr (sample_result ''/v''), None)"
  unfolding load_startup_settings_eq [OF sample_resolved sample_fingerprint refl]
  by (simp_all add: sample_fresh sample_result_def sample_entry_def sample_settings_def)

definition layered_sources :: "settings_source dict" where
  "layered_sources =
     [(''cli'', SourceValue (VDict [(''profile'', VStr ''lab'')])),
      (''file'', SourceValue (VDict [(''profile'', VStr ''bench''), (''ui'', VDict [(''backend'', VStr ''desktop'')])])),
      (''defaults'', SourceCall (\<lambda>_. Inr (VDict [(''profile'', VStr ''default''),
         (''ui'', VDict [(''backend'', VStr ''headless''), (''theme'', VStr ''dark'')])])))]"

definition layered_layers :: "(string \<times> mapping) list" where
  "layered_layers =
     [(''defaults'', [(''profile'', VStr ''default''), (''ui'', VDict [(''backend'', VStr ''headless''), (''theme'', VStr ''dark'')])]),
      (''file'', [(''profile'', VStr ''bench''), (''ui'', VDict [(''backend'', VStr ''desktop'')])]),
      (''environment'', []), (''cli'', [(''profile'', VStr ''lab'')])]"

lemma layered_resolved: "resolve_sources sample_env sample_request layered_sources None = Inr layered_layers"
  by (simp add: resolve_sources_def layered_sources_def SOURCE_ORDER_def read_source_def layered_layers_def)

lemma layered_merge:
  "merge_sources layered_layers = Inr
     ([(''profile'', VStr ''lab''), (''ui'', VDict [(''backend'', VStr ''desktop''), (''theme'', VStr ''dark'')])],
      [(''profile'', ''cli''), (''ui'', ''defaults''), (''ui.backend'', ''file'')])"
  by (simp add: merge_sources_def layered_layers_def Let_def)

lemma settings_precedence_witness:
  "map fst layered_layers = SOURCE_ORDER \<and> layered_leaf layered_layers [''ui'', ''backend''] = Some (VStr ''desktop'')"
  using settings_precedence [OF layered_resolved _ layered_merge, of "[''ui'', ''backend'']"]
  by (simp add: layered_layers_def leaf_def)

text \<open>Another process environment, another request with a config file elsewhere.\<close>

definition other_env :: settings_env where
  "other_env = sample_env\<lparr>se_environ := [(''PC_NAME'', ''lab'')]\<rparr>"

definition other_request :: settings_request where
  "other_request = \<lparr>sr_mode = ''desktop'', sr_profile = None, sr_metadata = [(''config_path'', VStr ''/other/dpost.json'')]\<rparr>"

lemma settings_cache_life_witness:
  "load_startup_settings other_env other_request (Some ''/v'') sample_sources (Some (Some sample_entry)) =
     (Inr (cache_hit (sample_settings ''/w'') ''f''), Some (Some sample_entry))"
  using settings_cache_life [OF sample_load(1), of other_env other_request sample_sources "Some ''/v''"]
  by (simp add: sample_resolved sample_result_def other_env_def)

lemma loaded_settings_ok_witness: "settings_ok (sample_settings ''/v'')"
  using loaded_settings_ok [OF sample_load(2)] by (simp add: sample_result_def)

text \<open>A config file that asks for the desktop, and a request that comes from the command line.\<close>

definition v2_env :: settings_env where
  "v2_env = sample_env\<lparr>se_config := (\<lambda>_. ConfigPayload (VDict [(''mode'', VStr ''desktop''),
     (''ui'', VDict [(''backend'', VStr ''desktop'')])]))\<rparr>"

definition v2_request :: settings_request where
  "v2_request = \<lparr>sr_mode = ''v2'', sr_profile = None, sr_metadata = [(''config_path'', VStr ''dpost.json'')]\<rparr>"

definition v2_merged :: mapping where
  "v2_merged =
     [(''mode'', VStr ''headless''), (''profile'', VStr ''default''), (''paths'', VDict [(''root'', VStr ''.'')]),
      (''ui'', VDict [(''backend'', VStr ''desktop'')]), (''sync'', VDict [(''backend'', VStr ''noop'')]),
      (''ingestion'', VDict [(''retry_limit'', VInt 3), (''retry_delay_seconds'', VFloat 1)]),
      (''naming'', VDict [(''prefix'', VStr ''DPOST''), (''policy'', VStr ''prefix_only'')]),
      (''plugins'', VDict [(''pc_name'', VNone), (''device_plugins'', VList [])])]"

definition v2_validated :: mapping where
  "v2_validated = settings_payload (VStr ''default'') (VStr ''oneshot'') (VFloat 1) VNone VNone
     (VStr ''.'', VStr ''incoming'', VStr ''processed'', VStr ''tmp'') (VStr ''desktop'') (VStr ''noop'', VNone)
     (VInt 3, VFloat 1) (VStr ''DPOST'', VStr ''prefix_only'') (VNone, VList []) (VStr ''headless'')"

lemma v2_template:
  "normalize_aliases v2_merged = Inr v2_merged" "merge_with_template v2_merged = Inr v2_validated"
   by (simp_all add: normalize_aliases_def ALIAS_TO_CANONICAL_def resolve_alias_def merge_with_template_def merge_field_def
      merge_nested_dict_def CANONICAL_TEMPLATE_def SETTINGS_FIELDS_def settings_payload_def v2_merged_def v2_validated_def)

lemma v2_tokens: "lower_token cv (VStr ''default'') = ''default''" "lower_token cv (VStr ''desktop'') = ''desktop''"
  "lower_token cv (VStr ''oneshot'') = ''oneshot''" "lower_token cv (VStr ''headless'') = ''headless''"
  "lower_token cv (VStr ''noop'') = ''noop''" "lower_token cv (VStr ''prefix_only'') = ''prefix_only''"
  unfolding lower_token_VStr by code_simp+

lemma v2_checked: "validate_raw_settings cv (VDict v2_merged) = Inr v2_validated"
proof -
  have root: "strip ''.'' \<noteq> []" by code_simp
  show ?thesis
    by (simp add: validate_raw_settings_def v2_template)
      (simp add: v2_validated_def required_payload [THEN iffD2] normalize_payload coerce_non_negative_float_def
        coerce_optional_non_negative_float_def normalize_device_plugins_def v2_tokens enums_payload [THEN iffD2]
        validate_constraints_def payload_get root)
qed

definition v2_layers :: "(string \<times> mapping) list" where
  "v2_layers = [(''defaults'', default_settings ''headless''),
     (''file'', [(''mode'', VStr ''desktop''), (''ui'', VDict [(''backend'', VStr ''desktop'')])]),
     (''environment'', []), (''cli'', [(''mode'', VStr ''headless'')])]"

lemma v2_mode: "normalized_settings_mode v2_request = ''headless''"
  by code_simp

lemma v2_file: "load_file_config v2_env (VStr ''dpost.json'') None =
    Inr [(''mode'', VStr ''desktop''), (''ui'', VDict [(''backend'', VStr ''desktop'')])]"
  by code_simp

lemma v2_resolved: "resolve_sources v2_env v2_request [] None = Inr v2_layers"
proof -
  have meta: "get_or_none (sr_metadata v2_request) ''config_path'' = VStr ''dpost.json''"
    "get_or_none (sr_metadata v2_request) ''settings_sources'' = VNone" "sr_profile v2_request = None"
    by (simp_all add: v2_request_def get_or_none_def dict_get_or_def)
  have environ: "load_environment_settings (se_environ v2_env) = []"
    by (simp add: v2_env_def sample_env_def load_environment_settings_def split_env_plugin_ids_def dict_get_or_def strip_def
        lstrip_def rstrip_def)
  show ?thesis
    by (simp add: resolve_sources_def default_sources_from_request_def meta v2_file v2_mode environ SOURCE_ORDER_def
        read_source_def v2_layers_def)
qed

lemma v2_merge: "\<exists>prov. merge_sources v2_layers = Inr (v2_merged, prov)"
  by (simp add: merge_sources_def v2_layers_def default_settings_def v2_merged_def Let_def)

lemma v2_from_raw: "\<exists>s. from_raw sample_conv (se_paths sample_env) v2_validated (resolve_settings_root_hint v2_env v2_request None) (Some ''f'') = Inr s"
proof -
  have "\<not> isl (from_raw sample_conv (se_paths sample_env) v2_validated (resolve_settings_root_hint v2_env v2_request None) (Some ''f''))"
    by code_simp
  then show ?thesis by (metis isl_def sum.exhaust)
qed

lemma v2_load: "\<exists>r. load_startup_settings v2_env v2_request None [] None = (Inr r, None)"
proof -
  obtain prov where m: "merge_sources v2_layers = Inr (v2_merged, prov)" using v2_merge by blast
  obtain s where s: "from_raw sample_conv (se_paths sample_env) v2_validated (resolve_settings_root_hint v2_env v2_request None) (Some ''f'') = Inr s"
    using v2_from_raw by blast
  have env: "se_conv v2_env = sample_conv" "se_paths v2_env = se_paths sample_env" by (simp_all add: v2_env_def sample_env_def)
  have "fresh_settings v2_env v2_request None ''f'' v2_layers = Inr (s, prov)"
    by (simp add: fresh_settings_def m map_error_def v2_checked env s)
  moreover have "compute_fingerprint v2_env v2_layers = Inr ''f''"
    by (simp add: compute_fingerprint_def v2_layers_def default_settings_def v2_env_def sample_env_def)
  ultimately show ?thesis
    using load_startup_settings_eq [OF v2_resolved _ refl, of "''f''" None] by simp
qed

lemma request_mode_wins_witness:
  "\<exists>r. load_startup_settings v2_env v2_request None [] None = (Inr r, None) \<and> rs_mode (st_runtime (lr_settings r)) = ''headless''"
proof -
  obtain r where r: "load_startup_settings v2_env v2_request None [] None = (Inr r, None)" using v2_load by blast
  have "rs_mode (st_runtime (lr_settings r)) = normalized_settings_mode v2_request"
    by (rule request_mode_wins [OF _ _ r, THEN conjunct1])
      (auto simp: v2_env_def v2_request_def get_or_none_def dict_get_or_def)
  with r show ?thesis by (simp add: v2_mode)
qed

end
