(* ===== verification/Startup_Dependencies_Correct.thy ===== *)
theory Startup_Dependencies_Correct
  imports Startup_Dependencies Settings_Load Plugin_Host_Correct Composition_Correct
begin

text \<open>
  The startup dependencies: settings a load returns always resolve, but for a missing sync token, to
  factories for every port the composition requires and to a valid startup context, and the plugin host is
  always activated on a profile its plugins know.
\<close>

section \<open>The dependencies of loaded settings\<close>

lemma literal_tokens:
  "str_lower (strip ''noop'') = ''noop''" "str_lower (strip ''kadi'') = ''kadi''" "str_lower (strip ''builtin'') = ''builtin''"
  "str_lower (strip ''structured'') = ''structured''" "str_lower (strip ''filesystem'') = ''filesystem''"
  "str_lower (strip ''v2'') = ''v2''"
  by code_simp+

lemma token_cases:
  "m \<in> {''headless'', ''desktop''} \<Longrightarrow> lower_token cv (VStr m) = m"
  "s \<in> {''noop'', ''kadi''} \<Longrightarrow> lower_token cv (VStr s) = s"
  by (auto simp: lower_token_VStr literal_modes literal_tokens)

lemma payload_mode:
  assumes "settings_ok s"
  shows "resolve_mode cv (to_dependency_payload s) = Inr (rs_mode (st_runtime s))"
proof -
  from assms have m: "rs_mode (st_runtime s) \<in> {''headless'', ''desktop''}" by (simp add: settings_ok_def fields_ok_def)
  then show ?thesis by (simp add: resolve_mode_def to_dependency_payload_def dict_get_or_def token_cases(1) Let_def)
qed

definition loaded_backends :: "startup_settings \<Rightarrow> string dict" where
  "loaded_backends s = [(''ui'', st_ui_backend s), (''sync'', ys_backend (st_sync s)), (''plugins'', ''builtin''),
     (''observability'', ''structured''), (''storage'', ''filesystem'')]"

lemma payload_backends:
  assumes "settings_ok s"
  shows "resolve_backend_tokens cv (to_dependency_payload s) = Inr (loaded_backends s)"
proof -
  from assms have t: "st_ui_backend s \<in> {''headless'', ''desktop''}" "ys_backend (st_sync s) \<in> {''noop'', ''kadi''}"
    by (simp_all add: settings_ok_def fields_ok_def)
  have fixed: "lower_token cv (VStr ''builtin'') = ''builtin''" "lower_token cv (VStr ''structured'') = ''structured''"
    "lower_token cv (VStr ''filesystem'') = ''filesystem''"
    by (simp_all add: lower_token_VStr literal_tokens)
  have "get_or_none (to_dependency_payload s) ''backends'' = VDict [(''ui'', VStr (st_ui_backend s)), (''sync'', VStr (ys_backend (st_sync s))),
         (''plugins'', VStr ''builtin''), (''observability'', VStr ''structured''), (''storage'', VStr ''filesystem'')]"
    by (simp add: to_dependency_payload_def get_or_none_def dict_get_or_def)
  then show ?thesis
    using t
    by (simp add: resolve_backend_tokens_def BACKEND_FAMILIES_def normalize_backend_token_def dict_get_or_def
        token_cases fixed loaded_backends_def Let_def)
qed

lemma loaded_backend [simp]:
  "backend (loaded_backends s) ''ui'' = st_ui_backend s" "backend (loaded_backends s) ''sync'' = ys_backend (st_sync s)"
  "backend (loaded_backends s) ''plugins'' = ''builtin''" "backend (loaded_backends s) ''observability'' = ''structured''"
  "backend (loaded_backends s) ''storage'' = ''filesystem''"
  by (simp_all add: backend_def loaded_backends_def dict_get_or_def)

definition sync_token_missing :: "dependency_env \<Rightarrow> startup_settings \<Rightarrow> bool" where
  "sync_token_missing de s \<longleftrightarrow> ys_backend (st_sync s) = ''kadi'' \<and> strip (dict_get_or (de_environ de) ''KADI_API_TOKEN'' []) = [] \<and>
     (case ys_api_token (st_sync s) of None \<Rightarrow> True | Some t \<Rightarrow> strip t = [])"

lemma requirements:
  "validate_backend_requirements (loaded_backends s) (de_environ de) (to_dependency_payload s) = Inr () \<longleftrightarrow> \<not> sync_token_missing de s"
proof -
  have "sync_entry (to_dependency_payload s) ''api_token'' =
      (case ys_api_token (st_sync s) of None \<Rightarrow> None | Some t \<Rightarrow> if strip t = [] then None else Some (strip t))"
    by (simp add: sync_entry_def to_dependency_payload_def get_or_none_def dict_get_or_def opt_value_def split: option.split)
  then show ?thesis
    by (auto simp: validate_backend_requirements_def resolve_sync_api_token_def sync_token_missing_def Let_def raise_if_eq_Inr
        split: option.splits if_splits)
qed

lemma loaded_dependencies:
  assumes "settings_ok s" and "\<not> sync_token_missing de s"
  obtains deps :: "('f dependency_factory, 'w) startup_dependencies"
  where "resolve_startup_dependencies de (to_dependency_payload s) [] = Inr deps"
    and "set DEFAULT_REQUIRED_PORTS \<subseteq> fst ` set (sd_factories deps)"
    and "sd_selected_backends deps = loaded_backends s" and "sd_cleanup deps = None"
proof -
  from assms(1) have c: "validate_mode_backend_compatibility (rs_mode (st_runtime s)) (loaded_backends s) = Inr ()"
    and y: "ys_backend (st_sync s) = ''noop'' \<or> ys_backend (st_sync s) = ''kadi''"
    by (auto simp: validate_mode_backend_compatibility_def settings_ok_def fields_ok_def raise_if_eq_Inr)
  have r: "validate_backend_requirements (loaded_backends s) (de_environ de) (to_dependency_payload s) = Inr ()"
    using assms(2) requirements by blast
  obtain f where f: "sync_factory_builder (de_conv de) (ys_backend (st_sync s)) (to_dependency_payload s) (de_environ de) =
      (Inr f :: dependency_error + 'f dependency_factory)"
    using y by (auto simp: sync_factory_builder_def)
  show ?thesis
    by (rule that, unfold resolve_startup_dependencies_def Let_def payload_mode [OF assms(1)] payload_backends [OF assms(1)] rbind_simps
        c r loaded_backend observability_factory_builder_def storage_factory_builder_def event_sink_factory_builder_def
        plugins_factory_builder_def f simp_thms if_False, rule refl)
      (simp_all add: DEFAULT_REQUIRED_PORTS_def)
qed

lemma loaded_context_valid:
  assumes "settings_ok s" and deps: "set DEFAULT_REQUIRED_PORTS \<subseteq> fst ` set (sd_factories deps)"
      "sd_selected_backends deps = loaded_backends s"
    and launch: "str_lower (strip (lm_requested_mode launch)) = ''v2'' \<or> str_lower (strip (lm_requested_mode launch)) = rs_mode (st_runtime s)"
  shows "validate_startup_context cv (Some (VStr (rs_mode (st_runtime s)))) deps launch = Inr ()"
proof -
  from assms(1) have m: "rs_mode (st_runtime s) \<in> {''headless'', ''desktop''}" "rs_mode (st_runtime s) = ''desktop'' \<longrightarrow> st_ui_backend s = ''desktop''"
    by (simp_all add: settings_ok_def fields_ok_def)
  have ports: "sd_factories deps \<noteq> []" "map_of (sd_factories deps) ''event_sink'' \<noteq> None" "map_of (sd_factories deps) ''ui'' \<noteq> None"
    using deps(1) by (auto simp: DEFAULT_REQUIRED_PORTS_def map_of_eq_None_iff)
  have ui: "str_lower (strip ''desktop'') = ''desktop''" by (rule literal_modes(2))
  have mode: "resolve_context_mode cv (Some (VStr (rs_mode (st_runtime s)))) launch = Inr (rs_mode (st_runtime s))"
    using m(1) by (auto simp: resolve_context_mode_def token_cases Let_def)
  from launch m(1) obtain lm where lm: "normalize_launch_mode cv launch = Inr lm" "lm = ''v2'' \<or> lm = rs_mode (st_runtime s)"
    by (auto simp: normalize_launch_mode_def Let_def)
  show ?thesis
    using ports m lm by (auto simp: validate_startup_context_def mode deps(2) Let_def ui raise_if_eq_Inr)
qed

text \<open>
  C19. Loaded settings start up. Settings a load returns are resolved unless the Kadi backend is selected with
  no token in the environment or the settings, and then exactly that error is raised. Otherwise every port
  the composition requires has a factory, whatever the factories make, and the startup context is valid for
  the mode \<open>v2\<close> of the command line and for the mode of the settings.
\<close>
theorem loaded_settings_start:
  assumes "settings_ok s"
  shows "if sync_token_missing de s
    then \<exists>m. resolve_startup_dependencies de (to_dependency_payload s) [] =
      (Inl (DependencyResolutionError m) :: dependency_error + ('f dependency_factory, 'w) startup_dependencies)
    else \<exists>deps :: ('f dependency_factory, 'w) startup_dependencies.
      resolve_startup_dependencies de (to_dependency_payload s) [] = Inr deps \<and>
      validate_required_bindings (map (\<lambda>(p, f). (p, realize f)) (sd_factories deps)) DEFAULT_REQUIRED_PORTS = Inr () \<and>
      (\<forall>launch. str_lower (strip (lm_requested_mode launch)) = ''v2'' \<or>
         str_lower (strip (lm_requested_mode launch)) = rs_mode (st_runtime s) \<longrightarrow>
         validate_startup_context cv (Some (VStr (rs_mode (st_runtime s)))) deps launch = Inr ())"
proof (cases "sync_token_missing de s")
  case True
  from assms have c: "validate_mode_backend_compatibility (rs_mode (st_runtime s)) (loaded_backends s) = Inr ()"
    by (auto simp: validate_mode_backend_compatibility_def settings_ok_def fields_ok_def raise_if_eq_Inr)
  have "validate_backend_requirements (loaded_backends s) (de_environ de) (to_dependency_payload s) \<noteq> Inr ()"
    using True requirements by blast
  then obtain m where "validate_backend_requirements (loaded_backends s) (de_environ de) (to_dependency_payload s) = Inl (DependencyResolutionError m)"
    unfolding validate_backend_requirements_def raise_if_def by (auto split: if_splits)
  with True show ?thesis
    by (simp add: resolve_startup_dependencies_def payload_mode [OF assms] payload_backends [OF assms] c Let_def)
next
  case False
  from loaded_dependencies [OF assms False] obtain deps :: "('f dependency_factory, 'w) startup_dependencies"
    where d: "resolve_startup_dependencies de (to_dependency_payload s) [] = Inr deps"
      "set DEFAULT_REQUIRED_PORTS \<subseteq> fst ` set (sd_factories deps)" "sd_selected_backends deps = loaded_backends s" .
  have bound: "validate_required_bindings (map (\<lambda>(p, f). (p, realize f)) (sd_factories deps)) DEFAULT_REQUIRED_PORTS = Inr ()"
    using d(2) by (force simp: required_bound)
  with False d(1) loaded_context_valid [OF assms d(2, 3)] show ?thesis by auto
qed

definition sample_dependency_env :: dependency_env where
  "sample_dependency_env = \<lparr>de_conv = sample_conv, de_expand = (\<lambda>p. p), de_temp_root = ''/tmp/dpost_v2_runtime'',
     de_environ = []\<rparr>"

lemma sample_settings_ok: "settings_ok (sample_settings ''/v'')"
  by code_simp

lemma sample_token: "\<not> sync_token_missing sample_dependency_env (sample_settings ''/v'')"
  by (simp add: sync_token_missing_def sample_settings_def)

lemma loaded_settings_start_witness:
  "\<exists>deps :: (unit dependency_factory, unit) startup_dependencies.
     resolve_startup_dependencies sample_dependency_env (to_dependency_payload (sample_settings ''/v'')) [] = Inr deps \<and>
     validate_startup_context sample_conv (Some (VStr ''headless'')) deps
       \<lparr>lm_requested_mode = ''v2'', lm_requested_profile = None, lm_trace_id = ''t'', lm_process_id = 1,
        lm_boot_timestamp_utc = ''now''\<rparr> = Inr ()"
  using loaded_settings_start [OF sample_settings_ok, where ?'f = unit and ?'w = unit and de = sample_dependency_env
      and cv = sample_conv and realize = "\<lambda>_. io_return None"] sample_token
  by (auto simp: sample_settings_def literal_tokens)

section \<open>The plugin host\<close>

definition canonical_profiles :: "('w, 'p) plugin_descriptor list \<Rightarrow> bool" where
  "canonical_profiles ds \<longleftrightarrow> (\<forall>d \<in> set ds. \<forall>p \<in> set (pd_supported_profiles d). p \<noteq> [] \<and> str_lower (strip p) = p)"

definition profile_matches :: "string \<Rightarrow> ('w, 'p) plugin_descriptor \<Rightarrow> bool" where
  "profile_matches p d \<longleftrightarrow> pd_supported_profiles d = [] \<or> p \<in> set (pd_supported_profiles d)"

lemma canonical_strip: "str_lower (strip p) = p \<Longrightarrow> strip p = p \<and> str_lower p = p"
  by (metis str_lower_idem str_lower_strip strip_strip)

lemma nonblank_canonical:
  "\<forall>p \<in> set ps. p \<noteq> [] \<and> str_lower (strip p) = p \<Longrightarrow> nonblank_entries m (map VStr ps) = Inr ps"
  by (induction ps) (auto simp: nonblank_entries_def dest: canonical_strip)

lemma select_known_profile:
  fixes ct :: "('w, 'p) catalog"
  assumes "p \<noteq> []" and "str_lower (strip p) = p" and "normalize_known_profiles known ct = Inr ps" and "p \<in> set ps"
  obtains sel where "select_plugins_for_profile sha ct (VStr p) known [] [] = Inr sel"
    and "set (sr_device sel @ sr_pc sel) = pd_plugin_id ` {d \<in> set (ct_descriptors ct). profile_matches p d}"
proof -
  have n: "Plugin_Host.normalize_profile (VStr p) = Inr p" using assms(1, 2) canonical_strip [OF assms(2)] by (simp add: normalize_profile_def)
  have e: "nonblank_entries m [] = Inr []" for m by (simp add: nonblank_entries_def)
  have matches: "fst (selection_reason p [] [] d) = profile_matches p d" for d :: "('w, 'p) plugin_descriptor"
    by (simp add: selection_reason_def profile_matches_def)
  have split_family: "{d \<in> A. P d \<and> F d} \<union> {d \<in> A. P d \<and> \<not> F d} = {d \<in> A. P d}" for A :: "('w, 'p) plugin_descriptor set" and P F
    by blast
  from that show ?thesis
    unfolding select_plugins_for_profile_def n rbind_simps assms(3) e Let_def
    using assms(4) by (simp add: sorted_difference_def matches image_Un [symmetric] split_family)
qed

lemma make_host_no_profile_error: "make_plugin_host he ip ds w = (Inl e, w') \<Longrightarrow> e \<noteq> HostProfileError pe"
proof -
  have v: "validate_descriptor_contract he ip d w = (Inl e, w') \<Longrightarrow> e \<noteq> HostProfileError pe" for d w e w'
    by (auto simp: validate_descriptor_contract_def split: prod.splits sum.splits contract_error.splits if_splits)
  have m: "merge_descriptors he ip ds all w = (Inl e, w') \<Longrightarrow> e \<noteq> HostProfileError pe" for ds all w e w'
    by (induction ds arbitrary: all w) (auto dest: v split: prod.splits sum.splits if_splits)
  show "make_plugin_host he ip ds w = (Inl e, w') \<Longrightarrow> e \<noteq> HostProfileError pe"
    by (auto simp: make_plugin_host_def register_descriptors_def Let_def dest: m split: prod.splits sum.splits if_splits)
qed

lemma hooks_no_profile_error:
  "run_shutdown_hooks ct ids current w = (Inl (e, x), w') \<Longrightarrow> e \<noteq> HostProfileError pe"
  "run_activate_hooks ct profile ids current w = (Inl (e, x), w') \<Longrightarrow> e \<noteq> HostProfileError pe"
proof -
  show "run_shutdown_hooks ct ids current w = (Inl (e, x), w') \<Longrightarrow> e \<noteq> HostProfileError pe"
    by (induction ids arbitrary: current w) (auto split: sum.splits prod.splits export.splits)
  show "run_activate_hooks ct profile ids current w = (Inl (e, x), w') \<Longrightarrow> e \<noteq> HostProfileError pe"
    by (induction ids arbitrary: current w) (auto split: sum.splits prod.splits export.splits)
qed

lemma activated:
  assumes "activate_profile he profile known allow deny h w = (r, h', w')" and "host_ok h"
    and sel: "select_plugins_for_profile (he_sha256 he) (ph_catalog h) profile known allow deny = Inr sel"
  shows "r \<noteq> Inl (HostProfileError pe)" and "r = Inr sel' \<Longrightarrow> set (ph_active_plugin_ids h') = set (sr_device sel @ sr_pc sel)"
    and "host_ok h'" and "ph_catalog h' = ph_catalog h"
proof -
  show "r \<noteq> Inl (HostProfileError pe)"
    using assms(1) unfolding activate_profile_def sel by (auto simp: Let_def dest: hooks_no_profile_error split: prod.splits sum.splits)
  show "r = Inr sel' \<Longrightarrow> set (ph_active_plugin_ids h') = set (sr_device sel @ sr_pc sel)"
    using activate_ids [OF assms] by blast
qed (use activate_keeps [OF assms(1, 2)] in simp_all)

definition known_profiles_of :: "('w, 'p) plugin_descriptor list \<Rightarrow> string list" where
  "known_profiles_of ds = remdups (concat (map pd_supported_profiles ds))"

lemma plugin_profile_known:
  "known \<noteq> [] \<Longrightarrow> resolve_plugin_profile requested known \<in> set known"
  "requested = Some p \<Longrightarrow> p \<in> set known \<Longrightarrow> resolve_plugin_profile requested known = p"
proof -
  show "known \<noteq> [] \<Longrightarrow> resolve_plugin_profile requested known \<in> set known"
    by (auto simp: resolve_plugin_profile_def split: option.split) (metis hd_in_set length_sort list.size(3) length_0_conv set_sort)+
qed (simp add: resolve_plugin_profile_def)

lemma known_profile_activates:
  fixes ds :: "('w, 'p) plugin_descriptor list"
  assumes canon: "canonical_profiles ds" and host: "make_plugin_host he ip ds w = (Inr h, w')"
    and p: "p = resolve_plugin_profile requested (known_profiles_of ds)"
  obtains sel where "select_plugins_for_profile (he_sha256 he) (ph_catalog h) (VStr p)
      (if known_profiles_of ds = [] then None else Some (map VStr (known_profiles_of ds))) [] [] = Inr sel"
    and "set (sr_device sel @ sr_pc sel) = pd_plugin_id ` {d \<in> set ds. profile_matches p d}"
proof -
  have ds: "set (ct_descriptors (ph_catalog h)) = set ds" using make_plugin_host_ok [OF host] by (metis set_mset_mset)
  show ?thesis
  proof (cases "known_profiles_of ds = []")
    case True
    then have "p = ''default''" by (simp add: p resolve_plugin_profile_def split: option.split)
    moreover have "normalize_known_profiles None (ph_catalog h) = Inr [''default'']"
      using True ds by (auto simp: normalize_known_profiles_def known_profiles_of_def Let_def)
    moreover have "str_lower (strip ''default'') = ''default''" by code_simp
    ultimately show ?thesis
      using select_known_profile [of "''default''" None "ph_catalog h" "[''default'']" "he_sha256 he"] that True ds by auto
  next
    case False
    have in_known: "p \<in> set (known_profiles_of ds)" using plugin_profile_known(1) [OF False] p by simp
    have c: "\<forall>q \<in> set (known_profiles_of ds). q \<noteq> [] \<and> str_lower (strip q) = q"
      using canon by (auto simp: known_profiles_of_def canonical_profiles_def)
    then have l: "map str_lower (known_profiles_of ds) = known_profiles_of ds"
      by (intro map_idI) (use canonical_strip in blast)
    have "normalize_known_profiles (Some (map VStr (known_profiles_of ds))) (ph_catalog h) = Inr (known_profiles_of ds)"
      using False by (simp add: normalize_known_profiles_def nonblank_canonical [OF c] l)
    with select_known_profile [of p "Some (map VStr (known_profiles_of ds))" "ph_catalog h" "known_profiles_of ds" "he_sha256 he"]
    show ?thesis using that False c in_known ds by auto
  qed
qed

text \<open>
  C21. The plugin host always starts on a known profile. If discovery returns descriptors with canonical
  profiles, the plugins factory never fails for the profile; when it succeeds, the host has exactly the
  discovered plugins and exactly those that support the chosen profile, or any profile, are active. The
  requested profile is chosen when a plugin names it, and replaced by another one when none does.
\<close>
theorem plugins_factory_profile:
  assumes "discover w = (Inr found, w1)" and "canonical_profiles (dr_descriptors found)"
  shows "fst (plugins_factory he ip discover requested w) \<noteq> Inl (Inr (HostProfileError e)) \<and>
    (\<forall>host w2. plugins_factory he ip discover requested w = (Inr host, w2) \<longrightarrow>
       host_ok host \<and> mset (ct_descriptors (ph_catalog host)) = mset (dr_descriptors found) \<and>
       set (ph_active_plugin_ids host) = pd_plugin_id ` {d \<in> set (dr_descriptors found).
         profile_matches (resolve_plugin_profile requested (known_profiles_of (dr_descriptors found))) d}) \<and>
    (\<forall>p. requested = Some p \<longrightarrow> p \<in> set (known_profiles_of (dr_descriptors found)) \<longrightarrow>
       resolve_plugin_profile requested (known_profiles_of (dr_descriptors found)) = p)"
proof (cases "make_plugin_host he ip (dr_descriptors found) w1")
  case (Pair r w2)
  show ?thesis
  proof (cases r)
    case (Inl e')
    with Pair make_host_no_profile_error [of he ip "dr_descriptors found" w1 e' w2] assms(1) show ?thesis
      by (auto simp: plugins_factory_def plugin_profile_known(2))
  next
    case (Inr h)
    with Pair have m: "make_plugin_host he ip (dr_descriptors found) w1 = (Inr h, w2)" by simp
    obtain sel where sel: "select_plugins_for_profile (he_sha256 he) (ph_catalog h)
        (VStr (resolve_plugin_profile requested (known_profiles_of (dr_descriptors found))))
        (if known_profiles_of (dr_descriptors found) = [] then None else Some (map VStr (known_profiles_of (dr_descriptors found)))) [] [] = Inr sel"
      "set (sr_device sel @ sr_pc sel) = pd_plugin_id ` {d \<in> set (dr_descriptors found).
         profile_matches (resolve_plugin_profile requested (known_profiles_of (dr_descriptors found))) d}"
      using known_profile_activates [OF assms(2) m refl] .
    obtain r3 h3 w3 where a: "activate_profile he (VStr (resolve_plugin_profile requested (known_profiles_of (dr_descriptors found))))
        (if known_profiles_of (dr_descriptors found) = [] then None else Some (map VStr (known_profiles_of (dr_descriptors found)))) [] [] h w2 = (r3, h3, w3)"
      by (metis prod_cases3)
    note ok = make_plugin_host_ok [OF m]
    note finished = activated [OF a ok [THEN conjunct1] sel(1)]
    have factory: "plugins_factory he ip discover requested w = (case r3 of Inl e \<Rightarrow> Inl (Inr e) | Inr _ \<Rightarrow> Inr h3, w3)"
      unfolding plugins_factory_def assms(1) prod.case sum.case m Let_def known_profiles_of_def [symmetric] a
      by (simp split: sum.split)
    show ?thesis
      using finished ok sel(2) by (auto simp: factory plugin_profile_known(2) split: sum.splits)
  qed
qed

definition demo_found :: "(unit, string) discovery_result" where
  "demo_found = \<lparr>dr_descriptors = demo_descriptors, dr_import_errors = [], dr_manifest_errors = [], dr_skipped_modules = [],
     dr_fingerprint = []\<rparr>"

lemma demo_found_canonical: "canonical_profiles (dr_descriptors demo_found)"
  by code_simp

text \<open>A profile no plugin names is replaced by \<^verbatim>\<open>prod\<close>.\<close>

lemma plugins_factory_profile_witness:
  "\<exists>host w2. plugins_factory demo_host_env (\<lambda>_. True) (io_return demo_found) (Some ''lab'') () = (Inr host, w2) \<and>
     set (ph_active_plugin_ids host) = {''d2'', ''p1''}"
proof -
  have "case plugins_factory demo_host_env (\<lambda>_. True) (io_return demo_found) (Some ''lab'') () of (Inl _, _) \<Rightarrow> False | (Inr h0, w0) \<Rightarrow> True"
    by code_simp
  then obtain host w2 where h: "plugins_factory demo_host_env (\<lambda>_. True) (io_return demo_found) (Some ''lab'') () = (Inr host, w2)"
    by (rule run_outcomeE)
  have chosen: "resolve_plugin_profile (Some ''lab'') (known_profiles_of (dr_descriptors demo_found)) = ''prod''" by code_simp
  have found: "io_return demo_found () = (Inr demo_found, ())" by (simp add: io_return_def)
  from plugins_factory_profile [where discover = "io_return demo_found", OF found demo_found_canonical,
      of demo_host_env "\<lambda>_. True" "Some ''lab''"] h chosen
  have "set (ph_active_plugin_ids host) = pd_plugin_id ` {d \<in> set (dr_descriptors demo_found). profile_matches ''prod'' d}" by simp
  also have "\<dots> = set (map pd_plugin_id (filter (profile_matches ''prod'') (dr_descriptors demo_found)))" by simp
  also have "map pd_plugin_id (filter (profile_matches ''prod'') (dr_descriptors demo_found)) = [''d2'', ''p1'']" by code_simp
  finally show ?thesis using h by auto
qed

end
