(* ===== verification/Entrypoint.thy ===== *)
theory Entrypoint
  imports Bootstrap Startup_Dependencies_Correct Composed_App
begin

text \<open>
  The entry point (\<^verbatim>\<open>dpost_v2/__main__.py\<close>) and the default bootstrap it runs (\<^verbatim>\<open>run\<close> of
  \<^verbatim>\<open>application/startup/bootstrap.py\<close>): the options, the request, the execution of the runtime handle and
  the exit code. What \<^verbatim>\<open>argparse\<close> returns, the trace id and the environment are parameters; what is printed
  is not modelled.
\<close>

section \<open>The default bootstrap\<close>

fun service_error :: "settings_service_error \<Rightarrow> string \<times> string" where
  "service_error (SettingsSourceReadError m) = (''SettingsSourceReadError'', m)"
| "service_error (SettingsValidationError m) = (''SettingsValidationError'', m)"
| "service_error (SettingsMergeTypeError m) = (''SettingsMergeTypeError'', m)"

fun settings_exception :: "settings_raise \<Rightarrow> py_exception" where
  "settings_exception (RaisedSettings (SettingsNormalizationError m)) = plain_exception ''SettingsNormalizationError'' m"
| "settings_exception (RaisedSettings (SettingsPathError m)) = plain_exception ''SettingsPathError'' m"
| "settings_exception (RaisedSettings (SettingsRangeError m)) = plain_exception ''SettingsRangeError'' m"
| "settings_exception (RaisedSettings (SettingsShapeError m)) = plain_exception ''SettingsShapeError'' m"
| "settings_exception (RaisedSettings (SettingsPyError e)) = py_error_exception e"
| "settings_exception (RaisedPy e) = py_error_exception e"
| "settings_exception (RaisedUnicodeDecode m) = plain_exception ''UnicodeDecodeError'' m"

definition settings_request_of :: "bootstrap_request \<Rightarrow> settings_request" where
  "settings_request_of req = \<lparr>sr_mode = bq_mode req, sr_profile = bq_profile req, sr_metadata = bq_metadata req\<rparr>"

text \<open>The cache handle is part of the world.\<close>

definition default_load_settings ::
    "settings_env \<Rightarrow> string option \<Rightarrow> bootstrap_request \<Rightarrow> (settings_cache_entry option option \<times> 'w, py_exception, loaded) io" where
  "default_load_settings se root_hint req w =
     (let (r, cache) = load_startup_settings se (settings_request_of req) root_hint [] (fst w) in
      (case r of
         Inr l \<Rightarrow> Inr (LoadResult \<lparr>ld_is_success = True, ld_settings = Some (TypedSettings (lr_settings l)),
           ld_provenance = lr_provenance l, ld_fingerprint = Some (lr_fingerprint l), ld_failure = None\<rparr>)
       | Inl (ServiceFailure e) \<Rightarrow> Inr (LoadResult \<lparr>ld_is_success = False, ld_settings = None, ld_provenance = [],
           ld_fingerprint = None, ld_failure = Some (service_error e)\<rparr>)
       | Inl (Escaped e) \<Rightarrow> Inl (settings_exception e), (cache, snd w)))"

fun dependency_exception :: "dependency_error \<Rightarrow> py_exception" where
  "dependency_exception (DependencyResolutionError m) = (plain_exception ''DependencyResolutionError'' m)\<lparr>ex_is_runtime_error := True\<rparr>"
| "dependency_exception (DependencyBackendSelectionError m) =
     (plain_exception ''DependencyBackendSelectionError'' m)\<lparr>ex_is_runtime_error := True\<rparr>"
| "dependency_exception (DependencyImportError m) = (plain_exception ''DependencyImportError'' m)\<lparr>ex_is_runtime_error := True\<rparr>"
| "dependency_exception (DependencyCompatibilityError m) =
     (plain_exception ''DependencyCompatibilityError'' m)\<lparr>ex_is_runtime_error := True\<rparr>"

text \<open>The default load only returns typed settings, so the other objects never reach this step.\<close>

definition default_resolve_dependencies ::
    "dependency_env \<Rightarrow> settings_object \<Rightarrow> bootstrap_request \<Rightarrow> ('w, py_exception, ('f dependency_factory, 'w) startup_dependencies) io" where
  "default_resolve_dependencies de s req =
     (case s of
        TypedSettings t \<Rightarrow> io_lift (map_error dependency_exception (resolve_startup_dependencies de (to_dependency_payload t) []))
      | _ \<Rightarrow> io_raise (plain_exception ''AttributeError'' ''to_dependency_payload''))"

definition default_bootstrap_env ::
    "settings_env \<Rightarrow> dependency_env \<Rightarrow> string option \<Rightarrow> string \<Rightarrow> int \<Rightarrow>
     (('f dependency_factory, settings_cache_entry option option \<times> 'w) startup_context \<Rightarrow>
        (settings_cache_entry option option \<times> 'w, py_exception, ('h, settings_cache_entry option option \<times> 'w) composed) io) \<Rightarrow>
     ('h \<Rightarrow> ('f dependency_factory, settings_cache_entry option option \<times> 'w) startup_context \<Rightarrow>
        (settings_cache_entry option option \<times> 'w, py_exception, 'r) io) \<Rightarrow>
     (startup_event \<Rightarrow> (settings_cache_entry option option \<times> 'w, py_exception, unit) io) \<Rightarrow>
     ('f dependency_factory, 'h, 'r, settings_cache_entry option option \<times> 'w) bootstrap_env" where
  "default_bootstrap_env se de root_hint boot pid compose launch emit =
     \<lparr>be_conv = se_conv se, be_boot_timestamp = boot, be_process_id = pid,
      be_load_settings = default_load_settings se root_hint,
      be_resolve_dependencies = default_resolve_dependencies de,
      be_compose_runtime = compose, be_launch_runtime = launch, be_emit_event = emit\<rparr>"

section \<open>The command line\<close>

text \<open>What \<^verbatim>\<open>parse_args\<close> returns.\<close>

record cli_arguments =
  ca_mode :: "string option"
  ca_profile :: "string option"
  ca_config :: "string option"
  ca_headless :: bool
  ca_dry_run :: bool

record cli_options =
  cl_mode :: string
  cl_profile :: "string option"
  cl_config_path :: "string option"
  cl_headless :: bool
  cl_dry_run :: bool

definition SUPPORTED_MODES :: "string list" where
  "SUPPORTED_MODES = [''v2'']"

definition RUNTIME_FAILURE_TERMINALS :: "string list" where
  "RUNTIME_FAILURE_TERMINALS = [''failed_terminal'', ''hard_timeout'']"

definition RUNTIME_SUCCESS_TERMINALS :: "string list" where
  "RUNTIME_SUCCESS_TERMINALS = [''end_of_stream'', ''cancelled'', ''soft_timeout'']"

definition normalized_env :: "string dict \<Rightarrow> string \<Rightarrow> string option" where
  "normalized_env env name =
     (case map_of env name of None \<Rightarrow> None | Some v \<Rightarrow> if strip v = [] then None else Some (strip v))"

text \<open>\<^verbatim>\<open>parsed or fallback\<close>: an empty string counts as absent.\<close>

definition or_else :: "string option \<Rightarrow> string option \<Rightarrow> string option" where
  "or_else v w = (case v of None \<Rightarrow> w | Some s \<Rightarrow> if s = [] then w else Some s)"

text \<open>\<open>Inl\<close> is the mode of the \<^verbatim>\<open>UnsupportedRuntimeModeError\<close>.\<close>

definition parse_cli :: "string dict \<Rightarrow> cli_arguments \<Rightarrow> string + cli_options" where
  "parse_cli env args =
     (let mode = (case or_else (ca_mode args) None of Some m \<Rightarrow> m | None \<Rightarrow> dict_get_or env ''DPOST_MODE'' ''v2'') in
      if mode \<notin> set SUPPORTED_MODES then Inl mode
      else Inr \<lparr>cl_mode = mode, cl_profile = or_else (ca_profile args) (normalized_env env ''DPOST_PROFILE''),
             cl_config_path = or_else (ca_config args) (normalized_env env ''DPOST_CONFIG''),
             cl_headless = ca_headless args, cl_dry_run = ca_dry_run args\<rparr>)"

definition build_bootstrap_request :: "string \<Rightarrow> cli_options \<Rightarrow> bootstrap_request" where
  "build_bootstrap_request trace_id o1 =
     \<lparr>bq_mode = cl_mode o1, bq_profile = cl_profile o1, bq_trace_id = trace_id,
      bq_metadata = [(''config_path'', opt_value (cl_config_path o1)), (''headless'', VBool (cl_headless o1)),
        (''dry_run'', VBool (cl_dry_run o1))]\<rparr>"

section \<open>The runtime handle\<close>

datatype base_exception = KeyboardInterrupt | Raised py_exception

text \<open>
  The handle as the entry point sees it. A result is its attribute \<^verbatim>\<open>terminal_reason\<close>, \<open>VNone\<close> when it has
  none; \<open>None\<close> is the result \<^verbatim>\<open>None\<close>.
\<close>

record 'w runtime_handle =
  rh_run :: "('w, base_exception, pyval option) io export"
  rh_shutdown :: "('w, base_exception, unit) io export"

definition resolve_terminal_reason :: "pyval \<Rightarrow> string option" where
  "resolve_terminal_reason v =
     (case v of VStr s \<Rightarrow> if strip s = [] then None else Some (str_lower (strip s)) | _ \<Rightarrow> None)"

definition exit_code_of :: "base_exception + pyval option \<Rightarrow> int" where
  "exit_code_of r =
     (case r of
        Inl _ \<Rightarrow> 1
      | Inr None \<Rightarrow> 1
      | Inr (Some v) \<Rightarrow>
          (case resolve_terminal_reason v of
             None \<Rightarrow> 1
           | Some why \<Rightarrow> if why \<in> set RUNTIME_FAILURE_TERMINALS then 1
                       else if why \<in> set RUNTIME_SUCCESS_TERMINALS then 0 else 1))"

text \<open>
  A shutdown attribute that is not callable raises outside the \<^verbatim>\<open>try\<close>. An interrupt of the shutdown escapes;
  another exception of it is dropped when the run itself raised.
\<close>

definition execute_runtime :: "'w runtime_handle \<Rightarrow> ('w, base_exception, int) io" where
  "execute_runtime h w =
     (case rh_run h of
        Callable run \<Rightarrow>
          (case (case rh_shutdown h of Missing \<Rightarrow> Some (io_return ()) | NotCallable \<Rightarrow> None | Callable f \<Rightarrow> Some f) of
             None \<Rightarrow> (Inl (Raised ((plain_exception ''RuntimeContractError'' ''runtime handle shutdown must be callable when set'')
                         \<lparr>ex_is_runtime_error := True\<rparr>)), w)
           | Some shutdown \<Rightarrow>
               (case run w of (r, w1) \<Rightarrow>
                (case shutdown w1 of
                   (Inl KeyboardInterrupt, w2) \<Rightarrow> (Inl KeyboardInterrupt, w2)
                 | (Inl (Raised _), w2) \<Rightarrow> (Inr (case r of Inl _ \<Rightarrow> exit_code_of r | Inr _ \<Rightarrow> 1), w2)
                 | (Inr _, w2) \<Rightarrow> (Inr (exit_code_of r), w2))))
      | _ \<Rightarrow> (Inr 1, w))"

text \<open>
  \<open>parsed\<close> is what the parser does: it exits with a code or returns the arguments; \<open>bootstrap\<close> is \<^verbatim>\<open>run\<close>. The
  result of a bootstrap is its handle, or \<open>None\<close> when it failed.
\<close>

definition main ::
    "string dict \<Rightarrow> string \<Rightarrow> int + cli_arguments \<Rightarrow> (bootstrap_request \<Rightarrow> ('w, base_exception, 'w runtime_handle option) io) \<Rightarrow>
     ('w, base_exception, int) io" where
  "main env trace_id parsed bootstrap w =
     (case parsed of
        Inl code \<Rightarrow> (Inr code, w)
      | Inr args \<Rightarrow>
          (case parse_cli env args of
             Inl _ \<Rightarrow> (Inr 2, w)
           | Inr options \<Rightarrow>
               (case bootstrap (build_bootstrap_request trace_id options) w of
                  (Inl _, w1) \<Rightarrow> (Inr 1, w1)
                | (Inr None, w1) \<Rightarrow> (Inr 1, w1)
                | (Inr (Some h), w1) \<Rightarrow> if cl_dry_run options then (Inr 0, w1) else execute_runtime h w1)))"

section \<open>The default bootstrap never fails its context\<close>

definition never_stops :: "('w \<Rightarrow> bool) \<Rightarrow> string \<Rightarrow> ('w, 'w stop, 'a) io \<Rightarrow> bool" where
  "never_stops J stage m \<longleftrightarrow> (\<forall>w e d hs w'. J w \<longrightarrow> m w \<noteq> (Inl (stage, e, d, hs), w'))"

lemma never_guarded:
  assumes "stage' \<noteq> stage \<or> (\<forall>w. \<exists>x w1. m w = (Inr x, w1))"
    and "\<And>x w w1. J w \<Longrightarrow> m w = (Inr x, w1) \<Longrightarrow> never_stops (\<lambda>_. True) stage (f x)"
  shows "never_stops J stage (io_bind (guarded stage' d hooks m) f)"
  unfolding never_stops_def
proof (intro allI impI)
  fix w e d' hs w'
  assume J: "J w"
  obtain q w1 where m: "m w = (q, w1)" by (rule prod.exhaust)
  show "io_bind (guarded stage' d hooks m) f w \<noteq> (Inl (stage, e, d', hs), w')"
  proof (cases q)
    case (Inl x)
    from assms(1) have "stage' \<noteq> stage" using m Inl by (metis Inl_Inr_False prod.inject)
    with m Inl show ?thesis by (simp add: io_bind_def guarded_def)
  next
    case (Inr x)
    with assms(2) [OF J] m have "never_stops (\<lambda>_. True) stage (f x)" by simp
    with m Inr show ?thesis by (simp add: io_bind_def guarded_def never_stops_def)
  qed
qed

definition cache_ok :: "settings_cache_entry option option \<Rightarrow> bool" where
  "cache_ok cache \<longleftrightarrow> (\<forall>e s. cache = Some (Some e) \<longrightarrow> ce_settings e = Some s \<longrightarrow> settings_ok s)"

lemma loaded_typed:
  assumes "cache_ok (fst w)"
    and "io_bind (default_load_settings se root_hint req) (\<lambda>l. io_lift (unwrap_settings l)) w = (Inr (s, prov, fp), w1)"
  obtains t where "s = TypedSettings t" "settings_ok t"
proof -
  obtain r c where l: "load_startup_settings se (settings_request_of req) root_hint [] (fst w) = (r, c)" by (rule prod.exhaust)
  show ?thesis
  proof (cases r)
    case (Inr res)
    with l assms(2) have "s = TypedSettings (lr_settings res)"
      by (simp add: default_load_settings_def io_bind_def unwrap_settings_def)
    moreover have "settings_ok (lr_settings res)"
      using loaded_ok [OF l [unfolded Inr] assms(1) [unfolded cache_ok_def]] by (rule conjunct1)
    ultimately show ?thesis by (rule that)
  next
    case (Inl e)
    with l assms(2) show ?thesis
      by (cases e) (auto simp: default_load_settings_def io_bind_def unwrap_settings_def split: prod.splits)
  qed
qed

lemma default_context:
  assumes "settings_ok t" and "default_resolve_dependencies de (TypedSettings t) req w = (Inr deps, w1)"
    and "str_lower (strip (lm_requested_mode launch)) = ''v2''"
  shows "\<exists>ctx. build_startup_context cv (TypedSettings t) deps launch = Inr ctx"
proof -
  from assms(2) have r: "resolve_startup_dependencies de (to_dependency_payload t) [] = Inr deps"
    by (simp add: default_resolve_dependencies_def map_error_eq)
  have "\<not> sync_token_missing de t"
  proof
    assume missing: "sync_token_missing de t"
    then have "validate_backend_requirements (loaded_backends t) (de_environ de) (to_dependency_payload t) \<noteq> Inr ()"
      using requirements by blast
    with r payload_mode [OF assms(1), of "de_conv de"] payload_backends [OF assms(1), of "de_conv de"] show False
      by (auto simp: resolve_startup_dependencies_def Let_def rbind_eq_Inr)
  qed
  from loaded_dependencies [OF assms(1) this] r have "set DEFAULT_REQUIRED_PORTS \<subseteq> fst ` set (sd_factories deps)"
      "sd_selected_backends deps = loaded_backends t" by (metis sum.inject(2))+
  from loaded_context_valid [OF assms(1) this] assms(3) show ?thesis
    by (simp add: build_startup_context_def mode_attribute_def)
qed

lemma default_never_context:
  assumes "str_lower (strip (bq_mode req)) = ''v2''"
  shows "never_stops (\<lambda>w. cache_ok (fst w)) ''context''
    (boot_phases (default_bootstrap_env se de root_hint boot pid compose launch emit) req)"
  unfolding boot_phases_def Let_def
  apply (rule never_guarded, simp)
  apply (simp add: default_bootstrap_env_def split: prod.split)
  apply (intro allI impI)
  apply (rule never_guarded, simp)
  apply hypsubst
  apply (erule (1) loaded_typed)
  apply hypsubst
  apply (rule never_guarded)
   apply (rule disjI2)
  subgoal for x w w1 x1 a b xa wa w1a t
    using default_context [of t de req wa xa w1a "\<lparr>lm_requested_mode = bq_mode req, lm_requested_profile = bq_profile req,
        lm_trace_id = bq_trace_id req, lm_process_id = pid, lm_boot_timestamp_utc = boot\<rparr>" "settings_env.se_conv se"] assms
    by (auto simp: map_error_def)
  apply (rule never_guarded, simp)
  apply (rule never_guarded, simp)
  apply (simp add: never_stops_def)
  done

text \<open>
  C20. The default bootstrap never fails at the context. With the mode \<open>v2\<close> and a cache that holds only
  well-formed settings, whatever the sources, the environment, the composition and the launch do, the
  settings that load and the dependencies they resolve to always make a valid startup context, so a failed
  bootstrap failed in its settings, its dependencies, its composition or its launch.
\<close>
theorem default_bootstrap_context:
  assumes "str_lower (strip (bq_mode req)) = ''v2''" and "cache_ok (fst w)"
    and "\<forall>ev v. fst (snd (emit ev v)) = fst v"
    and "run_bootstrap (default_bootstrap_env se de root_hint boot pid compose launch emit) req w = (Inr r, w')"
  shows "br_is_success r \<or> (\<exists>f. br_failure r = Some f \<and> sf_stage f \<noteq> ''context'')"
proof -
  let ?be = "default_bootstrap_env se de root_hint boot pid compose launch emit"
  obtain r0 w0 where e0: "be_emit_event ?be (startup_event_of req ''startup_started''
      (initialize_event_diagnostics req (be_boot_timestamp ?be)) []) w = (r0, w0)" by (rule prod.exhaust)
  then have "fst w0 = fst w" using assms(3) by (metis bootstrap_env.select_convs(8) default_bootstrap_env_def snd_conv)
  with assms(2) have c: "cache_ok (fst w0)" by simp
  from assms(4) e0 have r0: "r0 = Inr ()" by (cases r0) (auto simp: run_bootstrap_def io_bind_def)
  obtain q w1 where p: "boot_phases ?be req w0 = (q, w1)" by (rule prod.exhaust)
  show ?thesis
  proof (cases q)
    case (Inl s)
    obtain stage exc d hooks where s: "s = (stage, exc, d, hooks)" by (rule prod_cases4)
    from default_never_context [OF assms(1), unfolded never_stops_def] c p Inl s have "stage \<noteq> ''context''" by blast
    moreover have "br_failure r = Some \<lparr>sf_stage = stage, sf_error_type = ex_type_name exc, sf_message = ex_text exc\<rparr>"
      using assms(4) e0 r0 p Inl s
      by (auto simp: run_bootstrap_def build_failure_result_def io_bind_def split: prod.splits sum.splits)
    ultimately show ?thesis by simp
  next
    case (Inr y)
    with assms(4) e0 r0 p show ?thesis
      by (auto simp: run_bootstrap_def io_bind_def split: prod.splits sum.splits)
  qed
qed

section \<open>The exit code\<close>

text \<open>
  C24. The runtime is shut down once. Whatever a run does, the shutdown is called exactly once, after it, on
  the state it leaves; the exit code is 0 only when the shutdown returns and the run returned a result with
  one of the three successful terminal reasons.
\<close>
theorem runtime_shut_down_once:
  assumes "rh_run h = Callable run" and "rh_shutdown h = Callable shutdown"
  shows "snd (execute_runtime h w) = snd (shutdown (snd (run w))) \<and>
    (fst (execute_runtime h w) = Inr 0 \<longleftrightarrow> fst (shutdown (snd (run w))) = Inr () \<and>
       (\<exists>v why. fst (run w) = Inr (Some v) \<and> resolve_terminal_reason v = Some why \<and> why \<in> set RUNTIME_SUCCESS_TERMINALS))"
proof -
  obtain r w1 where run: "run w = (r, w1)" by (rule prod.exhaust)
  obtain q w2 where stop: "shutdown w1 = (q, w2)" by (rule prod.exhaust)
  have code: "exit_code_of r = 0 \<longleftrightarrow>
      (\<exists>v why. r = Inr (Some v) \<and> resolve_terminal_reason v = Some why \<and> why \<in> set RUNTIME_SUCCESS_TERMINALS)"
    by (auto simp: exit_code_of_def RUNTIME_SUCCESS_TERMINALS_def RUNTIME_FAILURE_TERMINALS_def split: sum.split option.split)
  show ?thesis
  proof (cases q)
    case (Inl e)
    then show ?thesis
      by (cases e; cases r) (simp_all add: execute_runtime_def assms run stop exit_code_of_def)
  next
    case (Inr u)
    with code show ?thesis by (simp add: execute_runtime_def assms run stop)
  qed
qed

text \<open>
  C23. The exit code of the application. Every terminal reason of a run of the application is one the entry
  point knows, so the run is never reported as a contract violation: the exit code is 1 exactly after a
  failed event that stopped the run or a hard timeout. Without stop-on-failure a run that reaches its end
  exits with 0 however many events failed.
\<close>
theorem app_run_exit_code:
  assumes "run_app p a = Some (Inr res, b)" and "app_seen_event_ids a = []"
  shows "let why = ar_terminal_reason res; code = exit_code_of (Inr (Some (VStr why))) in
    why \<in> set (RUNTIME_FAILURE_TERMINALS @ RUNTIME_SUCCESS_TERMINALS) \<and> resolve_terminal_reason (VStr why) = Some why \<and>
    (code = 1 \<longleftrightarrow> why = ''failed_terminal'' \<or> why = ''hard_timeout'') \<and> (code = 0 \<or> code = 1) \<and>
    (ap_stop_on_failure p \<longrightarrow> code = 0 \<longrightarrow> rn_failed (ar_counts res) = 0)"
  using assms(1)
proof (cases rule: run_app_cases)
  case (finished a1 c why a2)
  have "counted p 0 (c, Some why) a2" by (rule fresh_loop_counts [OF assms(2) finished(1, 2)])
  moreover have "ar_counts res = c" "ar_terminal_reason res = why"
    using finished(3) by (auto simp: io_bind_eq)
  ultimately have why: "ar_terminal_reason res \<in> {''end_of_stream'', ''soft_timeout'', ''hard_timeout'', ''cancelled'', ''failed_terminal''}"
    and stop: "ap_stop_on_failure p \<Longrightarrow> rn_failed (ar_counts res) = (if ar_terminal_reason res = ''failed_terminal'' then 1 else 0)"
    unfolding counted_def reason_ok_def by (simp_all del: insert_iff)
  have known: "resolve_terminal_reason (VStr ''end_of_stream'') = Some ''end_of_stream''"
    "resolve_terminal_reason (VStr ''soft_timeout'') = Some ''soft_timeout''"
    "resolve_terminal_reason (VStr ''hard_timeout'') = Some ''hard_timeout''"
    "resolve_terminal_reason (VStr ''cancelled'') = Some ''cancelled''"
    "resolve_terminal_reason (VStr ''failed_terminal'') = Some ''failed_terminal''"
    by code_simp+
  from why stop show ?thesis
    by (auto simp: known exit_code_of_def RUNTIME_FAILURE_TERMINALS_def RUNTIME_SUCCESS_TERMINALS_def Let_def)
qed (use fail_run_raises in fastforce)+

text \<open>
  The exit code of the program. It is 0 only if the parser exited with 0, or the options were valid, the
  bootstrap returned a handle, and either this is a dry run, which neither runs nor shuts down the runtime
  that was built, or the execution of the runtime gave 0; an unsupported mode always gives 2.
\<close>
theorem main_exit_code:
  "(main env trace_id parsed bootstrap w = (Inr 0, w') \<longleftrightarrow>
     parsed = Inl 0 \<and> w' = w \<or>
     (\<exists>args options h w1. parsed = Inr args \<and> parse_cli env args = Inr options \<and>
        bootstrap (build_bootstrap_request trace_id options) w = (Inr (Some h), w1) \<and>
        (if cl_dry_run options then w' = w1 else execute_runtime h w1 = (Inr 0, w')))) \<and>
   (case parse_cli env args of
      Inl m \<Rightarrow> main env trace_id (Inr args) bootstrap w = (Inr 2, w) \<and> m \<noteq> ''v2''
    | Inr options \<Rightarrow> normalized_settings_mode (settings_request_of (build_bootstrap_request trace_id options)) = ''headless'')"
proof -
  have headless: "cl_mode options = ''v2''" if "parse_cli env args = Inr options" for options
    using that by (auto simp: parse_cli_def SUPPORTED_MODES_def Let_def split: if_splits)
  have v2: "str_lower (strip ''v2'') = ''v2''" by (rule literal_tokens(6))
  have unsupported: "m \<noteq> ''v2''" if "parse_cli env args = Inl m" for m
    using that by (auto simp: parse_cli_def SUPPORTED_MODES_def Let_def split: if_splits)
  have zero: "main env trace_id (Inr args) bootstrap w = (Inr 0, w') \<longleftrightarrow>
      (\<exists>options h w1. parse_cli env args = Inr options \<and> bootstrap (build_bootstrap_request trace_id options) w = (Inr (Some h), w1) \<and>
        (if cl_dry_run options then w' = w1 else execute_runtime h w1 = (Inr 0, w')))" for args
  proof (cases "parse_cli env args")
    case (Inr options)
    obtain r w1 where r: "bootstrap (build_bootstrap_request trace_id options) w = (r, w1)" by (rule prod.exhaust)
    then consider e where "r = Inl e" | "r = Inr None" | h where "r = Inr (Some h)" by (metis not_Some_eq sum.exhaust)
    then show ?thesis by cases (use Inr r in \<open>auto simp: main_def\<close>)
  qed (simp add: main_def)
  have "main env trace_id parsed bootstrap w = (Inr 0, w') \<longleftrightarrow> parsed = Inl 0 \<and> w' = w" if "parsed = Inl code" for code
    using that by (auto simp: main_def)
  with zero show ?thesis
    by (cases parsed) (auto simp: main_def normalized_settings_mode_def settings_request_of_def build_bootstrap_request_def headless
        v2 unsupported Let_def split: sum.split)
qed

section \<open>Concrete runs\<close>

definition demo_default_env :: "(unit dependency_factory, unit, unit, settings_cache_entry option option \<times> unit) bootstrap_env" where
  "demo_default_env = default_bootstrap_env v2_env sample_dependency_env None ''2026'' 7
     (\<lambda>_. io_return \<lparr>co_runtime_handle = (), co_shutdown_all = (1, io_return ()), co_diagnostics = [], co_port_names = []\<rparr>)
     (\<lambda>_ _. io_return ()) (\<lambda>_. io_return ())"

definition demo_v2_request :: bootstrap_request where
  "demo_v2_request = \<lparr>bq_mode = ''v2'', bq_profile = None, bq_trace_id = ''t'', bq_metadata = [(''config_path'', VStr ''dpost.json'')]\<rparr>"

lemma default_bootstrap_context_witness:
  "\<exists>r w'. run_bootstrap demo_default_env demo_v2_request (None, ()) = (Inr r, w') \<and>
     (br_is_success r \<or> (\<exists>f. br_failure r = Some f \<and> sf_stage f \<noteq> ''context''))"
proof -
  have "\<exists>r w'. run_bootstrap demo_default_env demo_v2_request (None, ()) = (Inr r, w')"
    by (simp add: run_bootstrap_def build_failure_result_def io_bind_def demo_default_env_def default_bootstrap_env_def
        split: prod.split sum.split) (metis (full_types) old.unit.exhaust surj_pair)
  then obtain r w' where r: "run_bootstrap demo_default_env demo_v2_request (None, ()) = (Inr r, w')" by blast
  have "br_is_success r \<or> (\<exists>f. br_failure r = Some f \<and> sf_stage f \<noteq> ''context'')"
    by (rule default_bootstrap_context [OF _ _ _ r [unfolded demo_default_env_def]])
      (simp_all add: demo_v2_request_def literal_tokens cache_ok_def)
  with r show ?thesis by blast
qed

text \<open>A run that is interrupted is shut down all the same, and exits with 1.\<close>

lemma runtime_shut_down_once_witness:
  "\<exists>h :: nat runtime_handle. execute_runtime h 0 = (Inr 1, 3)"
proof -
  let ?h = "\<lparr>rh_run = Callable (\<lambda>w. (Inl KeyboardInterrupt, w + 1)), rh_shutdown = Callable (\<lambda>w. (Inr (), w + 2))\<rparr> :: nat runtime_handle"
  have "snd (execute_runtime ?h 0) = 3"
    using runtime_shut_down_once [of ?h "\<lambda>w. (Inl KeyboardInterrupt, w + 1)" "\<lambda>w. (Inr (), w + 2)" 0] by simp
  moreover have "fst (execute_runtime ?h 0) = Inr 1" by (simp add: execute_runtime_def exit_code_of_def)
  ultimately show ?thesis by (metis prod.collapse)
qed

lemma app_run_exit_code_witness:
  "\<exists>res b. run_app demo_app_ports demo_app = Some (Inr res, b) \<and>
     ar_terminal_reason res \<in> set (RUNTIME_FAILURE_TERMINALS @ RUNTIME_SUCCESS_TERMINALS)"
proof -
  obtain res b where r: "run_app demo_app_ports demo_app = Some (Inr res, b)" "rn_failed (ar_counts res) = 0"
    by (rule demo_app_returns)
  with app_run_exit_code [OF r(1) demo_app_fresh(2)] show ?thesis unfolding Let_def by blast
qed

end
