(* ===== verification/Spec2Isabelle.thy ===== *)
theory Spec2Isabelle
  imports Routing Prefix_Policy Identifiers Naming_Policy Staging Outcomes Local_Record Records_Service
    Session Event_Gate Engine App_Run Plugin_Calls Runtime_Event Composed_App Entrypoint
begin

text \<open>
  A verification library for dpost v2, the program under \<^verbatim>\<open>src/src/dpost_v2\<close>: an agent that watches a
  directory for the files of laboratory devices, decides which device plugin a file belongs to, moves it into
  a routed tree of directories, keeps a record of it in a SQLite store and reports it to a database.

  \<^bold>\<open>The parts and how they interact.\<close> \<^verbatim>\<open>__main__\<close> parses the options and runs the bootstrap. The bootstrap loads
  the settings, resolves the dependencies they select to one factory per port, builds the startup context,
  and composes the runtime: every factory makes its adapter, the adapters are coerced to the ports of the
  application, and the application is the run loop around an ingestion engine. The loop reads batches of
  events, gives each new one to the engine, emits the runtime events and keeps the session. The engine runs
  one event through the stages resolve, stabilize, route, transform, persist, post-persist; the failure
  policies turn what a stage raises into an outcome. The plugin host says which device plugins are active
  and makes the processors the resolve stage selects.

  \<^bold>\<open>The theories, in the order of the code.\<close>

  \<^item> \<^verbatim>\<open>Prelude\<close>, \<^verbatim>\<open>Paths\<close>, \<^verbatim>\<open>Io_Logic\<close>: what the components share. Python values are the datatype \<open>pyval\<close>, a
    dictionary is the list of its items in insertion order, \<^verbatim>\<open>strip\<close>, \<^verbatim>\<open>lower\<close>, \<^verbatim>\<open>split\<close> are on character lists
    (the case of the ASCII letters), \<^verbatim>\<open>int\<close> is unbounded as in Python and a float is a rational. A
    function that raises returns a sum, \<open>Inl\<close> the exception; one that also has effects is a computation over
    a world, \<open>'w \<Rightarrow> (exception + result) \<times> 'w\<close>, and \<^verbatim>\<open>Io_Logic\<close> is a Hoare logic for those.
  \<^item> \<^verbatim>\<open>domain/\<close>: \<^verbatim>\<open>Priority_Rules\<close>, \<^verbatim>\<open>Routing\<close> (\<^verbatim>\<open>routing/rules.py\<close>), \<^verbatim>\<open>Prefix_Policy\<close>, \<^verbatim>\<open>Identifiers\<close> and
    \<^verbatim>\<open>Naming_Policy\<close> (\<^verbatim>\<open>naming/\<close>), \<^verbatim>\<open>Staging\<close> and \<^verbatim>\<open>Outcomes\<close> (\<^verbatim>\<open>processing/\<close>), \<^verbatim>\<open>Local_Record\<close> (\<^verbatim>\<open>records/\<close>).
  \<^item> Records: \<^verbatim>\<open>Record_Store\<close> is the SQLite store as a map from ids to rows with a step relation of its
    operations and its contract (locale \<open>versioned_store\<close>, interpreted on the model), \<^verbatim>\<open>Records_Service\<close> the service over it.
  \<^item> Ingestion: \<^verbatim>\<open>Ingestion_State\<close>, \<^verbatim>\<open>Candidate\<close>, \<^verbatim>\<open>Processor_Factory\<close>, \<^verbatim>\<open>Force_Path\<close>, \<^verbatim>\<open>Event_Gate\<close>, \<^verbatim>\<open>Retry_Planner\<close>,
    \<^verbatim>\<open>Failure_Policies\<close> (the policies), \<^verbatim>\<open>Stages\<close> and \<^verbatim>\<open>Persist_Stage\<close> (the stages), \<^verbatim>\<open>Pipeline\<close> (the runner),
    \<^verbatim>\<open>Ingestion\<close> (the six stages on the runner), \<^verbatim>\<open>Engine\<close> (one event).
  \<^item> Runtime loop: \<^verbatim>\<open>Context\<close> and \<^verbatim>\<open>Events\<close> (\<^verbatim>\<open>application/contracts\<close>), \<^verbatim>\<open>Session\<close>, \<^verbatim>\<open>App\<close>, \<^verbatim>\<open>App_Correct\<close> and
    \<^verbatim>\<open>App_Run\<close> (\<^verbatim>\<open>application/runtime\<close>).
  \<^item> Plugins: \<^verbatim>\<open>Plugin_Contracts\<close> (contracts and discovery), \<^verbatim>\<open>Plugin_Host\<close>, \<^verbatim>\<open>Plugin_Host_Correct\<close>,
    \<^verbatim>\<open>Plugin_Calls\<close> (catalog, profile selection, host).
  \<^item> Composition (\<^verbatim>\<open>runtime/composition.py\<close>): \<^verbatim>\<open>Runtime_Records\<close>, \<^verbatim>\<open>Runtime_Select\<close>, \<^verbatim>\<open>Runtime_Engine\<close> are the
    closures the engine is wired with, \<^verbatim>\<open>Composition\<close> the bindings, the coercion to ports and the shutdown hook,
    \<^verbatim>\<open>Composed_App\<close> the default application; \<^verbatim>\<open>Runtime_Event\<close> is one event through all of it.
  \<^item> Startup: \<^verbatim>\<open>Settings_Schema\<close>, \<^verbatim>\<open>Settings\<close>, \<^verbatim>\<open>Settings_Service\<close> (\<^verbatim>\<open>application/startup/settings*.py\<close>),
    \<^verbatim>\<open>Startup_Dependencies\<close> (\<^verbatim>\<open>runtime/startup_dependencies.py\<close> and \<^verbatim>\<open>startup/context.py\<close>), \<^verbatim>\<open>Bootstrap\<close>
    (\<^verbatim>\<open>startup/bootstrap.py\<close>), \<^verbatim>\<open>Entrypoint\<close> (\<^verbatim>\<open>__main__.py\<close>).

  A theory \<^verbatim>\<open>X_Correct\<close> holds what is proved of \<^verbatim>\<open>X\<close>. A class is a record, an enumeration a datatype with the
  source's constructors, a function has its name in the source without the leading underscore.

  \<^bold>\<open>What the lemmas show.\<close>

  \<^item> Startup: the later layer of settings wins at every leaf; validation is sound and idempotent; a load
    returns well-formed settings and never the secret; loaded settings resolve to a factory for every
    required port and to a valid context; the plugin host starts on a known profile; the bootstrap logs
    its two events and cleans up exactly what it built; the runtime is shut down once and its terminal
    reasons map to the exit code. Some of these state a defect, for instance that no config file can select the
    desktop mode, or that the cache ignores the directory relative paths are resolved against.
  \<^item> Composition: the required ports are bound in their order or refused with the right error, the
    application gets every port of its protocol, the shutdown hook runs once, and the composed
    application keeps the invariants of the records.
  \<^item> Loop and engine: a run closes its session and returns, each event reaches the engine at most once, its
    outcome is consistent with the state of the pipeline, and no failure of a stage escapes the policies.
  \<^item> Records: revisions grow by one, an update with another revision is refused, what was saved is read
    back; after a restart the first save of a known record fails (shown as it is).
  \<^item> Plugins: discovery keeps only valid plugins, the host's active plugins are those selected, and only an
    active device plugin makes a processor.
  \<^item> Policies and domain: bounds of the retry delay, soundness and uniqueness of routing, the life
    cycles of staging and records as step relations, round trips of names, identifiers and outcomes.

  The shared contracts are locales, interpreted on the models: \<open>guarded_calls\<close> (operations that keep an
  invariant and relate states by a preorder; sessions, contexts, the plugin host, the runtime's records),
  \<open>app_invariant\<close> (what the collaborators of the run loop keep), \<open>versioned_store\<close> (the record store) and
  \<open>ranked_rules\<close> (a priority decides: routing, prefix policy, processor factory).

  \<^bold>\<open>Loops and termination.\<close> Loops over data are structural recursions. The merge of the settings
  terminates by the size of the incoming layer. The pipeline runner is bounded by the number of steps the code itself
  allows, and is shown to return. The run loop may run for ever in continuous mode: it is a partial
  function into \<open>option\<close>, and its return is a theorem for the one-shot mode and for a signalled
  cancellation. No fuel is used.

  \<^bold>\<open>Parameters.\<close> The clock, the file system, \<^verbatim>\<open>Path.resolve\<close>, \<^verbatim>\<open>repr\<close>, the parsing of numbers, \<^verbatim>\<open>json\<close>, the SHA-256
  digest, \<^verbatim>\<open>argparse\<close> and the code of the plugins are arguments of the definitions that use them.

  \<^bold>\<open>Not modelled.\<close> Infrastructure that is only input and output: the logger, metrics and tracing
  (\<^verbatim>\<open>infrastructure/observability\<close>), the UI adapters, the HTTP client of the Kadi adapter, the local file
  operations (the model takes their results), the built-in device and PC plugins with their file
  formats, and the facade \<^verbatim>\<open>runtime_services.py\<close>. The first generation of the program, \<^verbatim>\<open>ipat_watchdog\<close>, which
  v2 replaces, the build scripts, the tests and the documentation. In the modelled parts: interrupts
  of the process other than at the entry point, the texts of hints and of log messages, the fields of
  diagnostics that nothing reads, NaN and infinite floats, and letters outside ASCII.
\<close>

end
